(* ===== verification/Prelude.thy ===== *)
theory Prelude
  imports Main "HOL-Library.Word" "HOL-Library.Monad_Syntax"
begin

text \<open>
  Shared vocabulary of the development: the C integer types, the error numbers, the
  little-endian byte encodings of the HAL structures, bounded byte buffers, and the
  arithmetic of ring positions. A result of type \<open>'a option\<close> means throughout:
  \<open>Some\<close> is the value the C code computes, \<open>None\<close> is undefined behaviour (a NULL or
  dangling dereference, an access outside a buffer).
\<close>

unbundle bit_operations_syntax

section \<open>C integers and error numbers\<close>

type_synonym u8 = "8 word"
type_synonym u16 = "16 word"
type_synonym u32 = "32 word"
type_synonym u64 = "64 word"

text \<open>The positive error numbers of \<^verbatim>\<open>errno.h\<close> the driver returns negated; an \<open>int\<close>
  result of 0 is success.\<close>

abbreviation (input) ENOENT :: int where "ENOENT \<equiv> 2"
abbreviation (input) EIO :: int where "EIO \<equiv> 5"
abbreviation (input) E2BIG :: int where "E2BIG \<equiv> 7"
abbreviation (input) EAGAIN :: int where "EAGAIN \<equiv> 11"
abbreviation (input) ENOMEM :: int where "ENOMEM \<equiv> 12"
abbreviation (input) EFAULT :: int where "EFAULT \<equiv> 14"
abbreviation (input) EBUSY :: int where "EBUSY \<equiv> 16"
abbreviation (input) EINVAL :: int where "EINVAL \<equiv> 22"
abbreviation (input) ETIME :: int where "ETIME \<equiv> 62"
abbreviation (input) EOPNOTSUPP :: int where "EOPNOTSUPP \<equiv> 95"

named_theorems layout_simps \<open>layouts of the HAL structures\<close>
named_theorems frame_simps \<open>what an update leaves unchanged\<close>
named_theorems safe_intros \<open>introduction rules for "this call does not fault"\<close>

section \<open>Little-endian fields\<close>

definition le16 :: "u16 \<Rightarrow> u8 list" where
  "le16 x = [ucast x, ucast (drop_bit 8 x)]"

definition le32 :: "u32 \<Rightarrow> u8 list" where
  "le32 x = [ucast x, ucast (drop_bit 8 x), ucast (drop_bit 16 x), ucast (drop_bit 24 x)]"

definition le64 :: "u64 \<Rightarrow> u8 list" where
  "le64 x = le32 (ucast x) @ le32 (ucast (drop_bit 32 x))"

fun of_le16 :: "u8 list \<Rightarrow> u16" where
  "of_le16 [a, b] = ucast a OR push_bit 8 (ucast b)"
| "of_le16 _ = 0"

fun of_le32 :: "u8 list \<Rightarrow> u32" where
  "of_le32 [a, b, c, d] =
     ucast a OR push_bit 8 (ucast b) OR push_bit 16 (ucast c) OR push_bit 24 (ucast d)"
| "of_le32 _ = 0"

lemma length_le16 [simp]: "length (le16 x) = 2"
  by (simp add: le16_def)

lemma length_le32 [simp]: "length (le32 x) = 4"
  by (simp add: le32_def)

lemma length_le64 [simp]: "length (le64 x) = 8"
  by (simp add: le64_def)

lemma of_le16_le16 [simp]: "of_le16 (le16 x) = x"
  unfolding le16_def of_le16.simps
  by (rule bit_word_eqI) (auto simp: bit_simps)

lemma of_le32_le32 [simp]: "of_le32 (le32 x) = x"
proof (rule bit_word_eqI)
  fix n assume "n < LENGTH(32)"
  then have n: "n < 32" by simp
  consider "n < 8" | "8 \<le> n \<and> n < 16" | "16 \<le> n \<and> n < 24" | "24 \<le> n \<and> n < 32"
    using n by linarith
  then show "bit (of_le32 (le32 x)) n = bit x n"
    by cases (auto simp: le32_def bit_simps)
qed

section \<open>Bounded byte buffers\<close>

text \<open>\<open>memcpy\<close> into and out of a buffer: an access that does not fit is undefined.\<close>

definition buf_write :: "u8 list \<Rightarrow> nat \<Rightarrow> u8 list \<Rightarrow> u8 list option" where
  "buf_write buf off bs =
     (if off + length bs \<le> length buf
      then Some (take off buf @ bs @ drop (off + length bs) buf) else None)"

definition buf_read :: "u8 list \<Rightarrow> nat \<Rightarrow> nat \<Rightarrow> u8 list option" where
  "buf_read buf off n = (if off + n \<le> length buf then Some (take n (drop off buf)) else None)"

lemma buf_write_length: "buf_write buf off bs = Some buf' \<Longrightarrow> length buf' = length buf"
  by (auto simp: buf_write_def split: if_splits)

lemma buf_write_Some [safe_intros]:
  "off + length bs \<le> length buf \<Longrightarrow> \<exists>buf'. buf_write buf off bs = Some buf'"
  by (simp add: buf_write_def)

lemma buf_read_Some_length: "buf_read buf off n = Some bs \<Longrightarrow> length bs = n"
  by (auto simp: buf_read_def split: if_splits)

lemma buf_read_append_pre:
  "off = length pre \<Longrightarrow> n = length bs \<Longrightarrow> buf_read (pre @ bs @ post) off n = Some bs"
  by (simp add: buf_read_def)

text \<open>The interface the message handlers rely on: a store of bytes with a read and a write.\<close>

locale byte_store =
  fixes rd :: "'b \<Rightarrow> nat \<Rightarrow> nat \<Rightarrow> u8 list option"
    and wr :: "'b \<Rightarrow> nat \<Rightarrow> u8 list \<Rightarrow> 'b option"
    and size_of :: "'b \<Rightarrow> nat"
  assumes wr_defined: "off + length bs \<le> size_of b \<Longrightarrow> \<exists>b'. wr b off bs = Some b'"
    and wr_size: "wr b off bs = Some b' \<Longrightarrow> size_of b' = size_of b"
    and rd_wr_same: "wr b off bs = Some b' \<Longrightarrow> rd b' off (length bs) = Some bs"
    and rd_wr_other: "wr b off bs = Some b' \<Longrightarrow>
           off' + n \<le> off \<or> off + length bs \<le> off' \<Longrightarrow> rd b' off' n = rd b off' n"
begin

lemma wr_wr_rd_first:
  assumes "wr b off bs = Some b1" and "wr b1 off' bs' = Some b2"
    and "off + length bs \<le> off' \<or> off' + length bs' \<le> off"
  shows "rd b2 off (length bs) = Some bs"
  using rd_wr_same [OF assms(1)] rd_wr_other [OF assms(2), of off "length bs"] assms(3)
  by auto

lemma wr_wr_defined:
  assumes "off + length bs \<le> size_of b" and "off' + length bs' \<le> size_of b"
  shows "\<exists>b1 b2. wr b off bs = Some b1 \<and> wr b1 off' bs' = Some b2"
  using wr_defined [OF assms(1)] wr_size wr_defined [of off' bs'] assms(2) by metis

end

lemma buf_read_write_other:
  assumes w: "buf_write buf off bs = Some buf'"
    and d: "off' + n \<le> off \<or> off + length bs \<le> off'"
  shows "buf_read buf' off' n = buf_read buf off' n"
proof -
  from w have fits: "off + length bs \<le> length buf"
    and buf': "buf' = take off buf @ bs @ drop (off + length bs) buf"
    by (auto simp: buf_write_def split: if_splits)
  have "take n (drop off' buf') = take n (drop off' buf)" if "off' + n \<le> length buf"
  proof (rule nth_equalityI)
    show "length (take n (drop off' buf')) = length (take n (drop off' buf))"
      using buf_write_length [OF w] that by simp
    fix i assume "i < length (take n (drop off' buf'))"
    then have i: "i < n" by simp
    show "take n (drop off' buf') ! i = take n (drop off' buf) ! i"
      using d i fits that by (auto simp: buf' nth_append)
  qed
  then show ?thesis
    using buf_write_length [OF w] by (simp add: buf_read_def)
qed

interpretation mem: byte_store buf_read buf_write length
proof unfold_locales
  fix off and bs buf :: "u8 list"
  assume "off + length bs \<le> length buf"
  then show "\<exists>b'. buf_write buf off bs = Some b'"
    by (rule buf_write_Some)
next
  fix off and bs b b' :: "u8 list"
  assume w: "buf_write b off bs = Some b'"
  then show "length b' = length b" by (rule buf_write_length)
  from w show "buf_read b' off (length bs) = Some bs"
    by (auto simp: buf_write_def buf_read_def split: if_splits)
next
  fix off off' n and bs b b' :: "u8 list"
  assume "buf_write b off bs = Some b'" and "off' + n \<le> off \<or> off + length bs \<le> off'"
  then show "buf_read b' off' n = buf_read b off' n" by (rule buf_read_write_other)
qed

section \<open>Positions on a ring of \<open>n\<close> blocks\<close>

text \<open>\<open>(t + j) mod n\<close> is the \<open>j\<close>-th block after block \<open>t\<close>; within one lap the blocks differ.\<close>

lemma ring_pos_split:
  assumes "t < n" and "j \<le> (n :: nat)"
  shows "(t + j) mod n = (if t + j < n then t + j else t + j - n)"
  using assms by (auto simp: mod_if)

lemma ring_pos_inj:
  assumes "(t + i) mod n = (t + j) mod n" and "t < n" and "i < n" and "j < n"
  shows "i = (j :: nat)"
  using assms by (auto simp: ring_pos_split split: if_splits)

lemma ring_pos_Suc: "(t + Suc j) mod n = Suc ((t + j) mod n) mod (n :: nat)"
  by (simp add: mod_Suc_eq)

lemma ring_pos_even:
  assumes "even n" and "even t"
  shows "even ((t + j) mod n) = even (j :: nat)"
  using assms by (simp add: dvd_mod_iff)

end
