(* ===== verification/Hal_Types.thy ===== *)
theory Hal_Types
  imports Prelude
begin

text \<open>
  The part of \<^verbatim>\<open>hal.h\<close> the driver's own structures use: the enumerations with the numbers
  the firmware sees, the rate table of a station, the SSID, and the message types of the
  requests the driver sends with the type of the response to each. An \<^verbatim>\<open>enum\<close> is a datatype
  with the constructors the driver uses and a function to its number; an enum is four bytes
  wide on the target.
\<close>

section \<open>Enumerations\<close>

datatype wcn36xx_hal_sys_mode =
    HAL_SYS_MODE_NORMAL | HAL_SYS_MODE_LEARN | HAL_SYS_MODE_SCAN | HAL_SYS_MODE_PROMISC
  | HAL_SYS_MODE_SUSPEND_LINK | HAL_SYS_MODE_ROAM_SCAN | HAL_SYS_MODE_ROAM_SUSPEND_LINK

primrec sys_mode_val :: "wcn36xx_hal_sys_mode \<Rightarrow> u32" where
  "sys_mode_val HAL_SYS_MODE_NORMAL = 0"
| "sys_mode_val HAL_SYS_MODE_LEARN = 1"
| "sys_mode_val HAL_SYS_MODE_SCAN = 2"
| "sys_mode_val HAL_SYS_MODE_PROMISC = 3"
| "sys_mode_val HAL_SYS_MODE_SUSPEND_LINK = 4"
| "sys_mode_val HAL_SYS_MODE_ROAM_SCAN = 5"
| "sys_mode_val HAL_SYS_MODE_ROAM_SUSPEND_LINK = 6"

datatype phy_chan_bond_state =
    PHY_SINGLE_CHANNEL_CENTERED | PHY_DOUBLE_CHANNEL_LOW_PRIMARY
  | PHY_DOUBLE_CHANNEL_CENTERED | PHY_DOUBLE_CHANNEL_HIGH_PRIMARY

primrec chan_bond_val :: "phy_chan_bond_state \<Rightarrow> u32" where
  "chan_bond_val PHY_SINGLE_CHANNEL_CENTERED = 0"
| "chan_bond_val PHY_DOUBLE_CHANNEL_LOW_PRIMARY = 1"
| "chan_bond_val PHY_DOUBLE_CHANNEL_CENTERED = 2"
| "chan_bond_val PHY_DOUBLE_CHANNEL_HIGH_PRIMARY = 3"

datatype sta_rate_mode =
  STA_TAURUS | STA_TITAN | STA_POLARIS | STA_11b | STA_11bg | STA_11a | STA_11n | STA_11ac

primrec rate_mode_val :: "sta_rate_mode \<Rightarrow> u32" where
  "rate_mode_val STA_TAURUS = 0"
| "rate_mode_val STA_TITAN = 1"
| "rate_mode_val STA_POLARIS = 2"
| "rate_mode_val STA_11b = 3"
| "rate_mode_val STA_11bg = 4"
| "rate_mode_val STA_11a = 5"
| "rate_mode_val STA_11n = 6"
| "rate_mode_val STA_11ac = 7"

datatype ani_ed_type =
    WCN36XX_HAL_ED_NONE | WCN36XX_HAL_ED_WEP40 | WCN36XX_HAL_ED_WEP104 | WCN36XX_HAL_ED_TKIP
  | WCN36XX_HAL_ED_CCMP | WCN36XX_HAL_ED_WPI | WCN36XX_HAL_ED_AES_128_CMAC

primrec ed_type_val :: "ani_ed_type \<Rightarrow> u32" where
  "ed_type_val WCN36XX_HAL_ED_NONE = 0"
| "ed_type_val WCN36XX_HAL_ED_WEP40 = 1"
| "ed_type_val WCN36XX_HAL_ED_WEP104 = 2"
| "ed_type_val WCN36XX_HAL_ED_TKIP = 3"
| "ed_type_val WCN36XX_HAL_ED_CCMP = 4"
| "ed_type_val WCN36XX_HAL_ED_WPI = 5"
| "ed_type_val WCN36XX_HAL_ED_AES_128_CMAC = 6"

datatype ani_key_direction =
  WCN36XX_HAL_TX_ONLY | WCN36XX_HAL_RX_ONLY | WCN36XX_HAL_TX_RX | WCN36XX_HAL_TX_DEFAULT

primrec key_direction_val :: "ani_key_direction \<Rightarrow> u32" where
  "key_direction_val WCN36XX_HAL_TX_ONLY = 0"
| "key_direction_val WCN36XX_HAL_RX_ONLY = 1"
| "key_direction_val WCN36XX_HAL_TX_RX = 2"
| "key_direction_val WCN36XX_HAL_TX_DEFAULT = 3"

datatype wcn36xx_hal_link_state =
    WCN36XX_HAL_LINK_IDLE_STATE | WCN36XX_HAL_LINK_PREASSOC_STATE
  | WCN36XX_HAL_LINK_POSTASSOC_STATE | WCN36XX_HAL_LINK_AP_STATE | WCN36XX_HAL_LINK_IBSS_STATE

primrec link_state_val :: "wcn36xx_hal_link_state \<Rightarrow> u32" where
  "link_state_val WCN36XX_HAL_LINK_IDLE_STATE = 0"
| "link_state_val WCN36XX_HAL_LINK_PREASSOC_STATE = 1"
| "link_state_val WCN36XX_HAL_LINK_POSTASSOC_STATE = 2"
| "link_state_val WCN36XX_HAL_LINK_AP_STATE = 3"
| "link_state_val WCN36XX_HAL_LINK_IBSS_STATE = 4"

datatype wcn36xx_hal_bss_type =
    WCN36XX_HAL_INFRASTRUCTURE_MODE | WCN36XX_HAL_INFRA_AP_MODE | WCN36XX_HAL_IBSS_MODE
  | WCN36XX_HAL_BTAMP_STA_MODE | WCN36XX_HAL_BTAMP_AP_MODE | WCN36XX_HAL_AUTO_MODE

primrec bss_type_val :: "wcn36xx_hal_bss_type \<Rightarrow> u32" where
  "bss_type_val WCN36XX_HAL_INFRASTRUCTURE_MODE = 0"
| "bss_type_val WCN36XX_HAL_INFRA_AP_MODE = 1"
| "bss_type_val WCN36XX_HAL_IBSS_MODE = 2"
| "bss_type_val WCN36XX_HAL_BTAMP_STA_MODE = 3"
| "bss_type_val WCN36XX_HAL_BTAMP_AP_MODE = 4"
| "bss_type_val WCN36XX_HAL_AUTO_MODE = 5"

datatype wcn36xx_hal_nw_type =
    WCN36XX_HAL_11A_NW_TYPE | WCN36XX_HAL_11B_NW_TYPE
  | WCN36XX_HAL_11G_NW_TYPE | WCN36XX_HAL_11N_NW_TYPE

primrec nw_type_val :: "wcn36xx_hal_nw_type \<Rightarrow> u32" where
  "nw_type_val WCN36XX_HAL_11A_NW_TYPE = 0"
| "nw_type_val WCN36XX_HAL_11B_NW_TYPE = 1"
| "nw_type_val WCN36XX_HAL_11G_NW_TYPE = 2"
| "nw_type_val WCN36XX_HAL_11N_NW_TYPE = 3"

datatype wcn36xx_power_state = WCN36XX_FULL_POWER | WCN36XX_BMPS

section \<open>Rates and SSID\<close>

record wcn36xx_hal_supported_rates =
  op_rate_mode :: sta_rate_mode
  dsss_rates :: "u16 list"
  ofdm_rates :: "u16 list"
  legacy_rates :: "u16 list"
  rates_reserved :: u16
  enhanced_rate_bitmap :: u32
  supported_mcs_set :: "u8 list"
  rx_highest_data_rate :: u16

abbreviation (input) NUM_DSSS_RATES :: nat where "NUM_DSSS_RATES \<equiv> 4"
abbreviation (input) NUM_OFDM_RATES :: nat where "NUM_OFDM_RATES \<equiv> 8"
abbreviation (input) NUM_POLARIS_RATES :: nat where "NUM_POLARIS_RATES \<equiv> 3"
abbreviation (input) MAX_SUPPORTED_MCS_SET :: nat where "MAX_SUPPORTED_MCS_SET \<equiv> 16"

definition zero_rates :: wcn36xx_hal_supported_rates where
  "zero_rates =
     \<lparr> op_rate_mode = STA_TAURUS, dsss_rates = replicate NUM_DSSS_RATES 0,
       ofdm_rates = replicate NUM_OFDM_RATES 0, legacy_rates = replicate NUM_POLARIS_RATES 0,
       rates_reserved = 0, enhanced_rate_bitmap = 0,
       supported_mcs_set = replicate MAX_SUPPORTED_MCS_SET 0, rx_highest_data_rate = 0 \<rparr>"

record wcn36xx_hal_mac_ssid =
  ssid_length :: u8
  ssid_bytes :: "u8 list"

end
