(* ===== verification/Driver_State.thy ===== *)
theory Driver_State
  imports Hal_Types
begin

text \<open>
  The state of the driver (\<^verbatim>\<open>struct wcn36xx\<close> and the structures it points to), the trace of what
  the driver asks of the kernel, the firmware and the DMA engine, and the parameters that stand
  for the code outside the repository. \<open>klog\<close> is the trace, newest event first; an outside
  function is a function of the trace, so that two calls may answer differently.
\<close>

section \<open>What the driver sees of mac80211\<close>

datatype ieee80211_band = IEEE80211_BAND_2GHZ | IEEE80211_BAND_5GHZ

datatype nl80211_iftype =
    NL80211_IFTYPE_UNSPECIFIED | NL80211_IFTYPE_ADHOC | NL80211_IFTYPE_STATION
  | NL80211_IFTYPE_AP | NL80211_IFTYPE_AP_VLAN | NL80211_IFTYPE_WDS | NL80211_IFTYPE_MONITOR
  | NL80211_IFTYPE_MESH_POINT | NL80211_IFTYPE_P2P_CLIENT | NL80211_IFTYPE_P2P_GO
  | NL80211_IFTYPE_P2P_DEVICE

datatype ht_cap_flag =
    IEEE80211_HT_CAP_SUP_WIDTH_20_40 | IEEE80211_HT_CAP_LSIG_TXOP_PROT
  | IEEE80211_HT_CAP_MAX_AMSDU | IEEE80211_HT_CAP_SGI_20 | IEEE80211_HT_CAP_SGI_40
  | IEEE80211_HT_CAP_GRN_FLD | IEEE80211_HT_CAP_DELAY_BA | IEEE80211_HT_CAP_DSSSCCK40

datatype ht_conf = CONF_NO_HT | CONF_HT20 | CONF_HT40_MINUS | CONF_HT40_PLUS

datatype tx_info_flag = IEEE80211_TX_CTL_REQ_TX_STATUS | IEEE80211_TX_STAT_ACK

text \<open>A socket buffer: its linear memory, where the data starts and how long it is.\<close>

record sk_buff =
  skb_mem :: "u8 list"
  skb_data :: nat
  skb_len :: nat
  skb_cb_flags :: "tx_info_flag set"
  skb_is_vo :: bool

definition skb_bytes :: "sk_buff \<Rightarrow> u8 list" where
  "skb_bytes s = take (skb_len s) (drop (skb_data s) (skb_mem s))"

record ieee80211_rx_status =
  rx_mactime :: u64
  rx_freq :: u16
  rx_band :: ieee80211_band
  rx_signal :: int
  rx_antenna :: nat
  rx_rate_idx :: nat
  rx_flag_iv_stripped :: bool
  rx_flag_mmic_stripped :: bool
  rx_flag_decrypted :: bool

record ieee80211_conf =
  conf_hw_value :: u16
  conf_band :: ieee80211_band
  conf_center_freq :: u16
  conf_max_power :: int
  conf_listen_interval :: u16
  conf_ht :: ht_conf
  hw_short_preamble_incapable :: bool

record ieee80211_vif =
  vif_type :: nl80211_iftype
  vif_addr :: "u8 list"
  use_short_slot :: bool
  beacon_int :: u16
  hidden_ssid :: bool
  ht_operation_mode :: u16
  sync_tsf :: u64

record ieee80211_sta =
  sta_addr :: "u8 list"
  sta_aid :: u16
  supp_rates :: "ieee80211_band \<Rightarrow> u32"
  ht_supported :: bool
  ht_cap :: "ht_cap_flag set"
  ampdu_factor :: u8
  ampdu_density :: u8
  mcs_rx_mask :: "u8 list"
  sta_wme :: bool
  sta_max_sp :: u8

section \<open>The driver's private data\<close>

datatype wcn36xx_ampdu_state =
  WCN36XX_AMPDU_NONE | WCN36XX_AMPDU_INIT | WCN36XX_AMPDU_START | WCN36XX_AMPDU_OPERATIONAL

record wcn36xx_vif =
  vp_dtim_period :: u8
  encrypt_type :: ani_ed_type
  is_joining :: bool
  sta_assoc :: bool
  vp_ssid :: wcn36xx_hal_mac_ssid
  pw_state :: wcn36xx_power_state
  bss_index :: u8
  self_sta_index :: u8
  self_dpu_desc_index :: u8
  self_ucast_dpu_sign :: u8

record wcn36xx_sta =
  sp_vif :: "nat option"
  sp_aid :: u16
  sp_tid :: u16
  sta_index :: u8
  dpu_desc_index :: u8
  ucast_dpu_sign :: u8
  bss_sta_index :: u8
  bss_dpu_desc_index :: u8
  is_data_encrypted :: bool
  supported_rates :: wcn36xx_hal_supported_rates
  ampdu_state :: "nat \<Rightarrow> wcn36xx_ampdu_state"
  non_agg_frame_ct :: int

section \<open>DXE channels\<close>

datatype wcn36xx_dxe_ch_type =
  WCN36XX_DXE_CH_TX_L | WCN36XX_DXE_CH_TX_H | WCN36XX_DXE_CH_RX_L | WCN36XX_DXE_CH_RX_H

text \<open>A control block is named by its address; \<open>ctl_desc\<close> is the index of its descriptor in
  the channel's descriptor array, \<open>ctl_bd_cpu_addr\<close> the allocation and the offset of its
  buffer-descriptor memory.\<close>

record wcn36xx_dxe_desc =
  desc_ctrl :: u32
  desc_fr_len :: u32
  desc_src_addr_l :: u32
  desc_dst_addr_l :: u32
  desc_phy_next_l :: u32
  desc_src_addr_h :: u32
  desc_dst_addr_h :: u32
  desc_phy_next_h :: u32

record wcn36xx_dxe_ctl =
  ctl_next :: "nat option"
  ctl_desc :: "nat option"
  ctl_desc_phy_addr :: u32
  ctl_blk_order :: nat
  ctl_skb :: "nat option"
  ctl_bd_cpu_addr :: "(nat \<times> nat) option"
  ctl_bd_phy_addr :: u32

record wcn36xx_dxe_ch =
  ch_ch_type :: wcn36xx_dxe_ch_type
  ch_cpu_addr :: "wcn36xx_dxe_desc list option"
  ch_dma_addr :: u32
  ch_desc_num :: nat
  ch_head :: "nat option"
  ch_tail :: "nat option"
  ch_dxe_wq :: u32
  ch_ctrl_bd :: u32
  ch_ctrl_skb :: u32
  ch_reg_ctrl :: u32
  ch_def_ctrl :: u32
  ch_mem :: "nat \<Rightarrow> wcn36xx_dxe_ctl option"
  ch_brk :: nat

record wcn36xx_dxe_mem_pool =
  pool_chunk_size :: nat
  pool_virt_addr :: "nat option"
  pool_phy_addr :: u32

section \<open>The trace and the outside world\<close>

datatype kevent =
    RegWrite u32 u32                     (* writel *)
  | RegRead u32                          (* readl *)
  | Kmalloc nat                          (* kmalloc/kzalloc of a size *)
  | DmaAlloc nat                         (* dma_alloc_coherent of a size *)
  | DmaFree nat                          (* dma_free_coherent of an allocation *)
  | DmaMap nat                           (* dma_map_single of the data of an skb *)
  | DmaUnmap u32                         (* dma_unmap_single of a bus address *)
  | AllocSkb                             (* alloc_skb *)
  | FreeSkb nat                          (* kfree_skb *)
  | FreeTxSkb nat                        (* ieee80211_free_txskb *)
  | TxStatus nat                         (* ieee80211_tx_status_irqsafe *)
  | RxSkb nat "u8 list" ieee80211_rx_status  (* ieee80211_rx_irqsafe *)
  | StopQueues                           (* ieee80211_stop_queues *)
  | WakeQueues                           (* ieee80211_wake_queues *)
  | StartTxBa nat nat                    (* ieee80211_start_tx_ba_session *)
  | StartTxBaCb nat "u8 list" nat        (* ieee80211_start_tx_ba_cb_irqsafe *)
  | StopTxBaCb nat "u8 list" nat         (* ieee80211_stop_tx_ba_cb_irqsafe *)
  | ConnectionLoss nat                   (* ieee80211_connection_loss *)
  | ReportLowAck nat                     (* ieee80211_report_low_ack *)
  | FindSta nat "u8 list"                (* ieee80211_find_sta *)
  | SmsmChange u32 u32                   (* ctrl_ops->smsm_change_state *)
  | SmdOpen | SmdClose                   (* ctrl_ops->open, ctrl_ops->close *)
  | SmdTx "u8 list"                      (* ctrl_ops->tx *)
  | SmdRx "u8 list"                      (* a packet handed to the driver by SMD *)
  | CreateWq | DestroyWq | FlushWq       (* the indication work queue *)
  | RequestIrq int | FreeIrq int | EnableIrqWake int | DisableIrq int | EnableIrq int
  | RequestFirmware                      (* request_firmware *)
  | GetBeacon nat | GetProbeResp nat     (* ieee80211_beacon_get_tim, ieee80211_proberesp_get *)
  | FreeMcList | FreeHalBuf              (* kfree of a multicast list, of hal_buf *)
  | FreeTmplSkb                          (* dev_kfree_skb of a beacon or a probe response *)
  | AllocHw | FreeHw                     (* ieee80211_alloc_hw, ieee80211_free_hw *)
  | RegisterHw | UnregisterHw            (* ieee80211_register_hw, ieee80211_unregister_hw *)
  | GetResource string                   (* platform_get_resource_byname *)
  | Ioremap | Iounmap
  | GetHwMac | SetPermAddr "u8 list"     (* ctrl_ops->get_hw_mac, SET_IEEE80211_PERM_ADDR *)
  | ReleaseFirmware | MutexDestroy       (* release_firmware, mutex_destroy *)

record platform =
  p_alloc :: "kevent list \<Rightarrow> nat \<Rightarrow> bool"
  p_dma_alloc :: "kevent list \<Rightarrow> nat \<Rightarrow> u32 option"
  p_dma_map :: "kevent list \<Rightarrow> nat \<Rightarrow> u32"
  p_alloc_skb :: "kevent list \<Rightarrow> u8 list option"
  p_readl :: "kevent list \<Rightarrow> u32 \<Rightarrow> u32"
  p_request_irq :: "kevent list \<Rightarrow> int \<Rightarrow> int"
  p_create_wq :: "kevent list \<Rightarrow> bool"
  p_smd_open :: "kevent list \<Rightarrow> int"
  p_smd_tx :: "kevent list \<Rightarrow> u8 list \<Rightarrow> int"
  p_smd_rx :: "kevent list \<Rightarrow> u8 list list"
  p_request_firmware :: "kevent list \<Rightarrow> int + u8 list"
  p_find_sta :: "kevent list \<Rightarrow> nat \<Rightarrow> u8 list \<Rightarrow> nat option"
  p_beacon_get_tim :: "kevent list \<Rightarrow> nat \<Rightarrow> (sk_buff \<times> u16 \<times> u16) option"
  p_proberesp_get :: "kevent list \<Rightarrow> nat \<Rightarrow> sk_buff option"
  p_is_data :: "u16 \<Rightarrow> bool"
  p_is_data_qos :: "u16 \<Rightarrow> bool"
  p_is_nullfunc :: "u16 \<Rightarrow> bool"
  p_is_mgmt :: "u16 \<Rightarrow> bool"
  p_is_ctl :: "u16 \<Rightarrow> bool"
  p_is_probe_req :: "u16 \<Rightarrow> bool"
  p_qos_ctl :: "u8 list \<Rightarrow> u8"
  p_non_gf_present :: "u16 \<Rightarrow> bool"
  p_fresh :: "kevent list \<Rightarrow> u8 list"
  p_alloc_hw :: "kevent list \<Rightarrow> bool"
  p_get_resource :: "kevent list \<Rightarrow> string \<Rightarrow> int option"
  p_ioremap :: "kevent list \<Rightarrow> bool"
  p_get_hw_mac :: "kevent list \<Rightarrow> int \<times> u8 list"
  p_register_hw :: "kevent list \<Rightarrow> int"

section \<open>The driver\<close>

record wcn36xx =
  hw_conf :: ieee80211_conf
  vif_list :: "nat list"
  vifs :: "nat \<Rightarrow> ieee80211_vif"
  vif_priv :: "nat \<Rightarrow> wcn36xx_vif"
  stas :: "nat \<Rightarrow> ieee80211_sta"
  sta_priv :: "nat \<Rightarrow> wcn36xx_sta"
  nv :: "u8 list option"
  fw_revision :: u8
  fw_version :: u8
  fw_minor :: u8
  fw_major :: u8
  fw_feat_caps :: "u32 list"
  chip_version :: nat
  crm_version :: "u8 list"
  wlan_version :: "u8 list"
  tx_irq :: int
  rx_irq :: int
  hal_buf :: "u8 list option"
  hal_rsp_len :: nat
  hal_mutex :: bool
  hal_rsp_compl :: nat
  hal_ind_wq :: bool
  hal_ind_work_pending :: bool
  hal_ind_queue :: "u8 list list"
  dxe_ch :: "wcn36xx_dxe_ch_type \<Rightarrow> wcn36xx_dxe_ch"
  queues_stopped :: bool
  mgmt_mem_pool :: wcn36xx_dxe_mem_pool
  data_mem_pool :: wcn36xx_dxe_mem_pool
  tx_ack_skb :: "nat option"
  skbs :: "nat \<Rightarrow> sk_buff"
  skb_brk :: nat
  dma_mem :: "nat \<Rightarrow> u8 list option"
  dma_brk :: nat
  klog :: "kevent list"

definition emit :: "kevent \<Rightarrow> wcn36xx \<Rightarrow> wcn36xx" where
  "emit e w = w\<lparr> klog := e # klog w \<rparr>"

text \<open>A socket buffer but for the control flags that only mac80211 and the reports of transmission set.\<close>

definition skb_view :: "sk_buff \<Rightarrow> u8 list \<times> nat \<times> nat \<times> bool" where
  "skb_view s = (skb_mem s, skb_data s, skb_len s, IEEE80211_TX_CTL_REQ_TX_STATUS \<in> skb_cb_flags s)"

definition set_vif_priv :: "nat \<Rightarrow> (wcn36xx_vif \<Rightarrow> wcn36xx_vif) \<Rightarrow> wcn36xx \<Rightarrow> wcn36xx" where
  "set_vif_priv v f w = w\<lparr> vif_priv := (vif_priv w)(v := f (vif_priv w v)) \<rparr>"

definition set_sta_priv :: "nat \<Rightarrow> (wcn36xx_sta \<Rightarrow> wcn36xx_sta) \<Rightarrow> wcn36xx \<Rightarrow> wcn36xx" where
  "set_sta_priv s f w = w\<lparr> sta_priv := (sta_priv w)(s := f (sta_priv w s)) \<rparr>"

definition set_ch :: "wcn36xx_dxe_ch_type \<Rightarrow> wcn36xx_dxe_ch \<Rightarrow> wcn36xx \<Rightarrow> wcn36xx" where
  "set_ch c ch w = w\<lparr> dxe_ch := (dxe_ch w)(c := ch) \<rparr>"

definition wcn36xx_is_fw_version :: "wcn36xx \<Rightarrow> u8 \<Rightarrow> u8 \<Rightarrow> u8 \<Rightarrow> u8 \<Rightarrow> bool" where
  "wcn36xx_is_fw_version w major minor version revision \<longleftrightarrow>
     fw_major w = major \<and> fw_minor w = minor \<and> fw_version w = version \<and>
     fw_revision w = revision"

text \<open>The first two bytes of a frame, its \<open>frame_control\<close>; the addresses at their offsets in
  the 802.11 header.\<close>

definition frame_control :: "u8 list \<Rightarrow> u16" where
  "frame_control bs = of_le16 (take 2 bs)"

definition hdr_addr1 :: "u8 list \<Rightarrow> u8 list" where
  "hdr_addr1 bs = take 6 (drop 4 bs)"

definition hdr_addr2 :: "u8 list \<Rightarrow> u8 list" where
  "hdr_addr2 bs = take 6 (drop 10 bs)"

definition is_multicast_ether_addr :: "u8 list \<Rightarrow> bool" where
  "is_multicast_ether_addr a \<longleftrightarrow> (case a of [] \<Rightarrow> False | b # _ \<Rightarrow> bit b 0)"

definition is_broadcast_ether_addr :: "u8 list \<Rightarrow> bool" where
  "is_broadcast_ether_addr a \<longleftrightarrow> a = replicate 6 0xff"

definition is_zero_ether_addr :: "u8 list \<Rightarrow> bool" where
  "is_zero_ether_addr a \<longleftrightarrow> a = replicate 6 0"

section \<open>Frame lemmas\<close>

lemma klog_emit [simp]: "klog (emit e w) = e # klog w"
  by (simp add: emit_def)

lemma emit_frame [simp, frame_simps]:
  "dxe_ch (emit e w) = dxe_ch w" "skbs (emit e w) = skbs w" "hal_buf (emit e w) = hal_buf w"
  "hal_mutex (emit e w) = hal_mutex w" "hal_rsp_len (emit e w) = hal_rsp_len w"
  "hal_rsp_compl (emit e w) = hal_rsp_compl w" "hal_ind_queue (emit e w) = hal_ind_queue w"
  "hal_ind_work_pending (emit e w) = hal_ind_work_pending w" "hal_ind_wq (emit e w) = hal_ind_wq w"
  "queues_stopped (emit e w) = queues_stopped w" "tx_ack_skb (emit e w) = tx_ack_skb w"
  "dma_mem (emit e w) = dma_mem w" "vif_list (emit e w) = vif_list w" "vifs (emit e w) = vifs w"
  "vif_priv (emit e w) = vif_priv w" "stas (emit e w) = stas w" "sta_priv (emit e w) = sta_priv w"
  "hw_conf (emit e w) = hw_conf w" "skb_brk (emit e w) = skb_brk w" "dma_brk (emit e w) = dma_brk w"
  "fw_major (emit e w) = fw_major w" "fw_minor (emit e w) = fw_minor w"
  "fw_version (emit e w) = fw_version w" "fw_revision (emit e w) = fw_revision w"
  "fw_feat_caps (emit e w) = fw_feat_caps w" "nv (emit e w) = nv w"
  "chip_version (emit e w) = chip_version w"
  "mgmt_mem_pool (emit e w) = mgmt_mem_pool w" "data_mem_pool (emit e w) = data_mem_pool w"
  "tx_irq (emit e w) = tx_irq w" "rx_irq (emit e w) = rx_irq w"
  by (simp_all add: emit_def)

lemma dxe_ch_set_ch [simp]: "dxe_ch (set_ch c ch w) = (dxe_ch w)(c := ch)"
  by (simp add: set_ch_def)

lemma set_ch_frame [simp, frame_simps]:
  "skbs (set_ch c ch w) = skbs w" "hal_buf (set_ch c ch w) = hal_buf w"
  "hal_mutex (set_ch c ch w) = hal_mutex w" "queues_stopped (set_ch c ch w) = queues_stopped w"
  "tx_ack_skb (set_ch c ch w) = tx_ack_skb w" "dma_mem (set_ch c ch w) = dma_mem w"
  "vif_list (set_ch c ch w) = vif_list w" "vifs (set_ch c ch w) = vifs w"
  "vif_priv (set_ch c ch w) = vif_priv w" "sta_priv (set_ch c ch w) = sta_priv w"
  "stas (set_ch c ch w) = stas w" "klog (set_ch c ch w) = klog w"
  "hw_conf (set_ch c ch w) = hw_conf w" "skb_brk (set_ch c ch w) = skb_brk w"
  "dma_brk (set_ch c ch w) = dma_brk w" "chip_version (set_ch c ch w) = chip_version w"
  "mgmt_mem_pool (set_ch c ch w) = mgmt_mem_pool w"
  "data_mem_pool (set_ch c ch w) = data_mem_pool w"
  "hal_rsp_len (set_ch c ch w) = hal_rsp_len w" "hal_rsp_compl (set_ch c ch w) = hal_rsp_compl w"
  "hal_ind_queue (set_ch c ch w) = hal_ind_queue w"
  "hal_ind_work_pending (set_ch c ch w) = hal_ind_work_pending w"
  "hal_ind_wq (set_ch c ch w) = hal_ind_wq w" "nv (set_ch c ch w) = nv w"
  "fw_feat_caps (set_ch c ch w) = fw_feat_caps w"
  "tx_irq (set_ch c ch w) = tx_irq w" "rx_irq (set_ch c ch w) = rx_irq w"
  by (simp_all add: set_ch_def)

lemma set_vif_priv_frame [simp, frame_simps]:
  "hal_mutex (set_vif_priv v f w) = hal_mutex w" "hal_buf (set_vif_priv v f w) = hal_buf w"
  "klog (set_vif_priv v f w) = klog w" "vif_list (set_vif_priv v f w) = vif_list w"
  "vifs (set_vif_priv v f w) = vifs w" "sta_priv (set_vif_priv v f w) = sta_priv w"
  "stas (set_vif_priv v f w) = stas w" "dxe_ch (set_vif_priv v f w) = dxe_ch w"
  "hal_ind_queue (set_vif_priv v f w) = hal_ind_queue w"
  "hal_ind_work_pending (set_vif_priv v f w) = hal_ind_work_pending w"
  "hw_conf (set_vif_priv v f w) = hw_conf w" "hal_rsp_len (set_vif_priv v f w) = hal_rsp_len w"
  "hal_rsp_compl (set_vif_priv v f w) = hal_rsp_compl w"
  "hal_ind_wq (set_vif_priv v f w) = hal_ind_wq w"
  "queues_stopped (set_vif_priv v f w) = queues_stopped w"
  "tx_ack_skb (set_vif_priv v f w) = tx_ack_skb w" "skbs (set_vif_priv v f w) = skbs w"
  "dma_mem (set_vif_priv v f w) = dma_mem w" "skb_brk (set_vif_priv v f w) = skb_brk w"
  "dma_brk (set_vif_priv v f w) = dma_brk w" "fw_major (set_vif_priv v f w) = fw_major w"
  "fw_minor (set_vif_priv v f w) = fw_minor w" "fw_version (set_vif_priv v f w) = fw_version w"
  "fw_revision (set_vif_priv v f w) = fw_revision w"
  "fw_feat_caps (set_vif_priv v f w) = fw_feat_caps w" "nv (set_vif_priv v f w) = nv w"
  "chip_version (set_vif_priv v f w) = chip_version w"
  "mgmt_mem_pool (set_vif_priv v f w) = mgmt_mem_pool w"
  "data_mem_pool (set_vif_priv v f w) = data_mem_pool w" "tx_irq (set_vif_priv v f w) = tx_irq w"
  "rx_irq (set_vif_priv v f w) = rx_irq w"
  "vif_priv (set_vif_priv v f w) = (vif_priv w)(v := f (vif_priv w v))"
  by (simp_all add: set_vif_priv_def)

lemma set_sta_priv_frame [simp, frame_simps]:
  "hal_mutex (set_sta_priv s g w) = hal_mutex w" "hal_buf (set_sta_priv s g w) = hal_buf w"
  "klog (set_sta_priv s g w) = klog w" "vif_list (set_sta_priv s g w) = vif_list w"
  "vifs (set_sta_priv s g w) = vifs w" "vif_priv (set_sta_priv s g w) = vif_priv w"
  "stas (set_sta_priv s g w) = stas w" "dxe_ch (set_sta_priv s g w) = dxe_ch w"
  "hal_ind_queue (set_sta_priv s g w) = hal_ind_queue w"
  "hal_ind_work_pending (set_sta_priv s g w) = hal_ind_work_pending w"
  "hw_conf (set_sta_priv s g w) = hw_conf w" "hal_rsp_len (set_sta_priv s g w) = hal_rsp_len w"
  "hal_rsp_compl (set_sta_priv s g w) = hal_rsp_compl w"
  "hal_ind_wq (set_sta_priv s g w) = hal_ind_wq w"
  "queues_stopped (set_sta_priv s g w) = queues_stopped w"
  "tx_ack_skb (set_sta_priv s g w) = tx_ack_skb w" "skbs (set_sta_priv s g w) = skbs w"
  "dma_mem (set_sta_priv s g w) = dma_mem w" "skb_brk (set_sta_priv s g w) = skb_brk w"
  "dma_brk (set_sta_priv s g w) = dma_brk w" "fw_major (set_sta_priv s g w) = fw_major w"
  "fw_minor (set_sta_priv s g w) = fw_minor w" "fw_version (set_sta_priv s g w) = fw_version w"
  "fw_revision (set_sta_priv s g w) = fw_revision w"
  "fw_feat_caps (set_sta_priv s g w) = fw_feat_caps w" "nv (set_sta_priv s g w) = nv w"
  "chip_version (set_sta_priv s g w) = chip_version w"
  "mgmt_mem_pool (set_sta_priv s g w) = mgmt_mem_pool w"
  "data_mem_pool (set_sta_priv s g w) = data_mem_pool w" "tx_irq (set_sta_priv s g w) = tx_irq w"
  "rx_irq (set_sta_priv s g w) = rx_irq w"
  "sta_priv (set_sta_priv s g w) = (sta_priv w)(s := g (sta_priv w s))"
  by (simp_all add: set_sta_priv_def)

instantiation wcn36xx_dxe_ch_type :: enum
begin

definition "enum_wcn36xx_dxe_ch_type =
  [WCN36XX_DXE_CH_TX_L, WCN36XX_DXE_CH_TX_H, WCN36XX_DXE_CH_RX_L, WCN36XX_DXE_CH_RX_H]"

definition "enum_all_wcn36xx_dxe_ch_type P \<longleftrightarrow>
  P WCN36XX_DXE_CH_TX_L \<and> P WCN36XX_DXE_CH_TX_H \<and> P WCN36XX_DXE_CH_RX_L \<and> P WCN36XX_DXE_CH_RX_H"

definition "enum_ex_wcn36xx_dxe_ch_type P \<longleftrightarrow>
  P WCN36XX_DXE_CH_TX_L \<or> P WCN36XX_DXE_CH_TX_H \<or> P WCN36XX_DXE_CH_RX_L \<or> P WCN36XX_DXE_CH_RX_H"

instance
proof
  show univ: "(UNIV :: wcn36xx_dxe_ch_type set) = set enum_class.enum"
    unfolding enum_wcn36xx_dxe_ch_type_def using wcn36xx_dxe_ch_type.exhaust by auto
  show "distinct (enum_class.enum :: wcn36xx_dxe_ch_type list)"
    unfolding enum_wcn36xx_dxe_ch_type_def by simp
  show "enum_class.enum_all P = Ball (UNIV :: wcn36xx_dxe_ch_type set) P" for P
    unfolding enum_all_wcn36xx_dxe_ch_type_def univ enum_wcn36xx_dxe_ch_type_def by simp
  show "enum_class.enum_ex P = Bex (UNIV :: wcn36xx_dxe_ch_type set) P" for P
    unfolding enum_ex_wcn36xx_dxe_ch_type_def univ enum_wcn36xx_dxe_ch_type_def by simp
qed

end

end
