(* ===== verification/Hal_Msg.thy ===== *)
theory Hal_Msg
  imports Driver_State
begin

text \<open>
  The messages between the driver and the firmware (\<^verbatim>\<open>hal.h\<close>, \<^verbatim>\<open>smd.h\<close>): the type numbers of the
  requests the driver sends and of their responses, the header, and the bytes of a message. The
  structures are packed and little endian, so that a message is the concatenation of its fields.
\<close>

section \<open>Message types\<close>

datatype hal_cmd =
    HAL_START | HAL_STOP | HAL_INIT_SCAN | HAL_START_SCAN | HAL_END_SCAN | HAL_FINISH_SCAN
  | HAL_CONFIG_STA | HAL_DELETE_STA | HAL_CONFIG_BSS | HAL_DELETE_BSS | HAL_JOIN
  | HAL_SET_BSSKEY | HAL_SET_STAKEY | HAL_RMV_BSSKEY | HAL_RMV_STAKEY | HAL_ADD_BA | HAL_DEL_BA
  | HAL_CH_SWITCH | HAL_SET_LINK_ST | HAL_UPDATE_CFG | HAL_DOWNLOAD_NV | HAL_ADD_BA_SESSION
  | HAL_TRIGGER_BA | HAL_SEND_BEACON | HAL_UPDATE_PROBE_RSP_TEMPLATE | HAL_ENTER_BMPS
  | HAL_EXIT_BMPS | HAL_DUMP_COMMAND | HAL_ADD_STA_SELF | HAL_DEL_STA_SELF | HAL_KEEP_ALIVE
  | HAL_UPDATE_SCAN_PARAM | HAL_8023_MULTICAST_LIST | HAL_SET_POWER_PARAMS
  | HAL_FEATURE_CAPS_EXCHANGE

datatype hal_ind = HAL_OTA_TX_COMPL_IND | HAL_MISSED_BEACON_IND | HAL_DELETE_STA_CONTEXT_IND

text \<open>\<^verbatim>\<open>WCN36XX_HAL_..._REQ\<close> and \<^verbatim>\<open>WCN36XX_HAL_..._RSP\<close>.\<close>

primrec req_type :: "hal_cmd \<Rightarrow> u16" where
  "req_type HAL_START = 0"
| "req_type HAL_STOP = 2"
| "req_type HAL_INIT_SCAN = 4"
| "req_type HAL_START_SCAN = 6"
| "req_type HAL_END_SCAN = 8"
| "req_type HAL_FINISH_SCAN = 10"
| "req_type HAL_CONFIG_STA = 12"
| "req_type HAL_DELETE_STA = 14"
| "req_type HAL_CONFIG_BSS = 16"
| "req_type HAL_DELETE_BSS = 18"
| "req_type HAL_JOIN = 20"
| "req_type HAL_SET_BSSKEY = 24"
| "req_type HAL_SET_STAKEY = 26"
| "req_type HAL_RMV_BSSKEY = 28"
| "req_type HAL_RMV_STAKEY = 30"
| "req_type HAL_ADD_BA = 38"
| "req_type HAL_DEL_BA = 40"
| "req_type HAL_CH_SWITCH = 42"
| "req_type HAL_SET_LINK_ST = 44"
| "req_type HAL_UPDATE_CFG = 48"
| "req_type HAL_DOWNLOAD_NV = 55"
| "req_type HAL_ADD_BA_SESSION = 57"
| "req_type HAL_TRIGGER_BA = 59"
| "req_type HAL_SEND_BEACON = 63"
| "req_type HAL_UPDATE_PROBE_RSP_TEMPLATE = 68"
| "req_type HAL_ENTER_BMPS = 78"
| "req_type HAL_EXIT_BMPS = 79"
| "req_type HAL_DUMP_COMMAND = 121"
| "req_type HAL_ADD_STA_SELF = 125"
| "req_type HAL_DEL_STA_SELF = 127"
| "req_type HAL_KEEP_ALIVE = 145"
| "req_type HAL_UPDATE_SCAN_PARAM = 151"
| "req_type HAL_8023_MULTICAST_LIST = 157"
| "req_type HAL_SET_POWER_PARAMS = 166"
| "req_type HAL_FEATURE_CAPS_EXCHANGE = 175"

primrec rsp_type :: "hal_cmd \<Rightarrow> u16" where
  "rsp_type HAL_START = 1"
| "rsp_type HAL_STOP = 3"
| "rsp_type HAL_INIT_SCAN = 5"
| "rsp_type HAL_START_SCAN = 7"
| "rsp_type HAL_END_SCAN = 9"
| "rsp_type HAL_FINISH_SCAN = 11"
| "rsp_type HAL_CONFIG_STA = 13"
| "rsp_type HAL_DELETE_STA = 15"
| "rsp_type HAL_CONFIG_BSS = 17"
| "rsp_type HAL_DELETE_BSS = 19"
| "rsp_type HAL_JOIN = 21"
| "rsp_type HAL_SET_BSSKEY = 25"
| "rsp_type HAL_SET_STAKEY = 27"
| "rsp_type HAL_RMV_BSSKEY = 29"
| "rsp_type HAL_RMV_STAKEY = 31"
| "rsp_type HAL_ADD_BA = 39"
| "rsp_type HAL_DEL_BA = 41"
| "rsp_type HAL_CH_SWITCH = 43"
| "rsp_type HAL_SET_LINK_ST = 45"
| "rsp_type HAL_UPDATE_CFG = 49"
| "rsp_type HAL_DOWNLOAD_NV = 56"
| "rsp_type HAL_ADD_BA_SESSION = 58"
| "rsp_type HAL_TRIGGER_BA = 60"
| "rsp_type HAL_SEND_BEACON = 64"
| "rsp_type HAL_UPDATE_PROBE_RSP_TEMPLATE = 69"
| "rsp_type HAL_ENTER_BMPS = 97"
| "rsp_type HAL_EXIT_BMPS = 98"
| "rsp_type HAL_DUMP_COMMAND = 122"
| "rsp_type HAL_ADD_STA_SELF = 126"
| "rsp_type HAL_DEL_STA_SELF = 128"
| "rsp_type HAL_KEEP_ALIVE = 146"
| "rsp_type HAL_UPDATE_SCAN_PARAM = 152"
| "rsp_type HAL_8023_MULTICAST_LIST = 158"
| "rsp_type HAL_SET_POWER_PARAMS = 167"
| "rsp_type HAL_FEATURE_CAPS_EXCHANGE = 176"

primrec ind_type :: "hal_ind \<Rightarrow> u16" where
  "ind_type HAL_OTA_TX_COMPL_IND = 130"
| "ind_type HAL_MISSED_BEACON_IND = 50"
| "ind_type HAL_DELETE_STA_CONTEXT_IND = 67"

section \<open>Messages\<close>

abbreviation (input) WCN36XX_HAL_BUF_SIZE :: nat where "WCN36XX_HAL_BUF_SIZE \<equiv> 4096"
abbreviation (input) sizeof_hal_msg_header :: nat where "sizeof_hal_msg_header \<equiv> 8"
abbreviation (input) WCN36XX_FW_MSG_RESULT_SUCCESS :: u32 where
  "WCN36XX_FW_MSG_RESULT_SUCCESS \<equiv> 0"
abbreviation (input) WCN36XX_FW_MSG_RESULT_MEM_FAIL :: u32 where
  "WCN36XX_FW_MSG_RESULT_MEM_FAIL \<equiv> 5"
abbreviation (input) WCN36XX_HAL_MSG_VERSION0 :: u16 where "WCN36XX_HAL_MSG_VERSION0 \<equiv> 0"
abbreviation (input) WCN36XX_HAL_MSG_VERSION1 :: u16 where "WCN36XX_HAL_MSG_VERSION1 \<equiv> 1"

definition wcn36xx_hal_msg_header :: "u16 \<Rightarrow> u16 \<Rightarrow> nat \<Rightarrow> u8 list" where
  "wcn36xx_hal_msg_header t v n = le16 t @ le16 v @ le32 (of_nat n)"

text \<open>\<^verbatim>\<open>INIT_HAL_MSG\<close> of a structure whose body has the bytes \<open>body\<close>: the version is
  0 and the length counts the header.\<close>

definition INIT_HAL_MSG :: "hal_cmd \<Rightarrow> u8 list \<Rightarrow> u8 list" where
  "INIT_HAL_MSG c body =
     wcn36xx_hal_msg_header (req_type c) WCN36XX_HAL_MSG_VERSION0
       (sizeof_hal_msg_header + length body) @ body"

definition msg_type_of :: "u8 list \<Rightarrow> u16" where
  "msg_type_of m = of_le16 (take 2 m)"

definition msg_len_of :: "u8 list \<Rightarrow> u32" where
  "msg_len_of m = of_le32 (take 4 (drop 4 m))"

text \<open>A message the firmware can parse: a header whose length is that of the message.\<close>

definition hal_msg_ok :: "hal_cmd \<Rightarrow> u8 list \<Rightarrow> bool" where
  "hal_msg_ok c m \<longleftrightarrow> 8 \<le> length m \<and> msg_type_of m = req_type c \<and> unat (msg_len_of m) = length m"

lemma hal_header_length [simp]: "length (wcn36xx_hal_msg_header t v n) = 8"
  by (simp add: wcn36xx_hal_msg_header_def)

lemma INIT_HAL_MSG_length [simp]: "length (INIT_HAL_MSG c body) = 8 + length body"
  by (simp add: INIT_HAL_MSG_def)

lemma hal_header_type [simp]: "msg_type_of (wcn36xx_hal_msg_header t v n @ body) = t"
  by (simp add: msg_type_of_def wcn36xx_hal_msg_header_def)

lemma hal_header_len [simp]:
  "msg_len_of (wcn36xx_hal_msg_header t v n @ body) = of_nat n"
  by (simp add: msg_len_of_def wcn36xx_hal_msg_header_def)

lemma hal_msg_okI:
  "length body < 2 ^ 32 - 8 \<Longrightarrow> n = 8 + length body \<Longrightarrow>
     hal_msg_ok c (wcn36xx_hal_msg_header (req_type c) v n @ body)"
  by (simp add: hal_msg_ok_def unat_of_nat take_bit_nat_def del: of_nat_add)

lemma INIT_HAL_MSG_ok: "length body < 2 ^ 32 - 8 \<Longrightarrow> hal_msg_ok c (INIT_HAL_MSG c body)"
  unfolding INIT_HAL_MSG_def by (rule hal_msg_okI) simp_all

end
