(* ===== verification/Dxe_Regs.thy ===== *)
theory Dxe_Regs
  imports Driver_State
begin

text \<open>
  The register addresses, masks and per-channel constants of \<^verbatim>\<open>dxe.h\<close>, and the two register
  accessors. A family of macros with one member per channel is one function of the channel.
\<close>

abbreviation (input) WCN36XX_DXE_MEM_REG :: u32 where "WCN36XX_DXE_MEM_REG \<equiv> 0x202000"
abbreviation (input) WCN36XX_DXE_CCU_INT :: u32 where "WCN36XX_DXE_CCU_INT \<equiv> 0xA0011"
abbreviation (input) WCN36XX_DXE_REG_RESET :: u32 where "WCN36XX_DXE_REG_RESET \<equiv> 0x5c89"
abbreviation (input) WCN36XX_PKT_SIZE :: nat where "WCN36XX_PKT_SIZE \<equiv> 0xF20"
abbreviation (input) WCN36XX_BD_CHUNK_SIZE :: nat where "WCN36XX_BD_CHUNK_SIZE \<equiv> 128"
abbreviation (input) WCN36XX_SMSM_WLAN_TX_ENABLE :: u32 where
  "WCN36XX_SMSM_WLAN_TX_ENABLE \<equiv> 0x400"
abbreviation (input) WCN36XX_SMSM_WLAN_TX_RINGS_EMPTY :: u32 where
  "WCN36XX_SMSM_WLAN_TX_RINGS_EMPTY \<equiv> 0x200"
abbreviation (input) WCN36XX_CHIP_3660 :: nat where "WCN36XX_CHIP_3660 \<equiv> 0"
abbreviation (input) WCN36XX_CHIP_3680 :: nat where "WCN36XX_CHIP_3680 \<equiv> 1"

datatype dxe_reg =
    WCN36XX_DXE_REG_CSR_RESET | WCN36XX_DXE_ENCH_ADDR | WCN36XX_DXE_REG_CH_EN
  | WCN36XX_DXE_INT_MASK_REG | WCN36XX_DXE_INT_SRC_RAW_REG | WCN36XX_DXE_0_INT_CLR
  | WCN36XX_DXE_0_INT_ED_CLR | WCN36XX_DXE_REG_CCU_INT_3660 | WCN36XX_DXE_REG_CCU_INT_3680

primrec reg_addr :: "dxe_reg \<Rightarrow> u32" where
  "reg_addr WCN36XX_DXE_REG_CSR_RESET = WCN36XX_DXE_MEM_REG + 0x00"
| "reg_addr WCN36XX_DXE_ENCH_ADDR = WCN36XX_DXE_MEM_REG + 0x04"
| "reg_addr WCN36XX_DXE_REG_CH_EN = WCN36XX_DXE_MEM_REG + 0x08"
| "reg_addr WCN36XX_DXE_INT_MASK_REG = WCN36XX_DXE_MEM_REG + 0x18"
| "reg_addr WCN36XX_DXE_INT_SRC_RAW_REG = WCN36XX_DXE_MEM_REG + 0x20"
| "reg_addr WCN36XX_DXE_0_INT_CLR = WCN36XX_DXE_MEM_REG + 0x30"
| "reg_addr WCN36XX_DXE_0_INT_ED_CLR = WCN36XX_DXE_MEM_REG + 0x34"
| "reg_addr WCN36XX_DXE_REG_CCU_INT_3660 = 0x200b10"
| "reg_addr WCN36XX_DXE_REG_CCU_INT_3680 = 0x2050dc"

primrec DXE_CTRL :: "wcn36xx_dxe_ch_type \<Rightarrow> u32" where
  "DXE_CTRL WCN36XX_DXE_CH_TX_L = 0x328a44"
| "DXE_CTRL WCN36XX_DXE_CH_TX_H = 0x32ce44"
| "DXE_CTRL WCN36XX_DXE_CH_RX_L = 0x12ad2f"
| "DXE_CTRL WCN36XX_DXE_CH_RX_H = 0x12d12f"

abbreviation (input) WCN36XX_DXE_CTRL_TX_H_BD :: u32 where "WCN36XX_DXE_CTRL_TX_H_BD \<equiv> 0x30ce45"
abbreviation (input) WCN36XX_DXE_CTRL_TX_H_SKB :: u32 where "WCN36XX_DXE_CTRL_TX_H_SKB \<equiv> 0x32ce4d"
abbreviation (input) WCN36XX_DXE_CTRL_TX_L_BD :: u32 where "WCN36XX_DXE_CTRL_TX_L_BD \<equiv> 0x308a45"
abbreviation (input) WCN36XX_DXE_CTRL_TX_L_SKB :: u32 where "WCN36XX_DXE_CTRL_TX_L_SKB \<equiv> 0x328a4d"

primrec DXE_WQ :: "wcn36xx_dxe_ch_type \<Rightarrow> u32" where
  "DXE_WQ WCN36XX_DXE_CH_TX_L = 0x17"
| "DXE_WQ WCN36XX_DXE_CH_TX_H = 0x17"
| "DXE_WQ WCN36XX_DXE_CH_RX_L = 0xB"
| "DXE_WQ WCN36XX_DXE_CH_RX_H = 0x4"

primrec DXE_CH_DEFAULT_CTL :: "wcn36xx_dxe_ch_type \<Rightarrow> u32" where
  "DXE_CH_DEFAULT_CTL WCN36XX_DXE_CH_TX_L = 0x843e8b4d"
| "DXE_CH_DEFAULT_CTL WCN36XX_DXE_CH_TX_H = 0x853ECF4D"
| "DXE_CH_DEFAULT_CTL WCN36XX_DXE_CH_RX_L = 0x847EAD2F"
| "DXE_CH_DEFAULT_CTL WCN36XX_DXE_CH_RX_H = 0x84FED12F"

primrec DXE_OFFSET :: "wcn36xx_dxe_ch_type \<Rightarrow> u32" where
  "DXE_OFFSET WCN36XX_DXE_CH_TX_L = 0x400"
| "DXE_OFFSET WCN36XX_DXE_CH_TX_H = 0x500"
| "DXE_OFFSET WCN36XX_DXE_CH_RX_L = 0x440"
| "DXE_OFFSET WCN36XX_DXE_CH_RX_H = 0x4C0"

definition DXE_CH_NEXT_DESC_ADDR :: "wcn36xx_dxe_ch_type \<Rightarrow> u32" where
  "DXE_CH_NEXT_DESC_ADDR c = WCN36XX_DXE_MEM_REG + DXE_OFFSET c + 0x1C"

definition DXE_CH_SRC_ADDR :: "wcn36xx_dxe_ch_type \<Rightarrow> u32" where
  "DXE_CH_SRC_ADDR c = WCN36XX_DXE_MEM_REG + DXE_OFFSET c + 0x0C"

definition DXE_CH_DEST_ADDR :: "wcn36xx_dxe_ch_type \<Rightarrow> u32" where
  "DXE_CH_DEST_ADDR c = WCN36XX_DXE_MEM_REG + DXE_OFFSET c + 0x14"

definition DXE_CH_STATUS_REG_ADDR :: "wcn36xx_dxe_ch_type \<Rightarrow> u32" where
  "DXE_CH_STATUS_REG_ADDR c = WCN36XX_DXE_MEM_REG + DXE_OFFSET c + 0x04"

definition DXE_REG_CTL :: "wcn36xx_dxe_ch_type \<Rightarrow> u32" where
  "DXE_REG_CTL c = WCN36XX_DXE_MEM_REG + DXE_OFFSET c"

primrec INT_MASK_CHAN :: "wcn36xx_dxe_ch_type \<Rightarrow> u32" where
  "INT_MASK_CHAN WCN36XX_DXE_CH_TX_L = 0x1"
| "INT_MASK_CHAN WCN36XX_DXE_CH_RX_L = 0x2"
| "INT_MASK_CHAN WCN36XX_DXE_CH_RX_H = 0x8"
| "INT_MASK_CHAN WCN36XX_DXE_CH_TX_H = 0x10"

primrec DXE_CH_DESC_NUMB :: "wcn36xx_dxe_ch_type \<Rightarrow> nat" where
  "DXE_CH_DESC_NUMB WCN36XX_DXE_CH_TX_L = 128"
| "DXE_CH_DESC_NUMB WCN36XX_DXE_CH_TX_H = 10"
| "DXE_CH_DESC_NUMB WCN36XX_DXE_CH_RX_L = 512"
| "DXE_CH_DESC_NUMB WCN36XX_DXE_CH_RX_H = 40"

text \<open>\<^verbatim>\<open>ctrl & WCN36XX_DXE_CTRL_VALID_MASK\<close>.\<close>

definition ctrl_valid :: "u32 \<Rightarrow> bool" where
  "ctrl_valid x \<longleftrightarrow> x AND 0x1 \<noteq> 0"

definition wcn36xx_dxe_write_register :: "u32 \<Rightarrow> u32 \<Rightarrow> wcn36xx \<Rightarrow> wcn36xx" where
  "wcn36xx_dxe_write_register addr data w = emit (RegWrite addr data) w"

definition wcn36xx_dxe_write_register_x :: "u32 \<Rightarrow> wcn36xx \<Rightarrow> wcn36xx" where
  "wcn36xx_dxe_write_register_x data w =
     (if chip_version w = WCN36XX_CHIP_3680
      then wcn36xx_dxe_write_register (reg_addr WCN36XX_DXE_REG_CCU_INT_3680) data w
      else wcn36xx_dxe_write_register (reg_addr WCN36XX_DXE_REG_CCU_INT_3660) data w)"

definition wcn36xx_dxe_read_register :: "platform \<Rightarrow> u32 \<Rightarrow> wcn36xx \<Rightarrow> u32 \<times> wcn36xx" where
  "wcn36xx_dxe_read_register P addr w = (p_readl P (klog w) addr, emit (RegRead addr) w)"

lemma dxe_ctrl_valid:
  "\<not> ctrl_valid (DXE_CTRL WCN36XX_DXE_CH_TX_L)" "\<not> ctrl_valid (DXE_CTRL WCN36XX_DXE_CH_TX_H)"
  "ctrl_valid (DXE_CTRL WCN36XX_DXE_CH_RX_L)" "ctrl_valid (DXE_CTRL WCN36XX_DXE_CH_RX_H)"
  "ctrl_valid WCN36XX_DXE_CTRL_TX_L_BD" "ctrl_valid WCN36XX_DXE_CTRL_TX_L_SKB"
  "ctrl_valid WCN36XX_DXE_CTRL_TX_H_BD" "ctrl_valid WCN36XX_DXE_CTRL_TX_H_SKB"
  "\<not> ctrl_valid 0"
  by (simp_all add: ctrl_valid_def)

lemma write_register_frame [simp]:
  "dxe_ch (wcn36xx_dxe_write_register a x w) = dxe_ch w"
  "skbs (wcn36xx_dxe_write_register a x w) = skbs w"
  "klog (wcn36xx_dxe_write_register a x w) = RegWrite a x # klog w"
  by (simp_all add: wcn36xx_dxe_write_register_def)

end
