(* ===== verification/Samples.thy ===== *)
theory Samples
  imports Dxe_Regs
begin

text \<open>
  A small driver state and a platform on which everything succeeds, for the witnesses of the
  properties: one station interface 0 with the station 0, a HAL buffer, and transmit rings of four
  blocks each as the initialisation leaves them.
\<close>

definition sample_skb :: sk_buff where
  "sample_skb = \<lparr> skb_mem = replicate 64 0, skb_data = 0, skb_len = 40, skb_cb_flags = {},
                  skb_is_vo = False \<rparr>"

definition sample_conf :: ieee80211_conf where
  "sample_conf = \<lparr> conf_hw_value = 6, conf_band = IEEE80211_BAND_2GHZ, conf_center_freq = 2437,
                   conf_max_power = 25, conf_listen_interval = 10, conf_ht = CONF_HT20,
                   hw_short_preamble_incapable = False \<rparr>"

definition sample_vif :: ieee80211_vif where
  "sample_vif = \<lparr> vif_type = NL80211_IFTYPE_STATION, vif_addr = [0, 1, 2, 3, 4, 5],
                  use_short_slot = True, beacon_int = 100, hidden_ssid = False,
                  ht_operation_mode = 0, sync_tsf = 0 \<rparr>"

definition sample_vif_priv :: wcn36xx_vif where
  "sample_vif_priv =
     \<lparr> vp_dtim_period = 1, encrypt_type = WCN36XX_HAL_ED_NONE, is_joining = False,
       sta_assoc = False, vp_ssid = \<lparr> ssid_length = 0, ssid_bytes = replicate 32 0 \<rparr>,
       pw_state = WCN36XX_FULL_POWER, bss_index = 0, self_sta_index = 1,
       self_dpu_desc_index = 2, self_ucast_dpu_sign = 3 \<rparr>"

definition sample_sta :: ieee80211_sta where
  "sample_sta = \<lparr> sta_addr = [10, 11, 12, 13, 14, 15], sta_aid = 1, supp_rates = (\<lambda>_. 0xff),
                  ht_supported = True, ht_cap = {IEEE80211_HT_CAP_SGI_20}, ampdu_factor = 3,
                  ampdu_density = 5, mcs_rx_mask = replicate 10 0, sta_wme = True, sta_max_sp = 0 \<rparr>"

definition sample_sta_priv :: wcn36xx_sta where
  "sample_sta_priv =
     \<lparr> sp_vif = Some 0, sp_aid = 1, sp_tid = 0, sta_index = 4, dpu_desc_index = 5,
       ucast_dpu_sign = 1, bss_sta_index = 6, bss_dpu_desc_index = 7, is_data_encrypted = False,
       supported_rates = zero_rates, ampdu_state = (\<lambda>_. WCN36XX_AMPDU_NONE),
       non_agg_frame_ct = 0 \<rparr>"

definition zero_ch :: "wcn36xx_dxe_ch_type \<Rightarrow> wcn36xx_dxe_ch" where
  "zero_ch c = \<lparr> ch_ch_type = c, ch_cpu_addr = None, ch_dma_addr = 0, ch_desc_num = 0,
                 ch_head = None, ch_tail = None, ch_dxe_wq = 0, ch_ctrl_bd = 0, ch_ctrl_skb = 0,
                 ch_reg_ctrl = 0, ch_def_ctrl = 0, ch_mem = (\<lambda>_. None), ch_brk = 0 \<rparr>"

definition ring4_ctl :: "nat \<Rightarrow> wcn36xx_dxe_ctl" where
  "ring4_ctl i = \<lparr> ctl_next = Some (if i = 3 then 0 else Suc i), ctl_desc = Some i,
                   ctl_desc_phy_addr = of_nat (32 * i), ctl_blk_order = i, ctl_skb = None,
                   ctl_bd_cpu_addr = (if even i then Some (0, 72 * i) else None),
                   ctl_bd_phy_addr = (if even i then of_nat (72 * i) else 0) \<rparr>"

definition ring4 :: "wcn36xx_dxe_ch_type \<Rightarrow> wcn36xx_dxe_ch" where
  "ring4 c = (zero_ch c)\<lparr> ch_desc_num := 4, ch_head := Some 0, ch_tail := Some 0,
     ch_ctrl_bd := WCN36XX_DXE_CTRL_TX_L_BD, ch_ctrl_skb := WCN36XX_DXE_CTRL_TX_L_SKB,
     ch_cpu_addr := Some (replicate 4 \<lparr> desc_ctrl = 0x328a44, desc_fr_len = 0,
        desc_src_addr_l = 0, desc_dst_addr_l = 0, desc_phy_next_l = 0, desc_src_addr_h = 0,
        desc_dst_addr_h = 0, desc_phy_next_h = 0 \<rparr>),
     ch_mem := (\<lambda>a. if a < 4 then Some (ring4_ctl a) else None), ch_brk := 4 \<rparr>"

text \<open>A receive ring of four blocks whose first one the hardware has filled.\<close>

definition rx4 :: wcn36xx_dxe_ch where
  "rx4 = (ring4 WCN36XX_DXE_CH_RX_L)\<lparr>
     ch_cpu_addr := Some (map (\<lambda>i. \<lparr> desc_ctrl = (if i = 0 then 0x12ad2e else 0x12ad2f),
        desc_fr_len = 0, desc_src_addr_l = 0, desc_dst_addr_l = 0, desc_phy_next_l = 0,
        desc_src_addr_h = 0, desc_dst_addr_h = 0, desc_phy_next_h = 0 \<rparr>) [0..<4]),
     ch_mem := (\<lambda>a. if a < 4 then Some ((ring4_ctl a)\<lparr> ctl_skb := Some a \<rparr>) else None) \<rparr>"

definition rx_buffer :: sk_buff where
  "rx_buffer = \<lparr> skb_mem = replicate 80 0, skb_data = 0, skb_len = 0, skb_cb_flags = {},
                 skb_is_vo = False \<rparr>"

definition sample_wcn :: wcn36xx where
  "sample_wcn =
     \<lparr> hw_conf = sample_conf, vif_list = [0], vifs = (\<lambda>_. sample_vif),
       vif_priv = (\<lambda>_. sample_vif_priv), stas = (\<lambda>_. sample_sta), sta_priv = (\<lambda>_. sample_sta_priv),
       nv = None, fw_revision = 0, fw_version = 0, fw_minor = 0, fw_major = 0,
       fw_feat_caps = [0, 0, 0, 0], chip_version = 0, crm_version = replicate 65 0,
       wlan_version = replicate 65 0, tx_irq = 1, rx_irq = 2, hal_buf = Some (replicate 4096 0),
       hal_rsp_len = 0, hal_mutex = False, hal_rsp_compl = 0, hal_ind_wq = True,
       hal_ind_work_pending = False, hal_ind_queue = [], dxe_ch = ring4, queues_stopped = False,
       mgmt_mem_pool = \<lparr> pool_chunk_size = 144, pool_virt_addr = Some 1, pool_phy_addr = 0 \<rparr>,
       data_mem_pool = \<lparr> pool_chunk_size = 144, pool_virt_addr = Some 0, pool_phy_addr = 0 \<rparr>,
       tx_ack_skb = None, skbs = (\<lambda>_. sample_skb), skb_brk = 100,
       dma_mem = (\<lambda>i. if i < 2 then Some (replicate 288 0) else None), dma_brk = 2, klog = [] \<rparr>"

definition sample_platform :: platform where
  "sample_platform =
     \<lparr> p_alloc = (\<lambda>_ _. True), p_dma_alloc = (\<lambda>_ _. Some 0), p_dma_map = (\<lambda>_ _. 0),
       p_alloc_skb = (\<lambda>_. Some (replicate 0xF20 0)), p_readl = (\<lambda>_ _. 0),
       p_request_irq = (\<lambda>_ _. 0), p_create_wq = (\<lambda>_. True), p_smd_open = (\<lambda>_. 0),
       p_smd_tx = (\<lambda>_ _. 0), p_smd_rx = (\<lambda>_. []), p_request_firmware = (\<lambda>_. Inr []),
       p_find_sta = (\<lambda>_ _ _. Some 0), p_beacon_get_tim = (\<lambda>_ _. None),
       p_proberesp_get = (\<lambda>_ _. None), p_is_data = (\<lambda>fc. fc AND 0xC = 8),
       p_is_data_qos = (\<lambda>fc. fc AND 0x8C = 0x88), p_is_nullfunc = (\<lambda>fc. fc AND 0xFC = 0x48),
       p_is_mgmt = (\<lambda>fc. fc AND 0xC = 0), p_is_ctl = (\<lambda>fc. fc AND 0xC = 4),
       p_is_probe_req = (\<lambda>fc. fc AND 0xFC = 0x40), p_qos_ctl = (\<lambda>_. 0),
       p_non_gf_present = (\<lambda>_. False), p_fresh = (\<lambda>_. []), p_alloc_hw = (\<lambda>_. True),
       p_get_resource = (\<lambda>_ _. Some 7), p_ioremap = (\<lambda>_. True),
       p_get_hw_mac = (\<lambda>_. (0, [2, 0, 0, 0, 0, 1])), p_register_hw = (\<lambda>_. 0) \<rparr>"

end
