(* ===== verification/Smd_Core.thy ===== *)
theory Smd_Core
  imports Hal_Msg Samples "HOL-Library.Sublist"
begin

text \<open>
  The core of \<^verbatim>\<open>smd.c\<close> every HAL command goes through: the mutex that guards \<open>hal_buf\<close>,
  the request written into the buffer, \<open>wcn36xx_smd_send_and_wait\<close>, the callback
  \<open>wcn36xx_smd_rsp_process\<close> that receives the firmware's packets, and the status check of a
  response. \<open>p_smd_rx\<close> gives the packets SMD delivers before the wait ends; the
  completion is a counter. The locale \<open>hal_ops\<close>, at the end, is the contract a client of the commands
  relies on.
\<close>

section \<open>Receiving packets\<close>

text \<open>The two groups of cases of the \<^verbatim>\<open>switch\<close> of \<open>wcn36xx_smd_rsp_process\<close>, in its order.\<close>

definition rsp_cases :: "hal_cmd list" where
  "rsp_cases =
     [HAL_START, HAL_CONFIG_STA, HAL_CONFIG_BSS, HAL_ADD_STA_SELF, HAL_STOP, HAL_DEL_STA_SELF,
      HAL_DELETE_STA, HAL_INIT_SCAN, HAL_START_SCAN, HAL_END_SCAN, HAL_FINISH_SCAN,
      HAL_DOWNLOAD_NV, HAL_DELETE_BSS, HAL_SEND_BEACON, HAL_SET_LINK_ST,
      HAL_UPDATE_PROBE_RSP_TEMPLATE, HAL_SET_BSSKEY, HAL_SET_STAKEY, HAL_RMV_STAKEY,
      HAL_RMV_BSSKEY, HAL_ENTER_BMPS, HAL_SET_POWER_PARAMS, HAL_EXIT_BMPS, HAL_KEEP_ALIVE,
      HAL_DUMP_COMMAND, HAL_ADD_BA_SESSION, HAL_ADD_BA, HAL_DEL_BA, HAL_TRIGGER_BA,
      HAL_UPDATE_CFG, HAL_JOIN, HAL_UPDATE_SCAN_PARAM, HAL_CH_SWITCH,
      HAL_FEATURE_CAPS_EXCHANGE, HAL_8023_MULTICAST_LIST]"

definition ind_cases :: "hal_ind list" where
  "ind_cases = [HAL_OTA_TX_COMPL_IND, HAL_MISSED_BEACON_IND, HAL_DELETE_STA_CONTEXT_IND]"

definition is_rsp :: "u8 list \<Rightarrow> bool" where
  "is_rsp pkt \<longleftrightarrow> msg_type_of pkt \<in> set (map rsp_type rsp_cases)"

definition is_ind :: "u8 list \<Rightarrow> bool" where
  "is_ind pkt \<longleftrightarrow> msg_type_of pkt \<in> set (map ind_type ind_cases)"

abbreviation (input) sizeof_hal_ind_msg :: nat where "sizeof_hal_ind_msg \<equiv> 16"

text \<open>An indication is copied to a new list entry: two allocations, then the work is queued. A
  failed allocation drops the indication.\<close>

definition ind_enqueue :: "platform \<Rightarrow> u8 list \<Rightarrow> wcn36xx \<Rightarrow> wcn36xx option" where
  "ind_enqueue P pkt w =
     (let ok = p_alloc P (klog w) sizeof_hal_ind_msg; w = emit (Kmalloc sizeof_hal_ind_msg) w
      in if \<not> ok then Some w
         else (let ok = p_alloc P (klog w) (length pkt); w = emit (Kmalloc (length pkt)) w
               in if \<not> ok then Some w
                  else if \<not> hal_ind_wq w then None
                  else Some (w\<lparr> hal_ind_queue := hal_ind_queue w @ [pkt],
                                hal_ind_work_pending := True \<rparr>)))"

text \<open>The header of a packet shorter than a type number is read out of bounds, a response longer
  than \<open>hal_buf\<close> is copied out of bounds.\<close>

definition wcn36xx_smd_rsp_process :: "platform \<Rightarrow> u8 list \<Rightarrow> wcn36xx \<Rightarrow> wcn36xx option" where
  "wcn36xx_smd_rsp_process P pkt w =
     (if length pkt < 2 then None
      else if is_rsp pkt then do {
        hb \<leftarrow> hal_buf w;
        hb \<leftarrow> buf_write hb 0 pkt;
        Some (w\<lparr> hal_buf := Some hb, hal_rsp_len := length pkt,
                 hal_rsp_compl := Suc (hal_rsp_compl w) \<rparr>) }
      else if is_ind pkt then ind_enqueue P pkt w
      else Some w)"

fun smd_deliver :: "platform \<Rightarrow> u8 list list \<Rightarrow> wcn36xx \<Rightarrow> wcn36xx option" where
  "smd_deliver P [] w = Some w"
| "smd_deliver P (pkt # pkts) w = do {
     w \<leftarrow> wcn36xx_smd_rsp_process P pkt (emit (SmdRx pkt) w);
     smd_deliver P pkts w }"

section \<open>Sending a request\<close>

text \<open>\<open>wait_for_completion_timeout\<close> takes one completion if there is one.\<close>

definition wcn36xx_smd_send_and_wait :: "platform \<Rightarrow> nat \<Rightarrow> wcn36xx \<Rightarrow> (int \<times> wcn36xx) option" where
  "wcn36xx_smd_send_and_wait P len w = do {
     let w = w\<lparr> hal_rsp_compl := 0 \<rparr>;
     hb \<leftarrow> hal_buf w;
     m \<leftarrow> buf_read hb 0 len;
     let ret = p_smd_tx P (klog w) m;
     let w = emit (SmdTx m) w;
     if ret \<noteq> 0 then Some (ret, w)
     else do {
       w \<leftarrow> smd_deliver P (p_smd_rx P (klog w)) w;
       if hal_rsp_compl w = 0 then Some (- ETIME, w)
       else Some (0, w\<lparr> hal_rsp_compl := hal_rsp_compl w - 1 \<rparr>) } }"

definition PREPARE_HAL_BUF :: "u8 list \<Rightarrow> wcn36xx \<Rightarrow> wcn36xx option" where
  "PREPARE_HAL_BUF m w = do {
     hb \<leftarrow> hal_buf w;
     hb \<leftarrow> buf_write hb 0 m;
     Some (w\<lparr> hal_buf := Some hb \<rparr>) }"

text \<open>The status is an unsigned word returned as an \<^verbatim>\<open>int\<close>.\<close>

definition rsp_status_check :: "u8 list \<Rightarrow> nat \<Rightarrow> int option" where
  "rsp_status_check buf len =
     (if len < sizeof_hal_msg_header + 4 then Some (- EIO)
      else do {
        bs \<leftarrow> buf_read buf sizeof_hal_msg_header 4;
        let status = of_le32 bs;
        Some (if status \<noteq> WCN36XX_FW_MSG_RESULT_SUCCESS then sint status else 0) })"

definition wcn36xx_smd_rsp_status_check :: "wcn36xx \<Rightarrow> (int \<times> wcn36xx) option" where
  "wcn36xx_smd_rsp_status_check w = do {
     hb \<leftarrow> hal_buf w;
     r \<leftarrow> rsp_status_check hb (hal_rsp_len w);
     Some (r, w) }"

text \<open>Locking a mutex that is held blocks for ever: every command runs to its end in one thread.\<close>

definition hal_lock :: "wcn36xx \<Rightarrow> wcn36xx option" where
  "hal_lock w = (if hal_mutex w then None else Some (w\<lparr> hal_mutex := True \<rparr>))"

definition hal_unlock :: "wcn36xx \<Rightarrow> wcn36xx" where
  "hal_unlock w = w\<lparr> hal_mutex := False \<rparr>"

definition then_unlock :: "(int \<times> wcn36xx) option \<Rightarrow> (int \<times> wcn36xx) option" where
  "then_unlock r = do { (ret, w) \<leftarrow> r; Some (ret, hal_unlock w) }"

text \<open>The shape the commands share: request, wait, and the handler of the response; \<open>goto out\<close> on
  every error.\<close>

definition hal_request :: "platform \<Rightarrow> u8 list \<Rightarrow> (wcn36xx \<Rightarrow> (int \<times> wcn36xx) option)
     \<Rightarrow> wcn36xx \<Rightarrow> (int \<times> wcn36xx) option" where
  "hal_request P m rsp w = do {
     w \<leftarrow> PREPARE_HAL_BUF m w;
     (ret, w) \<leftarrow> wcn36xx_smd_send_and_wait P (length m) w;
     if ret \<noteq> 0 then Some (ret, w) else rsp w }"

definition hal_command :: "platform \<Rightarrow> u8 list \<Rightarrow> (wcn36xx \<Rightarrow> (int \<times> wcn36xx) option)
     \<Rightarrow> wcn36xx \<Rightarrow> (int \<times> wcn36xx) option" where
  "hal_command P m rsp w = do {
     w \<leftarrow> hal_lock w;
     then_unlock (hal_request P m rsp w) }"

section \<open>Safe operations\<close>

text \<open>The SSID of an interface fits its field.\<close>

definition ssids_ok :: "wcn36xx \<Rightarrow> bool" where
  "ssids_ok w \<longleftrightarrow> (\<forall>v. let s = vp_ssid (vif_priv w v) in
     unat (ssid_length s) \<le> 32 \<and> length (ssid_bytes s) = 32)"

lemma ssids_ok_frame [simp]:
  "ssids_ok (emit e w) = ssids_ok w" "ssids_ok (w\<lparr> hal_buf := b \<rparr>) = ssids_ok w"
  "ssids_ok (w\<lparr> hal_rsp_len := l \<rparr>) = ssids_ok w" "ssids_ok (w\<lparr> hal_rsp_compl := n \<rparr>) = ssids_ok w"
  "ssids_ok (w\<lparr> hal_ind_queue := q \<rparr>) = ssids_ok w"
  "ssids_ok (w\<lparr> hal_ind_work_pending := p \<rparr>) = ssids_ok w"
  "ssids_ok (w\<lparr> hal_mutex := m \<rparr>) = ssids_ok w" "ssids_ok (set_sta_priv s f w) = ssids_ok w"
  by (simp_all add: ssids_ok_def Let_def)

lemma ssids_ok_set_vif_priv [simp]:
  "(\<And>p. vp_ssid (f p) = vp_ssid p) \<Longrightarrow> ssids_ok (set_vif_priv v f w) = ssids_ok w"
  by (auto simp: ssids_ok_def set_vif_priv_def Let_def)

text \<open>When the work item of the indications is pending it finds an entry, and every entry has a message
  type.\<close>

definition ind_inv :: "wcn36xx \<Rightarrow> bool" where
  "ind_inv w \<longleftrightarrow> (hal_ind_work_pending w \<longrightarrow> hal_ind_queue w \<noteq> []) \<and>
     (\<forall>m \<in> set (hal_ind_queue w). 2 \<le> length m \<and> is_ind m)"

lemma ind_inv_frame [simp]:
  "ind_inv (emit e w) = ind_inv w" "ind_inv (w\<lparr> hal_buf := b \<rparr>) = ind_inv w"
  "ind_inv (w\<lparr> hal_rsp_len := l \<rparr>) = ind_inv w" "ind_inv (w\<lparr> hal_rsp_compl := n \<rparr>) = ind_inv w"
  "ind_inv (w\<lparr> hal_mutex := m \<rparr>) = ind_inv w" "ind_inv (set_sta_priv s f w) = ind_inv w"
  "ind_inv (set_vif_priv v g w) = ind_inv w"
  by (simp_all add: ind_inv_def)

lemma ind_inv_arrives [simp]:
  "ind_inv w \<Longrightarrow> 2 \<le> length pkt \<Longrightarrow> is_ind pkt \<Longrightarrow>
     q = hal_ind_queue w \<Longrightarrow> ind_inv (w\<lparr> hal_ind_queue := q @ [pkt], hal_ind_work_pending := True \<rparr>)"
  by (auto simp: ind_inv_def)

text \<open>What a command needs of the driver and leaves to the next one: the mutex is free, the buffer
  is there at its full size, the work queue of the indications exists and is sound, and the SSIDs
  fit.\<close>

definition hal_ready :: "wcn36xx \<Rightarrow> bool" where
  "hal_ready w \<longleftrightarrow>
     \<not> hal_mutex w \<and> map_option length (hal_buf w) = Some WCN36XX_HAL_BUF_SIZE \<and> hal_ind_wq w \<and>
     ssids_ok w \<and> ind_inv w"

text \<open>While a command holds the mutex.\<close>

definition hal_busy :: "wcn36xx \<Rightarrow> bool" where
  "hal_busy w \<longleftrightarrow>
     hal_mutex w \<and> map_option length (hal_buf w) = Some WCN36XX_HAL_BUF_SIZE \<and> hal_ind_wq w \<and>
     ssids_ok w \<and> ind_inv w"

text \<open>The packets of the firmware: at least a type number and at most the shared size of the
  channel.\<close>

definition smd_wf :: "platform \<Rightarrow> bool" where
  "smd_wf P \<longleftrightarrow> (\<forall>log. \<forall>pkt \<in> set (p_smd_rx P log). 2 \<le> length pkt \<and> length pkt \<le> WCN36XX_HAL_BUF_SIZE)"

definition op_safe :: "(wcn36xx \<Rightarrow> bool) \<Rightarrow> (wcn36xx \<Rightarrow> (int \<times> wcn36xx) option) \<Rightarrow> bool" where
  "op_safe I f \<longleftrightarrow> (\<forall>w. I w \<longrightarrow> (\<exists>r w'. f w = Some (r, w') \<and> I w'))"

lemma op_safeI [intro?]: "(\<And>w. I w \<Longrightarrow> \<exists>r w'. f w = Some (r, w') \<and> I w') \<Longrightarrow> op_safe I f"
  by (simp add: op_safe_def)

lemma op_safeD: "op_safe I f \<Longrightarrow> I w \<Longrightarrow> \<exists>r w'. f w = Some (r, w') \<and> I w'"
  by (simp add: op_safe_def)

lemma op_safe_const [safe_intros]: "op_safe I (\<lambda>w. Some (r, w))"
  by (simp add: op_safe_def)

lemma op_safe_map:
  "op_safe I f \<Longrightarrow> (\<And>r w. I w \<Longrightarrow> I (g r w)) \<Longrightarrow> op_safe I (\<lambda>w. do { (r, w) \<leftarrow> f w; Some (h r, g r w) })"
  unfolding op_safe_def by fastforce

section \<open>Facts about the core\<close>

lemma hal_busy_lock: "hal_ready w \<Longrightarrow> \<exists>w'. hal_lock w = Some w' \<and> hal_busy w'"
  by (simp add: hal_ready_def hal_busy_def hal_lock_def)

lemma hal_busy_unlock: "hal_busy w \<Longrightarrow> hal_ready (hal_unlock w)"
  by (simp add: hal_ready_def hal_busy_def hal_unlock_def)

lemma hal_busy_emit [simp]: "hal_busy (emit e w) = hal_busy w"
  by (simp add: hal_busy_def)

lemma hal_busy_buf: "hal_busy w \<Longrightarrow> \<exists>hb. hal_buf w = Some hb \<and> length hb = WCN36XX_HAL_BUF_SIZE"
  by (auto simp: hal_busy_def)

lemma PREPARE_HAL_BUF_ok:
  assumes "hal_busy w" and "length m \<le> WCN36XX_HAL_BUF_SIZE"
  shows "\<exists>hb. PREPARE_HAL_BUF m w = Some (w\<lparr> hal_buf := Some hb \<rparr>) \<and>
           length hb = WCN36XX_HAL_BUF_SIZE \<and> buf_read hb 0 (length m) = Some m"
proof -
  from hal_busy_buf [OF assms(1)] obtain hb where hb: "hal_buf w = Some hb" "length hb = 4096" by blast
  with assms(2) obtain hb' where w: "buf_write hb 0 m = Some hb'"
    using buf_write_Some [of 0 m hb] by auto
  from mem.rd_wr_same [OF w] mem.wr_size [OF w] hb w show ?thesis
    by (intro exI [of _ hb']) (simp add: PREPARE_HAL_BUF_def)
qed

lemma rsp_process_ok:
  assumes "2 \<le> length pkt" and "length pkt \<le> WCN36XX_HAL_BUF_SIZE" and "hal_busy w"
  shows "\<exists>w'. wcn36xx_smd_rsp_process P pkt w = Some w' \<and> hal_busy w'"
proof -
  from hal_busy_buf [OF assms(3)] obtain hb where hb: "hal_buf w = Some hb" "length hb = 4096" by blast
  then obtain hb' where w: "buf_write hb 0 pkt = Some hb'"
    using assms(2) buf_write_Some [of 0 pkt hb] by auto
  with buf_write_length [OF w] hb assms show ?thesis
    by (auto simp: wcn36xx_smd_rsp_process_def ind_enqueue_def Let_def hal_busy_def)
qed

lemma smd_deliver_ok:
  "\<forall>pkt \<in> set pkts. 2 \<le> length pkt \<and> length pkt \<le> WCN36XX_HAL_BUF_SIZE \<Longrightarrow> hal_busy w \<Longrightarrow>
     \<exists>w'. smd_deliver P pkts w = Some w' \<and> hal_busy w'"
proof (induction pkts arbitrary: w)
  case Nil
  then show ?case by simp
next
  case (Cons pkt pkts)
  then obtain w1 where "wcn36xx_smd_rsp_process P pkt (emit (SmdRx pkt) w) = Some w1" "hal_busy w1"
    using rsp_process_ok [of pkt "emit (SmdRx pkt) w" P] by auto
  with Cons show ?case by auto
qed

lemma send_and_wait_safe:
  assumes "smd_wf P" and "len \<le> WCN36XX_HAL_BUF_SIZE"
  shows "op_safe hal_busy (wcn36xx_smd_send_and_wait P len)"
proof
  fix w assume busy: "hal_busy w"
  then have busy0: "hal_busy (w\<lparr> hal_rsp_compl := 0 \<rparr>)" by (simp add: hal_busy_def)
  from hal_busy_buf [OF busy] obtain hb where hb: "hal_buf w = Some hb" "length hb = 4096" by blast
  let ?m = "take len (drop 0 hb)"
  let ?w = "emit (SmdTx ?m) (w\<lparr> hal_rsp_compl := 0 \<rparr>)"
  have m: "buf_read hb 0 len = Some ?m"
    using hb assms(2) by (simp add: buf_read_def)
  from assms(1) busy0 obtain w1 where "smd_deliver P (p_smd_rx P (klog ?w)) ?w = Some w1" "hal_busy w1"
    using smd_deliver_ok [of "p_smd_rx P (klog ?w)" ?w P] by (auto simp: smd_wf_def)
  moreover then have "hal_busy (w1\<lparr> hal_rsp_compl := n \<rparr>)" for n by (simp add: hal_busy_def)
  ultimately show "\<exists>r w'. wcn36xx_smd_send_and_wait P len w = Some (r, w') \<and> hal_busy w'"
    using hb m busy0 by (auto simp: wcn36xx_smd_send_and_wait_def Let_def)
qed

lemma rsp_status_check_safe [safe_intros]: "op_safe hal_busy wcn36xx_smd_rsp_status_check"
proof
  fix w assume busy: "hal_busy w"
  from hal_busy_buf [OF this] obtain hb where "hal_buf w = Some hb" "length hb = 4096" by blast
  with busy show "\<exists>r w'. wcn36xx_smd_rsp_status_check w = Some (r, w') \<and> hal_busy w'"
    by (simp add: wcn36xx_smd_rsp_status_check_def rsp_status_check_def buf_read_def Let_def)
qed

lemma hal_request_safe:
  assumes "smd_wf P" and "length m \<le> WCN36XX_HAL_BUF_SIZE" and "op_safe hal_busy rsp"
  shows "op_safe hal_busy (hal_request P m rsp)"
proof
  fix w assume busy: "hal_busy w"
  from PREPARE_HAL_BUF_ok [OF busy assms(2)] obtain hb where
    1: "PREPARE_HAL_BUF m w = Some (w\<lparr> hal_buf := Some hb \<rparr>)" "length hb = 4096" by blast
  with busy have "hal_busy (w\<lparr> hal_buf := Some hb \<rparr>)" by (simp add: hal_busy_def)
  from op_safeD [OF send_and_wait_safe [OF assms(1,2)] this] obtain r w1 where
    2: "wcn36xx_smd_send_and_wait P (length m) (w\<lparr> hal_buf := Some hb \<rparr>) = Some (r, w1)" "hal_busy w1"
    by blast
  with 1 op_safeD [OF assms(3) 2(2)]
  show "\<exists>r w'. hal_request P m rsp w = Some (r, w') \<and> hal_busy w'"
    by (auto simp: hal_request_def)
qed

lemma then_unlock_safe:
  assumes "op_safe hal_busy f"
  shows "op_safe hal_ready (\<lambda>w. do { w \<leftarrow> hal_lock w; then_unlock (f w) })"
proof
  fix w assume "hal_ready w"
  then obtain w1 where 1: "hal_lock w = Some w1" "hal_busy w1"
    using hal_busy_lock by blast
  with op_safeD [OF assms 1(2)] hal_busy_unlock
  show "\<exists>r w'. do { w \<leftarrow> hal_lock w; then_unlock (f w) } = Some (r, w') \<and> hal_ready w'"
    by (auto simp: then_unlock_def)
qed

lemma hal_command_safe [safe_intros]:
  assumes "smd_wf P" and "length m \<le> WCN36XX_HAL_BUF_SIZE" and "op_safe hal_busy rsp"
  shows "op_safe hal_ready (hal_command P m rsp)"
  unfolding hal_command_def using then_unlock_safe [OF hal_request_safe [OF assms]] .

section \<open>What the firmware answers\<close>

text \<open>The abstract view of an exchange: the transport's error, the timeout, or the last response
  that arrives before the wait ends.\<close>

definition firmware_answer :: "platform \<Rightarrow> kevent list \<Rightarrow> u8 list \<Rightarrow> int + u8 list" where
  "firmware_answer P log m =
     (let e = p_smd_tx P log m; rs = filter is_rsp (p_smd_rx P (SmdTx m # log))
      in if e \<noteq> 0 then Inl e else if rs = [] then Inl (- ETIME) else Inr (last rs))"

text \<open>What an exchange leaves alone: everything but the buffer, the completion, the indications
  and the trace.\<close>

definition same_but_hal :: "wcn36xx \<Rightarrow> wcn36xx \<Rightarrow> bool" where
  "same_but_hal w w' \<longleftrightarrow>
     w'\<lparr> hal_buf := hal_buf w, hal_rsp_len := hal_rsp_len w, hal_rsp_compl := hal_rsp_compl w,
         hal_ind_queue := hal_ind_queue w, hal_ind_work_pending := hal_ind_work_pending w,
         hal_mutex := hal_mutex w, klog := klog w \<rparr> = w"

lemma same_but_hal_refl [simp, intro]: "same_but_hal w w"
  by (simp add: same_but_hal_def)

lemma same_but_hal_fields:
  assumes "same_but_hal w w'"
  shows "vif_priv w' = vif_priv w" "sta_priv w' = sta_priv w" "vifs w' = vifs w"
    "stas w' = stas w" "vif_list w' = vif_list w" "dxe_ch w' = dxe_ch w" "hw_conf w' = hw_conf w"
    "nv w' = nv w" "fw_feat_caps w' = fw_feat_caps w" "fw_major w' = fw_major w"
    "fw_minor w' = fw_minor w" "fw_version w' = fw_version w" "fw_revision w' = fw_revision w"
    "hal_ind_wq w' = hal_ind_wq w" "chip_version w' = chip_version w"
    "skbs w' = skbs w" "tx_ack_skb w' = tx_ack_skb w" "dma_mem w' = dma_mem w"
    "mgmt_mem_pool w' = mgmt_mem_pool w" "data_mem_pool w' = data_mem_pool w" "dma_brk w' = dma_brk w"
    "skb_brk w' = skb_brk w"
  using assms unfolding atomize_conj by (cases w, cases w') (simp add: same_but_hal_def)

lemma same_but_hal_trans: "same_but_hal w w1 \<Longrightarrow> same_but_hal w1 w2 \<Longrightarrow> same_but_hal w w2"
  unfolding same_but_hal_def by (cases w; cases w1; cases w2) simp

lemma same_but_hal_updates [simp]:
  "same_but_hal w (w'\<lparr> hal_buf := b \<rparr>) = same_but_hal w w'"
  "same_but_hal w (w'\<lparr> hal_rsp_len := l \<rparr>) = same_but_hal w w'"
  "same_but_hal w (w'\<lparr> hal_rsp_compl := n \<rparr>) = same_but_hal w w'"
  "same_but_hal w (w'\<lparr> hal_ind_queue := q \<rparr>) = same_but_hal w w'"
  "same_but_hal w (w'\<lparr> hal_ind_work_pending := p \<rparr>) = same_but_hal w w'"
  "same_but_hal w (w'\<lparr> hal_mutex := m \<rparr>) = same_but_hal w w'"
  "same_but_hal w (emit e w') = same_but_hal w w'"
  by (simp_all add: same_but_hal_def emit_def)

text \<open>The requests sent so far, oldest first.\<close>

definition smd_sent :: "kevent list \<Rightarrow> u8 list list" where
  "smd_sent l = rev (List.map_filter (\<lambda>e. case e of SmdTx m \<Rightarrow> Some m | _ \<Rightarrow> None) l)"

lemma smd_sent_Cons [simp]:
  "smd_sent (e # l) = smd_sent l @ (case e of SmdTx m \<Rightarrow> [m] | _ \<Rightarrow> [])"
  by (simp add: smd_sent_def List.map_filter_simps split: kevent.split)

lemma rsp_process_sent:
  "wcn36xx_smd_rsp_process P pkt w = Some w' \<Longrightarrow> smd_sent (klog w') = smd_sent (klog w)"
  by (auto simp: wcn36xx_smd_rsp_process_def ind_enqueue_def Let_def split: if_splits bind_splits)

lemma smd_deliver_sent:
  "smd_deliver P pkts w = Some w' \<Longrightarrow> smd_sent (klog w') = smd_sent (klog w)"
  by (induction pkts arbitrary: w) (auto dest!: rsp_process_sent split: bind_splits)

lemma rsp_process_frame:
  "wcn36xx_smd_rsp_process P pkt w = Some w' \<Longrightarrow> same_but_hal w w' \<and>
     hal_rsp_compl w' = hal_rsp_compl w + (if is_rsp pkt then 1 else 0) \<and>
     (\<not> is_rsp pkt \<longrightarrow> hal_buf w' = hal_buf w \<and> hal_rsp_len w' = hal_rsp_len w)"
  by (auto simp: wcn36xx_smd_rsp_process_def ind_enqueue_def Let_def split: if_splits bind_splits)

lemma rsp_process_response:
  assumes "wcn36xx_smd_rsp_process P pkt w = Some w'" and "is_rsp pkt"
  shows "hal_rsp_len w' = length pkt \<and> (\<exists>hb. hal_buf w' = Some hb \<and> buf_read hb 0 (length pkt) = Some pkt)"
  using assms mem.rd_wr_same
  by (fastforce simp: wcn36xx_smd_rsp_process_def split: if_splits bind_splits)

lemma smd_deliver_spec:
  assumes "smd_deliver P pkts w = Some w'"
  defines "rs \<equiv> filter is_rsp pkts"
  shows "same_but_hal w w'" "hal_rsp_compl w' = hal_rsp_compl w + length rs"
    "rs \<noteq> [] \<Longrightarrow> hal_rsp_len w' = length (last rs) \<and>
       (\<exists>hb. hal_buf w' = Some hb \<and> buf_read hb 0 (length (last rs)) = Some (last rs))"
    "rs = [] \<Longrightarrow> hal_buf w' = hal_buf w \<and> hal_rsp_len w' = hal_rsp_len w"
proof -
  have "same_but_hal w w' \<and> hal_rsp_compl w' = hal_rsp_compl w + length rs \<and>
    (if rs = [] then hal_buf w' = hal_buf w \<and> hal_rsp_len w' = hal_rsp_len w
     else hal_rsp_len w' = length (last rs) \<and>
       (\<exists>hb. hal_buf w' = Some hb \<and> buf_read hb 0 (length (last rs)) = Some (last rs)))"
    using assms(1) unfolding rs_def
  proof (induction pkts arbitrary: w)
    case Nil
    then show ?case by simp
  next
    case (Cons pkt pkts)
    from Cons.prems obtain w1 where 1: "wcn36xx_smd_rsp_process P pkt (emit (SmdRx pkt) w) = Some w1"
      "smd_deliver P pkts w1 = Some w'" by (auto split: bind_splits)
    note f = rsp_process_frame [OF 1(1)] and ih = Cons.IH [OF 1(2)]
    have "same_but_hal w w1" using f same_but_hal_trans [of w "emit (SmdRx pkt) w" w1] by simp
    with ih have s: "same_but_hal w w'" using same_but_hal_trans by blast
    show ?case
    proof (cases "is_rsp pkt")
      case True
      with rsp_process_response [OF 1(1)] f ih s show ?thesis by auto
    next
      case False
      with f ih s show ?thesis by auto
    qed
  qed
  then show "same_but_hal w w'" "hal_rsp_compl w' = hal_rsp_compl w + length rs"
    "rs \<noteq> [] \<Longrightarrow> hal_rsp_len w' = length (last rs) \<and>
       (\<exists>hb. hal_buf w' = Some hb \<and> buf_read hb 0 (length (last rs)) = Some (last rs))"
    "rs = [] \<Longrightarrow> hal_buf w' = hal_buf w \<and> hal_rsp_len w' = hal_rsp_len w"
    by auto
qed

lemma send_and_wait_answer:
  assumes wf: "smd_wf P" and busy: "hal_busy w" and len: "len \<le> WCN36XX_HAL_BUF_SIZE"
    and m: "hal_buf w = Some hb" "buf_read hb 0 len = Some m"
  obtains w' where "hal_busy w'" "same_but_hal w w'" "smd_sent (klog w') = smd_sent (klog w) @ [m]"
    "wcn36xx_smd_send_and_wait P len w =
       Some (case firmware_answer P (klog w) m of Inl e \<Rightarrow> e | Inr _ \<Rightarrow> 0, w')"
    "\<And>pkt. firmware_answer P (klog w) m = Inr pkt \<Longrightarrow> hal_rsp_len w' = length pkt \<and>
       (\<exists>hb. hal_buf w' = Some hb \<and> buf_read hb 0 (length pkt) = Some pkt)"
proof -
  let ?w = "emit (SmdTx m) (w\<lparr> hal_rsp_compl := 0 \<rparr>)"
  have busy0: "hal_busy ?w" using busy by (simp add: hal_busy_def)
  have same0: "same_but_hal w ?w" by simp
  show ?thesis
  proof (cases "p_smd_tx P (klog w) m = 0")
    case False
    then have "wcn36xx_smd_send_and_wait P len w = Some (p_smd_tx P (klog w) m, ?w)"
      using m by (simp add: wcn36xx_smd_send_and_wait_def Let_def)
    with False busy0 same0 show ?thesis
      by (intro that [of ?w]) (simp_all add: firmware_answer_def Let_def)
  next
    case True
    from wf busy0 obtain w1 where d: "smd_deliver P (p_smd_rx P (SmdTx m # klog w)) ?w = Some w1" "hal_busy w1"
      using smd_deliver_ok [of "p_smd_rx P (SmdTx m # klog w)" ?w P] by (auto simp: smd_wf_def)
    note sp = smd_deliver_spec [OF d(1)]
    have sent: "smd_sent (klog w1) = smd_sent (klog w) @ [m]"
      using smd_deliver_sent [OF d(1)] by simp
    have same1: "same_but_hal w w1" using same_but_hal_trans [OF same0 sp(1)] .
    have run: "wcn36xx_smd_send_and_wait P len w =
        (if hal_rsp_compl w1 = 0 then Some (- ETIME, w1)
         else Some (0, w1\<lparr> hal_rsp_compl := hal_rsp_compl w1 - 1 \<rparr>))"
      using m True d by (simp add: wcn36xx_smd_send_and_wait_def Let_def)
    show ?thesis
    proof (cases "filter is_rsp (p_smd_rx P (SmdTx m # klog w)) = []")
      case none: True
      with run sp(2) True d(2) same1 sent show ?thesis
        by (intro that [of w1]) (simp_all add: firmware_answer_def Let_def)
    next
      case some: False
      have "hal_busy (w1\<lparr> hal_rsp_compl := hal_rsp_compl w1 - 1 \<rparr>)"
        using d(2) by (simp add: hal_busy_def)
      with some run sp(2) sp(3) [OF some] True same1 sent show ?thesis
        by (intro that [of "w1\<lparr> hal_rsp_compl := hal_rsp_compl w1 - 1 \<rparr>"])
           (simp_all add: firmware_answer_def Let_def)
    qed
  qed
qed

text \<open>A command refines the abstract exchange: it sends its message and nothing else, and either
  returns the error of the exchange or hands the last response to its handler.\<close>

lemma hal_command_answer:
  assumes wf: "smd_wf P" and ready: "hal_ready w" and len: "length m \<le> WCN36XX_HAL_BUF_SIZE"
  obtains (failed) e w' where "firmware_answer P (klog w) m = Inl e" "e \<noteq> 0"
      "hal_command P m rsp w = Some (e, w')" "hal_ready w'" "same_but_hal w w'"
      "smd_sent (klog w') = smd_sent (klog w) @ [m]"
    | (answered) pkt hb w1 where "firmware_answer P (klog w) m = Inr pkt"
      "hal_command P m rsp w = then_unlock (rsp w1)" "hal_busy w1" "same_but_hal w w1"
      "smd_sent (klog w1) = smd_sent (klog w) @ [m]" "hal_rsp_len w1 = length pkt"
      "hal_buf w1 = Some hb" "buf_read hb 0 (length pkt) = Some pkt"
proof -
  let ?w0 = "w\<lparr> hal_mutex := True \<rparr>"
  from ready have lock: "hal_lock w = Some ?w0" "hal_busy ?w0"
    by (simp_all add: hal_lock_def hal_ready_def hal_busy_def)
  from PREPARE_HAL_BUF_ok [OF lock(2) len] obtain hb where
    1: "PREPARE_HAL_BUF m ?w0 = Some (?w0\<lparr> hal_buf := Some hb \<rparr>)" "length hb = 4096"
    "buf_read hb 0 (length m) = Some m" by blast
  let ?w = "?w0\<lparr> hal_buf := Some hb \<rparr>"
  have busy: "hal_busy ?w" using lock(2) 1(2) by (simp add: hal_busy_def)
  have same: "same_but_hal w ?w" by simp
  have log: "klog ?w = klog w" by simp
  obtain w1 where 2: "hal_busy w1" "same_but_hal ?w w1"
    "smd_sent (klog w1) = smd_sent (klog w) @ [m]"
    "wcn36xx_smd_send_and_wait P (length m) ?w =
       Some (case firmware_answer P (klog w) m of Inl e \<Rightarrow> e | Inr _ \<Rightarrow> 0, w1)"
    "\<And>pkt. firmware_answer P (klog w) m = Inr pkt \<Longrightarrow> hal_rsp_len w1 = length pkt \<and>
       (\<exists>hb. hal_buf w1 = Some hb \<and> buf_read hb 0 (length pkt) = Some pkt)"
    using send_and_wait_answer [OF wf busy len _ 1(3)] unfolding log by auto
  have s1: "same_but_hal w w1" using same_but_hal_trans [OF same 2(2)] .
  show ?thesis
  proof (cases "firmware_answer P (klog w) m")
    case (Inl e)
    then have "e \<noteq> 0" by (auto simp: firmware_answer_def Let_def split: if_splits)
    then have "hal_command P m rsp w = Some (e, hal_unlock w1)"
      using Inl 2(4) lock(1) 1(1) by (simp add: hal_command_def hal_request_def then_unlock_def)
    moreover have "same_but_hal w (hal_unlock w1)" "klog (hal_unlock w1) = klog w1"
      using s1 by (simp_all add: hal_unlock_def)
    ultimately show ?thesis
      using failed Inl \<open>e \<noteq> 0\<close> hal_busy_unlock [OF 2(1)] 2(3) by simp
  next
    case (Inr pkt)
    then have "hal_command P m rsp w = then_unlock (rsp w1)"
      using 2(4) lock(1) 1(1) by (simp add: hal_command_def hal_request_def)
    with answered Inr 2 s1 show ?thesis by blast
  qed
qed

text \<open>The status a response carries.\<close>

definition rsp_status :: "u8 list \<Rightarrow> int" where
  "rsp_status pkt = (if length pkt < 12 then - EIO else sint (of_le32 (take 4 (drop 8 pkt))))"

lemma buf_read_part:
  "buf_read hb 0 n = Some pkt \<Longrightarrow> i + k \<le> n \<Longrightarrow> buf_read hb i k = Some (take k (drop i pkt))"
  by (auto simp: buf_read_def drop_take min_def split: if_splits)

lemma status_check_answered:
  assumes "hal_rsp_len w1 = length pkt" "hal_buf w1 = Some hb" "buf_read hb 0 (length pkt) = Some pkt"
  shows "wcn36xx_smd_rsp_status_check w1 = Some (rsp_status pkt, w1)"
  using assms buf_read_part [OF assms(3), of 8 4]
  by (auto simp: wcn36xx_smd_rsp_status_check_def rsp_status_check_def rsp_status_def Let_def)

lemma hal_status_command:
  assumes "smd_wf P" and "hal_ready w" and "length m \<le> WCN36XX_HAL_BUF_SIZE"
  obtains w' where "hal_command P m wcn36xx_smd_rsp_status_check w =
       Some (case firmware_answer P (klog w) m of Inl e \<Rightarrow> e | Inr pkt \<Rightarrow> rsp_status pkt, w')"
    "hal_ready w'" "same_but_hal w w'" "smd_sent (klog w') = smd_sent (klog w) @ [m]"
proof (cases rule: hal_command_answer [OF assms, of wcn36xx_smd_rsp_status_check])
  case (1 e w')
  with that show ?thesis by simp
next
  case (2 pkt hb w1)
  then have "hal_command P m wcn36xx_smd_rsp_status_check w = Some (rsp_status pkt, hal_unlock w1)"
    using status_check_answered [of w1 pkt hb] by (simp add: then_unlock_def)
  moreover have "same_but_hal w (hal_unlock w1)" "klog (hal_unlock w1) = klog w1"
    using 2 by (simp_all add: hal_unlock_def)
  ultimately show ?thesis
    using that 2 hal_busy_unlock by simp
qed

section \<open>The contract of the commands\<close>

text \<open>What no command touches: what mac80211 owns, and the DMA engine.\<close>

definition same_mac :: "wcn36xx \<Rightarrow> wcn36xx \<Rightarrow> bool" where
  "same_mac w w' \<longleftrightarrow>
     vifs w' = vifs w \<and> stas w' = stas w \<and> vif_list w' = vif_list w \<and> hw_conf w' = hw_conf w \<and>
     dxe_ch w' = dxe_ch w \<and> skbs w' = skbs w \<and> tx_ack_skb w' = tx_ack_skb w \<and> dma_mem w' = dma_mem w \<and>
     mgmt_mem_pool w' = mgmt_mem_pool w \<and> data_mem_pool w' = data_mem_pool w \<and> dma_brk w' = dma_brk w \<and>
     nv w' = nv w \<and> skb_brk w' = skb_brk w"

lemma same_mac_refl [simp]: "same_mac w w"
  by (simp add: same_mac_def)

lemma same_mac_trans: "same_mac w w1 \<Longrightarrow> same_mac w1 w2 \<Longrightarrow> same_mac w w2"
  by (simp add: same_mac_def)

lemma same_mac_hal: "same_but_hal w w' \<Longrightarrow> same_mac w w'"
  using same_but_hal_fields [of w w'] by (simp add: same_mac_def)

text \<open>A command keeps the driver ready for the next one and sends at most one message, whose header
  names the command and the message's length.\<close>

definition op_sends :: "hal_cmd \<Rightarrow> (wcn36xx \<Rightarrow> (int \<times> wcn36xx) option) \<Rightarrow> bool" where
  "op_sends c f \<longleftrightarrow> (\<forall>w. hal_ready w \<longrightarrow> (\<exists>r w' ms. f w = Some (r, w') \<and> hal_ready w' \<and>
     smd_sent (klog w') = smd_sent (klog w) @ ms \<and> length ms \<le> 1 \<and> list_all (hal_msg_ok c) ms \<and>
     same_mac w w'))"

lemma op_sendsD:
  assumes "op_sends c f" and "hal_ready w"
  obtains r w' ms where "f w = Some (r, w')" "hal_ready w'" "smd_sent (klog w') = smd_sent (klog w) @ ms"
    "length ms \<le> 1" "list_all (hal_msg_ok c) ms" "same_mac w w'"
  using assms unfolding op_sends_def by blast

lemma op_sends_safe: "op_sends c f \<Longrightarrow> op_safe hal_ready f"
  unfolding op_sends_def op_safe_def by blast

text \<open>A command that sends its message in any case.\<close>

definition op_posts :: "hal_cmd \<Rightarrow> (wcn36xx \<Rightarrow> (int \<times> wcn36xx) option) \<Rightarrow> bool" where
  "op_posts c f \<longleftrightarrow> (\<forall>w. hal_ready w \<longrightarrow> (\<exists>r w' m. f w = Some (r, w') \<and> hal_ready w' \<and>
     smd_sent (klog w') = smd_sent (klog w) @ [m] \<and> hal_msg_ok c m \<and> same_mac w w'))"

lemma op_postsD:
  assumes "op_posts c f" and "hal_ready w"
  obtains r w' m where "f w = Some (r, w')" "hal_ready w'" "smd_sent (klog w') = smd_sent (klog w) @ [m]"
    "hal_msg_ok c m" "same_mac w w'"
  using assms unfolding op_posts_def by blast

lemma op_posts_sends: "op_posts c f \<Longrightarrow> op_sends c f"
  unfolding op_sends_def
proof (intro allI impI)
  fix w assume "op_posts c f" "hal_ready w"
  then obtain r w' m where "f w = Some (r, w')" "hal_ready w'" "smd_sent (klog w') = smd_sent (klog w) @ [m]"
    "hal_msg_ok c m" "same_mac w w'" by (rule op_postsD)
  then show "\<exists>r w' ms. f w = Some (r, w') \<and> hal_ready w' \<and> smd_sent (klog w') = smd_sent (klog w) @ ms \<and>
      length ms \<le> 1 \<and> list_all (hal_msg_ok c) ms \<and> same_mac w w'"
    by (intro exI [of _ r] exI [of _ w'] exI [of _ "[m]"]) simp
qed

lemma op_posts_cong: "op_posts c f \<Longrightarrow> (\<And>w. hal_ready w \<Longrightarrow> g w = f w) \<Longrightarrow> op_posts c g"
  by (simp add: op_posts_def)

definition quiet :: "(wcn36xx \<Rightarrow> (int \<times> wcn36xx) option) \<Rightarrow> bool" where
  "quiet rsp \<longleftrightarrow> (\<forall>w r w'. rsp w = Some (r, w') \<longrightarrow> klog w' = klog w \<and> same_mac w w')"

lemma quietD: "quiet rsp \<Longrightarrow> rsp w = Some (r, w') \<Longrightarrow> klog w' = klog w \<and> same_mac w w'"
  by (simp add: quiet_def)

lemma quiet_status_check [safe_intros]: "quiet wcn36xx_smd_rsp_status_check"
  by (auto simp: quiet_def wcn36xx_smd_rsp_status_check_def split: bind_splits)

lemma quiet_const [safe_intros]: "quiet (\<lambda>w. Some (r, w))"
  by (simp add: quiet_def)

lemma hal_command_exact:
  assumes wf: "smd_wf P" and ready: "hal_ready w" and len: "length m \<le> WCN36XX_HAL_BUF_SIZE"
    and rsp: "op_safe hal_busy rsp" "quiet rsp"
  obtains r w' where "hal_command P m rsp w = Some (r, w')" "hal_ready w'"
    "smd_sent (klog w') = smd_sent (klog w) @ [m]" "same_mac w w'"
proof (cases rule: hal_command_answer [OF wf ready len, of rsp])
  case (1 e w')
  with that show ?thesis by (simp add: same_mac_hal)
next
  case (2 pkt hb w1)
  from op_safeD [OF rsp(1) 2(3)] obtain r w2 where 3: "rsp w1 = Some (r, w2)" "hal_busy w2" by blast
  moreover from quietD [OF rsp(2) 3(1)] have "klog w2 = klog w1" "same_mac w w2"
    using same_mac_trans [OF same_mac_hal [OF 2(4)]] by auto
  ultimately show ?thesis
    using 2(2,5) hal_busy_unlock [OF 3(2)] that [of r "hal_unlock w2"]
    by (simp add: then_unlock_def hal_unlock_def same_mac_def)
qed

lemma hal_command_posts:
  assumes wf: "smd_wf P" and m: "\<And>w. hal_ready w \<Longrightarrow> length (m w) \<le> WCN36XX_HAL_BUF_SIZE \<and> hal_msg_ok c (m w)"
    and rsp: "op_safe hal_busy rsp" "quiet rsp"
  shows "op_posts c (\<lambda>w. hal_command P (m w) rsp w)"
  unfolding op_posts_def
proof (intro allI impI)
  fix w assume ready: "hal_ready w"
  then have len: "length (m w) \<le> 4096" and ok: "hal_msg_ok c (m w)" using m by blast+
  obtain r w' where "hal_command P (m w) rsp w = Some (r, w')" "hal_ready w'"
    "smd_sent (klog w') = smd_sent (klog w) @ [m w]" "same_mac w w'"
    by (rule hal_command_exact [OF wf ready len rsp])
  with ok show "\<exists>r w' m'. hal_command P (m w) rsp w = Some (r, w') \<and> hal_ready w' \<and>
     smd_sent (klog w') = smd_sent (klog w) @ [m'] \<and> hal_msg_ok c m' \<and> same_mac w w'" by blast
qed

text \<open>A client's sequence of commands, whatever each returns.\<close>

fun run_ops :: "('c \<Rightarrow> wcn36xx \<Rightarrow> (int \<times> wcn36xx) option) \<Rightarrow> 'c list \<Rightarrow> wcn36xx
     \<Rightarrow> (int list \<times> wcn36xx) option" where
  "run_ops op [] w = Some ([], w)"
| "run_ops op (c # cs) w = do {
     (r, w) \<leftarrow> op c w;
     (rs, w) \<leftarrow> run_ops op cs w;
     Some (r # rs, w) }"

locale hal_ops =
  fixes run_op :: "platform \<Rightarrow> 'c \<Rightarrow> wcn36xx \<Rightarrow> (int \<times> wcn36xx) option"
    and cmd_of :: "'c \<Rightarrow> hal_cmd"
    and allowed :: "'c \<Rightarrow> bool"
  assumes run_op_sends: "smd_wf P \<Longrightarrow> allowed c \<Longrightarrow> op_sends (cmd_of c) (run_op P c)"
begin

lemma run_ops_sends:
  "smd_wf P \<Longrightarrow> hal_ready w \<Longrightarrow> list_all allowed cs \<Longrightarrow>
     \<exists>rs w' ms. run_ops (run_op P) cs w = Some (rs, w') \<and> length rs = length cs \<and> hal_ready w' \<and>
       smd_sent (klog w') = smd_sent (klog w) @ ms \<and>
       subseq (map msg_type_of ms) (map (\<lambda>c. req_type (cmd_of c)) cs) \<and>
       list_all (\<lambda>m. unat (msg_len_of m) = length m) ms"
proof (induction cs arbitrary: w)
  case Nil
  then show ?case by simp
next
  case (Cons c cs)
  then have "op_sends (cmd_of c) (run_op P c)" using run_op_sends by simp
  from op_sendsD [OF this Cons.prems(2)] obtain r w1 ms1 where
    1: "run_op P c w = Some (r, w1)" "hal_ready w1" "smd_sent (klog w1) = smd_sent (klog w) @ ms1"
    "length ms1 \<le> 1" "list_all (hal_msg_ok (cmd_of c)) ms1" by blast
  from Cons.IH [OF Cons.prems(1) 1(2)] Cons.prems(3) obtain rs w2 ms2 where
    2: "run_ops (run_op P) cs w1 = Some (rs, w2)" "length rs = length cs" "hal_ready w2"
    "smd_sent (klog w2) = smd_sent (klog w1) @ ms2"
    "subseq (map msg_type_of ms2) (map (\<lambda>c. req_type (cmd_of c)) cs)"
    "list_all (\<lambda>m. unat (msg_len_of m) = length m) ms2" by auto
  have "subseq (map msg_type_of (ms1 @ ms2)) (map (\<lambda>c. req_type (cmd_of c)) (c # cs))"
    "list_all (\<lambda>m. unat (msg_len_of m) = length m) (ms1 @ ms2)"
    using 1(4,5) 2(5,6) by (cases ms1; auto simp: hal_msg_ok_def)+
  with 1 2 show ?case by auto
qed

end

text \<open>A platform whose firmware answers every request with a response of type \<open>t\<close> and status \<open>s\<close>,
  for the witnesses.\<close>

definition status_rsp :: "hal_cmd \<Rightarrow> u32 \<Rightarrow> u8 list" where
  "status_rsp c s = wcn36xx_hal_msg_header (rsp_type c) 0 12 @ le32 s"

definition answering_platform :: "u8 list list \<Rightarrow> platform" where
  "answering_platform pkts = sample_platform\<lparr> p_smd_rx := (\<lambda>_. pkts) \<rparr>"

lemma sample_hal_ready: "hal_ready sample_wcn"
  by (simp add: hal_ready_def sample_wcn_def ssids_ok_def ind_inv_def sample_vif_priv_def)

lemma answering_platform_wf:
  "\<forall>pkt \<in> set pkts. 2 \<le> length pkt \<and> length pkt \<le> 4096 \<Longrightarrow> smd_wf (answering_platform pkts)"
  by (simp add: smd_wf_def answering_platform_def)

lemma status_rsp_facts [simp]:
  "length (status_rsp c s) = 12" "msg_type_of (status_rsp c s) = rsp_type c"
  "rsp_status (status_rsp c s) = sint s"
  by (simp_all add: status_rsp_def rsp_status_def wcn36xx_hal_msg_header_def msg_type_of_def)

lemma is_rsp_status_rsp [simp]: "is_rsp (status_rsp c s)"
  unfolding is_rsp_def status_rsp_facts by (cases c) (simp_all add: rsp_cases_def)

lemma answering_platform_answer:
  "is_rsp pkt \<Longrightarrow> firmware_answer (answering_platform [pkt]) log m = Inr pkt"
  by (simp add: firmware_answer_def answering_platform_def sample_platform_def)

end
