(* ===== verification/Hal_Structs.thy ===== *)
theory Hal_Structs
  imports Hal_Msg
begin

text \<open>
  The bodies of the requests, as the bytes of the packed structures of \<^verbatim>\<open>hal.h\<close> after the header.
  A function takes the fields a command sets and gives the whole body; the fields no
  command sets are zero, as \<^verbatim>\<open>INIT_HAL_MSG\<close> leaves them.
\<close>

abbreviation (input) ETH_ALEN :: nat where "ETH_ALEN \<equiv> 6"

text \<open>The six bytes of an address field.\<close>

definition eth_addr :: "u8 list \<Rightarrow> u8 list" where
  "eth_addr a = take ETH_ALEN (a @ replicate ETH_ALEN 0)"

lemma length_eth_addr [simp]: "length (eth_addr a) = 6"
  by (simp add: eth_addr_def)

lemma eth_addr_id [simp]: "length a = 6 \<Longrightarrow> eth_addr a = a"
  by (simp add: eth_addr_def)

definition byte_of_bool :: "bool \<Rightarrow> u8" where
  "byte_of_bool b = (if b then 1 else 0)"

section \<open>Start, stop and configuration\<close>

abbreviation (input) DRIVER_TYPE_PRODUCTION :: u32 where "DRIVER_TYPE_PRODUCTION \<equiv> 0"
abbreviation (input) HAL_STOP_TYPE_RF_KILL :: u32 where "HAL_STOP_TYPE_RF_KILL \<equiv> 2"

definition wcn36xx_hal_mac_start_parameters :: "u32 \<Rightarrow> u32 \<Rightarrow> u8 list" where
  "wcn36xx_hal_mac_start_parameters ty len = le32 ty @ le32 len"

definition wcn36xx_hal_cfg :: "u16 \<Rightarrow> u16 \<Rightarrow> u8 list" where
  "wcn36xx_hal_cfg ident len = le16 ident @ le16 len @ le16 0 @ le16 0"

definition wcn36xx_hal_mac_stop_req_params :: "u32 \<Rightarrow> u8 list" where
  "wcn36xx_hal_mac_stop_req_params reason = le32 reason"

definition wcn36xx_hal_update_cfg_req_msg :: "u32 \<Rightarrow> u8 list" where
  "wcn36xx_hal_update_cfg_req_msg len = le32 len"

section \<open>Scanning and channels\<close>

abbreviation (input) sizeof_mac_mgmt_hdr :: nat where "sizeof_mac_mgmt_hdr \<equiv> 24"
abbreviation (input) sizeof_scan_entry :: nat where "sizeof_scan_entry \<equiv> 3"
abbreviation (input) WCN36XX_HAL_PNO_MAX_NETW_CHANNELS :: nat where
  "WCN36XX_HAL_PNO_MAX_NETW_CHANNELS \<equiv> 26"

definition wcn36xx_hal_init_scan_req_msg :: "wcn36xx_hal_sys_mode \<Rightarrow> u8 list" where
  "wcn36xx_hal_init_scan_req_msg mode =
     le32 (sys_mode_val mode) @ replicate ETH_ALEN 0 @ [0, 0, 0] @
     replicate sizeof_mac_mgmt_hdr 0 @ replicate sizeof_scan_entry 0"

definition wcn36xx_hal_start_scan_req_msg :: "u8 \<Rightarrow> u8 list" where
  "wcn36xx_hal_start_scan_req_msg chan = [chan]"

definition wcn36xx_hal_end_scan_req_msg :: "u8 \<Rightarrow> u8 list" where
  "wcn36xx_hal_end_scan_req_msg chan = [chan]"

definition wcn36xx_hal_finish_scan_req_msg :: "wcn36xx_hal_sys_mode \<Rightarrow> u8 list" where
  "wcn36xx_hal_finish_scan_req_msg mode =
     le32 (sys_mode_val mode) @ [0] @ le32 0 @ replicate ETH_ALEN 0 @ [0, 0, 0] @
     replicate sizeof_mac_mgmt_hdr 0 @ replicate sizeof_scan_entry 0"

definition wcn36xx_hal_switch_channel_req_msg :: "u8 \<Rightarrow> u8 \<Rightarrow> u8 \<Rightarrow> u8 list \<Rightarrow> u8 list" where
  "wcn36xx_hal_switch_channel_req_msg chan tx_mgmt_power max_tx_power self_sta_mac =
     [chan, 0] @ le32 0 @ [tx_mgmt_power, max_tx_power] @ eth_addr self_sta_mac @
     replicate ETH_ALEN 0"

definition wcn36xx_hal_update_scan_params_req ::
  "u8 \<Rightarrow> u16 \<Rightarrow> u16 \<Rightarrow> u16 \<Rightarrow> u16 \<Rightarrow> u8 list" where
  "wcn36xx_hal_update_scan_params_req channel_count active_min active_max passive_min passive_max =
     [0, 0, channel_count] @ replicate WCN36XX_HAL_PNO_MAX_NETW_CHANNELS 0 @
     le16 active_min @ le16 active_max @ le16 passive_min @ le16 passive_max @ le32 0"

section \<open>Stations, links and BSSs\<close>

definition wcn36xx_hal_add_sta_self_req :: "u8 list \<Rightarrow> u8 list" where
  "wcn36xx_hal_add_sta_self_req self_addr = eth_addr self_addr @ le32 0"

definition wcn36xx_hal_del_sta_self_req_msg :: "u8 list \<Rightarrow> u8 list" where
  "wcn36xx_hal_del_sta_self_req_msg self_addr = eth_addr self_addr"

definition wcn36xx_hal_delete_sta_req_msg :: "u8 \<Rightarrow> u8 list" where
  "wcn36xx_hal_delete_sta_req_msg sta_idx = [sta_idx]"

definition wcn36xx_hal_delete_bss_req_msg :: "u8 \<Rightarrow> u8 list" where
  "wcn36xx_hal_delete_bss_req_msg bss_idx = [bss_idx]"

definition wcn36xx_hal_join_req_msg ::
  "u8 list \<Rightarrow> u8 \<Rightarrow> u8 list \<Rightarrow> phy_chan_bond_state \<Rightarrow> wcn36xx_hal_link_state \<Rightarrow> u8 \<Rightarrow> u8 list" where
  "wcn36xx_hal_join_req_msg bssid channel self_mac second link max_tx_power =
     eth_addr bssid @ [channel] @ eth_addr self_mac @ [0] @ le32 (chan_bond_val second) @
     le32 (link_state_val link) @ [max_tx_power]"

definition wcn36xx_hal_set_link_state_req_msg ::
  "u8 list \<Rightarrow> wcn36xx_hal_link_state \<Rightarrow> u8 list \<Rightarrow> u8 list" where
  "wcn36xx_hal_set_link_state_req_msg bssid state self_mac =
     eth_addr bssid @ le32 (link_state_val state) @ eth_addr self_mac"

section \<open>Keys\<close>

abbreviation (input) WCN36XX_HAL_MAC_MAX_KEY_LENGTH :: nat where
  "WCN36XX_HAL_MAC_MAX_KEY_LENGTH \<equiv> 32"
abbreviation (input) sizeof_hal_keys :: nat where "sizeof_hal_keys \<equiv> 57"

text \<open>\<open>keylen\<close> bytes copied into a key array: reading past the key or writing past the array is
  undefined.\<close>

definition key_bytes :: "u8 list \<Rightarrow> u8 \<Rightarrow> u8 list option" where
  "key_bytes key keylen =
     (if unat keylen \<le> WCN36XX_HAL_MAC_MAX_KEY_LENGTH \<and> unat keylen \<le> length key
      then Some (take (unat keylen) key @ replicate (WCN36XX_HAL_MAC_MAX_KEY_LENGTH - unat keylen) 0)
      else None)"

definition wcn36xx_hal_keys :: "u8 \<Rightarrow> u8 \<Rightarrow> ani_key_direction \<Rightarrow> u8 \<Rightarrow> u16 \<Rightarrow> u8 list \<Rightarrow> u8 list" where
  "wcn36xx_hal_keys ident unicast direction pae_role len key =
     [ident, unicast] @ le32 (key_direction_val direction) @ replicate 16 0 @ [pae_role] @
     le16 len @ key"

definition wcn36xx_hal_set_sta_key_params :: "u16 \<Rightarrow> ani_ed_type \<Rightarrow> u8 list \<Rightarrow> u8 \<Rightarrow> u8 list" where
  "wcn36xx_hal_set_sta_key_params sta_idx enc_type key0 single_tid_rc =
     le16 sta_idx @ le32 (ed_type_val enc_type) @ le32 0 @ [0] @
     key0 @ replicate (3 * sizeof_hal_keys) 0 @ [single_tid_rc]"

definition wcn36xx_hal_set_bss_key_req_msg :: "u8 \<Rightarrow> ani_ed_type \<Rightarrow> u8 \<Rightarrow> u8 list \<Rightarrow> u8 list" where
  "wcn36xx_hal_set_bss_key_req_msg bss_idx enc_type num_keys key0 =
     [bss_idx] @ le32 (ed_type_val enc_type) @ [num_keys] @
     key0 @ replicate (3 * sizeof_hal_keys) 0 @ [0]"

definition wcn36xx_hal_remove_bss_key_req_msg :: "u8 \<Rightarrow> ani_ed_type \<Rightarrow> u8 \<Rightarrow> u8 list" where
  "wcn36xx_hal_remove_bss_key_req_msg bss_idx enc_type key_id =
     [bss_idx] @ le32 (ed_type_val enc_type) @ [key_id] @ le32 0"

definition wcn36xx_hal_remove_sta_key_req_msg :: "u16 \<Rightarrow> ani_ed_type \<Rightarrow> u8 \<Rightarrow> u8 list" where
  "wcn36xx_hal_remove_sta_key_req_msg sta_idx enc_type key_id =
     le16 sta_idx @ le32 (ed_type_val enc_type) @ [key_id, 0]"

section \<open>Power save\<close>

abbreviation (input) WCN36XX_HAL_KEEP_ALIVE_NULL_PKT :: int where
  "WCN36XX_HAL_KEEP_ALIVE_NULL_PKT \<equiv> 1"
abbreviation (input) WCN36XX_HAL_KEEP_ALIVE_UNSOLICIT_ARP_RSP :: int where
  "WCN36XX_HAL_KEEP_ALIVE_UNSOLICIT_ARP_RSP \<equiv> 2"
abbreviation (input) WCN36XX_KEEP_ALIVE_TIME_PERIOD :: u32 where
  "WCN36XX_KEEP_ALIVE_TIME_PERIOD \<equiv> 30"

definition wcn36xx_hal_enter_bmps_req_msg :: "u8 \<Rightarrow> u64 \<Rightarrow> u8 \<Rightarrow> u8 list" where
  "wcn36xx_hal_enter_bmps_req_msg bss_idx tbtt dtim_period =
     [bss_idx] @ le64 tbtt @ [0, dtim_period] @ le32 0 @ le32 0 @ [0]"

definition wcn36xx_hal_exit_bmps_req_msg :: "u8 \<Rightarrow> u8 list" where
  "wcn36xx_hal_exit_bmps_req_msg bss_idx = [0, bss_idx]"

definition wcn36xx_hal_set_power_params_req_msg :: "u32 \<Rightarrow> u32 \<Rightarrow> u32 \<Rightarrow> u8 list" where
  "wcn36xx_hal_set_power_params_req_msg ignore_dtim dtim_period listen_interval =
     le32 ignore_dtim @ le32 dtim_period @ le32 listen_interval @ le32 0 @ le32 0 @ le32 0"

definition wcn36xx_hal_keep_alive_req_msg :: "u8 \<Rightarrow> u32 \<Rightarrow> u8 \<Rightarrow> u8 list" where
  "wcn36xx_hal_keep_alive_req_msg packet_type time_period bss_idx =
     [packet_type] @ le32 time_period @ replicate 4 0 @ replicate 4 0 @ replicate ETH_ALEN 0 @
     [bss_idx]"

definition wcn36xx_hal_dump_cmd_req_msg :: "u32 \<Rightarrow> u32 \<Rightarrow> u32 \<Rightarrow> u32 \<Rightarrow> u32 \<Rightarrow> u8 list" where
  "wcn36xx_hal_dump_cmd_req_msg a1 a2 a3 a4 a5 = le32 a1 @ le32 a2 @ le32 a3 @ le32 a4 @ le32 a5"

section \<open>Block acknowledgement\<close>

definition wcn36xx_hal_add_ba_session_req_msg ::
  "u16 \<Rightarrow> u8 list \<Rightarrow> u8 \<Rightarrow> u8 \<Rightarrow> u8 \<Rightarrow> u16 \<Rightarrow> u16 \<Rightarrow> u16 \<Rightarrow> u8 \<Rightarrow> u8 list" where
  "wcn36xx_hal_add_ba_session_req_msg sta_idx mac dialog_token tid policy buffer_size timeout ssn dir =
     le16 sta_idx @ eth_addr mac @ [dialog_token, tid, policy] @ le16 buffer_size @ le16 timeout @
     le16 ssn @ [dir]"

definition wcn36xx_hal_add_ba_req_msg :: "u8 \<Rightarrow> u8 \<Rightarrow> u8 list" where
  "wcn36xx_hal_add_ba_req_msg session_id win_size = [session_id, win_size]"

definition wcn36xx_hal_trigger_ba_req_msg :: "u8 \<Rightarrow> u16 \<Rightarrow> u8 list" where
  "wcn36xx_hal_trigger_ba_req_msg session_id candidate_cnt = [session_id] @ le16 candidate_cnt"

definition wcn36xx_hal_trigger_ba_req_candidate :: "u8 \<Rightarrow> u8 \<Rightarrow> u8 list" where
  "wcn36xx_hal_trigger_ba_req_candidate sta_idx tid_bitmap = [sta_idx, tid_bitmap]"

definition wcn36xx_hal_del_ba_req_msg :: "u16 \<Rightarrow> u8 \<Rightarrow> u8 \<Rightarrow> u8 list" where
  "wcn36xx_hal_del_ba_req_msg sta_idx tid dir = le16 sta_idx @ [tid, dir]"

section \<open>Templates, filters, capabilities\<close>

abbreviation (input) BEACON_TEMPLATE_SIZE :: nat where "BEACON_TEMPLATE_SIZE \<equiv> 0x17C"
abbreviation (input) TIM_MIN_PVM_SIZE :: int where "TIM_MIN_PVM_SIZE \<equiv> 6"
abbreviation (input) sizeof_mc_addr_list_type :: nat where "sizeof_mc_addr_list_type \<equiv> 1446"
abbreviation (input) WCN36XX_HAL_MAX_NUM_MULTICAST_ADDRESS :: nat where
  "WCN36XX_HAL_MAX_NUM_MULTICAST_ADDRESS \<equiv> 240"

definition wcn36xx_hal_send_beacon_req_msg ::
  "u32 \<Rightarrow> u32 \<Rightarrow> u8 list \<Rightarrow> u8 list \<Rightarrow> u32 \<Rightarrow> u16 \<Rightarrow> u8 list" where
  "wcn36xx_hal_send_beacon_req_msg beacon_length6 beacon_length beacon bssid tim_ie_offset p2p_ie_offset =
     le32 beacon_length6 @ le32 beacon_length @ beacon @ eth_addr bssid @ le32 tim_ie_offset @
     le16 p2p_ie_offset"

text \<open>Not packed: two bytes of padding follow the address.\<close>

definition wcn36xx_hal_send_probe_resp_req_msg :: "u8 list \<Rightarrow> u32 \<Rightarrow> u8 list \<Rightarrow> u8 list" where
  "wcn36xx_hal_send_probe_resp_req_msg template len bssid =
     template @ le32 len @ replicate 32 0 @ eth_addr bssid @ [0, 0]"

record wcn36xx_hal_rcv_flt_mc_addr_list_type =
  data_offset :: u8
  mc_addr_count :: u32
  mc_addr :: "u8 list list"
  mc_bss_index :: u8

definition mc_addr_list_bytes :: "wcn36xx_hal_rcv_flt_mc_addr_list_type \<Rightarrow> u8 list" where
  "mc_addr_list_bytes l =
     [data_offset l] @ le32 (mc_addr_count l) @
     take (ETH_ALEN * WCN36XX_HAL_MAX_NUM_MULTICAST_ADDRESS)
       (concat (map eth_addr (mc_addr l)) @
        replicate (ETH_ALEN * WCN36XX_HAL_MAX_NUM_MULTICAST_ADDRESS) 0) @
     [mc_bss_index l]"

definition wcn36xx_hal_feat_caps_msg :: "u32 list \<Rightarrow> u8 list" where
  "wcn36xx_hal_feat_caps_msg caps = concat (map le32 caps)"

section \<open>The NV image\<close>

definition wcn36xx_hal_nv_img_download_req_msg :: "u16 \<Rightarrow> u16 \<Rightarrow> u32 \<Rightarrow> u8 list" where
  "wcn36xx_hal_nv_img_download_req_msg frag_number last_fragment nv_img_buffer_size =
     le16 frag_number @ le16 last_fragment @ le32 nv_img_buffer_size"

section \<open>Sizes\<close>

lemma key_bytes_length [simp]: "key_bytes key n = Some k \<Longrightarrow> length k = 32"
  by (auto simp: key_bytes_def split: if_splits)

lemma hal_keys_length [simp]: "length (wcn36xx_hal_keys i u d p n k) = 25 + length k"
  by (simp add: wcn36xx_hal_keys_def)

lemma hal_struct_sizes [simp, layout_simps]:
  "length (wcn36xx_hal_mac_start_parameters ty len) = 8"
  "length (wcn36xx_hal_cfg i16 l16) = 8"
  "length (wcn36xx_hal_mac_stop_req_params r) = 4"
  "length (wcn36xx_hal_update_cfg_req_msg len) = 4"
  "length (wcn36xx_hal_init_scan_req_msg m) = 40"
  "length (wcn36xx_hal_start_scan_req_msg c) = 1"
  "length (wcn36xx_hal_end_scan_req_msg c) = 1"
  "length (wcn36xx_hal_finish_scan_req_msg m) = 45"
  "length (wcn36xx_hal_switch_channel_req_msg c t x a) = 20"
  "length (wcn36xx_hal_update_scan_params_req cc a1 a2 p1 p2) = 41"
  "length (wcn36xx_hal_add_sta_self_req a) = 10"
  "length (wcn36xx_hal_del_sta_self_req_msg a) = 6"
  "length (wcn36xx_hal_delete_sta_req_msg i8) = 1"
  "length (wcn36xx_hal_delete_bss_req_msg i8) = 1"
  "length (wcn36xx_hal_join_req_msg a c a' s l x) = 23"
  "length (wcn36xx_hal_set_link_state_req_msg a l a') = 16"
  "length (wcn36xx_hal_remove_bss_key_req_msg i8 e k8) = 10"
  "length (wcn36xx_hal_remove_sta_key_req_msg i16 e k8) = 8"
  "length (wcn36xx_hal_enter_bmps_req_msg i8 tb d) = 20"
  "length (wcn36xx_hal_exit_bmps_req_msg i8) = 2"
  "length (wcn36xx_hal_set_power_params_req_msg x1 x2 x3) = 24"
  "length (wcn36xx_hal_keep_alive_req_msg p8 x1 i8) = 20"
  "length (wcn36xx_hal_dump_cmd_req_msg x1 x2 x3 x4 x5) = 20"
  "length (wcn36xx_hal_add_ba_session_req_msg i16 a d8 t8 p8 b16 o16 s16 r8) = 18"
  "length (wcn36xx_hal_add_ba_req_msg i8 w8) = 2"
  "length (wcn36xx_hal_trigger_ba_req_msg i8 c16) = 3"
  "length (wcn36xx_hal_trigger_ba_req_candidate i8 t8) = 2"
  "length (wcn36xx_hal_del_ba_req_msg i16 t8 d8) = 4"
  "length (wcn36xx_hal_nv_img_download_req_msg f16 l16 x1) = 8"
  "length (mc_addr_list_bytes l') = 1446"
  by (simp_all add: wcn36xx_hal_mac_start_parameters_def wcn36xx_hal_cfg_def
      wcn36xx_hal_mac_stop_req_params_def wcn36xx_hal_update_cfg_req_msg_def
      wcn36xx_hal_init_scan_req_msg_def wcn36xx_hal_start_scan_req_msg_def
      wcn36xx_hal_end_scan_req_msg_def wcn36xx_hal_finish_scan_req_msg_def
      wcn36xx_hal_switch_channel_req_msg_def wcn36xx_hal_update_scan_params_req_def
      wcn36xx_hal_add_sta_self_req_def wcn36xx_hal_del_sta_self_req_msg_def
      wcn36xx_hal_delete_sta_req_msg_def wcn36xx_hal_delete_bss_req_msg_def
      wcn36xx_hal_join_req_msg_def wcn36xx_hal_set_link_state_req_msg_def
      wcn36xx_hal_remove_bss_key_req_msg_def wcn36xx_hal_remove_sta_key_req_msg_def
      wcn36xx_hal_enter_bmps_req_msg_def wcn36xx_hal_exit_bmps_req_msg_def
      wcn36xx_hal_set_power_params_req_msg_def wcn36xx_hal_keep_alive_req_msg_def
      wcn36xx_hal_dump_cmd_req_msg_def wcn36xx_hal_add_ba_session_req_msg_def
      wcn36xx_hal_add_ba_req_msg_def wcn36xx_hal_trigger_ba_req_msg_def
      wcn36xx_hal_trigger_ba_req_candidate_def wcn36xx_hal_del_ba_req_msg_def
      wcn36xx_hal_nv_img_download_req_msg_def mc_addr_list_bytes_def)

lemma hal_key_struct_sizes [simp, layout_simps]:
  "length (wcn36xx_hal_set_sta_key_params i16 e k0 s8) = 183 + length k0"
  "length (wcn36xx_hal_set_bss_key_req_msg i8 e n8 k0) = 178 + length k0"
  by (simp_all add: wcn36xx_hal_set_sta_key_params_def wcn36xx_hal_set_bss_key_req_msg_def)

lemma hal_template_sizes [simp, layout_simps]:
  "length (wcn36xx_hal_send_beacon_req_msg l6 l b a t p) = 20 + length b"
  "length (wcn36xx_hal_send_probe_resp_req_msg b l a) = 44 + length b"
  by (simp_all add: wcn36xx_hal_send_beacon_req_msg_def wcn36xx_hal_send_probe_resp_req_msg_def)

lemma feat_caps_msg_length [simp, layout_simps]:
  "length (wcn36xx_hal_feat_caps_msg caps) = 4 * length caps"
  by (induction caps) (simp_all add: wcn36xx_hal_feat_caps_msg_def)

end
