(* ===== verification/Smd_Cmds.thy ===== *)
theory Smd_Cmds
  imports Smd_Core Hal_Structs
begin

text \<open>
  The HAL commands of \<^verbatim>\<open>smd.c\<close> that send a structure of fixed size and check a status: stop,
  scanning, channels, self stations, links, keys, power save, block acknowledgement, the multicast
  list, and the commands with a response handler of their own. Each is one request in the shape of
  \<open>hal_command\<close>; what differs is the message and the handler.
\<close>

abbreviation (input) WCN36XX_HW_CHANNEL :: "wcn36xx \<Rightarrow> u16" where
  "WCN36XX_HW_CHANNEL w \<equiv> conf_hw_value (hw_conf w)"
abbreviation (input) WCN36XX_LISTEN_INTERVAL :: "wcn36xx \<Rightarrow> u16" where
  "WCN36XX_LISTEN_INTERVAL w \<equiv> conf_listen_interval (hw_conf w)"
abbreviation (input) WCN36XX_AGGR_BUFFER_SIZE :: nat where "WCN36XX_AGGR_BUFFER_SIZE \<equiv> 64"

section \<open>Stop and scanning\<close>

definition wcn36xx_smd_stop :: "platform \<Rightarrow> wcn36xx \<Rightarrow> (int \<times> wcn36xx) option" where
  "wcn36xx_smd_stop P w =
     hal_command P (INIT_HAL_MSG HAL_STOP (wcn36xx_hal_mac_stop_req_params HAL_STOP_TYPE_RF_KILL))
       wcn36xx_smd_rsp_status_check w"

definition wcn36xx_smd_init_scan :: "platform \<Rightarrow> wcn36xx_hal_sys_mode \<Rightarrow> wcn36xx \<Rightarrow> (int \<times> wcn36xx) option" where
  "wcn36xx_smd_init_scan P mode w =
     hal_command P (INIT_HAL_MSG HAL_INIT_SCAN (wcn36xx_hal_init_scan_req_msg mode))
       wcn36xx_smd_rsp_status_check w"

definition wcn36xx_smd_start_scan :: "platform \<Rightarrow> wcn36xx \<Rightarrow> (int \<times> wcn36xx) option" where
  "wcn36xx_smd_start_scan P w =
     hal_command P (INIT_HAL_MSG HAL_START_SCAN
         (wcn36xx_hal_start_scan_req_msg (ucast (WCN36XX_HW_CHANNEL w))))
       wcn36xx_smd_rsp_status_check w"

definition wcn36xx_smd_end_scan :: "platform \<Rightarrow> wcn36xx \<Rightarrow> (int \<times> wcn36xx) option" where
  "wcn36xx_smd_end_scan P w =
     hal_command P (INIT_HAL_MSG HAL_END_SCAN
         (wcn36xx_hal_end_scan_req_msg (ucast (WCN36XX_HW_CHANNEL w))))
       wcn36xx_smd_rsp_status_check w"

definition wcn36xx_smd_finish_scan :: "platform \<Rightarrow> wcn36xx_hal_sys_mode \<Rightarrow> wcn36xx \<Rightarrow> (int \<times> wcn36xx) option" where
  "wcn36xx_smd_finish_scan P mode w =
     hal_command P (INIT_HAL_MSG HAL_FINISH_SCAN (wcn36xx_hal_finish_scan_req_msg mode))
       wcn36xx_smd_rsp_status_check w"

definition wcn36xx_smd_switch_channel_rsp :: "wcn36xx \<Rightarrow> (int \<times> wcn36xx) option" where
  "wcn36xx_smd_switch_channel_rsp w = wcn36xx_smd_rsp_status_check w"

definition wcn36xx_smd_switch_channel :: "platform \<Rightarrow> nat \<Rightarrow> int \<Rightarrow> wcn36xx \<Rightarrow> (int \<times> wcn36xx) option" where
  "wcn36xx_smd_switch_channel P v ch w =
     hal_command P (INIT_HAL_MSG HAL_CH_SWITCH
         (wcn36xx_hal_switch_channel_req_msg (word_of_int ch) 0xbf 0xbf (vif_addr (vifs w v))))
       wcn36xx_smd_switch_channel_rsp w"

text \<open>The response's status is read, and the bit of the PNO version cleared in \<open>hal_buf\<close>, whatever
  the length of the response.\<close>

definition wcn36xx_smd_update_scan_params_rsp :: "wcn36xx \<Rightarrow> (int \<times> wcn36xx) option" where
  "wcn36xx_smd_update_scan_params_rsp w = do {
     hb \<leftarrow> hal_buf w;
     bs \<leftarrow> buf_read hb sizeof_hal_msg_header 4;
     let status = of_le32 bs AND NOT 0x8000;
     hb \<leftarrow> buf_write hb sizeof_hal_msg_header (le32 status);
     let w = w\<lparr> hal_buf := Some hb \<rparr>;
     Some (if status \<noteq> WCN36XX_FW_MSG_RESULT_SUCCESS then sint status else 0, w) }"

definition wcn36xx_smd_update_scan_params :: "platform \<Rightarrow> wcn36xx \<Rightarrow> (int \<times> wcn36xx) option" where
  "wcn36xx_smd_update_scan_params P w =
     hal_command P (INIT_HAL_MSG HAL_UPDATE_SCAN_PARAM
         (wcn36xx_hal_update_scan_params_req 26 60 120 60 110))
       wcn36xx_smd_update_scan_params_rsp w"

section \<open>Stations and links\<close>

abbreviation (input) sizeof_add_sta_self_rsp :: nat where "sizeof_add_sta_self_rsp \<equiv> 15"

definition wcn36xx_smd_add_sta_self_rsp :: "nat \<Rightarrow> wcn36xx \<Rightarrow> (int \<times> wcn36xx) option" where
  "wcn36xx_smd_add_sta_self_rsp v w =
     (if hal_rsp_len w < sizeof_add_sta_self_rsp then Some (- EINVAL, w)
      else do {
        hb \<leftarrow> hal_buf w;
        bs \<leftarrow> buf_read hb sizeof_hal_msg_header 7;
        let status = of_le32 (take 4 bs);
        if status \<noteq> WCN36XX_FW_MSG_RESULT_SUCCESS then Some (sint status, w)
        else Some (0, set_vif_priv v (\<lambda>vp. vp\<lparr> self_sta_index := bs ! 4,
                                                self_dpu_desc_index := bs ! 5 \<rparr>) w) })"

definition wcn36xx_smd_add_sta_self :: "platform \<Rightarrow> nat \<Rightarrow> wcn36xx \<Rightarrow> (int \<times> wcn36xx) option" where
  "wcn36xx_smd_add_sta_self P v w =
     hal_command P (INIT_HAL_MSG HAL_ADD_STA_SELF
         (wcn36xx_hal_add_sta_self_req (vif_addr (vifs w v))))
       (wcn36xx_smd_add_sta_self_rsp v) w"

definition wcn36xx_smd_delete_sta_self :: "platform \<Rightarrow> u8 list \<Rightarrow> wcn36xx \<Rightarrow> (int \<times> wcn36xx) option" where
  "wcn36xx_smd_delete_sta_self P addr w =
     hal_command P (INIT_HAL_MSG HAL_DEL_STA_SELF (wcn36xx_hal_del_sta_self_req_msg addr))
       wcn36xx_smd_rsp_status_check w"

definition wcn36xx_smd_delete_sta :: "platform \<Rightarrow> u8 \<Rightarrow> wcn36xx \<Rightarrow> (int \<times> wcn36xx) option" where
  "wcn36xx_smd_delete_sta P sta_idx w =
     hal_command P (INIT_HAL_MSG HAL_DELETE_STA (wcn36xx_hal_delete_sta_req_msg sta_idx))
       wcn36xx_smd_rsp_status_check w"

definition wcn36xx_smd_join_rsp :: "wcn36xx \<Rightarrow> (int \<times> wcn36xx) option" where
  "wcn36xx_smd_join_rsp w = do {
     (ret, w) \<leftarrow> wcn36xx_smd_rsp_status_check w;
     Some (if ret \<noteq> 0 then - EIO else 0, w) }"

definition join_secondary_channel :: "ht_conf \<Rightarrow> phy_chan_bond_state" where
  "join_secondary_channel c =
     (case c of CONF_HT40_MINUS \<Rightarrow> PHY_DOUBLE_CHANNEL_HIGH_PRIMARY
      | CONF_HT40_PLUS \<Rightarrow> PHY_DOUBLE_CHANNEL_LOW_PRIMARY
      | _ \<Rightarrow> PHY_SINGLE_CHANNEL_CENTERED)"

definition wcn36xx_smd_join :: "platform \<Rightarrow> u8 list \<Rightarrow> u8 list \<Rightarrow> u8 \<Rightarrow> wcn36xx \<Rightarrow> (int \<times> wcn36xx) option" where
  "wcn36xx_smd_join P bssid vif ch w =
     hal_command P (INIT_HAL_MSG HAL_JOIN
         (wcn36xx_hal_join_req_msg bssid ch vif (join_secondary_channel (conf_ht (hw_conf w)))
            WCN36XX_HAL_LINK_PREASSOC_STATE 0xbf))
       wcn36xx_smd_join_rsp w"

definition wcn36xx_smd_set_link_st ::
  "platform \<Rightarrow> u8 list \<Rightarrow> u8 list \<Rightarrow> wcn36xx_hal_link_state \<Rightarrow> wcn36xx \<Rightarrow> (int \<times> wcn36xx) option" where
  "wcn36xx_smd_set_link_st P bssid sta_mac state w =
     hal_command P (INIT_HAL_MSG HAL_SET_LINK_ST
         (wcn36xx_hal_set_link_state_req_msg bssid state sta_mac))
       wcn36xx_smd_rsp_status_check w"

definition wcn36xx_smd_delete_bss :: "platform \<Rightarrow> nat \<Rightarrow> wcn36xx \<Rightarrow> (int \<times> wcn36xx) option" where
  "wcn36xx_smd_delete_bss P v w =
     hal_command P (INIT_HAL_MSG HAL_DELETE_BSS
         (wcn36xx_hal_delete_bss_req_msg (bss_index (vif_priv w v))))
       wcn36xx_smd_rsp_status_check w"

section \<open>Keys\<close>

definition wcn36xx_smd_set_stakey ::
  "platform \<Rightarrow> ani_ed_type \<Rightarrow> u8 \<Rightarrow> u8 \<Rightarrow> u8 list \<Rightarrow> u8 \<Rightarrow> wcn36xx \<Rightarrow> (int \<times> wcn36xx) option" where
  "wcn36xx_smd_set_stakey P enc_type keyidx keylen key sta_idx w = do {
     kb \<leftarrow> key_bytes key keylen;
     hal_command P (INIT_HAL_MSG HAL_SET_STAKEY
         (wcn36xx_hal_set_sta_key_params (ucast sta_idx) enc_type
            (wcn36xx_hal_keys keyidx 1 WCN36XX_HAL_TX_RX 0 (ucast keylen) kb) 1))
       wcn36xx_smd_rsp_status_check w }"

definition wcn36xx_smd_set_bsskey ::
  "platform \<Rightarrow> ani_ed_type \<Rightarrow> u8 \<Rightarrow> u8 \<Rightarrow> u8 list \<Rightarrow> wcn36xx \<Rightarrow> (int \<times> wcn36xx) option" where
  "wcn36xx_smd_set_bsskey P enc_type keyidx keylen key w = do {
     kb \<leftarrow> key_bytes key keylen;
     hal_command P (INIT_HAL_MSG HAL_SET_BSSKEY
         (wcn36xx_hal_set_bss_key_req_msg 0 enc_type 1
            (wcn36xx_hal_keys keyidx 0 WCN36XX_HAL_RX_ONLY 0 (ucast keylen) kb)))
       wcn36xx_smd_rsp_status_check w }"

definition wcn36xx_smd_remove_stakey ::
  "platform \<Rightarrow> ani_ed_type \<Rightarrow> u8 \<Rightarrow> u8 \<Rightarrow> wcn36xx \<Rightarrow> (int \<times> wcn36xx) option" where
  "wcn36xx_smd_remove_stakey P enc_type keyidx sta_idx w =
     hal_command P (INIT_HAL_MSG HAL_RMV_STAKEY
         (wcn36xx_hal_remove_sta_key_req_msg (ucast sta_idx) enc_type keyidx))
       wcn36xx_smd_rsp_status_check w"

definition wcn36xx_smd_remove_bsskey ::
  "platform \<Rightarrow> ani_ed_type \<Rightarrow> u8 \<Rightarrow> wcn36xx \<Rightarrow> (int \<times> wcn36xx) option" where
  "wcn36xx_smd_remove_bsskey P enc_type keyidx w =
     hal_command P (INIT_HAL_MSG HAL_RMV_BSSKEY
         (wcn36xx_hal_remove_bss_key_req_msg 0 enc_type keyidx))
       wcn36xx_smd_rsp_status_check w"

section \<open>Power save\<close>

definition wcn36xx_smd_enter_bmps :: "platform \<Rightarrow> nat \<Rightarrow> wcn36xx \<Rightarrow> (int \<times> wcn36xx) option" where
  "wcn36xx_smd_enter_bmps P v w =
     hal_command P (INIT_HAL_MSG HAL_ENTER_BMPS
         (wcn36xx_hal_enter_bmps_req_msg (bss_index (vif_priv w v)) (sync_tsf (vifs w v))
            (vp_dtim_period (vif_priv w v))))
       wcn36xx_smd_rsp_status_check w"

definition wcn36xx_smd_exit_bmps :: "platform \<Rightarrow> nat \<Rightarrow> wcn36xx \<Rightarrow> (int \<times> wcn36xx) option" where
  "wcn36xx_smd_exit_bmps P v w =
     hal_command P (INIT_HAL_MSG HAL_EXIT_BMPS
         (wcn36xx_hal_exit_bmps_req_msg (bss_index (vif_priv w v))))
       wcn36xx_smd_rsp_status_check w"

text \<open>The response of this command is not looked at.\<close>

definition wcn36xx_smd_set_power_params :: "platform \<Rightarrow> bool \<Rightarrow> wcn36xx \<Rightarrow> (int \<times> wcn36xx) option" where
  "wcn36xx_smd_set_power_params P ignore_dtim w =
     hal_command P (INIT_HAL_MSG HAL_SET_POWER_PARAMS
         (wcn36xx_hal_set_power_params_req_msg (if ignore_dtim then 1 else 0)
            (if ignore_dtim then 2 else 0) (ucast (WCN36XX_LISTEN_INTERVAL w))))
       (\<lambda>w. Some (0, w)) w"

definition wcn36xx_smd_keep_alive_req :: "platform \<Rightarrow> nat \<Rightarrow> int \<Rightarrow> wcn36xx \<Rightarrow> (int \<times> wcn36xx) option" where
  "wcn36xx_smd_keep_alive_req P v packet_type w =
     (let send = \<lambda>body. hal_command P (INIT_HAL_MSG HAL_KEEP_ALIVE body) wcn36xx_smd_rsp_status_check w
      in if packet_type = WCN36XX_HAL_KEEP_ALIVE_NULL_PKT
         then send (wcn36xx_hal_keep_alive_req_msg 1 WCN36XX_KEEP_ALIVE_TIME_PERIOD
                      (bss_index (vif_priv w v)))
         else if packet_type = WCN36XX_HAL_KEEP_ALIVE_UNSOLICIT_ARP_RSP
         then send (wcn36xx_hal_keep_alive_req_msg 0 0 0)
         else do { w \<leftarrow> hal_lock w; Some (- EINVAL, hal_unlock w) })"

definition wcn36xx_smd_dump_cmd_req ::
  "platform \<Rightarrow> u32 \<Rightarrow> u32 \<Rightarrow> u32 \<Rightarrow> u32 \<Rightarrow> u32 \<Rightarrow> wcn36xx \<Rightarrow> (int \<times> wcn36xx) option" where
  "wcn36xx_smd_dump_cmd_req P a1 a2 a3 a4 a5 w =
     hal_command P (INIT_HAL_MSG HAL_DUMP_COMMAND (wcn36xx_hal_dump_cmd_req_msg a1 a2 a3 a4 a5))
       wcn36xx_smd_rsp_status_check w"

section \<open>Block acknowledgement\<close>

definition wcn36xx_smd_add_ba_session ::
  "platform \<Rightarrow> nat \<Rightarrow> u16 \<Rightarrow> u16 option \<Rightarrow> u8 \<Rightarrow> u8 \<Rightarrow> wcn36xx \<Rightarrow> (int \<times> wcn36xx) option" where
  "wcn36xx_smd_add_ba_session P s tid ssn direction sta_idx w =
     hal_command P (INIT_HAL_MSG HAL_ADD_BA_SESSION
         (wcn36xx_hal_add_ba_session_req_msg (ucast sta_idx) (sta_addr (stas w s)) 0x10 (ucast tid) 1
            (of_nat WCN36XX_AGGR_BUFFER_SIZE) 0 (case ssn of None \<Rightarrow> 0 | Some n \<Rightarrow> n) direction))
       wcn36xx_smd_rsp_status_check w"

definition wcn36xx_smd_add_ba :: "platform \<Rightarrow> wcn36xx \<Rightarrow> (int \<times> wcn36xx) option" where
  "wcn36xx_smd_add_ba P w =
     hal_command P (INIT_HAL_MSG HAL_ADD_BA
         (wcn36xx_hal_add_ba_req_msg 0 (of_nat WCN36XX_AGGR_BUFFER_SIZE)))
       wcn36xx_smd_rsp_status_check w"

definition wcn36xx_smd_del_ba :: "platform \<Rightarrow> u16 \<Rightarrow> u8 \<Rightarrow> wcn36xx \<Rightarrow> (int \<times> wcn36xx) option" where
  "wcn36xx_smd_del_ba P tid sta_idx w =
     hal_command P (INIT_HAL_MSG HAL_DEL_BA
         (wcn36xx_hal_del_ba_req_msg (ucast sta_idx) (ucast tid) 0))
       wcn36xx_smd_rsp_status_check w"

text \<open>The status of this response lies behind a BSSID.\<close>

abbreviation (input) sizeof_trigger_ba_rsp :: nat where "sizeof_trigger_ba_rsp \<equiv> 20"

definition wcn36xx_smd_trigger_ba_rsp :: "wcn36xx \<Rightarrow> (int \<times> wcn36xx) option" where
  "wcn36xx_smd_trigger_ba_rsp w =
     (if hal_rsp_len w < sizeof_trigger_ba_rsp then Some (- EINVAL, w)
      else do {
        hb \<leftarrow> hal_buf w;
        bs \<leftarrow> buf_read hb (sizeof_hal_msg_header + ETH_ALEN) 4;
        Some (sint (of_le32 bs), w) })"

text \<open>The length in the header counts the candidate, which is written behind the structure: \<^verbatim>\<open>PREPARE_HAL_BUF\<close>
  clears as many bytes before it copies.\<close>

definition trigger_ba_msg :: "u8 \<Rightarrow> u8 list" where
  "trigger_ba_msg sta_idx =
     wcn36xx_hal_msg_header (req_type HAL_TRIGGER_BA) WCN36XX_HAL_MSG_VERSION0
       (sizeof_hal_msg_header + 3 + 2) @
     wcn36xx_hal_trigger_ba_req_msg 0 1 @ wcn36xx_hal_trigger_ba_req_candidate sta_idx 1"

definition wcn36xx_smd_trigger_ba :: "platform \<Rightarrow> u8 \<Rightarrow> wcn36xx \<Rightarrow> (int \<times> wcn36xx) option" where
  "wcn36xx_smd_trigger_ba P sta_idx w =
     hal_command P (trigger_ba_msg sta_idx) wcn36xx_smd_trigger_ba_rsp w"

section \<open>Multicast list and probe response template\<close>

definition wcn36xx_smd_set_mc_list ::
  "platform \<Rightarrow> nat \<Rightarrow> wcn36xx_hal_rcv_flt_mc_addr_list_type option \<Rightarrow> wcn36xx
     \<Rightarrow> (int \<times> wcn36xx) option" where
  "wcn36xx_smd_set_mc_list P v fp w =
     (let l = (case fp of
                 Some l \<Rightarrow> l
               | None \<Rightarrow> \<lparr> data_offset = 0, mc_addr_count = 0, mc_addr = [], mc_bss_index = 0 \<rparr>)
      in hal_command P (INIT_HAL_MSG HAL_8023_MULTICAST_LIST
             (mc_addr_list_bytes (l\<lparr> mc_bss_index := bss_index (vif_priv w v) \<rparr>)))
           wcn36xx_smd_rsp_status_check w)"

definition wcn36xx_smd_update_proberesp_tmpl ::
  "platform \<Rightarrow> nat \<Rightarrow> sk_buff \<Rightarrow> wcn36xx \<Rightarrow> (int \<times> wcn36xx) option" where
  "wcn36xx_smd_update_proberesp_tmpl P v skb w =
     (if skb_len skb > BEACON_TEMPLATE_SIZE
      then do { w \<leftarrow> hal_lock w; Some (- E2BIG, hal_unlock w) }
      else do {
        tmpl \<leftarrow> buf_read (skb_mem skb) (skb_data skb) (skb_len skb);
        hal_command P (INIT_HAL_MSG HAL_UPDATE_PROBE_RSP_TEMPLATE
            (wcn36xx_hal_send_probe_resp_req_msg
               (tmpl @ replicate (BEACON_TEMPLATE_SIZE - skb_len skb) 0)
               (of_nat (skb_len skb)) (vif_addr (vifs w v))))
          wcn36xx_smd_rsp_status_check w })"

section \<open>The handlers and commands do not fault\<close>

lemma update_scan_params_rsp_safe [safe_intros]: "op_safe hal_busy wcn36xx_smd_update_scan_params_rsp"
proof
  fix w assume busy: "hal_busy w"
  from hal_busy_buf [OF this] obtain hb where hb: "hal_buf w = Some hb" "length hb = 4096" by blast
  then obtain bs where "buf_read hb 8 4 = Some bs" by (simp add: buf_read_def)
  moreover obtain hb' where "buf_write hb 8 (le32 (of_le32 bs AND NOT 0x8000)) = Some hb'"
    using hb buf_write_Some [of 8 "le32 (of_le32 bs AND NOT 0x8000)" hb] by auto
  ultimately show "\<exists>r w'. wcn36xx_smd_update_scan_params_rsp w = Some (r, w') \<and> hal_busy w'"
    using hb busy buf_write_length by (auto simp: wcn36xx_smd_update_scan_params_rsp_def Let_def hal_busy_def)
qed

lemma add_sta_self_rsp_safe [safe_intros]: "op_safe hal_busy (wcn36xx_smd_add_sta_self_rsp v)"
proof
  fix w assume busy: "hal_busy w"
  from hal_busy_buf [OF this] obtain hb where hb: "hal_buf w = Some hb" "length hb = 4096" by blast
  with busy show "\<exists>r w'. wcn36xx_smd_add_sta_self_rsp v w = Some (r, w') \<and> hal_busy w'"
    by (auto simp: wcn36xx_smd_add_sta_self_rsp_def Let_def hal_busy_def buf_read_def)
qed

lemma join_rsp_safe [safe_intros]: "op_safe hal_busy wcn36xx_smd_join_rsp"
  unfolding wcn36xx_smd_join_rsp_def
  using op_safe_map [OF rsp_status_check_safe, of "\<lambda>r w. w" "\<lambda>r. if r \<noteq> 0 then - 5 else 0"] by simp

lemma switch_channel_rsp_safe [safe_intros]: "op_safe hal_busy wcn36xx_smd_switch_channel_rsp"
  using rsp_status_check_safe by (simp add: op_safe_def wcn36xx_smd_switch_channel_rsp_def)

lemma trigger_ba_rsp_safe [safe_intros]: "op_safe hal_busy wcn36xx_smd_trigger_ba_rsp"
proof
  fix w assume busy: "hal_busy w"
  from hal_busy_buf [OF this] obtain hb where "hal_buf w = Some hb" "length hb = 4096" by blast
  with busy show "\<exists>r w'. wcn36xx_smd_trigger_ba_rsp w = Some (r, w') \<and> hal_busy w'"
    by (simp add: wcn36xx_smd_trigger_ba_rsp_def buf_read_def Let_def)
qed

text \<open>A command whose message depends on the state.\<close>

lemma hal_command_state_safe:
  assumes "smd_wf P" and "\<And>w. length (m w) \<le> WCN36XX_HAL_BUF_SIZE" and "op_safe hal_busy rsp"
  shows "op_safe hal_ready (\<lambda>w. hal_command P (m w) rsp w)"
  using hal_command_safe [OF assms(1,2,3)] by (simp add: op_safe_def)

lemma lock_unlock_safe: "op_safe hal_ready (\<lambda>w. do { w \<leftarrow> hal_lock w; Some (r, hal_unlock w) })"
  by (auto simp: op_safe_def hal_lock_def hal_unlock_def hal_ready_def)

lemma trigger_ba_msg_length [simp]: "length (trigger_ba_msg i) = 13"
  by (simp add: trigger_ba_msg_def)

lemmas simple_cmd_defs =
  wcn36xx_smd_stop_def wcn36xx_smd_init_scan_def wcn36xx_smd_start_scan_def
  wcn36xx_smd_end_scan_def wcn36xx_smd_finish_scan_def wcn36xx_smd_switch_channel_def
  wcn36xx_smd_update_scan_params_def wcn36xx_smd_add_sta_self_def wcn36xx_smd_delete_sta_self_def
  wcn36xx_smd_delete_sta_def wcn36xx_smd_join_def wcn36xx_smd_set_link_st_def
  wcn36xx_smd_delete_bss_def wcn36xx_smd_remove_stakey_def wcn36xx_smd_remove_bsskey_def
  wcn36xx_smd_enter_bmps_def wcn36xx_smd_exit_bmps_def wcn36xx_smd_set_power_params_def
  wcn36xx_smd_dump_cmd_req_def wcn36xx_smd_add_ba_session_def wcn36xx_smd_add_ba_def
  wcn36xx_smd_del_ba_def wcn36xx_smd_trigger_ba_def wcn36xx_smd_set_mc_list_def

end
