(* ===== verification/Smd_Start.thy ===== *)
theory Smd_Start
  imports Smd_Cmds
begin

text \<open>
  Bringing the firmware up (\<^verbatim>\<open>smd.c\<close>): the start request with its configuration table in TLV
  format and the response that carries the versions, a single configuration item, the exchange of
  the capability bitmaps, and the download of the NV image in fragments.
\<close>

section \<open>The configuration table\<close>

text \<open>\<^verbatim>\<open>wcn36xx_cfg_vals\<close>: identifier and value, in the order of the source.\<close>

definition wcn36xx_cfg_vals :: "(u32 \<times> u32) list" where
  "wcn36xx_cfg_vals =
     [(1, 1), (2, 1), (3, 0), (4, 785), (5, 5), (6, 1), (7, 0), (8, 3), (9, 6000), (10, 64),
      (11, 2347), (12, 6), (13, 6), (14, 8000), (15, 5), (16, 10), (17, 15), (18, 0), (19, 4),
      (20, 0), (21, 0), (22, 5), (23, 1), (24, 5), (26, 5), (27, 40), (28, 200), (29, 1),
      (30, 1), (31, 20), (32, 10), (33, 30000), (34, 0), (40, 128), (41, 2560), (57, 0), (64, 1),
      (75, 1), (99, 0), (98, 10), (100, 0)]"

abbreviation (input) sizeof_hal_cfg :: nat where "sizeof_hal_cfg \<equiv> 8"
abbreviation (input) sizeof_start_req :: nat where "sizeof_start_req \<equiv> 16"
abbreviation (input) sizeof_update_cfg_req :: nat where "sizeof_update_cfg_req \<equiv> 12"

text \<open>An entry needs twelve bytes and one to spare. The length is returned advanced; an entry that
  does not fit leaves it alone.\<close>

definition put_cfg_tlv_u32 :: "nat \<Rightarrow> u32 \<Rightarrow> u32 \<Rightarrow> wcn36xx \<Rightarrow> (int \<times> nat \<times> wcn36xx) option" where
  "put_cfg_tlv_u32 len ident value w =
     (if len + sizeof_hal_cfg + 4 \<ge> WCN36XX_HAL_BUF_SIZE then Some (- ENOMEM, len, w)
      else do {
        hb \<leftarrow> hal_buf w;
        hb \<leftarrow> buf_write hb len (wcn36xx_hal_cfg (ucast ident) 4 @ le32 value);
        Some (0, len + sizeof_hal_cfg + 4, w\<lparr> hal_buf := Some hb \<rparr>) })"

fun put_cfg_table :: "(u32 \<times> u32) list \<Rightarrow> nat \<Rightarrow> wcn36xx \<Rightarrow> (int \<times> nat \<times> wcn36xx) option" where
  "put_cfg_table [] len w = Some (0, len, w)"
| "put_cfg_table ((ident, value) # t) len w = do {
     (ret, len, w) \<leftarrow> put_cfg_tlv_u32 len ident value w;
     if ret \<noteq> 0 then Some (ret, len, w) else put_cfg_table t len w }"

section \<open>Start\<close>

abbreviation (input) WCN36XX_HAL_VERSION_LENGTH :: nat where "WCN36XX_HAL_VERSION_LENGTH \<equiv> 64"
abbreviation (input) sizeof_start_rsp :: nat where "sizeof_start_rsp \<equiv> 144"

definition wcn36xx_smd_start_rsp :: "wcn36xx \<Rightarrow> (int \<times> wcn36xx) option" where
  "wcn36xx_smd_start_rsp w =
     (if hal_rsp_len w < sizeof_start_rsp then Some (- EIO, w)
      else do {
        hb \<leftarrow> hal_buf w;
        bs \<leftarrow> buf_read hb sizeof_hal_msg_header 136;
        if of_le16 (take 2 bs) \<noteq> 0 then Some (- EIO, w)
        else Some (0, w\<lparr> crm_version := take WCN36XX_HAL_VERSION_LENGTH (drop 8 bs) @ [0],
                          wlan_version := take WCN36XX_HAL_VERSION_LENGTH (drop 72 bs) @ [0],
                          fw_revision := bs ! 4, fw_version := bs ! 5,
                          fw_minor := bs ! 6, fw_major := bs ! 7 \<rparr>) })"

text \<open>\<^verbatim>\<open>body->header.len\<close> and \<^verbatim>\<open>body->params.len\<close> in the buffer.\<close>

definition set_hal_buf_u32 :: "nat \<Rightarrow> u32 \<Rightarrow> wcn36xx \<Rightarrow> wcn36xx option" where
  "set_hal_buf_u32 off x w = do {
     hb \<leftarrow> hal_buf w;
     hb \<leftarrow> buf_write hb off (le32 x);
     Some (w\<lparr> hal_buf := Some hb \<rparr>) }"

definition wcn36xx_smd_start_locked :: "platform \<Rightarrow> wcn36xx \<Rightarrow> (int \<times> wcn36xx) option" where
  "wcn36xx_smd_start_locked P w = do {
     w \<leftarrow> PREPARE_HAL_BUF
            (INIT_HAL_MSG HAL_START (wcn36xx_hal_mac_start_parameters DRIVER_TYPE_PRODUCTION 0)) w;
     (ret, len, w) \<leftarrow> put_cfg_table wcn36xx_cfg_vals sizeof_start_req w;
     if ret \<noteq> 0 then Some (ret, w)
     else do {
       w \<leftarrow> set_hal_buf_u32 4 (of_nat len) w;
       w \<leftarrow> set_hal_buf_u32 12 (of_nat (len - sizeof_start_req)) w;
       (ret, w) \<leftarrow> wcn36xx_smd_send_and_wait P len w;
       if ret \<noteq> 0 then Some (ret, w) else wcn36xx_smd_start_rsp w } }"

definition wcn36xx_smd_start :: "platform \<Rightarrow> wcn36xx \<Rightarrow> (int \<times> wcn36xx) option" where
  "wcn36xx_smd_start P w = do {
     w \<leftarrow> hal_lock w;
     then_unlock (wcn36xx_smd_start_locked P w) }"

section \<open>One configuration item\<close>

text \<open>The result of \<open>put_cfg_tlv_u32\<close> is not looked at.\<close>

definition wcn36xx_smd_update_cfg_locked ::
  "platform \<Rightarrow> u32 \<Rightarrow> u32 \<Rightarrow> wcn36xx \<Rightarrow> (int \<times> wcn36xx) option" where
  "wcn36xx_smd_update_cfg_locked P cfg_id value w = do {
     w \<leftarrow> PREPARE_HAL_BUF (INIT_HAL_MSG HAL_UPDATE_CFG (wcn36xx_hal_update_cfg_req_msg 0)) w;
     (_, len, w) \<leftarrow> put_cfg_tlv_u32 sizeof_update_cfg_req cfg_id value w;
     w \<leftarrow> set_hal_buf_u32 4 (of_nat len) w;
     w \<leftarrow> set_hal_buf_u32 8 (of_nat (len - sizeof_update_cfg_req)) w;
     (ret, w) \<leftarrow> wcn36xx_smd_send_and_wait P len w;
     if ret \<noteq> 0 then Some (ret, w) else wcn36xx_smd_rsp_status_check w }"

definition wcn36xx_smd_update_cfg :: "platform \<Rightarrow> u32 \<Rightarrow> u32 \<Rightarrow> wcn36xx \<Rightarrow> (int \<times> wcn36xx) option" where
  "wcn36xx_smd_update_cfg P cfg_id value w = do {
     w \<leftarrow> hal_lock w;
     then_unlock (wcn36xx_smd_update_cfg_locked P cfg_id value w) }"

section \<open>Capabilities\<close>

text \<open>The bitmap is four words (\<^verbatim>\<open>WCN36XX_HAL_CAPS_SIZE\<close>), a capability an index.\<close>

abbreviation (input) WCN36XX_HAL_CAPS_SIZE :: nat where "WCN36XX_HAL_CAPS_SIZE \<equiv> 4"
abbreviation (input) STA_POWERSAVE :: int where "STA_POWERSAVE \<equiv> 13"

definition set_feat_caps :: "u32 list \<Rightarrow> int \<Rightarrow> u32 list" where
  "set_feat_caps bitmap cap =
     (if cap < 0 \<or> cap > 127 then bitmap
      else let i = nat (cap div 32) in bitmap[i := bitmap ! i OR push_bit (nat (cap mod 32)) 1])"

definition get_feat_caps :: "u32 list \<Rightarrow> int \<Rightarrow> int" where
  "get_feat_caps bitmap cap =
     (if cap < 0 \<or> cap > 127 then - EINVAL
      else if bitmap ! nat (cap div 32) AND push_bit (nat (cap mod 32)) 1 \<noteq> 0 then 1 else 0)"

definition clear_feat_caps :: "u32 list \<Rightarrow> int \<Rightarrow> u32 list" where
  "clear_feat_caps bitmap cap =
     (if cap < 0 \<or> cap > 127 then bitmap
      else let i = nat (cap div 32) in bitmap[i := bitmap ! i AND NOT (push_bit (nat (cap mod 32)) 1)])"

fun bytes_u32s :: "u8 list \<Rightarrow> u32 list" where
  "bytes_u32s (a # b # c # d # r) = of_le32 [a, b, c, d] # bytes_u32s r"
| "bytes_u32s _ = []"

text \<open>A response of another length is an error that is only printed: the result stays 0.\<close>

definition feature_caps_rsp :: "wcn36xx \<Rightarrow> (int \<times> wcn36xx) option" where
  "feature_caps_rsp w =
     (if hal_rsp_len w \<noteq> 24 then Some (0, w)
      else do {
        hb \<leftarrow> hal_buf w;
        bs \<leftarrow> buf_read hb sizeof_hal_msg_header 16;
        Some (0, w\<lparr> fw_feat_caps := bytes_u32s bs \<rparr>) })"

definition wcn36xx_smd_feature_caps_exchange :: "platform \<Rightarrow> wcn36xx \<Rightarrow> (int \<times> wcn36xx) option" where
  "wcn36xx_smd_feature_caps_exchange P w =
     hal_command P (INIT_HAL_MSG HAL_FEATURE_CAPS_EXCHANGE
         (wcn36xx_hal_feat_caps_msg (set_feat_caps (replicate WCN36XX_HAL_CAPS_SIZE 0) STA_POWERSAVE)))
       feature_caps_rsp w"

section \<open>The NV image\<close>

abbreviation (input) WCN36XX_NV_FRAGMENT_SIZE :: nat where "WCN36XX_NV_FRAGMENT_SIZE \<equiv> 3072"
abbreviation (input) sizeof_nv_req :: nat where "sizeof_nv_req \<equiv> 16"
abbreviation (input) nv_table_offset :: nat where "nv_table_offset \<equiv> 4"

text \<open>One fragment: the request structure, and behind it the bytes of the image. \<^verbatim>\<open>fw_bytes_left\<close>
  is computed in 32-bit arithmetic and read as a signed number; the offset is a \<^verbatim>\<open>u16\<close>.\<close>

definition nv_bytes_left :: "u8 list \<Rightarrow> u16 \<Rightarrow> int" where
  "nv_bytes_left img off = sint (of_nat (length img) - ucast off - 4 :: u32)"

definition nv_fragment :: "u8 list \<Rightarrow> u16 \<Rightarrow> u16 \<Rightarrow> (bool \<times> nat \<times> u8 list) option" where
  "nv_fragment img frag off =
     (let left = nv_bytes_left img off;
          last = \<not> left > int WCN36XX_NV_FRAGMENT_SIZE;
          size = (if last then word_of_int left else of_nat WCN36XX_NV_FRAGMENT_SIZE) :: u32;
          hlen = of_nat sizeof_nv_req + size;
          hdr = le16 (req_type HAL_DOWNLOAD_NV) @ le16 WCN36XX_HAL_MSG_VERSION0 @ le32 hlen;
          body = wcn36xx_hal_nv_img_download_req_msg frag (if last then 1 else 0) size
      in do {
        data \<leftarrow> buf_read img (nv_table_offset + unat off) (unat size);
        Some (last, unat hlen, hdr @ body @ data) })"

partial_function (option) load_nv_loop ::
  "platform \<Rightarrow> u8 list \<Rightarrow> u16 \<Rightarrow> u16 \<Rightarrow> wcn36xx \<Rightarrow> (int \<times> wcn36xx) option" where
  "load_nv_loop pf img frag off w = do {
     (last, hlen, m) \<leftarrow> nv_fragment img frag off;
     w \<leftarrow> PREPARE_HAL_BUF m w;
     (ret, w) \<leftarrow> wcn36xx_smd_send_and_wait pf hlen w;
     if ret \<noteq> 0 then Some (ret, w)
     else do {
       (ret, w) \<leftarrow> wcn36xx_smd_rsp_status_check w;
       if ret \<noteq> 0 then Some (ret, w)
       else if last then Some (ret, w)
       else load_nv_loop pf img (frag + 1) (off + of_nat WCN36XX_NV_FRAGMENT_SIZE) w } }"

definition nv_request_firmware :: "platform \<Rightarrow> wcn36xx \<Rightarrow> int \<times> wcn36xx" where
  "nv_request_firmware P w =
     (case nv w of
        Some _ \<Rightarrow> (0, w)
      | None \<Rightarrow> (let r = p_request_firmware P (klog w); w = emit RequestFirmware w in
                 case r of Inl e \<Rightarrow> (e, w) | Inr img \<Rightarrow> (0, w\<lparr> nv := Some img \<rparr>)))"

definition wcn36xx_smd_load_nv :: "platform \<Rightarrow> wcn36xx \<Rightarrow> (int \<times> wcn36xx) option" where
  "wcn36xx_smd_load_nv P w =
     (let (ret, w) = nv_request_firmware P w in
      if ret \<noteq> 0 then Some (ret, w)
      else do {
        img \<leftarrow> nv w;
        w \<leftarrow> hal_lock w;
        then_unlock (load_nv_loop P img 0 0 w) })"

section \<open>The capability bitmap\<close>

lemma and_bit_mask: "(x :: u32) AND push_bit n 1 \<noteq> 0 \<longleftrightarrow> bit x n"
  by (metis and_exp_eq_0_iff_not_bit push_bit_of_1)

lemma cap_index: "0 \<le> c \<Longrightarrow> c \<le> 127 \<Longrightarrow> nat (c div 32) < 4 \<and> nat (c mod 32) < 32"
  for c :: int by auto

lemma cap_index_inj:
  fixes c d :: int
  assumes "0 \<le> c" "0 \<le> d"
  shows "nat (d div 32) = nat (c div 32) \<and> nat (d mod 32) = nat (c mod 32) \<longleftrightarrow> d = c"
proof -
  have "nat (d div 32) = nat (c div 32) \<longleftrightarrow> d div 32 = c div 32"
    "nat (d mod 32) = nat (c mod 32) \<longleftrightarrow> d mod 32 = c mod 32"
    using assms by (simp_all add: eq_nat_nat_iff)
  then show ?thesis by (metis div_mult_mod_eq)
qed

lemma get_set_bit:
  fixes bm :: "u32 list"
  assumes "i < length bm" "n < 32"
  shows "bit (bm[i := bm ! i OR push_bit n 1] ! j) m \<longleftrightarrow> bit (bm ! j) m \<or> j = i \<and> m = n"
    and "bit (bm[i := bm ! i AND NOT (push_bit n 1)] ! j) m \<longleftrightarrow> bit (bm ! j) m \<and> \<not> (j = i \<and> m = n)"
proof -
  have one: "bit (push_bit n (1 :: u32)) k \<longleftrightarrow> k = n" for k
    using assms(2) by (auto simp: push_bit_of_1 bit_exp_iff possible_bit_def)
  have mask: "bit (NOT (push_bit n (1 :: u32))) k \<longleftrightarrow> k < 32 \<and> k \<noteq> n" for k
    unfolding bit_not_iff one by (simp add: possible_bit_def)
  have small: "bit (bm ! j) m \<Longrightarrow> m < 32"
    using bit_imp_le_length [of "bm ! j" m] by simp
  show "bit (bm[i := bm ! i OR push_bit n 1] ! j) m \<longleftrightarrow> bit (bm ! j) m \<or> j = i \<and> m = n"
    using assms(1) one by (cases "j = i") (simp_all add: bit_or_iff)
  show "bit (bm[i := bm ! i AND NOT (push_bit n 1)] ! j) m \<longleftrightarrow> bit (bm ! j) m \<and> \<not> (j = i \<and> m = n)"
    using assms(1) small by (cases "j = i") (auto simp: bit_and_iff mask [unfolded push_bit_of_1])
qed

text \<open>The capability bitmap behaves as a set of the capabilities 0 to 127: setting or clearing one
  is what reading it back shows and changes no other, also across words and at bit 31; an index
  outside changes nothing and reads as \<open>-EINVAL\<close>.\<close>

theorem feat_caps_set_clear_get:
  assumes "length bm = 4" and c: "0 \<le> c" "c \<le> 127"
  shows "get_feat_caps (set_feat_caps bm c) d = (if d = c then 1 else get_feat_caps bm d) \<and>
         get_feat_caps (clear_feat_caps bm c) d = (if d = c then 0 else get_feat_caps bm d)"
proof (cases "0 \<le> d \<and> d \<le> 127")
  case True
  then have d: "\<not> (d < 0 \<or> 127 < d)" and c': "\<not> (c < 0 \<or> 127 < c)" using c by auto
  have i: "nat (c div 32) < length bm" "nat (c mod 32) < 32"
    using cap_index [OF c] assms(1) by simp_all
  have inj: "nat (d div 32) = nat (c div 32) \<and> nat (d mod 32) = nat (c mod 32) \<longleftrightarrow> d = c"
    using cap_index_inj c True by blast
  show ?thesis
    unfolding get_feat_caps_def set_feat_caps_def clear_feat_caps_def Let_def if_not_P [OF d]
      if_not_P [OF c'] and_bit_mask get_set_bit [OF i] inj
    by simp
qed (use c in \<open>auto simp: get_feat_caps_def\<close>)

theorem feat_caps_set_clear_get_witness:
  "get_feat_caps (set_feat_caps [0, 0, 0, 0] 63) 63 = 1 \<and>
   get_feat_caps (clear_feat_caps [0, 0, 0, 0] 63) 63 = 0"
  using feat_caps_set_clear_get [of "[0, 0, 0, 0]" 63 63] by simp

section \<open>The start request\<close>

text \<open>A reader of the TLV table, as the firmware sees it.\<close>

fun parse_cfg :: "u8 list \<Rightarrow> (u16 \<times> u32) list option" where
  "parse_cfg bs =
     (if bs = [] then Some []
      else if length bs < 12 \<or> of_le16 (take 2 (drop 2 bs)) \<noteq> 4 then None
      else do {
        rest \<leftarrow> parse_cfg (drop 12 bs);
        Some ((of_le16 (take 2 bs), of_le32 (take 4 (drop 8 bs))) # rest) })"

declare parse_cfg.simps [simp del]

definition cfg_bytes :: "(u32 \<times> u32) list \<Rightarrow> u8 list" where
  "cfg_bytes t = concat (map (\<lambda>(i, v). wcn36xx_hal_cfg (ucast i) 4 @ le32 v) t)"

lemma cfg_bytes_simps [simp]:
  "cfg_bytes [] = []" "cfg_bytes ((i, v) # t) = (wcn36xx_hal_cfg (ucast i) 4 @ le32 v) @ cfg_bytes t"
  by (simp_all add: cfg_bytes_def)

lemma cfg_bytes_length [simp]: "length (cfg_bytes t) = 12 * length t"
  by (induction t) auto

lemma parse_cfg_bytes: "parse_cfg (cfg_bytes t) = Some (map (\<lambda>(i, v). (ucast i, v)) t)"
proof (induction t)
  case Nil
  then show ?case by (simp add: parse_cfg.simps)
next
  case (Cons iv t)
  obtain i v where iv: "iv = (i, v)" by (cases iv)
  have "take 2 (drop 2 (cfg_bytes (iv # t))) = le16 4" "take 2 (cfg_bytes (iv # t)) = le16 (ucast i)"
    "take 4 (drop 8 (cfg_bytes (iv # t))) = le32 v" "drop 12 (cfg_bytes (iv # t)) = cfg_bytes t"
    by (simp_all add: iv wcn36xx_hal_cfg_def)
  moreover have "cfg_bytes (iv # t) \<noteq> []" by (simp add: iv le32_def)
  moreover have "\<not> length (cfg_bytes (iv # t)) < 12" by simp
  ultimately show ?case
    using Cons.IH iv by (subst parse_cfg.simps) (simp del: cfg_bytes_simps cfg_bytes_length)
qed

lemma buf_write_append:
  assumes "buf_write hb n bs = Some hb'" "buf_read hb 0 n = Some pre"
  shows "buf_read hb' 0 (n + length bs) = Some (pre @ bs)"
  using assms by (auto simp: buf_write_def buf_read_def split: if_splits)

lemma buf_write_inside:
  assumes "buf_write hb off bs = Some hb'" "buf_read hb 0 n = Some m" "off + length bs \<le> n"
  shows "buf_read hb' 0 n = Some (take off m @ bs @ drop (off + length bs) m)"
proof -
  from assms have hb': "hb' = take off hb @ bs @ drop (off + length bs) hb" and m: "m = take n hb"
    and n: "n \<le> length hb"
    by (auto simp: buf_write_def buf_read_def split: if_splits)
  obtain k where k: "n = off + length bs + k" using assms(3) le_Suc_ex by blast
  have "take n hb' = take off hb @ bs @ take k (drop (off + length bs) hb)"
    using n unfolding hb' k by simp
  moreover have "take off m @ bs @ drop (off + length bs) m =
      take off hb @ bs @ take k (drop (off + length bs) hb)"
    unfolding m k by (simp add: drop_take min_def)
  ultimately show ?thesis
    using n buf_write_length [OF assms(1)] by (simp add: buf_read_def)
qed

lemma put_cfg_table_ok:
  assumes "hal_buf w = Some hb" "length hb = WCN36XX_HAL_BUF_SIZE" "buf_read hb 0 len = Some pre"
    and "len + 12 * length t < WCN36XX_HAL_BUF_SIZE"
  shows "\<exists>hb'. put_cfg_table t len w = Some (0, len + 12 * length t, w\<lparr> hal_buf := Some hb' \<rparr>) \<and>
           length hb' = WCN36XX_HAL_BUF_SIZE \<and>
           buf_read hb' 0 (len + 12 * length t) = Some (pre @ cfg_bytes t)"
  using assms
proof (induction t arbitrary: w hb len pre)
  case Nil
  then show ?case by (intro exI [of _ hb]) simp
next
  case (Cons iv t)
  obtain i v where iv: "iv = (i, v)" by (cases iv)
  let ?e = "wcn36xx_hal_cfg (ucast i) 4 @ le32 v"
  from Cons.prems buf_write_Some [of len ?e hb] obtain hb1 where
    w: "buf_write hb len ?e = Some hb1" by auto
  have tlv: "put_cfg_tlv_u32 len i v w = Some (0, len + 12, w\<lparr> hal_buf := Some hb1 \<rparr>)"
    using Cons.prems w by (simp add: put_cfg_tlv_u32_def)
  have r: "buf_read hb1 0 (len + 12) = Some (pre @ ?e)"
    using buf_write_append [OF w Cons.prems(3)] by simp
  have "length hb1 = 4096" using buf_write_length [OF w] Cons.prems(2) by simp
  from Cons.IH [OF _ this r, of "w\<lparr> hal_buf := Some hb1 \<rparr>"] Cons.prems(4) tlv show ?case
    by (auto simp: iv add.assoc)
qed

lemma set_hal_buf_u32_ok:
  assumes "hal_buf w = Some hb" "buf_read hb 0 n = Some m" "off + 4 \<le> n"
  shows "\<exists>hb'. set_hal_buf_u32 off x w = Some (w\<lparr> hal_buf := Some hb' \<rparr>) \<and> length hb' = length hb \<and>
           buf_read hb' 0 n = Some (take off m @ le32 x @ drop (off + 4) m)"
proof -
  from assms have "off + length (le32 x) \<le> length hb" by (auto simp: buf_read_def split: if_splits)
  from buf_write_Some [OF this] obtain hb' where w: "buf_write hb off (le32 x) = Some hb'" ..
  from buf_write_inside [OF w assms(2)] buf_write_length [OF w] w assms show ?thesis
    by (intro exI [of _ hb']) (simp add: set_hal_buf_u32_def)
qed

text \<open>The message \<open>wcn36xx_smd_start\<close> builds in the buffer: 508 bytes.\<close>

definition start_msg :: "u8 list" where
  "start_msg = wcn36xx_hal_msg_header (req_type HAL_START) 0 508 @ le32 DRIVER_TYPE_PRODUCTION @
     le32 492 @ cfg_bytes wcn36xx_cfg_vals"

lemma cfg_vals_length [simp]: "length wcn36xx_cfg_vals = 41"
  by (simp add: wcn36xx_cfg_vals_def)

lemma start_msg_length [simp]: "length start_msg = 508"
  by (simp add: start_msg_def)

lemma start_prepares:
  assumes "hal_busy w"
  obtains hb where "length hb = WCN36XX_HAL_BUF_SIZE" "buf_read hb 0 508 = Some start_msg"
    "wcn36xx_smd_start_locked P w =
       do { (ret, w) \<leftarrow> wcn36xx_smd_send_and_wait P 508 (w\<lparr> hal_buf := Some hb \<rparr>);
            if ret \<noteq> 0 then Some (ret, w) else wcn36xx_smd_start_rsp w }"
proof -
  let ?m = "INIT_HAL_MSG HAL_START (wcn36xx_hal_mac_start_parameters DRIVER_TYPE_PRODUCTION 0)"
  have m: "length ?m = 16" by simp
  from PREPARE_HAL_BUF_ok [OF assms, of ?m] m obtain hb1 where
    1: "PREPARE_HAL_BUF ?m w = Some (w\<lparr> hal_buf := Some hb1 \<rparr>)" "length hb1 = 4096"
    "buf_read hb1 0 16 = Some ?m" by auto
  from put_cfg_table_ok [OF _ 1(2,3), of "w\<lparr> hal_buf := Some hb1 \<rparr>" wcn36xx_cfg_vals] obtain hb2 where
    2: "put_cfg_table wcn36xx_cfg_vals 16 (w\<lparr> hal_buf := Some hb1 \<rparr>) =
          Some (0, 508, w\<lparr> hal_buf := Some hb2 \<rparr>)" "length hb2 = 4096"
    "buf_read hb2 0 508 = Some (?m @ cfg_bytes wcn36xx_cfg_vals)" by auto
  from set_hal_buf_u32_ok [OF _ 2(3), of "w\<lparr> hal_buf := Some hb2 \<rparr>" 4 508] obtain hb3 where
    3: "set_hal_buf_u32 4 508 (w\<lparr> hal_buf := Some hb2 \<rparr>) = Some (w\<lparr> hal_buf := Some hb3 \<rparr>)"
    "length hb3 = 4096" "buf_read hb3 0 508 = Some (take 4 ?m @ le32 508 @ drop 8 ?m @ cfg_bytes wcn36xx_cfg_vals)"
    using 2(2) by auto
  from set_hal_buf_u32_ok [OF _ 3(3), of "w\<lparr> hal_buf := Some hb3 \<rparr>" 12 492] obtain hb4 where
    4: "set_hal_buf_u32 12 492 (w\<lparr> hal_buf := Some hb3 \<rparr>) = Some (w\<lparr> hal_buf := Some hb4 \<rparr>)"
    "length hb4 = 4096" "buf_read hb4 0 508 = Some (take 4 ?m @ le32 508 @ take 4 (drop 8 ?m) @ le32 492 @ cfg_bytes wcn36xx_cfg_vals)"
    using 3(2) by (auto simp: le32_def)
  have "take 4 ?m @ le32 508 @ take 4 (drop 8 ?m) @ le32 492 @ cfg_bytes wcn36xx_cfg_vals = start_msg"
    by (simp add: start_msg_def INIT_HAL_MSG_def wcn36xx_hal_msg_header_def
        wcn36xx_hal_mac_start_parameters_def)
  with 4(2,3) 1(1) 2(1) 3(1) 4(1) show ?thesis
    by (intro that [of hb4]) (simp_all add: wcn36xx_smd_start_locked_def)
qed

text \<open>The whole answer to a start request: the versions are taken from a response of full length and
  status 0.\<close>

definition start_rsp_ok :: "u8 list \<Rightarrow> bool" where
  "start_rsp_ok pkt \<longleftrightarrow> 144 \<le> length pkt \<and> of_le16 (take 2 (drop 8 pkt)) = 0"

lemma start_rsp_answered:
  assumes "hal_rsp_len w = length pkt" "hal_buf w = Some hb" "buf_read hb 0 (length pkt) = Some pkt"
  shows "\<exists>w'. wcn36xx_smd_start_rsp w = Some (if start_rsp_ok pkt then 0 else - EIO, w') \<and>
           klog w' = klog w \<and> hal_buf w' = hal_buf w \<and> hal_mutex w' = hal_mutex w \<and>
           hal_ind_wq w' = hal_ind_wq w \<and> vif_priv w' = vif_priv w \<and>
           hal_ind_queue w' = hal_ind_queue w \<and> hal_ind_work_pending w' = hal_ind_work_pending w \<and>
           (start_rsp_ok pkt \<longrightarrow> fw_revision w' = pkt ! 12 \<and> fw_version w' = pkt ! 13 \<and>
              fw_minor w' = pkt ! 14 \<and> fw_major w' = pkt ! 15)"
proof (cases "length pkt < 144")
  case True
  with assms show ?thesis by (simp add: wcn36xx_smd_start_rsp_def start_rsp_ok_def)
next
  case False
  then have "buf_read hb 8 136 = Some (take 136 (drop 8 pkt))"
    using buf_read_part [OF assms(3), of 8 136] by simp
  with False assms show ?thesis
    by (auto simp: wcn36xx_smd_start_rsp_def start_rsp_ok_def Let_def)
qed

lemma smd_start_exchange:
  assumes wf: "smd_wf P" and ready: "hal_ready w"
  shows "\<exists>r w' m. wcn36xx_smd_start P w = Some (r, w') \<and> hal_ready w' \<and>
           smd_sent (klog w') = smd_sent (klog w) @ [m] \<and> hal_msg_ok HAL_START m \<and>
           of_le32 (take 4 (drop 12 m)) = of_nat (length m - 16) \<and>
           parse_cfg (drop 16 m) = Some (map (\<lambda>(i, v). (ucast i, v)) wcn36xx_cfg_vals) \<and>
           (case firmware_answer P (klog w) m of
              Inl e \<Rightarrow> r = e
            | Inr pkt \<Rightarrow> r = (if start_rsp_ok pkt then 0 else - EIO) \<and>
                (start_rsp_ok pkt \<longrightarrow> fw_revision w' = pkt ! 12 \<and> fw_version w' = pkt ! 13 \<and>
                   fw_minor w' = pkt ! 14 \<and> fw_major w' = pkt ! 15))"
proof -
  let ?w0 = "w\<lparr> hal_mutex := True \<rparr>"
  have lock: "hal_lock w = Some ?w0" "hal_busy ?w0"
    using ready by (simp_all add: hal_lock_def hal_ready_def hal_busy_def)
  obtain hb where hb: "length hb = 4096" "buf_read hb 0 508 = Some start_msg"
    "wcn36xx_smd_start_locked P ?w0 =
       do { (ret, w) \<leftarrow> wcn36xx_smd_send_and_wait P 508 (?w0\<lparr> hal_buf := Some hb \<rparr>);
            if ret \<noteq> 0 then Some (ret, w) else wcn36xx_smd_start_rsp w }"
    by (rule start_prepares [OF lock(2)])
  let ?w1 = "?w0\<lparr> hal_buf := Some hb \<rparr>"
  have busy: "hal_busy ?w1" using lock(2) hb(1) by (simp add: hal_busy_def)
  have log: "klog ?w1 = klog w" and hbw: "hal_buf ?w1 = Some hb" and le: "(508 :: nat) \<le> 4096"
    by simp_all
  obtain w2 where a: "hal_busy w2" "same_but_hal ?w1 w2" "smd_sent (klog w2) = smd_sent (klog w) @ [start_msg]"
    "wcn36xx_smd_send_and_wait P 508 ?w1 =
       Some (case firmware_answer P (klog w) start_msg of Inl e \<Rightarrow> e | Inr _ \<Rightarrow> 0, w2)"
    "\<And>pkt. firmware_answer P (klog w) start_msg = Inr pkt \<Longrightarrow> hal_rsp_len w2 = length pkt \<and>
       (\<exists>hb. hal_buf w2 = Some hb \<and> buf_read hb 0 (length pkt) = Some pkt)"
    by (rule send_and_wait_answer [OF wf busy le hbw hb(2), unfolded log], rule that) blast+
  have msg: "hal_msg_ok HAL_START start_msg"
    "of_le32 (take 4 (drop 12 start_msg)) = of_nat (length start_msg - 16)"
    "parse_cfg (drop 16 start_msg) = Some (map (\<lambda>(i, v). (ucast i, v)) wcn36xx_cfg_vals)"
    unfolding start_msg_def by (rule hal_msg_okI) (simp_all add: parse_cfg_bytes)
  show ?thesis
  proof (cases "firmware_answer P (klog w) start_msg")
    case (Inl e)
    then have "e \<noteq> 0" by (auto simp: firmware_answer_def Let_def split: if_splits)
    with Inl lock hb(3) a(4) have "wcn36xx_smd_start P w = Some (e, hal_unlock w2)"
      by (simp add: wcn36xx_smd_start_def then_unlock_def)
    moreover have "klog (hal_unlock w2) = klog w2" by (simp add: hal_unlock_def)
    ultimately show ?thesis
      using hal_busy_unlock [OF a(1)] a(3) msg Inl by auto
  next
    case (Inr pkt)
    from a(5) [OF Inr] obtain hb' where "hal_rsp_len w2 = length pkt" "hal_buf w2 = Some hb'"
      "buf_read hb' 0 (length pkt) = Some pkt" by blast
    from start_rsp_answered [OF this] obtain w3 where
      3: "wcn36xx_smd_start_rsp w2 = Some (if start_rsp_ok pkt then 0 else - EIO, w3)"
      "klog w3 = klog w2" "hal_buf w3 = hal_buf w2" "hal_mutex w3 = hal_mutex w2"
      "hal_ind_wq w3 = hal_ind_wq w2" "vif_priv w3 = vif_priv w2"
      "hal_ind_queue w3 = hal_ind_queue w2" "hal_ind_work_pending w3 = hal_ind_work_pending w2"
      "start_rsp_ok pkt \<longrightarrow> fw_revision w3 = pkt ! 12 \<and> fw_version w3 = pkt ! 13 \<and>
              fw_minor w3 = pkt ! 14 \<and> fw_major w3 = pkt ! 15" by blast
    have "wcn36xx_smd_start P w = Some (if start_rsp_ok pkt then 0 else - EIO, hal_unlock w3)"
      using Inr lock hb(3) a(4) 3(1) by (simp add: wcn36xx_smd_start_def then_unlock_def)
    moreover have "hal_busy w3" using a(1) 3 by (simp add: hal_busy_def ssids_ok_def ind_inv_def)
    moreover have "klog (hal_unlock w3) = klog w2" "fw_revision (hal_unlock w3) = fw_revision w3"
      "fw_version (hal_unlock w3) = fw_version w3" "fw_minor (hal_unlock w3) = fw_minor w3"
      "fw_major (hal_unlock w3) = fw_major w3" using 3(2) by (simp_all add: hal_unlock_def)
    ultimately show ?thesis
      using hal_busy_unlock a(3) msg Inr 3(9)
      by (intro exI [of _ "if start_rsp_ok pkt then 0 else - EIO"] exI [of _ "hal_unlock w3"]
          exI [of _ start_msg]) auto
  qed
qed

text \<open>C5: Starting the firmware sends exactly one request; its header gives its length, its parameter
  block the length of the table, and reading the table back as TLVs yields every configuration item
  with its value, in order. The result is 0 exactly for an answer of full length and status 0, and
  then the driver holds the firmware's version numbers.\<close>

theorem smd_start_spec:
  assumes wf: "smd_wf P" and ready: "hal_ready w"
  shows "\<exists>r w' m. wcn36xx_smd_start P w = Some (r, w') \<and> hal_ready w' \<and>
           smd_sent (klog w') = smd_sent (klog w) @ [m] \<and> hal_msg_ok HAL_START m \<and>
           of_le32 (take 4 (drop 12 m)) = of_nat (length m - 16) \<and>
           parse_cfg (drop 16 m) = Some (map (\<lambda>(i, v). (ucast i, v)) wcn36xx_cfg_vals) \<and>
           (case firmware_answer P (klog w) m of
              Inl e \<Rightarrow> r = e
            | Inr pkt \<Rightarrow> r = (if start_rsp_ok pkt then 0 else - EIO) \<and>
                (start_rsp_ok pkt \<longrightarrow> fw_revision w' = pkt ! 12 \<and> fw_version w' = pkt ! 13 \<and>
                   fw_minor w' = pkt ! 14 \<and> fw_major w' = pkt ! 15))"
  by (rule smd_start_exchange [OF wf ready])

theorem smd_start_spec_witness:
  "\<exists>r w' m. wcn36xx_smd_start sample_platform sample_wcn = Some (r, w') \<and> hal_ready w' \<and>
     smd_sent (klog w') = [m] \<and> hal_msg_ok HAL_START m"
proof -
  have "smd_wf sample_platform" "smd_sent (klog sample_wcn) = []"
    by (simp_all add: smd_wf_def sample_platform_def smd_sent_def sample_wcn_def List.map_filter_simps)
  with smd_start_spec [OF _ sample_hal_ready, of sample_platform] show ?thesis by auto
qed

section \<open>The NV download\<close>

text \<open>The fragments of an image and the messages that carry them.\<close>

function nv_chunks :: "u8 list \<Rightarrow> u8 list list" where
  "nv_chunks bs =
     (if length bs \<le> WCN36XX_NV_FRAGMENT_SIZE then [bs]
      else take WCN36XX_NV_FRAGMENT_SIZE bs # nv_chunks (drop WCN36XX_NV_FRAGMENT_SIZE bs))"
  by pat_completeness auto
termination by (relation "measure length") auto

declare nv_chunks.simps [simp del]

definition nv_msg :: "nat \<Rightarrow> bool \<Rightarrow> u8 list \<Rightarrow> u8 list" where
  "nv_msg k fin c =
     wcn36xx_hal_msg_header (req_type HAL_DOWNLOAD_NV) WCN36XX_HAL_MSG_VERSION0 (16 + length c) @
     wcn36xx_hal_nv_img_download_req_msg (of_nat k) (if fin then 1 else 0) (of_nat (length c)) @ c"

fun nv_msgs :: "nat \<Rightarrow> u8 list list \<Rightarrow> u8 list list" where
  "nv_msgs k [] = []"
| "nv_msgs k (c # cs) = nv_msg k (cs = []) c # nv_msgs (Suc k) cs"

lemma concat_nv_chunks: "concat (nv_chunks bs) = bs"
proof (induction bs rule: nv_chunks.induct)
  case (1 bs)
  then show ?case by (subst nv_chunks.simps) auto
qed

lemma nv_chunks_not_Nil [simp]: "nv_chunks bs \<noteq> []"
  by (subst nv_chunks.simps) simp

lemma nv_msg_length [simp]: "length (nv_msg k l c) = 16 + length c"
  by (simp add: nv_msg_def)

lemma u32_diff: "b \<le> a \<Longrightarrow> (of_nat a :: u32) - of_nat b = of_nat (a - b)"
  by (simp add: of_nat_diff)

lemma nv_bytes_left_eq:
  assumes "n < 65536" and "n + 4 \<le> length img" and "length img < 2 ^ 31"
  shows "nv_bytes_left img (of_nat n) = int (length img - n - 4)"
proof -
  have "(ucast (of_nat n :: u16) :: u32) = of_nat n"
    using assms(1) by (simp add: unsigned_of_nat take_bit_nat_eq_self)
  then have "(of_nat (length img) - ucast (of_nat n :: u16) - 4 :: u32) = of_nat (length img - n - 4)"
    using u32_diff [of n "length img"] u32_diff [of 4 "length img - n"] assms(2) by simp
  moreover have "sint (of_nat m :: u32) = int m" if "m < 2 ^ 31" for m
    using that by (simp add: signed_of_nat signed_take_bit_eq_take_bit_shift take_bit_int_def)
  ultimately show ?thesis
    unfolding nv_bytes_left_def using assms(3) by simp
qed

lemma nv_fragment_eq:
  assumes "n < 65536" and "n + 4 \<le> length img" and "length img < 2 ^ 31"
  defines "rest \<equiv> drop (4 + n) img"
  defines "c \<equiv> take WCN36XX_NV_FRAGMENT_SIZE rest"
  shows "nv_fragment img (of_nat k) (of_nat n) =
           Some (length rest \<le> WCN36XX_NV_FRAGMENT_SIZE, 16 + length c,
                 nv_msg k (length rest \<le> WCN36XX_NV_FRAGMENT_SIZE) c)"
proof -
  note left = nv_bytes_left_eq [OF assms(1-3)]
  have rl: "length rest = length img - n - 4" by (simp add: rest_def)
  have lst: "nv_bytes_left img (of_nat n) > int WCN36XX_NV_FRAGMENT_SIZE \<longleftrightarrow>
      \<not> length rest \<le> WCN36XX_NV_FRAGMENT_SIZE"
    unfolding left rl by auto
  have size: "(if length rest \<le> WCN36XX_NV_FRAGMENT_SIZE
      then word_of_int (nv_bytes_left img (of_nat n)) else of_nat WCN36XX_NV_FRAGMENT_SIZE :: u32) =
      of_nat (length c)"
    by (auto simp: left rl c_def)
  have cl: "length c \<le> 3072" by (simp add: c_def)
  have off: "unat (of_nat n :: u16) = n" using assms(1) by (simp add: unat_of_nat take_bit_nat_eq_self)
  have un: "unat (of_nat (length c) :: u32) = length c" "unat (of_nat (16 + length c) :: u32) = 16 + length c"
    using cl by (simp_all add: unat_of_nat take_bit_nat_eq_self del: of_nat_add)
  have rd: "buf_read img (4 + n) (length c) = Some c"
    using assms(2) by (auto simp: buf_read_def c_def rest_def min_def)
  have h: "(of_nat 16 + of_nat (length c) :: u32) = of_nat (16 + length c)" by simp
  show ?thesis
    unfolding nv_fragment_def Let_def size off un(1) rd h un(2) lst not_not
    by (simp add: nv_msg_def wcn36xx_hal_msg_header_def)
qed

text \<open>One turn of the loop, with \<open>f\<close> for the turns after it.\<close>

definition load_nv_body ::
  "(platform \<Rightarrow> u8 list \<Rightarrow> u16 \<Rightarrow> u16 \<Rightarrow> wcn36xx \<Rightarrow> (int \<times> wcn36xx) option)
     \<Rightarrow> platform \<Rightarrow> u8 list \<Rightarrow> u16 \<Rightarrow> u16 \<Rightarrow> wcn36xx \<Rightarrow> (int \<times> wcn36xx) option" where
  "load_nv_body f P img frag off w = do {
     (fin, hlen, m) \<leftarrow> nv_fragment img frag off;
     w \<leftarrow> PREPARE_HAL_BUF m w;
     (ret, w) \<leftarrow> wcn36xx_smd_send_and_wait P hlen w;
     if ret \<noteq> 0 then Some (ret, w)
     else do {
       (ret, w) \<leftarrow> wcn36xx_smd_rsp_status_check w;
       if ret \<noteq> 0 then Some (ret, w)
       else if fin then Some (ret, w)
       else f P img (frag + 1) (off + of_nat WCN36XX_NV_FRAGMENT_SIZE) w } }"

lemma load_nv_loop_body: "load_nv_loop P img frag off w = load_nv_body load_nv_loop P img frag off w"
  unfolding load_nv_body_def by (rule load_nv_loop.simps)

lemma load_nv_step:
  assumes wf: "smd_wf P" and busy: "hal_busy w"
    and n: "n < 65536" "n + 4 \<le> length img" "length img < 2 ^ 31"
  defines "rest \<equiv> drop (4 + n) img"
  defines "c \<equiv> take WCN36XX_NV_FRAGMENT_SIZE rest" and "fin \<equiv> length rest \<le> WCN36XX_NV_FRAGMENT_SIZE"
  obtains r w1 where "hal_busy w1" "same_but_hal w w1"
    "smd_sent (klog w1) = smd_sent (klog w) @ [nv_msg k fin c]"
    "r = (case firmware_answer P (klog w) (nv_msg k fin c) of Inl e \<Rightarrow> e | Inr pkt \<Rightarrow> rsp_status pkt)"
    "load_nv_body f P img (of_nat k) (of_nat n) w =
       (if r \<noteq> 0 \<or> fin then Some (r, w1)
        else f P img (of_nat k + 1) (of_nat n + 3072) w1)"
proof -
  let ?m = "nv_msg k fin c" and ?n = "16 + length c"
  have frag: "nv_fragment img (of_nat k) (of_nat n) = Some (fin, ?n, ?m)"
    using nv_fragment_eq [OF n] by (simp add: fin_def c_def rest_def)
  have ml: "length ?m \<le> 4096" "length ?m = ?n" by (simp_all add: c_def)
  from PREPARE_HAL_BUF_ok [OF busy ml(1)] obtain hb where
    1: "PREPARE_HAL_BUF ?m w = Some (w\<lparr> hal_buf := Some hb \<rparr>)" "length hb = 4096"
    "buf_read hb 0 ?n = Some ?m" by (auto simp: ml(2))
  let ?w = "w\<lparr> hal_buf := Some hb \<rparr>"
  have busy': "hal_busy ?w" and log: "klog ?w = klog w" and hbw: "hal_buf ?w = Some hb"
    using busy 1(2) by (simp_all add: hal_busy_def)
  have le: "?n \<le> 4096" using ml by simp
  obtain w1 where 2: "hal_busy w1" "same_but_hal ?w w1" "smd_sent (klog w1) = smd_sent (klog w) @ [?m]"
    "wcn36xx_smd_send_and_wait P ?n ?w =
       Some (case firmware_answer P (klog w) ?m of Inl e \<Rightarrow> e | Inr _ \<Rightarrow> 0, w1)"
    "\<And>pkt. firmware_answer P (klog w) ?m = Inr pkt \<Longrightarrow> hal_rsp_len w1 = length pkt \<and>
       (\<exists>hb. hal_buf w1 = Some hb \<and> buf_read hb 0 (length pkt) = Some pkt)"
    by (rule send_and_wait_answer [OF wf busy' le hbw 1(3), unfolded log], rule that) blast+
  have same: "same_but_hal w w1"
    using same_but_hal_trans [OF _ 2(2), of w] by simp
  have three: "of_nat WCN36XX_NV_FRAGMENT_SIZE = (3072 :: u16)" by simp
  show ?thesis
  proof (cases "firmware_answer P (klog w) ?m")
    case (Inl e)
    then have "e \<noteq> 0" by (auto simp: firmware_answer_def Let_def split: if_splits)
    with Inl 1(1) 2(4) frag have "load_nv_body f P img (of_nat k) (of_nat n) w = Some (e, w1)"
      by (simp add: load_nv_body_def)
    with that [of w1 e] 2 same Inl \<open>e \<noteq> 0\<close> show ?thesis by simp
  next
    case (Inr pkt)
    from 2(5) [OF Inr] obtain hb' where "hal_rsp_len w1 = length pkt" "hal_buf w1 = Some hb'"
      "buf_read hb' 0 (length pkt) = Some pkt" by blast
    then have st: "wcn36xx_smd_rsp_status_check w1 = Some (rsp_status pkt, w1)"
      by (rule status_check_answered)
    have "load_nv_body f P img (of_nat k) (of_nat n) w =
       (if rsp_status pkt \<noteq> 0 \<or> fin then Some (rsp_status pkt, w1)
        else f P img (of_nat k + 1) (of_nat n + 3072) w1)"
      using Inr 1(1) 2(4) frag st three
      by (simp add: load_nv_body_def)
    with that [of w1 "rsp_status pkt"] 2 same Inr show ?thesis by simp
  qed
qed

lemma nv_msgs_append_ok: "m \<in> set (nv_msgs k cs) \<Longrightarrow> \<exists>j f c. m = nv_msg j f c \<and> c \<in> set cs"
  by (induction k cs rule: nv_msgs.induct) auto

lemma nv_chunks_small: "c \<in> set (nv_chunks bs) \<Longrightarrow> length c \<le> WCN36XX_NV_FRAGMENT_SIZE"
proof (induction bs rule: nv_chunks.induct)
  case (1 bs)
  then show ?case using nv_chunks.simps [of bs] by (auto split: if_splits)
qed

lemma nv_msg_ok: "length c \<le> WCN36XX_NV_FRAGMENT_SIZE \<Longrightarrow> hal_msg_ok HAL_DOWNLOAD_NV (nv_msg k f c)"
  unfolding nv_msg_def by (rule hal_msg_okI) simp_all

text \<open>A firmware that answers every request, with status 0.\<close>

definition fw_accepts :: "platform \<Rightarrow> bool" where
  "fw_accepts P \<longleftrightarrow> (\<forall>log m. \<exists>pkt. firmware_answer P log m = Inr pkt \<and> rsp_status pkt = 0)"

lemma load_nv_loop_runs:
  assumes wf: "smd_wf P" and size: "4 \<le> length img" "length img \<le> 67588"
  shows "hal_busy w \<Longrightarrow> 3072 * k + 4 \<le> length img \<Longrightarrow> k \<le> 21 \<Longrightarrow>
    \<exists>r w' ms rest. load_nv_loop P img (of_nat k) (of_nat (3072 * k)) w = Some (r, w') \<and> hal_busy w' \<and>
      same_but_hal w w' \<and> smd_sent (klog w') = smd_sent (klog w) @ ms \<and>
      nv_msgs k (nv_chunks (drop (4 + 3072 * k) img)) = ms @ rest \<and> (r = 0 \<longrightarrow> rest = []) \<and>
      (fw_accepts P \<longrightarrow> r = 0)"
proof (induction "21 - k" arbitrary: k w rule: less_induct)
  case less
  define rest where "rest = drop (4 + 3072 * k) img"
  define c where "c = take WCN36XX_NV_FRAGMENT_SIZE rest"
  define fin where "fin \<longleftrightarrow> length rest \<le> WCN36XX_NV_FRAGMENT_SIZE"
  have n: "3072 * k < 65536" "length img < 2 ^ 31" using less.prems(3) size by simp_all
  obtain r w1 where s: "hal_busy w1" "same_but_hal w w1"
    "smd_sent (klog w1) = smd_sent (klog w) @ [nv_msg k fin c]"
    "load_nv_loop P img (of_nat k) (of_nat (3072 * k)) w =
       (if r \<noteq> 0 \<or> fin then Some (r, w1)
        else load_nv_loop P img (of_nat k + 1) (of_nat (3072 * k) + 3072) w1)"
    "r = (case firmware_answer P (klog w) (nv_msg k fin c) of Inl e \<Rightarrow> e | Inr pkt \<Rightarrow> rsp_status pkt)"
    using load_nv_step [OF wf less.prems(1) n(1) less.prems(2) n(2), of k load_nv_loop]
    unfolding load_nv_loop_body [symmetric] rest_def [symmetric] c_def [symmetric] fin_def [symmetric] by metis
  have acc: "fw_accepts P \<longrightarrow> r = 0"
    using s(5) unfolding fw_accepts_def by (metis sum.simps(6))
  have chunks: "nv_chunks rest = (if fin then [rest] else c # nv_chunks (drop 3072 rest))"
    unfolding c_def fin_def by (subst nv_chunks.simps) simp
  show ?case
  proof (cases "fin")
    case True
    then have "c = rest" by (simp add: c_def fin_def)
    with s True chunks acc show ?thesis
      unfolding rest_def [symmetric]
      by (intro exI [of _ r] exI [of _ w1] exI [of _ "[nv_msg k fin c]"] exI [of _ "[]"]) simp
  next
    case False
    have msgs: "nv_msgs k (nv_chunks rest) = nv_msg k fin c # nv_msgs (Suc k) (nv_chunks (drop 3072 rest))"
      using False chunks by simp
    show ?thesis
    proof (cases "r = 0")
      case r: False
      with s msgs acc show ?thesis
        unfolding rest_def [symmetric]
        by (intro exI [of _ r] exI [of _ w1] exI [of _ "[nv_msg k fin c]"]
            exI [of _ "nv_msgs (Suc k) (nv_chunks (drop 3072 rest))"]) simp
    next
      case r: True
      have more: "3072 < length img - (4 + 3072 * k)"
        using False by (simp add: fin_def rest_def)
      then have k: "Suc k \<le> 21" "3072 * Suc k + 4 \<le> length img" using size(2) by simp_all
      have args: "(of_nat k + 1 :: u16) = of_nat (Suc k)"
        "(of_nat (3072 * k) + 3072 :: u16) = of_nat (3072 * Suc k)" by simp_all
      have d: "drop (4 + 3072 * Suc k) img = drop 3072 rest"
        by (simp add: rest_def add.commute add.left_commute)
      have lt: "21 - Suc k < 21 - k" using k by simp
      from less.hyps [OF lt s(1) k(2,1)] obtain r' w' ms rst where
        ih: "load_nv_loop P img (of_nat (Suc k)) (of_nat (3072 * Suc k)) w1 = Some (r', w')" "hal_busy w'"
        "same_but_hal w1 w'" "smd_sent (klog w') = smd_sent (klog w1) @ ms"
        "nv_msgs (Suc k) (nv_chunks (drop 3072 rest)) = ms @ rst" "r' = 0 \<longrightarrow> rst = []"
        "fw_accepts P \<longrightarrow> r' = 0"
        unfolding d by blast
      have "load_nv_loop P img (of_nat k) (of_nat (3072 * k)) w = Some (r', w')"
        using s(4) r False ih(1) unfolding args by simp
      with ih s msgs same_but_hal_trans [OF s(2) ih(3)] show ?thesis
        unfolding rest_def [symmetric]
        by (intro exI [of _ r'] exI [of _ w'] exI [of _ "nv_msg k fin c # ms"] exI [of _ rst]) simp
    qed
  qed
qed

text \<open>C6: Downloading an NV image of 4 to 67588 bytes returns, for every firmware, and what it has sent
  are well-formed messages, the first fragments of the image in order and numbered from 0, only the
  last of them marked as such; when the result is 0, as it is for a firmware that answers every
  request with status 0, they are all of them, and their data put together are the image after its
  four-byte header.\<close>

theorem load_nv_sends_image:
  assumes wf: "smd_wf P" and ready: "hal_ready w" and img: "nv w = Some img"
    and size: "4 \<le> length img" "length img \<le> 67588"
  shows "\<exists>r w' ms rest. wcn36xx_smd_load_nv P w = Some (r, w') \<and> hal_ready w' \<and> same_but_hal w w' \<and>
           smd_sent (klog w') = smd_sent (klog w) @ ms \<and>
           nv_msgs 0 (nv_chunks (drop 4 img)) = ms @ rest \<and> (r = 0 \<longrightarrow> rest = []) \<and>
           (fw_accepts P \<longrightarrow> r = 0) \<and> concat (nv_chunks (drop 4 img)) = drop 4 img \<and> list_all (hal_msg_ok HAL_DOWNLOAD_NV) ms"
proof -
  let ?w0 = "w\<lparr> hal_mutex := True \<rparr>"
  have lock: "hal_lock w = Some ?w0" "hal_busy ?w0"
    using ready by (simp_all add: hal_lock_def hal_ready_def hal_busy_def)
  from load_nv_loop_runs [OF wf size lock(2), of 0] size obtain r w' ms rest where
    1: "load_nv_loop P img 0 0 ?w0 = Some (r, w')" "hal_busy w'" "same_but_hal ?w0 w'"
    "smd_sent (klog w') = smd_sent (klog w) @ ms"
    "nv_msgs 0 (nv_chunks (drop 4 img)) = ms @ rest" "r = 0 \<longrightarrow> rest = []"
    "fw_accepts P \<longrightarrow> r = 0" by auto
  have "wcn36xx_smd_load_nv P w = Some (r, hal_unlock w')"
    using 1(1) lock(1) img by (simp add: wcn36xx_smd_load_nv_def nv_request_firmware_def then_unlock_def)
  moreover have "same_but_hal w (hal_unlock w')" "klog (hal_unlock w') = klog w'"
    using same_but_hal_trans [OF _ 1(3), of w] by (simp_all add: hal_unlock_def)
  moreover have "list_all (hal_msg_ok HAL_DOWNLOAD_NV) ms"
    unfolding list_all_iff
  proof
    fix m assume "m \<in> set ms"
    then have "m \<in> set (nv_msgs 0 (nv_chunks (drop 4 img)))" using 1(5) by simp
    then show "hal_msg_ok HAL_DOWNLOAD_NV m"
      using nv_msgs_append_ok nv_chunks_small nv_msg_ok by metis
  qed
  ultimately show ?thesis
    using hal_busy_unlock [OF 1(2)] 1(4-) concat_nv_chunks by auto
qed

definition sample_nv_wcn :: "nat \<Rightarrow> wcn36xx" where
  "sample_nv_wcn n = sample_wcn\<lparr> nv := Some (replicate n 0) \<rparr>"

lemma sample_nv_ready: "hal_ready (sample_nv_wcn n)" "nv (sample_nv_wcn n) = Some (replicate n 0)"
  "klog (sample_nv_wcn n) = []"
  using sample_hal_ready by (simp_all add: sample_nv_wcn_def hal_ready_def sample_wcn_def ssids_ok_def ind_inv_def)

abbreviation (input) nv_platform :: platform where
  "nv_platform \<equiv> answering_platform [status_rsp HAL_DOWNLOAD_NV 0]"

lemma nv_platform_wf: "smd_wf nv_platform"
  by (rule answering_platform_wf) simp

theorem load_nv_sends_image_witness:
  "\<exists>r w' ms rest. wcn36xx_smd_load_nv nv_platform (sample_nv_wcn 5000) = Some (r, w') \<and>
     smd_sent (klog w') = ms \<and> nv_msgs 0 (nv_chunks (replicate 4996 0)) = ms @ rest \<and>
     (r = 0 \<longrightarrow> rest = [])"
  using load_nv_sends_image [OF nv_platform_wf sample_nv_ready(1,2), of 5000] sample_nv_ready(3) [of 5000]
  by (fastforce simp: smd_sent_def List.map_filter_simps)

text \<open>The 16-bit offset stays a multiple of 1024 when it wraps.\<close>

lemma nv_offset_wraps:
  "\<exists>j' < 64. (of_nat (1024 * j) + of_nat WCN36XX_NV_FRAGMENT_SIZE :: u16) = of_nat (1024 * j')"
proof (intro exI conjI)
  show "(j + 3) mod 64 < (64 :: nat)" by simp
  have "1024 * ((j + 3) mod 64) = (1024 * j + 3072) mod 65536"
    by (simp add: mult_mod_right)
  then have "(of_nat (1024 * ((j + 3) mod 64)) :: u16) = of_nat (1024 * j + 3072)"
    by (simp add: word_of_nat_eq_iff take_bit_eq_mod del: of_nat_add of_nat_mult)
  then show "(of_nat (1024 * j) + of_nat WCN36XX_NV_FRAGMENT_SIZE :: u16) = of_nat (1024 * ((j + 3) mod 64))"
    by simp
qed

lemma load_nv_body_continues:
  assumes wf: "smd_wf P" and size: "67588 < length img" "length img < 2 ^ 31" and accepts: "fw_accepts P"
    and busy: "hal_busy v" and j: "j < 64"
  obtains w1 where "hal_busy w1"
    "load_nv_body f P img (of_nat k) (of_nat (1024 * j)) v = f P img (of_nat k + 1) (of_nat (1024 * j) + 3072) w1"
proof -
  have n: "1024 * j < 65536" "1024 * j + 4 \<le> length img" using j size by simp_all
  have more: "\<not> length (drop (4 + 1024 * j) img) \<le> 3072" using j size(1) by simp
  show thesis
  proof (rule load_nv_step [OF wf busy n size(2), where k = k and f = f], goal_cases)
    case (1 r w1)
    obtain pkt where "firmware_answer P (klog v) (nv_msg k (length (drop (4 + 1024 * j) img) \<le> 3072)
        (take 3072 (drop (4 + 1024 * j) img))) = Inr pkt" "rsp_status pkt = 0"
      using accepts by (auto simp: fw_accepts_def)
    then have "r = 0" using 1(4) by simp
    with 1 more that show ?case by simp
  qed
qed

lemma load_nv_loop_large:
  assumes wf: "smd_wf P" and size: "67588 < length img" "length img < 2 ^ 31" and accepts: "fw_accepts P"
    and ret: "load_nv_loop Q i frag off v = Some res"
  shows "\<not> (Q = P \<and> i = img \<and> (\<exists>k. frag = of_nat k) \<and> (\<exists>j < 64. off = of_nat (1024 * j)) \<and> hal_busy v)"
proof (rule load_nv_loop.raw_induct [where P = "\<lambda>Q i frag off v res. \<not> (Q = P \<and> i = img \<and>
      (\<exists>k. frag = of_nat k) \<and> (\<exists>j < 64. off = of_nat (1024 * j)) \<and> hal_busy v)", OF _ ret], goal_cases)
  case (1 f Q i frag off v res)
  show ?case
  proof
    assume "Q = P \<and> i = img \<and> (\<exists>k. frag = of_nat k) \<and> (\<exists>j < 64. off = of_nat (1024 * j)) \<and> hal_busy v"
    then obtain k j where a: "Q = P" "i = img" "frag = of_nat k" "off = of_nat (1024 * j)" "hal_busy v"
      "j < 64" by blast
    have eq: "load_nv_body f P img (of_nat k) (of_nat (1024 * j)) v = Some res"
      using 1(2) unfolding load_nv_body_def a(1-4) .
    obtain w1 where w1: "hal_busy w1"
      "load_nv_body f P img (of_nat k) (of_nat (1024 * j)) v = f P img (of_nat k + 1) (of_nat (1024 * j) + 3072) w1"
      by (rule load_nv_body_continues [OF wf size accepts a(5,6)])
    with eq have "f P img (of_nat k + 1) (of_nat (1024 * j) + 3072) w1 = Some res" by simp
    note stop = 1(1) [OF this]
    have "\<exists>k'. (of_nat k + 1 :: u16) = of_nat k'" by (rule exI [of _ "Suc k"]) simp
    moreover have "\<exists>j' < 64. (of_nat (1024 * j) + 3072 :: u16) = of_nat (1024 * j')"
      using nv_offset_wraps [of j] by simp
    ultimately show False using stop w1(1) by blast
  qed
qed

text \<open>C25: The offset into the image is a 16-bit number that wraps: for every image larger than 67588
  bytes, a firmware that accepts every fragment is sent fragments for ever.\<close>

theorem load_nv_large_image_never_returns:
  assumes wf: "smd_wf P" and ready: "hal_ready w" and img: "nv w = Some img"
    and size: "67588 < length img" "length img < 2 ^ 31" and accepts: "fw_accepts P"
  shows "wcn36xx_smd_load_nv P w = None"
proof -
  let ?w0 = "w\<lparr> hal_mutex := True \<rparr>"
  have lock: "hal_lock w = Some ?w0" "hal_busy ?w0"
    using ready by (simp_all add: hal_lock_def hal_ready_def hal_busy_def)
  have "\<exists>k. (0 :: u16) = of_nat k" "\<exists>j < 64. (0 :: u16) = of_nat (1024 * j)"
    by (rule exI [of _ 0], simp)+
  with load_nv_loop_large [OF wf size accepts, of P img 0 0 ?w0] lock(2)
  have "load_nv_loop P img 0 0 ?w0 = None" by (cases "load_nv_loop P img 0 0 ?w0") blast+
  then show ?thesis
    using lock(1) img
    by (simp add: wcn36xx_smd_load_nv_def nv_request_firmware_def then_unlock_def)
qed

theorem load_nv_large_image_never_returns_witness:
  "wcn36xx_smd_load_nv nv_platform (sample_nv_wcn 70000) = None"
proof (rule load_nv_large_image_never_returns [OF nv_platform_wf sample_nv_ready(1,2)])
  show "fw_accepts nv_platform"
    using answering_platform_answer [of "status_rsp HAL_DOWNLOAD_NV 0"] by (simp add: fw_accepts_def)
qed simp_all

end
