(* ===== verification/Smd_Config.thy ===== *)
theory Smd_Config
  imports Smd_Cmds
begin

text \<open>
  The commands of \<^verbatim>\<open>smd.c\<close> that describe a station and a BSS to the firmware: the structures of
  \<^verbatim>\<open>hal.h\<close> as records with their byte layouts, the functions that fill them from the state of
  mac80211 and of the driver, their conversion for firmware with the other layout, and the two
  commands with their response handlers.
\<close>

section \<open>Rates\<close>

abbreviation (input) HW_RATE_INDEX_1MBPS :: u16 where "HW_RATE_INDEX_1MBPS \<equiv> 0x82"
abbreviation (input) HW_RATE_INDEX_2MBPS :: u16 where "HW_RATE_INDEX_2MBPS \<equiv> 0x84"
abbreviation (input) HW_RATE_INDEX_5_5MBPS :: u16 where "HW_RATE_INDEX_5_5MBPS \<equiv> 0x8B"
abbreviation (input) HW_RATE_INDEX_6MBPS :: u16 where "HW_RATE_INDEX_6MBPS \<equiv> 0x0C"
abbreviation (input) HW_RATE_INDEX_9MBPS :: u16 where "HW_RATE_INDEX_9MBPS \<equiv> 0x12"
abbreviation (input) HW_RATE_INDEX_11MBPS :: u16 where "HW_RATE_INDEX_11MBPS \<equiv> 0x96"
abbreviation (input) HW_RATE_INDEX_12MBPS :: u16 where "HW_RATE_INDEX_12MBPS \<equiv> 0x18"
abbreviation (input) HW_RATE_INDEX_18MBPS :: u16 where "HW_RATE_INDEX_18MBPS \<equiv> 0x24"
abbreviation (input) HW_RATE_INDEX_24MBPS :: u16 where "HW_RATE_INDEX_24MBPS \<equiv> 0x30"
abbreviation (input) HW_RATE_INDEX_36MBPS :: u16 where "HW_RATE_INDEX_36MBPS \<equiv> 0x48"
abbreviation (input) HW_RATE_INDEX_48MBPS :: u16 where "HW_RATE_INDEX_48MBPS \<equiv> 0x60"
abbreviation (input) HW_RATE_INDEX_54MBPS :: u16 where "HW_RATE_INDEX_54MBPS \<equiv> 0x6C"

text \<open>An array of \<open>n\<close> elements holds \<open>n\<close> of them.\<close>

definition fixed :: "nat \<Rightarrow> 'a::zero list \<Rightarrow> 'a list" where
  "fixed n xs = take n (xs @ replicate n 0)"

lemma length_fixed [simp]: "length (fixed n xs) = n"
  by (simp add: fixed_def)

lemma fixed_id [simp]: "length xs = n \<Longrightarrow> fixed n xs = xs"
  by (simp add: fixed_def)

definition supported_rates_bytes :: "wcn36xx_hal_supported_rates \<Rightarrow> u8 list" where
  "supported_rates_bytes r =
     le32 (rate_mode_val (op_rate_mode r)) @
     concat (map le16 (fixed NUM_DSSS_RATES (dsss_rates r))) @
     concat (map le16 (fixed NUM_OFDM_RATES (ofdm_rates r))) @
     concat (map le16 (fixed NUM_POLARIS_RATES (legacy_rates r))) @ le16 (rates_reserved r) @
     le32 (enhanced_rate_bitmap r) @ fixed MAX_SUPPORTED_MCS_SET (supported_mcs_set r) @
     le16 (rx_highest_data_rate r)"

text \<open>It writes the mode, the rates and the first byte of the MCS set.\<close>

definition wcn36xx_set_default_rates :: "wcn36xx_hal_supported_rates \<Rightarrow> wcn36xx_hal_supported_rates" where
  "wcn36xx_set_default_rates rates =
     rates\<lparr> op_rate_mode := STA_11n,
       dsss_rates := [HW_RATE_INDEX_1MBPS, HW_RATE_INDEX_2MBPS, HW_RATE_INDEX_5_5MBPS,
                      HW_RATE_INDEX_11MBPS],
       ofdm_rates := [HW_RATE_INDEX_6MBPS, HW_RATE_INDEX_9MBPS, HW_RATE_INDEX_12MBPS,
                      HW_RATE_INDEX_18MBPS, HW_RATE_INDEX_24MBPS, HW_RATE_INDEX_36MBPS,
                      HW_RATE_INDEX_48MBPS, HW_RATE_INDEX_54MBPS],
       supported_mcs_set := (supported_mcs_set rates)[0 := 0xFF] \<rparr>"

section \<open>The parameters of a station\<close>

abbreviation (input) WCN36XX_HAL_STA_INVALID_IDX :: u8 where "WCN36XX_HAL_STA_INVALID_IDX \<equiv> 0xFF"
abbreviation (input) WCN36XX_HAL_HT_MIMO_PS_STATIC :: u32 where "WCN36XX_HAL_HT_MIMO_PS_STATIC \<equiv> 0"

record wcn36xx_hal_config_sta_params =
  cs_bssid :: "u8 list"
  cs_aid :: u16
  cs_type :: u8
  cs_short_preamble_supported :: u8
  cs_mac :: "u8 list"
  cs_listen_interval :: u16
  cs_wmm_enabled :: u8
  cs_ht_capable :: u8
  cs_tx_channel_width_set :: u8
  cs_rifs_mode :: u8
  cs_lsig_txop_protection :: u8
  cs_max_ampdu_size :: u8
  cs_max_ampdu_density :: u8
  cs_max_amsdu_size :: u8
  cs_sgi_40mhz :: u8
  cs_sgi_20Mhz :: u8
  cs_supported_rates :: wcn36xx_hal_supported_rates
  cs_rmf :: u8
  cs_encrypt_type :: u32
  cs_action :: u8
  cs_uapsd :: u8
  cs_max_sp_len :: u8
  cs_green_field_capable :: u8
  cs_mimo_ps :: u32
  cs_delayed_ba_support :: u8
  cs_max_ampdu_duration :: u8
  cs_dsss_cck_mode_40mhz :: u8
  cs_sta_index :: u8
  cs_bssid_index :: u8
  cs_p2p :: u8

definition zero_sta_params :: wcn36xx_hal_config_sta_params where
  "zero_sta_params =
     \<lparr> cs_bssid = replicate ETH_ALEN 0, cs_aid = 0, cs_type = 0, cs_short_preamble_supported = 0,
       cs_mac = replicate ETH_ALEN 0, cs_listen_interval = 0, cs_wmm_enabled = 0,
       cs_ht_capable = 0, cs_tx_channel_width_set = 0, cs_rifs_mode = 0,
       cs_lsig_txop_protection = 0, cs_max_ampdu_size = 0, cs_max_ampdu_density = 0,
       cs_max_amsdu_size = 0, cs_sgi_40mhz = 0, cs_sgi_20Mhz = 0, cs_supported_rates = zero_rates,
       cs_rmf = 0, cs_encrypt_type = 0, cs_action = 0, cs_uapsd = 0, cs_max_sp_len = 0,
       cs_green_field_capable = 0, cs_mimo_ps = 0, cs_delayed_ba_support = 0,
       cs_max_ampdu_duration = 0, cs_dsss_cck_mode_40mhz = 0, cs_sta_index = 0,
       cs_bssid_index = 0, cs_p2p = 0 \<rparr>"

definition config_sta_params_bytes :: "wcn36xx_hal_config_sta_params \<Rightarrow> u8 list" where
  "config_sta_params_bytes p =
     eth_addr (cs_bssid p) @ le16 (cs_aid p) @ [cs_type p, cs_short_preamble_supported p] @
     eth_addr (cs_mac p) @ le16 (cs_listen_interval p) @
     [cs_wmm_enabled p, cs_ht_capable p, cs_tx_channel_width_set p, cs_rifs_mode p,
      cs_lsig_txop_protection p, cs_max_ampdu_size p, cs_max_ampdu_density p,
      cs_max_amsdu_size p, cs_sgi_40mhz p, cs_sgi_20Mhz p] @
     supported_rates_bytes (cs_supported_rates p) @ [cs_rmf p] @ le32 (cs_encrypt_type p) @
     [cs_action p, cs_uapsd p, cs_max_sp_len p, cs_green_field_capable p] @ le32 (cs_mimo_ps p) @
     [cs_delayed_ba_support p, cs_max_ampdu_duration p, cs_dsss_cck_mode_40mhz p,
      cs_sta_index p, cs_bssid_index p, cs_p2p p]"

record wcn36xx_hal_config_sta_params_v1 =
  s1_bssid :: "u8 list"
  s1_aid :: u16
  s1_type :: u8
  s1_short_preamble_supported :: u8
  s1_mac :: "u8 list"
  s1_listen_interval :: u16
  s1_wmm_enabled :: u8
  s1_ht_capable :: u8
  s1_tx_channel_width_set :: u8
  s1_rifs_mode :: u8
  s1_lsig_txop_protection :: u8
  s1_max_ampdu_size :: u8
  s1_max_ampdu_density :: u8
  s1_max_amsdu_size :: u8
  s1_sgi_40mhz :: u8
  s1_sgi_20Mhz :: u8
  s1_rmf :: u8
  s1_encrypt_type :: u32
  s1_action :: u8
  s1_uapsd :: u8
  s1_max_sp_len :: u8
  s1_green_field_capable :: u8
  s1_mimo_ps :: u32
  s1_delayed_ba_support :: u8
  s1_max_ampdu_duration :: u8
  s1_dsss_cck_mode_40mhz :: u8
  s1_sta_index :: u8
  s1_bssid_index :: u8
  s1_p2p :: u8
  s1_reserved :: u8
  s1_supported_rates :: wcn36xx_hal_supported_rates

definition config_sta_params_v1_bytes :: "wcn36xx_hal_config_sta_params_v1 \<Rightarrow> u8 list" where
  "config_sta_params_v1_bytes p =
     eth_addr (s1_bssid p) @ le16 (s1_aid p) @ [s1_type p, s1_short_preamble_supported p] @
     eth_addr (s1_mac p) @ le16 (s1_listen_interval p) @
     [s1_wmm_enabled p, s1_ht_capable p, s1_tx_channel_width_set p, s1_rifs_mode p,
      s1_lsig_txop_protection p, s1_max_ampdu_size p, s1_max_ampdu_density p,
      s1_max_amsdu_size p, s1_sgi_40mhz p, s1_sgi_20Mhz p, s1_rmf p] @
     le32 (s1_encrypt_type p) @
     [s1_action p, s1_uapsd p, s1_max_sp_len p, s1_green_field_capable p] @ le32 (s1_mimo_ps p) @
     [s1_delayed_ba_support p, s1_max_ampdu_duration p, s1_dsss_cck_mode_40mhz p,
      s1_sta_index p, s1_bssid_index p, s1_p2p p, s1_reserved p] @
     supported_rates_bytes (s1_supported_rates p)"

text \<open>\<^verbatim>\<open>max_amsdu_size\<close> and \<^verbatim>\<open>reserved\<close> are not assigned and keep the 0 of \<^verbatim>\<open>INIT_HAL_MSG\<close>.\<close>

definition wcn36xx_smd_convert_sta_to_v1 ::
  "wcn36xx_hal_config_sta_params \<Rightarrow> wcn36xx_hal_config_sta_params_v1" where
  "wcn36xx_smd_convert_sta_to_v1 orig =
     \<lparr> s1_bssid = cs_bssid orig, s1_aid = cs_aid orig, s1_type = cs_type orig,
       s1_short_preamble_supported = cs_short_preamble_supported orig, s1_mac = cs_mac orig,
       s1_listen_interval = cs_listen_interval orig, s1_wmm_enabled = cs_wmm_enabled orig,
       s1_ht_capable = cs_ht_capable orig,
       s1_tx_channel_width_set = cs_tx_channel_width_set orig,
       s1_rifs_mode = cs_rifs_mode orig,
       s1_lsig_txop_protection = cs_lsig_txop_protection orig,
       s1_max_ampdu_size = cs_max_ampdu_size orig,
       s1_max_ampdu_density = cs_max_ampdu_density orig,
       s1_max_amsdu_size = 0, s1_sgi_40mhz = cs_sgi_40mhz orig,
       s1_sgi_20Mhz = cs_sgi_20Mhz orig, s1_rmf = cs_rmf orig,
       s1_encrypt_type = cs_encrypt_type orig, s1_action = cs_action orig,
       s1_uapsd = cs_uapsd orig, s1_max_sp_len = cs_max_sp_len orig,
       s1_green_field_capable = cs_green_field_capable orig, s1_mimo_ps = cs_mimo_ps orig,
       s1_delayed_ba_support = cs_delayed_ba_support orig,
       s1_max_ampdu_duration = cs_max_ampdu_duration orig,
       s1_dsss_cck_mode_40mhz = cs_dsss_cck_mode_40mhz orig, s1_sta_index = cs_sta_index orig,
       s1_bssid_index = cs_bssid_index orig, s1_p2p = cs_p2p orig, s1_reserved = 0,
       s1_supported_rates = cs_supported_rates orig \<rparr>"

section \<open>Filling the parameters of a station\<close>

definition is_cap_supported :: "ht_cap_flag set \<Rightarrow> ht_cap_flag \<Rightarrow> u8" where
  "is_cap_supported caps flag = (if flag \<in> caps then 1 else 0)"

definition wcn36xx_smd_set_sta_ht_params ::
  "ieee80211_sta \<Rightarrow> wcn36xx_hal_config_sta_params \<Rightarrow> wcn36xx_hal_config_sta_params" where
  "wcn36xx_smd_set_sta_ht_params sta p =
     (if ht_supported sta
      then (let caps = ht_cap sta in
        p\<lparr> cs_ht_capable := byte_of_bool (ht_supported sta),
           cs_tx_channel_width_set := is_cap_supported caps IEEE80211_HT_CAP_SUP_WIDTH_20_40,
           cs_lsig_txop_protection := is_cap_supported caps IEEE80211_HT_CAP_LSIG_TXOP_PROT,
           cs_max_ampdu_size := ampdu_factor sta, cs_max_ampdu_density := ampdu_density sta,
           cs_max_amsdu_size := is_cap_supported caps IEEE80211_HT_CAP_MAX_AMSDU,
           cs_sgi_20Mhz := is_cap_supported caps IEEE80211_HT_CAP_SGI_20,
           cs_sgi_40mhz := is_cap_supported caps IEEE80211_HT_CAP_SGI_40,
           cs_green_field_capable := is_cap_supported caps IEEE80211_HT_CAP_GRN_FLD,
           cs_delayed_ba_support := is_cap_supported caps IEEE80211_HT_CAP_DELAY_BA,
           cs_dsss_cck_mode_40mhz := is_cap_supported caps IEEE80211_HT_CAP_DSSSCCK40 \<rparr>)
      else p)"

definition wcn36xx_smd_set_sta_default_ht_params ::
  "wcn36xx_hal_config_sta_params \<Rightarrow> wcn36xx_hal_config_sta_params" where
  "wcn36xx_smd_set_sta_default_ht_params p =
     p\<lparr> cs_ht_capable := 1, cs_tx_channel_width_set := 1, cs_lsig_txop_protection := 1,
        cs_max_ampdu_size := 3, cs_max_ampdu_density := 5, cs_max_amsdu_size := 0,
        cs_sgi_20Mhz := 1, cs_sgi_40mhz := 1, cs_green_field_capable := 1,
        cs_delayed_ba_support := 0, cs_dsss_cck_mode_40mhz := 1 \<rparr>"

text \<open>The part that does not depend on the station.\<close>

definition set_sta_params_vif ::
  "wcn36xx \<Rightarrow> nat \<Rightarrow> wcn36xx_hal_config_sta_params \<Rightarrow> wcn36xx_hal_config_sta_params" where
  "set_sta_params_vif w v p =
     (let vif = vifs w v; vp = vif_priv w v;
          p = (if vif_type vif \<in> {NL80211_IFTYPE_ADHOC, NL80211_IFTYPE_AP, NL80211_IFTYPE_MESH_POINT}
               then p\<lparr> cs_type := 1, cs_sta_index := WCN36XX_HAL_STA_INVALID_IDX \<rparr>
               else p\<lparr> cs_type := 0, cs_sta_index := self_sta_index vp \<rparr>);
          p = p\<lparr> cs_listen_interval := WCN36XX_LISTEN_INTERVAL w \<rparr>;
          p = (if vif_type vif = NL80211_IFTYPE_STATION then p\<lparr> cs_mac := vif_addr vif \<rparr>
               else p\<lparr> cs_bssid := vif_addr vif \<rparr>)
      in p\<lparr> cs_encrypt_type := ed_type_val (encrypt_type vp),
            cs_short_preamble_supported := byte_of_bool (\<not> hw_short_preamble_incapable (hw_conf w)),
            cs_rifs_mode := 0, cs_rmf := 0, cs_action := 0, cs_uapsd := 0,
            cs_mimo_ps := WCN36XX_HAL_HT_MIMO_PS_STATIC, cs_max_ampdu_duration := 0,
            cs_bssid_index := bss_index vp, cs_p2p := 0 \<rparr>)"

definition wcn36xx_smd_set_sta_params ::
  "wcn36xx \<Rightarrow> nat \<Rightarrow> nat option \<Rightarrow> wcn36xx_hal_config_sta_params \<Rightarrow> wcn36xx_hal_config_sta_params" where
  "wcn36xx_smd_set_sta_params w v sta p =
     (let p = set_sta_params_vif w v p in
      case sta of
        Some s \<Rightarrow>
          (let st = stas w s; sp = sta_priv w s;
               p = (if vif_type (vifs w v) = NL80211_IFTYPE_STATION then p\<lparr> cs_bssid := sta_addr st \<rparr>
                    else p\<lparr> cs_mac := sta_addr st \<rparr>);
               p = p\<lparr> cs_wmm_enabled := byte_of_bool (sta_wme st), cs_max_sp_len := sta_max_sp st,
                      cs_aid := sp_aid sp \<rparr>;
               p = wcn36xx_smd_set_sta_ht_params st p
           in p\<lparr> cs_supported_rates := supported_rates sp \<rparr>)
      | None \<Rightarrow>
          wcn36xx_smd_set_sta_default_ht_params
            (p\<lparr> cs_supported_rates := wcn36xx_set_default_rates (cs_supported_rates p) \<rparr>))"

section \<open>Configuring a station\<close>

abbreviation (input) sizeof_config_sta_rsp :: nat where "sizeof_config_sta_rsp \<equiv> 21"

definition wcn36xx_smd_config_sta_rsp :: "nat \<Rightarrow> wcn36xx \<Rightarrow> (int \<times> wcn36xx) option" where
  "wcn36xx_smd_config_sta_rsp s w =
     (if hal_rsp_len w < sizeof_config_sta_rsp then Some (- EINVAL, w)
      else do {
        hb \<leftarrow> hal_buf w;
        bs \<leftarrow> buf_read hb sizeof_hal_msg_header 13;
        if of_le32 (take 4 bs) \<noteq> WCN36XX_FW_MSG_RESULT_SUCCESS then Some (- EIO, w)
        else Some (0, set_sta_priv s (\<lambda>sp. sp\<lparr> sta_index := bs ! 4, dpu_desc_index := bs ! 6,
                                                ucast_dpu_sign := bs ! 9 \<rparr>) w) })"

definition hal_send :: "platform \<Rightarrow> u8 list \<Rightarrow> wcn36xx \<Rightarrow> (int \<times> wcn36xx) option" where
  "hal_send P m w = do {
     w \<leftarrow> PREPARE_HAL_BUF m w;
     wcn36xx_smd_send_and_wait P (length m) w }"

definition config_sta_v1_msg :: "wcn36xx_hal_config_sta_params \<Rightarrow> u8 list" where
  "config_sta_v1_msg orig =
     INIT_HAL_MSG HAL_CONFIG_STA (config_sta_params_v1_bytes (wcn36xx_smd_convert_sta_to_v1 orig))"

definition wcn36xx_smd_config_sta_v1 ::
  "platform \<Rightarrow> wcn36xx_hal_config_sta_params \<Rightarrow> wcn36xx \<Rightarrow> (int \<times> wcn36xx) option" where
  "wcn36xx_smd_config_sta_v1 P orig w = hal_send P (config_sta_v1_msg orig) w"

definition config_sta_msg :: "wcn36xx_hal_config_sta_params \<Rightarrow> u8 list" where
  "config_sta_msg p = INIT_HAL_MSG HAL_CONFIG_STA (config_sta_params_bytes p)"

definition wcn36xx_smd_config_sta :: "platform \<Rightarrow> nat \<Rightarrow> nat \<Rightarrow> wcn36xx \<Rightarrow> (int \<times> wcn36xx) option" where
  "wcn36xx_smd_config_sta P v s w = do {
     w \<leftarrow> hal_lock w;
     let p = wcn36xx_smd_set_sta_params w v (Some s) zero_sta_params;
     then_unlock (do {
       (ret, w) \<leftarrow> (if \<not> wcn36xx_is_fw_version w 1 2 2 24 then wcn36xx_smd_config_sta_v1 P p w
                    else hal_send P (config_sta_msg p) w);
       if ret \<noteq> 0 then Some (ret, w) else wcn36xx_smd_config_sta_rsp s w }) }"

section \<open>What the command does\<close>

text \<open>The request of the command as a function of the state it starts in.\<close>

definition sta_request :: "wcn36xx \<Rightarrow> nat \<Rightarrow> nat option \<Rightarrow> u8 list" where
  "sta_request w v sta =
     (let p = wcn36xx_smd_set_sta_params w v sta zero_sta_params
      in if \<not> wcn36xx_is_fw_version w 1 2 2 24 then config_sta_v1_msg p else config_sta_msg p)"

lemma hal_send_request:
  "do { (ret, w) \<leftarrow> hal_send P m w; if ret \<noteq> 0 then Some (ret, w) else rsp w } = hal_request P m rsp w"
  by (simp add: hal_send_def hal_request_def)

lemma set_sta_params_vif_mutex [simp]:
  "set_sta_params_vif (w\<lparr> hal_mutex := b \<rparr>) v p = set_sta_params_vif w v p"
  unfolding set_sta_params_vif_def by simp

lemma set_sta_params_mutex [simp]:
  "wcn36xx_smd_set_sta_params (w\<lparr> hal_mutex := b \<rparr>) v sta p = wcn36xx_smd_set_sta_params w v sta p"
  unfolding wcn36xx_smd_set_sta_params_def by (cases sta) simp_all

lemma is_fw_version_mutex [simp]:
  "wcn36xx_is_fw_version (w\<lparr> hal_mutex := b \<rparr>) = wcn36xx_is_fw_version w"
  by (intro ext) (simp add: wcn36xx_is_fw_version_def)

lemma config_sta_command:
  "wcn36xx_smd_config_sta P v s w =
     hal_command P (sta_request w v (Some s)) (wcn36xx_smd_config_sta_rsp s) w"
  by (auto simp: wcn36xx_smd_config_sta_def hal_command_def sta_request_def hal_lock_def Let_def
      wcn36xx_smd_config_sta_v1_def hal_send_request)

lemma supported_rates_bytes_length [simp]: "length (supported_rates_bytes r) = 58"
proof -
  have "length (concat (map le16 xs)) = 2 * length xs" for xs
    by (induction xs) simp_all
  then show ?thesis by (simp add: supported_rates_bytes_def)
qed

lemma config_sta_lengths [simp]:
  "length (config_sta_params_bytes p) = 105" "length (config_sta_params_v1_bytes p1) = 106"
  "length (config_sta_msg p) = 113" "length (config_sta_v1_msg p) = 114"
  by (simp_all add: config_sta_params_bytes_def config_sta_params_v1_bytes_def config_sta_msg_def
      config_sta_v1_msg_def)

lemma config_sta_rsp_safe [safe_intros]: "op_safe hal_busy (wcn36xx_smd_config_sta_rsp s)"
proof
  fix w assume busy: "hal_busy w"
  from hal_busy_buf [OF this] obtain hb where "hal_buf w = Some hb" "length hb = 4096" by blast
  with busy show "\<exists>r w'. wcn36xx_smd_config_sta_rsp s w = Some (r, w') \<and> hal_busy w'"
    by (auto simp: wcn36xx_smd_config_sta_rsp_def hal_busy_def buf_read_def)
qed

lemma sta_request_length: "length (sta_request w v sta) \<le> 4096"
  by (simp add: sta_request_def Let_def)

lemma config_sta_safe:
  assumes "smd_wf P"
  shows "op_safe hal_ready (wcn36xx_smd_config_sta P v s)"
  unfolding config_sta_command
  using hal_command_state_safe [OF assms sta_request_length config_sta_rsp_safe] .

lemma config_sta_rsp_answered:
  assumes "hal_rsp_len w1 = length pkt" "hal_buf w1 = Some hb" "buf_read hb 0 (length pkt) = Some pkt"
  shows "wcn36xx_smd_config_sta_rsp s w1 =
     Some (if length pkt < 21 then (- EINVAL, w1)
           else if of_le32 (take 4 (drop 8 pkt)) \<noteq> 0 then (- EIO, w1)
           else (0, set_sta_priv s (\<lambda>sp. sp\<lparr> sta_index := pkt ! 12, dpu_desc_index := pkt ! 14,
                                              ucast_dpu_sign := pkt ! 17 \<rparr>) w1))"
proof (cases "length pkt < 21")
  case True
  with assms(1) show ?thesis by (simp add: wcn36xx_smd_config_sta_rsp_def)
next
  case False
  then have "buf_read hb 8 13 = Some (take 13 (drop 8 pkt))"
    using buf_read_part [OF assms(3), of 8 13] by simp
  with False assms(1,2) show ?thesis by (simp add: wcn36xx_smd_config_sta_rsp_def)
qed

text \<open>C11: Configuring a station sends one request, in the layout the firmware's version calls for. An
  error of the exchange is returned; a response too short is \<^verbatim>\<open>-EINVAL\<close> and one with a status
  \<^verbatim>\<open>-EIO\<close>, the driver's data unchanged; a positive one sets the station's three indices from
  their places in the response and changes no other station, and no interface.\<close>

theorem config_sta_spec:
  fixes v s :: nat
  assumes wf: "smd_wf P" and ready: "hal_ready w"
  defines "m \<equiv> sta_request w v (Some s)"
  shows "\<exists>r w'. wcn36xx_smd_config_sta P v s w = Some (r, w') \<and> hal_ready w' \<and>
           smd_sent (klog w') = smd_sent (klog w) @ [m] \<and> vif_priv w' = vif_priv w \<and>
           (case firmware_answer P (klog w) m of
              Inl e \<Rightarrow> r = e \<and> sta_priv w' = sta_priv w
            | Inr pkt \<Rightarrow>
                if length pkt < 21 then r = - EINVAL \<and> sta_priv w' = sta_priv w
                else if of_le32 (take 4 (drop 8 pkt)) \<noteq> 0 then r = - EIO \<and> sta_priv w' = sta_priv w
                else r = 0 \<and> sta_priv w' = (sta_priv w)(s := (sta_priv w s)
                  \<lparr> sta_index := pkt ! 12, dpu_desc_index := pkt ! 14, ucast_dpu_sign := pkt ! 17 \<rparr>))"
proof (cases rule: hal_command_answer [OF wf ready sta_request_length,
      of w v "Some s" "wcn36xx_smd_config_sta_rsp s", folded m_def config_sta_command])
  case (1 e w')
  then show ?thesis
    using same_but_hal_fields(1,2) [OF 1(5)] by (intro exI [of _ e] exI [of _ w']) (simp add: config_sta_command m_def)
next
  case (2 pkt hb w1)
  note f = same_but_hal_fields(1,2) [OF 2(4)] and rsp = config_sta_rsp_answered [OF 2(6,7,8), of s]
  have run: "wcn36xx_smd_config_sta P v s w = then_unlock (wcn36xx_smd_config_sta_rsp s w1)"
    using 2(2) by (simp add: config_sta_command m_def)
  from op_safeD [OF config_sta_rsp_safe 2(3), of s] obtain r w2 where
    3: "wcn36xx_smd_config_sta_rsp s w1 = Some (r, w2)" "hal_busy w2" by blast
  with run have "wcn36xx_smd_config_sta P v s w = Some (r, hal_unlock w2)"
    by (simp add: then_unlock_def)
  with hal_busy_unlock [OF 3(2)] 2(1,5) f rsp 3(1) show ?thesis
    by (intro exI [of _ r] exI [of _ "hal_unlock w2"]) (auto simp: hal_unlock_def split: if_splits)
qed

definition sta_rsp :: "u8 list" where
  "sta_rsp = wcn36xx_hal_msg_header (rsp_type HAL_CONFIG_STA) 0 21 @ le32 0 @
     [9, 0, 8, 0, 0, 7, 0, 0, 0]"

lemma sta_rsp_facts: "length sta_rsp = 21" "is_rsp sta_rsp" "of_le32 (take 4 (drop 8 sta_rsp)) = 0"
  "sta_rsp ! 12 = 9" "sta_rsp ! 14 = 8" "sta_rsp ! 17 = 7"
  by (simp_all add: sta_rsp_def is_rsp_def msg_type_of_def wcn36xx_hal_msg_header_def rsp_cases_def
      nth_append)

theorem config_sta_spec_witness:
  "\<exists>r w'. wcn36xx_smd_config_sta (answering_platform [sta_rsp]) 0 3 sample_wcn = Some (r, w') \<and>
     r = 0 \<and> sta_index (sta_priv w' 3) = 9 \<and> dpu_desc_index (sta_priv w' 3) = 8 \<and>
     ucast_dpu_sign (sta_priv w' 3) = 7 \<and> sta_index (sta_priv w' 2) = 4"
proof -
  have "smd_wf (answering_platform [sta_rsp])"
    by (rule answering_platform_wf) (simp add: sta_rsp_facts)
  from config_sta_spec [OF this sample_hal_ready, of 0 3] show ?thesis
    unfolding answering_platform_answer [OF sta_rsp_facts(2)]
    by (auto simp: sta_rsp_facts sample_wcn_def sample_sta_priv_def)
qed

end
