(* ===== verification/Smd_Bss.thy ===== *)
theory Smd_Bss
  imports Smd_Config
begin

text \<open>
  Configuring a BSS (\<open>wcn36xx_smd_config_bss\<close>): the two layouts of its parameters, the functions that
  fill them, the conversion for firmware with the other layout, and the response. The SSID is copied
  by its own length, so one longer than the field is undefined.
\<close>

section \<open>The parameters of a BSS\<close>

abbreviation (input) sizeof_set_sta_key_params :: nat where "sizeof_set_sta_key_params \<equiv> 240"
abbreviation (input) sizeof_edca_param_record :: nat where "sizeof_edca_param_record \<equiv> 4"
abbreviation (input) sizeof_rate_set :: nat where "sizeof_rate_set \<equiv> 13"
abbreviation (input) WCN36XX_HAL_STA_MODE :: u8 where "WCN36XX_HAL_STA_MODE \<equiv> 0"
abbreviation (input) WCN36XX_HAL_STA_SAP_MODE :: u8 where "WCN36XX_HAL_STA_SAP_MODE \<equiv> 1"

text \<open>The secondary channel offsets of IEEE 802.11.\<close>

abbreviation (input) IEEE80211_HT_PARAM_CHA_SEC_NONE :: u8 where
  "IEEE80211_HT_PARAM_CHA_SEC_NONE \<equiv> 0"
abbreviation (input) IEEE80211_HT_PARAM_CHA_SEC_ABOVE :: u8 where
  "IEEE80211_HT_PARAM_CHA_SEC_ABOVE \<equiv> 1"
abbreviation (input) IEEE80211_HT_PARAM_CHA_SEC_BELOW :: u8 where
  "IEEE80211_HT_PARAM_CHA_SEC_BELOW \<equiv> 3"

definition mac_ssid_bytes :: "wcn36xx_hal_mac_ssid \<Rightarrow> u8 list" where
  "mac_ssid_bytes s = [ssid_length s] @ fixed 32 (ssid_bytes s)"

text \<open>Structures no command fills (the rate set, the EDCA records, the key parameters) are their
  bytes.\<close>

record wcn36xx_hal_config_bss_params =
  cb_bssid :: "u8 list"
  cb_self_mac_addr :: "u8 list"
  cb_bss_type :: u32
  cb_oper_mode :: u8
  cb_nw_type :: u32
  cb_short_slot_time_supported :: u8
  cb_lla_coexist :: u8
  cb_llb_coexist :: u8
  cb_llg_coexist :: u8
  cb_ht20_coexist :: u8
  cb_lln_non_gf_coexist :: u8
  cb_lsig_tx_op_protection_full_support :: u8
  cb_rifs_mode :: u8
  cb_beacon_interval :: u16
  cb_dtim_period :: u8
  cb_tx_channel_width_set :: u8
  cb_oper_channel :: u8
  cb_ext_channel :: u8
  cb_reserved :: u8
  cb_sta :: wcn36xx_hal_config_sta_params
  cb_ssid :: wcn36xx_hal_mac_ssid
  cb_action :: u8
  cb_rateset :: "u8 list"
  cb_ht :: u8
  cb_obss_prot_enabled :: u8
  cb_rmf :: u8
  cb_ht_oper_mode :: u32
  cb_dual_cts_protection :: u8
  cb_max_probe_resp_retry_limit :: u8
  cb_hidden_ssid :: u8
  cb_proxy_probe_resp :: u8
  cb_edca_params_valid :: u8
  cb_acbe :: "u8 list"
  cb_acbk :: "u8 list"
  cb_acvi :: "u8 list"
  cb_acvo :: "u8 list"
  cb_ext_set_sta_key_param_valid :: u8
  cb_ext_set_sta_key_param :: "u8 list"
  cb_wcn36xx_hal_persona :: u8
  cb_spectrum_mgt_enable :: u8
  cb_tx_mgmt_power :: u8
  cb_max_tx_power :: u8

definition zero_bss_params :: wcn36xx_hal_config_bss_params where
  "zero_bss_params =
     \<lparr> cb_bssid = replicate ETH_ALEN 0, cb_self_mac_addr = replicate ETH_ALEN 0, cb_bss_type = 0,
       cb_oper_mode = 0, cb_nw_type = 0, cb_short_slot_time_supported = 0, cb_lla_coexist = 0,
       cb_llb_coexist = 0, cb_llg_coexist = 0, cb_ht20_coexist = 0, cb_lln_non_gf_coexist = 0,
       cb_lsig_tx_op_protection_full_support = 0, cb_rifs_mode = 0, cb_beacon_interval = 0,
       cb_dtim_period = 0, cb_tx_channel_width_set = 0, cb_oper_channel = 0, cb_ext_channel = 0,
       cb_reserved = 0, cb_sta = zero_sta_params,
       cb_ssid = \<lparr> ssid_length = 0, ssid_bytes = replicate 32 0 \<rparr>, cb_action = 0,
       cb_rateset = replicate sizeof_rate_set 0, cb_ht = 0, cb_obss_prot_enabled = 0, cb_rmf = 0,
       cb_ht_oper_mode = 0, cb_dual_cts_protection = 0, cb_max_probe_resp_retry_limit = 0,
       cb_hidden_ssid = 0, cb_proxy_probe_resp = 0, cb_edca_params_valid = 0,
       cb_acbe = replicate sizeof_edca_param_record 0, cb_acbk = replicate sizeof_edca_param_record 0,
       cb_acvi = replicate sizeof_edca_param_record 0, cb_acvo = replicate sizeof_edca_param_record 0,
       cb_ext_set_sta_key_param_valid = 0,
       cb_ext_set_sta_key_param = replicate sizeof_set_sta_key_params 0,
       cb_wcn36xx_hal_persona = 0, cb_spectrum_mgt_enable = 0, cb_tx_mgmt_power = 0,
       cb_max_tx_power = 0 \<rparr>"

definition config_bss_params_bytes :: "wcn36xx_hal_config_bss_params \<Rightarrow> u8 list" where
  "config_bss_params_bytes b =
     eth_addr (cb_bssid b) @ eth_addr (cb_self_mac_addr b) @ le32 (cb_bss_type b) @
     [cb_oper_mode b] @ le32 (cb_nw_type b) @
     [cb_short_slot_time_supported b, cb_lla_coexist b, cb_llb_coexist b, cb_llg_coexist b,
      cb_ht20_coexist b, cb_lln_non_gf_coexist b, cb_lsig_tx_op_protection_full_support b,
      cb_rifs_mode b] @ le16 (cb_beacon_interval b) @
     [cb_dtim_period b, cb_tx_channel_width_set b, cb_oper_channel b, cb_ext_channel b,
      cb_reserved b] @ config_sta_params_bytes (cb_sta b) @ mac_ssid_bytes (cb_ssid b) @
     [cb_action b] @ fixed sizeof_rate_set (cb_rateset b) @
     [cb_ht b, cb_obss_prot_enabled b, cb_rmf b] @ le32 (cb_ht_oper_mode b) @
     [cb_dual_cts_protection b, cb_max_probe_resp_retry_limit b, cb_hidden_ssid b,
      cb_proxy_probe_resp b, cb_edca_params_valid b] @
     fixed sizeof_edca_param_record (cb_acbe b) @ fixed sizeof_edca_param_record (cb_acbk b) @
     fixed sizeof_edca_param_record (cb_acvi b) @ fixed sizeof_edca_param_record (cb_acvo b) @
     [cb_ext_set_sta_key_param_valid b] @
     fixed sizeof_set_sta_key_params (cb_ext_set_sta_key_param b) @
     [cb_wcn36xx_hal_persona b, cb_spectrum_mgt_enable b, cb_tx_mgmt_power b, cb_max_tx_power b]"

record wcn36xx_hal_config_bss_params_v1 =
  b1_bssid :: "u8 list"
  b1_self_mac_addr :: "u8 list"
  b1_bss_type :: u32
  b1_oper_mode :: u8
  b1_nw_type :: u32
  b1_short_slot_time_supported :: u8
  b1_lla_coexist :: u8
  b1_llb_coexist :: u8
  b1_llg_coexist :: u8
  b1_ht20_coexist :: u8
  b1_lln_non_gf_coexist :: u8
  b1_lsig_tx_op_protection_full_support :: u8
  b1_rifs_mode :: u8
  b1_beacon_interval :: u16
  b1_dtim_period :: u8
  b1_tx_channel_width_set :: u8
  b1_oper_channel :: u8
  b1_ext_channel :: u8
  b1_reserved :: u8
  b1_ssid :: wcn36xx_hal_mac_ssid
  b1_action :: u8
  b1_rateset :: "u8 list"
  b1_ht :: u8
  b1_obss_prot_enabled :: u8
  b1_rmf :: u8
  b1_ht_oper_mode :: u32
  b1_dual_cts_protection :: u8
  b1_max_probe_resp_retry_limit :: u8
  b1_hidden_ssid :: u8
  b1_proxy_probe_resp :: u8
  b1_edca_params_valid :: u8
  b1_acbe :: "u8 list"
  b1_acbk :: "u8 list"
  b1_acvi :: "u8 list"
  b1_acvo :: "u8 list"
  b1_ext_set_sta_key_param_valid :: u8
  b1_ext_set_sta_key_param :: "u8 list"
  b1_wcn36xx_hal_persona :: u8
  b1_spectrum_mgt_enable :: u8
  b1_tx_mgmt_power :: u8
  b1_max_tx_power :: u8
  b1_sta :: wcn36xx_hal_config_sta_params_v1

definition config_bss_params_v1_bytes :: "wcn36xx_hal_config_bss_params_v1 \<Rightarrow> u8 list" where
  "config_bss_params_v1_bytes b =
     eth_addr (b1_bssid b) @ eth_addr (b1_self_mac_addr b) @ le32 (b1_bss_type b) @
     [b1_oper_mode b] @ le32 (b1_nw_type b) @
     [b1_short_slot_time_supported b, b1_lla_coexist b, b1_llb_coexist b, b1_llg_coexist b,
      b1_ht20_coexist b, b1_lln_non_gf_coexist b, b1_lsig_tx_op_protection_full_support b,
      b1_rifs_mode b] @ le16 (b1_beacon_interval b) @
     [b1_dtim_period b, b1_tx_channel_width_set b, b1_oper_channel b, b1_ext_channel b,
      b1_reserved b] @ mac_ssid_bytes (b1_ssid b) @
     [b1_action b] @ fixed sizeof_rate_set (b1_rateset b) @
     [b1_ht b, b1_obss_prot_enabled b, b1_rmf b] @ le32 (b1_ht_oper_mode b) @
     [b1_dual_cts_protection b, b1_max_probe_resp_retry_limit b, b1_hidden_ssid b,
      b1_proxy_probe_resp b, b1_edca_params_valid b] @
     fixed sizeof_edca_param_record (b1_acbe b) @ fixed sizeof_edca_param_record (b1_acbk b) @
     fixed sizeof_edca_param_record (b1_acvi b) @ fixed sizeof_edca_param_record (b1_acvo b) @
     [b1_ext_set_sta_key_param_valid b] @
     fixed sizeof_set_sta_key_params (b1_ext_set_sta_key_param b) @
     [b1_wcn36xx_hal_persona b, b1_spectrum_mgt_enable b, b1_tx_mgmt_power b, b1_max_tx_power b] @
     config_sta_params_v1_bytes (b1_sta b)"

text \<open>The conversion of \<open>wcn36xx_smd_config_bss_v1\<close>. Of the key parameters it copies
  \<^verbatim>\<open>sizeof(orig->bss_params.acvo)\<close> bytes; the rest keeps the 0 of \<^verbatim>\<open>INIT_HAL_MSG\<close>.\<close>

definition convert_bss_to_v1 :: "wcn36xx_hal_config_bss_params \<Rightarrow> wcn36xx_hal_config_bss_params_v1" where
  "convert_bss_to_v1 orig =
     \<lparr> b1_bssid = cb_bssid orig, b1_self_mac_addr = cb_self_mac_addr orig,
       b1_bss_type = cb_bss_type orig, b1_oper_mode = cb_oper_mode orig,
       b1_nw_type = cb_nw_type orig,
       b1_short_slot_time_supported = cb_short_slot_time_supported orig,
       b1_lla_coexist = cb_lla_coexist orig, b1_llb_coexist = cb_llb_coexist orig,
       b1_llg_coexist = cb_llg_coexist orig, b1_ht20_coexist = cb_ht20_coexist orig,
       b1_lln_non_gf_coexist = cb_lln_non_gf_coexist orig,
       b1_lsig_tx_op_protection_full_support = cb_lsig_tx_op_protection_full_support orig,
       b1_rifs_mode = cb_rifs_mode orig, b1_beacon_interval = cb_beacon_interval orig,
       b1_dtim_period = cb_dtim_period orig,
       b1_tx_channel_width_set = cb_tx_channel_width_set orig,
       b1_oper_channel = cb_oper_channel orig, b1_ext_channel = cb_ext_channel orig,
       b1_reserved = cb_reserved orig, b1_ssid = cb_ssid orig, b1_action = cb_action orig,
       b1_rateset = cb_rateset orig, b1_ht = cb_ht orig,
       b1_obss_prot_enabled = cb_obss_prot_enabled orig, b1_rmf = cb_rmf orig,
       b1_ht_oper_mode = cb_ht_oper_mode orig,
       b1_dual_cts_protection = cb_dual_cts_protection orig,
       b1_max_probe_resp_retry_limit = cb_max_probe_resp_retry_limit orig,
       b1_hidden_ssid = cb_hidden_ssid orig, b1_proxy_probe_resp = cb_proxy_probe_resp orig,
       b1_edca_params_valid = cb_edca_params_valid orig, b1_acbe = cb_acbe orig,
       b1_acbk = cb_acbk orig, b1_acvi = cb_acvi orig, b1_acvo = cb_acvo orig,
       b1_ext_set_sta_key_param_valid = cb_ext_set_sta_key_param_valid orig,
       b1_ext_set_sta_key_param =
         take sizeof_edca_param_record (cb_ext_set_sta_key_param orig) @
         replicate (sizeof_set_sta_key_params - sizeof_edca_param_record) 0,
       b1_wcn36xx_hal_persona = cb_wcn36xx_hal_persona orig,
       b1_spectrum_mgt_enable = cb_spectrum_mgt_enable orig,
       b1_tx_mgmt_power = cb_tx_mgmt_power orig, b1_max_tx_power = cb_max_tx_power orig,
       b1_sta = wcn36xx_smd_convert_sta_to_v1 (cb_sta orig) \<rparr>"

section \<open>Filling the parameters\<close>

definition wcn36xx_smd_set_bss_nw_type ::
  "wcn36xx \<Rightarrow> nat option \<Rightarrow> wcn36xx_hal_config_bss_params \<Rightarrow> wcn36xx_hal_config_bss_params" where
  "wcn36xx_smd_set_bss_nw_type w sta b =
     b\<lparr> cb_nw_type := nw_type_val
          (if conf_band (hw_conf w) = IEEE80211_BAND_5GHZ then WCN36XX_HAL_11A_NW_TYPE
           else case sta of
                  None \<Rightarrow> WCN36XX_HAL_11B_NW_TYPE
                | Some s \<Rightarrow>
                    if ht_supported (stas w s) then WCN36XX_HAL_11N_NW_TYPE
                    else if supp_rates (stas w s) IEEE80211_BAND_2GHZ AND 0x7f \<noteq> 0
                    then WCN36XX_HAL_11G_NW_TYPE
                    else WCN36XX_HAL_11B_NW_TYPE) \<rparr>"

definition wcn36xx_smd_set_bss_ht_params ::
  "platform \<Rightarrow> wcn36xx \<Rightarrow> nat \<Rightarrow> nat option \<Rightarrow> wcn36xx_hal_config_bss_params
     \<Rightarrow> wcn36xx_hal_config_bss_params" where
  "wcn36xx_smd_set_bss_ht_params P w v sta b =
     (case sta of
        None \<Rightarrow> b
      | Some s \<Rightarrow>
          if ht_supported (stas w s)
          then (let caps = ht_cap (stas w s); mode = ht_operation_mode (vifs w v) in
            b\<lparr> cb_ht := byte_of_bool (ht_supported (stas w s)),
               cb_tx_channel_width_set := is_cap_supported caps IEEE80211_HT_CAP_SUP_WIDTH_20_40,
               cb_lsig_tx_op_protection_full_support :=
                 is_cap_supported caps IEEE80211_HT_CAP_LSIG_TXOP_PROT,
               cb_ht_oper_mode := ucast mode,
               cb_lln_non_gf_coexist := byte_of_bool (p_non_gf_present P mode),
               cb_dual_cts_protection := 0, cb_ht20_coexist := 0 \<rparr>)
          else b)"

text \<open>The type of the BSS, its mode and persona by the type of the interface; an unknown type leaves
  them 0.\<close>

definition set_bss_mode ::
  "nl80211_iftype \<Rightarrow> wcn36xx_hal_config_bss_params \<Rightarrow> wcn36xx_hal_config_bss_params" where
  "set_bss_mode ty b =
     (if ty = NL80211_IFTYPE_STATION
      then b\<lparr> cb_bss_type := bss_type_val WCN36XX_HAL_INFRASTRUCTURE_MODE, cb_oper_mode := 1,
              cb_wcn36xx_hal_persona := WCN36XX_HAL_STA_MODE \<rparr>
      else if ty = NL80211_IFTYPE_AP \<or> ty = NL80211_IFTYPE_MESH_POINT
      then b\<lparr> cb_bss_type := bss_type_val WCN36XX_HAL_INFRA_AP_MODE, cb_oper_mode := 0,
              cb_wcn36xx_hal_persona := WCN36XX_HAL_STA_SAP_MODE \<rparr>
      else if ty = NL80211_IFTYPE_ADHOC
      then b\<lparr> cb_bss_type := bss_type_val WCN36XX_HAL_IBSS_MODE, cb_oper_mode := 1 \<rparr>
      else b)"

definition bss_ext_channel :: "ht_conf \<Rightarrow> u8" where
  "bss_ext_channel c =
     (case c of CONF_HT40_MINUS \<Rightarrow> IEEE80211_HT_PARAM_CHA_SEC_BELOW
      | CONF_HT40_PLUS \<Rightarrow> IEEE80211_HT_PARAM_CHA_SEC_ABOVE
      | _ \<Rightarrow> IEEE80211_HT_PARAM_CHA_SEC_NONE)"

text \<open>\<^verbatim>\<open>memcpy\<close> of as many bytes as the SSID's length into the 32 of the field.\<close>

definition copy_ssid :: "wcn36xx_hal_mac_ssid \<Rightarrow> wcn36xx_hal_config_bss_params
     \<Rightarrow> wcn36xx_hal_config_bss_params option" where
  "copy_ssid s b = do {
     bs \<leftarrow> buf_read (ssid_bytes s) 0 (unat (ssid_length s));
     dst \<leftarrow> buf_write (ssid_bytes (cb_ssid b)) 0 bs;
     Some (b\<lparr> cb_ssid := \<lparr> ssid_length = ssid_length s, ssid_bytes = dst \<rparr> \<rparr>) }"

definition config_bss_params ::
  "platform \<Rightarrow> wcn36xx \<Rightarrow> nat \<Rightarrow> nat option \<Rightarrow> u8 list \<Rightarrow> bool
     \<Rightarrow> wcn36xx_hal_config_bss_params option" where
  "config_bss_params P w v sta bssid update =
     (let vif = vifs w v; vp = vif_priv w v; conf = hw_conf w;
          b = zero_bss_params\<lparr> cb_bssid := bssid, cb_self_mac_addr := vif_addr vif \<rparr>;
          b = set_bss_mode (vif_type vif) b;
          b = (if vif_type vif = NL80211_IFTYPE_STATION then wcn36xx_smd_set_bss_nw_type w sta b
               else b\<lparr> cb_nw_type := nw_type_val WCN36XX_HAL_11N_NW_TYPE \<rparr>);
          b = b\<lparr> cb_short_slot_time_supported := byte_of_bool (use_short_slot vif),
                 cb_lla_coexist := 0, cb_llb_coexist := 0, cb_llg_coexist := 0, cb_rifs_mode := 0,
                 cb_beacon_interval := beacon_int vif, cb_dtim_period := vp_dtim_period vp \<rparr>;
          b = wcn36xx_smd_set_bss_ht_params P w v sta b;
          b = b\<lparr> cb_oper_channel := ucast (WCN36XX_HW_CHANNEL w),
                 cb_ext_channel := bss_ext_channel (conf_ht conf), cb_reserved := 0,
                 cb_sta := wcn36xx_smd_set_sta_params w v sta (cb_sta b) \<rparr>
      in do {
        b \<leftarrow> copy_ssid (vp_ssid vp) b;
        Some (b\<lparr> cb_obss_prot_enabled := 0, cb_rmf := 0, cb_max_probe_resp_retry_limit := 0,
                 cb_hidden_ssid := byte_of_bool (hidden_ssid vif), cb_proxy_probe_resp := 0,
                 cb_edca_params_valid := 0, cb_ext_set_sta_key_param_valid := 0,
                 cb_spectrum_mgt_enable := 0, cb_tx_mgmt_power := 0,
                 cb_max_tx_power := word_of_int (conf_max_power conf),
                 cb_action := byte_of_bool update \<rparr>) })"

section \<open>The command\<close>

abbreviation (input) sizeof_config_bss_rsp :: nat where "sizeof_config_bss_rsp \<equiv> 29"

definition wcn36xx_smd_config_bss_rsp :: "nat \<Rightarrow> nat option \<Rightarrow> wcn36xx \<Rightarrow> (int \<times> wcn36xx) option" where
  "wcn36xx_smd_config_bss_rsp v sta w =
     (if hal_rsp_len w < sizeof_config_bss_rsp then Some (- EINVAL, w)
      else do {
        hb \<leftarrow> hal_buf w;
        bs \<leftarrow> buf_read hb sizeof_hal_msg_header 21;
        if of_le32 (take 4 bs) \<noteq> WCN36XX_FW_MSG_RESULT_SUCCESS then Some (- EIO, w)
        else (let w = set_vif_priv v (\<lambda>vp. vp\<lparr> bss_index := bs ! 4 \<rparr>) w;
                  w = (case sta of None \<Rightarrow> w
                       | Some s \<Rightarrow> set_sta_priv s (\<lambda>sp. sp\<lparr> bss_sta_index := bs ! 11,
                                                           bss_dpu_desc_index := bs ! 5 \<rparr>) w)
              in Some (0, set_vif_priv v (\<lambda>vp. vp\<lparr> self_ucast_dpu_sign := bs ! 6 \<rparr>) w)) })"

definition config_bss_msg :: "wcn36xx_hal_config_bss_params \<Rightarrow> u8 list" where
  "config_bss_msg b = INIT_HAL_MSG HAL_CONFIG_BSS (config_bss_params_bytes b)"

definition config_bss_v1_msg :: "wcn36xx_hal_config_bss_params \<Rightarrow> u8 list" where
  "config_bss_v1_msg orig =
     INIT_HAL_MSG HAL_CONFIG_BSS (config_bss_params_v1_bytes (convert_bss_to_v1 orig))"

definition wcn36xx_smd_config_bss_v1 ::
  "platform \<Rightarrow> wcn36xx_hal_config_bss_params \<Rightarrow> wcn36xx \<Rightarrow> (int \<times> wcn36xx) option" where
  "wcn36xx_smd_config_bss_v1 P orig w = hal_send P (config_bss_v1_msg orig) w"

definition wcn36xx_smd_config_bss ::
  "platform \<Rightarrow> nat \<Rightarrow> nat option \<Rightarrow> u8 list \<Rightarrow> bool \<Rightarrow> wcn36xx \<Rightarrow> (int \<times> wcn36xx) option" where
  "wcn36xx_smd_config_bss P v sta bssid update w = do {
     w \<leftarrow> hal_lock w;
     b \<leftarrow> config_bss_params P w v sta bssid update;
     then_unlock (do {
       (ret, w) \<leftarrow> (if \<not> wcn36xx_is_fw_version w 1 2 2 24 then wcn36xx_smd_config_bss_v1 P b w
                    else hal_send P (config_bss_msg b) w);
       if ret \<noteq> 0 then Some (ret, w) else wcn36xx_smd_config_bss_rsp v sta w }) }"

section \<open>What the command does\<close>

lemma set_bss_nw_type_mutex [simp]:
  "wcn36xx_smd_set_bss_nw_type (w\<lparr> hal_mutex := m \<rparr>) sta b = wcn36xx_smd_set_bss_nw_type w sta b"
  unfolding wcn36xx_smd_set_bss_nw_type_def by (cases sta) simp_all

lemma set_bss_ht_params_mutex [simp]:
  "wcn36xx_smd_set_bss_ht_params P (w\<lparr> hal_mutex := m \<rparr>) v sta b = wcn36xx_smd_set_bss_ht_params P w v sta b"
  unfolding wcn36xx_smd_set_bss_ht_params_def by (cases sta) simp_all

lemma config_bss_params_mutex [simp]:
  "config_bss_params P (w\<lparr> hal_mutex := m \<rparr>) v sta bssid update = config_bss_params P w v sta bssid update"
  unfolding config_bss_params_def by (simp cong: if_cong)

lemma cb_ssid_frame [simp]:
  "cb_ssid (set_bss_mode ty b) = cb_ssid b" "cb_ssid (wcn36xx_smd_set_bss_nw_type w sta b) = cb_ssid b"
  "cb_ssid (wcn36xx_smd_set_bss_ht_params P w v sta b) = cb_ssid b"
  by (simp_all add: set_bss_mode_def wcn36xx_smd_set_bss_nw_type_def
      wcn36xx_smd_set_bss_ht_params_def Let_def split: option.split)

lemma copy_ssid_some:
  assumes "unat (ssid_length s) \<le> 32" "length (ssid_bytes s) = 32" "length (ssid_bytes (cb_ssid b)) = 32"
  shows "\<exists>b'. copy_ssid s b = Some b'"
  using assms by (simp add: copy_ssid_def buf_read_def buf_write_def)

lemma bind_some_ex: "\<exists>x. f = Some x \<Longrightarrow> \<exists>y. do { x \<leftarrow> f; Some (g x) } = Some y"
  by auto

lemma config_bss_params_some:
  assumes "ssids_ok w"
  shows "\<exists>b. config_bss_params P w v sta bssid update = Some b"
proof -
  from assms have "unat (ssid_length (vp_ssid (vif_priv w v))) \<le> 32"
    "length (ssid_bytes (vp_ssid (vif_priv w v))) = 32" by (auto simp: ssids_ok_def Let_def)
  note copy = copy_ssid_some [OF this]
  show ?thesis
    unfolding config_bss_params_def Let_def
    by (intro bind_some_ex copy) (simp add: zero_bss_params_def split: if_splits)
qed

lemma config_bss_lengths [simp]:
  "length (config_bss_msg b) = 469" "length (config_bss_v1_msg b) = 470"
  by (simp_all add: config_bss_msg_def config_bss_v1_msg_def config_bss_params_bytes_def
      config_bss_params_v1_bytes_def mac_ssid_bytes_def)

definition bss_request :: "wcn36xx \<Rightarrow> wcn36xx_hal_config_bss_params \<Rightarrow> u8 list" where
  "bss_request w b =
     (if \<not> wcn36xx_is_fw_version w 1 2 2 24 then config_bss_v1_msg b else config_bss_msg b)"

lemma bss_request_length: "length (bss_request w b) \<le> 4096"
  by (simp add: bss_request_def)

lemma config_bss_command:
  assumes "config_bss_params P w v sta bssid update = Some b"
  shows "wcn36xx_smd_config_bss P v sta bssid update w =
     hal_command P (bss_request w b) (wcn36xx_smd_config_bss_rsp v sta) w"
  using assms by (auto simp: wcn36xx_smd_config_bss_def hal_command_def bss_request_def hal_lock_def
      Let_def wcn36xx_smd_config_bss_v1_def hal_send_request)

lemma config_bss_rsp_safe [safe_intros]: "op_safe hal_busy (wcn36xx_smd_config_bss_rsp v sta)"
proof
  fix w assume busy: "hal_busy w"
  from hal_busy_buf [OF this] obtain hb where "hal_buf w = Some hb" "length hb = 4096" by blast
  with busy show "\<exists>r w'. wcn36xx_smd_config_bss_rsp v sta w = Some (r, w') \<and> hal_busy w'"
    by (cases sta) (auto simp: wcn36xx_smd_config_bss_rsp_def hal_busy_def buf_read_def Let_def)
qed

lemma config_bss_safe:
  assumes "smd_wf P"
  shows "op_safe hal_ready (wcn36xx_smd_config_bss P v sta bssid update)"
proof
  fix w assume w: "hal_ready w"
  then obtain b where "config_bss_params P w v sta bssid update = Some b"
    using config_bss_params_some [of w P v sta bssid update] unfolding hal_ready_def by blast
  from config_bss_command [OF this] op_safeD [OF hal_command_safe [OF assms bss_request_length config_bss_rsp_safe] w]
  show "\<exists>r w'. wcn36xx_smd_config_bss P v sta bssid update w = Some (r, w') \<and> hal_ready w'" by simp
qed

section \<open>Reading the other layout back\<close>

definition sta_of_v1 :: "wcn36xx_hal_config_sta_params_v1 \<Rightarrow> wcn36xx_hal_config_sta_params" where
  "sta_of_v1 p =
     \<lparr> cs_bssid = s1_bssid p, cs_aid = s1_aid p, cs_type = s1_type p,
       cs_short_preamble_supported = s1_short_preamble_supported p, cs_mac = s1_mac p,
       cs_listen_interval = s1_listen_interval p, cs_wmm_enabled = s1_wmm_enabled p,
       cs_ht_capable = s1_ht_capable p, cs_tx_channel_width_set = s1_tx_channel_width_set p,
       cs_rifs_mode = s1_rifs_mode p, cs_lsig_txop_protection = s1_lsig_txop_protection p,
       cs_max_ampdu_size = s1_max_ampdu_size p, cs_max_ampdu_density = s1_max_ampdu_density p,
       cs_max_amsdu_size = s1_max_amsdu_size p, cs_sgi_40mhz = s1_sgi_40mhz p,
       cs_sgi_20Mhz = s1_sgi_20Mhz p, cs_supported_rates = s1_supported_rates p,
       cs_rmf = s1_rmf p, cs_encrypt_type = s1_encrypt_type p, cs_action = s1_action p,
       cs_uapsd = s1_uapsd p, cs_max_sp_len = s1_max_sp_len p,
       cs_green_field_capable = s1_green_field_capable p, cs_mimo_ps = s1_mimo_ps p,
       cs_delayed_ba_support = s1_delayed_ba_support p,
       cs_max_ampdu_duration = s1_max_ampdu_duration p,
       cs_dsss_cck_mode_40mhz = s1_dsss_cck_mode_40mhz p, cs_sta_index = s1_sta_index p,
       cs_bssid_index = s1_bssid_index p, cs_p2p = s1_p2p p \<rparr>"

definition bss_of_v1 :: "wcn36xx_hal_config_bss_params_v1 \<Rightarrow> wcn36xx_hal_config_bss_params" where
  "bss_of_v1 b =
     \<lparr> cb_bssid = b1_bssid b, cb_self_mac_addr = b1_self_mac_addr b, cb_bss_type = b1_bss_type b,
       cb_oper_mode = b1_oper_mode b, cb_nw_type = b1_nw_type b,
       cb_short_slot_time_supported = b1_short_slot_time_supported b,
       cb_lla_coexist = b1_lla_coexist b, cb_llb_coexist = b1_llb_coexist b,
       cb_llg_coexist = b1_llg_coexist b, cb_ht20_coexist = b1_ht20_coexist b,
       cb_lln_non_gf_coexist = b1_lln_non_gf_coexist b,
       cb_lsig_tx_op_protection_full_support = b1_lsig_tx_op_protection_full_support b,
       cb_rifs_mode = b1_rifs_mode b, cb_beacon_interval = b1_beacon_interval b,
       cb_dtim_period = b1_dtim_period b, cb_tx_channel_width_set = b1_tx_channel_width_set b,
       cb_oper_channel = b1_oper_channel b, cb_ext_channel = b1_ext_channel b,
       cb_reserved = b1_reserved b, cb_sta = sta_of_v1 (b1_sta b), cb_ssid = b1_ssid b,
       cb_action = b1_action b, cb_rateset = b1_rateset b, cb_ht = b1_ht b,
       cb_obss_prot_enabled = b1_obss_prot_enabled b, cb_rmf = b1_rmf b,
       cb_ht_oper_mode = b1_ht_oper_mode b, cb_dual_cts_protection = b1_dual_cts_protection b,
       cb_max_probe_resp_retry_limit = b1_max_probe_resp_retry_limit b,
       cb_hidden_ssid = b1_hidden_ssid b, cb_proxy_probe_resp = b1_proxy_probe_resp b,
       cb_edca_params_valid = b1_edca_params_valid b, cb_acbe = b1_acbe b, cb_acbk = b1_acbk b,
       cb_acvi = b1_acvi b, cb_acvo = b1_acvo b,
       cb_ext_set_sta_key_param_valid = b1_ext_set_sta_key_param_valid b,
       cb_ext_set_sta_key_param = b1_ext_set_sta_key_param b,
       cb_wcn36xx_hal_persona = b1_wcn36xx_hal_persona b,
       cb_spectrum_mgt_enable = b1_spectrum_mgt_enable b,
       cb_tx_mgmt_power = b1_tx_mgmt_power b, cb_max_tx_power = b1_max_tx_power b \<rparr>"

lemma sta_v1_inverse:
  "sta_of_v1 (wcn36xx_smd_convert_sta_to_v1 p) = p\<lparr> cs_max_amsdu_size := 0 \<rparr>"
  by (simp add: sta_of_v1_def wcn36xx_smd_convert_sta_to_v1_def)

lemma cb_ext_key_frame [simp]:
  "cb_ext_set_sta_key_param (set_bss_mode ty b) = cb_ext_set_sta_key_param b"
  "cb_ext_set_sta_key_param (wcn36xx_smd_set_bss_nw_type w sta b) = cb_ext_set_sta_key_param b"
  "cb_ext_set_sta_key_param (wcn36xx_smd_set_bss_ht_params P w v sta b) = cb_ext_set_sta_key_param b"
  by (simp_all add: set_bss_mode_def wcn36xx_smd_set_bss_nw_type_def
      wcn36xx_smd_set_bss_ht_params_def Let_def split: option.split)

lemma copy_ssid_ext_key:
  "copy_ssid s b = Some b' \<Longrightarrow> cb_ext_set_sta_key_param b' = cb_ext_set_sta_key_param b"
  by (auto simp: copy_ssid_def split: bind_splits)

lemma config_bss_params_ext_key:
  assumes "config_bss_params P w v sta bssid update = Some b"
  shows "cb_ext_set_sta_key_param b = replicate 240 0"
  using assms unfolding config_bss_params_def Let_def
  by (auto dest!: copy_ssid_ext_key simp: zero_bss_params_def split: bind_splits)

text \<open>C20: For firmware with the other layout the driver converts the parameters of the BSS. Reading the
  converted structure back field by field gives the original parameters but for the station's
  maximal A-MSDU size, which the conversion drops.\<close>

theorem bss_v1_roundtrip:
  assumes "config_bss_params P w v sta bssid update = Some b"
  shows "bss_of_v1 (convert_bss_to_v1 b) =
           b\<lparr> cb_sta := (cb_sta b)\<lparr> cs_max_amsdu_size := 0 \<rparr> \<rparr>"
proof -
  have "take 4 (cb_ext_set_sta_key_param b) @ replicate 236 0 = cb_ext_set_sta_key_param b"
    unfolding config_bss_params_ext_key [OF assms] by (simp flip: replicate_add)
  then show ?thesis by (simp add: bss_of_v1_def convert_bss_to_v1_def sta_v1_inverse)
qed

theorem bss_v1_roundtrip_witness:
  "\<exists>b. bss_of_v1 (convert_bss_to_v1 b) = b\<lparr> cb_sta := (cb_sta b)\<lparr> cs_max_amsdu_size := 0 \<rparr> \<rparr> \<and>
     cb_nw_type b = 3"
proof -
  have "ssids_ok sample_wcn" by (simp add: ssids_ok_def sample_wcn_def sample_vif_priv_def)
  then obtain b where b: "config_bss_params sample_platform sample_wcn 0 (Some 0) [1, 2, 3, 4, 5, 6] False = Some b"
    using config_bss_params_some by blast
  have "cb_nw_type b = 3"
    using b by (simp add: config_bss_params_def copy_ssid_def sample_wcn_def sample_vif_def
        sample_conf_def sample_sta_def set_bss_mode_def wcn36xx_smd_set_bss_nw_type_def
        wcn36xx_smd_set_bss_ht_params_def Let_def split: bind_splits) force
  with bss_v1_roundtrip [OF b] show ?thesis by blast
qed

section \<open>The response\<close>

lemma config_bss_rsp_answered:
  assumes "hal_rsp_len w1 = length pkt" "hal_buf w1 = Some hb" "buf_read hb 0 (length pkt) = Some pkt"
  shows "\<exists>w'. wcn36xx_smd_config_bss_rsp v sta w1 =
     Some (if length pkt < 29 then - EINVAL else if of_le32 (take 4 (drop 8 pkt)) \<noteq> 0 then - EIO else 0, w') \<and>
     klog w' = klog w1 \<and>
     (if length pkt < 29 \<or> of_le32 (take 4 (drop 8 pkt)) \<noteq> 0 then w' = w1
      else vif_priv w' = (vif_priv w1)(v := (vif_priv w1 v)
             \<lparr> bss_index := pkt ! 12, self_ucast_dpu_sign := pkt ! 14 \<rparr>) \<and>
           sta_priv w' = (case sta of None \<Rightarrow> sta_priv w1
             | Some s \<Rightarrow> (sta_priv w1)(s := (sta_priv w1 s)
                 \<lparr> bss_sta_index := pkt ! 19, bss_dpu_desc_index := pkt ! 13 \<rparr>)))"
proof (cases "length pkt < 29")
  case True
  with assms(1) show ?thesis by (simp add: wcn36xx_smd_config_bss_rsp_def)
next
  case False
  then have "buf_read hb 8 21 = Some (take 21 (drop 8 pkt))"
    using buf_read_part [OF assms(3), of 8 21] by simp
  with False assms(1,2) show ?thesis
    by (cases sta) (auto simp: wcn36xx_smd_config_bss_rsp_def Let_def)
qed

text \<open>C10: Configuring a BSS sends one request, the parameters of the interface and the station in the
  layout of the firmware's version. An error of the exchange is returned, a response too short is
  \<^verbatim>\<open>-EINVAL\<close>, one with a status \<^verbatim>\<open>-EIO\<close>, and the driver's data is then unchanged; a positive one
  sets the interface's BSS index and signature and, when a station is given, its two BSS
  indices.\<close>

theorem config_bss_spec:
  fixes v :: nat and sta :: "nat option"
  assumes wf: "smd_wf P" and ready: "hal_ready w"
    and b: "config_bss_params P w v sta bssid update = Some b"
  defines "m \<equiv> bss_request w b"
  shows "\<exists>r w'. wcn36xx_smd_config_bss P v sta bssid update w = Some (r, w') \<and> hal_ready w' \<and>
           smd_sent (klog w') = smd_sent (klog w) @ [m] \<and>
           (case firmware_answer P (klog w) m of
              Inl e \<Rightarrow> r = e \<and> sta_priv w' = sta_priv w \<and> vif_priv w' = vif_priv w
            | Inr pkt \<Rightarrow>
                r = (if length pkt < 29 then - EINVAL
                     else if of_le32 (take 4 (drop 8 pkt)) \<noteq> 0 then - EIO else 0) \<and>
                (if r \<noteq> 0 then sta_priv w' = sta_priv w \<and> vif_priv w' = vif_priv w
                 else vif_priv w' = (vif_priv w)(v := (vif_priv w v)
                        \<lparr> bss_index := pkt ! 12, self_ucast_dpu_sign := pkt ! 14 \<rparr>) \<and>
                      sta_priv w' = (case sta of None \<Rightarrow> sta_priv w
                        | Some s \<Rightarrow> (sta_priv w)(s := (sta_priv w s)
                            \<lparr> bss_sta_index := pkt ! 19, bss_dpu_desc_index := pkt ! 13 \<rparr>))))"
proof (cases rule: hal_command_answer [OF wf ready bss_request_length,
      of w b "wcn36xx_smd_config_bss_rsp v sta", folded m_def])
  case (1 e w')
  then show ?thesis
    using same_but_hal_fields(1,2) [OF 1(5)]
    by (intro exI [of _ e] exI [of _ w']) (simp add: config_bss_command [OF b] m_def)
next
  case (2 pkt hb w1)
  note f = same_but_hal_fields(1,2) [OF 2(4)]
  from config_bss_rsp_answered [OF 2(6,7,8), of v sta] obtain w2 where
    rsp: "wcn36xx_smd_config_bss_rsp v sta w1 =
      Some (if length pkt < 29 then - EINVAL else if of_le32 (take 4 (drop 8 pkt)) \<noteq> 0 then - EIO else 0, w2)"
    "klog w2 = klog w1"
    "if length pkt < 29 \<or> of_le32 (take 4 (drop 8 pkt)) \<noteq> 0 then w2 = w1
      else vif_priv w2 = (vif_priv w1)(v := (vif_priv w1 v)
             \<lparr> bss_index := pkt ! 12, self_ucast_dpu_sign := pkt ! 14 \<rparr>) \<and>
           sta_priv w2 = (case sta of None \<Rightarrow> sta_priv w1
             | Some s \<Rightarrow> (sta_priv w1)(s := (sta_priv w1 s)
                 \<lparr> bss_sta_index := pkt ! 19, bss_dpu_desc_index := pkt ! 13 \<rparr>))" by blast
  have busy: "hal_busy w2" using op_safeD [OF config_bss_rsp_safe 2(3), of v sta] rsp(1) by auto
  have run: "wcn36xx_smd_config_bss P v sta bssid update w =
      Some (if length pkt < 29 then - EINVAL else if of_le32 (take 4 (drop 8 pkt)) \<noteq> 0 then - EIO else 0,
        hal_unlock w2)"
    using 2(2) rsp(1) by (simp add: config_bss_command [OF b] m_def then_unlock_def)
  have u: "klog (hal_unlock w2) = klog w2" "vif_priv (hal_unlock w2) = vif_priv w2"
    "sta_priv (hal_unlock w2) = sta_priv w2" by (simp_all add: hal_unlock_def)
  show ?thesis
    unfolding run using hal_busy_unlock [OF busy] 2(1,5) f rsp(2,3)
    by (cases sta) (auto simp: u)
qed

definition bss_rsp :: "u8 list" where
  "bss_rsp = wcn36xx_hal_msg_header (rsp_type HAL_CONFIG_BSS) 0 29 @ le32 0 @
     [1, 2, 3, 0, 0, 0, 0, 4, 0, 0] @ replicate 7 0"

lemma bss_rsp_facts: "length bss_rsp = 29" "is_rsp bss_rsp" "of_le32 (take 4 (drop 8 bss_rsp)) = 0"
  "bss_rsp ! 12 = 1" "bss_rsp ! 13 = 2" "bss_rsp ! 14 = 3" "bss_rsp ! 19 = 4"
  by (simp_all add: bss_rsp_def is_rsp_def msg_type_of_def wcn36xx_hal_msg_header_def rsp_cases_def
      nth_append)

theorem config_bss_spec_witness:
  "\<exists>r w'. wcn36xx_smd_config_bss (answering_platform [bss_rsp]) 0 (Some 3) [1, 2, 3, 4, 5, 6] False sample_wcn
       = Some (r, w') \<and> r = 0 \<and> bss_index (vif_priv w' 0) = 1 \<and> bss_sta_index (sta_priv w' 3) = 4"
proof -
  have "smd_wf (answering_platform [bss_rsp])"
    by (rule answering_platform_wf) (simp add: bss_rsp_facts)
  moreover obtain b where
    "config_bss_params (answering_platform [bss_rsp]) sample_wcn 0 (Some 3) [1, 2, 3, 4, 5, 6] False = Some b"
    using config_bss_params_some sample_hal_ready unfolding hal_ready_def by blast
  ultimately show ?thesis
    using config_bss_spec [of "answering_platform [bss_rsp]" sample_wcn 0 "Some 3"] sample_hal_ready
    by (fastforce simp: answering_platform_answer [OF bss_rsp_facts(2)] bss_rsp_facts)
qed

end
