(* ===== verification/Smd_Beacon.thy ===== *)
theory Smd_Beacon
  imports Smd_Cmds
begin

text \<open>
  Uploading a beacon (\<open>wcn36xx_smd_send_beacon\<close>). The firmware expects a partial virtual bitmap (PVM) of
  at least six bytes in the TIM element, so a shorter one is padded inside the template. The
  arithmetic is that of the code: the length a \<^verbatim>\<open>u32\<close>, the padding an \<^verbatim>\<open>int\<close> that may be negative.
\<close>

text \<open>The template of the message: the frame copied in, and the bytes behind the PVM moved by the
  padding. A copy beyond the array is undefined.\<close>

definition pad_tim :: "nat \<Rightarrow> nat \<Rightarrow> nat \<Rightarrow> nat \<Rightarrow> u8 list \<Rightarrow> u8 list option" where
  "pad_tim tim_off p pad len b =
     (if len < p then None
      else do {
        tl_bytes \<leftarrow> buf_read b p (len - p);
        b \<leftarrow> buf_write b (p + pad) tl_bytes;
        b \<leftarrow> buf_write b p (replicate pad 0);
        l \<leftarrow> buf_read b (tim_off + 1) 1;
        buf_write b (tim_off + 1) [hd l + of_nat pad] })"

definition beacon_template :: "u8 list \<Rightarrow> nat \<Rightarrow> int \<Rightarrow> int \<Rightarrow> u8 list option" where
  "beacon_template frame tim_off pvm_len pad = do {
     b \<leftarrow> buf_write (replicate BEACON_TEMPLATE_SIZE 0) 0 frame;
     if pad > 0 then pad_tim tim_off (nat (int tim_off + 5 + pvm_len)) (nat pad) (length frame) b
     else Some b }"

definition tim_pvm_len :: "u8 \<Rightarrow> int" where
  "tim_pvm_len tim_len = int (unat tim_len) - 3"

definition tim_pad :: "nl80211_iftype \<Rightarrow> int \<Rightarrow> int" where
  "tim_pad ty pvm_len = (if ty = NL80211_IFTYPE_MESH_POINT then 0 else TIM_MIN_PVM_SIZE - pvm_len)"

definition padded_length :: "nat \<Rightarrow> int \<Rightarrow> u32" where
  "padded_length len pad = of_nat len + of_int pad"

definition tim_ie_offset :: "nl80211_iftype \<Rightarrow> u16 \<Rightarrow> u32" where
  "tim_ie_offset ty tim_off = (if ty = NL80211_IFTYPE_MESH_POINT then 256 else ucast tim_off + 4)"

definition wcn36xx_smd_send_beacon ::
  "platform \<Rightarrow> nat \<Rightarrow> sk_buff \<Rightarrow> u16 \<Rightarrow> u16 \<Rightarrow> wcn36xx \<Rightarrow> (int \<times> wcn36xx) option" where
  "wcn36xx_smd_send_beacon P v skb tim_off p2p_off w = do {
     w \<leftarrow> hal_lock w;
     tim_len \<leftarrow> buf_read (skb_mem skb) (skb_data skb + unat tim_off + 1) 1;
     let ty = vif_type (vifs w v);
     let pvm_len = tim_pvm_len (hd tim_len);
     let pad = tim_pad ty pvm_len;
     let beacon_length = padded_length (skb_len skb) pad;
     if unat beacon_length > BEACON_TEMPLATE_SIZE then Some (- ENOMEM, hal_unlock w)
     else do {
       frame \<leftarrow> buf_read (skb_mem skb) (skb_data skb) (skb_len skb);
       b \<leftarrow> beacon_template frame (unat tim_off) pvm_len pad;
       then_unlock (hal_request P (INIT_HAL_MSG HAL_SEND_BEACON
           (wcn36xx_hal_send_beacon_req_msg (beacon_length + 6) beacon_length b (vif_addr (vifs w v))
              (tim_ie_offset ty tim_off) p2p_off))
         wcn36xx_smd_rsp_status_check w) } }"

section \<open>The padded template\<close>

lemma buf_write_middle:
  "off = length pre \<Longrightarrow> length old = length bs \<Longrightarrow> buf_write (pre @ old @ post) off bs = Some (pre @ bs @ post)"
  by (simp add: buf_write_def)

lemma pad_tim_spec:
  assumes "length A = tim_off" "length H = 3" "p = tim_off + 5 + length pvm"
    and "len = p + length rest" "pad \<le> k"
  shows "pad_tim tim_off p pad len (A @ [ident, n] @ H @ pvm @ rest @ replicate k 0) =
    Some (A @ [ident, n + of_nat pad] @ H @ pvm @ replicate pad 0 @ rest @ replicate (k - pad) 0)"
proof -
  let ?pre = "A @ [ident, n] @ H @ pvm" and ?z = "rest @ replicate k (0 :: u8)"
  let ?m = "take pad ?z" and ?o = "take (length rest) (drop pad ?z)" and ?e = "drop (length rest + pad) ?z"
  have split: "?m @ ?o @ ?e = ?z"
    by (simp only: append_take_drop_id flip: drop_drop)
  have e: "?e = replicate (k - pad) 0" by simp
  have len: "length ?pre = p" "length ?m = pad" "length ?o = length rest"
    using assms by simp_all
  have 1: "buf_read (?pre @ ?z) p (len - p) = Some rest"
    using buf_read_append_pre [of p ?pre "len - p" rest "replicate k 0"] len assms by simp
  have 2: "buf_write ((?pre @ ?m) @ ?o @ ?e) (p + pad) rest = Some ((?pre @ ?m) @ rest @ ?e)"
    by (rule buf_write_middle) (use len in simp_all)
  have 3: "buf_write (?pre @ ?m @ rest @ ?e) p (replicate pad 0) = Some (?pre @ replicate pad 0 @ rest @ ?e)"
    by (rule buf_write_middle) (use len in simp_all)
  let ?t = "H @ pvm @ replicate pad 0 @ rest @ ?e"
  have 4: "buf_read ((A @ [ident]) @ [n] @ ?t) (tim_off + 1) 1 = Some [n]"
    by (rule buf_read_append_pre) (use assms in simp_all)
  have 5: "buf_write ((A @ [ident]) @ [n] @ ?t) (tim_off + 1) [n + of_nat pad] =
      Some ((A @ [ident]) @ [n + of_nat pad] @ ?t)"
    by (rule buf_write_middle) (use assms in simp_all)
  have "\<not> len < p" using assms by simp
  have goal: "pad_tim tim_off p pad len (?pre @ ?z) = Some ((A @ [ident]) @ [n + of_nat pad] @ ?t)"
    unfolding pad_tim_def using \<open>\<not> len < p\<close> 1 2 [unfolded append_assoc split]
    using 3 4 5 by (simp only: append_assoc split if_False bind.bind_lunit Option.bind.bind_lunit list.sel append.simps)
  then show ?thesis by (simp only: e append_assoc append.simps)
qed

text \<open>A frame whose TIM element, at \<open>tim_off\<close>, has a PVM of at most six bytes.\<close>

definition tim_frame :: "u8 list \<Rightarrow> u8 \<Rightarrow> u8 list \<Rightarrow> u8 list \<Rightarrow> u8 list \<Rightarrow> u8 list" where
  "tim_frame A ident H pvm rest = A @ [ident, of_nat (3 + length pvm)] @ H @ pvm @ rest"

definition padded_frame :: "u8 list \<Rightarrow> u8 \<Rightarrow> u8 list \<Rightarrow> u8 list \<Rightarrow> u8 list \<Rightarrow> u8 list" where
  "padded_frame A ident H pvm rest = tim_frame A ident H (pvm @ replicate (6 - length pvm) 0) rest"

lemma beacon_template_spec:
  assumes "length H = 3" "length pvm \<le> 6" "length (padded_frame A ident H pvm rest) \<le> 380"
  shows "beacon_template (tim_frame A ident H pvm rest) (length A) (int (length pvm)) (6 - int (length pvm)) =
    Some (padded_frame A ident H pvm rest @
          replicate (380 - length (padded_frame A ident H pvm rest)) 0)"
proof -
  let ?f = "tim_frame A ident H pvm rest" and ?g = "padded_frame A ident H pvm rest"
  have lf: "length ?f = length A + 5 + length pvm + length rest"
    "length ?g = length A + 11 + length rest"
    using assms(1,2) by (simp_all add: tim_frame_def padded_frame_def)
  have 1: "buf_write (replicate 380 0) 0 ?f = Some (?f @ replicate (380 - length ?f) 0)"
    using assms lf by (simp add: buf_write_def)
  show ?thesis
  proof (cases "length pvm = 6")
    case True
    then show ?thesis using 1 by (simp add: beacon_template_def padded_frame_def)
  next
    case False
    with assms(2) have pad: "nat (6 - int (length pvm)) = 6 - length pvm" "6 - length pvm > 0" by auto
    have n: "of_nat (3 + length pvm) + of_nat (6 - length pvm) = (9 :: u8)"
      unfolding of_nat_add [symmetric] using assms(2) by simp
    have "pad_tim (length A) (length A + 5 + length pvm) (6 - length pvm) (length ?f)
        (?f @ replicate (380 - length ?f) 0) =
      Some (A @ [ident, of_nat (3 + length pvm) + of_nat (6 - length pvm)] @ H @ pvm @
        replicate (6 - length pvm) 0 @ rest @ replicate (380 - length ?f - (6 - length pvm)) 0)"
      unfolding tim_frame_def append_assoc
      by (rule pad_tim_spec) (use assms lf in \<open>simp_all add: tim_frame_def\<close>)
    moreover have "380 - length ?f - (6 - length pvm) = 380 - length ?g"
      using assms(2) lf by simp
    moreover have "nat (int (length A) + 5 + int (length pvm)) = length A + 5 + length pvm" by simp
    ultimately show ?thesis
      using 1 pad n assms(2)
      by (simp add: beacon_template_def padded_frame_def) (simp add: tim_frame_def)
  qed
qed

section \<open>What the command does\<close>

lemma tim_len_read:
  assumes "buf_read (skb_mem skb) (skb_data skb) (skb_len skb) = Some f" and "t + 1 < skb_len skb"
  shows "buf_read (skb_mem skb) (skb_data skb + t + 1) 1 = Some [f ! (t + 1)]"
  using assms buf_read_Some_length [OF assms(1)]
  by (auto simp: buf_read_def take_Suc hd_drop_conv_nth split: if_splits)

lemma send_beacon_command:
  assumes ready: "hal_ready w" and frame: "buf_read (skb_mem skb) (skb_data skb) (skb_len skb) = Some f"
    and t: "unat tim_off + 1 < skb_len skb"
    and q: "q = tim_pvm_len (f ! (unat tim_off + 1))" and pad: "pad = tim_pad (vif_type (vifs w v)) q"
    and len: "unat (padded_length (skb_len skb) pad) \<le> 380"
    and b: "beacon_template f (unat tim_off) q pad = Some b"
  shows "wcn36xx_smd_send_beacon P v skb tim_off p2p_off w =
    hal_command P (INIT_HAL_MSG HAL_SEND_BEACON
      (wcn36xx_hal_send_beacon_req_msg (padded_length (skb_len skb) pad + 6)
         (padded_length (skb_len skb) pad) b (vif_addr (vifs w v))
         (tim_ie_offset (vif_type (vifs w v)) tim_off) p2p_off))
      wcn36xx_smd_rsp_status_check w"
proof -
  have "hal_lock w = Some (w\<lparr> hal_mutex := True \<rparr>)"
    using ready by (simp add: hal_ready_def hal_lock_def)
  with frame len b tim_len_read [OF frame t] show ?thesis
    by (simp add: wcn36xx_smd_send_beacon_def hal_command_def q pad Let_def)
qed

lemma beacon_template_length:
  "beacon_template f t q pad = Some b \<Longrightarrow> length b = 380"
  by (auto simp: beacon_template_def pad_tim_def dest!: buf_write_length split: bind_splits if_splits)

text \<open>C14: A beacon whose TIM carries a partial virtual bitmap of at most six bytes is uploaded as the
  same frame with the bitmap filled up to six bytes and the length byte of the element adjusted, the
  rest of the template zero; the length fields describe that frame, and the offset of the bitmap
  control is given. One request is sent, and the result is the firmware's.\<close>

theorem send_beacon_spec:
  fixes P :: platform and tim_off p2p_off :: u16
  assumes wf: "smd_wf P" and ready: "hal_ready w"
    and frame: "buf_read (skb_mem skb) (skb_data skb) (skb_len skb) = Some (tim_frame A ident H pvm rest)"
    and off: "length A = unat tim_off" and H: "length H = 3" and pvm: "length pvm \<le> 6"
    and mesh: "vif_type (vifs w v) \<noteq> NL80211_IFTYPE_MESH_POINT"
    and len: "length (padded_frame A ident H pvm rest) \<le> 380"
  defines "g \<equiv> padded_frame A ident H pvm rest"
  shows "\<exists>w'. let m = INIT_HAL_MSG HAL_SEND_BEACON (wcn36xx_hal_send_beacon_req_msg
               (of_nat (length g) + 6) (of_nat (length g)) (g @ replicate (380 - length g) 0)
               (vif_addr (vifs w v)) (ucast tim_off + 4) p2p_off) in
           wcn36xx_smd_send_beacon P v skb tim_off p2p_off w =
             Some (case firmware_answer P (klog w) m of Inl e \<Rightarrow> e | Inr pkt \<Rightarrow> rsp_status pkt, w') \<and>
           hal_ready w' \<and> same_but_hal w w' \<and> smd_sent (klog w') = smd_sent (klog w) @ [m]"
proof -
  let ?f = "tim_frame A ident H pvm rest" and ?p = "6 - int (length pvm)"
  let ?m = "INIT_HAL_MSG HAL_SEND_BEACON (wcn36xx_hal_send_beacon_req_msg
               (of_nat (length g) + 6) (of_nat (length g)) (g @ replicate (380 - length g) 0)
               (vif_addr (vifs w v)) (ucast tim_off + 4) p2p_off)"
  have lf: "length ?f = skb_len skb" using buf_read_Some_length [OF frame] .
  have lg: "length g = length ?f + (6 - length pvm)"
    using pvm by (simp add: g_def padded_frame_def tim_frame_def)
  have n: "?f ! (unat tim_off + 1) = of_nat (3 + length pvm)"
    using off by (simp add: tim_frame_def nth_append)
  have un: "unat (of_nat (3 + length pvm) :: u8) = 3 + length pvm"
    using pvm by (simp only: unat_of_nat) simp
  have pv: "tim_pvm_len (?f ! (unat tim_off + 1)) = int (length pvm)"
    unfolding n tim_pvm_len_def un by simp
  have pad: "tim_pad (vif_type (vifs w v)) (int (length pvm)) = ?p"
    using mesh by (simp add: tim_pad_def)
  have bl: "padded_length (skb_len skb) ?p = of_nat (length g)"
    using pvm by (simp add: padded_length_def lg lf [symmetric] of_nat_diff)
  have t: "unat tim_off + 1 < skb_len skb" using lf off by (simp add: tim_frame_def)
  have le: "unat (padded_length (skb_len skb) ?p) \<le> 380"
    unfolding bl using len by (simp add: g_def unat_of_nat)
  have tmpl: "beacon_template ?f (unat tim_off) (int (length pvm)) ?p = Some (g @ replicate (380 - length g) 0)"
    unfolding g_def off [symmetric] using beacon_template_spec [OF H pvm len] .
  have run: "wcn36xx_smd_send_beacon P v skb tim_off p2p_off w = hal_command P ?m wcn36xx_smd_rsp_status_check w"
    using send_beacon_command [OF ready frame t pv [symmetric] pad [symmetric] le tmpl] mesh
    by (simp add: bl tim_ie_offset_def)
  have "length ?m \<le> 4096" using len by (simp add: g_def)
  from hal_status_command [OF wf ready this] obtain w' where
    "hal_command P ?m wcn36xx_smd_rsp_status_check w =
       Some (case firmware_answer P (klog w) ?m of Inl e \<Rightarrow> e | Inr pkt \<Rightarrow> rsp_status pkt, w')"
    "hal_ready w'" "same_but_hal w w'" "smd_sent (klog w') = smd_sent (klog w) @ [?m]" .
  then show ?thesis unfolding run Let_def by blast
qed

definition sample_beacon :: sk_buff where
  "sample_beacon = sample_skb\<lparr> skb_mem := tim_frame (replicate 36 0) 5 [0, 1, 0] [0x80] [1, 2, 3],
     skb_data := 0, skb_len := 45 \<rparr>"

theorem send_beacon_spec_witness:
  "\<exists>w'. wcn36xx_smd_send_beacon (answering_platform [status_rsp HAL_SEND_BEACON 0]) 0 sample_beacon 36 0
      sample_wcn = Some (0, w') \<and> length (smd_sent (klog w')) = 1"
proof -
  have "smd_wf (answering_platform [status_rsp HAL_SEND_BEACON 0])"
    by (rule answering_platform_wf) simp
  moreover have "buf_read (skb_mem sample_beacon) (skb_data sample_beacon) (skb_len sample_beacon) =
      Some (tim_frame (replicate 36 0) 5 [0, 1, 0] [0x80] [1, 2, 3])"
    by (simp add: sample_beacon_def buf_read_def tim_frame_def)
  moreover have "vif_type (vifs sample_wcn 0) \<noteq> NL80211_IFTYPE_MESH_POINT"
    by (simp add: sample_wcn_def sample_vif_def)
  moreover have "klog sample_wcn = []" by (simp add: sample_wcn_def)
  ultimately show ?thesis
    using send_beacon_spec [of "answering_platform [status_rsp HAL_SEND_BEACON 0]" sample_wcn sample_beacon
        "replicate 36 0" 5 "[0, 1, 0]" "[0x80]" "[1, 2, 3]" 36 0 0] sample_hal_ready
    by (auto simp: Let_def answering_platform_answer padded_frame_def tim_frame_def smd_sent_def
        List.map_filter_simps)
qed

text \<open>C22: The length check looks at the padded length, which is smaller than the frame when the bitmap is
  longer than six bytes: a frame over the size of the template can pass it, and is then copied
  beyond the template.\<close>

theorem send_beacon_overruns_template:
  assumes "hal_ready w" and "vif_type (vifs w v) \<noteq> NL80211_IFTYPE_MESH_POINT"
    and "buf_read (skb_mem skb) (skb_data skb) (skb_len skb) = Some f" and "unat tim_off + 1 < skb_len skb"
    and "380 < skb_len skb" and "skb_len skb + 9 \<le> 380 + unat (f ! (unat tim_off + 1))"
  shows "wcn36xx_smd_send_beacon P v skb tim_off p2p_off w = None"
proof -
  let ?n = "unat (f ! (unat tim_off + 1))"
  have lf: "length f = skb_len skb" using buf_read_Some_length [OF assms(3)] .
  have "?n < 2 ^ LENGTH(8)" by (rule unsigned_less)
  then have n: "?n < 256" by simp
  have "padded_length (skb_len skb) (tim_pad (vif_type (vifs w v)) (tim_pvm_len (f ! (unat tim_off + 1)))) =
      of_nat (skb_len skb + 9 - ?n)"
    using assms(2,5) n by (simp add: padded_length_def tim_pad_def tim_pvm_len_def of_nat_diff)
  then have "unat (padded_length (skb_len skb)
      (tim_pad (vif_type (vifs w v)) (tim_pvm_len (f ! (unat tim_off + 1))))) \<le> 380"
    using assms(6) by (simp only: unat_of_nat) simp
  moreover have "beacon_template f (unat tim_off) q pad = None" for q pad
    using lf assms(5) by (simp add: beacon_template_def buf_write_def)
  moreover have "hal_lock w = Some (w\<lparr> hal_mutex := True \<rparr>)"
    using assms(1) by (simp add: hal_ready_def hal_lock_def)
  ultimately show ?thesis
    using tim_len_read [OF assms(3,4)] assms(3) by (simp add: wcn36xx_smd_send_beacon_def Let_def)
qed

definition long_beacon :: sk_buff where
  "long_beacon = sample_skb\<lparr> skb_mem := replicate 36 0 @ [5, 100] @ replicate 400 0,
     skb_data := 0, skb_len := 400 \<rparr>"

theorem send_beacon_overruns_template_witness:
  "wcn36xx_smd_send_beacon sample_platform 0 long_beacon 36 0 sample_wcn = None"
  by (rule send_beacon_overruns_template [OF sample_hal_ready, where f = "replicate 36 0 @ [5, 100] @ replicate 362 0"])
     (simp_all add: long_beacon_def buf_read_def sample_wcn_def sample_vif_def nth_append)

end
