(* ===== verification/Smd_Calls.thy ===== *)
theory Smd_Calls
  imports Smd_Start Smd_Bss Smd_Beacon
begin

text \<open>
  The commands of \<^verbatim>\<open>smd.c\<close> as one interface: a datatype of all calls the rest of the driver makes, the
  function that runs one, and the interpretation of \<open>hal_ops\<close> on it. Only the download of the NV
  image, which sends many messages, is left out (\<open>Smd_Start\<close>).
\<close>

datatype hal_call =
    Call_start
  | Call_stop
  | Call_init_scan wcn36xx_hal_sys_mode
  | Call_start_scan
  | Call_end_scan
  | Call_finish_scan wcn36xx_hal_sys_mode
  | Call_switch_channel nat int
  | Call_update_scan_params
  | Call_add_sta_self nat
  | Call_delete_sta_self "u8 list"
  | Call_delete_sta u8
  | Call_join "u8 list" "u8 list" u8
  | Call_set_link_st "u8 list" "u8 list" wcn36xx_hal_link_state
  | Call_config_sta nat nat
  | Call_config_bss nat "nat option" "u8 list" bool
  | Call_delete_bss nat
  | Call_send_beacon nat sk_buff u16 u16
  | Call_update_proberesp_tmpl nat sk_buff
  | Call_set_stakey ani_ed_type u8 u8 "u8 list" u8
  | Call_set_bsskey ani_ed_type u8 u8 "u8 list"
  | Call_remove_stakey ani_ed_type u8 u8
  | Call_remove_bsskey ani_ed_type u8
  | Call_enter_bmps nat
  | Call_exit_bmps nat
  | Call_set_power_params bool
  | Call_keep_alive_req nat int
  | Call_dump_cmd_req u32 u32 u32 u32 u32
  | Call_feature_caps_exchange
  | Call_add_ba_session nat u16 "u16 option" u8 u8
  | Call_add_ba
  | Call_del_ba u16 u8
  | Call_trigger_ba u8
  | Call_update_cfg u32 u32
  | Call_set_mc_list nat "wcn36xx_hal_rcv_flt_mc_addr_list_type option"

primrec run_call :: "platform \<Rightarrow> hal_call \<Rightarrow> wcn36xx \<Rightarrow> (int \<times> wcn36xx) option" where
  "run_call P Call_start = wcn36xx_smd_start P"
| "run_call P Call_stop = wcn36xx_smd_stop P"
| "run_call P (Call_init_scan m) = wcn36xx_smd_init_scan P m"
| "run_call P Call_start_scan = wcn36xx_smd_start_scan P"
| "run_call P Call_end_scan = wcn36xx_smd_end_scan P"
| "run_call P (Call_finish_scan m) = wcn36xx_smd_finish_scan P m"
| "run_call P (Call_switch_channel v ch) = wcn36xx_smd_switch_channel P v ch"
| "run_call P Call_update_scan_params = wcn36xx_smd_update_scan_params P"
| "run_call P (Call_add_sta_self v) = wcn36xx_smd_add_sta_self P v"
| "run_call P (Call_delete_sta_self a) = wcn36xx_smd_delete_sta_self P a"
| "run_call P (Call_delete_sta i) = wcn36xx_smd_delete_sta P i"
| "run_call P (Call_join b a ch) = wcn36xx_smd_join P b a ch"
| "run_call P (Call_set_link_st b a s) = wcn36xx_smd_set_link_st P b a s"
| "run_call P (Call_config_sta v s) = wcn36xx_smd_config_sta P v s"
| "run_call P (Call_config_bss v s b u) = wcn36xx_smd_config_bss P v s b u"
| "run_call P (Call_delete_bss v) = wcn36xx_smd_delete_bss P v"
| "run_call P (Call_send_beacon v skb t p) = wcn36xx_smd_send_beacon P v skb t p"
| "run_call P (Call_update_proberesp_tmpl v skb) = wcn36xx_smd_update_proberesp_tmpl P v skb"
| "run_call P (Call_set_stakey e i n k s) = wcn36xx_smd_set_stakey P e i n k s"
| "run_call P (Call_set_bsskey e i n k) = wcn36xx_smd_set_bsskey P e i n k"
| "run_call P (Call_remove_stakey e i s) = wcn36xx_smd_remove_stakey P e i s"
| "run_call P (Call_remove_bsskey e i) = wcn36xx_smd_remove_bsskey P e i"
| "run_call P (Call_enter_bmps v) = wcn36xx_smd_enter_bmps P v"
| "run_call P (Call_exit_bmps v) = wcn36xx_smd_exit_bmps P v"
| "run_call P (Call_set_power_params b) = wcn36xx_smd_set_power_params P b"
| "run_call P (Call_keep_alive_req v t) = wcn36xx_smd_keep_alive_req P v t"
| "run_call P (Call_dump_cmd_req a b c d e) = wcn36xx_smd_dump_cmd_req P a b c d e"
| "run_call P Call_feature_caps_exchange = wcn36xx_smd_feature_caps_exchange P"
| "run_call P (Call_add_ba_session s t n d i) = wcn36xx_smd_add_ba_session P s t n d i"
| "run_call P Call_add_ba = wcn36xx_smd_add_ba P"
| "run_call P (Call_del_ba t i) = wcn36xx_smd_del_ba P t i"
| "run_call P (Call_trigger_ba i) = wcn36xx_smd_trigger_ba P i"
| "run_call P (Call_update_cfg i x) = wcn36xx_smd_update_cfg P i x"
| "run_call P (Call_set_mc_list v l) = wcn36xx_smd_set_mc_list P v l"

primrec call_cmd :: "hal_call \<Rightarrow> hal_cmd" where
  "call_cmd Call_start = HAL_START"
| "call_cmd Call_stop = HAL_STOP"
| "call_cmd (Call_init_scan m) = HAL_INIT_SCAN"
| "call_cmd Call_start_scan = HAL_START_SCAN"
| "call_cmd Call_end_scan = HAL_END_SCAN"
| "call_cmd (Call_finish_scan m) = HAL_FINISH_SCAN"
| "call_cmd (Call_switch_channel v ch) = HAL_CH_SWITCH"
| "call_cmd Call_update_scan_params = HAL_UPDATE_SCAN_PARAM"
| "call_cmd (Call_add_sta_self v) = HAL_ADD_STA_SELF"
| "call_cmd (Call_delete_sta_self a) = HAL_DEL_STA_SELF"
| "call_cmd (Call_delete_sta i) = HAL_DELETE_STA"
| "call_cmd (Call_join b a ch) = HAL_JOIN"
| "call_cmd (Call_set_link_st b a s) = HAL_SET_LINK_ST"
| "call_cmd (Call_config_sta v s) = HAL_CONFIG_STA"
| "call_cmd (Call_config_bss v s b u) = HAL_CONFIG_BSS"
| "call_cmd (Call_delete_bss v) = HAL_DELETE_BSS"
| "call_cmd (Call_send_beacon v skb t p) = HAL_SEND_BEACON"
| "call_cmd (Call_update_proberesp_tmpl v skb) = HAL_UPDATE_PROBE_RSP_TEMPLATE"
| "call_cmd (Call_set_stakey e i n k s) = HAL_SET_STAKEY"
| "call_cmd (Call_set_bsskey e i n k) = HAL_SET_BSSKEY"
| "call_cmd (Call_remove_stakey e i s) = HAL_RMV_STAKEY"
| "call_cmd (Call_remove_bsskey e i) = HAL_RMV_BSSKEY"
| "call_cmd (Call_enter_bmps v) = HAL_ENTER_BMPS"
| "call_cmd (Call_exit_bmps v) = HAL_EXIT_BMPS"
| "call_cmd (Call_set_power_params b) = HAL_SET_POWER_PARAMS"
| "call_cmd (Call_keep_alive_req v t) = HAL_KEEP_ALIVE"
| "call_cmd (Call_dump_cmd_req a b c d e) = HAL_DUMP_COMMAND"
| "call_cmd Call_feature_caps_exchange = HAL_FEATURE_CAPS_EXCHANGE"
| "call_cmd (Call_add_ba_session s t n d i) = HAL_ADD_BA_SESSION"
| "call_cmd Call_add_ba = HAL_ADD_BA"
| "call_cmd (Call_del_ba t i) = HAL_DEL_BA"
| "call_cmd (Call_trigger_ba i) = HAL_TRIGGER_BA"
| "call_cmd (Call_update_cfg i x) = HAL_UPDATE_CFG"
| "call_cmd (Call_set_mc_list v l) = HAL_8023_MULTICAST_LIST"

text \<open>What a caller must see to: a key fits the 32 bytes of its field and is there to its length, a
  frame lies in its buffer, and a beacon fits the template and has its TIM element inside.\<close>

definition beacon_ok :: "sk_buff \<Rightarrow> u16 \<Rightarrow> bool" where
  "beacon_ok skb t \<longleftrightarrow>
     skb_data skb + skb_len skb \<le> length (skb_mem skb) \<and> skb_len skb \<le> BEACON_TEMPLATE_SIZE \<and>
     unat t + 1 < skb_len skb \<and>
     unat t + 2 + unat (skb_mem skb ! (skb_data skb + unat t + 1)) \<le> skb_len skb"

fun call_ok :: "hal_call \<Rightarrow> bool" where
  "call_ok (Call_set_stakey e i n k s) = (unat n \<le> 32 \<and> unat n \<le> length k)"
| "call_ok (Call_set_bsskey e i n k) = (unat n \<le> 32 \<and> unat n \<le> length k)"
| "call_ok (Call_update_proberesp_tmpl v skb) = (skb_data skb + skb_len skb \<le> length (skb_mem skb))"
| "call_ok (Call_send_beacon v skb t p) = beacon_ok skb t"
| "call_ok _ = True"

section \<open>Each command keeps the contract\<close>

lemma INIT_posts:
  assumes "smd_wf P" "op_safe hal_busy rsp" "quiet rsp" "\<And>w. length (body w) \<le> 4088"
  shows "op_posts c (\<lambda>w. hal_command P (INIT_HAL_MSG c (body w)) rsp w)"
proof (rule hal_command_posts [OF assms(1) _ assms(2,3)])
  fix w show "length (INIT_HAL_MSG c (body w)) \<le> 4096 \<and> hal_msg_ok c (INIT_HAL_MSG c (body w))"
    using assms(4) [of w] by (auto intro!: INIT_HAL_MSG_ok)
qed

lemma status_posts:
  assumes "smd_wf P" "\<And>w. length (body w) \<le> 4088"
  shows "op_posts c (\<lambda>w. hal_command P (INIT_HAL_MSG c (body w)) wcn36xx_smd_rsp_status_check w)"
  by (rule INIT_posts [OF assms(1) rsp_status_check_safe quiet_status_check assms(2)])

lemma refused_sends: "op_sends c (\<lambda>w. do { w \<leftarrow> hal_lock w; Some (r, hal_unlock w) })"
  by (auto simp: op_sends_def hal_lock_def hal_unlock_def hal_ready_def same_mac_def)

lemma op_sends_at:
  "op_sends c f \<Longrightarrow> hal_ready w \<Longrightarrow> \<exists>r w' ms. f w = Some (r, w') \<and> hal_ready w' \<and>
     smd_sent (klog w') = smd_sent (klog w) @ ms \<and> length ms \<le> 1 \<and> list_all (hal_msg_ok c) ms \<and> same_mac w w'"
  by (simp add: op_sends_def)

lemma quiet_handlers [safe_intros]:
  "quiet wcn36xx_smd_switch_channel_rsp" "quiet wcn36xx_smd_update_scan_params_rsp"
  "quiet (wcn36xx_smd_add_sta_self_rsp v)" "quiet wcn36xx_smd_join_rsp" "quiet wcn36xx_smd_trigger_ba_rsp"
  "quiet (wcn36xx_smd_config_sta_rsp s)" "quiet (wcn36xx_smd_config_bss_rsp v sta)" "quiet feature_caps_rsp"
  by (auto simp: quiet_def same_mac_def wcn36xx_smd_switch_channel_rsp_def wcn36xx_smd_rsp_status_check_def
      wcn36xx_smd_update_scan_params_rsp_def wcn36xx_smd_add_sta_self_rsp_def wcn36xx_smd_join_rsp_def
      wcn36xx_smd_trigger_ba_rsp_def wcn36xx_smd_config_sta_rsp_def wcn36xx_smd_config_bss_rsp_def
      feature_caps_rsp_def Let_def split: bind_splits if_splits option.splits)

lemma feature_caps_rsp_safe [safe_intros]: "op_safe hal_busy feature_caps_rsp"
proof
  fix w assume busy: "hal_busy w"
  from hal_busy_buf [OF this] obtain hb where "hal_buf w = Some hb" "length hb = 4096" by blast
  with busy show "\<exists>r w'. feature_caps_rsp w = Some (r, w') \<and> hal_busy w'"
    by (simp add: feature_caps_rsp_def hal_busy_def buf_read_def ssids_ok_def ind_inv_def)
qed

lemma simple_calls_post:
  assumes "smd_wf P"
  shows "op_posts HAL_STOP (wcn36xx_smd_stop P)"
    "op_posts HAL_INIT_SCAN (wcn36xx_smd_init_scan P m)"
    "op_posts HAL_START_SCAN (wcn36xx_smd_start_scan P)"
    "op_posts HAL_END_SCAN (wcn36xx_smd_end_scan P)"
    "op_posts HAL_FINISH_SCAN (wcn36xx_smd_finish_scan P m)"
    "op_posts HAL_CH_SWITCH (wcn36xx_smd_switch_channel P v ch)"
    "op_posts HAL_UPDATE_SCAN_PARAM (wcn36xx_smd_update_scan_params P)"
    "op_posts HAL_ADD_STA_SELF (wcn36xx_smd_add_sta_self P v)"
    "op_posts HAL_DEL_STA_SELF (wcn36xx_smd_delete_sta_self P addr)"
    "op_posts HAL_DELETE_STA (wcn36xx_smd_delete_sta P i)"
    "op_posts HAL_JOIN (wcn36xx_smd_join P bssid addr c8)"
    "op_posts HAL_SET_LINK_ST (wcn36xx_smd_set_link_st P bssid addr st)"
    "op_posts HAL_DELETE_BSS (wcn36xx_smd_delete_bss P v)"
    "op_posts HAL_RMV_STAKEY (wcn36xx_smd_remove_stakey P e i k)"
    "op_posts HAL_RMV_BSSKEY (wcn36xx_smd_remove_bsskey P e i)"
    "op_posts HAL_ENTER_BMPS (wcn36xx_smd_enter_bmps P v)"
    "op_posts HAL_EXIT_BMPS (wcn36xx_smd_exit_bmps P v)"
    "op_posts HAL_SET_POWER_PARAMS (wcn36xx_smd_set_power_params P b)"
    "op_posts HAL_DUMP_COMMAND (wcn36xx_smd_dump_cmd_req P x1 x2 x3 x4 x5)"
    "op_posts HAL_ADD_BA_SESSION (wcn36xx_smd_add_ba_session P s tid ssn dir i)"
    "op_posts HAL_ADD_BA (wcn36xx_smd_add_ba P)"
    "op_posts HAL_DEL_BA (wcn36xx_smd_del_ba P tid i)"
    "op_posts HAL_8023_MULTICAST_LIST (wcn36xx_smd_set_mc_list P v l)"
    "op_posts HAL_FEATURE_CAPS_EXCHANGE (wcn36xx_smd_feature_caps_exchange P)"
  unfolding simple_cmd_defs [abs_def] wcn36xx_smd_feature_caps_exchange_def [abs_def] Let_def
  by (rule INIT_posts [OF assms]; (intro safe_intros)?; simp add: set_feat_caps_def)+


lemma sta_request_ok: "hal_msg_ok HAL_CONFIG_STA (sta_request w v sta)"
  by (simp add: sta_request_def config_sta_msg_def config_sta_v1_msg_def Let_def INIT_HAL_MSG_ok
      config_sta_params_bytes_def config_sta_params_v1_bytes_def)

lemma bss_request_ok: "hal_msg_ok HAL_CONFIG_BSS (bss_request w b)"
  by (simp add: bss_request_def config_bss_msg_def config_bss_v1_msg_def INIT_HAL_MSG_ok
      config_bss_params_bytes_def config_bss_params_v1_bytes_def mac_ssid_bytes_def)

lemma config_sta_posts:
  assumes "smd_wf P"
  shows "op_posts HAL_CONFIG_STA (wcn36xx_smd_config_sta P v s)"
  unfolding config_sta_command [abs_def]
  by (rule hal_command_posts [OF assms]) (simp_all add: sta_request_length sta_request_ok safe_intros)

lemma config_bss_posts:
  assumes "smd_wf P"
  shows "op_posts HAL_CONFIG_BSS (wcn36xx_smd_config_bss P v sta bssid update)"
proof (rule op_posts_cong)
  let ?b = "\<lambda>w. the (config_bss_params P w v sta bssid update)"
  show "op_posts HAL_CONFIG_BSS
      (\<lambda>w. hal_command P (bss_request w (?b w)) (wcn36xx_smd_config_bss_rsp v sta) w)"
    by (rule hal_command_posts [OF assms]) (simp_all add: bss_request_length bss_request_ok safe_intros)
  fix w assume "hal_ready w"
  then obtain b where "config_bss_params P w v sta bssid update = Some b"
    using config_bss_params_some [of w P v sta bssid update] unfolding hal_ready_def by blast
  from config_bss_command [OF this] this
  show "wcn36xx_smd_config_bss P v sta bssid update w =
      hal_command P (bss_request w (?b w)) (wcn36xx_smd_config_bss_rsp v sta) w" by simp
qed

lemma key_bytes_some:
  assumes "unat n \<le> 32" "unat n \<le> length k"
  shows "\<exists>kb. key_bytes k n = Some kb \<and> length kb = 32"
proof -
  have "key_bytes k n = Some (take (unat n) k @ replicate (32 - unat n) 0)"
    unfolding key_bytes_def using assms by (simp only: simp_thms if_True)
  with key_bytes_length show ?thesis by blast
qed

lemma set_keys_post:
  assumes "smd_wf P" and k: "unat n \<le> 32" "unat n \<le> length k"
  shows "op_posts HAL_SET_STAKEY (wcn36xx_smd_set_stakey P e i n k s)"
    "op_posts HAL_SET_BSSKEY (wcn36xx_smd_set_bsskey P e i n k)"
proof -
  from key_bytes_some [OF k] obtain kb where kb: "key_bytes k n = Some kb" "length kb = 32" by blast
  show "op_posts HAL_SET_STAKEY (wcn36xx_smd_set_stakey P e i n k s)"
    "op_posts HAL_SET_BSSKEY (wcn36xx_smd_set_bsskey P e i n k)"
    unfolding wcn36xx_smd_set_stakey_def [abs_def] wcn36xx_smd_set_bsskey_def [abs_def] kb(1)
      Option.bind.bind_lunit
    by (rule status_posts [OF assms(1)], simp add: kb(2))+
qed

lemma keep_alive_posts:
  assumes "smd_wf P" "t = WCN36XX_HAL_KEEP_ALIVE_NULL_PKT \<or> t = WCN36XX_HAL_KEEP_ALIVE_UNSOLICIT_ARP_RSP"
  shows "op_posts HAL_KEEP_ALIVE (wcn36xx_smd_keep_alive_req P v t)"
proof (cases "t = WCN36XX_HAL_KEEP_ALIVE_NULL_PKT")
  case True
  then show ?thesis
    unfolding wcn36xx_smd_keep_alive_req_def [abs_def] Let_def
    by (simp, intro status_posts [OF assms(1)]) simp
next
  case False
  with assms(2) show ?thesis
    unfolding wcn36xx_smd_keep_alive_req_def [abs_def] Let_def
    by (simp, intro status_posts [OF assms(1)]) simp
qed

lemma keep_alive_sends:
  assumes "smd_wf P"
  shows "op_sends HAL_KEEP_ALIVE (wcn36xx_smd_keep_alive_req P v t)"
proof (cases "t = WCN36XX_HAL_KEEP_ALIVE_NULL_PKT \<or> t = WCN36XX_HAL_KEEP_ALIVE_UNSOLICIT_ARP_RSP")
  case True
  then show ?thesis by (rule op_posts_sends [OF keep_alive_posts [OF assms]])
next
  case False
  then show ?thesis
    by (simp add: wcn36xx_smd_keep_alive_req_def [abs_def] Let_def refused_sends)
qed

lemma trigger_ba_posts:
  assumes "smd_wf P"
  shows "op_posts HAL_TRIGGER_BA (wcn36xx_smd_trigger_ba P i)"
  unfolding wcn36xx_smd_trigger_ba_def [abs_def]
proof (rule hal_command_posts [OF assms])
  show "length (trigger_ba_msg i) \<le> 4096 \<and> hal_msg_ok HAL_TRIGGER_BA (trigger_ba_msg i)" for w :: wcn36xx
    by (simp, simp only: trigger_ba_msg_def, rule hal_msg_okI) simp_all
qed (intro safe_intros)+


text \<open>A command that builds its message in the buffer before it sends it.\<close>

lemma prepared_posts:
  assumes wf: "smd_wf P" and rsp: "op_safe hal_busy rsp" "quiet rsp"
    and prep: "\<And>w. hal_busy w \<Longrightarrow> \<exists>hb n m. locked w = do {
          (ret, w) \<leftarrow> wcn36xx_smd_send_and_wait P n (w\<lparr> hal_buf := Some hb \<rparr>);
          if ret \<noteq> 0 then Some (ret, w) else rsp w } \<and>
        length hb = WCN36XX_HAL_BUF_SIZE \<and> n \<le> WCN36XX_HAL_BUF_SIZE \<and> buf_read hb 0 n = Some m \<and> hal_msg_ok c m"
  shows "op_posts c (\<lambda>w. do { w \<leftarrow> hal_lock w; then_unlock (locked w) })"
  unfolding op_posts_def
proof (intro allI impI)
  fix w assume ready: "hal_ready w"
  let ?w0 = "w\<lparr> hal_mutex := True \<rparr>"
  from ready have lock: "hal_lock w = Some ?w0" "hal_busy ?w0"
    by (simp_all add: hal_lock_def hal_ready_def hal_busy_def)
  from prep [OF lock(2)] obtain hb n m where
    run: "locked ?w0 = do { (ret, w) \<leftarrow> wcn36xx_smd_send_and_wait P n (?w0\<lparr> hal_buf := Some hb \<rparr>);
            if ret \<noteq> 0 then Some (ret, w) else rsp w }"
    and hb: "length hb = 4096" "n \<le> 4096" "buf_read hb 0 n = Some m" "hal_msg_ok c m" by blast
  let ?w = "?w0\<lparr> hal_buf := Some hb \<rparr>"
  have busy: "hal_busy ?w" and buf: "hal_buf ?w = Some hb" and log: "klog ?w = klog w"
    using lock(2) hb(1) by (simp_all add: hal_busy_def)
  obtain e w1 where 1: "wcn36xx_smd_send_and_wait P n ?w = Some (e, w1)" "hal_busy w1"
    "smd_sent (klog w1) = smd_sent (klog w) @ [m]" "same_but_hal ?w w1"
    by (rule send_and_wait_answer [OF wf busy hb(2) buf hb(3), unfolded log], rule that) blast+
  from op_safeD [OF rsp(1) 1(2)] obtain r w2 where 2: "rsp w1 = Some (r, w2)" "hal_busy w2" by blast
  have same1: "same_mac w w1" using same_mac_hal [OF 1(4)] by (simp add: same_mac_def)
  with quietD [OF rsp(2) 2(1)] have "klog w2 = klog w1" "same_mac w w2" by (auto intro: same_mac_trans)
  then show "\<exists>r w' m. do { w \<leftarrow> hal_lock w; then_unlock (locked w) } = Some (r, w') \<and> hal_ready w' \<and>
      smd_sent (klog w') = smd_sent (klog w) @ [m] \<and> hal_msg_ok c m \<and> same_mac w w'"
    using 1 2 same1 lock(1) run hb(4) hal_busy_unlock [OF 1(2)] hal_busy_unlock [OF 2(2)]
    by (simp add: then_unlock_def) (auto simp: hal_unlock_def same_mac_def)
qed

lemma start_rsp_safe: "op_safe hal_busy wcn36xx_smd_start_rsp"
proof
  fix w assume busy: "hal_busy w"
  from hal_busy_buf [OF this] obtain hb where "hal_buf w = Some hb" "length hb = 4096" by blast
  with busy show "\<exists>r w'. wcn36xx_smd_start_rsp w = Some (r, w') \<and> hal_busy w'"
    by (simp add: wcn36xx_smd_start_rsp_def hal_busy_def buf_read_def Let_def ssids_ok_def ind_inv_def)
qed

lemma start_rsp_quiet: "quiet wcn36xx_smd_start_rsp"
  by (auto simp: quiet_def same_mac_def wcn36xx_smd_start_rsp_def Let_def split: bind_splits if_splits)

lemma start_posts:
  assumes "smd_wf P"
  shows "op_posts HAL_START (wcn36xx_smd_start P)"
  unfolding wcn36xx_smd_start_def [abs_def]
proof (rule prepared_posts [OF assms start_rsp_safe start_rsp_quiet])
  fix w assume "hal_busy w"
  from start_prepares [OF this, of P] obtain hb where "length hb = WCN36XX_HAL_BUF_SIZE"
    "buf_read hb 0 508 = Some start_msg" "wcn36xx_smd_start_locked P w =
       do { (ret, w) \<leftarrow> wcn36xx_smd_send_and_wait P 508 (w\<lparr> hal_buf := Some hb \<rparr>);
            if ret \<noteq> 0 then Some (ret, w) else wcn36xx_smd_start_rsp w }" .
  moreover have "hal_msg_ok HAL_START start_msg" unfolding start_msg_def by (rule hal_msg_okI) simp_all
  ultimately show "\<exists>hb n m. wcn36xx_smd_start_locked P w = do {
          (ret, w) \<leftarrow> wcn36xx_smd_send_and_wait P n (w\<lparr> hal_buf := Some hb \<rparr>);
          if ret \<noteq> 0 then Some (ret, w) else wcn36xx_smd_start_rsp w } \<and>
        length hb = WCN36XX_HAL_BUF_SIZE \<and> n \<le> WCN36XX_HAL_BUF_SIZE \<and> buf_read hb 0 n = Some m \<and>
        hal_msg_ok HAL_START m"
    by (intro exI [of _ hb] exI [of _ 508] exI [of _ start_msg]) simp
qed

text \<open>The message of \<open>wcn36xx_smd_update_cfg\<close>: one item behind the header.\<close>

definition update_cfg_msg :: "u32 \<Rightarrow> u32 \<Rightarrow> u8 list" where
  "update_cfg_msg i x = wcn36xx_hal_msg_header (req_type HAL_UPDATE_CFG) 0 24 @ le32 12 @ cfg_bytes [(i, x)]"

lemma update_cfg_prepares:
  assumes "hal_busy w"
  shows "\<exists>hb n m. wcn36xx_smd_update_cfg_locked P i x w = do {
          (ret, w) \<leftarrow> wcn36xx_smd_send_and_wait P n (w\<lparr> hal_buf := Some hb \<rparr>);
          if ret \<noteq> 0 then Some (ret, w) else wcn36xx_smd_rsp_status_check w } \<and>
        length hb = WCN36XX_HAL_BUF_SIZE \<and> n \<le> WCN36XX_HAL_BUF_SIZE \<and> buf_read hb 0 n = Some m \<and>
        hal_msg_ok HAL_UPDATE_CFG m"
proof -
  let ?m = "INIT_HAL_MSG HAL_UPDATE_CFG (wcn36xx_hal_update_cfg_req_msg 0)"
  have m: "length ?m = 12" by simp
  from PREPARE_HAL_BUF_ok [OF assms, of ?m] m obtain hb1 where
    1: "PREPARE_HAL_BUF ?m w = Some (w\<lparr> hal_buf := Some hb1 \<rparr>)" "length hb1 = 4096"
    "buf_read hb1 0 12 = Some ?m" by auto
  obtain hb2 where 2: "put_cfg_tlv_u32 12 i x (w\<lparr> hal_buf := Some hb1 \<rparr>) = Some (0, 24, w\<lparr> hal_buf := Some hb2 \<rparr>)"
    "length hb2 = 4096" "buf_read hb2 0 24 = Some (?m @ cfg_bytes [(i, x)])"
    using put_cfg_table_ok [OF _ 1(2,3), of "w\<lparr> hal_buf := Some hb1 \<rparr>" "[(i, x)]"]
    by (auto split: bind_splits if_splits)
  from set_hal_buf_u32_ok [OF _ 2(3), of "w\<lparr> hal_buf := Some hb2 \<rparr>" 4 24] obtain hb3 where
    3: "set_hal_buf_u32 4 24 (w\<lparr> hal_buf := Some hb2 \<rparr>) = Some (w\<lparr> hal_buf := Some hb3 \<rparr>)"
    "length hb3 = 4096" "buf_read hb3 0 24 = Some (take 4 ?m @ le32 24 @ drop 8 ?m @ cfg_bytes [(i, x)])"
    using 2(2) by auto
  from set_hal_buf_u32_ok [OF _ 3(3), of "w\<lparr> hal_buf := Some hb3 \<rparr>" 8 12] obtain hb4 where
    4: "set_hal_buf_u32 8 12 (w\<lparr> hal_buf := Some hb3 \<rparr>) = Some (w\<lparr> hal_buf := Some hb4 \<rparr>)"
    "length hb4 = 4096" "buf_read hb4 0 24 = Some (take 4 ?m @ le32 24 @ le32 12 @ cfg_bytes [(i, x)])"
    using 3(2) by (auto simp: le32_def)
  have e: "take 4 ?m @ le32 24 @ le32 12 @ cfg_bytes [(i, x)] = update_cfg_msg i x"
    by (simp add: update_cfg_msg_def INIT_HAL_MSG_def wcn36xx_hal_msg_header_def)
  have "hal_msg_ok HAL_UPDATE_CFG (update_cfg_msg i x)"
    unfolding update_cfg_msg_def by (rule hal_msg_okI) simp_all
  with 4(2,3) 1(1) 2(1) 3(1) 4(1) show ?thesis unfolding e
    by (intro exI [of _ hb4] exI [of _ 24] exI [of _ "update_cfg_msg i x"])
       (simp add: wcn36xx_smd_update_cfg_locked_def)
qed

lemma update_cfg_posts:
  assumes "smd_wf P"
  shows "op_posts HAL_UPDATE_CFG (wcn36xx_smd_update_cfg P i x)"
  unfolding wcn36xx_smd_update_cfg_def [abs_def]
  by (rule prepared_posts [OF assms rsp_status_check_safe quiet_status_check update_cfg_prepares])


section \<open>Frames uploaded as templates\<close>

lemma pad_tim_some:
  assumes "p \<le> len" "len + pad \<le> length b" "t + 1 < length b"
  shows "\<exists>b'. pad_tim t p pad len b = Some b'"
  using assms by (simp add: pad_tim_def buf_read_def buf_write_def)

lemma beacon_template_some:
  assumes "length f \<le> 380" "int (length f) + pad \<le> 380" "int t + 5 + q \<le> int (length f)" "t + 1 < length f"
  shows "\<exists>b. beacon_template f t q pad = Some b"
proof (cases "pad > 0")
  case True
  have "\<exists>b'. pad_tim t (nat (int t + 5 + q)) (nat pad) (length f) (f @ replicate (380 - length f) 0) = Some b'"
    by (rule pad_tim_some) (use assms True in auto)
  with assms True show ?thesis by (simp add: beacon_template_def buf_write_def)
next
  case False
  with assms show ?thesis by (simp add: beacon_template_def buf_write_def)
qed

lemma padded_length_exact:
  assumes "unat (padded_length n pad) \<le> 380" "n \<le> 380" "0 < pad" "pad \<le> 9"
  shows "int n + pad \<le> 380"
proof -
  have "padded_length n pad = of_nat (n + nat pad)"
    using assms by (simp add: padded_length_def)
  then have "unat (padded_length n pad) = n + nat pad"
    using assms by (simp add: unat_of_nat take_bit_nat_def del: of_nat_add)
  with assms show ?thesis by simp
qed

lemma send_beacon_sends:
  assumes wf: "smd_wf P" and ok: "beacon_ok skb t"
  shows "op_sends HAL_SEND_BEACON (wcn36xx_smd_send_beacon P v skb t p)"
proof -
  let ?d = "skb_data skb" and ?n = "skb_len skb" and ?m = "skb_mem skb"
  let ?f = "take ?n (drop ?d ?m)"
  from ok have b: "?d + ?n \<le> length ?m" "?n \<le> 380" "unat t + 1 < ?n"
    "unat t + 2 + unat (?m ! (?d + unat t + 1)) \<le> ?n"
    by (auto simp: beacon_ok_def)
  then have f: "buf_read ?m ?d ?n = Some ?f" "length ?f = ?n" "?f ! (unat t + 1) = ?m ! (?d + unat t + 1)"
    by (simp_all add: buf_read_def add.assoc)
  let ?q = "tim_pvm_len (?f ! (unat t + 1))"
  define pad where "pad = (\<lambda>w :: wcn36xx. tim_pad (vif_type (vifs w v)) ?q)"
  define bl where "bl = (\<lambda>w :: wcn36xx. padded_length ?n (pad w))"
  define tm where "tm = (\<lambda>w :: wcn36xx. the (beacon_template ?f (unat t) ?q (pad w)))"
  define body where "body = (\<lambda>w :: wcn36xx. wcn36xx_hal_send_beacon_req_msg (bl w + 6) (bl w) (tm w) (vif_addr (vifs w v))
         (tim_ie_offset (vif_type (vifs w v)) t) p)"
  have q: "-3 \<le> ?q" "int (unat t) + 5 + ?q \<le> int ?n"
    using b unfolding f(3) tim_pvm_len_def by linarith+
  have some: "\<exists>x. beacon_template ?f (unat t) ?q (pad w) = Some x" if "unat (bl w) \<le> 380" for w
  proof (rule beacon_template_some)
    have "0 < pad w \<Longrightarrow> pad w \<le> 9" using q(1) by (simp add: pad_def tim_pad_def split: if_splits)
    then show "int (length ?f) + pad w \<le> 380"
      using that b(2) f(2) padded_length_exact [of ?n "pad w"] by (cases "0 < pad w") (auto simp: bl_def)
  qed (use b f q in auto)
  have run: "wcn36xx_smd_send_beacon P v skb t p w =
      (if unat (bl w) \<le> 380 then hal_command P (INIT_HAL_MSG HAL_SEND_BEACON (body w)) wcn36xx_smd_rsp_status_check w
       else do { w \<leftarrow> hal_lock w; Some (- ENOMEM, hal_unlock w) })" if ready: "hal_ready w" for w
  proof (cases "unat (bl w) \<le> 380")
    case True
    from some [OF this] obtain x where x: "beacon_template ?f (unat t) ?q (pad w) = Some x" ..
    from send_beacon_command [OF ready f(1) b(3) refl _ _ x, where P = P and p2p_off = p] True x show ?thesis
      by (simp add: pad_def bl_def body_def tm_def)
  next
    case False
    from ready have lock: "hal_lock w = Some (w\<lparr> hal_mutex := True \<rparr>)" by (simp add: hal_lock_def hal_ready_def)
    have "buf_read ?m (?d + unat t + 1) 1 = Some [?f ! (unat t + 1)]"
      by (rule tim_len_read [OF f(1) b(3)])
    with False lock show ?thesis
      by (simp add: wcn36xx_smd_send_beacon_def bl_def pad_def Let_def not_le)
  qed
  let ?I = "\<lambda>r w' ms w. hal_ready w' \<and> smd_sent (klog w') = smd_sent (klog w) @ ms \<and> length ms \<le> 1 \<and>
      list_all (hal_msg_ok HAL_SEND_BEACON) ms \<and> same_mac w w'"
  show ?thesis
    unfolding op_sends_def
  proof (intro allI impI)
    fix w assume ready: "hal_ready w"
    show "\<exists>r w' ms. wcn36xx_smd_send_beacon P v skb t p w = Some (r, w') \<and> ?I r w' ms w"
    proof (cases "unat (bl w) \<le> 380")
      case True
      from some [OF this] have "length (tm w) = 380"
        by (auto simp: tm_def dest: beacon_template_length)
      then have "length (body w) \<le> 4088" by (simp add: body_def)
      then have "op_sends HAL_SEND_BEACON
          (hal_command P (INIT_HAL_MSG HAL_SEND_BEACON (body w)) wcn36xx_smd_rsp_status_check)"
        by (rule op_posts_sends [OF status_posts [OF wf]])
      from op_sends_at [OF this ready] True show ?thesis unfolding run [OF ready] by simp
    next
      case False
      with op_sends_at [OF refused_sends ready] show ?thesis unfolding run [OF ready] by simp
    qed
  qed
qed

lemma update_proberesp_sends:
  assumes wf: "smd_wf P" and b: "skb_data skb + skb_len skb \<le> length (skb_mem skb)"
  shows "op_sends HAL_UPDATE_PROBE_RSP_TEMPLATE (wcn36xx_smd_update_proberesp_tmpl P v skb)"
proof (cases "skb_len skb > 380")
  case True
  then show ?thesis
    by (simp add: wcn36xx_smd_update_proberesp_tmpl_def [abs_def] refused_sends)
next
  case False
  let ?f = "take (skb_len skb) (drop (skb_data skb) (skb_mem skb))"
  have "buf_read (skb_mem skb) (skb_data skb) (skb_len skb) = Some ?f" "length ?f = skb_len skb"
    using b by (simp_all add: buf_read_def)
  with False show ?thesis
    unfolding wcn36xx_smd_update_proberesp_tmpl_def [abs_def] by (simp, intro op_posts_sends [OF status_posts [OF wf]]) simp
qed


section \<open>The commands together\<close>

lemmas plain_posts = simple_calls_post start_posts config_sta_posts config_bss_posts trigger_ba_posts
  update_cfg_posts

lemmas calls_post = plain_posts set_keys_post

lemma call_sends:
  assumes wf: "smd_wf P" and ok: "call_ok c"
  shows "op_sends (call_cmd c) (run_call P c)"
  using ok calls_post [OF wf] keep_alive_sends [OF wf] send_beacon_sends [OF wf] update_proberesp_sends [OF wf]
  by (cases c) (auto intro: op_posts_sends)

interpretation calls: hal_ops run_call call_cmd call_ok
  by unfold_locales (rule call_sends)

text \<open>C4: Any sequence of HAL commands, whatever the transport does and whatever the firmware answers to
  each (packets of two bytes or more that fit the buffer), runs to its end: no command faults,
  deadlocks on the mutex or leaves it held. The messages sent are in the order of the calls, each at
  most once, each with the type of its command and its exact length in the header.\<close>

theorem commands_never_fault:
  assumes "smd_wf P" and "hal_ready w" and "list_all call_ok cs"
  shows "\<exists>rs w' ms. run_ops (run_call P) cs w = Some (rs, w') \<and> length rs = length cs \<and> hal_ready w' \<and>
           smd_sent (klog w') = smd_sent (klog w) @ ms \<and>
           subseq (map msg_type_of ms) (map (\<lambda>c. req_type (call_cmd c)) cs) \<and>
           list_all (\<lambda>m. unat (msg_len_of m) = length m) ms"
  by (rule calls.run_ops_sends [OF assms])

theorem commands_never_fault_witness:
  "\<exists>rs w' ms. run_ops (run_call sample_platform)
       [Call_start, Call_join [1, 2, 3, 4, 5, 6] [6, 5, 4, 3, 2, 1] 6, Call_config_bss 0 (Some 0) [1, 2, 3, 4, 5, 6] False,
        Call_set_stakey WCN36XX_HAL_ED_CCMP 0 16 (replicate 16 7) 1, Call_send_beacon 0 sample_beacon 36 0] sample_wcn =
      Some (rs, w') \<and> length rs = 5 \<and> hal_ready w' \<and> smd_sent (klog w') = ms \<and>
      subseq (map msg_type_of ms) [0, 20, 16, 26, 63]"
proof -
  have "smd_wf sample_platform" "smd_sent (klog sample_wcn) = []"
    by (simp_all add: smd_wf_def sample_platform_def smd_sent_def sample_wcn_def List.map_filter_simps)
  moreover have "beacon_ok sample_beacon 36"
    by (simp add: beacon_ok_def sample_beacon_def tim_frame_def nth_append)
  ultimately show ?thesis
    using commands_never_fault [OF _ sample_hal_ready, of sample_platform
        "[Call_start, Call_join [1, 2, 3, 4, 5, 6] [6, 5, 4, 3, 2, 1] 6, Call_config_bss 0 (Some 0) [1, 2, 3, 4, 5, 6] False,
          Call_set_stakey WCN36XX_HAL_ED_CCMP 0 16 (replicate 16 7) 1, Call_send_beacon 0 sample_beacon 36 0]"]
    by (auto simp del: run_ops.simps)
qed

end
