(* ===== verification/Mac_Tables.thy ===== *)
theory Mac_Tables
  imports Smd_Calls
begin

text \<open>
  The tables of \<^verbatim>\<open>main.c\<close> (channels, rates and bands as mac80211 is told them, the names of the
  firmware's capabilities) and what is computed from them: the rates a station may use and the
  version of the chip.
\<close>

section \<open>Channels, rates and bands\<close>

record ieee80211_channel =
  chan_band :: ieee80211_band
  chan_center_freq :: u16
  chan_hw_value :: u16
  chan_max_power :: int

record ieee80211_rate =
  rate_bitrate :: u16
  rate_short_preamble :: bool
  rate_hw_value :: u16
  rate_hw_value_short :: u16

text \<open>\<open>band_rx_mask\<close> and the two fields behind it are the MCS set of the band's HT capabilities.\<close>

record ieee80211_supported_band =
  band_channels :: "ieee80211_channel list"
  band_bitrates :: "ieee80211_rate list"
  band_ht_cap :: "ht_cap_flag set"
  band_ht_supported :: bool
  band_ampdu_factor :: u8
  band_ampdu_density :: u8
  band_rx_mask :: "u8 list"
  band_rx_highest :: u16
  band_tx_params :: u8

definition CHAN2G :: "u16 \<times> u16 \<Rightarrow> ieee80211_channel" where
  "CHAN2G = (\<lambda>(freq, idx). \<lparr> chan_band = IEEE80211_BAND_2GHZ, chan_center_freq = freq,
     chan_hw_value = idx, chan_max_power = 25 \<rparr>)"

definition CHAN5G :: "u16 \<times> u16 \<Rightarrow> ieee80211_channel" where
  "CHAN5G = (\<lambda>(freq, idx). \<lparr> chan_band = IEEE80211_BAND_5GHZ, chan_center_freq = freq,
     chan_hw_value = idx, chan_max_power = 25 \<rparr>)"

definition wcn_2ghz_channels :: "ieee80211_channel list" where
  "wcn_2ghz_channels = map CHAN2G
     [(2412, 1), (2417, 2), (2422, 3), (2427, 4), (2432, 5), (2437, 6), (2442, 7), (2447, 8),
      (2452, 9), (2457, 10), (2462, 11), (2467, 12), (2472, 13), (2484, 14)]"

definition wcn_5ghz_channels :: "ieee80211_channel list" where
  "wcn_5ghz_channels = map CHAN5G
     [(5180, 36), (5200, 40), (5220, 44), (5240, 48), (5260, 52), (5280, 56), (5300, 60), (5320, 64),
      (5500, 100), (5520, 104), (5540, 108), (5560, 112), (5580, 116), (5600, 120), (5620, 124),
      (5640, 128), (5660, 132), (5700, 140), (5745, 149), (5765, 153), (5785, 157), (5805, 161),
      (5825, 165)]"

definition RATE :: "u16 \<times> u16 \<times> bool \<Rightarrow> ieee80211_rate" where
  "RATE = (\<lambda>(bitrate, hw_rate, short). \<lparr> rate_bitrate = bitrate, rate_short_preamble = short,
     rate_hw_value = hw_rate, rate_hw_value_short = hw_rate \<rparr>)"

definition wcn_2ghz_rates :: "ieee80211_rate list" where
  "wcn_2ghz_rates = map RATE
     [(10, HW_RATE_INDEX_1MBPS, False), (20, HW_RATE_INDEX_2MBPS, True),
      (55, HW_RATE_INDEX_5_5MBPS, True), (110, HW_RATE_INDEX_11MBPS, True),
      (60, HW_RATE_INDEX_6MBPS, False), (90, HW_RATE_INDEX_9MBPS, False),
      (120, HW_RATE_INDEX_12MBPS, False), (180, HW_RATE_INDEX_18MBPS, False),
      (240, HW_RATE_INDEX_24MBPS, False), (360, HW_RATE_INDEX_36MBPS, False),
      (480, HW_RATE_INDEX_48MBPS, False), (540, HW_RATE_INDEX_54MBPS, False)]"

definition wcn_5ghz_rates :: "ieee80211_rate list" where
  "wcn_5ghz_rates = map RATE
     [(60, HW_RATE_INDEX_6MBPS, False), (90, HW_RATE_INDEX_9MBPS, False),
      (120, HW_RATE_INDEX_12MBPS, False), (180, HW_RATE_INDEX_18MBPS, False),
      (240, HW_RATE_INDEX_24MBPS, False), (360, HW_RATE_INDEX_36MBPS, False),
      (480, HW_RATE_INDEX_48MBPS, False), (540, HW_RATE_INDEX_54MBPS, False)]"

text \<open>\<^verbatim>\<open>IEEE80211_HT_MAX_AMPDU_64K\<close> is 3, \<^verbatim>\<open>IEEE80211_HT_MPDU_DENSITY_16\<close> is 7 and
  \<^verbatim>\<open>IEEE80211_HT_MCS_TX_DEFINED\<close> is 1.\<close>

definition wcn_band_2ghz :: ieee80211_supported_band where
  "wcn_band_2ghz =
     \<lparr> band_channels = wcn_2ghz_channels, band_bitrates = wcn_2ghz_rates,
       band_ht_cap = {IEEE80211_HT_CAP_GRN_FLD, IEEE80211_HT_CAP_SGI_20, IEEE80211_HT_CAP_DSSSCCK40,
         IEEE80211_HT_CAP_LSIG_TXOP_PROT},
       band_ht_supported = True, band_ampdu_factor = 3, band_ampdu_density = 7,
       band_rx_mask = [0xff, 0, 0, 0, 0, 0, 0, 0, 0, 0], band_rx_highest = 72, band_tx_params = 1 \<rparr>"

definition wcn_band_5ghz :: ieee80211_supported_band where
  "wcn_band_5ghz =
     \<lparr> band_channels = wcn_5ghz_channels, band_bitrates = wcn_5ghz_rates,
       band_ht_cap = {IEEE80211_HT_CAP_GRN_FLD, IEEE80211_HT_CAP_SGI_20, IEEE80211_HT_CAP_DSSSCCK40,
         IEEE80211_HT_CAP_LSIG_TXOP_PROT, IEEE80211_HT_CAP_SGI_40, IEEE80211_HT_CAP_SUP_WIDTH_20_40},
       band_ht_supported = True, band_ampdu_factor = 3, band_ampdu_density = 7,
       band_rx_mask = [0xff, 0, 0, 0, 0, 0, 0, 0, 0, 0], band_rx_highest = 72, band_tx_params = 1 \<rparr>"

section \<open>The rates of a station\<close>

text \<open>One of the two loops of \<open>wcn36xx_update_allowed_rates\<close>: the shift stands inside the condition, as
  in the code.\<close>

fun rates_loop :: "u16 list \<Rightarrow> u32 \<Rightarrow> u16 list \<times> u32" where
  "rates_loop [] rates = ([], rates)"
| "rates_loop (hw # t) rates =
     (let (x, rates) = (if rates AND 1 \<noteq> 0 then (hw, drop_bit 1 rates) else (0, rates));
          (xs, rates) = rates_loop t rates
      in (x # xs, rates))"

definition wcn36xx_update_allowed_rates :: "nat \<Rightarrow> ieee80211_band \<Rightarrow> wcn36xx \<Rightarrow> wcn36xx" where
  "wcn36xx_update_allowed_rates s band w =
     (let sta = stas w s; rates = supp_rates sta band;
          sr = zero_rates\<lparr> op_rate_mode := STA_11n \<rparr>;
          (dsss, rates) =
            (if band = IEEE80211_BAND_2GHZ
             then rates_loop (map rate_hw_value (take NUM_DSSS_RATES wcn_2ghz_rates)) rates
             else (dsss_rates sr, rates));
          (ofdm, rates) = rates_loop (map rate_hw_value (take NUM_OFDM_RATES wcn_5ghz_rates)) rates;
          mcs = (if ht_supported sta
                 then fixed 10 (mcs_rx_mask sta) @ drop 10 (supported_mcs_set sr)
                 else supported_mcs_set sr)
      in set_sta_priv s (\<lambda>sp. sp\<lparr> supported_rates := sr\<lparr> dsss_rates := dsss, ofdm_rates := ofdm,
           supported_mcs_set := mcs \<rparr> \<rparr>) w)"

section \<open>Firmware capabilities\<close>

definition wcn36xx_caps_names :: "string list" where
  "wcn36xx_caps_names =
     [''MCC'', ''P2P'', ''DOT11AC'', ''SLM_SESSIONIZATION'', ''DOT11AC_OPMODE'', ''SAP32STA'',
      ''TDLS'', ''P2P_GO_NOA_DECOUPLE_INIT_SCAN'', ''WLANACTIVE_OFFLOAD'', ''BEACON_OFFLOAD'',
      ''SCAN_OFFLOAD'', ''ROAM_OFFLOAD'', ''BCN_MISS_OFFLOAD'', ''STA_POWERSAVE'',
      ''STA_ADVANCED_PWRSAVE'', ''AP_UAPSD'', ''AP_DFS'', ''BLOCKACK'', ''PHY_ERR'', ''BCN_FILTER'',
      ''RTT'', ''RATECTRL'', ''WOW'']"

definition wcn36xx_get_cap_name :: "nat \<Rightarrow> string" where
  "wcn36xx_get_cap_name x =
     (if x \<ge> length wcn36xx_caps_names then ''UNKNOWN'' else wcn36xx_caps_names ! x)"

abbreviation (input) MAX_FEATURE_SUPPORTED :: nat where "MAX_FEATURE_SUPPORTED \<equiv> 128"

text \<open>The names it prints, in order.\<close>

definition wcn36xx_feat_caps_info :: "wcn36xx \<Rightarrow> string list" where
  "wcn36xx_feat_caps_info w =
     map wcn36xx_get_cap_name (filter (\<lambda>i. get_feat_caps (fw_feat_caps w) (int i) \<noteq> 0)
       [0..<MAX_FEATURE_SUPPORTED])"

abbreviation (input) DOT11AC :: int where "DOT11AC \<equiv> 2"
abbreviation (input) WCN36XX_CHIP_3660 :: nat where "WCN36XX_CHIP_3660 \<equiv> 0"
abbreviation (input) WCN36XX_CHIP_3680 :: nat where "WCN36XX_CHIP_3680 \<equiv> 1"

definition wcn36xx_detect_chip_version :: "wcn36xx \<Rightarrow> wcn36xx" where
  "wcn36xx_detect_chip_version w =
     w\<lparr> chip_version := (if get_feat_caps (fw_feat_caps w) DOT11AC \<noteq> 0
                          then WCN36XX_CHIP_3680 else WCN36XX_CHIP_3660) \<rparr>"


section \<open>What the tables and the loops give\<close>

lemma tables_consistent_bands:
  "list_all (\<lambda>c. chan_center_freq c = (if chan_hw_value c = 14 then 2484 else 2407 + 5 * chan_hw_value c))
     (band_channels wcn_band_2ghz)"
  "list_all (\<lambda>c. chan_center_freq c = 5000 + 5 * chan_hw_value c) (band_channels wcn_band_5ghz)"
  "distinct (map chan_hw_value (band_channels wcn_band_2ghz @ band_channels wcn_band_5ghz))"
  "list_all (\<lambda>r. rate_hw_value r = rate_bitrate r div 5) (band_bitrates wcn_band_5ghz)"
  "list_all (\<lambda>r. rate_hw_value r = 0x80 OR rate_bitrate r div 5) (take 4 (band_bitrates wcn_band_2ghz))"
  "drop 4 (band_bitrates wcn_band_2ghz) = band_bitrates wcn_band_5ghz"
  by (simp_all add: wcn_band_2ghz_def wcn_band_5ghz_def wcn_2ghz_channels_def wcn_5ghz_channels_def CHAN2G_def
      CHAN5G_def wcn_2ghz_rates_def wcn_5ghz_rates_def RATE_def)

text \<open>The length of the run of ones at the low end of a word, of at most \<open>n\<close> bits.\<close>

definition low_ones :: "nat \<Rightarrow> u32 \<Rightarrow> nat" where
  "low_ones n r = length (takeWhile (bit r) [0..<n])"

lemma low_ones_Suc:
  "low_ones (Suc n) r = (if bit r 0 then Suc (low_ones n (drop_bit 1 r)) else 0)"
proof -
  have "takeWhile (bit r) (map Suc [0..<n]) = map Suc (takeWhile (bit (drop_bit 1 r)) [0..<n])"
    by (simp add: takeWhile_map comp_def bit_drop_bit_eq)
  then show ?thesis
    by (simp add: low_ones_def upt_conv_Cons map_Suc_upt [symmetric] del: upt_Suc)
qed

lemma low_ones_0 [simp]: "low_ones 0 r = 0"
  by (simp add: low_ones_def)

lemma low_ones_le: "low_ones n r \<le> n"
  using length_takeWhile_le [of "bit r" "[0..<n]"] by (simp add: low_ones_def)

lemma and_one_bit: "(r :: u32) AND 1 \<noteq> 0 \<longleftrightarrow> bit r 0"
  by (simp add: and_one_eq odd_iff_mod_2_eq_one [symmetric] bit_0)

lemma rates_loop_low_ones:
  "rates_loop t r =
     (take (low_ones (length t) r) t @ replicate (length t - low_ones (length t) r) 0,
      drop_bit (low_ones (length t) r) r)"
proof (induction t arbitrary: r)
  case Nil
  then show ?case by simp
next
  case (Cons hw t)
  have zero: "low_ones n r = 0" if "\<not> bit r 0" for n
    using that by (cases n) (simp_all add: low_ones_Suc)
  show ?case
    by (cases "bit r 0") (simp_all add: Let_def and_one_bit Cons.IH low_ones_Suc zero)
qed

lemma low_ones_add: "low_ones (m + n) r = (if low_ones m r = m then m + low_ones n (drop_bit m r) else low_ones m r)"
proof (induction m arbitrary: r)
  case 0
  then show ?case by simp
next
  case (Suc m)
  show ?case by (simp add: low_ones_Suc Suc.IH [of "drop_bit (Suc 0) r"])
qed

lemma low_ones_after: "low_ones m r < m \<Longrightarrow> low_ones n (drop_bit (low_ones m r) r) = 0"
proof (induction m arbitrary: r)
  case 0
  then show ?case by simp
next
  case (Suc m)
  show ?case
  proof (cases "bit r 0")
    case True
    with Suc.prems have "low_ones m (drop_bit 1 r) < m" by (simp add: low_ones_Suc)
    from Suc.IH [OF this] True show ?thesis by (simp add: low_ones_Suc)
  next
    case False
    then show ?thesis by (cases n) (simp_all add: low_ones_Suc)
  qed
qed

text \<open>C31: The rates the driver allows a station: mac80211 gives a bit mask of the band's rates, and the
  driver takes those of the run of ones at its low end, the 802.11b rates first and the OFDM rates
  behind them, and nothing above the first gap. A mask without bit 0 gives no rate at all.\<close>

theorem update_allowed_rates_spec:
  "supported_rates (sta_priv (wcn36xx_update_allowed_rates s band w) s) =
     (let r = supp_rates (stas w s) band; hw = map rate_hw_value;
          dsss = hw (take 4 wcn_2ghz_rates); ofdm = hw wcn_5ghz_rates;
          k = low_ones 12 r; k4 = low_ones 8 r
      in zero_rates\<lparr> op_rate_mode := STA_11n,
           dsss_rates := (if band = IEEE80211_BAND_2GHZ then take k dsss @ replicate (4 - k) 0 else replicate 4 0),
           ofdm_rates := (if band = IEEE80211_BAND_2GHZ then take (k - 4) ofdm @ replicate (12 - max 4 k) 0
                          else take k4 ofdm @ replicate (8 - k4) 0),
           supported_mcs_set := (if ht_supported (stas w s) then fixed 10 (mcs_rx_mask (stas w s)) else replicate 10 0)
             @ replicate 6 0 \<rparr>)"
proof -
  define r where "r = supp_rates (stas w s) band"
  have len: "length wcn_5ghz_rates = 8" "length wcn_2ghz_rates = 12"
    by (simp_all add: wcn_5ghz_rates_def wcn_2ghz_rates_def)
  have a: "low_ones 12 r = (if low_ones 4 r = 4 then 4 + low_ones 8 (drop_bit 4 r) else low_ones 4 r)"
    using low_ones_add [of 4 8 r] by simp
  have le: "low_ones 4 r \<le> 4" "low_ones 8 x \<le> 8" for x by (rule low_ones_le)+
  have z: "replicate 16 (0 :: u8) = replicate 10 0 @ replicate 6 0" by (simp flip: replicate_add)
  note simps = wcn36xx_update_allowed_rates_def rates_loop_low_ones Let_def zero_rates_def
    take_map take_replicate r_def [symmetric] z
  show ?thesis
  proof (cases band)
    case IEEE80211_BAND_5GHZ
    with len le(2) [of r] show ?thesis by (simp add: simps)
  next
    case two: IEEE80211_BAND_2GHZ
    note r2 = r_def [symmetric, unfolded two]
    show ?thesis
    proof (cases "low_ones 4 r = 4")
      case True
      with a len two le(2) [of "drop_bit 4 r"] show ?thesis by (simp add: simps r2)
    next
      case False
      with le(1) have "low_ones 4 r < 4" by simp
      with a len two low_ones_after [OF this, of 8] show ?thesis by (simp add: simps r2 max_def)
    qed
  qed
qed

end
