(* ===== verification/Pmc.thy ===== *)
theory Pmc
  imports Smd_Calls
begin

text \<open>
  Power management (\<^verbatim>\<open>pmc.c\<close>): entering and leaving beacon-mode power save, and the keep-alive packet.
  The driver's view is \<open>pw_state\<close> of an interface, the firmware's its answers.
\<close>

definition set_pw_state :: "nat \<Rightarrow> wcn36xx_power_state \<Rightarrow> wcn36xx \<Rightarrow> wcn36xx" where
  "set_pw_state v st w = set_vif_priv v (\<lambda>vp. vp\<lparr> pw_state := st \<rparr>) w"

definition wcn36xx_pmc_enter_bmps_state :: "platform \<Rightarrow> nat \<Rightarrow> wcn36xx \<Rightarrow> (int \<times> wcn36xx) option" where
  "wcn36xx_pmc_enter_bmps_state P v w = do {
     (ret, w) \<leftarrow> wcn36xx_smd_enter_bmps P v w;
     Some (ret, if ret = 0 then set_pw_state v WCN36XX_BMPS w else w) }"

text \<open>The answer to the exit command is not looked at.\<close>

definition wcn36xx_pmc_exit_bmps_state :: "platform \<Rightarrow> nat \<Rightarrow> wcn36xx \<Rightarrow> (int \<times> wcn36xx) option" where
  "wcn36xx_pmc_exit_bmps_state P v w =
     (if pw_state (vif_priv w v) \<noteq> WCN36XX_BMPS then Some (- EINVAL, w)
      else do {
        (_, w) \<leftarrow> wcn36xx_smd_exit_bmps P v w;
        Some (0, set_pw_state v WCN36XX_FULL_POWER w) })"

definition wcn36xx_enable_keep_alive_null_packet :: "platform \<Rightarrow> nat \<Rightarrow> wcn36xx \<Rightarrow> (int \<times> wcn36xx) option" where
  "wcn36xx_enable_keep_alive_null_packet P v w =
     wcn36xx_smd_keep_alive_req P v WCN36XX_HAL_KEEP_ALIVE_NULL_PKT w"

lemma set_pw_state_frame [simp]:
  "klog (set_pw_state v st w) = klog w" "hal_ready (set_pw_state v st w) = hal_ready w"
  "vif_priv (set_pw_state v st w) = (vif_priv w)(v := (vif_priv w v)\<lparr> pw_state := st \<rparr>)"
  by (simp_all add: set_pw_state_def hal_ready_def)

section \<open>The driver's view and the firmware's\<close>

definition enter_bmps_msg :: "wcn36xx \<Rightarrow> nat \<Rightarrow> u8 list" where
  "enter_bmps_msg w v = INIT_HAL_MSG HAL_ENTER_BMPS
     (wcn36xx_hal_enter_bmps_req_msg (bss_index (vif_priv w v)) (sync_tsf (vifs w v))
        (vp_dtim_period (vif_priv w v)))"

definition exit_bmps_msg :: "wcn36xx \<Rightarrow> nat \<Rightarrow> u8 list" where
  "exit_bmps_msg w v = INIT_HAL_MSG HAL_EXIT_BMPS
     (wcn36xx_hal_exit_bmps_req_msg (bss_index (vif_priv w v)))"

definition firmware_status :: "platform \<Rightarrow> kevent list \<Rightarrow> u8 list \<Rightarrow> int" where
  "firmware_status P log m = (case firmware_answer P log m of Inl e \<Rightarrow> e | Inr pkt \<Rightarrow> rsp_status pkt)"

lemma bmps_commands:
  assumes "smd_wf P" and "hal_ready w"
  obtains w1 w2 where
    "wcn36xx_smd_enter_bmps P v w = Some (firmware_status P (klog w) (enter_bmps_msg w v), w1)"
    "hal_ready w1" "same_but_hal w w1" "smd_sent (klog w1) = smd_sent (klog w) @ [enter_bmps_msg w v]"
    "wcn36xx_smd_exit_bmps P v w = Some (firmware_status P (klog w) (exit_bmps_msg w v), w2)"
    "hal_ready w2" "same_but_hal w w2" "smd_sent (klog w2) = smd_sent (klog w) @ [exit_bmps_msg w v]"
proof -
  have len: "length (enter_bmps_msg w v) \<le> 4096" "length (exit_bmps_msg w v) \<le> 4096"
    by (simp_all add: enter_bmps_msg_def exit_bmps_msg_def)
  obtain w1 where 1: "wcn36xx_smd_enter_bmps P v w = Some (firmware_status P (klog w) (enter_bmps_msg w v), w1)"
    "hal_ready w1" "same_but_hal w w1" "smd_sent (klog w1) = smd_sent (klog w) @ [enter_bmps_msg w v]"
    using hal_status_command [OF assms len(1)]
    unfolding wcn36xx_smd_enter_bmps_def firmware_status_def enter_bmps_msg_def by metis
  obtain w2 where 2: "wcn36xx_smd_exit_bmps P v w = Some (firmware_status P (klog w) (exit_bmps_msg w v), w2)"
    "hal_ready w2" "same_but_hal w w2" "smd_sent (klog w2) = smd_sent (klog w) @ [exit_bmps_msg w v]"
    using hal_status_command [OF assms len(2)]
    unfolding wcn36xx_smd_exit_bmps_def firmware_status_def exit_bmps_msg_def by metis
  from that [OF 1 2] show ?thesis .
qed

text \<open>Entering power save sends one request and returns the firmware's status; the interface is in
  the power-save state exactly when the firmware accepted (or was in it before), and no other
  interface changes.\<close>

theorem enter_bmps_spec:
  fixes P :: platform and w :: wcn36xx and v :: nat
  assumes wf: "smd_wf P" and ready: "hal_ready w"
  defines "r \<equiv> firmware_status P (klog w) (enter_bmps_msg w v)"
  shows "\<exists>w'. wcn36xx_pmc_enter_bmps_state P v w = Some (r, w') \<and> hal_ready w' \<and>
           smd_sent (klog w') = smd_sent (klog w) @ [enter_bmps_msg w v] \<and>
           vif_priv w' = (if r = 0 then (vif_priv w)(v := (vif_priv w v)\<lparr> pw_state := WCN36XX_BMPS \<rparr>)
                          else vif_priv w)"
  by (rule bmps_commands [OF wf ready, of v])
     (auto simp: wcn36xx_pmc_enter_bmps_state_def r_def same_but_hal_fields)

theorem enter_bmps_spec_witness:
  "\<exists>w'. wcn36xx_pmc_enter_bmps_state (answering_platform [status_rsp HAL_ENTER_BMPS 0]) 0 sample_wcn =
      Some (0, w') \<and> pw_state (vif_priv w' 0) = WCN36XX_BMPS"
proof -
  let ?P = "answering_platform [status_rsp HAL_ENTER_BMPS 0]"
  have "smd_wf ?P" by (rule answering_platform_wf) simp
  moreover have "firmware_status ?P log m = 0" for log m
    by (simp add: firmware_status_def answering_platform_answer)
  ultimately show ?thesis using enter_bmps_spec [OF _ sample_hal_ready, of ?P 0] by auto
qed

text \<open>Leaving power save when the interface is not in it is refused without a message. Otherwise one
  request is sent, and whatever the firmware answers, be it an error or nothing at all, the driver
  returns 0 and takes the interface to be at full power.\<close>

theorem exit_bmps_ignores_answer:
  assumes wf: "smd_wf P" and ready: "hal_ready w"
  shows "if pw_state (vif_priv w v) = WCN36XX_BMPS
         then \<exists>w'. wcn36xx_pmc_exit_bmps_state P v w = Some (0, w') \<and> hal_ready w' \<and>
                smd_sent (klog w') = smd_sent (klog w) @ [exit_bmps_msg w v] \<and>
                vif_priv w' = (vif_priv w)(v := (vif_priv w v)\<lparr> pw_state := WCN36XX_FULL_POWER \<rparr>)
         else wcn36xx_pmc_exit_bmps_state P v w = Some (- EINVAL, w)"
  by (rule bmps_commands [OF wf ready, of v])
     (auto simp: wcn36xx_pmc_exit_bmps_state_def same_but_hal_fields)

theorem exit_bmps_ignores_answer_witness:
  "\<exists>w'. wcn36xx_pmc_exit_bmps_state (answering_platform [status_rsp HAL_EXIT_BMPS 1]) 0
        (set_pw_state 0 WCN36XX_BMPS sample_wcn) = Some (0, w') \<and>
      pw_state (vif_priv w' 0) = WCN36XX_FULL_POWER"
proof -
  let ?P = "answering_platform [status_rsp HAL_EXIT_BMPS 1]"
  have "smd_wf ?P" by (rule answering_platform_wf) simp
  from exit_bmps_ignores_answer [OF this, of "set_pw_state 0 WCN36XX_BMPS sample_wcn" 0] sample_hal_ready
  show ?thesis by auto
qed

end
