(* ===== verification/Dxe_Ring.thy ===== *)
theory Dxe_Ring
  imports Samples
begin

text \<open>
  The control blocks of a DXE channel (\<^verbatim>\<open>dxe.c\<close>): their allocation into a ring, their release,
  the descriptors and the buffer-descriptor memory behind them. Each channel has its own block
  memory \<open>ch_mem\<close>; a freed block is \<open>None\<close> there, so that reading or freeing it again is
  undefined. \<open>ch_brk\<close> is the next fresh address.
\<close>

section \<open>Following pointers\<close>

definition ctl_at :: "wcn36xx_dxe_ch \<Rightarrow> nat option \<Rightarrow> wcn36xx_dxe_ctl option" where
  "ctl_at ch p = p \<bind> ch_mem ch"

definition desc_at :: "wcn36xx_dxe_ch \<Rightarrow> wcn36xx_dxe_ctl \<Rightarrow> wcn36xx_dxe_desc option" where
  "desc_at ch ctl = do {
     i \<leftarrow> ctl_desc ctl;
     ds \<leftarrow> ch_cpu_addr ch;
     if i < length ds then Some (ds ! i) else None }"

definition put_ctl :: "nat \<Rightarrow> wcn36xx_dxe_ctl \<Rightarrow> wcn36xx_dxe_ch \<Rightarrow> wcn36xx_dxe_ch" where
  "put_ctl a ctl ch = ch\<lparr> ch_mem := (ch_mem ch)(a := Some ctl) \<rparr>"

definition put_desc :: "nat \<Rightarrow> wcn36xx_dxe_desc \<Rightarrow> wcn36xx_dxe_ch \<Rightarrow> wcn36xx_dxe_ch" where
  "put_desc i d ch = ch\<lparr> ch_cpu_addr := map_option (\<lambda>ds. ds[i := d]) (ch_cpu_addr ch) \<rparr>"

section \<open>Control blocks\<close>

abbreviation (input) sizeof_ctl :: nat where "sizeof_ctl \<equiv> 32"
abbreviation (input) sizeof_desc :: nat where "sizeof_desc \<equiv> 32"

definition zero_ctl :: wcn36xx_dxe_ctl where
  "zero_ctl = \<lparr> ctl_next = None, ctl_desc = None, ctl_desc_phy_addr = 0, ctl_blk_order = 0,
                ctl_skb = None, ctl_bd_cpu_addr = None, ctl_bd_phy_addr = 0 \<rparr>"

fun free_ctl_loop :: "nat \<Rightarrow> nat option \<Rightarrow> wcn36xx_dxe_ch \<Rightarrow> wcn36xx_dxe_ch option" where
  "free_ctl_loop 0 ctl ch = Some ch"
| "free_ctl_loop (Suc i) None ch = Some ch"
| "free_ctl_loop (Suc i) (Some a) ch = do {
     blk \<leftarrow> ch_mem ch a;
     free_ctl_loop i (ctl_next blk) (ch\<lparr> ch_mem := (ch_mem ch)(a := None) \<rparr>) }"

definition wcn36xx_dxe_free_ctl_block :: "wcn36xx_dxe_ch \<Rightarrow> wcn36xx_dxe_ch option" where
  "wcn36xx_dxe_free_ctl_block ch = free_ctl_loop (ch_desc_num ch) (ch_head ch) ch"

text \<open>One block of the loop of \<open>wcn36xx_dxe_allocate_ctl_block\<close>, once its memory is there.\<close>

definition link_ctl_block ::
  "nat \<Rightarrow> nat option \<Rightarrow> wcn36xx_dxe_ch \<Rightarrow> (nat \<times> wcn36xx_dxe_ch) option" where
  "link_ctl_block i prev ch =
     (let a = ch_brk ch;
          ch1 = (put_ctl a (zero_ctl\<lparr> ctl_blk_order := i \<rparr>) ch)\<lparr> ch_brk := Suc a \<rparr>
      in if i = 0 then Some (a, ch1\<lparr> ch_head := Some a, ch_tail := Some a \<rparr>)
         else do {
           p \<leftarrow> prev;
           pblk \<leftarrow> ch_mem ch1 p;
           let ch2 = put_ctl p (pblk\<lparr> ctl_next := Some a \<rparr>) ch1;
           if ch_desc_num ch - 1 = i then do {
             blk \<leftarrow> ch_mem ch2 a;
             Some (a, put_ctl a (blk\<lparr> ctl_next := ch_head ch2 \<rparr>) ch2) }
           else Some (a, ch2) })"

fun alloc_ctl_loop :: "platform \<Rightarrow> nat \<Rightarrow> nat \<Rightarrow> nat option \<Rightarrow> wcn36xx_dxe_ch \<Rightarrow> wcn36xx
     \<Rightarrow> (int \<times> wcn36xx_dxe_ch \<times> wcn36xx) option" where
  "alloc_ctl_loop P 0 i prev ch w = Some (0, ch, w)"
| "alloc_ctl_loop P (Suc k) i prev ch w =
     (let ok = p_alloc P (klog w) sizeof_ctl; w1 = emit (Kmalloc sizeof_ctl) w
      in if ok then do {
           (a, ch1) \<leftarrow> link_ctl_block i prev ch;
           alloc_ctl_loop P k (Suc i) (Some a) ch1 w1 }
         else do {
           ch1 \<leftarrow> wcn36xx_dxe_free_ctl_block ch;
           Some (- ENOMEM, ch1, w1) })"

definition wcn36xx_dxe_allocate_ctl_block ::
  "platform \<Rightarrow> wcn36xx_dxe_ch_type \<Rightarrow> wcn36xx \<Rightarrow> (int \<times> wcn36xx) option" where
  "wcn36xx_dxe_allocate_ctl_block P c w = do {
     (ret, ch, w1) \<leftarrow> alloc_ctl_loop P (ch_desc_num (dxe_ch w c)) 0 None (dxe_ch w c) w;
     Some (ret, set_ch c ch w1) }"

definition free_ctl_block_of :: "wcn36xx_dxe_ch_type \<Rightarrow> wcn36xx \<Rightarrow> wcn36xx option" where
  "free_ctl_block_of c w = do {
     ch \<leftarrow> wcn36xx_dxe_free_ctl_block (dxe_ch w c);
     Some (set_ch c ch w) }"

definition wcn36xx_dxe_free_ctl_blks :: "wcn36xx \<Rightarrow> wcn36xx option" where
  "wcn36xx_dxe_free_ctl_blks w = do {
     w \<leftarrow> free_ctl_block_of WCN36XX_DXE_CH_TX_L w;
     w \<leftarrow> free_ctl_block_of WCN36XX_DXE_CH_TX_H w;
     w \<leftarrow> free_ctl_block_of WCN36XX_DXE_CH_RX_L w;
     free_ctl_block_of WCN36XX_DXE_CH_RX_H w }"

text \<open>The configuration \<open>wcn36xx_dxe_alloc_ctl_blks\<close> stores before it allocates; the receive
  channels have no work queue and no control words of their own.\<close>

definition configure_ch :: "wcn36xx_dxe_ch_type \<Rightarrow> wcn36xx_dxe_ch \<Rightarrow> wcn36xx_dxe_ch" where
  "configure_ch c ch =
     (let ch = ch\<lparr> ch_ch_type := c, ch_desc_num := DXE_CH_DESC_NUMB c \<rparr>
      in case c of
           WCN36XX_DXE_CH_TX_L \<Rightarrow> ch\<lparr> ch_dxe_wq := DXE_WQ c,
             ch_ctrl_bd := WCN36XX_DXE_CTRL_TX_L_BD, ch_ctrl_skb := WCN36XX_DXE_CTRL_TX_L_SKB,
             ch_reg_ctrl := DXE_REG_CTL c, ch_def_ctrl := DXE_CH_DEFAULT_CTL c \<rparr>
         | WCN36XX_DXE_CH_TX_H \<Rightarrow> ch\<lparr> ch_dxe_wq := DXE_WQ c,
             ch_ctrl_bd := WCN36XX_DXE_CTRL_TX_H_BD, ch_ctrl_skb := WCN36XX_DXE_CTRL_TX_H_SKB,
             ch_reg_ctrl := DXE_REG_CTL c, ch_def_ctrl := DXE_CH_DEFAULT_CTL c \<rparr>
         | _ \<Rightarrow> ch)"

text \<open>\<^verbatim>\<open>goto out_err\<close> is the error branch of \<open>try_alloc\<close>: the four channels are freed.\<close>

definition try_alloc :: "platform \<Rightarrow> wcn36xx_dxe_ch_type \<Rightarrow>
     (wcn36xx \<Rightarrow> (int \<times> wcn36xx) option) \<Rightarrow> wcn36xx \<Rightarrow> (int \<times> wcn36xx) option" where
  "try_alloc P c k w = do {
     (ret, w1) \<leftarrow> wcn36xx_dxe_allocate_ctl_block P c w;
     if ret \<noteq> 0 then do {
       w2 \<leftarrow> wcn36xx_dxe_free_ctl_blks w1;
       Some (- ENOMEM, w2) }
     else k w1 }"

definition wcn36xx_dxe_alloc_ctl_blks :: "platform \<Rightarrow> wcn36xx \<Rightarrow> (int \<times> wcn36xx) option" where
  "wcn36xx_dxe_alloc_ctl_blks P w =
     (let w = w\<lparr> dxe_ch := (\<lambda>c. configure_ch c (dxe_ch w c)) \<rparr>
      in try_alloc P WCN36XX_DXE_CH_TX_L
          (try_alloc P WCN36XX_DXE_CH_TX_H
            (try_alloc P WCN36XX_DXE_CH_RX_L
              (try_alloc P WCN36XX_DXE_CH_RX_H
                (\<lambda>w. Some (0, emit (SmsmChange WCN36XX_SMSM_WLAN_TX_ENABLE
                                       WCN36XX_SMSM_WLAN_TX_RINGS_EMPTY) w))))) w)"

section \<open>Descriptors\<close>

definition zero_desc :: wcn36xx_dxe_desc where
  "zero_desc = \<lparr> desc_ctrl = 0, desc_fr_len = 0, desc_src_addr_l = 0, desc_dst_addr_l = 0,
                 desc_phy_next_l = 0, desc_src_addr_h = 0, desc_dst_addr_h = 0,
                 desc_phy_next_h = 0 \<rparr>"

text \<open>The \<^verbatim>\<open>switch\<close> on the channel type.\<close>

definition init_desc_ctrl :: "wcn36xx_dxe_ch_type \<Rightarrow> wcn36xx_dxe_desc \<Rightarrow> wcn36xx_dxe_desc" where
  "init_desc_ctrl c d =
     (case c of
        WCN36XX_DXE_CH_TX_L \<Rightarrow> d\<lparr> desc_ctrl := DXE_CTRL c, desc_dst_addr_l := DXE_WQ c \<rparr>
      | WCN36XX_DXE_CH_TX_H \<Rightarrow> d\<lparr> desc_ctrl := DXE_CTRL c, desc_dst_addr_l := DXE_WQ c \<rparr>
      | WCN36XX_DXE_CH_RX_L \<Rightarrow> d\<lparr> desc_ctrl := DXE_CTRL c, desc_src_addr_l := DXE_WQ c \<rparr>
      | WCN36XX_DXE_CH_RX_H \<Rightarrow> d\<lparr> desc_ctrl := DXE_CTRL c, desc_src_addr_l := DXE_WQ c \<rparr>)"

definition set_phy_next :: "u32 \<Rightarrow> wcn36xx_dxe_desc \<Rightarrow> wcn36xx_dxe_desc" where
  "set_phy_next a d = d\<lparr> desc_phy_next_l := a \<rparr>"

definition upd_desc :: "nat \<Rightarrow> (wcn36xx_dxe_desc \<Rightarrow> wcn36xx_dxe_desc) \<Rightarrow> wcn36xx_dxe_ch
     \<Rightarrow> wcn36xx_dxe_ch" where
  "upd_desc i f ch = ch\<lparr> ch_cpu_addr := map_option (\<lambda>ds. ds[i := f (ds ! i)]) (ch_cpu_addr ch) \<rparr>"

definition init_desc_one :: "nat \<Rightarrow> nat option \<Rightarrow> wcn36xx_dxe_ch
     \<Rightarrow> (nat option \<times> wcn36xx_dxe_ch) option" where
  "init_desc_one i cur ch = do {
     a \<leftarrow> cur;
     ctl \<leftarrow> ch_mem ch a;
     let phy = ch_dma_addr ch + of_nat (i * sizeof_desc);
     let ch = put_ctl a (ctl\<lparr> ctl_desc := Some i, ctl_desc_phy_addr := phy \<rparr>) ch;
     let ch = upd_desc i (init_desc_ctrl (ch_ch_type ch)) ch;
     if i = 0 then Some (ctl_next ctl, upd_desc i (set_phy_next 0) ch)
     else if i < ch_desc_num ch - 1 then
       Some (ctl_next ctl, upd_desc (i - 1) (set_phy_next phy) ch)
     else do {
       h \<leftarrow> ctl_at ch (ch_head ch);
       Some (ctl_next ctl, upd_desc i (set_phy_next (ctl_desc_phy_addr h))
                             (upd_desc (i - 1) (set_phy_next phy) ch)) } }"

fun init_descs_loop :: "nat \<Rightarrow> nat \<Rightarrow> nat option \<Rightarrow> wcn36xx_dxe_ch \<Rightarrow> wcn36xx_dxe_ch option" where
  "init_descs_loop 0 i cur ch = Some ch"
| "init_descs_loop (Suc k) i cur ch = do {
     (cur, ch) \<leftarrow> init_desc_one i cur ch;
     init_descs_loop k (Suc i) cur ch }"

definition wcn36xx_dxe_init_descs ::
  "platform \<Rightarrow> wcn36xx_dxe_ch_type \<Rightarrow> wcn36xx \<Rightarrow> (int \<times> wcn36xx) option" where
  "wcn36xx_dxe_init_descs P c w =
     (let ch = dxe_ch w c; n = ch_desc_num ch; size = n * sizeof_desc;
          r = p_dma_alloc P (klog w) size; w1 = emit (DmaAlloc size) w
      in case r of
           None \<Rightarrow> Some (- ENOMEM, set_ch c (ch\<lparr> ch_cpu_addr := None \<rparr>) w1)
         | Some phy \<Rightarrow> do {
             ch1 \<leftarrow> init_descs_loop n 0 (ch_head ch)
                    (ch\<lparr> ch_cpu_addr := Some (replicate n zero_desc), ch_dma_addr := phy \<rparr>);
             Some (0, set_ch c ch1 w1) })"

section \<open>Buffer-descriptor memory\<close>

fun init_tx_bd_loop :: "nat \<Rightarrow> nat \<Rightarrow> nat option \<Rightarrow> nat \<Rightarrow> nat \<Rightarrow> u32 \<Rightarrow> nat \<Rightarrow> wcn36xx_dxe_ch
     \<Rightarrow> wcn36xx_dxe_ch option" where
  "init_tx_bd_loop 0 i cur mem off phy chunk ch = Some ch"
| "init_tx_bd_loop (Suc k) i cur mem off phy chunk ch = do {
     a \<leftarrow> cur;
     ctl \<leftarrow> ch_mem ch a;
     if even i then
       init_tx_bd_loop k (Suc i) (ctl_next ctl) mem (off + chunk) (phy + of_nat chunk) chunk
         (put_ctl a (ctl\<lparr> ctl_bd_phy_addr := phy, ctl_bd_cpu_addr := Some (mem, off) \<rparr>) ch)
     else
       init_tx_bd_loop k (Suc i) (ctl_next ctl) mem off phy chunk
         (put_ctl a (ctl\<lparr> ctl_bd_phy_addr := 0, ctl_bd_cpu_addr := None \<rparr>) ch) }"

text \<open>A pool whose memory is missing would give the blocks NULL-based addresses; the driver
  stops before that, since the pools are allocated first.\<close>

definition wcn36xx_dxe_init_tx_bd ::
  "wcn36xx_dxe_mem_pool \<Rightarrow> wcn36xx_dxe_ch \<Rightarrow> wcn36xx_dxe_ch option" where
  "wcn36xx_dxe_init_tx_bd pool ch = do {
     mem \<leftarrow> pool_virt_addr pool;
     init_tx_bd_loop (ch_desc_num ch) 0 (ch_head ch) mem 0 (pool_phy_addr pool)
       (pool_chunk_size pool) ch }"

section \<open>Segments and rings\<close>

text \<open>\<open>ctl_seg a m nx ch\<close>: the \<open>m\<close> blocks from \<open>a\<close> on are live and each points to the next one,
  the last one to \<open>nx\<close>. A ring is a segment that ends where it starts.\<close>

definition ctl_seg :: "nat \<Rightarrow> nat \<Rightarrow> nat option \<Rightarrow> wcn36xx_dxe_ch \<Rightarrow> bool" where
  "ctl_seg a m nx ch \<longleftrightarrow>
     (\<forall>i<m. \<exists>c. ch_mem ch (a + i) = Some c \<and>
            ctl_next c = (if Suc i < m then Some (a + Suc i) else nx))"

definition ctl_ring :: "nat \<Rightarrow> wcn36xx_dxe_ch \<Rightarrow> bool" where
  "ctl_ring b ch \<longleftrightarrow> 0 < ch_desc_num ch \<and> ctl_seg b (ch_desc_num ch) (Some b) ch"

definition free_range :: "nat \<Rightarrow> nat \<Rightarrow> wcn36xx_dxe_ch \<Rightarrow> wcn36xx_dxe_ch" where
  "free_range a m ch = ch\<lparr> ch_mem := (\<lambda>x. if a \<le> x \<and> x < a + m then None else ch_mem ch x) \<rparr>"

lemma put_ctl_simps [simp]:
  "ch_mem (put_ctl a c ch) = (ch_mem ch)(a := Some c)" "ch_brk (put_ctl a c ch) = ch_brk ch"
  "ch_head (put_ctl a c ch) = ch_head ch" "ch_tail (put_ctl a c ch) = ch_tail ch"
  "ch_desc_num (put_ctl a c ch) = ch_desc_num ch" "ch_cpu_addr (put_ctl a c ch) = ch_cpu_addr ch"
  "ch_ctrl_bd (put_ctl a c ch) = ch_ctrl_bd ch" "ch_ctrl_skb (put_ctl a c ch) = ch_ctrl_skb ch"
  "ch_dxe_wq (put_ctl a c ch) = ch_dxe_wq ch" "ch_ch_type (put_ctl a c ch) = ch_ch_type ch"
  "ch_reg_ctrl (put_ctl a c ch) = ch_reg_ctrl ch" "ch_def_ctrl (put_ctl a c ch) = ch_def_ctrl ch"
  "ch_dma_addr (put_ctl a c ch) = ch_dma_addr ch"
  by (simp_all add: put_ctl_def)

lemma put_desc_simps [simp]:
  "ch_mem (put_desc i d ch) = ch_mem ch" "ch_brk (put_desc i d ch) = ch_brk ch"
  "ch_head (put_desc i d ch) = ch_head ch" "ch_tail (put_desc i d ch) = ch_tail ch"
  "ch_desc_num (put_desc i d ch) = ch_desc_num ch"
  "ch_cpu_addr (put_desc i d ch) = map_option (\<lambda>ds. ds[i := d]) (ch_cpu_addr ch)"
  "ch_ctrl_bd (put_desc i d ch) = ch_ctrl_bd ch" "ch_ctrl_skb (put_desc i d ch) = ch_ctrl_skb ch"
  "ch_dxe_wq (put_desc i d ch) = ch_dxe_wq ch" "ch_ch_type (put_desc i d ch) = ch_ch_type ch"
  "ch_reg_ctrl (put_desc i d ch) = ch_reg_ctrl ch" "ch_def_ctrl (put_desc i d ch) = ch_def_ctrl ch"
  "ch_dma_addr (put_desc i d ch) = ch_dma_addr ch"
  by (simp_all add: put_desc_def)

lemma free_ctl_loop_desc_num:
  "free_ctl_loop k p ch = Some ch' \<Longrightarrow> ch_desc_num ch' = ch_desc_num ch"
  by (induction k p ch rule: free_ctl_loop.induct) (auto simp: bind_eq_Some_conv)

lemma free_ctl_loop_seg:
  assumes "ctl_seg a m nx ch" and "0 < m" and "k = m \<or> (m < k \<and> nx = None)"
  shows "free_ctl_loop k (Some a) ch = Some (free_range a m ch)"
  using assms
proof (induction m arbitrary: a k ch)
  case 0 then show ?case by simp
next
  case (Suc m)
  from Suc.prems obtain k' where k: "k = Suc k'" "k' = m \<or> (m < k' \<and> nx = None)"
    by (cases k) auto
  from Suc.prems(1) obtain c where c: "ch_mem ch a = Some c"
    "ctl_next c = (if 0 < m then Some (Suc a) else nx)"
    unfolding ctl_seg_def by (force dest: spec [where x = 0])
  let ?ch = "ch\<lparr> ch_mem := (ch_mem ch)(a := None) \<rparr>"
  show ?case
  proof (cases "m = 0")
    case True
    with c k have "free_ctl_loop k (Some a) ch = Some ?ch"
      by (cases k') auto
    moreover have "?ch = free_range a (Suc m) ch"
      using True by (auto simp: free_range_def fun_eq_iff intro!: arg_cong [where f = "\<lambda>f. ch_mem_update f ch"])
    ultimately show ?thesis by simp
  next
    case False
    have seg: "ctl_seg (Suc a) m nx ?ch"
      unfolding ctl_seg_def
    proof (intro allI impI)
      fix i assume "i < m"
      then show "\<exists>c. ch_mem ?ch (Suc a + i) = Some c \<and>
                   ctl_next c = (if Suc i < m then Some (Suc a + Suc i) else nx)"
        using Suc.prems(1) unfolding ctl_seg_def by (auto dest: spec [where x = "Suc i"])
    qed
    have "free_ctl_loop k (Some a) ch = free_ctl_loop k' (Some (Suc a)) ?ch"
      using c False k by simp
    also have "\<dots> = Some (free_range (Suc a) m ?ch)"
      using Suc.IH [OF seg _ k(2)] False by simp
    also have "free_range (Suc a) m ?ch = free_range a (Suc m) ch"
      by (auto simp: free_range_def fun_eq_iff intro!: arg_cong [where f = "\<lambda>f. ch_mem_update f ch"])
    finally show ?thesis .
  qed
qed

lemma free_ctl_block_ring:
  assumes "ctl_ring b ch" and "ch_head ch = Some b"
  shows "wcn36xx_dxe_free_ctl_block ch = Some (free_range b (ch_desc_num ch) ch)"
  using assms free_ctl_loop_seg [of b "ch_desc_num ch" "Some b" ch]
  by (simp add: wcn36xx_dxe_free_ctl_block_def ctl_ring_def)

lemma free_ctl_block_freed:
  assumes "0 < ch_desc_num ch" and "ch_head ch = Some b" and "ch_mem ch b = None"
  shows "wcn36xx_dxe_free_ctl_block ch = None"
  using assms by (cases "ch_desc_num ch") (auto simp: wcn36xx_dxe_free_ctl_block_def)

section \<open>Allocation builds the ring\<close>

text \<open>The state of the allocation loop before block \<open>i\<close>: the first \<open>i\<close> blocks are a segment
  ending in NULL, head and tail at its start.\<close>

definition alloc_inv :: "nat \<Rightarrow> nat \<Rightarrow> nat option \<Rightarrow> wcn36xx_dxe_ch \<Rightarrow> bool" where
  "alloc_inv b i prev ch \<longleftrightarrow>
     ch_brk ch = b + i \<and> ctl_seg b i None ch \<and>
     (0 < i \<longrightarrow> prev = Some (b + i - 1) \<and> ch_head ch = Some b \<and> ch_tail ch = Some b)"

lemma link_ctl_block_later:
  assumes "0 < i" and "ch_mem ch p = Some c" and "p \<noteq> ch_brk ch"
  shows "\<exists>ch'. link_ctl_block i (Some p) ch = Some (ch_brk ch, ch') \<and>
           ch_mem ch' (ch_brk ch) = Some (zero_ctl\<lparr> ctl_blk_order := i,
             ctl_next := (if ch_desc_num ch - 1 = i then ch_head ch else None) \<rparr>) \<and>
           ch_mem ch' p = Some (c\<lparr> ctl_next := Some (ch_brk ch) \<rparr>) \<and>
           (\<forall>x. x \<noteq> p \<and> x \<noteq> ch_brk ch \<longrightarrow> ch_mem ch' x = ch_mem ch x) \<and>
           ch_brk ch' = Suc (ch_brk ch) \<and> ch_head ch' = ch_head ch \<and> ch_tail ch' = ch_tail ch \<and>
           ch_desc_num ch' = ch_desc_num ch"
  using assms by (simp add: link_ctl_block_def Let_def zero_ctl_def)

lemma ctl_seg_cong:
  assumes "ctl_seg a m nx ch" and "\<And>x. a \<le> x \<Longrightarrow> x < a + m \<Longrightarrow> ch_mem ch' x = ch_mem ch x"
  shows "ctl_seg a m nx ch'"
  using assms unfolding ctl_seg_def by (metis le_add1 nat_add_left_cancel_less)

lemma ctl_seg_snoc:
  assumes "ctl_seg a m (Some (a + m)) ch" and "ch_mem ch (a + m) = Some c" and "ctl_next c = nx"
  shows "ctl_seg a (Suc m) nx ch"
  unfolding ctl_seg_def
proof (intro allI impI)
  fix i assume "i < Suc m"
  then consider "i = m" | "i < m" by linarith
  then show "\<exists>c. ch_mem ch (a + i) = Some c \<and>
                 ctl_next c = (if Suc i < Suc m then Some (a + Suc i) else nx)"
  proof cases
    case 1 then show ?thesis using assms by simp
  next
    case 2
    with assms(1) obtain c' where "ch_mem ch (a + i) = Some c'"
      "ctl_next c' = (if Suc i < m then Some (a + Suc i) else Some (a + m))"
      unfolding ctl_seg_def by blast
    moreover from 2 have "Suc i < m \<or> Suc i = m" by linarith
    ultimately show ?thesis using 2 by auto
  qed
qed

lemma ctl_seg_relink:
  assumes "ctl_seg a (Suc m) nx ch" and "ch_mem ch (a + m) = Some c"
    and "ch_mem ch' (a + m) = Some (c\<lparr> ctl_next := nx' \<rparr>)"
    and "\<And>x. a \<le> x \<Longrightarrow> x < a + m \<Longrightarrow> ch_mem ch' x = ch_mem ch x"
  shows "ctl_seg a (Suc m) nx' ch'"
  unfolding ctl_seg_def
proof (intro allI impI)
  fix i assume "i < Suc m"
  then consider "i = m" | "i < m" by linarith
  then show "\<exists>c. ch_mem ch' (a + i) = Some c \<and>
                 ctl_next c = (if Suc i < Suc m then Some (a + Suc i) else nx')"
  proof cases
    case 1 then show ?thesis using assms(3) by simp
  next
    case 2 then show ?thesis
      using assms(1) assms(4) [of "a + i"] unfolding ctl_seg_def by (auto dest: spec [where x = i])
  qed
qed

lemma link_ctl_block_inv:
  assumes inv: "alloc_inv b (Suc j) prev ch"
  shows "\<exists>ch'. link_ctl_block (Suc j) prev ch = Some (b + Suc j, ch') \<and>
           ctl_seg b (Suc (Suc j)) (if ch_desc_num ch - 1 = Suc j then Some b else None) ch' \<and>
           ch_brk ch' = b + Suc (Suc j) \<and> ch_head ch' = Some b \<and> ch_tail ch' = Some b \<and>
           ch_desc_num ch' = ch_desc_num ch"
proof -
  from inv have prev: "prev = Some (b + j)" and brk: "ch_brk ch = b + Suc j"
    and seg: "ctl_seg b (Suc j) None ch" and ht: "ch_head ch = Some b" "ch_tail ch = Some b"
    by (auto simp: alloc_inv_def)
  from seg obtain c where c: "ch_mem ch (b + j) = Some c"
    unfolding ctl_seg_def by blast
  obtain ch' where l: "link_ctl_block (Suc j) (Some (b + j)) ch = Some (ch_brk ch, ch')"
    and new: "ch_mem ch' (ch_brk ch) = Some (zero_ctl\<lparr> ctl_blk_order := Suc j,
               ctl_next := (if ch_desc_num ch - 1 = Suc j then ch_head ch else None) \<rparr>)"
    and old: "ch_mem ch' (b + j) = Some (c\<lparr> ctl_next := Some (ch_brk ch) \<rparr>)"
    and rest: "\<forall>x. x \<noteq> b + j \<and> x \<noteq> ch_brk ch \<longrightarrow> ch_mem ch' x = ch_mem ch x"
    and oth: "ch_brk ch' = Suc (ch_brk ch)" "ch_head ch' = ch_head ch" "ch_tail ch' = ch_tail ch"
      "ch_desc_num ch' = ch_desc_num ch"
    using link_ctl_block_later [of "Suc j" ch "b + j" c] c brk by auto
  have "ctl_seg b (Suc j) (Some (ch_brk ch)) ch'"
    by (rule ctl_seg_relink [OF seg c old]) (use rest brk in auto)
  then have "ctl_seg b (Suc j) (Some (b + Suc j)) ch'"
    by (simp only: brk)
  then have "ctl_seg b (Suc (Suc j)) (if ch_desc_num ch - 1 = Suc j then Some b else None) ch'"
    by (rule ctl_seg_snoc) (use new brk ht in \<open>auto simp: zero_ctl_def\<close>)
  with l prev brk oth ht show ?thesis by auto
qed

lemma link_ctl_block_step:
  assumes "alloc_inv b i prev ch" and "Suc i < ch_desc_num ch"
  shows "\<exists>ch'. link_ctl_block i prev ch = Some (b + i, ch') \<and> alloc_inv b (Suc i) (Some (b + i)) ch' \<and>
               ch_desc_num ch' = ch_desc_num ch"
proof (cases i)
  case 0
  with assms show ?thesis
    by (auto simp: link_ctl_block_def alloc_inv_def ctl_seg_def zero_ctl_def)
next
  case (Suc j)
  with assms(2) have "ch_desc_num ch - 1 \<noteq> Suc j" by linarith
  with link_ctl_block_inv [of b j prev ch] assms Suc show ?thesis
    by (auto simp: alloc_inv_def)
qed

lemma link_ctl_block_last:
  assumes "alloc_inv b i prev ch" and "Suc i = ch_desc_num ch" and "0 < i"
  shows "\<exists>ch'. link_ctl_block i prev ch = Some (b + i, ch') \<and> ctl_ring b ch' \<and>
               ch_head ch' = Some b \<and> ch_tail ch' = Some b \<and> ch_desc_num ch' = ch_desc_num ch"
proof -
  from assms(3) obtain j where j: "i = Suc j" by (cases i) auto
  have n: "ch_desc_num ch = Suc (Suc j)" using assms(2) j by simp
  from link_ctl_block_inv [of b j prev ch] assms(1) j n show ?thesis
    by (auto simp: ctl_ring_def)
qed

lemma alloc_ctl_loop_cases:
  assumes "alloc_inv b i prev ch" and "i + k = ch_desc_num ch" and "0 < k" and "2 \<le> ch_desc_num ch"
    and "alloc_ctl_loop P k i prev ch w = Some (ret, ch', w')"
  shows "ret = 0 \<and> ctl_ring b ch' \<and> ch_head ch' = Some b \<and> ch_tail ch' = Some b \<and>
           ch_desc_num ch' = ch_desc_num ch
       \<or> ret = - ENOMEM \<and> ch_desc_num ch' = ch_desc_num ch \<and>
           (\<exists>j. i \<le> j \<and> j < ch_desc_num ch \<and>
              (0 < j \<longrightarrow> ch_head ch' = Some b \<and> (\<forall>x. b \<le> x \<and> x < b + j \<longrightarrow> ch_mem ch' x = None)))"
  using assms
proof (induction k arbitrary: i prev ch w)
  case 0 then show ?case by simp
next
  case (Suc k)
  show ?case
  proof (cases "p_alloc P (klog w) sizeof_ctl")
    case False
    with Suc.prems(5) obtain ch1 where f: "wcn36xx_dxe_free_ctl_block ch = Some ch1"
      and r: "ret = - ENOMEM" "ch' = ch1"
      by (auto simp: bind_eq_Some_conv)
    show ?thesis
    proof (cases "i = 0")
      case True
      moreover have "ch_desc_num ch1 = ch_desc_num ch"
        using f free_ctl_loop_desc_num unfolding wcn36xx_dxe_free_ctl_block_def by blast
      ultimately show ?thesis using r Suc.prems(4) by (auto intro!: exI [of _ "0 :: nat"])
    next
      case False
      then have "ch1 = free_range b i ch"
        using f Suc.prems(1,2) free_ctl_loop_seg [of b i None ch "ch_desc_num ch"]
        by (auto simp: wcn36xx_dxe_free_ctl_block_def alloc_inv_def)
      then show ?thesis
        using r False Suc.prems(1,2) by (auto simp: free_range_def alloc_inv_def)
    qed
  next
    case True
    show ?thesis
    proof (cases k)
      case 0
      with Suc.prems have "Suc i = ch_desc_num ch" "0 < i" by simp_all
      from link_ctl_block_last [OF Suc.prems(1) this] Suc.prems(5) True 0 show ?thesis
        by (auto simp: split: option.splits)
    next
      case (Suc k')
      with Suc.prems have "Suc i < ch_desc_num ch" by simp
      from link_ctl_block_step [OF Suc.prems(1) this] obtain ch1 where
        ch1: "link_ctl_block i prev ch = Some (b + i, ch1)" "alloc_inv b (Suc i) (Some (b + i)) ch1"
        "ch_desc_num ch1 = ch_desc_num ch" by blast
      have "alloc_ctl_loop P k (Suc i) (Some (b + i)) ch1 (emit (Kmalloc sizeof_ctl) w) =
              Some (ret, ch', w')"
        using Suc.prems(5) True ch1(1) by simp
      from Suc.IH [OF ch1(2) _ _ _ this] Suc.prems(2,4) \<open>k = Suc k'\<close> ch1(3) show ?thesis
        by (auto dest: Suc_leD)
    qed
  qed
qed

lemma alloc_ctl_loop_fail:
  assumes "alloc_inv b i prev ch" and "i + k = ch_desc_num ch" and "i \<le> f" and "f < ch_desc_num ch"
    and "0 < f" and "\<forall>l. p_alloc P l sizeof_ctl \<longleftrightarrow> length l \<noteq> length (klog w) + (f - i)"
  shows "\<exists>ch' w'. alloc_ctl_loop P k i prev ch w = Some (- ENOMEM, ch', w') \<and>
           ch_head ch' = Some b \<and> ch_mem ch' b = None \<and> ch_desc_num ch' = ch_desc_num ch"
  using assms
proof (induction k arbitrary: i prev ch w)
  case 0 then show ?case by simp
next
  case (Suc k)
  show ?case
  proof (cases "i = f")
    case True
    then have "wcn36xx_dxe_free_ctl_block ch = Some (free_range b i ch)"
      using Suc.prems free_ctl_loop_seg [of b i None ch "ch_desc_num ch"]
      by (auto simp: wcn36xx_dxe_free_ctl_block_def alloc_inv_def)
    moreover have "\<not> p_alloc P (klog w) sizeof_ctl"
      using True Suc.prems(6) by simp
    ultimately show ?thesis
      using True Suc.prems(1,5) by (auto simp: free_range_def alloc_inv_def)
  next
    case False
    with Suc.prems have i: "Suc i < ch_desc_num ch" "Suc i \<le> f" by auto
    from link_ctl_block_step [OF Suc.prems(1) i(1)] obtain ch1 where
      ch1: "link_ctl_block i prev ch = Some (b + i, ch1)" "alloc_inv b (Suc i) (Some (b + i)) ch1"
      "ch_desc_num ch1 = ch_desc_num ch" by blast
    have "p_alloc P (klog w) sizeof_ctl"
      using Suc.prems(6) i(2) by simp
    moreover have "\<exists>ch' w'. alloc_ctl_loop P k (Suc i) (Some (b + i)) ch1 (emit (Kmalloc sizeof_ctl) w) =
        Some (- ENOMEM, ch', w') \<and> ch_head ch' = Some b \<and> ch_mem ch' b = None \<and>
        ch_desc_num ch' = ch_desc_num ch1"
    proof (rule Suc.IH [OF ch1(2)])
      show "\<forall>l. p_alloc P l sizeof_ctl \<longleftrightarrow>
              length l \<noteq> length (klog (emit (Kmalloc sizeof_ctl) w)) + (f - Suc i)"
      proof
        fix l
        have "length (klog (emit (Kmalloc sizeof_ctl) w)) + (f - Suc i) = length (klog w) + (f - i)"
          using i(2) by simp
        then show "p_alloc P l sizeof_ctl \<longleftrightarrow>
                     length l \<noteq> length (klog (emit (Kmalloc sizeof_ctl) w)) + (f - Suc i)"
          using spec [OF Suc.prems(6), of l] by (simp only:)
      qed
    qed (use Suc.prems(2,4,5) ch1(3) i(2) in simp_all)
    ultimately show ?thesis
      using ch1 by simp
  qed
qed

lemma configure_ch_simps [simp]:
  "ch_mem (configure_ch c ch) = ch_mem ch" "ch_brk (configure_ch c ch) = ch_brk ch"
  "ch_head (configure_ch c ch) = ch_head ch" "ch_tail (configure_ch c ch) = ch_tail ch"
  "ch_desc_num (configure_ch c ch) = DXE_CH_DESC_NUMB c" "ch_ch_type (configure_ch c ch) = c"
  by (cases c; simp add: configure_ch_def)+

lemma DXE_CH_DESC_NUMB_ge [simp]: "2 \<le> DXE_CH_DESC_NUMB c" "0 < DXE_CH_DESC_NUMB c"
  by (cases c; simp)+

lemma alloc_inv_start: "alloc_inv (ch_brk ch) 0 prev ch"
  by (simp add: alloc_inv_def ctl_seg_def)

lemma allocate_ctl_block_ok:
  assumes "wcn36xx_dxe_allocate_ctl_block P c w = Some (0, w')" and "2 \<le> ch_desc_num (dxe_ch w c)"
  shows "let b = ch_brk (dxe_ch w c); ch = dxe_ch w' c
         in ctl_ring b ch \<and> ch_head ch = Some b \<and> ch_tail ch = Some b \<and>
            ch_desc_num ch = ch_desc_num (dxe_ch w c)"
    and "c' \<noteq> c \<Longrightarrow> dxe_ch w' c' = dxe_ch w c'"
proof -
  from assms(1) obtain ch w1 where
    l: "alloc_ctl_loop P (ch_desc_num (dxe_ch w c)) 0 None (dxe_ch w c) w = Some (0, ch, w1)"
    and w': "w' = set_ch c ch w1"
    by (auto simp: wcn36xx_dxe_allocate_ctl_block_def bind_eq_Some_conv)
  from alloc_ctl_loop_cases [OF alloc_inv_start _ _ assms(2) l] assms(2) w'
  show "let b = ch_brk (dxe_ch w c); ch = dxe_ch w' c
        in ctl_ring b ch \<and> ch_head ch = Some b \<and> ch_tail ch = Some b \<and>
           ch_desc_num ch = ch_desc_num (dxe_ch w c)"
    by auto
  have "alloc_ctl_loop P k i prev ch0 w = Some (r, ch, w1) \<Longrightarrow> dxe_ch w1 = dxe_ch w"
    for k i prev ch0 w r
    by (induction k arbitrary: i prev ch0 w) (auto simp: bind_eq_Some_conv Let_def split: if_splits)
  with l w' show "c' \<noteq> c \<Longrightarrow> dxe_ch w' c' = dxe_ch w c'"
    by auto
qed

lemma alloc_ctl_loop_succeeds:
  assumes "alloc_inv b i prev ch" and "i + k = ch_desc_num ch" and "2 \<le> ch_desc_num ch"
    and "\<forall>l. p_alloc P l sizeof_ctl"
  shows "\<exists>ch' w'. alloc_ctl_loop P k i prev ch w = Some (0, ch', w')"
  using assms
proof (induction k arbitrary: i prev ch w)
  case 0 then show ?case by simp
next
  case (Suc k)
  show ?case
  proof (cases "k = 0")
    case True
    then have "Suc i = ch_desc_num ch" "0 < i" using Suc.prems by simp_all
    from link_ctl_block_last [OF Suc.prems(1) this] True Suc.prems(4) show ?thesis
      by (auto simp: Let_def)
  next
    case False
    then have "Suc i < ch_desc_num ch" using Suc.prems(2) by simp
    from link_ctl_block_step [OF Suc.prems(1) this] obtain ch1 where
      "link_ctl_block i prev ch = Some (b + i, ch1)" "alloc_inv b (Suc i) (Some (b + i)) ch1"
      "ch_desc_num ch1 = ch_desc_num ch" by blast
    with Suc.IH [of "Suc i" "Some (b + i)" ch1] Suc.prems show ?thesis by (auto simp: Let_def)
  qed
qed

lemma allocate_ctl_block_succeeds:
  assumes "2 \<le> ch_desc_num (dxe_ch w c)" and "\<forall>l. p_alloc P l sizeof_ctl"
  shows "\<exists>w'. wcn36xx_dxe_allocate_ctl_block P c w = Some (0, w')"
proof -
  have "0 + ch_desc_num (dxe_ch w c) = ch_desc_num (dxe_ch w c)" by simp
  from alloc_ctl_loop_succeeds [OF alloc_inv_start this assms, of None w] show ?thesis
    by (auto simp: wcn36xx_dxe_allocate_ctl_block_def)
qed

lemma alloc_ctl_blks_returned_rings:
  assumes "wcn36xx_dxe_alloc_ctl_blks P w = Some (0, w')"
  shows "ctl_ring (ch_brk (dxe_ch w c)) (dxe_ch w' c) \<and>
         ch_head (dxe_ch w' c) = Some (ch_brk (dxe_ch w c)) \<and>
         ch_tail (dxe_ch w' c) = Some (ch_brk (dxe_ch w c)) \<and>
         ch_desc_num (dxe_ch w' c) = DXE_CH_DESC_NUMB c"
proof -
  let ?w0 = "w\<lparr> dxe_ch := (\<lambda>c. configure_ch c (dxe_ch w c)) \<rparr>"
  have k: "P2 = 0 \<and> P1 = Some (0, x) " if "P1 = Some (P2 :: int, x)" "P2 = 0" for P1 P2 and x :: wcn36xx
    using that by simp
  have step: "\<exists>w1. wcn36xx_dxe_allocate_ctl_block P c w = Some (0, w1) \<and> k w1 = Some (0, w')"
    if "try_alloc P c k w = Some (0, w')" for c k w w'
    using that by (auto simp: try_alloc_def bind_eq_Some_conv split: if_splits)
  from assms obtain w1 w2 w3 w4 where
    w1: "wcn36xx_dxe_allocate_ctl_block P WCN36XX_DXE_CH_TX_L ?w0 = Some (0, w1)" and
    w2: "wcn36xx_dxe_allocate_ctl_block P WCN36XX_DXE_CH_TX_H w1 = Some (0, w2)" and
    w3: "wcn36xx_dxe_allocate_ctl_block P WCN36XX_DXE_CH_RX_L w2 = Some (0, w3)" and
    w4: "wcn36xx_dxe_allocate_ctl_block P WCN36XX_DXE_CH_RX_H w3 = Some (0, w4)" and
    w': "dxe_ch w' = dxe_ch w4"
    unfolding wcn36xx_dxe_alloc_ctl_blks_def Let_def by (auto dest!: step)
  note a = allocate_ctl_block_ok(1) [unfolded Let_def]
  note b1 = allocate_ctl_block_ok(2) [OF w1] and b2 = allocate_ctl_block_ok(2) [OF w2]
    and b3 = allocate_ctl_block_ok(2) [OF w3] and b4 = allocate_ctl_block_ok(2) [OF w4]
  show ?thesis
    using a [OF w1] a [OF w2] a [OF w3] a [OF w4] b1 b2 b3 b4 w' by (cases c) simp_all
qed

lemma alloc_ctl_blks_succeeds:
  assumes "\<forall>l. p_alloc P l sizeof_ctl"
  shows "\<exists>w'. wcn36xx_dxe_alloc_ctl_blks P w = Some (0, w')"
proof -
  let ?w0 = "w\<lparr> dxe_ch := (\<lambda>c. configure_ch c (dxe_ch w c)) \<rparr>"
  have next_ch: "\<exists>w'. wcn36xx_dxe_allocate_ctl_block P c v = Some (0, w') \<and>
      (\<forall>c. ch_desc_num (dxe_ch w' c) = DXE_CH_DESC_NUMB c)"
    if n: "\<forall>c. ch_desc_num (dxe_ch v c) = DXE_CH_DESC_NUMB c" for c v
  proof -
    have two: "2 \<le> ch_desc_num (dxe_ch v c)" using n by simp
    from allocate_ctl_block_succeeds [OF two assms] obtain w' where
      w': "wcn36xx_dxe_allocate_ctl_block P c v = Some (0, w')" by blast
    have "ch_desc_num (dxe_ch w' c') = DXE_CH_DESC_NUMB c'" for c'
      using allocate_ctl_block_ok(1) [OF w' two] allocate_ctl_block_ok(2) [OF w' two, of c'] n
      by (cases "c' = c") (simp_all add: Let_def)
    with w' show ?thesis by blast
  qed
  obtain w1 where 1: "wcn36xx_dxe_allocate_ctl_block P WCN36XX_DXE_CH_TX_L ?w0 = Some (0, w1)"
    "\<forall>c. ch_desc_num (dxe_ch w1 c) = DXE_CH_DESC_NUMB c" using next_ch [of ?w0] by auto
  obtain w2 where 2: "wcn36xx_dxe_allocate_ctl_block P WCN36XX_DXE_CH_TX_H w1 = Some (0, w2)"
    "\<forall>c. ch_desc_num (dxe_ch w2 c) = DXE_CH_DESC_NUMB c" using next_ch [OF 1(2)] by blast
  obtain w3 where 3: "wcn36xx_dxe_allocate_ctl_block P WCN36XX_DXE_CH_RX_L w2 = Some (0, w3)"
    "\<forall>c. ch_desc_num (dxe_ch w3 c) = DXE_CH_DESC_NUMB c" using next_ch [OF 2(2)] by blast
  obtain w4 where 4: "wcn36xx_dxe_allocate_ctl_block P WCN36XX_DXE_CH_RX_H w3 = Some (0, w4)"
    using next_ch [OF 3(2)] by blast
  show "\<exists>w'. wcn36xx_dxe_alloc_ctl_blks P w = Some (0, w')"
    using 1(1) 2(1) 3(1) 4 by (simp add: wcn36xx_dxe_alloc_ctl_blks_def Let_def try_alloc_def)
qed

text \<open>When no allocation fails, \<open>wcn36xx_dxe_alloc_ctl_blks\<close> returns 0 and leaves in every channel a
  closed ring of exactly the channel's number of blocks (128, 10, 512, 40), with head and tail at
  its first block; and every result 0 has this effect.\<close>

theorem alloc_ctl_blks_rings:
  assumes "\<forall>l. p_alloc P l sizeof_ctl"
  shows "\<exists>w'. wcn36xx_dxe_alloc_ctl_blks P w = Some (0, w') \<and>
           (\<forall>c. ctl_ring (ch_brk (dxe_ch w c)) (dxe_ch w' c) \<and>
             ch_head (dxe_ch w' c) = Some (ch_brk (dxe_ch w c)) \<and>
             ch_tail (dxe_ch w' c) = Some (ch_brk (dxe_ch w c)) \<and>
             ch_desc_num (dxe_ch w' c) = DXE_CH_DESC_NUMB c)"
  using alloc_ctl_blks_succeeds [OF assms, of w] alloc_ctl_blks_returned_rings [of P w] by blast

theorem alloc_ctl_blks_rings_witness:
  "\<exists>w'. wcn36xx_dxe_alloc_ctl_blks sample_platform sample_wcn = Some (0, w') \<and>
     ctl_ring 4 (dxe_ch w' WCN36XX_DXE_CH_RX_H)"
  using alloc_ctl_blks_rings [of sample_platform sample_wcn]
  by (force simp: sample_platform_def sample_wcn_def ring4_def)

text \<open>C24: When the allocation of a later block of the first channel fails, the channel's blocks are
  released by \<open>wcn36xx_dxe_allocate_ctl_block\<close> and then, on the error path of the caller, read and
  released a second time: the call runs into freed memory for every failing block but the first.\<close>

theorem alloc_ctl_blks_double_free:
  assumes "0 < f" and "f < DXE_CH_DESC_NUMB WCN36XX_DXE_CH_TX_L"
    and "\<forall>l. p_alloc P l sizeof_ctl \<longleftrightarrow> length l \<noteq> length (klog w) + f"
  shows "wcn36xx_dxe_alloc_ctl_blks P w = None"
proof -
  let ?w = "w\<lparr> dxe_ch := (\<lambda>c. configure_ch c (dxe_ch w c)) \<rparr>"
  let ?ch = "dxe_ch ?w WCN36XX_DXE_CH_TX_L"
  have "\<exists>ch' w'. alloc_ctl_loop P (ch_desc_num ?ch) 0 None ?ch ?w = Some (- ENOMEM, ch', w') \<and>
          ch_head ch' = Some (ch_brk ?ch) \<and> ch_mem ch' (ch_brk ?ch) = None \<and>
          ch_desc_num ch' = ch_desc_num ?ch"
    by (rule alloc_ctl_loop_fail [OF alloc_inv_start, where f = f]) (use assms in simp_all)
  then obtain w1 where
    "wcn36xx_dxe_allocate_ctl_block P WCN36XX_DXE_CH_TX_L ?w = Some (- ENOMEM, w1)"
    "free_ctl_block_of WCN36XX_DXE_CH_TX_L w1 = None"
    by (auto simp: wcn36xx_dxe_allocate_ctl_block_def free_ctl_block_of_def
        free_ctl_block_freed simp del: alloc_ctl_loop.simps)
  then show ?thesis
    by (simp add: wcn36xx_dxe_alloc_ctl_blks_def Let_def try_alloc_def wcn36xx_dxe_free_ctl_blks_def)
qed

theorem alloc_ctl_blks_double_free_witness:
  "wcn36xx_dxe_alloc_ctl_blks (sample_platform\<lparr> p_alloc := (\<lambda>l n. length l \<noteq> 5) \<rparr>) sample_wcn = None"
  by (rule alloc_ctl_blks_double_free [of 5]) (simp_all add: sample_wcn_def)

section \<open>Initialising the descriptors\<close>

text \<open>\<open>same_links ch ch0\<close>: the blocks of \<open>ch\<close> are those of \<open>ch0\<close> up to their descriptor and
  buffer-descriptor addresses.\<close>

definition same_links :: "nat \<Rightarrow> wcn36xx_dxe_ch \<Rightarrow> wcn36xx_dxe_ch \<Rightarrow> bool" where
  "same_links b ch0 ch \<longleftrightarrow>
     ch_desc_num ch = ch_desc_num ch0 \<and> ch_head ch = ch_head ch0 \<and> ch_tail ch = ch_tail ch0 \<and>
     ch_ch_type ch = ch_ch_type ch0 \<and> ch_ctrl_bd ch = ch_ctrl_bd ch0 \<and>
     ch_ctrl_skb ch = ch_ctrl_skb ch0 \<and>
     (\<forall>i<ch_desc_num ch0. \<exists>c0 c. ch_mem ch0 (b + i) = Some c0 \<and> ch_mem ch (b + i) = Some c \<and>
        ctl_next c = ctl_next c0 \<and> ctl_skb c = ctl_skb c0)"

lemma ctl_ring_next:
  assumes "ctl_ring b ch" and "i < ch_desc_num ch"
  shows "\<exists>c. ch_mem ch (b + i) = Some c \<and> ctl_next c = Some (b + Suc i mod ch_desc_num ch)"
proof -
  from assms have s: "ctl_seg b (ch_desc_num ch) (Some b) ch" by (simp add: ctl_ring_def)
  have "Suc i < ch_desc_num ch \<or> Suc i = ch_desc_num ch" using assms(2) by linarith
  then show ?thesis
    using s assms(2) unfolding ctl_seg_def by (auto dest!: spec [where x = i])
qed

lemma same_links_refl: "ctl_ring b ch \<Longrightarrow> same_links b ch ch"
  unfolding same_links_def by (auto dest: ctl_ring_next)

lemma same_links_trans:
  "same_links b ch0 ch1 \<Longrightarrow> same_links b ch1 ch2 \<Longrightarrow> same_links b ch0 ch2"
  unfolding same_links_def by fastforce

lemma same_links_next:
  assumes "ctl_ring b ch0" and "same_links b ch0 ch" and "i < ch_desc_num ch0"
  shows "\<exists>c. ch_mem ch (b + i) = Some c \<and> ctl_next c = Some (b + Suc i mod ch_desc_num ch0)"
  using ctl_ring_next [OF assms(1,3)] assms(2,3) unfolding same_links_def by fastforce

lemma same_links_ring: "ctl_ring b ch0 \<Longrightarrow> same_links b ch0 ch \<Longrightarrow> ctl_ring b ch"
  unfolding ctl_ring_def ctl_seg_def same_links_def
  by (clarsimp, drule_tac x = i in spec, drule_tac x = i in spec) auto

lemma upd_desc_simps [simp]:
  "ch_mem (upd_desc i f ch) = ch_mem ch" "ch_desc_num (upd_desc i f ch) = ch_desc_num ch"
  "ch_head (upd_desc i f ch) = ch_head ch" "ch_tail (upd_desc i f ch) = ch_tail ch"
  "ch_ch_type (upd_desc i f ch) = ch_ch_type ch" "ch_dma_addr (upd_desc i f ch) = ch_dma_addr ch"
  "ch_ctrl_bd (upd_desc i f ch) = ch_ctrl_bd ch" "ch_ctrl_skb (upd_desc i f ch) = ch_ctrl_skb ch"
  "ch_dxe_wq (upd_desc i f ch) = ch_dxe_wq ch" "ch_brk (upd_desc i f ch) = ch_brk ch"
  "ch_cpu_addr (upd_desc i f ch) = map_option (\<lambda>ds. ds[i := f (ds ! i)]) (ch_cpu_addr ch)"
  by (simp_all add: upd_desc_def)

lemma init_desc_ctrl_simps [simp]:
  "desc_ctrl (init_desc_ctrl c d) = DXE_CTRL c"
  "desc_phy_next_l (init_desc_ctrl c d) = desc_phy_next_l d"
  by (cases c; simp add: init_desc_ctrl_def)+

lemma set_phy_next_simps [simp]:
  "desc_ctrl (set_phy_next a d) = desc_ctrl d" "desc_phy_next_l (set_phy_next a d) = a"
  by (simp_all add: set_phy_next_def)

definition descs_upto :: "nat \<Rightarrow> nat \<Rightarrow> wcn36xx_dxe_ch \<Rightarrow> bool" where
  "descs_upto b i ch \<longleftrightarrow>
     (\<exists>ds. ch_cpu_addr ch = Some ds \<and> length ds = ch_desc_num ch \<and>
        (\<forall>j<i. desc_ctrl (ds ! j) = DXE_CTRL (ch_ch_type ch)) \<and>
        (\<forall>j. Suc j < i \<longrightarrow>
           desc_phy_next_l (ds ! j) = ch_dma_addr ch + of_nat (Suc j * sizeof_desc)) \<and>
        (i = ch_desc_num ch \<longrightarrow> desc_phy_next_l (ds ! (i - 1)) = ch_dma_addr ch)) \<and>
     (\<forall>j<i. \<exists>c. ch_mem ch (b + j) = Some c \<and> ctl_desc c = Some j \<and>
        ctl_desc_phy_addr c = ch_dma_addr ch + of_nat (j * sizeof_desc))"

lemma init_desc_one_step:
  assumes ring: "ctl_ring b ch0" "ch_head ch0 = Some b" "2 \<le> ch_desc_num ch0"
    and same: "same_links b ch0 ch" and upto: "descs_upto b i ch" and i: "i < ch_desc_num ch0"
  shows "\<exists>ch'. init_desc_one i (Some (b + i)) ch =
                 Some (Some (b + Suc i mod ch_desc_num ch0), ch') \<and>
               same_links b ch0 ch' \<and> descs_upto b (Suc i) ch' \<and> ch_dma_addr ch' = ch_dma_addr ch"
proof -
  from same have n: "ch_desc_num ch = ch_desc_num ch0" and hd: "ch_head ch = Some b"
    using ring by (simp_all add: same_links_def)
  obtain c where c: "ch_mem ch (b + i) = Some c"
    and nx: "ctl_next c = Some (b + Suc i mod ch_desc_num ch0)"
    using same_links_next [OF ring(1) same i] by blast
  from upto obtain ds where ds: "ch_cpu_addr ch = Some ds" "length ds = ch_desc_num ch0"
    by (auto simp: descs_upto_def n)
  let ?c = "c\<lparr> ctl_desc := Some i,
               ctl_desc_phy_addr := ch_dma_addr ch + of_nat (i * sizeof_desc) \<rparr>"
  have same': "same_links b ch0 ch'" if "ch_mem ch' = (ch_mem ch)(b + i := Some ?c)"
    "ch_desc_num ch' = ch_desc_num ch" "ch_head ch' = ch_head ch" "ch_tail ch' = ch_tail ch"
    "ch_ch_type ch' = ch_ch_type ch" "ch_ctrl_bd ch' = ch_ctrl_bd ch"
    "ch_ctrl_skb ch' = ch_ctrl_skb ch" for ch'
    using same that c unfolding same_links_def by force
  consider "i = 0" | "0 < i" "i < ch_desc_num ch0 - 1" | "0 < i" "ch_desc_num ch0 = Suc i"
    using i by linarith
  then show ?thesis
  proof cases
    case 1
    then show ?thesis
      using c nx ds upto ring(3) n same'
      by (auto simp: init_desc_one_def descs_upto_def Let_def less_Suc_eq)
  next
    case 2
    then show ?thesis
      using c nx ds upto ring(3) n same'
      by (auto simp: init_desc_one_def descs_upto_def Let_def less_Suc_eq nth_list_update)
  next
    case 3
    with upto obtain h where h: "ch_mem ch b = Some h" "ctl_desc_phy_addr h = ch_dma_addr ch"
      by (auto simp: descs_upto_def dest!: spec [where x = 0])
    with 3 show ?thesis
      using c nx ds upto ring(3) n hd same' i
      by (auto simp: init_desc_one_def descs_upto_def Let_def less_Suc_eq nth_list_update ctl_at_def)
  qed
qed

lemma init_descs_loop_ok:
  assumes "ctl_ring b ch0" and "ch_head ch0 = Some b" and "2 \<le> ch_desc_num ch0"
    and "same_links b ch0 ch" and "descs_upto b i ch" and "i + k = ch_desc_num ch0" and "0 < k"
  shows "\<exists>ch'. init_descs_loop k i (Some (b + i)) ch = Some ch' \<and> same_links b ch0 ch' \<and>
               descs_upto b (ch_desc_num ch0) ch' \<and> ch_dma_addr ch' = ch_dma_addr ch"
  using assms(4-7)
proof (induction k arbitrary: i ch)
  case 0 then show ?case by simp
next
  case (Suc k)
  from Suc.prems have i: "i < ch_desc_num ch0" by simp
  from init_desc_one_step [OF assms(1-3) Suc.prems(1,2) i] obtain ch1 where
    ch1: "init_desc_one i (Some (b + i)) ch = Some (Some (b + Suc i mod ch_desc_num ch0), ch1)"
      "same_links b ch0 ch1" "descs_upto b (Suc i) ch1" "ch_dma_addr ch1 = ch_dma_addr ch" by blast
  show ?case
  proof (cases k)
    case 0
    with ch1 Suc.prems(3) show ?thesis by simp
  next
    case (Suc k')
    with Suc.prems(3) have "Suc i < ch_desc_num ch0" by simp
    with Suc.IH [OF ch1(2,3)] ch1 Suc Suc.prems(3) show ?thesis by auto
  qed
qed

section \<open>Distributing the buffer descriptors\<close>

definition bd_upto :: "nat \<Rightarrow> nat \<Rightarrow> nat \<Rightarrow> nat \<Rightarrow> wcn36xx_dxe_ch \<Rightarrow> wcn36xx_dxe_ch \<Rightarrow> bool" where
  "bd_upto b m chunk i ch0 ch \<longleftrightarrow>
     same_links b ch0 ch \<and> ch_cpu_addr ch = ch_cpu_addr ch0 \<and> ch_dma_addr ch = ch_dma_addr ch0 \<and>
     (\<forall>j<ch_desc_num ch0. \<exists>c0 c. ch_mem ch0 (b + j) = Some c0 \<and> ch_mem ch (b + j) = Some c \<and>
        ctl_desc c = ctl_desc c0 \<and> ctl_desc_phy_addr c = ctl_desc_phy_addr c0 \<and>
        (j < i \<longrightarrow> ctl_bd_cpu_addr c = (if even j then Some (m, j div 2 * chunk) else None)))"

lemma bd_upto_put:
  assumes "bd_upto b m chunk i ch0 ch" and "ch_mem ch (b + i) = Some c" and "i < ch_desc_num ch0"
  shows "bd_upto b m chunk (Suc i) ch0 (put_ctl (b + i) (c\<lparr> ctl_bd_phy_addr := phy,
           ctl_bd_cpu_addr := (if even i then Some (m, i div 2 * chunk) else None) \<rparr>) ch)"
  using assms unfolding bd_upto_def same_links_def
  by (auto simp: less_Suc_eq)

lemma init_tx_bd_loop_ok:
  assumes ring: "ctl_ring b ch0" and "bd_upto b m chunk i ch0 ch" and "i + k = ch_desc_num ch0"
    and "0 < k"
  shows "\<exists>ch'. init_tx_bd_loop k i (Some (b + i)) m (Suc i div 2 * chunk) phy chunk ch = Some ch' \<and>
               bd_upto b m chunk (ch_desc_num ch0) ch0 ch'"
  using assms(2-4)
proof (induction k arbitrary: i ch phy)
  case 0 then show ?case by simp
next
  case (Suc k)
  from Suc.prems have i: "i < ch_desc_num ch0" by simp
  obtain c where c: "ch_mem ch (b + i) = Some c"
    and nx: "ctl_next c = Some (b + Suc i mod ch_desc_num ch0)"
    using same_links_next [OF ring _ i, of ch] Suc.prems(1) unfolding bd_upto_def by blast
  let ?ch = "\<lambda>phy. put_ctl (b + i) (c\<lparr> ctl_bd_phy_addr := phy,
               ctl_bd_cpu_addr := (if even i then Some (m, i div 2 * chunk) else None) \<rparr>) ch"
  have up: "bd_upto b m chunk (Suc i) ch0 (?ch phy)" for phy
    by (rule bd_upto_put [OF Suc.prems(1) c i])
  show ?case
  proof (cases "k = 0")
    case True
    with Suc.prems(2) have n: "ch_desc_num ch0 = Suc i" by simp
    have "even i \<Longrightarrow> Suc i div 2 = i div 2" by presburger
    with True c nx up show ?thesis by (auto simp: n)
  next
    case False
    with Suc.prems(2) have i': "Suc i mod ch_desc_num ch0 = Suc i" by simp
    from False Suc.IH [OF up, of _ ] Suc.prems(2)
    have IH: "\<exists>ch'. init_tx_bd_loop k (Suc i) (Some (b + Suc i)) m (Suc (Suc i) div 2 * chunk) phy'
                     chunk (?ch phy) = Some ch' \<and> bd_upto b m chunk (ch_desc_num ch0) ch0 ch'" for phy phy'
      by simp
    show ?thesis
    proof (cases "even i")
      case True
      then have "Suc i div 2 = i div 2" "Suc (Suc i) div 2 = Suc (i div 2)" by presburger+
      with True c nx i' IH [of "phy + of_nat chunk" phy] show ?thesis
        by (simp add: add.commute)
    next
      case False
      then have "Suc (Suc i) div 2 = Suc i div 2" by presburger
      with False c nx i' IH [of phy 0] show ?thesis
        by simp
    qed
  qed
qed

lemma bd_upto_start: "ctl_ring b ch \<Longrightarrow> bd_upto b m chunk 0 ch ch"
  unfolding bd_upto_def by (auto simp: same_links_refl dest: ctl_ring_next)

lemma init_tx_bd_ok:
  assumes "ctl_ring b ch" and "ch_head ch = Some b" and "pool_virt_addr pool = Some m"
  shows "\<exists>ch'. wcn36xx_dxe_init_tx_bd pool ch = Some ch' \<and>
               bd_upto b m (pool_chunk_size pool) (ch_desc_num ch) ch ch'"
  using init_tx_bd_loop_ok [OF assms(1) bd_upto_start [OF assms(1)], of "ch_desc_num ch"] assms
  by (simp add: wcn36xx_dxe_init_tx_bd_def ctl_ring_def)

text \<open>C19: On a ring, \<open>wcn36xx_dxe_init_descs\<close> either reports \<open>-ENOMEM\<close> or closes the hardware's view of
  the same ring: descriptor \<open>j\<close> carries the channel's control word, block \<open>j\<close> owns it, and its bus
  pointer is the bus address of descriptor \<open>j + 1\<close>, that of the last one the address of the first.\<close>

theorem init_descs_closes_hw_ring:
  assumes "ctl_ring b (dxe_ch w c)" and "ch_head (dxe_ch w c) = Some b" and "2 \<le> ch_desc_num (dxe_ch w c)"
    and "ch_ch_type (dxe_ch w c) = c"
  shows "\<exists>ret w'. wcn36xx_dxe_init_descs P c w = Some (ret, w') \<and>
           (ret = - ENOMEM \<or> ret = 0 \<and> (let ch = dxe_ch w' c; n = ch_desc_num ch in
              same_links b (dxe_ch w c) ch \<and>
              (\<exists>ds. ch_cpu_addr ch = Some ds \<and> length ds = n \<and>
                 (\<forall>j<n. desc_ctrl (ds ! j) = DXE_CTRL c \<and>
                    desc_phy_next_l (ds ! j) = ch_dma_addr ch + of_nat (Suc j mod n * sizeof_desc) \<and>
                    (\<exists>blk. ch_mem ch (b + j) = Some blk \<and> ctl_desc blk = Some j \<and>
                       ctl_desc_phy_addr blk = ch_dma_addr ch + of_nat (j * sizeof_desc))))))"
proof (cases "p_dma_alloc P (klog w) (ch_desc_num (dxe_ch w c) * sizeof_desc)")
  case None
  then show ?thesis by (simp add: wcn36xx_dxe_init_descs_def Let_def)
next
  case (Some phy)
  let ?ch = "dxe_ch w c" and ?n = "ch_desc_num (dxe_ch w c)"
  let ?cz = "?ch\<lparr> ch_cpu_addr := Some (replicate ?n zero_desc), ch_dma_addr := phy \<rparr>"
  have same: "same_links b ?ch ?cz"
    using same_links_refl [OF assms(1)] by (simp add: same_links_def)
  have up: "descs_upto b 0 ?cz"
    using assms(3) by (simp add: descs_upto_def)
  from init_descs_loop_ok [OF assms(1-3) same up, of ?n] assms(3) obtain ch' where
    ch': "init_descs_loop ?n 0 (Some b) ?cz = Some ch'" "same_links b ?ch ch'"
    "descs_upto b ?n ch'" by auto
  have n: "ch_desc_num ch' = ?n" and ty: "ch_ch_type ch' = c"
    using ch'(2) assms(4) by (simp_all add: same_links_def)
  from ch'(3) obtain ds where ds: "ch_cpu_addr ch' = Some ds" "length ds = ?n"
    and ctrl: "\<forall>j<?n. desc_ctrl (ds ! j) = DXE_CTRL c"
    and phyn: "\<forall>j. Suc j < ?n \<longrightarrow>
        desc_phy_next_l (ds ! j) = ch_dma_addr ch' + of_nat (Suc j * sizeof_desc)"
    and last: "desc_phy_next_l (ds ! (?n - 1)) = ch_dma_addr ch'"
    and blk: "\<forall>j<?n. \<exists>blk. ch_mem ch' (b + j) = Some blk \<and> ctl_desc blk = Some j \<and>
        ctl_desc_phy_addr blk = ch_dma_addr ch' + of_nat (j * sizeof_desc)"
    using n ty by (auto simp: descs_upto_def)
  have "desc_phy_next_l (ds ! j) = ch_dma_addr ch' + of_nat (Suc j mod ?n * sizeof_desc)"
    if "j < ?n" for j
  proof -
    from that consider "Suc j < ?n" | "Suc j = ?n" by linarith
    then show ?thesis
    proof cases
      case 1 then show ?thesis using phyn by simp
    next
      case 2 then show ?thesis using last by (metis add.right_neutral diff_Suc_1 mod_self mult_zero_left of_nat_0)
    qed
  qed
  with Some ch' ds ctrl blk n assms(2) show ?thesis
    by (auto simp: wcn36xx_dxe_init_descs_def Let_def)
qed

lemma ring4_ctl_ring: "ctl_ring 0 (ring4 c)"
  by (auto simp: ctl_ring_def ctl_seg_def ring4_def zero_ch_def ring4_ctl_def)

theorem init_descs_closes_hw_ring_witness:
  "\<exists>ret w'. wcn36xx_dxe_init_descs sample_platform WCN36XX_DXE_CH_TX_L sample_wcn = Some (ret, w') \<and>
     (ret = - ENOMEM \<or> ret = 0)"
  using init_descs_closes_hw_ring [of 0 sample_wcn WCN36XX_DXE_CH_TX_L sample_platform]
    ring4_ctl_ring [of WCN36XX_DXE_CH_TX_L]
  by (auto simp: sample_wcn_def ring4_def zero_ch_def)

end
