(* ===== verification/Dxe_Tx.thy ===== *)
theory Dxe_Tx
  imports Dxe_Ring
begin

text \<open>
  The transmit side of \<^verbatim>\<open>dxe.c\<close>: handing a frame to a channel, the interrupt handler that reaps
  finished descriptors, and the acknowledgement of a frame whose status was asked for. The
  invariant \<open>tx_inv\<close> describes a transmit ring by the positions of its occupied and of its
  finished blocks; the operations are shown to implement a bounded first-in first-out queue.
\<close>

section \<open>Operations\<close>

definition tx_chan :: "bool \<Rightarrow> wcn36xx_dxe_ch_type" where
  "tx_chan is_low = (if is_low then WCN36XX_DXE_CH_TX_L else WCN36XX_DXE_CH_TX_H)"

definition wcn36xx_dxe_get_next_bd :: "wcn36xx \<Rightarrow> bool \<Rightarrow> (nat \<times> nat) option option" where
  "wcn36xx_dxe_get_next_bd w is_low =
     (let ch = dxe_ch w (tx_chan is_low) in do {
        ctl \<leftarrow> ctl_at ch (ch_head ch);
        Some (ctl_bd_cpu_addr ctl) })"

abbreviation (input) sizeof_tx_bd :: nat where "sizeof_tx_bd \<equiv> 40"

text \<open>The descriptor of the buffer descriptor and that of the frame.\<close>

definition fill_bd_desc :: "wcn36xx_dxe_ch \<Rightarrow> wcn36xx_dxe_ctl \<Rightarrow> wcn36xx_dxe_desc \<Rightarrow> wcn36xx_dxe_desc" where
  "fill_bd_desc ch ctl d =
     d\<lparr> desc_src_addr_l := ctl_bd_phy_addr ctl, desc_dst_addr_l := ch_dxe_wq ch,
        desc_fr_len := of_nat sizeof_tx_bd, desc_ctrl := ch_ctrl_bd ch \<rparr>"

definition fill_skb_desc :: "wcn36xx_dxe_ch \<Rightarrow> u32 \<Rightarrow> nat \<Rightarrow> wcn36xx_dxe_desc \<Rightarrow> wcn36xx_dxe_desc" where
  "fill_skb_desc ch bus len d =
     d\<lparr> desc_src_addr_l := bus, desc_dst_addr_l := ch_dxe_wq ch,
        desc_fr_len := of_nat len, desc_ctrl := ch_ctrl_skb ch \<rparr>"

text \<open>The end of \<open>wcn36xx_dxe_tx_frame\<close>: tell the chip about the new frame.\<close>

definition notify_chip :: "nat option \<Rightarrow> bool \<Rightarrow> wcn36xx_dxe_ch \<Rightarrow> wcn36xx \<Rightarrow> wcn36xx option" where
  "notify_chip vp is_low ch w = do {
     bmps \<leftarrow> (if is_low then do { v \<leftarrow> vp; Some (pw_state (vif_priv w v) = WCN36XX_BMPS) }
             else Some False);
     Some (if bmps then emit (SmsmChange 0 WCN36XX_SMSM_WLAN_TX_ENABLE) w
           else wcn36xx_dxe_write_register (ch_reg_ctrl ch) (ch_def_ctrl ch) w) }"

definition wcn36xx_dxe_tx_frame ::
  "platform \<Rightarrow> nat option \<Rightarrow> nat \<Rightarrow> bool \<Rightarrow> wcn36xx \<Rightarrow> (int \<times> wcn36xx) option" where
  "wcn36xx_dxe_tx_frame P vp s is_low w =
     (let c = tx_chan is_low; ch = dxe_ch w c in do {
        a \<leftarrow> ch_head ch;
        ctl \<leftarrow> ch_mem ch a;
        na \<leftarrow> ctl_next ctl;
        nctl \<leftarrow> ch_mem ch na;
        if ctl_skb nctl \<noteq> None then
          Some (- EBUSY, (emit StopQueues w)\<lparr> queues_stopped := True \<rparr>)
        else do {
          let ch = put_ctl a (ctl\<lparr> ctl_skb := None \<rparr>) ch;
          i \<leftarrow> ctl_desc ctl;
          d \<leftarrow> desc_at ch ctl;
          let ch = put_desc i (fill_bd_desc ch ctl d) ch;
          nctl \<leftarrow> ch_mem ch na;
          let ch = put_ctl na (nctl\<lparr> ctl_skb := Some s \<rparr>) ch;
          if ctl_bd_cpu_addr nctl \<noteq> None then Some (- EINVAL, set_ch c ch w)
          else do {
            j \<leftarrow> ctl_desc nctl;
            d \<leftarrow> desc_at ch nctl;
            let bus = p_dma_map P (klog w) s;
            let w = emit (DmaMap s) w;
            let ch = put_desc j (fill_skb_desc ch bus (skb_len (skbs w s)) d) ch;
            let ch = ch\<lparr> ch_head := ctl_next nctl \<rparr>;
            w \<leftarrow> notify_chip vp is_low ch (set_ch c ch w);
            Some (0, w) } } })"

definition wcn36xx_dxe_tx_ack_ind :: "wcn36xx \<Rightarrow> u32 \<Rightarrow> wcn36xx" where
  "wcn36xx_dxe_tx_ack_ind w status =
     (case tx_ack_skb w of
        None \<Rightarrow> w\<lparr> tx_ack_skb := None \<rparr>
      | Some s \<Rightarrow>
          (let w = w\<lparr> tx_ack_skb := None \<rparr>;
               w = (if status = 1
                    then w\<lparr> skbs := (skbs w)(s := (skbs w s)\<lparr> skb_cb_flags :=
                           insert IEEE80211_TX_STAT_ACK (skb_cb_flags (skbs w s)) \<rparr>) \<rparr>
                    else w)
           in emit WakeQueues (emit (TxStatus s) w)))"

text \<open>The body of \<^verbatim>\<open>if (ctl->skb)\<close> in \<open>reap_tx_dxes\<close>: what it does to the driver, and to the block.\<close>

definition reap_skb :: "u32 \<Rightarrow> nat \<Rightarrow> wcn36xx \<Rightarrow> wcn36xx" where
  "reap_skb bus s w =
     (let w = emit (DmaUnmap bus) w;
          w = (if IEEE80211_TX_CTL_REQ_TX_STATUS \<in> skb_cb_flags (skbs w s) then w
               else emit (FreeTxSkb s) w)
      in if queues_stopped w then emit WakeQueues (w\<lparr> queues_stopped := False \<rparr>) else w)"

definition reap_block :: "nat \<Rightarrow> wcn36xx_dxe_ch \<Rightarrow> wcn36xx \<Rightarrow> (wcn36xx_dxe_ch \<times> wcn36xx) option" where
  "reap_block a ch w = do {
     ctl \<leftarrow> ch_mem ch a;
     case ctl_skb ctl of
       None \<Rightarrow> Some (ch, w)
     | Some s \<Rightarrow> do {
         d \<leftarrow> desc_at ch ctl;
         Some (put_ctl a (ctl\<lparr> ctl_skb := None \<rparr>) ch, reap_skb (desc_src_addr_l d) s w) } }"

text \<open>The \<^verbatim>\<open>do ... while\<close> loop; running out of fuel is \<open>None\<close>. A fuel of one lap is enough on
  every well-formed ring.\<close>

fun reap_loop :: "nat \<Rightarrow> nat \<Rightarrow> wcn36xx_dxe_ch \<Rightarrow> wcn36xx \<Rightarrow> (nat \<times> wcn36xx_dxe_ch \<times> wcn36xx) option" where
  "reap_loop 0 a ch w = None"
| "reap_loop (Suc fuel) a ch w = do {
     ctl \<leftarrow> ch_mem ch a;
     d \<leftarrow> desc_at ch ctl;
     if ctrl_valid (desc_ctrl d) then Some (a, ch, w)
     else do {
       (ch, w) \<leftarrow> reap_block a ch w;
       ctl \<leftarrow> ch_mem ch a;
       na \<leftarrow> ctl_next ctl;
       if Some na = ch_head ch then Some (na, ch, w)
       else do {
         nctl \<leftarrow> ch_mem ch na;
         nd \<leftarrow> desc_at ch nctl;
         if ctrl_valid (desc_ctrl nd) then Some (na, ch, w) else reap_loop fuel na ch w } } }"

definition reap_tx_dxes :: "wcn36xx_dxe_ch_type \<Rightarrow> wcn36xx \<Rightarrow> wcn36xx option" where
  "reap_tx_dxes c w =
     (let ch = dxe_ch w c in do {
        a \<leftarrow> ch_tail ch;
        (a, ch, w) \<leftarrow> reap_loop (ch_desc_num ch) a ch w;
        Some (set_ch c (ch\<lparr> ch_tail := Some a \<rparr>) w) })"

definition tx_complete_ch :: "platform \<Rightarrow> wcn36xx_dxe_ch_type \<Rightarrow> wcn36xx \<Rightarrow> wcn36xx option" where
  "tx_complete_ch P c w =
     (let (reason, w) = wcn36xx_dxe_read_register P (DXE_CH_STATUS_REG_ADDR c) w;
          w = wcn36xx_dxe_write_register (reg_addr WCN36XX_DXE_0_INT_CLR) (INT_MASK_CHAN c) w;
          w = wcn36xx_dxe_write_register (reg_addr WCN36XX_DXE_0_INT_ED_CLR) (INT_MASK_CHAN c) w
      in reap_tx_dxes c w)"

definition wcn36xx_irq_tx_complete :: "platform \<Rightarrow> wcn36xx \<Rightarrow> wcn36xx option" where
  "wcn36xx_irq_tx_complete P w =
     (let (int_src, w) = wcn36xx_dxe_read_register P (reg_addr WCN36XX_DXE_INT_SRC_RAW_REG) w in do {
        w \<leftarrow> (if int_src AND INT_MASK_CHAN WCN36XX_DXE_CH_TX_H \<noteq> 0
              then tx_complete_ch P WCN36XX_DXE_CH_TX_H w else Some w);
        if int_src AND INT_MASK_CHAN WCN36XX_DXE_CH_TX_L \<noteq> 0
        then tx_complete_ch P WCN36XX_DXE_CH_TX_L w else Some w })"

section \<open>The invariant of a transmit ring\<close>

text \<open>Blocks \<open>b, ..., b + n - 1\<close>; \<open>t\<close> is the position of the tail, \<open>k\<close> the number of occupied
  blocks from it to the head, \<open>d \<le> k\<close> the number of those the hardware has finished. Even blocks
  carry buffer descriptors, odd blocks frames. With \<open>k\<close> the full ring (\<open>k = n\<close>) and the empty one
  (\<open>k = 0\<close>) are told apart, though head and tail coincide in both.\<close>

definition ring_ctl :: "nat \<Rightarrow> wcn36xx_dxe_ch \<Rightarrow> nat \<Rightarrow> wcn36xx_dxe_ctl" where
  "ring_ctl b ch i = the (ch_mem ch (b + i))"

definition ring_desc :: "wcn36xx_dxe_ch \<Rightarrow> nat \<Rightarrow> wcn36xx_dxe_desc" where
  "ring_desc ch i = the (ch_cpu_addr ch) ! i"

definition tx_shape :: "nat \<Rightarrow> wcn36xx_dxe_ch \<Rightarrow> bool" where
  "tx_shape b ch \<longleftrightarrow>
     (let n = ch_desc_num ch in even n \<and> 2 \<le> n \<and>
        map_option length (ch_cpu_addr ch) = Some n \<and>
        ctrl_valid (ch_ctrl_bd ch) \<and> ctrl_valid (ch_ctrl_skb ch) \<and>
        (\<forall>i<n. ch_mem ch (b + i) \<noteq> None \<and> ctl_next (ring_ctl b ch i) = Some (b + Suc i mod n) \<and>
           ctl_desc (ring_ctl b ch i) = Some i \<and>
           (ctl_bd_cpu_addr (ring_ctl b ch i) = None \<longleftrightarrow> odd i)))"

definition tx_core :: "nat \<Rightarrow> nat \<Rightarrow> nat \<Rightarrow> nat \<Rightarrow> wcn36xx_dxe_ch \<Rightarrow> bool" where
  "tx_core b t k d ch \<longleftrightarrow>
     (let n = ch_desc_num ch in tx_shape b ch \<and> t < n \<and> k \<le> n \<and> d \<le> k \<and> even (t + k) \<and>
        ch_head ch = Some (b + (t + k) mod n) \<and>
        (\<forall>j<n. ctrl_valid (desc_ctrl (ring_desc ch ((t + j) mod n))) \<longleftrightarrow> d \<le> j \<and> j < k) \<and>
        (\<forall>j<n. ctl_skb (ring_ctl b ch ((t + j) mod n)) \<noteq> None \<longleftrightarrow> j < k \<and> odd ((t + j) mod n)))"

definition tx_inv :: "nat \<Rightarrow> nat \<Rightarrow> nat \<Rightarrow> nat \<Rightarrow> wcn36xx_dxe_ch \<Rightarrow> bool" where
  "tx_inv b t k d ch \<longleftrightarrow> tx_core b t k d ch \<and> ch_tail ch = Some (b + t)"

text \<open>The frames in the ring, oldest first: the pointers are followed for one lap.\<close>

fun walk_skbs :: "nat \<Rightarrow> nat option \<Rightarrow> wcn36xx_dxe_ch \<Rightarrow> nat list" where
  "walk_skbs 0 p ch = []"
| "walk_skbs (Suc m) p ch =
     (case ctl_at ch p of
        None \<Rightarrow> []
      | Some c \<Rightarrow> (case ctl_skb c of None \<Rightarrow> [] | Some s \<Rightarrow> [s]) @ walk_skbs m (ctl_next c) ch)"

definition tx_pending :: "wcn36xx_dxe_ch \<Rightarrow> nat list" where
  "tx_pending ch = walk_skbs (ch_desc_num ch) (ch_tail ch) ch"

text \<open>The frames given back to mac80211 by \<^verbatim>\<open>ieee80211_free_txskb\<close>, oldest first.\<close>

definition tx_freed :: "kevent list \<Rightarrow> nat list" where
  "tx_freed l = rev (List.map_filter (\<lambda>e. case e of FreeTxSkb s \<Rightarrow> Some s | _ \<Rightarrow> None) l)"

section \<open>Facts about the ring\<close>

lemma tx_shape_block:
  assumes "tx_shape b ch" and "i < ch_desc_num ch"
  obtains c where "ch_mem ch (b + i) = Some c" "ring_ctl b ch i = c"
    "ctl_next c = Some (b + Suc i mod ch_desc_num ch)" "ctl_desc c = Some i"
    "ctl_bd_cpu_addr c = None \<longleftrightarrow> odd i"
proof -
  from assms have ex: "ch_mem ch (b + i) \<noteq> None"
    and r: "ctl_next (ring_ctl b ch i) = Some (b + Suc i mod ch_desc_num ch)"
    "ctl_desc (ring_ctl b ch i) = Some i" "ctl_bd_cpu_addr (ring_ctl b ch i) = None \<longleftrightarrow> odd i"
    by (simp_all add: tx_shape_def Let_def)
  from ex obtain c where "ch_mem ch (b + i) = Some c" by blast
  with r that show ?thesis by (simp add: ring_ctl_def)
qed

lemma tx_shape_desc:
  assumes "tx_shape b ch" and "ctl_desc c = Some i" and "i < ch_desc_num ch"
  shows "desc_at ch c = Some (ring_desc ch i)"
proof -
  from assms(1) have "map_option length (ch_cpu_addr ch) = Some (ch_desc_num ch)"
    unfolding tx_shape_def Let_def by blast
  with assms(2,3) show ?thesis
    by (auto simp: desc_at_def ring_desc_def)
qed

lemma tx_core_head_even:
  assumes "tx_core b t k d ch"
  shows "even ((t + k) mod ch_desc_num ch)"
  using assms by (simp add: tx_core_def tx_shape_def Let_def dvd_mod_iff)

lemma tx_core_shape: "tx_core b t k d ch \<Longrightarrow> tx_shape b ch"
  by (simp add: tx_core_def Let_def)

lemma tx_shape_n: "tx_shape b ch \<Longrightarrow> even (ch_desc_num ch) \<and> 2 \<le> ch_desc_num ch"
  by (simp add: tx_shape_def Let_def)

lemma tx_core_nums:
  assumes "tx_core b t k d ch"
  shows "t < ch_desc_num ch" "k \<le> ch_desc_num ch" "d \<le> k" "even (t + k)"
    "ch_head ch = Some (b + (t + k) mod ch_desc_num ch)"
  using assms by (simp_all add: tx_core_def Let_def)

lemma tx_core_valid:
  "tx_core b t k d ch \<Longrightarrow> j < ch_desc_num ch \<Longrightarrow>
     ctrl_valid (desc_ctrl (ring_desc ch ((t + j) mod ch_desc_num ch))) \<longleftrightarrow> d \<le> j \<and> j < k"
  by (simp add: tx_core_def Let_def)

lemma tx_core_skb:
  "tx_core b t k d ch \<Longrightarrow> j < ch_desc_num ch \<Longrightarrow>
     ctl_skb (ring_ctl b ch ((t + j) mod ch_desc_num ch)) \<noteq> None \<longleftrightarrow>
     j < k \<and> odd ((t + j) mod ch_desc_num ch)"
  by (simp add: tx_core_def Let_def)

text \<open>The walk from the tail, by positions.\<close>

lemma walk_skbs_positions:
  assumes "tx_shape b ch"
  shows "walk_skbs m (Some (b + (t + i) mod ch_desc_num ch)) ch =
           List.map_filter (\<lambda>j. ctl_skb (ring_ctl b ch ((t + j) mod ch_desc_num ch))) [i..<i + m]"
proof (induction m arbitrary: i)
  case 0 then show ?case by (simp add: List.map_filter_def)
next
  case (Suc m)
  let ?n = "ch_desc_num ch"
  have "(t + i) mod ?n < ?n" using tx_shape_n [OF assms] by simp
  from tx_shape_block [OF assms this] obtain c where
    c: "ch_mem ch (b + (t + i) mod ?n) = Some c" "ring_ctl b ch ((t + i) mod ?n) = c"
    "ctl_next c = Some (b + Suc ((t + i) mod ?n) mod ?n)" by blast
  have "Suc ((t + i) mod ?n) mod ?n = (t + Suc i) mod ?n"
    by (simp add: mod_Suc_eq)
  with c Suc.IH [of "Suc i"] show ?case
    by (simp add: ctl_at_def upt_conv_Cons List.map_filter_simps split: option.split del: upt_Suc)
qed

lemma tx_pending_positions:
  assumes "tx_inv b t k d ch"
  shows "tx_pending ch =
           List.map_filter (\<lambda>j. ctl_skb (ring_ctl b ch ((t + j) mod ch_desc_num ch))) [0..<k]"
proof -
  from assms have core: "tx_core b t k d ch" and tl: "ch_tail ch = Some (b + t)"
    by (simp_all add: tx_inv_def)
  note s = tx_core_shape [OF core] and n = tx_core_nums [OF core]
  let ?n = "ch_desc_num ch" and ?f = "\<lambda>j. ctl_skb (ring_ctl b ch ((t + j) mod ch_desc_num ch))"
  have "tx_pending ch = List.map_filter ?f [0..<?n]"
    using walk_skbs_positions [OF s, of ?n t 0] tl n(1) by (simp add: tx_pending_def)
  also have "[0..<?n] = [0..<k] @ [k..<?n]"
    using n(2) by (metis le_add_diff_inverse upt_add_eq_append zero_le)
  also have "List.map_filter ?f ([0..<k] @ [k..<?n]) = List.map_filter ?f [0..<k]"
  proof -
    have "?f j = None" if "j \<in> set [k..<?n]" for j
      using tx_core_skb [OF core, of j] that by auto
    then have "List.map_filter ?f [k..<?n] = []"
      by (auto simp: List.map_filter_def filter_empty_conv)
    then show ?thesis by (simp add: List.map_filter_def)
  qed
  finally show ?thesis .
qed

section \<open>Submitting a frame\<close>

lemma tx_head_blocks:
  assumes "tx_inv b t k d ch"
  defines "h \<equiv> (t + k) mod ch_desc_num ch"
  shows "even h" "Suc h < ch_desc_num ch" "Suc h = (t + Suc k) mod ch_desc_num ch"
    "ch_head ch = Some (b + h)"
proof -
  from assms(1) have core: "tx_core b t k d ch" by (simp add: tx_inv_def)
  note n = tx_shape_n [OF tx_core_shape [OF core]]
  show e: "even h" unfolding h_def by (rule tx_core_head_even [OF core])
  have "h < ch_desc_num ch" using n by (simp add: h_def)
  moreover have "Suc h \<noteq> ch_desc_num ch" using e n by (metis even_Suc)
  ultimately show s: "Suc h < ch_desc_num ch" by simp
  then show "Suc h = (t + Suc k) mod ch_desc_num ch"
    by (simp add: h_def mod_Suc split: if_splits)
  show "ch_head ch = Some (b + h)"
    using tx_core_nums(5) [OF core] by (simp add: h_def)
qed

text \<open>The test on the block after the head is the test for two free blocks.\<close>

lemma tx_full_test:
  assumes "tx_inv b t k d ch"
  shows "ctl_skb (ring_ctl b ch (Suc ((t + k) mod ch_desc_num ch))) \<noteq> None \<longleftrightarrow>
         ch_desc_num ch < k + 2"
proof -
  from assms have core: "tx_core b t k d ch" by (simp add: tx_inv_def)
  let ?n = "ch_desc_num ch"
  note n = tx_shape_n [OF tx_core_shape [OF core]] and nums = tx_core_nums [OF core]
    and h = tx_head_blocks [OF assms]
  have odd: "odd ((t + Suc k) mod ?n)" using h(1,3) by (metis even_Suc)
  consider "Suc k < ?n" | "Suc k = ?n" | "k = ?n" using nums(2) by linarith
  then show ?thesis
  proof cases
    case 1
    then show ?thesis using tx_core_skb [OF core, of "Suc k"] h(3) by simp
  next
    case 2
    then have "(t + Suc k) mod ?n = (t + 0) mod ?n" by simp
    with 2 odd show ?thesis
      using tx_core_skb [OF core, of 0] h(3) n by auto
  next
    case 3
    then have "(t + Suc k) mod ?n = (t + 1) mod ?n"
      by (metis Suc_eq_plus1 add.commute add.left_commute mod_add_self2)
    with 3 odd show ?thesis
      using tx_core_skb [OF core, of 1] h(3) n by auto
  qed
qed

lemma tx_frame_full:
  assumes inv: "tx_inv b t k d (dxe_ch w (tx_chan is_low))"
    and "ch_desc_num (dxe_ch w (tx_chan is_low)) < k + 2"
  shows "wcn36xx_dxe_tx_frame P vp s is_low w =
           Some (- EBUSY, (emit StopQueues w)\<lparr> queues_stopped := True \<rparr>)"
proof -
  let ?ch = "dxe_ch w (tx_chan is_low)" and ?h = "(t + k) mod ch_desc_num (dxe_ch w (tx_chan is_low))"
  note h = tx_head_blocks [OF inv]
  from inv have sh: "tx_shape b ?ch" by (simp add: tx_inv_def tx_core_def Let_def)
  from tx_shape_block [OF sh, of ?h] h(2) obtain c where
    c: "ch_mem ?ch (b + ?h) = Some c" "ctl_next c = Some (b + Suc ?h)"
    by (metis Suc_lessD mod_less)
  from tx_shape_block [OF sh h(2)] obtain c' where
    c': "ch_mem ?ch (b + Suc ?h) = Some c'" "ring_ctl b ?ch (Suc ?h) = c'" by metis
  have "ctl_skb c' \<noteq> None"
    using tx_full_test [OF inv] assms(2) c'(2) by simp
  with c c' h(4) show ?thesis
    by (simp add: wcn36xx_dxe_tx_frame_def Let_def)
qed

lemma tx_shape_cong:
  assumes "tx_shape b ch" and "ch_desc_num ch' = ch_desc_num ch"
    and "map_option length (ch_cpu_addr ch') = map_option length (ch_cpu_addr ch)"
    and "ch_ctrl_bd ch' = ch_ctrl_bd ch" and "ch_ctrl_skb ch' = ch_ctrl_skb ch"
    and "\<And>i. i < ch_desc_num ch \<Longrightarrow> \<exists>c. ch_mem ch' (b + i) = Some c \<and>
           ctl_next c = ctl_next (ring_ctl b ch i) \<and> ctl_desc c = ctl_desc (ring_ctl b ch i) \<and>
           ctl_bd_cpu_addr c = ctl_bd_cpu_addr (ring_ctl b ch i)"
  shows "tx_shape b ch'"
proof -
  have "ch_mem ch' (b + i) \<noteq> None \<and> ctl_next (ring_ctl b ch' i) = Some (b + Suc i mod ch_desc_num ch) \<and>
        ctl_desc (ring_ctl b ch' i) = Some i \<and> (ctl_bd_cpu_addr (ring_ctl b ch' i) = None \<longleftrightarrow> odd i)"
    if i: "i < ch_desc_num ch" for i
  proof -
    obtain c0 where "ch_mem ch (b + i) = Some c0" "ring_ctl b ch i = c0"
      "ctl_next c0 = Some (b + Suc i mod ch_desc_num ch)"
      "ctl_desc c0 = Some i" "ctl_bd_cpu_addr c0 = None \<longleftrightarrow> odd i"
      by (rule tx_shape_block [OF assms(1) i])
    moreover obtain c where c: "ch_mem ch' (b + i) = Some c"
      and "ctl_next c = ctl_next (ring_ctl b ch i)" "ctl_desc c = ctl_desc (ring_ctl b ch i)"
      "ctl_bd_cpu_addr c = ctl_bd_cpu_addr (ring_ctl b ch i)"
      using assms(6) [OF i] by blast
    moreover from c have "ring_ctl b ch' i = c" by (simp add: ring_ctl_def)
    ultimately show ?thesis by simp
  qed
  with assms(1-5) show ?thesis
    unfolding tx_shape_def Let_def by (simp (no_asm_simp))
qed

lemma ring_desc_put_desc:
  assumes "map_option length (ch_cpu_addr ch) = Some n" and "i < n"
  shows "ring_desc (put_desc i d ch) j = (if j = i then d else ring_desc ch j)"
  using assms by (auto simp: ring_desc_def nth_list_update)

lemma ring_ctl_put_ctl:
  "ring_ctl b (put_ctl a c ch) j = (if a = b + j then c else ring_ctl b ch j)"
  by (simp add: ring_ctl_def)

lemma ring_views [simp]:
  "ring_desc (put_ctl a c ch) j = ring_desc ch j"
  "ring_ctl b (put_desc i d ch) j = ring_ctl b ch j"
  "ring_desc (ch\<lparr> ch_head := p \<rparr>) j = ring_desc ch j"
  "ring_ctl b (ch\<lparr> ch_head := p \<rparr>) j = ring_ctl b ch j"
  "ring_desc (ch\<lparr> ch_tail := p \<rparr>) j = ring_desc ch j"
  "ring_ctl b (ch\<lparr> ch_tail := p \<rparr>) j = ring_ctl b ch j"
  by (simp_all add: ring_desc_def ring_ctl_def)

text \<open>What \<open>wcn36xx_dxe_tx_frame\<close> does to the channel when it accepts the frame \<open>s\<close>.\<close>

definition tx_push :: "nat \<Rightarrow> nat \<Rightarrow> nat \<Rightarrow> u32 \<Rightarrow> nat \<Rightarrow> wcn36xx_dxe_ch \<Rightarrow> wcn36xx_dxe_ch" where
  "tx_push b h s bus len ch =
     (put_desc (Suc h) (fill_skb_desc ch bus len (ring_desc ch (Suc h)))
       (put_ctl (b + Suc h) ((ring_ctl b ch (Suc h))\<lparr> ctl_skb := Some s \<rparr>)
         (put_desc h (fill_bd_desc ch (ring_ctl b ch h) (ring_desc ch h))
           (put_ctl (b + h) ((ring_ctl b ch h)\<lparr> ctl_skb := None \<rparr>) ch))))
     \<lparr> ch_head := ctl_next (ring_ctl b ch (Suc h)) \<rparr>"

lemma tx_frame_room:
  assumes inv: "tx_inv b t k d (dxe_ch w (tx_chan is_low))"
    and room: "k + 2 \<le> ch_desc_num (dxe_ch w (tx_chan is_low))"
  shows "wcn36xx_dxe_tx_frame P vp s is_low w =
           (let ch = tx_push b ((t + k) mod ch_desc_num (dxe_ch w (tx_chan is_low))) s
                       (p_dma_map P (klog w) s) (skb_len (skbs w s)) (dxe_ch w (tx_chan is_low))
            in notify_chip vp is_low ch (set_ch (tx_chan is_low) ch (emit (DmaMap s) w)) \<bind>
               (\<lambda>w. Some (0, w)))"
proof -
  let ?ch = "dxe_ch w (tx_chan is_low)"
  define h where "h = (t + k) mod ch_desc_num ?ch"
  note hd = tx_head_blocks [OF inv, folded h_def]
  from inv have sh: "tx_shape b ?ch" by (simp add: tx_inv_def tx_core_def Let_def)
  have cpu: "map_option length (ch_cpu_addr ?ch) = Some (ch_desc_num ?ch)"
    using sh unfolding tx_shape_def Let_def by blast
  have hlt: "h < ch_desc_num ?ch" using hd(2) by simp
  obtain c where
    c: "ch_mem ?ch (b + h) = Some c" "ring_ctl b ?ch h = c"
    "ctl_next c = Some (b + Suc h mod ch_desc_num ?ch)" "ctl_desc c = Some h"
    "ctl_bd_cpu_addr c = None \<longleftrightarrow> odd h"
    by (rule tx_shape_block [OF sh hlt])
  have nx: "ctl_next c = Some (b + Suc h)" using c(3) hd(2) by simp
  obtain c' where
    c': "ch_mem ?ch (b + Suc h) = Some c'" "ring_ctl b ?ch (Suc h) = c'"
    "ctl_next c' = Some (b + Suc (Suc h) mod ch_desc_num ?ch)" "ctl_desc c' = Some (Suc h)"
    "ctl_bd_cpu_addr c' = None \<longleftrightarrow> odd (Suc h)"
    by (rule tx_shape_block [OF sh hd(2)])
  have bd: "ctl_bd_cpu_addr c' = None" using c'(5) hd(1) by simp
  have "ctl_skb c' = None"
    using tx_full_test [OF inv, folded h_def] room c'(2) by simp
  moreover have "desc_at ch c = Some (ring_desc ?ch h)" if "ch_cpu_addr ch = ch_cpu_addr ?ch" for ch
    using tx_shape_desc [OF sh c(4) hlt] that by (simp add: desc_at_def)
  moreover have "desc_at ch c' = Some (ring_desc ?ch (Suc h))"
    if "ch_cpu_addr ch = map_option (\<lambda>ds. ds[h := x]) (ch_cpu_addr ?ch)" for ch x
    using that cpu hd(2) c'(4) by (auto simp: desc_at_def ring_desc_def)
  ultimately show ?thesis
    using c(1,2,4) nx c'(1,2,4) bd hd(4) unfolding h_def [symmetric]
    by (simp add: wcn36xx_dxe_tx_frame_def Let_def tx_push_def fill_bd_desc_def fill_skb_desc_def
        put_ctl_def put_desc_def)
qed

lemma tx_push_views:
  assumes "map_option length (ch_cpu_addr ch) = Some (ch_desc_num ch)" and "Suc h < ch_desc_num ch"
  shows "ring_ctl b (tx_push b h s bus len ch) j =
           (if j = Suc h then (ring_ctl b ch (Suc h))\<lparr> ctl_skb := Some s \<rparr>
            else if j = h then (ring_ctl b ch h)\<lparr> ctl_skb := None \<rparr> else ring_ctl b ch j)"
    and "ring_desc (tx_push b h s bus len ch) j =
           (if j = Suc h then fill_skb_desc ch bus len (ring_desc ch (Suc h))
            else if j = h then fill_bd_desc ch (ring_ctl b ch h) (ring_desc ch h)
            else ring_desc ch j)"
  using assms
  by (auto simp: tx_push_def ring_ctl_put_ctl ring_desc_put_desc [where n = "ch_desc_num ch"]
      option.map_comp comp_def)

lemma tx_push_fields [simp]:
  "ch_desc_num (tx_push b h s bus len ch) = ch_desc_num ch"
  "ch_tail (tx_push b h s bus len ch) = ch_tail ch"
  "ch_head (tx_push b h s bus len ch) = ctl_next (ring_ctl b ch (Suc h))"
  "ch_ctrl_bd (tx_push b h s bus len ch) = ch_ctrl_bd ch"
  "ch_ctrl_skb (tx_push b h s bus len ch) = ch_ctrl_skb ch"
  "ch_reg_ctrl (tx_push b h s bus len ch) = ch_reg_ctrl ch"
  "ch_def_ctrl (tx_push b h s bus len ch) = ch_def_ctrl ch"
  "map_option length (ch_cpu_addr (tx_push b h s bus len ch)) = map_option length (ch_cpu_addr ch)"
  by (simp_all add: tx_push_def option.map_comp comp_def)

lemma tx_push_shape:
  assumes sh: "tx_shape b ch" and h: "Suc h < ch_desc_num ch"
  shows "tx_shape b (tx_push b h s bus len ch)"
proof (rule tx_shape_cong [OF sh])
  fix i assume i: "i < ch_desc_num ch"
  have cpu: "map_option length (ch_cpu_addr ch) = Some (ch_desc_num ch)"
    using sh unfolding tx_shape_def Let_def by blast
  obtain c where c: "ch_mem ch (b + i) = Some c"
    by (rule tx_shape_block [OF sh i])
  then have "\<exists>c. ch_mem (tx_push b h s bus len ch) (b + i) = Some c"
    by (simp add: tx_push_def)
  then obtain c' where c': "ch_mem (tx_push b h s bus len ch) (b + i) = Some c'" by blast
  then have r: "ring_ctl b (tx_push b h s bus len ch) i = c'" by (simp add: ring_ctl_def)
  have "ctl_next c' = ctl_next (ring_ctl b ch i) \<and> ctl_desc c' = ctl_desc (ring_ctl b ch i) \<and>
        ctl_bd_cpu_addr c' = ctl_bd_cpu_addr (ring_ctl b ch i)"
    using tx_push_views(1) [OF cpu h, of b s bus len i] unfolding r by (auto split: if_splits)
  with c' show "\<exists>c. ch_mem (tx_push b h s bus len ch) (b + i) = Some c \<and>
       ctl_next c = ctl_next (ring_ctl b ch i) \<and> ctl_desc c = ctl_desc (ring_ctl b ch i) \<and>
       ctl_bd_cpu_addr c = ctl_bd_cpu_addr (ring_ctl b ch i)" by blast
qed simp_all

lemma map_filter_cong:
  "(\<And>x. x \<in> set xs \<Longrightarrow> f x = g x) \<Longrightarrow> List.map_filter f xs = List.map_filter g xs"
  by (induction xs) (auto simp: List.map_filter_simps split: option.split)

lemma map_filter_append:
  "List.map_filter f (xs @ ys) = List.map_filter f xs @ List.map_filter f ys"
  by (simp add: List.map_filter_def)

lemma tx_push_inv:
  assumes inv: "tx_inv b t k d ch" and room: "k + 2 \<le> ch_desc_num ch"
  defines "h \<equiv> (t + k) mod ch_desc_num ch"
  shows "tx_inv b t (k + 2) d (tx_push b h s bus len ch)"
    and "tx_pending (tx_push b h s bus len ch) = tx_pending ch @ [s]"
proof -
  let ?n = "ch_desc_num ch" and ?ch = "tx_push b h s bus len ch"
  from inv have core: "tx_core b t k d ch" by (simp add: tx_inv_def)
  note sh = tx_core_shape [OF core] and nums = tx_core_nums [OF core]
    and hd = tx_head_blocks [OF inv, folded h_def]
  have cpu: "map_option length (ch_cpu_addr ch) = Some ?n"
    using sh unfolding tx_shape_def Let_def by blast
  note v = tx_push_views [OF cpu hd(2), of b s bus len]
  have pos: "(t + j) mod ?n = h \<longleftrightarrow> j = k" "(t + j) mod ?n = Suc h \<longleftrightarrow> j = Suc k" if "j < ?n" for j
    using that room nums(1) ring_pos_inj [of t j ?n k] ring_pos_inj [of t j ?n "Suc k"] hd(3)
    by (auto simp: h_def)
  have ctrl: "ctrl_valid (ch_ctrl_bd ch)" "ctrl_valid (ch_ctrl_skb ch)"
    using sh unfolding tx_shape_def Let_def by blast+
  have "(t + (k + 2)) mod ?n = Suc (Suc h) mod ?n"
    using hd(3) by (simp add: mod_Suc_eq)
  moreover have "ctl_next (ring_ctl b ch (Suc h)) = Some (b + Suc (Suc h) mod ?n)"
    by (rule tx_shape_block [OF sh hd(2)]) simp
  moreover have "ctrl_valid (desc_ctrl (ring_desc ?ch ((t + j) mod ?n))) \<longleftrightarrow> d \<le> j \<and> j < k + 2"
    if "j < ?n" for j
    using tx_core_valid [OF core that] pos [OF that] nums(3) ctrl
    by (auto simp: v(2) fill_skb_desc_def fill_bd_desc_def)
  moreover have skb: "ctl_skb (ring_ctl b ?ch ((t + j) mod ?n)) \<noteq> None \<longleftrightarrow>
      j < k + 2 \<and> odd ((t + j) mod ?n)" if "j < ?n" for j
    using tx_core_skb [OF core that] pos [OF that] hd(1) by (auto simp: v(1))
  ultimately show inv': "tx_inv b t (k + 2) d ?ch"
    using inv nums room tx_push_shape [OF sh hd(2)]
    by (simp add: tx_inv_def tx_core_def Let_def)
  let ?f = "\<lambda>ch j. ctl_skb (ring_ctl b ch ((t + j) mod ?n))"
  have "tx_pending ?ch = List.map_filter (?f ?ch) [0..<k + 2]"
    using tx_pending_positions [OF inv'] by simp
  also have "[0..<k + 2] = [0..<k] @ [k, Suc k]"
    by simp
  also have "List.map_filter (?f ?ch) ([0..<k] @ [k, Suc k]) =
      List.map_filter (?f ?ch) [0..<k] @ [s]"
    using pos [of k] pos [of "Suc k"] room
    by (simp add: map_filter_append List.map_filter_simps v(1))
  also have "List.map_filter (?f ?ch) [0..<k] = List.map_filter (?f ch) [0..<k]"
  proof (rule map_filter_cong)
    fix j assume "j \<in> set [0..<k]"
    then show "?f ?ch j = ?f ch j"
      using pos [of j] room by (simp add: v(1))
  qed
  finally show "tx_pending ?ch = tx_pending ch @ [s]"
    by (simp add: tx_pending_positions [OF inv])
qed

section \<open>Reaping\<close>

definition tx_pend :: "nat \<Rightarrow> nat \<Rightarrow> nat \<Rightarrow> wcn36xx_dxe_ch \<Rightarrow> nat list" where
  "tx_pend b t k ch =
     List.map_filter (\<lambda>j. ctl_skb (ring_ctl b ch ((t + j) mod ch_desc_num ch))) [0..<k]"

text \<open>\<open>reaped w w' l\<close>: the frames \<open>l\<close> have been taken off the ring between \<open>w\<close> and \<open>w'\<close>; those that
  do not wait for a status are freed, in order, and stopped queues are woken.\<close>

definition reaped :: "wcn36xx \<Rightarrow> wcn36xx \<Rightarrow> nat list \<Rightarrow> bool" where
  "reaped w w' l \<longleftrightarrow>
     tx_freed (klog w') = tx_freed (klog w) @
       filter (\<lambda>s. IEEE80211_TX_CTL_REQ_TX_STATUS \<notin> skb_cb_flags (skbs w s)) l \<and>
     (queues_stopped w' \<longleftrightarrow> queues_stopped w \<and> l = []) \<and>
     (WakeQueues \<in> set (klog w') \<longleftrightarrow> WakeQueues \<in> set (klog w) \<or> queues_stopped w \<and> l \<noteq> []) \<and>
     skbs w' = skbs w \<and> dxe_ch w' = dxe_ch w \<and> tx_ack_skb w' = tx_ack_skb w \<and>
     vif_priv w' = vif_priv w \<and> hal_mutex w' = hal_mutex w"

lemma reaped_refl [simp]: "reaped w w []"
  by (simp add: reaped_def)

lemma reaped_trans: "reaped w w1 l1 \<Longrightarrow> reaped w1 w2 l2 \<Longrightarrow> reaped w w2 (l1 @ l2)"
  unfolding reaped_def by auto

lemma tx_freed_cons [simp]:
  "tx_freed (e # l) = tx_freed l @ (case e of FreeTxSkb s \<Rightarrow> [s] | _ \<Rightarrow> [])"
  by (cases e) (simp_all add: tx_freed_def List.map_filter_simps)

lemma reaped_reap_skb: "reaped w (reap_skb bus s w) [s]"
  by (auto simp: reaped_def reap_skb_def Let_def emit_def)

lemma ring_shift: "(Suc t mod n + j) mod n = (t + Suc j) mod (n :: nat)"
  by (simp add: mod_add_left_eq)

lemma reap_block_step:
  assumes core: "tx_core b t k d ch" and d: "0 < d"
  obtains ch' w' l where "reap_block (b + t) ch w = Some (ch', w')"
    "tx_core b (Suc t mod ch_desc_num ch) (k - 1) (d - 1) ch'" "ch_desc_num ch' = ch_desc_num ch"
    "ch_head ch' = ch_head ch" "reaped w w' l"
    "tx_pend b t k ch = l @ tx_pend b (Suc t mod ch_desc_num ch) (k - 1) ch'"
    "length l = (if odd t then 1 else 0)" "ring_desc ch' = ring_desc ch"
proof -
  let ?n = "ch_desc_num ch"
  note sh = tx_core_shape [OF core] and nums = tx_core_nums [OF core]
  note n = tx_shape_n [OF sh]
  from d nums(3) have k: "0 < k" by simp
  obtain c where c: "ch_mem ch (b + t) = Some c" "ring_ctl b ch t = c"
    "ctl_next c = Some (b + Suc t mod ?n)" "ctl_desc c = Some t" "ctl_bd_cpu_addr c = None \<longleftrightarrow> odd t"
    by (rule tx_shape_block [OF sh nums(1)])
  have skb: "ctl_skb c \<noteq> None \<longleftrightarrow> odd t"
    using tx_core_skb [OF core, of 0] nums(1) n k c(2) by simp
  define ch' where "ch' = (case ctl_skb c of None \<Rightarrow> ch | Some s \<Rightarrow> put_ctl (b + t) (c\<lparr> ctl_skb := None \<rparr>) ch)"
  define w' where "w' = (case ctl_skb c of None \<Rightarrow> w
                         | Some s \<Rightarrow> reap_skb (desc_src_addr_l (ring_desc ch t)) s w)"
  define l where "l = (case ctl_skb c of None \<Rightarrow> [] | Some s \<Rightarrow> [s])"
  have run: "reap_block (b + t) ch w = Some (ch', w')"
    using c tx_shape_desc [OF sh c(4) nums(1)]
    by (simp add: reap_block_def ch'_def w'_def split: option.split)
  have view: "ring_ctl b ch' i = (if i = t then c\<lparr> ctl_skb := None \<rparr> else ring_ctl b ch i)" for i
    using c(2) by (auto simp: ch'_def ring_ctl_put_ctl split: option.split)
  have desc: "ring_desc ch' = ring_desc ch"
    by (auto simp: ch'_def fun_eq_iff split: option.split)
  have flds: "ch_desc_num ch' = ?n" "ch_head ch' = ch_head ch" "ch_ctrl_bd ch' = ch_ctrl_bd ch"
    "ch_ctrl_skb ch' = ch_ctrl_skb ch" "ch_cpu_addr ch' = ch_cpu_addr ch"
    by (simp_all add: ch'_def split: option.split)
  have sh': "tx_shape b ch'"
  proof (rule tx_shape_cong [OF sh])
    fix i assume i: "i < ?n"
    obtain c1 where "ch_mem ch (b + i) = Some c1" by (rule tx_shape_block [OF sh i])
    then have "\<exists>c2. ch_mem ch' (b + i) = Some c2"
      by (auto simp: ch'_def split: option.split)
    then obtain c2 where c2: "ch_mem ch' (b + i) = Some c2" by blast
    then have "ring_ctl b ch' i = c2" by (simp add: ring_ctl_def)
    with c2 c(2) view [of i] show "\<exists>c. ch_mem ch' (b + i) = Some c \<and>
       ctl_next c = ctl_next (ring_ctl b ch i) \<and> ctl_desc c = ctl_desc (ring_ctl b ch i) \<and>
       ctl_bd_cpu_addr c = ctl_bd_cpu_addr (ring_ctl b ch i)"
      by (auto split: if_splits)
  qed (simp_all add: flds)
  have pos: "(t + Suc j) mod ?n = t \<longleftrightarrow> Suc j = ?n" if "j < ?n" for j
    using that nums(1) ring_pos_split [OF nums(1), of "Suc j"] by (auto split: if_splits)
  have valid: "ctrl_valid (desc_ctrl (ring_desc ch ((t + Suc j) mod ?n))) \<longleftrightarrow>
                 d - 1 \<le> j \<and> j < k - 1" if j: "j < ?n" for j
  proof (cases "Suc j = ?n")
    case True
    then have "(t + Suc j) mod ?n = (t + 0) mod ?n" by simp
    with True tx_core_valid [OF core, of 0] d nums n show ?thesis by auto
  next
    case False
    with j tx_core_valid [OF core, of "Suc j"] d show ?thesis by auto
  qed
  have skbs: "ctl_skb (ring_ctl b ch' ((t + Suc j) mod ?n)) \<noteq> None \<longleftrightarrow>
                j < k - 1 \<and> odd ((t + Suc j) mod ?n)" if j: "j < ?n" for j
    using j pos [OF j] tx_core_skb [OF core, of "Suc j"] nums(2) k
    by (cases "Suc j = ?n") (auto simp: view)
  have core': "tx_core b (Suc t mod ?n) (k - 1) (d - 1) ch'"
    unfolding tx_core_def Let_def flds
  proof (intro conjI allI impI)
    show "even (Suc t mod ?n + (k - 1))"
      using nums(4) k n by (cases k) (auto simp: dvd_mod_iff)
    show "ch_head ch = Some (b + (Suc t mod ?n + (k - 1)) mod ?n)"
      using nums(5) ring_shift [of t ?n "k - 1"] k by (metis Suc_pred')
    fix j assume j: "j < ?n"
    show "ctrl_valid (desc_ctrl (ring_desc ch' ((Suc t mod ?n + j) mod ?n))) \<longleftrightarrow>
            d - 1 \<le> j \<and> j < k - 1"
      unfolding desc ring_shift by (rule valid [OF j])
    show "ctl_skb (ring_ctl b ch' ((Suc t mod ?n + j) mod ?n)) \<noteq> None \<longleftrightarrow>
            j < k - 1 \<and> odd ((Suc t mod ?n + j) mod ?n)"
      unfolding ring_shift by (rule skbs [OF j])
  qed (use sh' nums n k d in simp_all)
  have "tx_pend b t k ch = l @ tx_pend b (Suc t mod ?n) (k - 1) ch'"
  proof -
    have "[0..<k] = 0 # map Suc [0..<k - 1]"
      using k by (simp add: map_Suc_upt upt_conv_Cons del: upt_Suc)
    moreover have "List.map_filter (\<lambda>j. ctl_skb (ring_ctl b ch ((t + j) mod ?n))) (map Suc [0..<k - 1]) =
        List.map_filter (\<lambda>j. ctl_skb (ring_ctl b ch' ((Suc t mod ?n + j) mod ?n))) [0..<k - 1]"
      unfolding List.map_filter_def filter_map map_map comp_def
    proof -
      have "ctl_skb (ring_ctl b ch ((t + Suc j) mod ?n)) =
              ctl_skb (ring_ctl b ch' ((Suc t mod ?n + j) mod ?n))" if "j \<in> set [0..<k - 1]" for j
      proof -
        from that nums(2) have "j < ?n" "Suc j \<noteq> ?n" by auto
        with pos [of j] have "(t + Suc j) mod ?n \<noteq> t" by blast
        then show ?thesis by (simp only: view ring_shift if_False)
      qed
      then show "map (\<lambda>x. the (ctl_skb (ring_ctl b ch ((t + Suc x) mod ?n))))
          (filter (\<lambda>x. ctl_skb (ring_ctl b ch ((t + Suc x) mod ?n)) \<noteq> None) [0..<k - 1]) =
        map (\<lambda>x. the (ctl_skb (ring_ctl b ch' ((Suc t mod ?n + x) mod ?n))))
          (filter (\<lambda>x. ctl_skb (ring_ctl b ch' ((Suc t mod ?n + x) mod ?n)) \<noteq> None) [0..<k - 1])"
        by (intro map_cong filter_cong) (auto intro: filter_cong)
    qed
    ultimately show ?thesis
      using nums(1) c(2) by (simp add: tx_pend_def List.map_filter_simps l_def flds split: option.split)
  qed
  moreover have "length l = (if odd t then 1 else 0)"
    using skb by (auto simp: l_def split: option.split)
  moreover have "reaped w w' l"
    by (auto simp: w'_def l_def reaped_reap_skb split: option.split)
  ultimately show ?thesis
    using that [OF run core' flds(1,2)] desc by blast
qed

lemma reap_loop_busy:
  assumes core: "tx_core b t k 0 ch" and "0 < k" and "0 < f"
  shows "reap_loop f (b + t) ch w = Some (b + t, ch, w)"
proof -
  note sh = tx_core_shape [OF core] and nums = tx_core_nums [OF core]
  obtain c where c: "ch_mem ch (b + t) = Some c" "ring_ctl b ch t = c"
    "ctl_next c = Some (b + Suc t mod ch_desc_num ch)" "ctl_desc c = Some t"
    "ctl_bd_cpu_addr c = None \<longleftrightarrow> odd t"
    by (rule tx_shape_block [OF sh nums(1)])
  have "ctrl_valid (desc_ctrl (ring_desc ch t))"
    using tx_core_valid [OF core, of 0] nums assms(2) by simp
  with c tx_shape_desc [OF sh c(4) nums(1)] assms(3) show ?thesis
    by (cases f) simp_all
qed

lemma reap_loop_done:
  assumes "tx_core b t k d ch" and "0 < d" and "d \<le> f"
  shows "\<exists>ch' w' l. reap_loop f (b + t) ch w = Some (b + (t + d) mod ch_desc_num ch, ch', w') \<and>
           tx_core b ((t + d) mod ch_desc_num ch) (k - d) 0 ch' \<and> ch_desc_num ch' = ch_desc_num ch \<and>
           reaped w w' l \<and>
           tx_pend b t k ch = l @ tx_pend b ((t + d) mod ch_desc_num ch) (k - d) ch' \<and>
           length l = (d + t mod 2) div 2"
  using assms
proof (induction d arbitrary: t k ch w f)
  case 0 then show ?case by simp
next
  case (Suc d)
  let ?n = "ch_desc_num ch"
  note core = Suc.prems(1) note sh = tx_core_shape [OF core] and nums = tx_core_nums [OF core]
  note n = tx_shape_n [OF sh]
  from Suc.prems(3) obtain f' where f: "f = Suc f'" "d \<le> f'" by (cases f) auto
  obtain c where c: "ch_mem ch (b + t) = Some c" "ring_ctl b ch t = c"
    "ctl_next c = Some (b + Suc t mod ?n)" "ctl_desc c = Some t" "ctl_bd_cpu_addr c = None \<longleftrightarrow> odd t"
    by (rule tx_shape_block [OF sh nums(1)])
  have inv0: "\<not> ctrl_valid (desc_ctrl (ring_desc ch t))"
    using tx_core_valid [OF core, of 0] nums by simp
  obtain ch1 w1 l1 where b: "reap_block (b + t) ch w = Some (ch1, w1)"
    and core1: "tx_core b (Suc t mod ?n) (k - 1) (Suc d - 1) ch1"
    and e1: "ch_desc_num ch1 = ?n" "ch_head ch1 = ch_head ch" and r1: "reaped w w1 l1"
    and p1: "tx_pend b t k ch = l1 @ tx_pend b (Suc t mod ?n) (k - 1) ch1"
    and l1: "length l1 = (if odd t then 1 else 0)" and d1: "ring_desc ch1 = ring_desc ch"
    by (rule reap_block_step [OF core zero_less_Suc])
  note sh1 = tx_core_shape [OF core1] and nums1 = tx_core_nums [OF core1]
  have t1: "Suc t mod ?n < ?n" using n by simp
  obtain c1 where c1: "ch_mem ch1 (b + t) = Some c1" "ring_ctl b ch1 t = c1"
    "ctl_next c1 = Some (b + Suc t mod ch_desc_num ch1)" "ctl_desc c1 = Some t"
    "ctl_bd_cpu_addr c1 = None \<longleftrightarrow> odd t"
    by (rule tx_shape_block [OF sh1, of t]) (use nums e1 in auto)
  obtain c2 where c2: "ch_mem ch1 (b + Suc t mod ?n) = Some c2"
    "ring_ctl b ch1 (Suc t mod ?n) = c2" "ctl_next c2 = Some (b + Suc (Suc t mod ?n) mod ch_desc_num ch1)"
    "ctl_desc c2 = Some (Suc t mod ?n)" "ctl_bd_cpu_addr c2 = None \<longleftrightarrow> odd (Suc t mod ?n)"
    by (rule tx_shape_block [OF sh1, of "Suc t mod ?n"]) (use t1 e1 in auto)
  have dat: "desc_at ch1 c2 = Some (ring_desc ch1 (Suc t mod ?n))"
    using tx_shape_desc [OF sh1 c2(4)] t1 e1 by simp
  have run: "reap_loop f (b + t) ch w =
      (if Some (b + Suc t mod ?n) = ch_head ch1 then Some (b + Suc t mod ?n, ch1, w1)
       else if ctrl_valid (desc_ctrl (ring_desc ch1 (Suc t mod ?n))) then Some (b + Suc t mod ?n, ch1, w1)
       else reap_loop f' (b + Suc t mod ?n) ch1 w1)"
    using c b c1 c2 dat e1(1) inv0 tx_shape_desc [OF sh c(4) nums(1)] by (simp add: f)
  have par: "Suc t mod ?n mod 2 = Suc t mod 2"
    using n by (simp add: mod_mod_cancel)
  show ?case
  proof (cases "d = 0")
    case True
    have "Some (b + Suc t mod ?n) = ch_head ch1 \<or> ctrl_valid (desc_ctrl (ring_desc ch1 (Suc t mod ?n)))"
    proof (cases "k - 1 = 0")
      case True
      then show ?thesis using nums1(5) e1 by simp
    next
      case False
      with tx_core_valid [OF core1, of 0] \<open>d = 0\<close> t1 e1 show ?thesis by simp
    qed
    then have "reap_loop f (b + t) ch w = Some (b + Suc t mod ?n, ch1, w1)"
      unfolding run by auto
    moreover have "length l1 = (Suc d + t mod 2) div 2"
      using l1 True by (auto simp: odd_iff_mod_2_eq_one)
    ultimately show ?thesis
      using True core1 e1 r1 p1 by auto
  next
    case False
    have "k - 1 > 0" using False nums(3) by simp
    have nohead: "Some (b + Suc t mod ?n) \<noteq> ch_head ch1"
    proof
      assume "Some (b + Suc t mod ?n) = ch_head ch1"
      then have "(Suc t mod ?n + (k - 1)) mod ?n = (Suc t mod ?n + 0) mod ?n"
        using nums1(5) e1 by simp
      from ring_pos_inj [OF this t1] \<open>k - 1 > 0\<close> nums(2) n show False by linarith
    qed
    have "\<not> ctrl_valid (desc_ctrl (ring_desc ch1 (Suc t mod ?n)))"
      using tx_core_valid [OF core1, of 0] t1 e1 False by simp
    with nohead have "reap_loop f (b + t) ch w = reap_loop f' (b + Suc t mod ?n) ch1 w1"
      unfolding run by simp
    moreover obtain ch' w' l where
      "reap_loop f' (b + Suc t mod ?n) ch1 w1 = Some (b + (Suc t mod ?n + d) mod ?n, ch', w')"
      "tx_core b ((Suc t mod ?n + d) mod ?n) (k - 1 - d) 0 ch'" "ch_desc_num ch' = ?n"
      "reaped w1 w' l"
      "tx_pend b (Suc t mod ?n) (k - 1) ch1 = l @ tx_pend b ((Suc t mod ?n + d) mod ?n) (k - 1 - d) ch'"
      "length l = (d + Suc t mod 2) div 2"
      using Suc.IH [of "Suc t mod ?n" "k - 1" ch1 f' w1] core1 False f(2) par e1(1) by auto
    moreover have "length l1 + (d + Suc t mod 2) div 2 = (Suc d + t mod 2) div 2"
      using l1 by (cases "odd t") (simp_all add: mod_Suc odd_iff_mod_2_eq_one even_iff_mod_2_eq_zero)
    ultimately show ?thesis
      using reaped_trans [OF r1] p1 by (auto simp: ring_shift intro!: exI [of _ "l1 @ l"])
  qed
qed

lemma reap_loop_idle:
  assumes core: "tx_core b t 0 0 ch" and "i < ch_desc_num ch" and "ch_desc_num ch - i \<le> f"
  shows "reap_loop f (b + (t + i) mod ch_desc_num ch) ch w = Some (b + t, ch, w)"
  using assms(2,3)
proof (induction f arbitrary: i)
  case 0 then show ?case by simp
next
  case (Suc f)
  let ?n = "ch_desc_num ch"
  note sh = tx_core_shape [OF core] and nums = tx_core_nums [OF core]
  define q where "q = (t + Suc i) mod ?n"
  have p: "(t + i) mod ?n < ?n" using Suc.prems by simp
  obtain c where c: "ch_mem ch (b + (t + i) mod ?n) = Some c" "ring_ctl b ch ((t + i) mod ?n) = c"
    "ctl_next c = Some (b + Suc ((t + i) mod ?n) mod ?n)" "ctl_desc c = Some ((t + i) mod ?n)"
    "ctl_bd_cpu_addr c = None \<longleftrightarrow> odd ((t + i) mod ?n)"
    by (rule tx_shape_block [OF sh p])
  have "\<not> ctrl_valid (desc_ctrl (ring_desc ch ((t + i) mod ?n)))" "ctl_skb c = None"
    using tx_core_valid [OF core, of i] tx_core_skb [OF core, of i] Suc.prems(1) c(2) by auto
  moreover have "ctl_next c = Some (b + q)"
    using c(3) by (simp add: q_def mod_Suc_eq)
  moreover have "ch_head ch = Some (b + t)"
    using nums by simp
  ultimately have run: "reap_loop (Suc f) (b + (t + i) mod ?n) ch w =
      (if q = t then Some (b + q, ch, w)
       else do {
         nctl \<leftarrow> ch_mem ch (b + q);
         nd \<leftarrow> desc_at ch nctl;
         if ctrl_valid (desc_ctrl nd) then Some (b + q, ch, w)
         else reap_loop f (b + q) ch w })"
    using c(1) tx_shape_desc [OF sh c(4) p] by (simp add: reap_block_def)
  show ?case
  proof (cases "Suc i = ?n")
    case True
    then have "q = t" using nums(1) by (simp add: q_def)
    then show ?thesis unfolding run by simp
  next
    case False
    with Suc.prems(1) have i': "Suc i < ?n" by simp
    then have "q \<noteq> t"
      using ring_pos_inj [of t "Suc i" ?n 0] nums(1) by (auto simp: q_def)
    moreover have q: "q < ?n" using i' by (simp add: q_def)
    obtain c1 where c1: "ch_mem ch (b + q) = Some c1"
      "ring_ctl b ch (q) = c1"
      "ctl_next c1 = Some (b + Suc (q) mod ?n)" "ctl_desc c1 = Some (q)"
      "ctl_bd_cpu_addr c1 = None \<longleftrightarrow> odd (q)"
      by (rule tx_shape_block [OF sh q])
    moreover have "\<not> ctrl_valid (desc_ctrl (ring_desc ch (q)))"
      using tx_core_valid [OF core i'] by (auto simp: q_def)
    moreover have "reap_loop f (b + q) ch w = Some (b + t, ch, w)"
      unfolding q_def by (rule Suc.IH [OF i']) (use Suc.prems(2) in simp)
    ultimately show ?thesis
      unfolding run using tx_shape_desc [OF sh c1(4) q] by simp
  qed
qed

text \<open>One call of \<open>reap_tx_dxes\<close> takes exactly the finished blocks off the ring.\<close>

lemma reap_tx_dxes_ok:
  assumes inv: "tx_inv b t k d (dxe_ch w c)"
  obtains w1 ch' l where
    "reap_tx_dxes c w = Some (set_ch c ch' w1)"
    "tx_inv b ((t + d) mod ch_desc_num ch') (k - d) 0 ch'"
    "ch_desc_num ch' = ch_desc_num (dxe_ch w c)" "reaped w w1 l"
    "tx_pending (dxe_ch w c) = l @ tx_pending ch'" "length l = (d + t mod 2) div 2"
proof -
  let ?ch = "dxe_ch w c" and ?n = "ch_desc_num (dxe_ch w c)"
  from inv have core: "tx_core b t k d ?ch" and tl: "ch_tail ?ch = Some (b + t)"
    by (simp_all add: tx_inv_def)
  note nums = tx_core_nums [OF core]
  have "\<exists>w1 ch' l. reap_loop ?n (b + t) ?ch w = Some (b + (t + d) mod ?n, ch', w1) \<and>
          tx_core b ((t + d) mod ?n) (k - d) 0 ch' \<and> ch_desc_num ch' = ?n \<and> reaped w w1 l \<and>
          tx_pend b t k ?ch = l @ tx_pend b ((t + d) mod ?n) (k - d) ch' \<and>
          length l = (d + t mod 2) div 2"
  proof (cases "d = 0")
    case True
    have "reap_loop ?n (b + t) ?ch w = Some (b + t, ?ch, w)"
    proof (cases "k = 0")
      case True
      with \<open>d = 0\<close> core reap_loop_idle [of b t ?ch 0 ?n w] nums(1) show ?thesis by simp
    next
      case False
      with \<open>d = 0\<close> core reap_loop_busy [of b t k ?ch ?n w] nums(1) show ?thesis by simp
    qed
    with True core nums(1) show ?thesis by (intro exI [of _ w] exI [of _ ?ch] exI [of _ "[]"]) simp
  next
    case False
    then show ?thesis
      using reap_loop_done [OF core, of ?n w] nums(2,3) by auto
  qed
  then obtain w1 ch' l where run: "reap_loop ?n (b + t) ?ch w = Some (b + (t + d) mod ?n, ch', w1)"
    and core': "tx_core b ((t + d) mod ?n) (k - d) 0 ch'" and n': "ch_desc_num ch' = ?n"
    and r: "reaped w w1 l"
    and p: "tx_pend b t k ?ch = l @ tx_pend b ((t + d) mod ?n) (k - d) ch'"
    and l: "length l = (d + t mod 2) div 2" by blast
  let ?c' = "ch'\<lparr> ch_tail := Some (b + (t + d) mod ?n) \<rparr>"
  have shape: "tx_shape b ?c' = tx_shape b ch'"
    by (simp add: tx_shape_def ring_ctl_def)
  have inv': "tx_inv b ((t + d) mod ?n) (k - d) 0 ?c'"
    using core' by (simp add: tx_inv_def tx_core_def shape Let_def)
  have "tx_pending ?ch = l @ tx_pending ?c'"
    using p tx_pending_positions [OF inv] tx_pending_positions [OF inv']
    by (simp add: tx_pend_def n')
  moreover have "reap_tx_dxes c w = Some (set_ch c ?c' w1)"
    using run tl by (simp add: reap_tx_dxes_def Let_def)
  ultimately show ?thesis
    using that [of ?c' w1 l] inv' n' r l by simp
qed

lemma tx_pending_length:
  assumes inv: "tx_inv b t k d ch"
  shows "length (tx_pending ch) = (k + t mod 2) div 2"
proof -
  let ?n = "ch_desc_num ch" and ?f = "\<lambda>j. ctl_skb (ring_ctl b ch ((t + j) mod ch_desc_num ch))"
  from inv have core: "tx_core b t k d ch" by (simp add: tx_inv_def)
  note n = tx_shape_n [OF tx_core_shape [OF core]] and nums = tx_core_nums [OF core]
  have "length (List.map_filter ?f [0..<m]) = (m + t mod 2) div 2" if "m \<le> k" for m
    using that
  proof (induction m)
    case 0 then show ?case by (simp add: List.map_filter_simps)
  next
    case (Suc m)
    then have "?f m \<noteq> None \<longleftrightarrow> odd (t + m)"
      using tx_core_skb [OF core, of m] nums(2) n by (simp add: dvd_mod_iff)
    moreover have "(Suc m + t mod 2) div 2 = (m + t mod 2) div 2 + (if odd (t + m) then 1 else 0)"
      by presburger
    ultimately show ?case
      using Suc by (auto simp: map_filter_append List.map_filter_simps split: option.split)
  qed
  then show ?thesis by (simp add: tx_pending_positions [OF inv])
qed

text \<open>Room for a frame, in terms of the queue.\<close>

lemma tx_room_iff:
  assumes inv: "tx_inv b t k d ch"
  shows "k + 2 \<le> ch_desc_num ch \<longleftrightarrow> length (tx_pending ch) < ch_desc_num ch div 2"
proof -
  from inv have core: "tx_core b t k d ch" by (simp add: tx_inv_def)
  note n = tx_shape_n [OF tx_core_shape [OF core]] and nums = tx_core_nums [OF core]
  have "k + 2 \<le> m \<longleftrightarrow> (k + t mod 2) div 2 < m div 2" if "even m" "even (t + k)" for m
  proof -
    from that(1) obtain q where m: "m = 2 * q" by blast
    have e: "(k + t mod 2) div 2 < q \<longleftrightarrow> k + t mod 2 < q * 2"
      by (rule div_less_iff_less_mult) simp
    show ?thesis
    proof (cases "even t")
      case True
      with that(2) have "even k" by simp
      then have "k < q * 2 \<longleftrightarrow> k + 2 \<le> 2 * q" by presburger
      with True e m show ?thesis by simp
    next
      case False
      with e m show ?thesis by (simp add: odd_iff_mod_2_eq_one) linarith
    qed
  qed
  with n nums(4) tx_pending_length [OF inv] show ?thesis by simp
qed

end
