(* ===== verification/Smd_Ind.thy ===== *)
theory Smd_Ind
  imports Smd_Core Dxe_Tx
begin

text \<open>
  The indications of the firmware: their three handlers, the work item that takes one from the queue
  (\<open>wcn36xx_ind_smd_work\<close>), and opening and closing the channel. The queue is a list, oldest first;
  \<open>hal_ind_work_pending\<close> says that the work is queued, which queueing it again does not change. The
  steps of the receive callback and of the work queue are the relation \<open>ind_step\<close>.
\<close>

section \<open>The handlers\<close>

abbreviation (input) sizeof_tx_compl_ind :: nat where "sizeof_tx_compl_ind \<equiv> 12"
abbreviation (input) sizeof_missed_beacon_ind :: nat where "sizeof_missed_beacon_ind \<equiv> 9"
abbreviation (input) sizeof_delete_sta_context_ind :: nat where "sizeof_delete_sta_context_ind \<equiv> 26"

definition wcn36xx_smd_tx_compl_ind :: "u8 list \<Rightarrow> wcn36xx \<Rightarrow> int \<times> wcn36xx" where
  "wcn36xx_smd_tx_compl_ind buf w =
     (if length buf \<noteq> sizeof_tx_compl_ind then (- EIO, w)
      else (0, wcn36xx_dxe_tx_ack_ind w (of_le32 (take 4 (drop 8 buf)))))"

text \<open>The interfaces of a list, in its order: for firmware without a BSS index all of them, otherwise
  the first one with the index.\<close>

fun connection_loss_all :: "nat list \<Rightarrow> wcn36xx \<Rightarrow> wcn36xx" where
  "connection_loss_all [] w = w"
| "connection_loss_all (v # vs) w = connection_loss_all vs (emit (ConnectionLoss v) w)"

fun connection_loss_bss :: "u8 \<Rightarrow> nat list \<Rightarrow> wcn36xx \<Rightarrow> int \<times> wcn36xx" where
  "connection_loss_bss i [] w = (- ENOENT, w)"
| "connection_loss_bss i (v # vs) w =
     (if bss_index (vif_priv w v) = i then (0, emit (ConnectionLoss v) w)
      else connection_loss_bss i vs w)"

definition wcn36xx_smd_missed_beacon_ind :: "u8 list \<Rightarrow> wcn36xx \<Rightarrow> int \<times> wcn36xx" where
  "wcn36xx_smd_missed_beacon_ind buf w =
     (if wcn36xx_is_fw_version w 1 2 2 24 then (0, connection_loss_all (vif_list w) w)
      else if length buf \<noteq> sizeof_missed_beacon_ind then (- EIO, w)
      else connection_loss_bss (buf ! 8) (vif_list w) w)"

fun report_low_ack :: "platform \<Rightarrow> u8 list \<Rightarrow> nat list \<Rightarrow> wcn36xx \<Rightarrow> int \<times> wcn36xx" where
  "report_low_ack P addr2 [] w = (- ENOENT, w)"
| "report_low_ack P addr2 (v # vs) w =
     (let sta = p_find_sta P (klog w) v addr2; w = emit (FindSta v addr2) w
      in case sta of
           Some s \<Rightarrow> (0, emit (ReportLowAck s) w)
         | None \<Rightarrow> report_low_ack P addr2 vs w)"

definition wcn36xx_smd_delete_sta_context_ind :: "platform \<Rightarrow> u8 list \<Rightarrow> wcn36xx \<Rightarrow> int \<times> wcn36xx" where
  "wcn36xx_smd_delete_sta_context_ind P buf w =
     (if length buf \<noteq> sizeof_delete_sta_context_ind then (- EIO, w)
      else report_low_ack P (take 6 (drop 18 buf)) (vif_list w) w)"

section \<open>The work item\<close>

definition handle_ind :: "platform \<Rightarrow> u8 list \<Rightarrow> wcn36xx \<Rightarrow> wcn36xx" where
  "handle_ind P m w =
     (let t = msg_type_of m
      in if t = ind_type HAL_OTA_TX_COMPL_IND then snd (wcn36xx_smd_tx_compl_ind m w)
         else if t = ind_type HAL_MISSED_BEACON_IND then snd (wcn36xx_smd_missed_beacon_ind m w)
         else if t = ind_type HAL_DELETE_STA_CONTEXT_IND
         then snd (wcn36xx_smd_delete_sta_context_ind P m w)
         else w)"

text \<open>One entry per run. On an empty queue \<^verbatim>\<open>list_first_entry\<close> gives the list head itself, whose
  \<^verbatim>\<open>msg\<close> is no message.\<close>

definition wcn36xx_ind_smd_work :: "platform \<Rightarrow> wcn36xx \<Rightarrow> wcn36xx option" where
  "wcn36xx_ind_smd_work P w =
     (case hal_ind_queue w of
        [] \<Rightarrow> None
      | m # _ \<Rightarrow>
          if length m < 2 then None
          else (let w = handle_ind P m w in Some (w\<lparr> hal_ind_queue := tl (hal_ind_queue w) \<rparr>)))"

definition wcn36xx_smd_open :: "platform \<Rightarrow> wcn36xx \<Rightarrow> int \<times> wcn36xx" where
  "wcn36xx_smd_open P w =
     (let ok = p_create_wq P (klog w); w = (emit CreateWq w)\<lparr> hal_ind_wq := ok \<rparr>
      in if \<not> ok then (- ENOMEM, w)
         else (let w = w\<lparr> hal_ind_work_pending := False, hal_ind_queue := [] \<rparr>;
                   ret = p_smd_open P (klog w); w = emit SmdOpen w
               in if ret \<noteq> 0 then (ret, (emit DestroyWq w)\<lparr> hal_ind_wq := False \<rparr>) else (ret, w)))"

text \<open>\<^verbatim>\<open>destroy_workqueue\<close> first drains the queue: work still pending runs.\<close>

definition wcn36xx_smd_close :: "platform \<Rightarrow> wcn36xx \<Rightarrow> wcn36xx option" where
  "wcn36xx_smd_close P w =
     (let w = emit SmdClose w
      in do {
        w \<leftarrow> (if hal_ind_work_pending w
             then wcn36xx_ind_smd_work P (w\<lparr> hal_ind_work_pending := False \<rparr>) else Some w);
        Some ((emit DestroyWq w)\<lparr> hal_ind_wq := False \<rparr>) })"

section \<open>Arrivals and runs\<close>

text \<open>The handlers do not touch the queue, nor what the commands rely on.\<close>

definition ind_frame :: "wcn36xx \<Rightarrow> wcn36xx \<Rightarrow> bool" where
  "ind_frame w w' \<longleftrightarrow>
     hal_ind_queue w' = hal_ind_queue w \<and> hal_ind_work_pending w' = hal_ind_work_pending w \<and>
     hal_ind_wq w' = hal_ind_wq w \<and> hal_buf w' = hal_buf w \<and> hal_mutex w' = hal_mutex w \<and>
     vif_list w' = vif_list w \<and> vif_priv w' = vif_priv w \<and> dxe_ch w' = dxe_ch w \<and>
     dma_mem w' = dma_mem w \<and> mgmt_mem_pool w' = mgmt_mem_pool w \<and> data_mem_pool w' = data_mem_pool w \<and>
     dma_brk w' = dma_brk w \<and> nv w' = nv w \<and> skb_brk w' = skb_brk w \<and>
     skb_view \<circ> skbs w' = skb_view \<circ> skbs w"

lemma connection_loss_all_frame: "ind_frame w (connection_loss_all vs w)"
  by (induction vs arbitrary: w) (simp_all add: ind_frame_def)

lemma connection_loss_bss_frame: "ind_frame w (snd (connection_loss_bss i vs w))"
  by (induction vs) (simp_all add: ind_frame_def)

lemma report_low_ack_frame: "ind_frame w (snd (report_low_ack P a vs w))"
  by (induction vs arbitrary: w) (auto simp: ind_frame_def Let_def split: option.split)

lemma tx_ack_ind_frame: "ind_frame w (wcn36xx_dxe_tx_ack_ind w st)"
  by (simp add: wcn36xx_dxe_tx_ack_ind_def ind_frame_def Let_def skb_view_def fun_eq_iff split: option.split)

lemma handle_ind_frame: "ind_frame w (handle_ind P m w)"
  using connection_loss_all_frame connection_loss_bss_frame report_low_ack_frame tx_ack_ind_frame
  by (auto simp: handle_ind_def wcn36xx_smd_tx_compl_ind_def wcn36xx_smd_missed_beacon_ind_def
      wcn36xx_smd_delete_sta_context_ind_def Let_def ind_frame_def)

inductive ind_step :: "platform \<Rightarrow> wcn36xx \<Rightarrow> wcn36xx \<Rightarrow> bool" for P where
  arrives: "2 \<le> length pkt \<Longrightarrow> is_ind pkt \<Longrightarrow> wcn36xx_smd_rsp_process P pkt w = Some w' \<Longrightarrow> ind_step P w w'"
| runs: "hal_ind_work_pending w \<Longrightarrow>
     wcn36xx_ind_smd_work P (w\<lparr> hal_ind_work_pending := False \<rparr>) = Some w' \<Longrightarrow> ind_step P w w'"

inductive_cases ind_stepE: "ind_step P w w'"

lemma ind_type_not_rsp: "is_ind pkt \<Longrightarrow> \<not> is_rsp pkt"
  by (auto simp: is_ind_def is_rsp_def ind_cases_def rsp_cases_def)

lemma ind_step_inv: "ind_step P w w' \<Longrightarrow> ind_inv w \<Longrightarrow> ind_inv w'"
proof (erule ind_stepE)
  fix pkt assume "ind_inv w" "2 \<le> length pkt" "is_ind pkt" "wcn36xx_smd_rsp_process P pkt w = Some w'"
  then show "ind_inv w'"
    using ind_type_not_rsp [of pkt]
    by (auto simp: wcn36xx_smd_rsp_process_def ind_enqueue_def Let_def ind_inv_def split: if_splits)
next
  assume inv: "ind_inv w" and "hal_ind_work_pending w"
    and run: "wcn36xx_ind_smd_work P (w\<lparr> hal_ind_work_pending := False \<rparr>) = Some w'"
  then show "ind_inv w'"
    using handle_ind_frame [of "w\<lparr> hal_ind_work_pending := False \<rparr>" P]
    by (auto simp: wcn36xx_ind_smd_work_def Let_def ind_inv_def ind_frame_def split: list.splits if_splits)
qed

text \<open>C15: From an opened channel on, in any interleaving of arriving indications and runs of the work
  item, the work never runs on an empty queue and never faults, whatever the firmware sends.\<close>

theorem ind_work_never_faults:
  assumes "wcn36xx_smd_open P w0 = (0, w1)" and "(ind_step P)\<^sup>*\<^sup>* w1 w" and "hal_ind_work_pending w"
  shows "\<exists>w'. wcn36xx_ind_smd_work P (w\<lparr> hal_ind_work_pending := False \<rparr>) = Some w' \<and>
           hal_ind_queue w' = tl (hal_ind_queue w)"
proof -
  have "ind_inv w1"
    using assms(1) by (auto simp: wcn36xx_smd_open_def Let_def ind_inv_def split: if_splits)
  with assms(2) have "ind_inv w"
    by (induction rule: rtranclp_induct) (auto intro: ind_step_inv)
  with assms(3) obtain m q where q: "hal_ind_queue w = m # q" "2 \<le> length m"
    by (cases "hal_ind_queue w") (auto simp: ind_inv_def)
  then show ?thesis
    using handle_ind_frame [of "w\<lparr> hal_ind_work_pending := False \<rparr>" P m]
    by (simp add: wcn36xx_ind_smd_work_def Let_def ind_frame_def)
qed

definition compl_ind :: "u8 list" where
  "compl_ind = wcn36xx_hal_msg_header (ind_type HAL_OTA_TX_COMPL_IND) 0 12 @ le32 1"

lemma compl_ind_facts: "length compl_ind = 12" "is_ind compl_ind" "msg_type_of compl_ind = 130"
  by (simp_all add: compl_ind_def is_ind_def msg_type_of_def wcn36xx_hal_msg_header_def ind_cases_def)

theorem ind_work_never_faults_witness:
  "\<exists>w w'. hal_ind_work_pending w \<and>
     wcn36xx_ind_smd_work sample_platform (w\<lparr> hal_ind_work_pending := False \<rparr>) = Some w' \<and>
     hal_ind_queue w' = tl (hal_ind_queue w)"
proof -
  let ?w1 = "snd (wcn36xx_smd_open sample_platform sample_wcn)"
  have open1: "wcn36xx_smd_open sample_platform sample_wcn = (0, ?w1)" "hal_ind_wq ?w1"
    by (simp_all add: wcn36xx_smd_open_def sample_platform_def Let_def)
  then obtain w where w: "wcn36xx_smd_rsp_process sample_platform compl_ind ?w1 = Some w" "hal_ind_work_pending w"
    using ind_type_not_rsp [OF compl_ind_facts(2)] compl_ind_facts
    by (simp add: wcn36xx_smd_rsp_process_def ind_enqueue_def Let_def) (simp add: sample_platform_def)
  then have "(ind_step sample_platform)\<^sup>*\<^sup>* ?w1 w"
    using arrives [of compl_ind sample_platform ?w1 w] compl_ind_facts by auto
  from ind_work_never_faults [OF open1(1) this w(2)] w(2) show ?thesis by blast
qed

lemma smd_deliver_inds:
  assumes "\<forall>pkt \<in> set pkts. 2 \<le> length pkt \<and> is_ind pkt" and "\<forall>l n. p_alloc P l n"
    and "hal_ind_wq w"
  shows "\<exists>w'. smd_deliver P pkts w = Some w' \<and> hal_ind_queue w' = hal_ind_queue w @ pkts \<and>
           hal_ind_wq w' \<and> (hal_ind_work_pending w' \<longleftrightarrow> hal_ind_work_pending w \<or> pkts \<noteq> [])"
  using assms
proof (induction pkts arbitrary: w)
  case Nil
  then show ?case by simp
next
  case (Cons pkt pkts)
  then obtain w1 where "wcn36xx_smd_rsp_process P pkt (emit (SmdRx pkt) w) = Some w1"
    "hal_ind_queue w1 = hal_ind_queue w @ [pkt]" "hal_ind_wq w1" "hal_ind_work_pending w1"
    using ind_type_not_rsp [of pkt] by (simp add: wcn36xx_smd_rsp_process_def ind_enqueue_def Let_def)
  with Cons.IH [of w1] Cons.prems show ?case by auto
qed

text \<open>C21: Indications that arrive before the work item runs are handled by one run, which takes only the
  oldest: the others stay in the queue and no work is pending for them, until another indication
  arrives.\<close>

theorem ind_work_coalesces:
  assumes "\<forall>pkt \<in> set (m # rest). 2 \<le> length pkt \<and> is_ind pkt" and "\<forall>l n. p_alloc P l n"
    and "hal_ind_wq w" and "hal_ind_queue w = []"
  shows "\<exists>w1 w2. smd_deliver P (m # rest) w = Some w1 \<and> hal_ind_work_pending w1 \<and>
           wcn36xx_ind_smd_work P (w1\<lparr> hal_ind_work_pending := False \<rparr>) = Some w2 \<and>
           hal_ind_queue w2 = rest \<and> \<not> hal_ind_work_pending w2"
proof -
  from smd_deliver_inds [OF assms(1-3)] obtain w1 where
    1: "smd_deliver P (m # rest) w = Some w1" "hal_ind_queue w1 = m # rest" "hal_ind_work_pending w1"
    using assms(4) by auto
  have "2 \<le> length m" using assms(1) by simp
  with 1(2) have "wcn36xx_ind_smd_work P (w1\<lparr> hal_ind_work_pending := False \<rparr>) =
      Some ((handle_ind P m (w1\<lparr> hal_ind_work_pending := False \<rparr>))\<lparr> hal_ind_queue := rest \<rparr>)"
    using handle_ind_frame [of "w1\<lparr> hal_ind_work_pending := False \<rparr>" P m]
    by (simp add: wcn36xx_ind_smd_work_def Let_def ind_frame_def)
  with 1 handle_ind_frame [of "w1\<lparr> hal_ind_work_pending := False \<rparr>" P m] show ?thesis
    by (auto simp: ind_frame_def)
qed

theorem ind_work_coalesces_witness:
  "\<exists>w1 w2. smd_deliver sample_platform [compl_ind, compl_ind] sample_wcn = Some w1 \<and>
     wcn36xx_ind_smd_work sample_platform (w1\<lparr> hal_ind_work_pending := False \<rparr>) = Some w2 \<and>
     length (hal_ind_queue w2) = 1 \<and> \<not> hal_ind_work_pending w2"
  using ind_work_coalesces [of compl_ind "[compl_ind]" sample_platform sample_wcn] compl_ind_facts
  by (fastforce simp: sample_platform_def sample_wcn_def)

lemma connection_loss_all_klog: "klog (connection_loss_all vs w) = rev (map ConnectionLoss vs) @ klog w"
  by (induction vs arbitrary: w) simp_all

lemma connection_loss_bss_find:
  "connection_loss_bss i vs w =
     (case find (\<lambda>v. bss_index (vif_priv w v) = i) vs of
        None \<Rightarrow> (- ENOENT, w) | Some v \<Rightarrow> (0, emit (ConnectionLoss v) w))"
  by (induction vs) auto

lemma find_some_member: "find Q xs = Some x \<Longrightarrow> x \<in> set xs \<and> Q x"
  by (induction xs) (auto split: if_splits)

text \<open>A missed-beacon indication: firmware 1.2.2.24 sends no BSS index and every interface is
  reported lost, in list order; other firmware's indication reports the first interface with its
  BSS index and no other, and is refused when it has another length or names no interface.\<close>

theorem missed_beacon_spec:
  "klog (snd (wcn36xx_smd_missed_beacon_ind buf w)) =
     (if wcn36xx_is_fw_version w 1 2 2 24 then rev (map ConnectionLoss (vif_list w))
      else if length buf \<noteq> 9 then []
      else case find (\<lambda>v. bss_index (vif_priv w v) = buf ! 8) (vif_list w) of
             None \<Rightarrow> [] | Some v \<Rightarrow> [ConnectionLoss v]) @ klog w \<and>
   fst (wcn36xx_smd_missed_beacon_ind buf w) =
     (if wcn36xx_is_fw_version w 1 2 2 24 then 0
      else if length buf \<noteq> 9 then - EIO
      else if \<exists>v \<in> set (vif_list w). bss_index (vif_priv w v) = buf ! 8 then 0 else - ENOENT)"
  by (auto simp: wcn36xx_smd_missed_beacon_ind_def connection_loss_all_klog connection_loss_bss_find
      find_None_iff dest: find_some_member split: option.split)

end
