(* ===== verification/Mac.thy ===== *)
theory Mac
  imports Mac_Tables Pmc Smd_Ind
begin

text \<open>
  The operations mac80211 calls (\<^verbatim>\<open>wcn36xx_ops\<close> in \<^verbatim>\<open>main.c\<close>), but for start, stop and transmission,
  which have their own theories. The results of the HAL commands are dropped where the code drops
  them, which is nearly everywhere.
\<close>

abbreviation (input) EOPNOTSUPP :: int where "EOPNOTSUPP \<equiv> 95"

text \<open>A command whose result is not looked at.\<close>

definition ignore :: "(int \<times> wcn36xx) option \<Rightarrow> wcn36xx option" where
  "ignore r = map_option snd r"

definition get_sta_index :: "wcn36xx \<Rightarrow> nat \<Rightarrow> nat \<Rightarrow> u8" where
  "get_sta_index w v s =
     (if vif_type (vifs w v) = NL80211_IFTYPE_STATION
      then bss_sta_index (sta_priv w s) else sta_index (sta_priv w s))"

section \<open>Channel and filter\<close>

fun switch_channels :: "platform \<Rightarrow> int \<Rightarrow> nat list \<Rightarrow> wcn36xx \<Rightarrow> wcn36xx option" where
  "switch_channels P ch [] w = Some w"
| "switch_channels P ch (v # vs) w = do {
     w \<leftarrow> ignore (wcn36xx_smd_switch_channel P v ch w);
     switch_channels P ch vs w }"

abbreviation (input) IEEE80211_CONF_CHANGE_CHANNEL :: u32 where "IEEE80211_CONF_CHANGE_CHANNEL \<equiv> 0x40"

definition wcn36xx_config :: "platform \<Rightarrow> u32 \<Rightarrow> wcn36xx \<Rightarrow> (int \<times> wcn36xx) option" where
  "wcn36xx_config P changed w = do {
     w \<leftarrow> (if changed AND IEEE80211_CONF_CHANGE_CHANNEL \<noteq> 0
          then switch_channels P (int (unat (conf_hw_value (hw_conf w)))) (vif_list w) w else Some w);
     Some (0, w) }"

abbreviation (input) FIF_PROMISC_IN_BSS :: u32 where "FIF_PROMISC_IN_BSS \<equiv> 1"
abbreviation (input) FIF_ALLMULTI :: u32 where "FIF_ALLMULTI \<equiv> 2"
abbreviation (input) WCN36XX_SUPPORTED_FILTERS :: u32 where
  "WCN36XX_SUPPORTED_FILTERS \<equiv> FIF_PROMISC_IN_BSS OR FIF_ALLMULTI"

fun set_mc_lists :: "platform \<Rightarrow> u32 \<Rightarrow> wcn36xx_hal_rcv_flt_mc_addr_list_type option \<Rightarrow> nat list
     \<Rightarrow> wcn36xx \<Rightarrow> wcn36xx option" where
  "set_mc_lists P flags fp [] w = Some w"
| "set_mc_lists P flags fp (v # vs) w = do {
     w \<leftarrow> (if flags AND (FIF_ALLMULTI OR FIF_PROMISC_IN_BSS) \<noteq> 0
          then ignore (wcn36xx_smd_set_mc_list P v None w)
          else if vif_type (vifs w v) = NL80211_IFTYPE_STATION \<and> sta_assoc (vif_priv w v)
          then ignore (wcn36xx_smd_set_mc_list P v fp w)
          else Some w);
     set_mc_lists P flags fp vs w }"

text \<open>The list is the one \<open>wcn36xx_prepare_multicast\<close> allocated, \<open>None\<close> the null pointer. The new filter
  flags are returned.\<close>

definition wcn36xx_configure_filter ::
  "platform \<Rightarrow> u32 \<Rightarrow> wcn36xx_hal_rcv_flt_mc_addr_list_type option \<Rightarrow> wcn36xx
     \<Rightarrow> (u32 \<times> wcn36xx) option" where
  "wcn36xx_configure_filter P flags fp w =
     (let flags = flags AND WCN36XX_SUPPORTED_FILTERS in do {
        w \<leftarrow> set_mc_lists P flags fp (vif_list w) w;
        Some (flags, emit FreeMcList w) })"

definition wcn36xx_prepare_multicast :: "platform \<Rightarrow> u8 list list \<Rightarrow> wcn36xx
     \<Rightarrow> wcn36xx_hal_rcv_flt_mc_addr_list_type option \<times> wcn36xx" where
  "wcn36xx_prepare_multicast P mc_list w =
     (let ok = p_alloc P (klog w) sizeof_mc_addr_list_type; w = emit (Kmalloc sizeof_mc_addr_list_type) w;
          addrs = (if length mc_list \<le> WCN36XX_HAL_MAX_NUM_MULTICAST_ADDRESS then mc_list else [])
      in if \<not> ok then (None, w)
         else (Some \<lparr> data_offset = 0, mc_addr_count = of_nat (length addrs), mc_addr = addrs,
                      mc_bss_index = 0 \<rparr>, w))"

section \<open>Keys\<close>

datatype set_key_cmd = SET_KEY | DISABLE_KEY | OTHER_KEY_CMD

record ieee80211_key_conf =
  key_cipher :: u32
  key_keyidx :: u8
  key_keylen :: u8
  key_key :: "u8 list"
  key_pairwise :: bool

abbreviation (input) WLAN_CIPHER_SUITE_WEP40 :: u32 where "WLAN_CIPHER_SUITE_WEP40 \<equiv> 0x000FAC01"
abbreviation (input) WLAN_CIPHER_SUITE_TKIP :: u32 where "WLAN_CIPHER_SUITE_TKIP \<equiv> 0x000FAC02"
abbreviation (input) WLAN_CIPHER_SUITE_CCMP :: u32 where "WLAN_CIPHER_SUITE_CCMP \<equiv> 0x000FAC04"
abbreviation (input) WLAN_CIPHER_SUITE_WEP104 :: u32 where "WLAN_CIPHER_SUITE_WEP104 \<equiv> 0x000FAC05"
abbreviation (input) WLAN_MAX_KEY_LEN :: nat where "WLAN_MAX_KEY_LEN \<equiv> 32"

definition cipher_type :: "u32 \<Rightarrow> ani_ed_type option" where
  "cipher_type c =
     (if c = WLAN_CIPHER_SUITE_WEP40 then Some WCN36XX_HAL_ED_WEP40
      else if c = WLAN_CIPHER_SUITE_WEP104 then Some WCN36XX_HAL_ED_WEP40
      else if c = WLAN_CIPHER_SUITE_CCMP then Some WCN36XX_HAL_ED_CCMP
      else if c = WLAN_CIPHER_SUITE_TKIP then Some WCN36XX_HAL_ED_TKIP
      else None)"

text \<open>The bytes written into the \<^verbatim>\<open>key\<close> array of 32 bytes: a TKIP key with its two MIC keys exchanged.\<close>

definition key_array :: "ani_ed_type \<Rightarrow> ieee80211_key_conf \<Rightarrow> u8 list option" where
  "key_array et kc =
     (if et = WCN36XX_HAL_ED_TKIP then do {
        tk \<leftarrow> buf_read (key_key kc) 0 16;
        rx \<leftarrow> buf_read (key_key kc) 24 8;
        tx \<leftarrow> buf_read (key_key kc) 16 8;
        Some (tk @ rx @ tx) }
      else if unat (key_keylen kc) > WLAN_MAX_KEY_LEN then None
      else buf_read (key_key kc) 0 (unat (key_keylen kc)))"

text \<open>The private data of a station is reached through the station: there is none without one.\<close>

definition install_sta_key :: "platform \<Rightarrow> nat \<Rightarrow> nat \<Rightarrow> ieee80211_key_conf \<Rightarrow> u8 list \<Rightarrow> wcn36xx
     \<Rightarrow> wcn36xx option" where
  "install_sta_key P v s kc key w =
     ignore (wcn36xx_smd_set_stakey P (encrypt_type (vif_priv w v)) (key_keyidx kc) (key_keylen kc) key
       (get_sta_index w v s) w)"

definition set_data_encrypted :: "nat \<Rightarrow> bool \<Rightarrow> wcn36xx \<Rightarrow> wcn36xx" where
  "set_data_encrypted s b w = set_sta_priv s (\<lambda>sp. sp\<lparr> is_data_encrypted := b \<rparr>) w"

definition install_pairwise_key :: "platform \<Rightarrow> nat \<Rightarrow> nat \<Rightarrow> ieee80211_key_conf \<Rightarrow> u8 list \<Rightarrow> wcn36xx
     \<Rightarrow> wcn36xx option" where
  "install_pairwise_key P v s kc key w =
     (let w = set_data_encrypted s True w in do {
        w \<leftarrow> (if vif_type (vifs w v) = NL80211_IFTYPE_STATION
             then ignore (wcn36xx_smd_config_bss P v (Some s) (sta_addr (stas w s)) True w)
             else Some w);
        install_sta_key P v s kc key w })"

definition install_group_key :: "platform \<Rightarrow> nat \<Rightarrow> nat option \<Rightarrow> ieee80211_key_conf \<Rightarrow> u8 list \<Rightarrow> wcn36xx
     \<Rightarrow> wcn36xx option" where
  "install_group_key P v sta kc key w = do {
     w \<leftarrow> ignore (wcn36xx_smd_set_bsskey P (encrypt_type (vif_priv w v)) (key_keyidx kc)
                    (key_keylen kc) key w);
     if key_cipher kc = WLAN_CIPHER_SUITE_WEP40 \<or> key_cipher kc = WLAN_CIPHER_SUITE_WEP104
     then do {
       s \<leftarrow> sta;
       install_sta_key P v s kc key (set_data_encrypted s True w) }
     else Some w }"

definition disable_key :: "platform \<Rightarrow> nat \<Rightarrow> nat option \<Rightarrow> ieee80211_key_conf \<Rightarrow> wcn36xx \<Rightarrow> wcn36xx option" where
  "disable_key P v sta kc w =
     (if \<not> key_pairwise kc
      then (let w = set_vif_priv v (\<lambda>vp. vp\<lparr> encrypt_type := WCN36XX_HAL_ED_NONE \<rparr>) w
            in ignore (wcn36xx_smd_remove_bsskey P (encrypt_type (vif_priv w v)) (key_keyidx kc) w))
      else do {
        s \<leftarrow> sta;
        let w = set_data_encrypted s False w;
        if sp_aid (sta_priv w s) \<noteq> 0
        then ignore (wcn36xx_smd_remove_stakey P (encrypt_type (vif_priv w v)) (key_keyidx kc)
                       (get_sta_index w v s) w)
        else Some w })"

definition wcn36xx_set_key :: "platform \<Rightarrow> set_key_cmd \<Rightarrow> nat \<Rightarrow> nat option \<Rightarrow> ieee80211_key_conf \<Rightarrow> wcn36xx
     \<Rightarrow> (int \<times> wcn36xx) option" where
  "wcn36xx_set_key P cmd v sta kc w =
     (case cipher_type (key_cipher kc) of
        None \<Rightarrow> Some (- EOPNOTSUPP, w)
      | Some et \<Rightarrow>
          (let w = set_vif_priv v (\<lambda>vp. vp\<lparr> encrypt_type := et \<rparr>) w
           in case cmd of
                SET_KEY \<Rightarrow> do {
                  key \<leftarrow> key_array et kc;
                  w \<leftarrow> (if key_pairwise kc then do { s \<leftarrow> sta; install_pairwise_key P v s kc key w }
                       else install_group_key P v sta kc key w);
                  Some (0, w) }
              | DISABLE_KEY \<Rightarrow> do { w \<leftarrow> disable_key P v sta kc w; Some (0, w) }
              | OTHER_KEY_CMD \<Rightarrow> Some (- EOPNOTSUPP, w)))"

section \<open>Scanning, interfaces and stations\<close>

definition wcn36xx_sw_scan_start :: "platform \<Rightarrow> wcn36xx \<Rightarrow> wcn36xx option" where
  "wcn36xx_sw_scan_start P w = do {
     w \<leftarrow> ignore (wcn36xx_smd_init_scan P HAL_SYS_MODE_SCAN w);
     ignore (wcn36xx_smd_start_scan P w) }"

definition wcn36xx_sw_scan_complete :: "platform \<Rightarrow> wcn36xx \<Rightarrow> wcn36xx option" where
  "wcn36xx_sw_scan_complete P w = do {
     w \<leftarrow> ignore (wcn36xx_smd_end_scan P w);
     ignore (wcn36xx_smd_finish_scan P HAL_SYS_MODE_SCAN w) }"

abbreviation (input) WCN36XX_HAL_CFG_RTS_THRESHOLD :: u32 where "WCN36XX_HAL_CFG_RTS_THRESHOLD \<equiv> 11"

definition wcn36xx_set_rts_threshold :: "platform \<Rightarrow> u32 \<Rightarrow> wcn36xx \<Rightarrow> (int \<times> wcn36xx) option" where
  "wcn36xx_set_rts_threshold P value w = do {
     w \<leftarrow> ignore (wcn36xx_smd_update_cfg P WCN36XX_HAL_CFG_RTS_THRESHOLD value w);
     Some (0, w) }"

text \<open>Taking an interface off a list it is not on, or putting it on twice, breaks the list.\<close>

definition wcn36xx_remove_interface :: "platform \<Rightarrow> nat \<Rightarrow> wcn36xx \<Rightarrow> wcn36xx option" where
  "wcn36xx_remove_interface P v w =
     (if v \<notin> set (vif_list w) then None
      else (let w = w\<lparr> vif_list := remove1 v (vif_list w) \<rparr>
            in ignore (wcn36xx_smd_delete_sta_self P (vif_addr (vifs w v)) w)))"

definition wcn36xx_add_interface :: "platform \<Rightarrow> nat \<Rightarrow> wcn36xx \<Rightarrow> (int \<times> wcn36xx) option" where
  "wcn36xx_add_interface P v w =
     (if vif_type (vifs w v) \<notin> {NL80211_IFTYPE_STATION, NL80211_IFTYPE_AP, NL80211_IFTYPE_ADHOC,
           NL80211_IFTYPE_MESH_POINT}
      then Some (- EOPNOTSUPP, w)
      else if v \<in> set (vif_list w) then None
      else (let w = w\<lparr> vif_list := v # vif_list w \<rparr> in do {
        w \<leftarrow> ignore (wcn36xx_smd_add_sta_self P v w);
        Some (0, w) }))"

definition wcn36xx_sta_add :: "platform \<Rightarrow> nat \<Rightarrow> nat \<Rightarrow> wcn36xx \<Rightarrow> (int \<times> wcn36xx) option" where
  "wcn36xx_sta_add P v s w =
     (let w = set_sta_priv s (\<lambda>sp. sp\<lparr> sp_vif := Some v \<rparr>) w in do {
        w \<leftarrow> (if vif_type (vifs w v) \<noteq> NL80211_IFTYPE_STATION
             then (let w = wcn36xx_update_allowed_rates s (conf_band (hw_conf w)) w;
                       w = set_sta_priv s (\<lambda>sp. sp\<lparr> sp_aid := sta_aid (stas w s) \<rparr>) w
                   in ignore (wcn36xx_smd_config_sta P v s w))
             else Some w);
        Some (0, w) })"

definition wcn36xx_sta_remove :: "platform \<Rightarrow> nat \<Rightarrow> nat \<Rightarrow> wcn36xx \<Rightarrow> (int \<times> wcn36xx) option" where
  "wcn36xx_sta_remove P v s w = do {
     w \<leftarrow> ignore (wcn36xx_smd_delete_sta P (sta_index (sta_priv w s)) w);
     Some (0, set_sta_priv s (\<lambda>sp. sp\<lparr> sp_vif := None \<rparr>) w) }"

text \<open>Flushing a work queue runs the work that is pending on it.\<close>

definition flush_ind_wq :: "platform \<Rightarrow> wcn36xx \<Rightarrow> wcn36xx option" where
  "flush_ind_wq P w =
     (if \<not> hal_ind_wq w then None
      else (let w = emit FlushWq w
            in if hal_ind_work_pending w
               then wcn36xx_ind_smd_work P (w\<lparr> hal_ind_work_pending := False \<rparr>) else Some w))"

definition wcn36xx_suspend :: "platform \<Rightarrow> wcn36xx \<Rightarrow> (int \<times> wcn36xx) option" where
  "wcn36xx_suspend P w = do {
     w \<leftarrow> flush_ind_wq P w;
     w \<leftarrow> ignore (wcn36xx_smd_set_power_params P True w);
     Some (0, w) }"

definition wcn36xx_resume :: "platform \<Rightarrow> wcn36xx \<Rightarrow> (int \<times> wcn36xx) option" where
  "wcn36xx_resume P w = do {
     w \<leftarrow> flush_ind_wq P w;
     w \<leftarrow> ignore (wcn36xx_smd_set_power_params P False w);
     Some (0, w) }"

section \<open>Block acknowledgement\<close>

datatype ieee80211_ampdu_mlme_action =
    IEEE80211_AMPDU_RX_START | IEEE80211_AMPDU_RX_STOP | IEEE80211_AMPDU_TX_START
  | IEEE80211_AMPDU_TX_STOP_CONT | IEEE80211_AMPDU_TX_STOP_FLUSH
  | IEEE80211_AMPDU_TX_STOP_FLUSH_CONT | IEEE80211_AMPDU_TX_OPERATIONAL

definition set_ampdu_state :: "nat \<Rightarrow> u16 \<Rightarrow> wcn36xx_ampdu_state \<Rightarrow> wcn36xx \<Rightarrow> wcn36xx" where
  "set_ampdu_state s tid st w =
     set_sta_priv s (\<lambda>sp. sp\<lparr> ampdu_state := (ampdu_state sp)(unat tid := st) \<rparr>) w"

text \<open>\<open>ampdu_state\<close> is an array of 16.\<close>

definition ampdu_rx_start :: "platform \<Rightarrow> nat \<Rightarrow> nat \<Rightarrow> u16 \<Rightarrow> u16 option \<Rightarrow> wcn36xx \<Rightarrow> wcn36xx option" where
  "ampdu_rx_start P v s tid ssn w =
     (let w = set_sta_priv s (\<lambda>sp. sp\<lparr> sp_tid := tid \<rparr>) w in do {
        w \<leftarrow> ignore (wcn36xx_smd_add_ba_session P s tid ssn 0 (get_sta_index w v s) w);
        w \<leftarrow> ignore (wcn36xx_smd_add_ba P w);
        ignore (wcn36xx_smd_trigger_ba P (get_sta_index w v s) w) })"

definition wcn36xx_ampdu_action :: "platform \<Rightarrow> nat \<Rightarrow> ieee80211_ampdu_mlme_action \<Rightarrow> nat \<Rightarrow> u16
     \<Rightarrow> u16 option \<Rightarrow> wcn36xx \<Rightarrow> (int \<times> wcn36xx) option" where
  "wcn36xx_ampdu_action P v action s tid ssn w = do {
     w \<leftarrow> (if action = IEEE80211_AMPDU_RX_START then ampdu_rx_start P v s tid ssn w
          else if action = IEEE80211_AMPDU_RX_STOP
          then ignore (wcn36xx_smd_del_ba P tid (get_sta_index w v s) w)
          else if unat tid \<ge> 16 then None
          else if action = IEEE80211_AMPDU_TX_START
          then Some (emit (StartTxBaCb v (sta_addr (stas w s)) (unat tid))
                       (set_ampdu_state s tid WCN36XX_AMPDU_START w))
          else if action = IEEE80211_AMPDU_TX_OPERATIONAL
          then (let w = set_ampdu_state s tid WCN36XX_AMPDU_OPERATIONAL w
                in ignore (wcn36xx_smd_add_ba_session P s tid ssn 1 (get_sta_index w v s) w))
          else Some (emit (StopTxBaCb v (sta_addr (stas w s)) (unat tid))
                       (set_ampdu_state s tid WCN36XX_AMPDU_NONE w)));
     Some (0, w) }"

section \<open>Changes of a BSS\<close>

datatype bss_change =
    BSS_CHANGED_ASSOC | BSS_CHANGED_BSSID | BSS_CHANGED_SSID | BSS_CHANGED_BEACON
  | BSS_CHANGED_BEACON_ENABLED | BSS_CHANGED_BEACON_INFO | BSS_CHANGED_PS | BSS_CHANGED_AP_PROBE_RESP

record ieee80211_bss_conf =
  bc_bssid :: "u8 list"
  bc_ssid :: "u8 list"
  bc_ssid_len :: nat
  bc_assoc :: bool
  bc_aid :: u16
  bc_dtim_period :: u8
  bc_enable_beacon :: bool
  bc_ps :: bool

abbreviation (input) WCN36XX_HAL_BSS_INVALID_IDX :: u8 where "WCN36XX_HAL_BSS_INVALID_IDX \<equiv> 0xFF"

definition bss_changed_ps :: "platform \<Rightarrow> nat \<Rightarrow> ieee80211_bss_conf \<Rightarrow> wcn36xx \<Rightarrow> wcn36xx option" where
  "bss_changed_ps P v bc w =
     ignore (if bc_ps bc then wcn36xx_pmc_enter_bmps_state P v w else wcn36xx_pmc_exit_bmps_state P v w)"

definition bss_changed_bssid :: "platform \<Rightarrow> nat \<Rightarrow> ieee80211_bss_conf \<Rightarrow> wcn36xx \<Rightarrow> wcn36xx option" where
  "bss_changed_bssid P v bc w =
     (if \<not> is_zero_ether_addr (bc_bssid bc)
      then (let w = set_vif_priv v (\<lambda>vp. vp\<lparr> is_joining := True,
                      bss_index := WCN36XX_HAL_BSS_INVALID_IDX \<rparr>) w in do {
        w \<leftarrow> ignore (wcn36xx_smd_join P (bc_bssid bc) (vif_addr (vifs w v))
                       (ucast (conf_hw_value (hw_conf w))) w);
        ignore (wcn36xx_smd_config_bss P v None (bc_bssid bc) False w) })
      else do {
        w \<leftarrow> ignore (wcn36xx_smd_delete_bss P v (set_vif_priv v (\<lambda>vp. vp\<lparr> is_joining := False \<rparr>) w));
        Some (set_vif_priv v (\<lambda>vp. vp\<lparr> encrypt_type := WCN36XX_HAL_ED_NONE \<rparr>) w) })"

text \<open>The length is copied to a byte, the bytes to an array of 32.\<close>

definition bss_changed_ssid :: "nat \<Rightarrow> ieee80211_bss_conf \<Rightarrow> wcn36xx \<Rightarrow> wcn36xx option" where
  "bss_changed_ssid v bc w = do {
     bs \<leftarrow> buf_read (bc_ssid bc) 0 (bc_ssid_len bc);
     ss \<leftarrow> buf_write (ssid_bytes (vp_ssid (vif_priv w v))) 0 bs;
     Some (set_vif_priv v (\<lambda>vp. vp\<lparr> vp_ssid :=
       \<lparr> ssid_length = of_nat (bc_ssid_len bc), ssid_bytes = ss \<rparr> \<rparr>) w) }"

text \<open>The commands of an association with a known station, in order. The AID is stored before the
  last one, which sends it.\<close>

definition associate :: "platform \<Rightarrow> nat \<Rightarrow> nat \<Rightarrow> ieee80211_bss_conf \<Rightarrow> wcn36xx \<Rightarrow> wcn36xx option" where
  "associate P v s bc w = do {
     let w = wcn36xx_update_allowed_rates s (conf_band (hw_conf w)) w;
     w \<leftarrow> ignore (wcn36xx_smd_set_link_st P (bc_bssid bc) (vif_addr (vifs w v))
                    WCN36XX_HAL_LINK_POSTASSOC_STATE w);
     w \<leftarrow> ignore (wcn36xx_smd_config_bss P v (Some s) (bc_bssid bc) True w);
     let w = set_sta_priv s (\<lambda>sp. sp\<lparr> sp_aid := bc_aid bc \<rparr>) w;
     ignore (wcn36xx_smd_config_sta P v s w) }"

text \<open>The truth value says that the function goes on.\<close>

definition bss_changed_assoc :: "platform \<Rightarrow> nat \<Rightarrow> ieee80211_bss_conf \<Rightarrow> wcn36xx
     \<Rightarrow> (bool \<times> wcn36xx) option" where
  "bss_changed_assoc P v bc w =
     (let w = set_vif_priv v (\<lambda>vp. vp\<lparr> is_joining := False, sta_assoc := bc_assoc bc \<rparr>) w
      in if bc_assoc bc
         then (let sta = p_find_sta P (klog w) v (bc_bssid bc); w = emit (FindSta v (bc_bssid bc)) w
               in case sta of
                    None \<Rightarrow> Some (False, w)
                  | Some s \<Rightarrow> map_option (Pair True) (associate P v s bc w))
         else map_option (Pair True) (ignore (wcn36xx_smd_set_link_st P (bc_bssid bc)
                (vif_addr (vifs w v)) WCN36XX_HAL_LINK_IDLE_STATE w)))"

definition bss_changed_probe_resp :: "platform \<Rightarrow> nat \<Rightarrow> wcn36xx \<Rightarrow> (bool \<times> wcn36xx) option" where
  "bss_changed_probe_resp P v w =
     (let skb = p_proberesp_get P (klog w) v; w = emit (GetProbeResp v) w
      in case skb of
           None \<Rightarrow> Some (False, w)
         | Some skb \<Rightarrow> map_option (Pair True) (do {
             w \<leftarrow> ignore (wcn36xx_smd_update_proberesp_tmpl P v skb w);
             Some (emit FreeTmplSkb w) }))"

definition start_beaconing :: "platform \<Rightarrow> nat \<Rightarrow> ieee80211_bss_conf \<Rightarrow> wcn36xx \<Rightarrow> wcn36xx option" where
  "start_beaconing P v bc w = do {
     let w = set_vif_priv v (\<lambda>vp. vp\<lparr> vp_dtim_period := bc_dtim_period bc,
               bss_index := WCN36XX_HAL_BSS_INVALID_IDX \<rparr>) w;
     w \<leftarrow> ignore (wcn36xx_smd_config_bss P v None (vif_addr (vifs w v)) False w);
     let beacon = p_beacon_get_tim P (klog w) v;
     let w = emit (GetBeacon v) w;
     case beacon of
       None \<Rightarrow> Some w
     | Some (skb, tim_off, tim_len) \<Rightarrow> do {
         w \<leftarrow> ignore (wcn36xx_smd_send_beacon P v skb tim_off 0 w);
         let w = emit FreeTmplSkb w;
         let st = (if vif_type (vifs w v) = NL80211_IFTYPE_ADHOC \<or>
                      vif_type (vifs w v) = NL80211_IFTYPE_MESH_POINT
                   then WCN36XX_HAL_LINK_IBSS_STATE else WCN36XX_HAL_LINK_AP_STATE);
         ignore (wcn36xx_smd_set_link_st P (vif_addr (vifs w v)) (vif_addr (vifs w v)) st w) } }"

definition bss_changed_beacon :: "platform \<Rightarrow> nat \<Rightarrow> ieee80211_bss_conf \<Rightarrow> wcn36xx \<Rightarrow> wcn36xx option" where
  "bss_changed_beacon P v bc w =
     (if bc_enable_beacon bc then start_beaconing P v bc w
      else do {
        w \<leftarrow> ignore (wcn36xx_smd_set_link_st P (vif_addr (vifs w v)) (vif_addr (vifs w v))
                       WCN36XX_HAL_LINK_IDLE_STATE w);
        ignore (wcn36xx_smd_delete_bss P v w) })"

definition on_change :: "bool \<Rightarrow> (wcn36xx \<Rightarrow> wcn36xx option) \<Rightarrow> wcn36xx \<Rightarrow> wcn36xx option" where
  "on_change b f w = (if b then f w else Some w)"

definition on_change_go :: "bool \<Rightarrow> (wcn36xx \<Rightarrow> (bool \<times> wcn36xx) option) \<Rightarrow> wcn36xx
     \<Rightarrow> (wcn36xx \<Rightarrow> wcn36xx option) \<Rightarrow> wcn36xx option" where
  "on_change_go b f w k =
     (if b then do { (go, w) \<leftarrow> f w; if go then k w else Some w } else k w)"

definition wcn36xx_bss_info_changed :: "platform \<Rightarrow> nat \<Rightarrow> ieee80211_bss_conf \<Rightarrow> bss_change set \<Rightarrow> wcn36xx
     \<Rightarrow> wcn36xx option" where
  "wcn36xx_bss_info_changed P v bc changed w = do {
     w \<leftarrow> on_change (BSS_CHANGED_BEACON_INFO \<in> changed)
            (\<lambda>w. Some (set_vif_priv v (\<lambda>vp. vp\<lparr> vp_dtim_period := bc_dtim_period bc \<rparr>) w)) w;
     w \<leftarrow> on_change (BSS_CHANGED_PS \<in> changed) (bss_changed_ps P v bc) w;
     w \<leftarrow> on_change (BSS_CHANGED_BSSID \<in> changed) (bss_changed_bssid P v bc) w;
     w \<leftarrow> on_change (BSS_CHANGED_SSID \<in> changed) (bss_changed_ssid v bc) w;
     on_change_go (BSS_CHANGED_ASSOC \<in> changed) (bss_changed_assoc P v bc) w (\<lambda>w.
       on_change_go (BSS_CHANGED_AP_PROBE_RESP \<in> changed) (bss_changed_probe_resp P v) w (\<lambda>w.
         on_change (BSS_CHANGED_BEACON_ENABLED \<in> changed \<or> BSS_CHANGED_BEACON \<in> changed)
           (bss_changed_beacon P v bc) w)) }"

end
