(* ===== verification/Mac_Safe.thy ===== *)
theory Mac_Safe
  imports Mac
begin

text \<open>
  The operations of mac80211 do not fault, whatever order they are called in and whatever the
  firmware answers, and what they say to the firmware: the commands of each operation, in order.
\<close>

section \<open>Runs and the commands they emit\<close>

text \<open>A view of the driver: the messages sent so far and what the operations leave alone, which is what
  mac80211 owns and the DMA engine with its memory. \<open>emits l cs r\<close>: the result
  \<open>r\<close> of an operation that began with the view \<open>l\<close> is a driver ready for the next operation, the
  messages sent since are one per command of \<open>cs\<close>, in order, and the rest of the view is the same.\<close>

datatype view =
  View (v_sent: "u8 list list")
    (v_mac: "((nat \<Rightarrow> ieee80211_vif) \<times> (nat \<Rightarrow> ieee80211_sta) \<times> ieee80211_conf) \<times>
      (wcn36xx_dxe_ch_type \<Rightarrow> wcn36xx_dxe_ch) \<times> (nat \<Rightarrow> u8 list option) \<times> nat \<times> wcn36xx_dxe_mem_pool \<times> wcn36xx_dxe_mem_pool \<times>
      u8 list option \<times> nat \<times> (nat \<Rightarrow> u8 list \<times> nat \<times> nat \<times> bool)")

definition mview :: "wcn36xx \<Rightarrow> view" where
  "mview w = View (smd_sent (klog w)) ((vifs w, stas w, hw_conf w),
     dxe_ch w, dma_mem w, dma_brk w, mgmt_mem_pool w, data_mem_pool w, nv w,
     skb_brk w, skb_view \<circ> skbs w)"

definition emits :: "view \<Rightarrow> hal_cmd list \<Rightarrow> wcn36xx option \<Rightarrow> bool" where
  "emits l cs r \<longleftrightarrow> (\<exists>w ms. r = Some w \<and> hal_ready w \<and> mview w = View (v_sent l @ ms) (v_mac l) \<and> list_all2 hal_msg_ok cs ms)"

definition runs_ok :: "view \<Rightarrow> wcn36xx option \<Rightarrow> bool" where
  "runs_ok l r \<longleftrightarrow> (\<exists>cs. emits l cs r)"

lemma emits_runs: "emits l cs r \<Longrightarrow> runs_ok l r"
  by (auto simp: runs_ok_def)

lemma emits_Some: "hal_ready w \<Longrightarrow> mview w = l \<Longrightarrow> emits l [] (Some w)"
  by (auto simp: emits_def)

lemma runs_Some: "hal_ready w \<Longrightarrow> mview w = l \<Longrightarrow> runs_ok l (Some w)"
  using emits_Some emits_runs by blast

lemma emits_bind:
  assumes "emits l cs1 r" and "\<And>w. r = Some w \<Longrightarrow> hal_ready w \<Longrightarrow> v_mac (mview w) = v_mac l \<Longrightarrow> emits (mview w) cs2 (k w)"
  shows "emits l (cs1 @ cs2) (r \<bind> k)"
proof -
  from assms(1) obtain w1 ms1 where 1: "r = Some w1" "hal_ready w1" "mview w1 = View (v_sent l @ ms1) (v_mac l)"
    "list_all2 hal_msg_ok cs1 ms1" by (auto simp: emits_def)
  then have "v_mac (mview w1) = v_mac l" by simp
  from assms(2) [OF 1(1,2) this] obtain w2 ms2 where 2: "k w1 = Some w2" "hal_ready w2"
    "mview w2 = View (v_sent l @ ms1 @ ms2) (v_mac l)" "list_all2 hal_msg_ok cs2 ms2"
    using 1(3) by (auto simp: emits_def)
  from 1 2 show ?thesis
    by (auto simp: emits_def intro!: exI [of _ "ms1 @ ms2"] list_all2_appendI)
qed

lemma runs_bind:
  assumes "runs_ok l r" and "\<And>w. hal_ready w \<Longrightarrow> v_mac (mview w) = v_mac l \<Longrightarrow> runs_ok (mview w) (k w)"
  shows "runs_ok l (r \<bind> k)"
proof -
  from assms(1) obtain cs1 w1 ms1 where 1: "r = Some w1" "hal_ready w1" "emits l cs1 r"
    "v_mac (mview w1) = v_mac l"
    by (auto simp: runs_ok_def emits_def)
  from assms(2) [OF 1(2,4)] obtain cs2 where "emits (mview w1) cs2 (k w1)" by (auto simp: runs_ok_def)
  with 1 have "emits l (cs1 @ cs2) (r \<bind> k)" by (intro emits_bind) auto
  then show ?thesis by (rule emits_runs)
qed

lemma emits_ignore:
  assumes "op_posts c f" "hal_ready w" "mview w = l"
  shows "emits l [c] (ignore (f w))"
proof -
  from op_postsD [OF assms(1,2)] obtain r w' m where
    "f w = Some (r, w')" "hal_ready w'" "smd_sent (klog w') = smd_sent (klog w) @ [m]" "hal_msg_ok c m"
    "same_mac w w'" .
  with assms(3) show ?thesis by (auto simp: emits_def ignore_def mview_def same_mac_def)
qed

lemma runs_ignore:
  assumes "op_sends c f" "hal_ready w" "mview w = l"
  shows "runs_ok l (ignore (f w))"
proof -
  from op_sendsD [OF assms(1,2)] obtain r w' ms where 1:
    "f w = Some (r, w')" "hal_ready w'" "smd_sent (klog w') = smd_sent (klog w) @ ms" "length ms \<le> 1"
    "list_all (hal_msg_ok c) ms" "same_mac w w'" .
  then have "list_all2 hal_msg_ok (replicate (length ms) c) ms"
    by (auto simp: list_all2_conv_all_nth list_all_length)
  with 1 assms(3) show ?thesis by (auto simp: runs_ok_def emits_def ignore_def mview_def same_mac_def)
qed

lemma ignore_simps [simp]:
  "ignore (Some (r, w)) = Some w" "ignore None = None"
  "ignore (r' \<bind> k) = r' \<bind> (\<lambda>x. ignore (k x))"
  "ignore (if b then r1 else r2) = (if b then ignore r1 else ignore r2)"
  by (auto simp: ignore_def map_option_bind comp_def)

lemma map_option_Pair_bind [simp]:
  "(map_option (Pair b) r \<bind> (\<lambda>(x, w). k x w)) = r \<bind> k b"
  by (cases r) simp_all

section \<open>What the operations keep\<close>

lemma hal_ready_set_vif_priv [simp]:
  "(\<And>p. vp_ssid (f p) = vp_ssid p) \<Longrightarrow> hal_ready (set_vif_priv v f w) = hal_ready w"
  by (simp add: hal_ready_def)

lemma hal_ready_frame [simp]:
  "hal_ready (set_sta_priv s g w) = hal_ready w" "hal_ready (emit e w) = hal_ready w"
  "hal_ready (w\<lparr> vif_list := vs \<rparr>) = hal_ready w"
  by (simp_all add: hal_ready_def ssids_ok_def ind_inv_def)

lemma mview_frame [simp]:
  "mview (set_vif_priv v f w) = mview w" "mview (set_sta_priv s g w) = mview w"
  "mview (w\<lparr> vif_list := vs \<rparr>) = mview w" "mview (w\<lparr> hal_ind_work_pending := b \<rparr>) = mview w"
  "mview (w\<lparr> hal_ind_queue := q \<rparr>) = mview w"
  by (simp_all add: mview_def)

lemma mview_emit [simp]: "(case e of SmdTx m \<Rightarrow> False | _ \<Rightarrow> True) \<Longrightarrow> mview (emit e w) = mview w"
  by (cases e) (simp_all add: mview_def)

lemma hal_ready_update_rates [simp]: "hal_ready (wcn36xx_update_allowed_rates s b w) = hal_ready w"
  by (simp add: wcn36xx_update_allowed_rates_def Let_def split: prod.split)

lemma mview_update_rates [simp]: "mview (wcn36xx_update_allowed_rates s b w) = mview w"
  by (simp add: wcn36xx_update_allowed_rates_def Let_def split: prod.split)

lemma set_data_encrypted_frame [simp]:
  "hal_ready (set_data_encrypted s b w) = hal_ready w" "mview (set_data_encrypted s b w) = mview w"
  "vifs (set_data_encrypted s b w) = vifs w" "vif_priv (set_data_encrypted s b w) = vif_priv w"
  "stas (set_data_encrypted s b w) = stas w"
  by (simp_all add: set_data_encrypted_def)

lemma set_ampdu_state_frame [simp]:
  "hal_ready (set_ampdu_state s t a w) = hal_ready w" "mview (set_ampdu_state s t a w) = mview w"
  by (simp_all add: set_ampdu_state_def)

text \<open>A run of the indication work sends nothing and keeps the driver ready.\<close>

lemma connection_loss_all_view: "mview (connection_loss_all vs w) = mview w"
  by (induction vs arbitrary: w) simp_all

lemma connection_loss_bss_view: "mview (snd (connection_loss_bss i vs w)) = mview w"
  by (induction vs) simp_all

lemma report_low_ack_view: "mview (snd (report_low_ack P a vs w)) = mview w"
  by (induction vs arbitrary: w) (auto simp: Let_def split: option.split)

lemma tx_ack_ind_view: "mview (wcn36xx_dxe_tx_ack_ind w st) = mview w"
  by (simp add: wcn36xx_dxe_tx_ack_ind_def Let_def split: option.split) (simp add: mview_def skb_view_def fun_eq_iff)

lemma handle_ind_view: "mview (handle_ind P m w) = mview w"
  by (simp add: handle_ind_def wcn36xx_smd_tx_compl_ind_def wcn36xx_smd_missed_beacon_ind_def
      wcn36xx_smd_delete_sta_context_ind_def Let_def connection_loss_all_view connection_loss_bss_view
      report_low_ack_view tx_ack_ind_view)

lemma ind_work_ready:
  assumes "hal_ready w" "hal_ind_work_pending w"
  shows "\<exists>w'. wcn36xx_ind_smd_work P (w\<lparr> hal_ind_work_pending := False \<rparr>) = Some w' \<and> hal_ready w' \<and>
           mview w' = mview w"
proof -
  let ?w = "w\<lparr> hal_ind_work_pending := False \<rparr>"
  from assms obtain m q where q: "hal_ind_queue w = m # q" "2 \<le> length m"
    by (cases "hal_ind_queue w") (auto simp: hal_ready_def ind_inv_def)
  note f = handle_ind_frame [of ?w P m]
  have "hal_ready ((handle_ind P m ?w)\<lparr> hal_ind_queue := q \<rparr>)"
    using assms(1) f q by (simp add: hal_ready_def ind_frame_def ssids_ok_def ind_inv_def)
  then show ?thesis
    using q f handle_ind_view [of P m ?w]
    by (simp add: wcn36xx_ind_smd_work_def Let_def ind_frame_def)
qed

lemma emits_flush:
  assumes "hal_ready w" "mview w = l"
  shows "emits l [] (flush_ind_wq P w)"
proof -
  have "hal_ind_wq w" using assms(1) by (simp add: hal_ready_def)
  with assms ind_work_ready [of "emit FlushWq w" P] show ?thesis
    by (auto simp: flush_ind_wq_def Let_def intro: emits_Some) (auto simp: emits_def)
qed

section \<open>The operations of mac80211\<close>

text \<open>What mac80211 promises of its arguments and of the frames it builds: keys are there to their
  length and have a station where the driver uses one, an SSID fits its 32 bytes, an interface is
  added once and removed when it is there, traffic identifiers are below 16.\<close>

definition mac_wf :: "platform \<Rightarrow> bool" where
  "mac_wf P \<longleftrightarrow> smd_wf P \<and>
     (\<forall>log v skb. p_proberesp_get P log v = Some skb \<longrightarrow> skb_data skb + skb_len skb \<le> length (skb_mem skb)) \<and>
     (\<forall>log v skb t l. p_beacon_get_tim P log v = Some (skb, t, l) \<longrightarrow> beacon_ok skb t)"

definition key_ok :: "nat option \<Rightarrow> ieee80211_key_conf \<Rightarrow> bool" where
  "key_ok sta kc \<longleftrightarrow>
     unat (key_keylen kc) \<le> 32 \<and> unat (key_keylen kc) \<le> length (key_key kc) \<and>
     (key_cipher kc = WLAN_CIPHER_SUITE_TKIP \<longrightarrow> length (key_key kc) \<ge> 32) \<and>
     (key_pairwise kc \<or> key_cipher kc \<in> {WLAN_CIPHER_SUITE_WEP40, WLAN_CIPHER_SUITE_WEP104} \<longrightarrow> sta \<noteq> None)"

definition bss_conf_ok :: "ieee80211_bss_conf \<Rightarrow> bool" where
  "bss_conf_ok bc \<longleftrightarrow> bc_ssid_len bc \<le> 32 \<and> length (bc_ssid bc) = 32"

datatype mac_op =
    Op_config u32
  | Op_configure_filter u32 "wcn36xx_hal_rcv_flt_mc_addr_list_type option"
  | Op_prepare_multicast "u8 list list"
  | Op_set_key set_key_cmd nat "nat option" ieee80211_key_conf
  | Op_sw_scan_start
  | Op_sw_scan_complete
  | Op_bss_info_changed nat ieee80211_bss_conf "bss_change set"
  | Op_set_rts_threshold u32
  | Op_remove_interface nat
  | Op_add_interface nat
  | Op_sta_add nat nat
  | Op_sta_remove nat nat
  | Op_suspend
  | Op_resume
  | Op_ampdu_action nat ieee80211_ampdu_mlme_action nat u16 "u16 option"
  | Op_ind_work

text \<open>The last one is no operation of mac80211: the work item of the indications, which may run
  between any two.\<close>

primrec run_mac :: "platform \<Rightarrow> mac_op \<Rightarrow> wcn36xx \<Rightarrow> wcn36xx option" where
  "run_mac P (Op_config ch) w = ignore (wcn36xx_config P ch w)"
| "run_mac P (Op_configure_filter f fp) w = map_option snd (wcn36xx_configure_filter P f fp w)"
| "run_mac P (Op_prepare_multicast l) w = Some (snd (wcn36xx_prepare_multicast P l w))"
| "run_mac P (Op_set_key c v sta kc) w = ignore (wcn36xx_set_key P c v sta kc w)"
| "run_mac P Op_sw_scan_start w = wcn36xx_sw_scan_start P w"
| "run_mac P Op_sw_scan_complete w = wcn36xx_sw_scan_complete P w"
| "run_mac P (Op_bss_info_changed v bc c) w = wcn36xx_bss_info_changed P v bc c w"
| "run_mac P (Op_set_rts_threshold x) w = ignore (wcn36xx_set_rts_threshold P x w)"
| "run_mac P (Op_remove_interface v) w = wcn36xx_remove_interface P v w"
| "run_mac P (Op_add_interface v) w = ignore (wcn36xx_add_interface P v w)"
| "run_mac P (Op_sta_add v s) w = ignore (wcn36xx_sta_add P v s w)"
| "run_mac P (Op_sta_remove v s) w = ignore (wcn36xx_sta_remove P v s w)"
| "run_mac P Op_suspend w = ignore (wcn36xx_suspend P w)"
| "run_mac P Op_resume w = ignore (wcn36xx_resume P w)"
| "run_mac P (Op_ampdu_action v a s tid ssn) w = ignore (wcn36xx_ampdu_action P v a s tid ssn w)"
| "run_mac P Op_ind_work w =
     (if hal_ind_work_pending w then wcn36xx_ind_smd_work P (w\<lparr> hal_ind_work_pending := False \<rparr>) else Some w)"

fun mac_op_ok :: "mac_op \<Rightarrow> wcn36xx \<Rightarrow> bool" where
  "mac_op_ok (Op_set_key c v sta kc) w = key_ok sta kc"
| "mac_op_ok (Op_bss_info_changed v bc c) w = bss_conf_ok bc"
| "mac_op_ok (Op_remove_interface v) w = (v \<in> set (vif_list w))"
| "mac_op_ok (Op_add_interface v) w = (v \<notin> set (vif_list w))"
| "mac_op_ok (Op_ampdu_action v a s tid ssn) w = (unat tid < 16)"
| "mac_op_ok _ w = True"

section \<open>The commands emit their messages\<close>

lemma cmd_emits:
  assumes wf: "smd_wf P" and w: "hal_ready w" "mview w = l"
  shows "emits l [HAL_INIT_SCAN] (ignore (wcn36xx_smd_init_scan P m w))"
    "emits l [HAL_START_SCAN] (ignore (wcn36xx_smd_start_scan P w))"
    "emits l [HAL_END_SCAN] (ignore (wcn36xx_smd_end_scan P w))"
    "emits l [HAL_FINISH_SCAN] (ignore (wcn36xx_smd_finish_scan P m w))"
    "emits l [HAL_CH_SWITCH] (ignore (wcn36xx_smd_switch_channel P v ch w))"
    "emits l [HAL_ADD_STA_SELF] (ignore (wcn36xx_smd_add_sta_self P v w))"
    "emits l [HAL_DEL_STA_SELF] (ignore (wcn36xx_smd_delete_sta_self P addr w))"
    "emits l [HAL_DELETE_STA] (ignore (wcn36xx_smd_delete_sta P i w))"
    "emits l [HAL_JOIN] (ignore (wcn36xx_smd_join P bssid addr c8 w))"
    "emits l [HAL_SET_LINK_ST] (ignore (wcn36xx_smd_set_link_st P bssid addr st w))"
    "emits l [HAL_DELETE_BSS] (ignore (wcn36xx_smd_delete_bss P v w))"
    "emits l [HAL_RMV_STAKEY] (ignore (wcn36xx_smd_remove_stakey P e i k w))"
    "emits l [HAL_RMV_BSSKEY] (ignore (wcn36xx_smd_remove_bsskey P e i w))"
    "emits l [HAL_ENTER_BMPS] (ignore (wcn36xx_smd_enter_bmps P v w))"
    "emits l [HAL_EXIT_BMPS] (ignore (wcn36xx_smd_exit_bmps P v w))"
    "emits l [HAL_SET_POWER_PARAMS] (ignore (wcn36xx_smd_set_power_params P b w))"
    "emits l [HAL_ADD_BA_SESSION] (ignore (wcn36xx_smd_add_ba_session P s tid ssn dir i w))"
    "emits l [HAL_ADD_BA] (ignore (wcn36xx_smd_add_ba P w))"
    "emits l [HAL_DEL_BA] (ignore (wcn36xx_smd_del_ba P tid i w))"
    "emits l [HAL_TRIGGER_BA] (ignore (wcn36xx_smd_trigger_ba P i w))"
    "emits l [HAL_8023_MULTICAST_LIST] (ignore (wcn36xx_smd_set_mc_list P v fp w))"
    "emits l [HAL_CONFIG_STA] (ignore (wcn36xx_smd_config_sta P v s w))"
    "emits l [HAL_CONFIG_BSS] (ignore (wcn36xx_smd_config_bss P v sta bssid b w))"
    "emits l [HAL_UPDATE_CFG] (ignore (wcn36xx_smd_update_cfg P x y w))"
  by (rule plain_posts [OF wf, THEN emits_ignore, OF w])+

lemmas cmd_runs = cmd_emits [THEN emits_runs]

lemma key_cmds_emit:
  assumes "smd_wf P" "hal_ready w" "mview w = l" "unat n \<le> 32" "unat n \<le> length k"
  shows "emits l [HAL_SET_STAKEY] (ignore (wcn36xx_smd_set_stakey P e i n k x w))"
    "emits l [HAL_SET_BSSKEY] (ignore (wcn36xx_smd_set_bsskey P e i n k w))"
  by (rule set_keys_post [OF assms(1,4,5), THEN emits_ignore, OF assms(2,3)])+

lemma runs_if:
  "(b \<Longrightarrow> runs_ok l r1) \<Longrightarrow> (\<not> b \<Longrightarrow> runs_ok l r2) \<Longrightarrow> runs_ok l (if b then r1 else r2)"
  by simp

lemmas run_intros = runs_bind cmd_runs runs_Some runs_if key_cmds_emit [THEN emits_runs]
  emits_flush [THEN emits_runs]

lemma switch_channels_runs:
  "smd_wf P \<Longrightarrow> hal_ready w \<Longrightarrow> mview w = l \<Longrightarrow> runs_ok l (switch_channels P ch vs w)"
  by (induction vs arbitrary: w l) (auto intro!: run_intros)

lemma set_mc_lists_runs:
  "smd_wf P \<Longrightarrow> hal_ready w \<Longrightarrow> mview w = l \<Longrightarrow> runs_ok l (set_mc_lists P f fp vs w)"
  by (induction vs arbitrary: w l) (auto intro!: run_intros)

lemma plain_ops_run:
  assumes wf: "smd_wf P" and w: "hal_ready w" "mview w = l"
  shows "runs_ok l (ignore (wcn36xx_config P x w))"
    "runs_ok l (map_option snd (wcn36xx_configure_filter P f fp w))"
    "runs_ok l (Some (snd (wcn36xx_prepare_multicast P mcs w)))"
    "runs_ok l (wcn36xx_sw_scan_start P w)"
    "runs_ok l (wcn36xx_sw_scan_complete P w)"
    "runs_ok l (ignore (wcn36xx_set_rts_threshold P x w))"
    "runs_ok l (ignore (wcn36xx_sta_add P v s w))"
    "runs_ok l (ignore (wcn36xx_sta_remove P v s w))"
    "runs_ok l (ignore (wcn36xx_suspend P w))"
    "runs_ok l (ignore (wcn36xx_resume P w))"
  using wf w
  by (auto simp: wcn36xx_config_def wcn36xx_configure_filter_def wcn36xx_prepare_multicast_def
      wcn36xx_sw_scan_start_def wcn36xx_sw_scan_complete_def wcn36xx_set_rts_threshold_def
      wcn36xx_sta_add_def wcn36xx_sta_remove_def wcn36xx_suspend_def wcn36xx_resume_def Let_def
      map_option_bind comp_def
      intro!: run_intros switch_channels_runs set_mc_lists_runs)

lemma interface_ops_run:
  assumes wf: "smd_wf P" and w: "hal_ready w" "mview w = l"
  shows "v \<in> set (vif_list w) \<Longrightarrow> runs_ok l (wcn36xx_remove_interface P v w)"
    "v \<notin> set (vif_list w) \<Longrightarrow> runs_ok l (ignore (wcn36xx_add_interface P v w))"
    "unat tid < 16 \<Longrightarrow> runs_ok l (ignore (wcn36xx_ampdu_action P v a s tid ssn w))"
  using wf w
  by (auto simp: wcn36xx_remove_interface_def wcn36xx_add_interface_def wcn36xx_ampdu_action_def
      ampdu_rx_start_def Let_def simp del: insert_iff intro!: run_intros)

lemma key_array_ok:
  assumes "key_ok sta kc" "cipher_type (key_cipher kc) = Some et"
  shows "\<exists>key. key_array et kc = Some key \<and> unat (key_keylen kc) \<le> length key"
proof (cases "et = WCN36XX_HAL_ED_TKIP")
  case True
  with assms(2) have "key_cipher kc = WLAN_CIPHER_SUITE_TKIP"
    by (auto simp: cipher_type_def split: if_splits)
  with True assms(1) show ?thesis by (auto simp: key_ok_def key_array_def buf_read_def)
next
  case False
  with assms(1) show ?thesis by (auto simp: key_ok_def key_array_def buf_read_def min_def)
qed

lemma install_runs:
  assumes "smd_wf P" "hal_ready w" "mview w = l" "unat (key_keylen kc) \<le> 32"
    "unat (key_keylen kc) \<le> length key"
  shows "runs_ok l (install_pairwise_key P v s kc key w)"
    "sta = Some s \<or> key_cipher kc \<notin> {WLAN_CIPHER_SUITE_WEP40, WLAN_CIPHER_SUITE_WEP104} \<Longrightarrow>
     runs_ok l (install_group_key P v sta kc key w)"
  using assms
  by (auto simp: install_pairwise_key_def install_group_key_def install_sta_key_def Let_def intro!: run_intros)

lemma disable_key_runs:
  assumes "smd_wf P" "hal_ready w" "mview w = l" "key_pairwise kc \<Longrightarrow> sta \<noteq> None"
  shows "runs_ok l (disable_key P v sta kc w)"
  using assms by (auto simp: disable_key_def Let_def intro!: run_intros)

lemma set_key_runs:
  assumes "smd_wf P" "hal_ready w" "mview w = l" "key_ok sta kc"
  shows "runs_ok l (ignore (wcn36xx_set_key P cmd v sta kc w))"
proof (cases "cipher_type (key_cipher kc)")
  case None
  with assms show ?thesis by (auto simp: wcn36xx_set_key_def intro: run_intros)
next
  case (Some et)
  from key_array_ok [OF assms(4) this] obtain key where
    key: "key_array et kc = Some key" "unat (key_keylen kc) \<le> length key" by blast
  have len: "unat (key_keylen kc) \<le> 32" using assms(4) by (simp add: key_ok_def)
  show ?thesis
  proof (cases cmd)
    case SET_KEY
    with Some key len assms show ?thesis
      by (auto simp: wcn36xx_set_key_def key_ok_def Let_def intro!: run_intros install_runs)
  next
    case DISABLE_KEY
    with Some assms show ?thesis
      by (auto simp: wcn36xx_set_key_def key_ok_def Let_def intro!: run_intros disable_key_runs)
  next
    case OTHER_KEY_CMD
    with Some assms show ?thesis by (auto simp: wcn36xx_set_key_def Let_def intro!: run_intros)
  qed
qed

section \<open>Changes of a BSS\<close>

lemma pmc_runs:
  assumes wf: "smd_wf P" and w: "hal_ready w" "mview w = l"
  shows "runs_ok l (ignore (wcn36xx_pmc_enter_bmps_state P v w))"
    "runs_ok l (ignore (wcn36xx_pmc_exit_bmps_state P v w))"
proof -
  obtain w1 w2 r1 r2 m1 m2 where
    1: "wcn36xx_smd_enter_bmps P v w = Some (r1, w1)" "hal_ready w1" "smd_sent (klog w1) = smd_sent (klog w) @ [m1]"
      "hal_msg_ok HAL_ENTER_BMPS m1" "same_mac w w1" and
    2: "wcn36xx_smd_exit_bmps P v w = Some (r2, w2)" "hal_ready w2" "smd_sent (klog w2) = smd_sent (klog w) @ [m2]"
      "hal_msg_ok HAL_EXIT_BMPS m2" "same_mac w w2"
    using op_postsD [OF plain_posts(16) [OF wf] w(1)] op_postsD [OF plain_posts(17) [OF wf] w(1)]
    by metis
  have "emits l [HAL_ENTER_BMPS] (ignore (wcn36xx_pmc_enter_bmps_state P v w))"
    using 1 w(2) by (auto simp: wcn36xx_pmc_enter_bmps_state_def emits_def ignore_def mview_def same_mac_def
        set_pw_state_def)
  then show "runs_ok l (ignore (wcn36xx_pmc_enter_bmps_state P v w))" by (rule emits_runs)
  have "emits l [HAL_EXIT_BMPS] (ignore (wcn36xx_pmc_exit_bmps_state P v w))"
    if "pw_state (vif_priv w v) = WCN36XX_BMPS"
    using 2 w(2) that by (auto simp: wcn36xx_pmc_exit_bmps_state_def emits_def ignore_def mview_def
        same_mac_def set_pw_state_def)
  then show "runs_ok l (ignore (wcn36xx_pmc_exit_bmps_state P v w))"
    using w by (cases "pw_state (vif_priv w v) = WCN36XX_BMPS")
       (auto simp: wcn36xx_pmc_exit_bmps_state_def intro: emits_runs runs_Some)
qed

lemma bss_changed_ssid_runs:
  assumes "hal_ready w" "mview w = l" "bss_conf_ok bc"
  shows "runs_ok l (bss_changed_ssid v bc w)"
proof -
  let ?bs = "take (bc_ssid_len bc) (bc_ssid bc)" and ?old = "ssid_bytes (vp_ssid (vif_priv w v))"
  have old: "length ?old = 32" using assms(1) by (simp add: hal_ready_def ssids_ok_def Let_def)
  have bs: "buf_read (bc_ssid bc) 0 (bc_ssid_len bc) = Some ?bs" "length ?bs = bc_ssid_len bc"
    using assms(3) by (simp_all add: bss_conf_ok_def buf_read_def)
  obtain ss where ss: "buf_write ?old 0 ?bs = Some ss"
    using buf_write_Some [of 0 ?bs ?old] old bs(2) assms(3) by (auto simp: bss_conf_ok_def)
  have "unat (of_nat (bc_ssid_len bc) :: u8) \<le> 32"
    using assms(3) by (simp add: bss_conf_ok_def unat_of_nat take_bit_nat_def)
  then have "hal_ready (set_vif_priv v (\<lambda>vp. vp\<lparr> vp_ssid :=
       \<lparr> ssid_length = of_nat (bc_ssid_len bc), ssid_bytes = ss \<rparr> \<rparr>) w)"
    using assms(1) old buf_write_length [OF ss] by (auto simp: hal_ready_def ssids_ok_def Let_def)
  with bs ss assms(2) show ?thesis by (auto simp: bss_changed_ssid_def intro!: runs_Some)
qed

lemma template_cmds_run:
  assumes wf: "mac_wf P" and w: "hal_ready w" "mview w = l"
  shows "p_beacon_get_tim P log v = Some (skb, t, n) \<Longrightarrow> runs_ok l (ignore (wcn36xx_smd_send_beacon P v skb t p2p w))"
    "p_proberesp_get P log v = Some skb \<Longrightarrow> runs_ok l (ignore (wcn36xx_smd_update_proberesp_tmpl P v skb w))"
proof -
  have smd: "smd_wf P" using wf by (simp add: mac_wf_def)
  show "runs_ok l (ignore (wcn36xx_smd_send_beacon P v skb t p2p w))" if "p_beacon_get_tim P log v = Some (skb, t, n)"
    using that wf by (intro runs_ignore [OF send_beacon_sends [OF smd] w]) (simp add: mac_wf_def, blast)
  show "runs_ok l (ignore (wcn36xx_smd_update_proberesp_tmpl P v skb w))" if "p_proberesp_get P log v = Some skb"
    using that wf by (intro runs_ignore [OF update_proberesp_sends [OF smd] w]) (simp add: mac_wf_def)
qed

lemma runs_ignore_let [simp]: "ignore (let x = a in f x) = ignore (f a)"
  by simp

lemma bss_changes_run:
  assumes wf: "mac_wf P" and w: "hal_ready w" "mview w = l"
  shows "runs_ok l (bss_changed_ps P v bc w)"
    "runs_ok l (bss_changed_bssid P v bc w)"
    "runs_ok l (bss_changed_beacon P v bc w)"
    "runs_ok l (associate P v s bc w)"
proof -
  have smd: "smd_wf P" using wf by (simp add: mac_wf_def)
  show "runs_ok l (bss_changed_ps P v bc w)" using pmc_runs [OF smd w] by (simp add: bss_changed_ps_def)
  show "runs_ok l (bss_changed_bssid P v bc w)"
    using smd w by (auto simp: bss_changed_bssid_def Let_def intro!: run_intros)
  show "runs_ok l (associate P v s bc w)"
    using smd w by (auto simp: associate_def Let_def intro!: run_intros)
  show "runs_ok l (bss_changed_beacon P v bc w)"
    using smd w wf
    by (auto simp: bss_changed_beacon_def start_beaconing_def Let_def split: option.split
        intro!: run_intros template_cmds_run(1))
qed

text \<open>A part that may end the function early.\<close>

lemma runs_go:
  assumes "b \<Longrightarrow> runs_ok l (map_option snd (f w))" "hal_ready w" "mview w = l"
    and "\<And>w. hal_ready w \<Longrightarrow> runs_ok (mview w) (k w)"
  shows "runs_ok l (on_change_go b f w k)"
proof (cases b)
  case False
  with assms(2-4) show ?thesis by (auto simp: on_change_go_def)
next
  case True
  have "runs_ok l (map_option snd (f w) \<bind> (\<lambda>w'. if fst (the (f w)) then k w' else Some w'))"
    using assms True by (intro runs_bind) (auto intro: runs_Some)
  with True show ?thesis
    by (cases "f w") (auto simp: on_change_go_def)
qed

lemma map_snd_Pair [simp]: "map_option snd (map_option (Pair b) r) = r"
  by (cases r) simp_all

lemma bss_info_changed_runs:
  assumes wf: "mac_wf P" and w: "hal_ready w" "mview w = l" and bc: "bss_conf_ok bc"
  shows "runs_ok l (wcn36xx_bss_info_changed P v bc c w)"
proof -
  have smd: "smd_wf P" using wf by (simp add: mac_wf_def)
  have assoc: "runs_ok l (map_option snd (bss_changed_assoc P v bc w))"
    if "hal_ready w" "mview w = l" for w l
    using that smd wf
    by (auto simp: bss_changed_assoc_def Let_def split: option.split
        intro!: run_intros bss_changes_run(4) [OF wf])
  have probe: "runs_ok l (map_option snd (bss_changed_probe_resp P v w))"
    if "hal_ready w" "mview w = l" for w l
    using that wf
    by (auto simp: bss_changed_probe_resp_def Let_def split: option.split
        intro!: run_intros template_cmds_run(2))
  show ?thesis
    unfolding wcn36xx_bss_info_changed_def on_change_def
    using w bc
    by (auto intro!: runs_bind runs_if runs_Some runs_go bss_changes_run(1-3) [OF wf]
        bss_changed_ssid_runs assoc probe)
qed

section \<open>Any sequence of operations\<close>

inductive mac_step :: "platform \<Rightarrow> wcn36xx \<Rightarrow> wcn36xx \<Rightarrow> bool" for P where
  "mac_op_ok c w \<Longrightarrow> run_mac P c w = Some w' \<Longrightarrow> mac_step P w w'"

inductive_cases mac_stepE: "mac_step P w w'"

lemma run_mac_runs:
  assumes "mac_wf P" "hal_ready w" "mac_op_ok c w"
  shows "runs_ok (mview w) (run_mac P c w)"
proof -
  have smd: "smd_wf P" using assms(1) by (simp add: mac_wf_def)
  show ?thesis
  proof (cases c)
    case Op_ind_work
    with assms ind_work_ready [of w P] show ?thesis
      by (cases "hal_ind_work_pending w") (auto intro!: runs_Some)
  qed (use assms plain_ops_run [OF smd assms(2) refl] interface_ops_run [OF smd assms(2) refl]
         set_key_runs [OF smd assms(2) refl] bss_info_changed_runs [OF assms(1,2) refl] in simp_all)
qed

lemma mac_step_keeps:
  "mac_step P w w' \<Longrightarrow> mac_wf P \<Longrightarrow> hal_ready w \<Longrightarrow> hal_ready w' \<and> v_mac (mview w') = v_mac (mview w)"
  by (erule mac_stepE) (use run_mac_runs in \<open>fastforce simp: runs_ok_def emits_def\<close>)

lemma mac_steps_keep:
  "(mac_step P)\<^sup>*\<^sup>* w0 w \<Longrightarrow> mac_wf P \<Longrightarrow> hal_ready w0 \<Longrightarrow> hal_ready w \<and> v_mac (mview w) = v_mac (mview w0)"
  by (induction rule: rtranclp_induct) (auto dest: mac_step_keeps)



section \<open>Connecting to a network\<close>

lemma emits_bind_cmd:
  assumes "emits l [c] r" and "\<And>w. r = Some w \<Longrightarrow> hal_ready w \<Longrightarrow> v_mac (mview w) = v_mac l \<Longrightarrow> emits (mview w) cs (k w)"
  shows "emits l (c # cs) (r \<bind> k)"
  using emits_bind [of l "[c]" r cs k] assms by simp

lemmas emit_intros = emits_bind_cmd cmd_emits emits_Some key_cmds_emit

lemma mview_vifs: "v_mac (mview w) = v_mac (mview w') \<Longrightarrow> vifs w = vifs w' \<and> stas w = stas w' \<and> hw_conf w = hw_conf w'"
  by (simp add: mview_def)

lemma join_emits:
  assumes "smd_wf P" "hal_ready w" "mview w = l" "\<not> is_zero_ether_addr (bc_bssid bc)"
  shows "emits l [HAL_JOIN, HAL_CONFIG_BSS] (wcn36xx_bss_info_changed P v bc {BSS_CHANGED_BSSID} w)"
  using assms
  by (auto simp: wcn36xx_bss_info_changed_def on_change_def on_change_go_def bss_changed_bssid_def Let_def
      intro!: emit_intros)

lemma associate_emits:
  assumes "smd_wf P" "hal_ready w" "mview w = l" "bc_assoc bc"
    and "p_find_sta P (klog w) v (bc_bssid bc) = Some s"
  shows "emits l [HAL_SET_LINK_ST, HAL_CONFIG_BSS, HAL_CONFIG_STA]
    (wcn36xx_bss_info_changed P v bc {BSS_CHANGED_ASSOC} w)"
  using assms
  by (auto simp: wcn36xx_bss_info_changed_def on_change_def on_change_go_def bss_changed_assoc_def
      associate_def Let_def intro!: emit_intros)

lemma pairwise_key_emits:
  assumes "smd_wf P" "hal_ready w" "mview w = l" "key_ok (Some s) kc" "key_pairwise kc"
    and "cipher_type (key_cipher kc) = Some et" "vif_type (vifs w v) = NL80211_IFTYPE_STATION"
  shows "emits l [HAL_CONFIG_BSS, HAL_SET_STAKEY] (ignore (wcn36xx_set_key P SET_KEY v (Some s) kc w))"
proof -
  from key_array_ok [OF assms(4,6)] obtain key where
    key: "key_array et kc = Some key" "unat (key_keylen kc) \<le> length key" by blast
  have len: "unat (key_keylen kc) \<le> 32" using assms(4) by (simp add: key_ok_def)
  show ?thesis
    using assms key len
    by (auto simp: wcn36xx_set_key_def install_pairwise_key_def install_sta_key_def Let_def
        intro!: emit_intros)
qed

text \<open>C29: Connecting a station: whatever the firmware answers, giving the interface a BSSID, associating
  and installing a pairwise key sends exactly the seven requests JOIN, CONFIG_BSS, SET_LINK_ST,
  CONFIG_BSS, CONFIG_STA, CONFIG_BSS and SET_STAKEY, in this order.\<close>

theorem connection_sequence:
  assumes wf: "smd_wf P" and ready: "hal_ready w"
    and sta: "vif_type (vifs w v) = NL80211_IFTYPE_STATION" "\<forall>log. p_find_sta P log v (bc_bssid bc) = Some s"
    and bc: "\<not> is_zero_ether_addr (bc_bssid bc)" "bc_assoc bc"
    and key: "key_ok (Some s) kc" "key_pairwise kc" "cipher_type (key_cipher kc) \<noteq> None"
  shows "\<exists>w' ms. do {
             w \<leftarrow> wcn36xx_bss_info_changed P v bc {BSS_CHANGED_BSSID} w;
             w \<leftarrow> wcn36xx_bss_info_changed P v bc {BSS_CHANGED_ASSOC} w;
             ignore (wcn36xx_set_key P SET_KEY v (Some s) kc w) } = Some w' \<and> hal_ready w' \<and>
           smd_sent (klog w') = smd_sent (klog w) @ ms \<and>
           list_all2 hal_msg_ok [HAL_JOIN, HAL_CONFIG_BSS, HAL_SET_LINK_ST, HAL_CONFIG_BSS, HAL_CONFIG_STA,
             HAL_CONFIG_BSS, HAL_SET_STAKEY] ms"
proof -
  from key(3) obtain et where et: "cipher_type (key_cipher kc) = Some et" by blast
  have "emits (mview w) ([HAL_JOIN, HAL_CONFIG_BSS] @ [HAL_SET_LINK_ST, HAL_CONFIG_BSS, HAL_CONFIG_STA] @
      [HAL_CONFIG_BSS, HAL_SET_STAKEY])
    (do {
       w \<leftarrow> wcn36xx_bss_info_changed P v bc {BSS_CHANGED_BSSID} w;
       w \<leftarrow> wcn36xx_bss_info_changed P v bc {BSS_CHANGED_ASSOC} w;
       ignore (wcn36xx_set_key P SET_KEY v (Some s) kc w) })"
    using wf ready sta bc key(1,2) et
    by (intro emits_bind join_emits associate_emits pairwise_key_emits) (auto dest!: mview_vifs)
  then show ?thesis by (auto simp: emits_def mview_def)
qed

definition sample_bss_conf :: ieee80211_bss_conf where
  "sample_bss_conf = \<lparr> bc_bssid = [10, 11, 12, 13, 14, 15], bc_ssid = replicate 32 0, bc_ssid_len = 4,
     bc_assoc = True, bc_aid = 7, bc_dtim_period = 1, bc_enable_beacon = False, bc_ps = False \<rparr>"

definition sample_key :: ieee80211_key_conf where
  "sample_key = \<lparr> key_cipher = WLAN_CIPHER_SUITE_CCMP, key_keyidx = 0, key_keylen = 16,
     key_key = replicate 16 9, key_pairwise = True \<rparr>"

lemma sample_smd_wf: "smd_wf sample_platform"
  by (simp add: smd_wf_def sample_platform_def)

theorem connection_sequence_witness:
  "\<exists>w' ms. do {
       w \<leftarrow> wcn36xx_bss_info_changed sample_platform 0 sample_bss_conf {BSS_CHANGED_BSSID} sample_wcn;
       w \<leftarrow> wcn36xx_bss_info_changed sample_platform 0 sample_bss_conf {BSS_CHANGED_ASSOC} w;
       ignore (wcn36xx_set_key sample_platform SET_KEY 0 (Some 0) sample_key w) } = Some w' \<and>
     smd_sent (klog w') = smd_sent (klog sample_wcn) @ ms \<and> length ms = 7"
proof -
  have "vif_type (vifs sample_wcn 0) = NL80211_IFTYPE_STATION" by (simp add: sample_wcn_def sample_vif_def)
  moreover have "\<forall>log. p_find_sta sample_platform log 0 (bc_bssid sample_bss_conf) = Some 0"
    by (simp add: sample_platform_def)
  moreover have "hd (bc_bssid sample_bss_conf) \<noteq> hd (replicate 6 0)" by (simp add: sample_bss_conf_def)
  then have "\<not> is_zero_ether_addr (bc_bssid sample_bss_conf)" by (auto simp: is_zero_ether_addr_def)
  moreover have "bc_assoc sample_bss_conf" by (simp add: sample_bss_conf_def)
  moreover have "key_ok (Some 0) sample_key" "key_pairwise sample_key"
    "cipher_type (key_cipher sample_key) \<noteq> None"
    by (simp_all add: sample_key_def key_ok_def cipher_type_def)
  ultimately show ?thesis
    using connection_sequence [OF sample_smd_wf sample_hal_ready] by (fastforce dest: list_all2_lengthD)
qed

lemma sta_request_aid: "of_le16 (take 2 (drop 14 (sta_request w v (Some s)))) = sp_aid (sta_priv w s)"
proof -
  have "cs_aid (wcn36xx_smd_set_sta_params w v (Some s) p) = sp_aid (sta_priv w s)" for p
    by (simp add: wcn36xx_smd_set_sta_params_def wcn36xx_smd_set_sta_ht_params_def Let_def)
  then show ?thesis
    by (simp add: sta_request_def config_sta_msg_def config_sta_v1_msg_def INIT_HAL_MSG_def
        config_sta_params_bytes_def config_sta_params_v1_bytes_def wcn36xx_smd_convert_sta_to_v1_def Let_def)
qed

lemma associate_last:
  assumes "smd_wf P" "hal_ready w"
  shows "\<exists>w' ms m. associate P v s bc w = Some w' \<and>
           smd_sent (klog w') = smd_sent (klog w) @ ms @ [m] \<and> length ms = 2 \<and>
           hal_msg_ok HAL_CONFIG_STA m \<and> of_le16 (take 2 (drop 14 m)) = bc_aid bc"
proof -
  let ?w = "wcn36xx_update_allowed_rates s (conf_band (hw_conf w)) w"
  have ready: "hal_ready ?w" using assms(2) by simp
  have view: "mview ?w = mview w" by simp
  have "emits (mview w) [HAL_SET_LINK_ST, HAL_CONFIG_BSS] (do {
      w \<leftarrow> ignore (wcn36xx_smd_set_link_st P (bc_bssid bc) (vif_addr (vifs ?w v)) WCN36XX_HAL_LINK_POSTASSOC_STATE ?w);
      ignore (wcn36xx_smd_config_bss P v (Some s) (bc_bssid bc) True w) })"
    using assms(1) ready by (auto intro!: emit_intros)
  then obtain w1 w2 ms where 1:
    "ignore (wcn36xx_smd_set_link_st P (bc_bssid bc) (vif_addr (vifs ?w v)) WCN36XX_HAL_LINK_POSTASSOC_STATE ?w) = Some w1"
    "ignore (wcn36xx_smd_config_bss P v (Some s) (bc_bssid bc) True w1) = Some w2"
    "hal_ready w2" "smd_sent (klog w2) = smd_sent (klog w) @ ms" "length ms = 2"
    by (auto simp: emits_def mview_def bind_eq_Some_conv dest!: list_all2_lengthD)
  let ?w3 = "set_sta_priv s (\<lambda>sp. sp\<lparr> sp_aid := bc_aid bc \<rparr>) w2"
  have ready3: "hal_ready ?w3" using 1(3) by simp
  obtain r w4 where 2: "wcn36xx_smd_config_sta P v s ?w3 = Some (r, w4)"
    "smd_sent (klog w4) = smd_sent (klog ?w3) @ [sta_request ?w3 v (Some s)]"
    unfolding config_sta_command
    by (rule hal_command_exact [OF assms(1) ready3 sta_request_length config_sta_rsp_safe quiet_handlers(6)])
  have "ignore (wcn36xx_smd_config_sta P v s ?w3) = Some w4"
    using 2(1) by (simp add: ignore_def)
  with 1(1,2) have "associate P v s bc w = Some w4"
    by (simp add: associate_def Let_def)
  with 1(4,5) 2(2) sta_request_ok [of ?w3 v "Some s"] sta_request_aid [of ?w3 v s] show ?thesis by auto
qed

text \<open>An association with a known station ends with the request that configures the station, and that
  request carries the association identifier mac80211 has given, whatever the driver knew before.\<close>

theorem associate_sends_aid:
  assumes wf: "smd_wf P" and ready: "hal_ready w" and "bc_assoc bc"
    and "p_find_sta P (klog w) v (bc_bssid bc) = Some s"
  shows "\<exists>w' ms m. wcn36xx_bss_info_changed P v bc {BSS_CHANGED_ASSOC} w = Some w' \<and>
           smd_sent (klog w') = smd_sent (klog w) @ ms @ [m] \<and> length ms = 2 \<and>
           hal_msg_ok HAL_CONFIG_STA m \<and> of_le16 (take 2 (drop 14 m)) = bc_aid bc"
proof -
  let ?w = "emit (FindSta v (bc_bssid bc)) (set_vif_priv v (\<lambda>vp. vp\<lparr> is_joining := False, sta_assoc := True \<rparr>) w)"
  have "hal_ready ?w" using ready by simp
  from associate_last [OF wf this, of v s bc] assms(3,4) show ?thesis
    by (auto simp: wcn36xx_bss_info_changed_def on_change_def on_change_go_def bss_changed_assoc_def Let_def)
qed

theorem associate_sends_aid_witness:
  "\<exists>w' ms m. wcn36xx_bss_info_changed sample_platform 0 sample_bss_conf {BSS_CHANGED_ASSOC} sample_wcn = Some w' \<and>
     smd_sent (klog w') = smd_sent (klog sample_wcn) @ ms @ [m] \<and> of_le16 (take 2 (drop 14 m)) = 7"
  using associate_sends_aid [OF sample_smd_wf sample_hal_ready, of sample_bss_conf 0 0]
  by (auto simp: sample_bss_conf_def sample_platform_def)

section \<open>A TKIP key\<close>

lemma config_bss_keeps_type:
  assumes wf: "smd_wf P" and ready: "hal_ready w"
  obtains r w' m where "wcn36xx_smd_config_bss P v sta bssid up w = Some (r, w')" "hal_ready w'"
    "smd_sent (klog w') = smd_sent (klog w) @ [m]" "hal_msg_ok HAL_CONFIG_BSS m" "vifs w' = vifs w"
    "encrypt_type (vif_priv w' v) = encrypt_type (vif_priv w v)"
proof -
  obtain r w' m where 1: "wcn36xx_smd_config_bss P v sta bssid up w = Some (r, w')" "hal_ready w'"
    "smd_sent (klog w') = smd_sent (klog w) @ [m]" "hal_msg_ok HAL_CONFIG_BSS m" "same_mac w w'"
    by (rule op_postsD [OF config_bss_posts [OF wf] ready])
  from ready obtain b where "config_bss_params P w v sta bssid up = Some b"
    using config_bss_params_some [of w P v sta bssid up] unfolding hal_ready_def by blast
  note cmd = config_bss_command [OF this]
  have "encrypt_type (vif_priv w' v) = encrypt_type (vif_priv w v)"
  proof (cases rule: hal_command_answer [OF wf ready, of "bss_request w b" "wcn36xx_smd_config_bss_rsp v sta"])
    case 1
    show ?case by (rule bss_request_length)
  next
    case (2 e w2)
    with \<open>wcn36xx_smd_config_bss P v sta bssid up w = Some (r, w')\<close> cmd
    show ?thesis by (simp add: same_but_hal_fields)
  next
    case (3 pkt hb w2)
    with \<open>wcn36xx_smd_config_bss P v sta bssid up w = Some (r, w')\<close> cmd
    show ?thesis
      by (auto simp: then_unlock_def hal_unlock_def wcn36xx_smd_config_bss_rsp_def Let_def same_but_hal_fields
          split: bind_splits if_splits option.splits)
  qed
  with 1 that show ?thesis by (simp add: same_mac_def)
qed

definition stakey_msg :: "u8 \<Rightarrow> u8 \<Rightarrow> ani_ed_type \<Rightarrow> u8 list \<Rightarrow> u8 list" where
  "stakey_msg i idx e key = INIT_HAL_MSG HAL_SET_STAKEY (wcn36xx_hal_set_sta_key_params (ucast i) e
     (wcn36xx_hal_keys idx 1 WCN36XX_HAL_TX_RX 0 (of_nat (length key)) key) 1)"

lemma tkip_key_array:
  "length k = 32 \<Longrightarrow> key_key kc = k \<Longrightarrow>
     key_array WCN36XX_HAL_ED_TKIP kc = Some (take 16 k @ take 8 (drop 24 k) @ take 8 (drop 16 k))"
  by (simp add: key_array_def buf_read_def)

lemma install_key_sends:
  assumes wf: "smd_wf P" and ready: "hal_ready w" and len: "key_keylen kc = 32" "length key = 32"
  obtains w' i where "install_sta_key P v s kc key w = Some w'" "hal_ready w'"
    "smd_sent (klog w') = smd_sent (klog w) @ [stakey_msg i (key_keyidx kc) (encrypt_type (vif_priv w v)) key]"
proof -
  let ?m = "stakey_msg (get_sta_index w v s) (key_keyidx kc) (encrypt_type (vif_priv w v)) key"
  have kb: "key_bytes key 32 = Some key" by (simp add: key_bytes_def len(2))
  have "length ?m \<le> 4096" using len by (simp add: stakey_msg_def)
  from hal_command_exact [OF wf ready this rsp_status_check_safe quiet_status_check]
  obtain r w' where "hal_command P ?m wcn36xx_smd_rsp_status_check w = Some (r, w')" "hal_ready w'"
    "smd_sent (klog w') = smd_sent (klog w) @ [?m]" by blast
  moreover from this kb len have "install_sta_key P v s kc key w = Some w'"
    by (simp add: install_sta_key_def ignore_def wcn36xx_smd_set_stakey_def stakey_msg_def)
  ultimately show ?thesis using that by blast
qed

text \<open>C30: A pairwise TKIP key of 32 bytes, in the order of mac80211 (temporal key, transmit MIC key, receive
  MIC key), reaches the firmware in the order it expects: the last request is the installation of the
  station's key, of the TKIP type, with the temporal key first and the two MIC keys exchanged. No
  more than one request, the reconfiguration of the BSS, goes before it.\<close>

theorem tkip_key_order:
  assumes wf: "smd_wf P" and ready: "hal_ready w"
    and kc: "key_cipher kc = WLAN_CIPHER_SUITE_TKIP" "key_keylen kc = 32" "key_pairwise kc"
    and key: "key_key kc = tk @ tx @ rx" "length tk = 16" "length tx = 8" "length rx = 8"
  shows "\<exists>w' ms i. wcn36xx_set_key P SET_KEY v (Some s) kc w = Some (0, w') \<and>
           smd_sent (klog w') = smd_sent (klog w) @ ms @
             [stakey_msg i (key_keyidx kc) WCN36XX_HAL_ED_TKIP (tk @ rx @ tx)] \<and>
           length ms = (if vif_type (vifs w v) = NL80211_IFTYPE_STATION then 1 else 0)"
proof -
  let ?key = "tk @ rx @ tx"
  let ?w = "set_data_encrypted s True (set_vif_priv v (\<lambda>vp. vp\<lparr> encrypt_type := WCN36XX_HAL_ED_TKIP \<rparr>) w)"
  have ready1: "hal_ready ?w" using ready by (simp add: set_data_encrypted_def)
  have ty: "encrypt_type (vif_priv ?w v) = WCN36XX_HAL_ED_TKIP" by (simp add: set_data_encrypted_def)
  have vifs: "vifs ?w = vifs w" "klog ?w = klog w" by (simp_all add: set_data_encrypted_def)
  have arr: "key_array WCN36XX_HAL_ED_TKIP kc = Some ?key"
    using tkip_key_array [OF _ key(1)] key(2-4) by simp
  have len: "length ?key = 32" using key by simp
  have "\<exists>w1 ms. (if vif_type (vifs ?w v) = NL80211_IFTYPE_STATION
            then ignore (wcn36xx_smd_config_bss P v (Some s) (sta_addr (stas ?w s)) True ?w) else Some ?w) = Some w1 \<and>
          hal_ready w1 \<and> smd_sent (klog w1) = smd_sent (klog w) @ ms \<and>
          length ms = (if vif_type (vifs w v) = NL80211_IFTYPE_STATION then 1 else 0) \<and>
          encrypt_type (vif_priv w1 v) = WCN36XX_HAL_ED_TKIP"
    by (cases rule: config_bss_keeps_type [OF wf ready1, of v "Some s" "sta_addr (stas ?w s)" True])
      (use ready1 ty vifs in \<open>auto simp: ignore_def\<close>)
  then obtain w1 ms where 1: "(if vif_type (vifs ?w v) = NL80211_IFTYPE_STATION
            then ignore (wcn36xx_smd_config_bss P v (Some s) (sta_addr (stas ?w s)) True ?w) else Some ?w) = Some w1"
    "hal_ready w1" "smd_sent (klog w1) = smd_sent (klog w) @ ms"
    "length ms = (if vif_type (vifs w v) = NL80211_IFTYPE_STATION then 1 else 0)"
    "encrypt_type (vif_priv w1 v) = WCN36XX_HAL_ED_TKIP" by blast
  obtain w2 i where 2: "install_sta_key P v s kc ?key w1 = Some w2"
    "smd_sent (klog w2) = smd_sent (klog w1) @ [stakey_msg i (key_keyidx kc) (encrypt_type (vif_priv w1 v)) ?key]"
    by (rule install_key_sends [OF wf 1(2) kc(2) len, of v s])
  have "wcn36xx_set_key P SET_KEY v (Some s) kc w = Some (0, w2)"
    using kc arr 1(1) 2(1) by (simp add: wcn36xx_set_key_def cipher_type_def install_pairwise_key_def Let_def)
  with 1(3-5) 2(2) show ?thesis by auto
qed

definition sample_tkip_key :: ieee80211_key_conf where
  "sample_tkip_key = \<lparr> key_cipher = WLAN_CIPHER_SUITE_TKIP, key_keyidx = 1, key_keylen = 32,
     key_key = replicate 16 1 @ replicate 8 2 @ replicate 8 3, key_pairwise = True \<rparr>"

lemma sample_tkip_key_fields: "key_cipher sample_tkip_key = WLAN_CIPHER_SUITE_TKIP"
  "key_keylen sample_tkip_key = 32" "key_pairwise sample_tkip_key"
  "key_key sample_tkip_key = replicate 16 1 @ replicate 8 2 @ replicate 8 3" "key_keyidx sample_tkip_key = 1"
  by (simp_all add: sample_tkip_key_def)

theorem tkip_key_order_witness:
  "\<exists>w' ms i. wcn36xx_set_key sample_platform SET_KEY 0 (Some 0) sample_tkip_key sample_wcn = Some (0, w') \<and>
     smd_sent (klog w') = smd_sent (klog sample_wcn) @ ms @
       [stakey_msg i 1 WCN36XX_HAL_ED_TKIP (replicate 16 1 @ replicate 8 3 @ replicate 8 2)]"
  using tkip_key_order [OF sample_smd_wf sample_hal_ready sample_tkip_key_fields(1-4) length_replicate
      length_replicate length_replicate, of 0 0]
  unfolding sample_tkip_key_fields(5) by blast

end
