(* ===== verification/Dxe_Queue.thy ===== *)
theory Dxe_Queue
  imports Dxe_Tx Samples
begin

text \<open>
  The contract of a transmit channel. The locale \<open>fifo_port\<close> states what a client of a channel may
  rely on: a bounded queue that accepts while there is room, retires a prefix, and gives frames
  back in the order they were accepted. It is interpreted on the DXE ring, with the DMA engine as
  the environment that finishes descriptors in ring order.
\<close>

section \<open>The DMA engine\<close>

text \<open>The engine serves the valid descriptors in ring order and clears the valid bit of the one it
  has finished (the bit is described at \<^verbatim>\<open>struct wcn36xx_dxe_desc\<close>).\<close>

fun first_valid :: "nat \<Rightarrow> nat option \<Rightarrow> wcn36xx_dxe_ch \<Rightarrow> nat option" where
  "first_valid 0 p ch = None"
| "first_valid (Suc m) p ch = do {
     c \<leftarrow> ctl_at ch p;
     d \<leftarrow> desc_at ch c;
     if ctrl_valid (desc_ctrl d) then ctl_desc c else first_valid m (ctl_next c) ch }"

definition clear_valid :: "wcn36xx_dxe_desc \<Rightarrow> wcn36xx_dxe_desc" where
  "clear_valid d = d\<lparr> desc_ctrl := desc_ctrl d AND 0xFFFFFFFE \<rparr>"

definition dma_done :: "wcn36xx_dxe_ch_type \<Rightarrow> wcn36xx \<Rightarrow> wcn36xx" where
  "dma_done c w =
     (let ch = dxe_ch w c in
      case first_valid (ch_desc_num ch) (ch_tail ch) ch of
        None \<Rightarrow> w
      | Some i \<Rightarrow> set_ch c (put_desc i (clear_valid (ring_desc ch i)) ch) w)"

lemma clear_valid_ctrl [simp]: "\<not> ctrl_valid (desc_ctrl (clear_valid d))"
  by (simp add: ctrl_valid_def clear_valid_def and.assoc)

lemma first_valid_positions:
  assumes core: "tx_core b t k d ch" and "i + m \<le> ch_desc_num ch" and "i \<le> d"
  shows "first_valid m (Some (b + (t + i) mod ch_desc_num ch)) ch =
           (if d < k \<and> d < i + m then Some ((t + d) mod ch_desc_num ch) else None)"
  using assms(2,3)
proof (induction m arbitrary: i)
  case 0 then show ?case by simp
next
  case (Suc m)
  let ?n = "ch_desc_num ch"
  note sh = tx_core_shape [OF core]
  have p: "(t + i) mod ?n < ?n" using Suc.prems by simp
  obtain c where c: "ch_mem ch (b + (t + i) mod ?n) = Some c" "ring_ctl b ch ((t + i) mod ?n) = c"
    "ctl_next c = Some (b + Suc ((t + i) mod ?n) mod ?n)" "ctl_desc c = Some ((t + i) mod ?n)"
    "ctl_bd_cpu_addr c = None \<longleftrightarrow> odd ((t + i) mod ?n)"
    by (rule tx_shape_block [OF sh p])
  have valid: "ctrl_valid (desc_ctrl (ring_desc ch ((t + i) mod ?n))) \<longleftrightarrow> i = d \<and> d < k"
    using tx_core_valid [OF core, of i] Suc.prems by auto
  have nx: "ctl_next c = Some (b + (t + Suc i) mod ?n)"
    using c(3) by (simp only: mod_Suc_eq add_Suc_right)
  have run: "first_valid (Suc m) (Some (b + (t + i) mod ?n)) ch =
      (if i = d \<and> d < k then Some ((t + i) mod ?n)
       else first_valid m (Some (b + (t + Suc i) mod ?n)) ch)"
    using c(1,4) nx valid tx_shape_desc [OF sh c(4) p] by (simp add: ctl_at_def)
  show ?case
  proof (cases "i = d")
    case True
    show ?thesis
    proof (cases "d < k")
      case True
      with \<open>i = d\<close> show ?thesis unfolding run by simp
    next
      case False
      have "first_valid m (Some (b + (t + Suc i + x) mod ?n)) ch = None" if "Suc i + x + m \<le> ?n" for m x
        using that
      proof (induction m arbitrary: x)
        case 0 then show ?case by simp
      next
        case (Suc m)
        let ?q = "(t + Suc i + x) mod ?n"
        have q: "?q < ?n" using Suc.prems by simp
        obtain c where c: "ch_mem ch (b + ?q) = Some c" "ring_ctl b ch ?q = c"
          "ctl_next c = Some (b + Suc ?q mod ?n)" "ctl_desc c = Some ?q"
          "ctl_bd_cpu_addr c = None \<longleftrightarrow> odd ?q"
          by (rule tx_shape_block [OF sh q])
        have "\<not> ctrl_valid (desc_ctrl (ring_desc ch ?q))"
          using tx_core_valid [OF core, of "Suc i + x"] Suc.prems \<open>i = d\<close> False
          by (simp add: add.assoc)
        moreover have "ctl_next c = Some (b + (t + Suc i + Suc x) mod ?n)"
          using c(3) by (simp only: mod_Suc_eq add_Suc_right)
        ultimately show ?case
          using c(1,4) Suc.IH [of "Suc x"] Suc.prems tx_shape_desc [OF sh c(4) q]
          by (simp add: ctl_at_def del: add_Suc_right add_Suc)
      qed
      from this [of 0 m] Suc.prems False \<open>i = d\<close> show ?thesis unfolding run by simp
    qed
  next
    case False
    then show ?thesis
      unfolding run using Suc.IH [of "Suc i"] Suc.prems by auto
  qed
qed

lemma dma_done_inv:
  assumes inv: "tx_inv b t k d (dxe_ch w c)"
  shows "tx_inv b t k (if d < k then Suc d else d) (dxe_ch (dma_done c w) c)"
    and "tx_pending (dxe_ch (dma_done c w) c) = tx_pending (dxe_ch w c)"
    and "ch_desc_num (dxe_ch (dma_done c w) c) = ch_desc_num (dxe_ch w c)"
proof -
  let ?ch = "dxe_ch w c" and ?n = "ch_desc_num (dxe_ch w c)"
  from inv have core: "tx_core b t k d ?ch" and tl: "ch_tail ?ch = Some (b + t)"
    by (simp_all add: tx_inv_def)
  note sh = tx_core_shape [OF core] and nums = tx_core_nums [OF core]
  note n = tx_shape_n [OF sh]
  have fv: "first_valid ?n (ch_tail ?ch) ?ch = (if d < k then Some ((t + d) mod ?n) else None)"
    using first_valid_positions [OF core, of 0 ?n] nums(1,2) tl by auto
  show all: "tx_inv b t k (if d < k then Suc d else d) (dxe_ch (dma_done c w) c)"
  proof (cases "d < k")
    case False
    with inv fv show ?thesis by (simp add: dma_done_def Let_def)
  next
    case True
    let ?i = "(t + d) mod ?n"
    let ?c' = "put_desc ?i (clear_valid (ring_desc ?ch ?i)) ?ch"
    have cpu: "map_option length (ch_cpu_addr ?ch) = Some ?n"
      using sh unfolding tx_shape_def Let_def by blast
    have i: "?i < ?n" using n by simp
    have view: "ring_desc ?c' j = (if j = ?i then clear_valid (ring_desc ?ch ?i) else ring_desc ?ch j)" for j
      by (rule ring_desc_put_desc [OF cpu i])
    have shape: "tx_shape b ?c'"
    proof (rule tx_shape_cong [OF sh])
      fix j assume "j < ?n"
      then obtain c1 where "ch_mem ?ch (b + j) = Some c1" "ring_ctl b ?ch j = c1"
        by (rule tx_shape_block [OF sh])
      then show "\<exists>c1. ch_mem ?c' (b + j) = Some c1 \<and> ctl_next c1 = ctl_next (ring_ctl b ?ch j) \<and>
         ctl_desc c1 = ctl_desc (ring_ctl b ?ch j) \<and>
         ctl_bd_cpu_addr c1 = ctl_bd_cpu_addr (ring_ctl b ?ch j)" by simp
    qed (simp_all add: option.map_comp comp_def)
    have "ctrl_valid (desc_ctrl (ring_desc ?c' ((t + j) mod ?n))) \<longleftrightarrow> Suc d \<le> j \<and> j < k"
      if j: "j < ?n" for j
    proof (cases "j = d")
      case True then show ?thesis by (simp add: view)
    next
      case False
      have "d < ?n" using True nums(2) by simp
      with False ring_pos_inj [of t j ?n d] nums(1) j have "(t + j) mod ?n \<noteq> ?i" by blast
      with tx_core_valid [OF core j] False show ?thesis by (auto simp: view)
    qed
    with shape inv nums True have "tx_inv b t k (Suc d) ?c'"
      using tx_core_skb [OF core] by (simp add: tx_inv_def tx_core_def Let_def)
    with True fv show ?thesis by (simp add: dma_done_def Let_def)
  qed
  show n': "ch_desc_num (dxe_ch (dma_done c w) c) = ?n"
    by (simp add: dma_done_def Let_def split: option.split)
  have "ring_ctl b (dxe_ch (dma_done c w) c) = ring_ctl b ?ch"
    by (auto simp: dma_done_def Let_def fun_eq_iff split: option.split)
  then show "tx_pending (dxe_ch (dma_done c w) c) = tx_pending ?ch"
    using tx_pending_positions [OF inv] tx_pending_positions [OF all] n' by simp
qed

section \<open>The contract\<close>

datatype port_op = Submit nat | Retire | Hardware

text \<open>A history of a port: the frames submitted, with the retirements and the hardware's work
  between them. The list that is returned holds the frames the port accepted, in order.\<close>

fun port_run :: "(nat \<Rightarrow> 's \<Rightarrow> (int \<times> 's) option) \<Rightarrow> ('s \<Rightarrow> 's option) \<Rightarrow> ('s \<Rightarrow> 's) \<Rightarrow> port_op list
     \<Rightarrow> 's \<Rightarrow> (nat list \<times> 's) option" where
  "port_run sub ret hw [] s = Some ([], s)"
| "port_run sub ret hw (Submit x # ops) s = do {
     (r, s1) \<leftarrow> sub x s;
     (acc, s2) \<leftarrow> port_run sub ret hw ops s1;
     Some (if r = 0 then x # acc else acc, s2) }"
| "port_run sub ret hw (Retire # ops) s = do { s1 \<leftarrow> ret s; port_run sub ret hw ops s1 }"
| "port_run sub ret hw (Hardware # ops) s = port_run sub ret hw ops (hw s)"

locale fifo_port =
  fixes submit :: "nat \<Rightarrow> 's \<Rightarrow> (int \<times> 's) option"
    and retire :: "'s \<Rightarrow> 's option"
    and hardware :: "'s \<Rightarrow> 's"
    and pend :: "'s \<Rightarrow> nat list"
    and freed :: "'s \<Rightarrow> nat list"
    and waits :: "'s \<Rightarrow> nat set"
    and cap :: "'s \<Rightarrow> nat"
    and ok :: "'s \<Rightarrow> bool"
  assumes submit_room: "ok s \<Longrightarrow> length (pend s) < cap s \<Longrightarrow>
            \<exists>s'. submit x s = Some (0, s') \<and> ok s' \<and> pend s' = pend s @ [x] \<and>
                 freed s' = freed s \<and> waits s' = waits s \<and> cap s' = cap s"
    and submit_full: "ok s \<Longrightarrow> cap s \<le> length (pend s) \<Longrightarrow>
            \<exists>s'. submit x s = Some (- EBUSY, s') \<and> ok s' \<and> pend s' = pend s \<and>
                 freed s' = freed s \<and> waits s' = waits s \<and> cap s' = cap s"
    and retire_prefix: "ok s \<Longrightarrow>
            \<exists>s' l. retire s = Some s' \<and> ok s' \<and> pend s = l @ pend s' \<and>
                 freed s' = freed s @ filter (\<lambda>x. x \<notin> waits s) l \<and>
                 waits s' = waits s \<and> cap s' = cap s"
    and hardware_keeps: "ok s \<Longrightarrow> ok (hardware s) \<and> pend (hardware s) = pend s \<and>
                 freed (hardware s) = freed s \<and> waits (hardware s) = waits s \<and>
                 cap (hardware s) = cap s"
    and bounded: "ok s \<Longrightarrow> length (pend s) \<le> cap s"
begin

lemma run_fifo:
  assumes "ok s"
  shows "\<exists>acc s' l. port_run submit retire hardware ops s = Some (acc, s') \<and> ok s' \<and>
           pend s @ acc = l @ pend s' \<and> freed s' = freed s @ filter (\<lambda>x. x \<notin> waits s) l \<and>
           waits s' = waits s \<and> cap s' = cap s"
  using assms
proof (induction ops arbitrary: s)
  case Nil
  then show ?case by simp
next
  case (Cons a ops)
  show ?case
  proof (cases a)
    case (Submit x)
    show ?thesis
    proof (cases "length (pend s) < cap s")
      case True
      from submit_room [OF Cons.prems True, of x] obtain s1 where
        1: "submit x s = Some (0, s1)" "ok s1" "pend s1 = pend s @ [x]" "freed s1 = freed s"
        "waits s1 = waits s" "cap s1 = cap s" by blast
      with Cons.IH [OF 1(2)] Submit show ?thesis by auto
    next
      case False
      then have "cap s \<le> length (pend s)" by simp
      from submit_full [OF Cons.prems this, of x] obtain s1 where
        1: "submit x s = Some (- EBUSY, s1)" "ok s1" "pend s1 = pend s" "freed s1 = freed s"
        "waits s1 = waits s" "cap s1 = cap s" by blast
      with Cons.IH [OF 1(2)] Submit show ?thesis by auto
    qed
  next
    case Retire
    from retire_prefix [OF Cons.prems] obtain s1 l where
      1: "retire s = Some s1" "ok s1" "pend s = l @ pend s1"
      "freed s1 = freed s @ filter (\<lambda>x. x \<notin> waits s) l" "waits s1 = waits s" "cap s1 = cap s" by blast
    from Cons.IH [OF 1(2)] obtain acc s' l' where
      2: "port_run submit retire hardware ops s1 = Some (acc, s')" "ok s'"
      "pend s1 @ acc = l' @ pend s'" "freed s' = freed s1 @ filter (\<lambda>x. x \<notin> waits s1) l'"
      "waits s' = waits s1" "cap s' = cap s1" by blast
    from 1 2 Retire show ?thesis
      by (auto intro!: exI [of _ "l @ l'"])
  next
    case Hardware
    with hardware_keeps [OF Cons.prems] Cons.IH [of "hardware s"] show ?thesis by auto
  qed
qed

lemma run_from_empty:
  assumes "ok s" and "pend s = []" and "waits s = {}" and "freed s = []"
  shows "\<exists>acc s'. port_run submit retire hardware ops s = Some (acc, s') \<and>
           acc = freed s' @ pend s' \<and> length (pend s') \<le> cap s"
  using run_fifo [OF assms(1), of ops] assms(2-) bounded by fastforce

end

section \<open>The DXE ring keeps the contract\<close>

definition tx_ok :: "nat option \<Rightarrow> bool \<Rightarrow> wcn36xx \<Rightarrow> bool" where
  "tx_ok vp is_low w \<longleftrightarrow>
     (is_low \<longrightarrow> vp \<noteq> None) \<and> (\<exists>b t k d. tx_inv b t k d (dxe_ch w (tx_chan is_low)))"

definition waits_status :: "wcn36xx \<Rightarrow> nat set" where
  "waits_status w = {s. IEEE80211_TX_CTL_REQ_TX_STATUS \<in> skb_cb_flags (skbs w s)}"

lemma notify_chip_ok:
  assumes "is_low \<longrightarrow> vp \<noteq> None"
  shows "\<exists>e. notify_chip vp is_low ch w = Some (emit e w) \<and> (\<forall>s. e \<noteq> FreeTxSkb s)"
  using assms
  by (cases "is_low")
     (auto simp: notify_chip_def wcn36xx_dxe_write_register_def)

lemma tx_frame_accept:
  assumes inv: "tx_inv b t k d (dxe_ch w (tx_chan is_low))" and vp: "is_low \<longrightarrow> vp \<noteq> None"
    and room: "k + 2 \<le> ch_desc_num (dxe_ch w (tx_chan is_low))"
  shows "\<exists>ch e. wcn36xx_dxe_tx_frame P vp s is_low w =
             Some (0, emit e (set_ch (tx_chan is_low) ch (emit (DmaMap s) w))) \<and>
           tx_inv b t (k + 2) d ch \<and> tx_pending ch = tx_pending (dxe_ch w (tx_chan is_low)) @ [s] \<and>
           ch_desc_num ch = ch_desc_num (dxe_ch w (tx_chan is_low)) \<and> (\<forall>s. e \<noteq> FreeTxSkb s)"
proof -
  let ?c = "tx_chan is_low"
  define ch where "ch = tx_push b ((t + k) mod ch_desc_num (dxe_ch w ?c)) s
                          (p_dma_map P (klog w) s) (skb_len (skbs w s)) (dxe_ch w ?c)"
  obtain e where e: "notify_chip vp is_low ch (set_ch ?c ch (emit (DmaMap s) w)) =
                       Some (emit e (set_ch ?c ch (emit (DmaMap s) w)))" "\<forall>s. e \<noteq> FreeTxSkb s"
    using notify_chip_ok [OF vp] by blast
  have "wcn36xx_dxe_tx_frame P vp s is_low w =
          Some (0, emit e (set_ch ?c ch (emit (DmaMap s) w)))"
    using tx_frame_room [OF inv room] e(1) by (simp add: ch_def Let_def)
  moreover have "tx_inv b t (k + 2) d ch" "tx_pending ch = tx_pending (dxe_ch w ?c) @ [s]"
    "ch_desc_num ch = ch_desc_num (dxe_ch w ?c)"
    using tx_push_inv [OF inv room] by (simp_all add: ch_def)
  ultimately show ?thesis
    using e(2) by blast
qed

lemma tx_freed_other: "\<forall>s. e \<noteq> FreeTxSkb s \<Longrightarrow> tx_freed (e # l) = tx_freed l"
  by (simp split: kevent.split)

interpretation txq: fifo_port
  "\<lambda>s w. wcn36xx_dxe_tx_frame P vp s is_low w" "reap_tx_dxes (tx_chan is_low)"
  "dma_done (tx_chan is_low)" "\<lambda>w. tx_pending (dxe_ch w (tx_chan is_low))"
  "\<lambda>w. tx_freed (klog w)" waits_status "\<lambda>w. ch_desc_num (dxe_ch w (tx_chan is_low)) div 2"
  "tx_ok vp is_low" for P vp is_low
proof (unfold_locales, goal_cases)
  case (1 w s)
  then obtain b t k d where inv: "tx_inv b t k d (dxe_ch w (tx_chan is_low))"
    and vp: "is_low \<longrightarrow> vp \<noteq> None" by (auto simp: tx_ok_def)
  from 1 tx_room_iff [OF inv] have "k + 2 \<le> ch_desc_num (dxe_ch w (tx_chan is_low))" by simp
  from tx_frame_accept [OF inv vp this, of P s] obtain ch e where
    a: "wcn36xx_dxe_tx_frame P vp s is_low w =
          Some (0, emit e (set_ch (tx_chan is_low) ch (emit (DmaMap s) w)))"
    "tx_inv b t (k + 2) d ch" "tx_pending ch = tx_pending (dxe_ch w (tx_chan is_low)) @ [s]"
    "ch_desc_num ch = ch_desc_num (dxe_ch w (tx_chan is_low))" "\<forall>s. e \<noteq> FreeTxSkb s" by blast
  let ?w = "emit e (set_ch (tx_chan is_low) ch (emit (DmaMap s) w))"
  from a(2) vp have "tx_ok vp is_low ?w"
    unfolding tx_ok_def by auto
  moreover have "tx_freed (klog ?w) = tx_freed (klog w)"
    using tx_freed_other [OF a(5)] by simp
  ultimately show ?case
    using a by (simp add: waits_status_def)
next
  case (2 w s)
  then obtain b t k d where inv: "tx_inv b t k d (dxe_ch w (tx_chan is_low))"
    by (auto simp: tx_ok_def)
  from 2 tx_room_iff [OF inv] have "ch_desc_num (dxe_ch w (tx_chan is_low)) < k + 2" by simp
  from tx_frame_full [OF inv this, of P vp s] 2(1) show ?case
    by (simp add: tx_ok_def waits_status_def)
next
  case (3 w)
  then obtain b t k d where inv: "tx_inv b t k d (dxe_ch w (tx_chan is_low))"
    by (auto simp: tx_ok_def)
  obtain w1 ch' l where
    "reap_tx_dxes (tx_chan is_low) w = Some (set_ch (tx_chan is_low) ch' w1)"
    "tx_inv b ((t + d) mod ch_desc_num ch') (k - d) 0 ch'"
    "ch_desc_num ch' = ch_desc_num (dxe_ch w (tx_chan is_low))" "reaped w w1 l"
    "tx_pending (dxe_ch w (tx_chan is_low)) = l @ tx_pending ch'" "length l = (d + t mod 2) div 2"
    by (rule reap_tx_dxes_ok [OF inv])
  with 3 show ?case
    by (auto simp: tx_ok_def waits_status_def reaped_def intro!: exI [of _ l])
next
  case (4 w)
  then obtain b t k d where inv: "tx_inv b t k d (dxe_ch w (tx_chan is_low))"
    by (auto simp: tx_ok_def)
  have "klog (dma_done (tx_chan is_low) w) = klog w" "skbs (dma_done (tx_chan is_low) w) = skbs w"
    by (simp_all add: dma_done_def Let_def split: option.split)
  with 4 dma_done_inv [OF inv] show ?case
    by (auto simp: tx_ok_def waits_status_def)
next
  case (5 w)
  then obtain b t k d where inv: "tx_inv b t k d (dxe_ch w (tx_chan is_low))"
    by (auto simp: tx_ok_def)
  then have core: "tx_core b t k d (dxe_ch w (tx_chan is_low))" by (simp add: tx_inv_def)
  have "k + t mod 2 \<le> ch_desc_num (dxe_ch w (tx_chan is_low))"
  proof (cases "even t")
    case True
    then show ?thesis using tx_core_nums(2) [OF core] by simp
  next
    case False
    moreover have "k \<noteq> ch_desc_num (dxe_ch w (tx_chan is_low))"
      using False tx_core_nums(4) [OF core] tx_shape_n [OF tx_core_shape [OF core]] by auto
    ultimately show ?thesis
      using tx_core_nums(2) [OF core] by (simp add: odd_iff_mod_2_eq_one)
  qed
  with tx_pending_length [OF inv] show ?case
    by (simp add: div_le_mono)
qed

section \<open>Properties of the transmit path\<close>

lemma ring4_inv: "tx_inv 0 0 0 0 (ring4 c)"
proof -
  have "i < 4 \<Longrightarrow> i = 0 \<or> i = 1 \<or> i = 2 \<or> i = (3::nat)" for i by linarith
  then show ?thesis
    by (auto simp: tx_inv_def tx_core_def tx_shape_def Let_def ring4_def zero_ch_def ring_ctl_def
        ring_desc_def ring4_ctl_def dxe_ctrl_valid dxe_ctrl_valid(1) [simplified])
qed

lemma sample_tx_ok: "tx_ok (Some 0) is_low sample_wcn"
  using ring4_inv [of "tx_chan is_low"] unfolding tx_ok_def by (force simp: sample_wcn_def)

text \<open>C3: Through any history of submissions, hardware completions and reaping interrupts, starting
  from an empty ring with no frame waiting for a status, no call faults, and the frames a channel
  accepted are exactly those it has freed followed by those still in the ring, in the order of
  acceptance: none is lost, duplicated or overtaken, and never more than half the blocks hold one.\<close>

theorem tx_channel_fifo:
  assumes "tx_ok vp is_low w" and "tx_pending (dxe_ch w (tx_chan is_low)) = []"
    and "waits_status w = {}" and "tx_freed (klog w) = []"
  shows "\<exists>acc w'. port_run (\<lambda>s w. wcn36xx_dxe_tx_frame P vp s is_low w)
             (reap_tx_dxes (tx_chan is_low)) (dma_done (tx_chan is_low)) ops w = Some (acc, w') \<and>
           acc = tx_freed (klog w') @ tx_pending (dxe_ch w' (tx_chan is_low)) \<and>
           length (tx_pending (dxe_ch w' (tx_chan is_low)))
             \<le> ch_desc_num (dxe_ch w (tx_chan is_low)) div 2"
  using assms by (rule txq.run_from_empty)

theorem tx_channel_fifo_witness:
  "\<exists>acc w'. port_run (\<lambda>s w. wcn36xx_dxe_tx_frame sample_platform (Some 0) s True w)
       (reap_tx_dxes (tx_chan True)) (dma_done (tx_chan True))
       [Submit 1, Submit 2, Hardware, Submit 3, Hardware, Retire, Submit 4] sample_wcn = Some (acc, w') \<and>
     acc = tx_freed (klog w') @ tx_pending (dxe_ch w' (tx_chan True)) \<and>
     length (tx_pending (dxe_ch w' (tx_chan True)))
       \<le> ch_desc_num (dxe_ch sample_wcn (tx_chan True)) div 2"
proof (rule tx_channel_fifo [OF sample_tx_ok])
  show "tx_pending (dxe_ch sample_wcn (tx_chan True)) = []"
    using tx_pending_positions [OF ring4_inv, of WCN36XX_DXE_CH_TX_L]
    by (simp add: sample_wcn_def tx_chan_def List.map_filter_simps)
  show "waits_status sample_wcn = {}"
    by (simp add: waits_status_def sample_wcn_def sample_skb_def)
  show "tx_freed (klog sample_wcn) = []"
    by (simp add: tx_freed_def sample_wcn_def List.map_filter_simps)
qed

text \<open>\<open>wcn36xx_dxe_tx_frame\<close> accepts a frame exactly when fewer than half of the channel's blocks
  hold frames, and then appends it to the queue; otherwise it changes nothing in the ring, stops the
  queues of mac80211, records that, and returns \<open>-EBUSY\<close>.\<close>

theorem tx_frame_spec:
  assumes ok: "tx_ok vp is_low w"
  defines "ch \<equiv> dxe_ch w (tx_chan is_low)"
  shows "if length (tx_pending ch) < ch_desc_num ch div 2
         then \<exists>w'. wcn36xx_dxe_tx_frame P vp s is_low w = Some (0, w') \<and> tx_ok vp is_low w' \<and>
                tx_pending (dxe_ch w' (tx_chan is_low)) = tx_pending ch @ [s]
         else wcn36xx_dxe_tx_frame P vp s is_low w =
                Some (- EBUSY, (emit StopQueues w)\<lparr> queues_stopped := True \<rparr>)"
proof -
  from ok obtain b t k d where inv: "tx_inv b t k d (dxe_ch w (tx_chan is_low))"
    by (auto simp: tx_ok_def)
  show ?thesis
    using txq.submit_room [OF ok, where x = s and P = P] tx_frame_full [OF inv, of P vp s] tx_room_iff [OF inv]
    unfolding ch_def by auto
qed

theorem tx_frame_spec_witness:
  "\<exists>w'. wcn36xx_dxe_tx_frame sample_platform (Some 0) 7 True sample_wcn = Some (0, w') \<and>
        tx_ok (Some 0) True w' \<and> tx_pending (dxe_ch w' (tx_chan True)) = [7]"
proof -
  have "tx_pending (dxe_ch sample_wcn (tx_chan True)) = []"
    using tx_pending_positions [OF ring4_inv, of WCN36XX_DXE_CH_TX_L]
    by (simp add: sample_wcn_def tx_chan_def List.map_filter_simps)
  moreover have "ch_desc_num (dxe_ch sample_wcn (tx_chan True)) = 4"
    by (simp add: sample_wcn_def ring4_def)
  ultimately show ?thesis
    using tx_frame_spec [OF sample_tx_ok [of True], of sample_platform 7] by simp
qed

text \<open>C16: The reaping loop, called on any transmit ring in any of its states (empty, full, partly
  finished), terminates within one lap and without a fault, removes exactly the blocks the hardware
  has finished, frees the frames in them that wait for no status, in order, and wakes mac80211's
  queues if it removed a frame while they were stopped.\<close>

theorem reap_tx_dxes_spec:
  assumes "tx_inv b t k d (dxe_ch w c)"
  shows "\<exists>w' l. reap_tx_dxes c w = Some w' \<and>
           tx_inv b ((t + d) mod ch_desc_num (dxe_ch w c)) (k - d) 0 (dxe_ch w' c) \<and>
           tx_pending (dxe_ch w c) = l @ tx_pending (dxe_ch w' c) \<and> length l = (d + t mod 2) div 2 \<and>
           tx_freed (klog w') = tx_freed (klog w) @ filter (\<lambda>s. s \<notin> waits_status w) l \<and>
           (queues_stopped w' \<longleftrightarrow> queues_stopped w \<and> l = []) \<and>
           (WakeQueues \<in> set (klog w') \<longleftrightarrow>
              WakeQueues \<in> set (klog w) \<or> queues_stopped w \<and> l \<noteq> [])"
proof -
  obtain w1 ch' l where
    r: "reap_tx_dxes c w = Some (set_ch c ch' w1)"
    "tx_inv b ((t + d) mod ch_desc_num ch') (k - d) 0 ch'"
    "ch_desc_num ch' = ch_desc_num (dxe_ch w c)" "reaped w w1 l"
    "tx_pending (dxe_ch w c) = l @ tx_pending ch'" "length l = (d + t mod 2) div 2"
    by (rule reap_tx_dxes_ok [OF assms])
  then show ?thesis
    by (intro exI [of _ "set_ch c ch' w1"] exI [of _ l]) (simp add: reaped_def waits_status_def)
qed

theorem reap_tx_dxes_spec_witness:
  "\<exists>w' l. reap_tx_dxes WCN36XX_DXE_CH_TX_H sample_wcn = Some w' \<and>
     tx_pending (dxe_ch sample_wcn WCN36XX_DXE_CH_TX_H) = l @ tx_pending (dxe_ch w' WCN36XX_DXE_CH_TX_H) \<and>
     length l = 0"
  using reap_tx_dxes_spec [of 0 0 0 0 sample_wcn WCN36XX_DXE_CH_TX_H] ring4_inv
  by (auto simp: sample_wcn_def)

text \<open>The next buffer descriptor of a transmit channel always exists: in every state of the ring
  the head is a block with descriptor memory, so that the error branch of \<open>wcn36xx_start_tx\<close> for a
  NULL descriptor is never taken.\<close>

theorem get_next_bd_exists:
  assumes "tx_ok vp is_low w"
  shows "\<exists>p. wcn36xx_dxe_get_next_bd w is_low = Some (Some p)"
proof -
  from assms obtain b t k d where inv: "tx_inv b t k d (dxe_ch w (tx_chan is_low))"
    by (auto simp: tx_ok_def)
  let ?ch = "dxe_ch w (tx_chan is_low)" and ?h = "(t + k) mod ch_desc_num (dxe_ch w (tx_chan is_low))"
  from inv have sh: "tx_shape b ?ch" by (simp add: tx_inv_def tx_core_def Let_def)
  note hd = tx_head_blocks [OF inv]
  then have "?h < ch_desc_num ?ch" by simp
  then obtain c where "ch_mem ?ch (b + ?h) = Some c" "ring_ctl b ?ch ?h = c"
    "ctl_next c = Some (b + Suc ?h mod ch_desc_num ?ch)" "ctl_desc c = Some ?h"
    "ctl_bd_cpu_addr c = None \<longleftrightarrow> odd ?h"
    by (rule tx_shape_block [OF sh])
  with hd show ?thesis
    by (auto simp: wcn36xx_dxe_get_next_bd_def Let_def ctl_at_def)
qed

theorem get_next_bd_exists_witness:
  "\<exists>p. wcn36xx_dxe_get_next_bd sample_wcn True = Some (Some p)"
  by (rule get_next_bd_exists [OF sample_tx_ok])

end
