(* ===== verification/Txrx_Bd.thy ===== *)
theory Txrx_Bd
  imports Driver_State
begin

text \<open>
  The buffer descriptors of \<^verbatim>\<open>txrx.h\<close>. A bit field of \<open>n\<close> bits is an \<open>n word\<close>, so that an
  assignment truncates as in C. The target lays bit fields out from the least significant bit
  of a little-endian word; the driver then swaps every word to big endian (\<open>buff_to_be\<close>).
\<close>

section \<open>Byte order\<close>

definition cpu_to_be32 :: "u32 \<Rightarrow> u32" where
  "cpu_to_be32 x = of_le32 (rev (le32 x))"

definition buff_to_be :: "u32 list \<Rightarrow> u32 list" where
  "buff_to_be ws = map cpu_to_be32 ws"

definition words_bytes :: "u32 list \<Rightarrow> u8 list" where
  "words_bytes ws = concat (map le32 ws)"

fun bytes_words :: "u8 list \<Rightarrow> u32 list" where
  "bytes_words (a # b # c # d # bs) = of_le32 [a, b, c, d] # bytes_words bs"
| "bytes_words _ = []"

lemma le32_of_le32 [simp]: "le32 (of_le32 [a, b, c, d]) = [a, b, c, d]"
proof -
  have "(ucast (of_le32 [a, b, c, d]) :: u8) = a"
    "(ucast (drop_bit 8 (of_le32 [a, b, c, d])) :: u8) = b"
    "(ucast (drop_bit 16 (of_le32 [a, b, c, d])) :: u8) = c"
    "(ucast (drop_bit 24 (of_le32 [a, b, c, d])) :: u8) = d"
    by (rule bit_word_eqI, auto simp: bit_simps dest: bit_imp_le_length)+
  then show ?thesis
    by (simp add: le32_def del: of_le32.simps)
qed

lemma le32_four: "\<exists>a b c d. le32 x = [a, b, c, d]"
  by (simp add: le32_def)

lemma le32_cpu_to_be32: "le32 (cpu_to_be32 x) = rev (le32 x)"
proof -
  obtain a b c d where "le32 x = [a, b, c, d]" using le32_four by blast
  then show ?thesis by (simp add: cpu_to_be32_def del: of_le32.simps)
qed

lemma cpu_to_be32_twice [simp]: "cpu_to_be32 (cpu_to_be32 x) = x"
  using le32_cpu_to_be32 [of x] by (simp add: cpu_to_be32_def)

lemma bytes_words_bytes [simp]: "bytes_words (words_bytes ws) = ws"
proof (induction ws)
  case Nil then show ?case by (simp add: words_bytes_def)
next
  case (Cons x ws)
  obtain a b c d where l: "le32 x = [a, b, c, d]" using le32_four by blast
  have "of_le32 [a, b, c, d] = x" using of_le32_le32 [of x] l by simp
  with l Cons show ?case by (simp add: words_bytes_def del: of_le32.simps)
qed

lemma words_bytes_length [simp]: "length (words_bytes ws) = 4 * length ws"
  by (induction ws) (simp_all add: words_bytes_def)

lemma buff_to_be_twice [simp]: "buff_to_be (buff_to_be ws) = ws"
  by (simp add: buff_to_be_def comp_def)

lemma buff_to_be_length [simp]: "length (buff_to_be ws) = length ws"
  by (simp add: buff_to_be_def)

section \<open>The PDU part\<close>

record wcn36xx_pdu =
  dpu_fb :: "8 word"
  adu_fb :: "8 word"
  pdu_id :: "16 word"
  tail_pdu_idx :: "16 word"
  head_pdu_idx :: "16 word"
  pdu_count :: "7 word"
  mpdu_data_off :: "9 word"
  mpdu_header_off :: "8 word"
  mpdu_header_len :: "8 word"
  pdu_reserved4 :: "8 word"
  pdu_tid :: "4 word"
  bd_ssn :: "2 word"
  pdu_reserved3 :: "2 word"
  mpdu_len :: "16 word"

text \<open>\<open>fld n x\<close> places a field at bit \<open>n\<close> of its word, \<open>get n x\<close> reads it back.\<close>

definition fld :: "nat \<Rightarrow> 'a::len word \<Rightarrow> u32" where
  "fld n x = push_bit n (ucast x)"

definition get_fld :: "nat \<Rightarrow> u32 \<Rightarrow> 'a::len word" where
  "get_fld n x = ucast (drop_bit n x)"

definition pdu_words :: "wcn36xx_pdu \<Rightarrow> u32 list" where
  "pdu_words p =
     [fld 0 (dpu_fb p) OR fld 8 (adu_fb p) OR fld 16 (pdu_id p),
      fld 0 (tail_pdu_idx p) OR fld 16 (head_pdu_idx p),
      fld 0 (pdu_count p) OR fld 7 (mpdu_data_off p) OR fld 16 (mpdu_header_off p) OR
        fld 24 (mpdu_header_len p),
      fld 0 (pdu_reserved4 p) OR fld 8 (pdu_tid p) OR fld 12 (bd_ssn p) OR fld 14 (pdu_reserved3 p) OR
        fld 16 (mpdu_len p)]"

definition words_pdu :: "u32 \<Rightarrow> u32 \<Rightarrow> u32 \<Rightarrow> u32 \<Rightarrow> wcn36xx_pdu" where
  "words_pdu a b c d =
     \<lparr> dpu_fb = get_fld 0 a, adu_fb = get_fld 8 a, pdu_id = get_fld 16 a,
       tail_pdu_idx = get_fld 0 b, head_pdu_idx = get_fld 16 b,
       pdu_count = get_fld 0 c, mpdu_data_off = get_fld 7 c, mpdu_header_off = get_fld 16 c,
       mpdu_header_len = get_fld 24 c,
       pdu_reserved4 = get_fld 0 d, pdu_tid = get_fld 8 d, bd_ssn = get_fld 12 d,
       pdu_reserved3 = get_fld 14 d, mpdu_len = get_fld 16 d \<rparr>"

definition zero_pdu :: wcn36xx_pdu where
  "zero_pdu = words_pdu 0 0 0 0"

section \<open>The transmit descriptor\<close>

record wcn36xx_tx_bd =
  tx_bdt :: "2 word"
  tx_ft :: "1 word"
  tx_dpu_ne :: "1 word"
  fw_tx_comp :: "1 word"
  tx_comp :: "1 word"
  tx_reserved1 :: "1 word"
  tx_ub :: "1 word"
  tx_rmf :: "1 word"
  tx_reserved0 :: "12 word"
  tx_dpu_sign :: "3 word"
  tx_dpu_rf :: "8 word"
  tx_pdu :: wcn36xx_pdu
  tx_reserved5 :: "7 word"
  queue_id :: "5 word"
  bd_rate :: "2 word"
  ack_policy :: "2 word"
  tx_sta_index :: "8 word"
  tx_dpu_desc_idx :: "8 word"
  tx_bd_sign :: u32
  tx_reserved6 :: u32
  dxe_start_time :: u32
  dxe_end_time :: u32

definition tx_bd_words :: "wcn36xx_tx_bd \<Rightarrow> u32 list" where
  "tx_bd_words bd =
     [fld 0 (tx_bdt bd) OR fld 2 (tx_ft bd) OR fld 3 (tx_dpu_ne bd) OR fld 4 (fw_tx_comp bd) OR
        fld 5 (tx_comp bd) OR fld 6 (tx_reserved1 bd) OR fld 7 (tx_ub bd) OR fld 8 (tx_rmf bd) OR
        fld 9 (tx_reserved0 bd) OR fld 21 (tx_dpu_sign bd) OR fld 24 (tx_dpu_rf bd)] @
     pdu_words (tx_pdu bd) @
     [fld 0 (tx_reserved5 bd) OR fld 7 (queue_id bd) OR fld 12 (bd_rate bd) OR
        fld 14 (ack_policy bd) OR fld 16 (tx_sta_index bd) OR fld 24 (tx_dpu_desc_idx bd),
      tx_bd_sign bd, tx_reserved6 bd, dxe_start_time bd, dxe_end_time bd]"

fun words_tx_bd :: "u32 list \<Rightarrow> wcn36xx_tx_bd option" where
  "words_tx_bd [x, a, b, c, d, y, s, r, t0, t1] = Some
     \<lparr> tx_bdt = get_fld 0 x, tx_ft = get_fld 2 x, tx_dpu_ne = get_fld 3 x, fw_tx_comp = get_fld 4 x,
       tx_comp = get_fld 5 x, tx_reserved1 = get_fld 6 x, tx_ub = get_fld 7 x, tx_rmf = get_fld 8 x,
       tx_reserved0 = get_fld 9 x, tx_dpu_sign = get_fld 21 x, tx_dpu_rf = get_fld 24 x,
       tx_pdu = words_pdu a b c d,
       tx_reserved5 = get_fld 0 y, queue_id = get_fld 7 y, bd_rate = get_fld 12 y,
       ack_policy = get_fld 14 y, tx_sta_index = get_fld 16 y, tx_dpu_desc_idx = get_fld 24 y,
       tx_bd_sign = s, tx_reserved6 = r, dxe_start_time = t0, dxe_end_time = t1 \<rparr>"
| "words_tx_bd _ = None"

definition zero_tx_bd :: wcn36xx_tx_bd where
  "zero_tx_bd =
     \<lparr> tx_bdt = 0, tx_ft = 0, tx_dpu_ne = 0, fw_tx_comp = 0, tx_comp = 0, tx_reserved1 = 0,
       tx_ub = 0, tx_rmf = 0, tx_reserved0 = 0, tx_dpu_sign = 0, tx_dpu_rf = 0, tx_pdu = zero_pdu,
       tx_reserved5 = 0, queue_id = 0, bd_rate = 0, ack_policy = 0, tx_sta_index = 0,
       tx_dpu_desc_idx = 0, tx_bd_sign = 0, tx_reserved6 = 0, dxe_start_time = 0,
       dxe_end_time = 0 \<rparr>"

lemma tx_bd_words_length [simp]: "length (tx_bd_words bd) = 10"
  by (simp add: tx_bd_words_def pdu_words_def)

section \<open>The receive descriptor\<close>

record wcn36xx_rx_bd =
  rx_bdt :: "2 word"
  rx_ft :: "1 word"
  rx_dpu_ne :: "1 word"
  rx_key_id :: "3 word"
  rx_ub :: "1 word"
  rx_rmf :: "1 word"
  uma_bypass :: "1 word"
  csr11 :: "1 word"
  rx_reserved0 :: "1 word"
  scan_learn :: "1 word"
  rx_ch :: "4 word"
  rtsf :: "1 word"
  bsf :: "1 word"
  a2hf :: "1 word"
  st_auf :: "1 word"
  rx_dpu_sign :: "3 word"
  rx_dpu_rf :: "8 word"
  rx_pdu :: wcn36xx_pdu
  rx_addr3 :: "8 word"
  rx_addr2 :: "8 word"
  rx_addr1 :: "8 word"
  rx_dpu_desc_idx :: "8 word"
  rxp_flags :: "23 word"
  rate_id :: "9 word"
  phy_stat0 :: u32
  phy_stat1 :: u32
  rx_times :: u32
  pmi_cmd :: "u32 list"
  rx_reserved7 :: "4 word"
  reorder_slot_id :: "6 word"
  reorder_fwd_id :: "6 word"
  rx_reserved6 :: "12 word"
  reorder_code :: "4 word"
  exp_seq_num :: "12 word"
  cur_seq_num :: "12 word"
  fr_type_subtype :: "8 word"
  msdu_size :: "16 word"
  sub_fr_id :: "4 word"
  proc_order :: "4 word"
  rx_reserved9 :: "4 word"
  rx_aef :: "1 word"
  rx_lsf :: "1 word"
  rx_esf :: "1 word"
  rx_asf :: "1 word"

definition words_rx_bd :: "u32 list \<Rightarrow> wcn36xx_rx_bd" where
  "words_rx_bd ws =
     \<lparr> rx_bdt = get_fld 0 (ws ! 0), rx_ft = get_fld 2 (ws ! 0), rx_dpu_ne = get_fld 3 (ws ! 0),
       rx_key_id = get_fld 4 (ws ! 0), rx_ub = get_fld 7 (ws ! 0), rx_rmf = get_fld 8 (ws ! 0),
       uma_bypass = get_fld 9 (ws ! 0), csr11 = get_fld 10 (ws ! 0),
       rx_reserved0 = get_fld 11 (ws ! 0), scan_learn = get_fld 12 (ws ! 0),
       rx_ch = get_fld 13 (ws ! 0), rtsf = get_fld 17 (ws ! 0), bsf = get_fld 18 (ws ! 0),
       a2hf = get_fld 19 (ws ! 0), st_auf = get_fld 20 (ws ! 0),
       rx_dpu_sign = get_fld 21 (ws ! 0), rx_dpu_rf = get_fld 24 (ws ! 0),
       rx_pdu = words_pdu (ws ! 1) (ws ! 2) (ws ! 3) (ws ! 4),
       rx_addr3 = get_fld 0 (ws ! 5), rx_addr2 = get_fld 8 (ws ! 5), rx_addr1 = get_fld 16 (ws ! 5),
       rx_dpu_desc_idx = get_fld 24 (ws ! 5),
       rxp_flags = get_fld 0 (ws ! 6), rate_id = get_fld 23 (ws ! 6),
       phy_stat0 = ws ! 7, phy_stat1 = ws ! 8, rx_times = ws ! 9, pmi_cmd = take 6 (drop 10 ws),
       rx_reserved7 = get_fld 0 (ws ! 16), reorder_slot_id = get_fld 4 (ws ! 16),
       reorder_fwd_id = get_fld 10 (ws ! 16), rx_reserved6 = get_fld 16 (ws ! 16),
       reorder_code = get_fld 28 (ws ! 16),
       exp_seq_num = get_fld 0 (ws ! 17), cur_seq_num = get_fld 12 (ws ! 17),
       fr_type_subtype = get_fld 24 (ws ! 17),
       msdu_size = get_fld 0 (ws ! 18), sub_fr_id = get_fld 16 (ws ! 18),
       proc_order = get_fld 20 (ws ! 18), rx_reserved9 = get_fld 24 (ws ! 18),
       rx_aef = get_fld 28 (ws ! 18), rx_lsf = get_fld 29 (ws ! 18), rx_esf = get_fld 30 (ws ! 18),
       rx_asf = get_fld 31 (ws ! 18) \<rparr>"

section \<open>The layout is one-to-one\<close>

lemmas fld_bits = get_fld_def fld_def bit_simps

lemma words_pdu_words: "words_pdu (pdu_words p ! 0) (pdu_words p ! 1) (pdu_words p ! 2) (pdu_words p ! 3) = p"
  unfolding words_pdu_def
  by (rule wcn36xx_pdu.equality; simp add: pdu_words_def;
      rule bit_word_eqI; auto simp: fld_bits dest: bit_imp_le_length)

lemma words_tx_bd_words: "words_tx_bd (tx_bd_words bd) = Some bd"
proof -
  have p: "tx_bd_words bd = [tx_bd_words bd ! 0, pdu_words (tx_pdu bd) ! 0, pdu_words (tx_pdu bd) ! 1,
      pdu_words (tx_pdu bd) ! 2, pdu_words (tx_pdu bd) ! 3, tx_bd_words bd ! 5, tx_bd_sign bd,
      tx_reserved6 bd, dxe_start_time bd, dxe_end_time bd]"
    by (simp add: tx_bd_words_def pdu_words_def)
  show ?thesis
    by (subst p, unfold words_tx_bd.simps option.inject words_pdu_words, rule wcn36xx_tx_bd.equality; (simp; fail)?; simp add: tx_bd_words_def pdu_words_def;
        rule bit_word_eqI; auto simp: fld_bits dest: bit_imp_le_length)
qed

text \<open>The transmit descriptor survives the trip to the firmware: the words the driver builds,
  swapped to big endian and stored as bytes, read back with the same bit positions, give every
  field of the descriptor unchanged.\<close>

theorem tx_bd_roundtrip:
  "words_tx_bd (buff_to_be (bytes_words (words_bytes (buff_to_be (tx_bd_words bd))))) = Some bd"
  by (simp add: words_tx_bd_words)

end
