(* ===== verification/Dxe_Rx.thy ===== *)
theory Dxe_Rx
  imports Dxe_Tx Samples Txrx_Bd
begin

text \<open>
  The receive path: \<open>wcn36xx_rx_skb\<close> of \<^verbatim>\<open>txrx.c\<close>, which decodes the descriptor in front of a
  received frame and hands the frame to mac80211, and the receive rings of \<^verbatim>\<open>dxe.c\<close>. A buffer
  is refilled before its frame is passed on. An access past the end of a buffer
  (\<^verbatim>\<open>skb_over_panic\<close>) is \<open>None\<close>.
\<close>

section \<open>Decoding a received buffer\<close>

abbreviation (input) sizeof_rx_bd :: nat where "sizeof_rx_bd \<equiv> 76"

definition get_rssi0 :: "wcn36xx_rx_bd \<Rightarrow> int" where
  "get_rssi0 bd = 100 - uint (drop_bit 24 (phy_stat0 bd) AND 0xff)"

definition skb_put :: "nat \<Rightarrow> sk_buff \<Rightarrow> sk_buff option" where
  "skb_put n s = (if skb_data s + skb_len s + n \<le> length (skb_mem s)
                  then Some (s\<lparr> skb_len := skb_len s + n \<rparr>) else None)"

definition skb_pull :: "nat \<Rightarrow> sk_buff \<Rightarrow> sk_buff" where
  "skb_pull n s = (if skb_len s < n then s
                   else s\<lparr> skb_data := skb_data s + n, skb_len := skb_len s - n \<rparr>)"

definition rx_status_of :: "wcn36xx \<Rightarrow> wcn36xx_rx_bd \<Rightarrow> ieee80211_rx_status" where
  "rx_status_of w bd =
     \<lparr> rx_mactime = 10, rx_freq = conf_center_freq (hw_conf w), rx_band = conf_band (hw_conf w),
       rx_signal = - get_rssi0 bd, rx_antenna = 1, rx_rate_idx = 1, rx_flag_iv_stripped = True,
       rx_flag_mmic_stripped = True, rx_flag_decrypted = True \<rparr>"

text \<open>The descriptor in place: the words of the buffer's first 76 bytes, swapped.\<close>

definition rx_bd_swap :: "sk_buff \<Rightarrow> (wcn36xx_rx_bd \<times> sk_buff) option" where
  "rx_bd_swap s = do {
     raw \<leftarrow> buf_read (skb_mem s) (skb_data s) sizeof_rx_bd;
     let ws = buff_to_be (bytes_words raw);
     mem \<leftarrow> buf_write (skb_mem s) (skb_data s) (words_bytes ws);
     Some (words_rx_bd ws, s\<lparr> skb_mem := mem \<rparr>) }"

definition wcn36xx_rx_skb :: "nat \<Rightarrow> wcn36xx \<Rightarrow> (int \<times> wcn36xx) option" where
  "wcn36xx_rx_skb i w = do {
     (bd, s) \<leftarrow> rx_bd_swap (skbs w i);
     let off = unat (mpdu_header_off (rx_pdu bd));
     let len = unat (mpdu_len (rx_pdu bd));
     s \<leftarrow> skb_put (off + len) s;
     let s = skb_pull off s;
     let w = w\<lparr> skbs := (skbs w)(i := s) \<rparr>;
     Some (0, emit (RxSkb i (skb_bytes s) (rx_status_of w bd)) w) }"

section \<open>The receive rings\<close>

definition wcn36xx_dxe_fill_skb ::
  "platform \<Rightarrow> nat \<Rightarrow> wcn36xx_dxe_ch \<Rightarrow> wcn36xx \<Rightarrow> (int \<times> wcn36xx_dxe_ch \<times> wcn36xx) option" where
  "wcn36xx_dxe_fill_skb P a ch w = do {
     ctl \<leftarrow> ch_mem ch a;
     let r = p_alloc_skb P (klog w);
     let w = emit AllocSkb w;
     case r of
       None \<Rightarrow> Some (- ENOMEM, ch, w)
     | Some mem \<Rightarrow> do {
         let i = skb_brk w;
         let w = w\<lparr> skbs := (skbs w)(i := \<lparr> skb_mem = mem, skb_data = 0, skb_len = 0,
                      skb_cb_flags = {}, skb_is_vo = False \<rparr>), skb_brk := Suc i \<rparr>;
         let bus = p_dma_map P (klog w) i;
         let w = emit (DmaMap i) w;
         d \<leftarrow> desc_at ch ctl;
         k \<leftarrow> ctl_desc ctl;
         Some (0, put_ctl a (ctl\<lparr> ctl_skb := Some i \<rparr>)
                    (put_desc k (d\<lparr> desc_dst_addr_l := bus \<rparr>) ch), w) } }"

fun ch_alloc_skb_loop :: "platform \<Rightarrow> nat \<Rightarrow> nat option \<Rightarrow> wcn36xx_dxe_ch \<Rightarrow> wcn36xx
     \<Rightarrow> (wcn36xx_dxe_ch \<times> wcn36xx) option" where
  "ch_alloc_skb_loop P 0 cur ch w = Some (ch, w)"
| "ch_alloc_skb_loop P (Suc k) cur ch w = do {
     a \<leftarrow> cur;
     (_, ch, w) \<leftarrow> wcn36xx_dxe_fill_skb P a ch w;
     ctl \<leftarrow> ch_mem ch a;
     ch_alloc_skb_loop P k (ctl_next ctl) ch w }"

definition wcn36xx_dxe_ch_alloc_skb ::
  "platform \<Rightarrow> wcn36xx_dxe_ch_type \<Rightarrow> wcn36xx \<Rightarrow> (int \<times> wcn36xx) option" where
  "wcn36xx_dxe_ch_alloc_skb P c w = do {
     (ch, w) \<leftarrow> ch_alloc_skb_loop P (ch_desc_num (dxe_ch w c)) (ch_head (dxe_ch w c)) (dxe_ch w c) w;
     Some (0, set_ch c ch w) }"

text \<open>\<^verbatim>\<open>kfree_skb(NULL)\<close> does nothing.\<close>

fun ch_free_skbs_loop :: "nat \<Rightarrow> nat option \<Rightarrow> wcn36xx_dxe_ch \<Rightarrow> wcn36xx \<Rightarrow> wcn36xx option" where
  "ch_free_skbs_loop 0 cur ch w = Some w"
| "ch_free_skbs_loop (Suc k) cur ch w = do {
     ctl \<leftarrow> ctl_at ch cur;
     ch_free_skbs_loop k (ctl_next ctl) ch
       (case ctl_skb ctl of None \<Rightarrow> w | Some s \<Rightarrow> emit (FreeSkb s) w) }"

definition wcn36xx_dxe_ch_free_skbs :: "wcn36xx_dxe_ch_type \<Rightarrow> wcn36xx \<Rightarrow> wcn36xx option" where
  "wcn36xx_dxe_ch_free_skbs c w =
     ch_free_skbs_loop (ch_desc_num (dxe_ch w c)) (ch_head (dxe_ch w c)) (dxe_ch w c) w"

text \<open>The \<^verbatim>\<open>switch\<close> of \<open>wcn36xx_rx_handle_packets\<close>: the descriptor goes back to the hardware.\<close>

definition rx_rearm :: "nat \<Rightarrow> wcn36xx_dxe_ch \<Rightarrow> wcn36xx \<Rightarrow> (wcn36xx_dxe_ch \<times> wcn36xx) option" where
  "rx_rearm a ch w = do {
     ctl \<leftarrow> ch_mem ch a;
     k \<leftarrow> ctl_desc ctl;
     d \<leftarrow> desc_at ch ctl;
     case ch_ch_type ch of
       WCN36XX_DXE_CH_RX_L \<Rightarrow>
         Some (put_desc k (d\<lparr> desc_ctrl := DXE_CTRL WCN36XX_DXE_CH_RX_L \<rparr>) ch,
               wcn36xx_dxe_write_register (reg_addr WCN36XX_DXE_ENCH_ADDR)
                 (INT_MASK_CHAN WCN36XX_DXE_CH_RX_L) w)
     | WCN36XX_DXE_CH_RX_H \<Rightarrow>
         Some (put_desc k (d\<lparr> desc_ctrl := DXE_CTRL WCN36XX_DXE_CH_RX_H \<rparr>) ch,
               wcn36xx_dxe_write_register (reg_addr WCN36XX_DXE_ENCH_ADDR)
                 (INT_MASK_CHAN WCN36XX_DXE_CH_RX_H) w)
     | _ \<Rightarrow> Some (ch, w) }"

definition rx_one :: "platform \<Rightarrow> nat \<Rightarrow> wcn36xx_dxe_ch \<Rightarrow> wcn36xx
     \<Rightarrow> (wcn36xx_dxe_ch \<times> wcn36xx) option" where
  "rx_one P a ch w = do {
     ctl \<leftarrow> ch_mem ch a;
     d \<leftarrow> desc_at ch ctl;
     (_, ch, w) \<leftarrow> wcn36xx_dxe_fill_skb P a ch w;
     (ch, w) \<leftarrow> rx_rearm a ch w;
     let w = emit (DmaUnmap (desc_dst_addr_l d)) w;
     s \<leftarrow> ctl_skb ctl;
     (_, w) \<leftarrow> wcn36xx_rx_skb s w;
     Some (ch, w) }"

text \<open>The loop, with a fuel that \<open>rx_handle_packets_spec\<close> shows to be enough.\<close>

fun rx_loop :: "platform \<Rightarrow> nat \<Rightarrow> nat \<Rightarrow> wcn36xx_dxe_ch \<Rightarrow> wcn36xx
     \<Rightarrow> (nat \<times> wcn36xx_dxe_ch \<times> wcn36xx) option" where
  "rx_loop P 0 a ch w = None"
| "rx_loop P (Suc fuel) a ch w = do {
     ctl \<leftarrow> ch_mem ch a;
     d \<leftarrow> desc_at ch ctl;
     if ctrl_valid (desc_ctrl d) then Some (a, ch, w)
     else do {
       (ch, w) \<leftarrow> rx_one P a ch w;
       ctl \<leftarrow> ch_mem ch a;
       na \<leftarrow> ctl_next ctl;
       rx_loop P fuel na ch w } }"

definition wcn36xx_rx_handle_packets ::
  "platform \<Rightarrow> wcn36xx_dxe_ch_type \<Rightarrow> wcn36xx \<Rightarrow> (int \<times> wcn36xx) option" where
  "wcn36xx_rx_handle_packets P c w =
     (let ch = dxe_ch w c in do {
        a \<leftarrow> ch_head ch;
        (a, ch, w) \<leftarrow> rx_loop P (Suc (ch_desc_num ch)) a ch w;
        Some (0, set_ch c (ch\<lparr> ch_head := Some a \<rparr>) w) })"

definition rx_channel :: "platform \<Rightarrow> wcn36xx_dxe_ch_type \<Rightarrow> u32 \<Rightarrow> wcn36xx \<Rightarrow> wcn36xx option" where
  "rx_channel P c int_src w =
     (if int_src AND INT_MASK_CHAN c \<noteq> 0 then do {
        (_, w) \<leftarrow> wcn36xx_rx_handle_packets P c
                   (wcn36xx_dxe_write_register (reg_addr WCN36XX_DXE_0_INT_CLR) (INT_MASK_CHAN c) w);
        Some w }
      else Some w)"

definition wcn36xx_dxe_rx_frame :: "platform \<Rightarrow> wcn36xx \<Rightarrow> wcn36xx option" where
  "wcn36xx_dxe_rx_frame P w =
     (let (int_src, w) = wcn36xx_dxe_read_register P (reg_addr WCN36XX_DXE_INT_SRC_RAW_REG) w in do {
        w \<leftarrow> rx_channel P WCN36XX_DXE_CH_RX_L int_src w;
        rx_channel P WCN36XX_DXE_CH_RX_H int_src w })"

definition wcn36xx_irq_rx_ready :: "platform \<Rightarrow> wcn36xx \<Rightarrow> wcn36xx option" where
  "wcn36xx_irq_rx_ready P w = do {
     w \<leftarrow> wcn36xx_dxe_rx_frame P (emit (DisableIrq (rx_irq w)) w);
     Some (emit (EnableIrq (rx_irq w)) w) }"

section \<open>What a received buffer yields\<close>

lemma words_bytes_76: "length raw = 76 \<Longrightarrow> length (words_bytes (buff_to_be (bytes_words raw))) = 76"
proof -
  have "length (bytes_words raw) = length raw div 4" for raw
    by (induction raw rule: bytes_words.induct) auto
  then show "length raw = 76 \<Longrightarrow> ?thesis" by simp
qed

text \<open>The descriptor and the memory after the swap, for a buffer long enough to hold one.\<close>

definition rx_bd_of :: "sk_buff \<Rightarrow> wcn36xx_rx_bd" where
  "rx_bd_of s = words_rx_bd (buff_to_be (bytes_words (take 76 (skb_mem s))))"

definition rx_mem_of :: "sk_buff \<Rightarrow> u8 list" where
  "rx_mem_of s = words_bytes (buff_to_be (bytes_words (take 76 (skb_mem s)))) @ drop 76 (skb_mem s)"

definition rx_frame_of :: "sk_buff \<Rightarrow> u8 list" where
  "rx_frame_of s = take (unat (mpdu_len (rx_pdu (rx_bd_of s))))
                     (drop (unat (mpdu_header_off (rx_pdu (rx_bd_of s)))) (rx_mem_of s))"

definition rx_fits :: "sk_buff \<Rightarrow> bool" where
  "rx_fits s \<longleftrightarrow> 76 \<le> length (skb_mem s) \<and>
     unat (mpdu_header_off (rx_pdu (rx_bd_of s))) + unat (mpdu_len (rx_pdu (rx_bd_of s)))
       \<le> length (skb_mem s)"

lemma rx_mem_of_length: "76 \<le> length (skb_mem s) \<Longrightarrow> length (rx_mem_of s) = length (skb_mem s)"
  using words_bytes_76 [of "take 76 (skb_mem s)"] by (simp add: rx_mem_of_def)

lemma rx_bd_swap_fresh:
  assumes "skb_data s = 0" and "76 \<le> length (skb_mem s)"
  shows "rx_bd_swap s = Some (rx_bd_of s, s\<lparr> skb_mem := rx_mem_of s \<rparr>)"
  using assms words_bytes_76 [of "take 76 (skb_mem s)"]
  by (simp add: rx_bd_swap_def buf_read_def buf_write_def rx_bd_of_def rx_mem_of_def Let_def)

text \<open>C18: A freshly filled receive buffer is passed to mac80211 if and only if the header offset and
  the length the firmware wrote into its descriptor stay inside the buffer; the frame that is passed
  on consists of exactly the bytes they delimit, with the signal strength negated from the
  descriptor and the channel the driver is tuned to. Otherwise the driver runs past the buffer.\<close>

theorem rx_skb_spec:
  assumes "skb_data (skbs w i) = 0" and "skb_len (skbs w i) = 0" and "76 \<le> length (skb_mem (skbs w i))"
  shows "(case wcn36xx_rx_skb i w of
            None \<Rightarrow> \<not> rx_fits (skbs w i)
          | Some (r, w') \<Rightarrow> r = 0 \<and> rx_fits (skbs w i) \<and>
              klog w' = RxSkb i (rx_frame_of (skbs w i)) (rx_status_of w (rx_bd_of (skbs w i))) # klog w \<and>
              length (rx_frame_of (skbs w i)) = unat (mpdu_len (rx_pdu (rx_bd_of (skbs w i)))))"
  using assms rx_mem_of_length [of "skbs w i"]
  by (auto simp: wcn36xx_rx_skb_def rx_bd_swap_fresh skb_put_def skb_pull_def rx_fits_def Let_def
      skb_bytes_def rx_frame_of_def rx_status_of_def emit_def)

lemma rx_buffer_fits: "rx_fits rx_buffer"
proof -
  have "unat x + unat y \<le> 80" if "x = 0" "y = 0" for x :: "8 word" and y :: "16 word"
    using that by simp
  moreover have "mpdu_header_off (rx_pdu (rx_bd_of rx_buffer)) = 0"
    "mpdu_len (rx_pdu (rx_bd_of rx_buffer)) = 0"
    by (simp_all add: rx_buffer_def rx_bd_of_def words_rx_bd_def words_pdu_def buff_to_be_def
        get_fld_def numeral_eq_Suc cpu_to_be32_def le32_def)
  ultimately show ?thesis by (simp add: rx_fits_def rx_buffer_def)
qed

theorem rx_skb_spec_witness:
  "case wcn36xx_rx_skb 5 (sample_wcn\<lparr> skbs := (\<lambda>_. rx_buffer) \<rparr>) of
     None \<Rightarrow> False | Some (r, w') \<Rightarrow> r = 0"
  using rx_skb_spec [of "sample_wcn\<lparr> skbs := (\<lambda>_. rx_buffer) \<rparr>" 5] rx_buffer_fits
  by (auto simp: rx_buffer_def split: option.splits prod.splits)

section \<open>The invariant of a receive ring\<close>

text \<open>\<open>h\<close> is the position of the head, \<open>d\<close> the number of blocks from it that the hardware has
  filled. Every block has a buffer of its own.\<close>

definition rx_shape :: "nat \<Rightarrow> wcn36xx_dxe_ch \<Rightarrow> bool" where
  "rx_shape b ch \<longleftrightarrow>
     (let n = ch_desc_num ch in 0 < n \<and> map_option length (ch_cpu_addr ch) = Some n \<and>
        (ch_ch_type ch = WCN36XX_DXE_CH_RX_L \<or> ch_ch_type ch = WCN36XX_DXE_CH_RX_H) \<and>
        (\<forall>i<n. ch_mem ch (b + i) \<noteq> None \<and> ctl_next (ring_ctl b ch i) = Some (b + Suc i mod n) \<and>
           ctl_desc (ring_ctl b ch i) = Some i))"

definition rx_skb_at :: "nat \<Rightarrow> wcn36xx_dxe_ch \<Rightarrow> nat \<Rightarrow> nat" where
  "rx_skb_at b ch i = the (ctl_skb (ring_ctl b ch i))"

text \<open>A buffer as \<^verbatim>\<open>alloc_skb\<close> gives it out.\<close>

definition skb_empty :: "sk_buff \<Rightarrow> bool" where
  "skb_empty s \<longleftrightarrow> skb_data s = 0 \<and> skb_len s = 0"

definition rx_core :: "nat \<Rightarrow> nat \<Rightarrow> nat \<Rightarrow> wcn36xx_dxe_ch \<Rightarrow> wcn36xx \<Rightarrow> bool" where
  "rx_core b h d ch w \<longleftrightarrow>
     (let n = ch_desc_num ch in rx_shape b ch \<and> h < n \<and> d \<le> n \<and>
        (\<forall>j<n. ctrl_valid (desc_ctrl (ring_desc ch ((h + j) mod n))) \<longleftrightarrow> d \<le> j) \<and>
        (\<forall>i<n. ctl_skb (ring_ctl b ch i) \<noteq> None \<and> rx_skb_at b ch i < skb_brk w \<and>
           skb_empty (skbs w (rx_skb_at b ch i))) \<and>
        inj_on (rx_skb_at b ch) {0..<n} \<and>
        (\<forall>j<d. rx_fits (skbs w (rx_skb_at b ch ((h + j) mod n)))))"

definition rx_inv :: "nat \<Rightarrow> nat \<Rightarrow> nat \<Rightarrow> wcn36xx_dxe_ch \<Rightarrow> wcn36xx \<Rightarrow> bool" where
  "rx_inv b h d ch w \<longleftrightarrow> rx_core b h d ch w \<and> ch_head ch = Some (b + h)"

text \<open>The frames passed to mac80211, oldest first.\<close>

definition rx_delivered :: "kevent list \<Rightarrow> (nat \<times> u8 list) list" where
  "rx_delivered l = rev (List.map_filter (\<lambda>e. case e of RxSkb s bs st \<Rightarrow> Some (s, bs) | _ \<Rightarrow> None) l)"

lemma rx_delivered_cons [simp]:
  "rx_delivered (e # l) = rx_delivered l @ (case e of RxSkb s bs st \<Rightarrow> [(s, bs)] | _ \<Rightarrow> [])"
  by (cases e) (simp_all add: rx_delivered_def List.map_filter_simps)

lemma rx_shape_block:
  assumes "rx_shape b ch" and "i < ch_desc_num ch"
  obtains c where "ch_mem ch (b + i) = Some c" "ring_ctl b ch i = c"
    "ctl_next c = Some (b + Suc i mod ch_desc_num ch)" "ctl_desc c = Some i"
proof -
  from assms have ex: "ch_mem ch (b + i) \<noteq> None"
    and r: "ctl_next (ring_ctl b ch i) = Some (b + Suc i mod ch_desc_num ch)"
    "ctl_desc (ring_ctl b ch i) = Some i"
    by (simp_all add: rx_shape_def Let_def)
  from ex obtain c where "ch_mem ch (b + i) = Some c" by blast
  with r that show ?thesis by (simp add: ring_ctl_def)
qed

lemma rx_shape_cpu: "rx_shape b ch \<Longrightarrow> map_option length (ch_cpu_addr ch) = Some (ch_desc_num ch)"
  unfolding rx_shape_def Let_def by blast

lemma rx_shape_desc:
  assumes "rx_shape b ch" and "ctl_desc c = Some i" and "i < ch_desc_num ch"
  shows "desc_at ch c = Some (ring_desc ch i)"
  using rx_shape_cpu [OF assms(1)] assms(2,3) by (auto simp: desc_at_def ring_desc_def)

lemma rx_shape_type:
  "rx_shape b ch \<Longrightarrow> ch_ch_type ch = WCN36XX_DXE_CH_RX_L \<or> ch_ch_type ch = WCN36XX_DXE_CH_RX_H"
  unfolding rx_shape_def Let_def by blast

lemma rx_shape_cong:
  assumes "rx_shape b ch" and "ch_desc_num ch' = ch_desc_num ch" and "ch_ch_type ch' = ch_ch_type ch"
    and "map_option length (ch_cpu_addr ch') = map_option length (ch_cpu_addr ch)"
    and "\<And>i. i < ch_desc_num ch \<Longrightarrow> \<exists>c. ch_mem ch' (b + i) = Some c \<and>
           ctl_next c = ctl_next (ring_ctl b ch i) \<and> ctl_desc c = ctl_desc (ring_ctl b ch i)"
  shows "rx_shape b ch'"
proof -
  have "ch_mem ch' (b + i) \<noteq> None \<and> ctl_next (ring_ctl b ch' i) = Some (b + Suc i mod ch_desc_num ch) \<and>
        ctl_desc (ring_ctl b ch' i) = Some i"
    if i: "i < ch_desc_num ch" for i
  proof -
    obtain c0 where "ch_mem ch (b + i) = Some c0" "ring_ctl b ch i = c0"
      "ctl_next c0 = Some (b + Suc i mod ch_desc_num ch)" "ctl_desc c0 = Some i"
      by (rule rx_shape_block [OF assms(1) i])
    moreover obtain c where c: "ch_mem ch' (b + i) = Some c"
      and "ctl_next c = ctl_next (ring_ctl b ch i)" "ctl_desc c = ctl_desc (ring_ctl b ch i)"
      using assms(5) [OF i] by blast
    moreover from c have "ring_ctl b ch' i = c" by (simp add: ring_ctl_def)
    ultimately show ?thesis by simp
  qed
  with assms(1-4) show ?thesis
    unfolding rx_shape_def Let_def by (simp (no_asm_simp))
qed

text \<open>One block: the channel afterwards, for a successful allocation.\<close>

definition rx_step_ch :: "nat \<Rightarrow> nat \<Rightarrow> nat \<Rightarrow> u32 \<Rightarrow> wcn36xx_dxe_ch \<Rightarrow> wcn36xx_dxe_ch" where
  "rx_step_ch b h i bus ch =
     put_desc h ((ring_desc ch h)\<lparr> desc_dst_addr_l := bus, desc_ctrl := DXE_CTRL (ch_ch_type ch) \<rparr>)
       (put_ctl (b + h) ((ring_ctl b ch h)\<lparr> ctl_skb := Some i \<rparr>) ch)"

lemma DXE_CTRL_rx_valid:
  "c = WCN36XX_DXE_CH_RX_L \<or> c = WCN36XX_DXE_CH_RX_H \<Longrightarrow> ctrl_valid (DXE_CTRL c)"
  using dxe_ctrl_valid(3,4) by auto

lemma put_desc_twice:
  assumes "map_option length (ch_cpu_addr ch) = Some n"
  shows "put_desc h d' (put_ctl a c (put_desc h d ch)) = put_desc h d' (put_ctl a c ch)"
  using assms by (auto simp: put_desc_def put_ctl_def)

lemma rx_one_run:
  assumes core: "rx_core b h d ch w" and d: "0 < d" and mem: "p_alloc_skb P (klog w) = Some m"
  shows "\<exists>bus w'. rx_one P (b + h) ch w = Some (rx_step_ch b h (skb_brk w) bus ch, w') \<and>
           skb_brk w' = Suc (skb_brk w) \<and>
           (\<forall>x. x \<noteq> skb_brk w \<and> x \<noteq> rx_skb_at b ch h \<longrightarrow> skbs w' x = skbs w x) \<and>
           skb_empty (skbs w' (skb_brk w)) \<and>
           rx_delivered (klog w') = rx_delivered (klog w) @
             [(rx_skb_at b ch h, rx_frame_of (skbs w (rx_skb_at b ch h)))]"
proof -
  let ?n = "ch_desc_num ch" and ?s = "rx_skb_at b ch h"
  from core have sh: "rx_shape b ch" and h: "h < ?n" and dn: "d \<le> ?n"
    and some: "ctl_skb (ring_ctl b ch h) = Some ?s" and brk: "?s < skb_brk w"
    by (auto simp: rx_core_def Let_def rx_skb_at_def)
  have fit: "skb_data (skbs w ?s) = 0" "skb_len (skbs w ?s) = 0" "rx_fits (skbs w ?s)"
    using core d h by (auto simp: rx_core_def Let_def skb_empty_def dest!: spec [where x = 0])
  obtain c where c: "ch_mem ch (b + h) = Some c" "ring_ctl b ch h = c"
    "ctl_next c = Some (b + Suc h mod ?n)" "ctl_desc c = Some h"
    by (rule rx_shape_block [OF sh h])
  note cpu = rx_shape_cpu [OF sh]
  define w1 where "w1 = (emit AllocSkb w)\<lparr> skbs := (skbs w)(skb_brk w := \<lparr> skb_mem = m,
      skb_data = 0, skb_len = 0, skb_cb_flags = {}, skb_is_vo = False \<rparr>), skb_brk := Suc (skb_brk w) \<rparr>"
  define bus where "bus = p_dma_map P (klog w1) (skb_brk w)"
  define w2 where "w2 = emit (DmaMap (skb_brk w)) w1"
  define d0 where "d0 = ring_desc ch h"
  let ?ch1 = "put_ctl (b + h) (c\<lparr> ctl_skb := Some (skb_brk w) \<rparr>)
                (put_desc h (d0\<lparr> desc_dst_addr_l := bus \<rparr>) ch)"
  have at: "desc_at ch c = Some d0"
    using rx_shape_desc [OF sh c(4) h] by (simp add: d0_def)
  have fill: "wcn36xx_dxe_fill_skb P (b + h) ch w = Some (0, ?ch1, w2)"
    using c(1,4) at mem
    by (simp add: wcn36xx_dxe_fill_skb_def Let_def w1_def w2_def bus_def emit_def)
  have at1: "desc_at ?ch1 (c\<lparr> ctl_skb := Some (skb_brk w) \<rparr>) = Some (d0\<lparr> desc_dst_addr_l := bus \<rparr>)"
    using cpu h c(4) by (auto simp: desc_at_def)
  define w3 where "w3 = wcn36xx_dxe_write_register (reg_addr WCN36XX_DXE_ENCH_ADDR)
                          (INT_MASK_CHAN (ch_ch_type ch)) w2"
  have rearm: "rx_rearm (b + h) ?ch1 w2 = Some (rx_step_ch b h (skb_brk w) bus ch, w3)"
    using rx_shape_type [OF sh] at1 c(2,4)
    by (auto simp: rx_rearm_def rx_step_ch_def w3_def d0_def [symmetric] put_desc_twice [OF cpu] put_desc_def
        put_ctl_def cpu split: option.split) (auto simp: option.map_comp comp_def)
  define w4 where "w4 = emit (DmaUnmap (desc_dst_addr_l d0)) w3"
  have sk: "skbs w4 ?s = skbs w ?s" "skb_brk w4 = Suc (skb_brk w)"
    "\<forall>x. x \<noteq> skb_brk w \<longrightarrow> skbs w4 x = skbs w x" "rx_delivered (klog w4) = rx_delivered (klog w)"
    "skb_empty (skbs w4 (skb_brk w))"
    using brk by (auto simp: w4_def w3_def w2_def w1_def wcn36xx_dxe_write_register_def skb_empty_def)
  define s1 where "s1 = skb_pull (unat (mpdu_header_off (rx_pdu (rx_bd_of (skbs w ?s)))))
      ((skbs w ?s)\<lparr> skb_mem := rx_mem_of (skbs w ?s), skb_len :=
          unat (mpdu_header_off (rx_pdu (rx_bd_of (skbs w ?s)))) +
          unat (mpdu_len (rx_pdu (rx_bd_of (skbs w ?s)))) \<rparr>)"
  have b1: "skb_bytes s1 = rx_frame_of (skbs w ?s)"
    using fit rx_mem_of_length [of "skbs w ?s"]
    by (simp add: s1_def skb_pull_def skb_bytes_def rx_frame_of_def rx_fits_def)
  have rx: "wcn36xx_rx_skb ?s w4 = Some (0, emit (RxSkb ?s (rx_frame_of (skbs w ?s))
        (rx_status_of (w4\<lparr> skbs := (skbs w4)(?s := s1) \<rparr>) (rx_bd_of (skbs w ?s))))
        (w4\<lparr> skbs := (skbs w4)(?s := s1) \<rparr>))"
    using fit rx_mem_of_length [of "skbs w ?s"] b1
    by (simp add: wcn36xx_rx_skb_def sk(1) rx_bd_swap_fresh rx_fits_def Let_def skb_put_def s1_def)
  have run: "rx_one P (b + h) ch w = Some (rx_step_ch b h (skb_brk w) bus ch,
      emit (RxSkb ?s (rx_frame_of (skbs w ?s))
        (rx_status_of (w4\<lparr> skbs := (skbs w4)(?s := s1) \<rparr>) (rx_bd_of (skbs w ?s))))
        (w4\<lparr> skbs := (skbs w4)(?s := s1) \<rparr>))"
    using c(1,2) at fill rearm rx some by (simp add: rx_one_def w4_def)
  with sk brk show ?thesis by auto
qed

lemma rx_step_views:
  assumes "map_option length (ch_cpu_addr ch) = Some (ch_desc_num ch)" and "h < ch_desc_num ch"
  shows "ring_ctl b (rx_step_ch b h i bus ch) j =
           (if j = h then (ring_ctl b ch h)\<lparr> ctl_skb := Some i \<rparr> else ring_ctl b ch j)"
    and "ring_desc (rx_step_ch b h i bus ch) j =
           (if j = h then (ring_desc ch h)\<lparr> desc_dst_addr_l := bus,
                            desc_ctrl := DXE_CTRL (ch_ch_type ch) \<rparr>
            else ring_desc ch j)"
    and "ch_desc_num (rx_step_ch b h i bus ch) = ch_desc_num ch"
    and "ch_ch_type (rx_step_ch b h i bus ch) = ch_ch_type ch"
    and "ch_head (rx_step_ch b h i bus ch) = ch_head ch"
  using assms
  by (auto simp: rx_step_ch_def ring_ctl_put_ctl ring_desc_put_desc [where n = "ch_desc_num ch"])

lemma rx_step_core:
  assumes core: "rx_core b h d ch w" and d: "0 < d"
    and w': "skb_brk w' = Suc (skb_brk w)"
      "\<forall>x. x \<noteq> skb_brk w \<and> x \<noteq> rx_skb_at b ch h \<longrightarrow> skbs w' x = skbs w x"
      "skb_empty (skbs w' (skb_brk w))"
  shows "rx_core b (Suc h mod ch_desc_num ch) (d - 1) (rx_step_ch b h (skb_brk w) bus ch) w'"
proof -
  let ?n = "ch_desc_num ch" and ?ch = "rx_step_ch b h (skb_brk w) bus ch"
  from core have sh: "rx_shape b ch" and h: "h < ?n" and dn: "d \<le> ?n"
    and valid: "\<forall>j<?n. ctrl_valid (desc_ctrl (ring_desc ch ((h + j) mod ?n))) \<longleftrightarrow> d \<le> j"
    and skb: "\<forall>i<?n. ctl_skb (ring_ctl b ch i) \<noteq> None \<and> rx_skb_at b ch i < skb_brk w \<and>
        skb_empty (skbs w (rx_skb_at b ch i))"
    and inj: "inj_on (rx_skb_at b ch) {0..<?n}"
    and fit: "\<forall>j<d. rx_fits (skbs w (rx_skb_at b ch ((h + j) mod ?n)))"
    unfolding rx_core_def Let_def by blast+
  note v = rx_step_views [OF rx_shape_cpu [OF sh] h, of b "skb_brk w" bus]
  have at: "rx_skb_at b ?ch j = (if j = h then skb_brk w else rx_skb_at b ch j)" for j
    by (simp add: rx_skb_at_def v(1))
  have shape: "rx_shape b ?ch"
  proof (rule rx_shape_cong [OF sh])
    show "map_option length (ch_cpu_addr ?ch) = map_option length (ch_cpu_addr ch)"
      by (simp add: rx_step_ch_def option.map_comp comp_def)
    fix i assume i: "i < ?n"
    obtain c where c: "ch_mem ch (b + i) = Some c" by (rule rx_shape_block [OF sh i])
    then have "\<exists>c2. ch_mem ?ch (b + i) = Some c2" by (simp add: rx_step_ch_def)
    then obtain c2 where c2: "ch_mem ?ch (b + i) = Some c2" by blast
    then have "ring_ctl b ?ch i = c2" by (simp add: ring_ctl_def)
    with c2 v(1) [of i] show "\<exists>c. ch_mem ?ch (b + i) = Some c \<and>
        ctl_next c = ctl_next (ring_ctl b ch i) \<and> ctl_desc c = ctl_desc (ring_ctl b ch i)"
      by (auto split: if_splits)
  qed (simp_all add: v)
  have pos: "(h + Suc j) mod ?n = h \<longleftrightarrow> Suc j = ?n" if "j < ?n" for j
    using that h ring_pos_split [OF h, of "Suc j"] by (auto split: if_splits)
  have valid': "ctrl_valid (desc_ctrl (ring_desc ?ch ((h + Suc j) mod ?n))) \<longleftrightarrow> d - 1 \<le> j"
    if j: "j < ?n" for j
  proof (cases "Suc j = ?n")
    case True
    then have "(h + Suc j) mod ?n = h" using pos [OF j] by simp
    with True dn DXE_CTRL_rx_valid [OF rx_shape_type [OF sh]] show ?thesis by (simp add: v(2))
  next
    case False
    with j have "Suc j < ?n" by simp
    with valid have "ctrl_valid (desc_ctrl (ring_desc ch ((h + Suc j) mod ?n))) \<longleftrightarrow> d \<le> Suc j" by blast
    moreover have "(h + Suc j) mod ?n \<noteq> h" using pos [OF j] False by simp
    ultimately show ?thesis using d by (simp only: v(2) if_False) linarith
  qed
  have old: "skbs w' (rx_skb_at b ch i) = skbs w (rx_skb_at b ch i)" if "i < ?n" "i \<noteq> h" for i
  proof -
    have "rx_skb_at b ch i \<noteq> rx_skb_at b ch h" using inj h that by (simp add: inj_on_eq_iff)
    moreover have "rx_skb_at b ch i \<noteq> skb_brk w" using skb that(1) by (metis less_irrefl)
    ultimately show ?thesis using w'(2) by blast
  qed
  have fit': "rx_fits (skbs w' (rx_skb_at b ?ch ((h + Suc j) mod ?n)))" if j: "j < d - 1" for j
  proof -
    from j dn have "j < ?n" "Suc j \<noteq> ?n" "Suc j < d" by auto
    then have ne: "(h + Suc j) mod ?n \<noteq> h" using pos by simp
    moreover have "(h + Suc j) mod ?n < ?n" using h by simp
    ultimately have "skbs w' (rx_skb_at b ?ch ((h + Suc j) mod ?n)) = skbs w (rx_skb_at b ch ((h + Suc j) mod ?n))"
      using old unfolding at by (simp only: if_False)
    then show ?thesis using fit [rule_format, OF \<open>Suc j < d\<close>] by (simp only:)
  qed
  have inj': "inj_on (rx_skb_at b ?ch) {0..<?n}"
    using inj skb unfolding inj_on_def at by (metis atLeastLessThan_iff less_irrefl)
  show ?thesis
    unfolding rx_core_def Let_def v(3)
  proof (intro conjI allI impI)
    fix j assume "j < ?n"
    then show "ctrl_valid (desc_ctrl (ring_desc ?ch ((Suc h mod ?n + j) mod ?n))) \<longleftrightarrow> d - 1 \<le> j"
      unfolding ring_shift by (rule valid')
    show "ctl_skb (ring_ctl b ?ch j) \<noteq> None"
      using skb \<open>j < ?n\<close> by (auto simp: v(1))
    show "rx_skb_at b ?ch j < skb_brk w'"
      using skb \<open>j < ?n\<close> by (simp add: at w'(1) less_SucI)
    show "skb_empty (skbs w' (rx_skb_at b ?ch j))"
      using skb old [OF \<open>j < ?n\<close>] w'(3) \<open>j < ?n\<close> by (simp add: at)
  next
    fix j assume "j < d - 1"
    from fit' [OF this] show "rx_fits (skbs w' (rx_skb_at b ?ch ((Suc h mod ?n + j) mod ?n)))"
      unfolding ring_shift .
  qed (use shape inj' h dn d in simp_all)
qed

text \<open>The frames waiting in the first \<open>d\<close> blocks from the head.\<close>

definition rx_waiting :: "nat \<Rightarrow> nat \<Rightarrow> nat \<Rightarrow> wcn36xx_dxe_ch \<Rightarrow> wcn36xx \<Rightarrow> (nat \<times> u8 list) list" where
  "rx_waiting b h d ch w =
     map (\<lambda>j. let s = rx_skb_at b ch ((h + j) mod ch_desc_num ch) in (s, rx_frame_of (skbs w s))) [0..<d]"

lemma rx_core_facts:
  assumes "rx_core b h d ch w"
  shows "rx_shape b ch" "h < ch_desc_num ch" "d \<le> ch_desc_num ch"
    "ctrl_valid (desc_ctrl (ring_desc ch h)) \<longleftrightarrow> d = 0"
proof -
  show "rx_shape b ch" and h: "h < ch_desc_num ch" and "d \<le> ch_desc_num ch"
    using assms unfolding rx_core_def Let_def by blast+
  have "\<forall>j<ch_desc_num ch. ctrl_valid (desc_ctrl (ring_desc ch ((h + j) mod ch_desc_num ch))) \<longleftrightarrow> d \<le> j"
    using assms unfolding rx_core_def Let_def by blast
  from spec [OF this, of 0] h show "ctrl_valid (desc_ctrl (ring_desc ch h)) \<longleftrightarrow> d = 0" by simp
qed

lemma rx_loop_ok:
  assumes "rx_core b h d ch w" and "d < f" and "\<forall>l. p_alloc_skb P l \<noteq> None"
  shows "\<exists>ch' w'. rx_loop P f (b + h) ch w = Some (b + (h + d) mod ch_desc_num ch, ch', w') \<and>
           rx_core b ((h + d) mod ch_desc_num ch) 0 ch' w' \<and> ch_desc_num ch' = ch_desc_num ch \<and>
           rx_delivered (klog w') = rx_delivered (klog w) @ rx_waiting b h d ch w"
  using assms(1,2)
proof (induction d arbitrary: h ch w f)
  case 0
  note core = 0(1)
  note sh = rx_core_facts(1) [OF core] and h = rx_core_facts(2) [OF core]
  have v: "ctrl_valid (desc_ctrl (ring_desc ch h))"
    using rx_core_facts(4) [OF core] by simp
  obtain c where c: "ch_mem ch (b + h) = Some c" "ring_ctl b ch h = c"
    "ctl_next c = Some (b + Suc h mod ch_desc_num ch)" "ctl_desc c = Some h"
    by (rule rx_shape_block [OF sh h])
  with 0 v h rx_shape_desc [OF sh c(4) h] show ?case
    by (cases f) (auto simp: rx_waiting_def)
next
  case (Suc d)
  let ?n = "ch_desc_num ch" and ?s = "rx_skb_at b ch h"
  note sh = rx_core_facts(1) [OF Suc.prems(1)] and h = rx_core_facts(2) [OF Suc.prems(1)]
    and dn = rx_core_facts(3) [OF Suc.prems(1)]
  have v: "\<not> ctrl_valid (desc_ctrl (ring_desc ch h))"
    using rx_core_facts(4) [OF Suc.prems(1)] by simp
  obtain c where c: "ch_mem ch (b + h) = Some c" "ring_ctl b ch h = c"
    "ctl_next c = Some (b + Suc h mod ?n)" "ctl_desc c = Some h"
    by (rule rx_shape_block [OF sh h])
  from assms(3) obtain m where m: "p_alloc_skb P (klog w) = Some m" by blast
  obtain bus w1 where
    one: "rx_one P (b + h) ch w = Some (rx_step_ch b h (skb_brk w) bus ch, w1)"
    and w1: "skb_brk w1 = Suc (skb_brk w)"
      "\<forall>x. x \<noteq> skb_brk w \<and> x \<noteq> ?s \<longrightarrow> skbs w1 x = skbs w x" "skb_empty (skbs w1 (skb_brk w))"
    and del: "rx_delivered (klog w1) = rx_delivered (klog w) @ [(?s, rx_frame_of (skbs w ?s))]"
    using rx_one_run [OF Suc.prems(1) zero_less_Suc m] by (elim exE conjE) (rule that; assumption)
  let ?ch = "rx_step_ch b h (skb_brk w) bus ch"
  note views = rx_step_views [OF rx_shape_cpu [OF sh] h, of b "skb_brk w" bus]
  have core1: "rx_core b (Suc h mod ?n) d ?ch w1"
    using rx_step_core [OF Suc.prems(1) zero_less_Suc w1, of bus] by simp
  from Suc.prems(2) obtain f' where f: "f = Suc f'" "d < f'" by (cases f) auto
  obtain c1 where c1: "ch_mem ?ch (b + h) = Some c1" "ctl_next c1 = Some (b + Suc h mod ?n)"
    using c by (simp add: rx_step_ch_def)
  have run: "rx_loop P f (b + h) ch w = rx_loop P f' (b + Suc h mod ?n) ?ch w1"
    using c(1) rx_shape_desc [OF sh c(4) h] v one c1 by (simp add: f)
  from Suc.IH [OF core1 f(2)] obtain ch' w' where
    r: "rx_loop P f' (b + Suc h mod ?n) ?ch w1 = Some (b + (Suc h mod ?n + d) mod ?n, ch', w')"
    "rx_core b ((Suc h mod ?n + d) mod ?n) 0 ch' w'" "ch_desc_num ch' = ?n"
    "rx_delivered (klog w') = rx_delivered (klog w1) @ rx_waiting b (Suc h mod ?n) d ?ch w1"
    by (auto simp: views(3))
  have "rx_waiting b h (Suc d) ch w = (?s, rx_frame_of (skbs w ?s)) # rx_waiting b (Suc h mod ?n) d ?ch w1"
  proof -
    have e: "[0..<Suc d] = 0 # map Suc [0..<d]"
      by (simp add: map_Suc_upt upt_conv_Cons del: upt_Suc)
    have "(rx_skb_at b ch ((h + Suc j) mod ?n), rx_frame_of (skbs w (rx_skb_at b ch ((h + Suc j) mod ?n)))) =
          (rx_skb_at b ?ch ((Suc h mod ?n + j) mod ?n),
           rx_frame_of (skbs w1 (rx_skb_at b ?ch ((Suc h mod ?n + j) mod ?n))))" if j: "j < d" for j
    proof -
      from j dn have "j < ?n" "Suc j < ?n" by auto
      then have "(h + Suc j) mod ?n \<noteq> (h + 0) mod ?n"
        using ring_pos_inj [of h "Suc j" ?n 0] h by linarith
      then have ne: "(h + Suc j) mod ?n \<noteq> h" using h by simp
      have lt: "(h + Suc j) mod ?n < ?n" using h by simp
      from Suc.prems(1) have inj: "inj_on (rx_skb_at b ch) {0..<?n}"
        and brk: "\<forall>i<?n. rx_skb_at b ch i < skb_brk w"
        unfolding rx_core_def Let_def by blast+
      from inj ne lt h have "rx_skb_at b ch ((h + Suc j) mod ?n) \<noteq> ?s"
        by (simp add: inj_on_eq_iff)
      moreover have "rx_skb_at b ch ((h + Suc j) mod ?n) \<noteq> skb_brk w"
        using brk lt by (metis less_irrefl)
      moreover have "rx_skb_at b ?ch ((h + Suc j) mod ?n) = rx_skb_at b ch ((h + Suc j) mod ?n)"
        using ne by (simp only: rx_skb_at_def views(1) if_False)
      moreover have "skbs w1 (rx_skb_at b ch ((h + Suc j) mod ?n)) =
          skbs w (rx_skb_at b ch ((h + Suc j) mod ?n))"
        using calculation(1,2) w1(2) by blast
      ultimately show ?thesis by (simp only: ring_shift)
    qed
    then have "map (\<lambda>j. (rx_skb_at b ch ((h + Suc j) mod ?n),
          rx_frame_of (skbs w (rx_skb_at b ch ((h + Suc j) mod ?n))))) [0..<d] =
        rx_waiting b (Suc h mod ?n) d ?ch w1"
      unfolding rx_waiting_def views(3) Let_def
      by (intro map_cong refl) (simp only: set_upt atLeastLessThan_iff)
    moreover have "rx_waiting b h (Suc d) ch w = (?s, rx_frame_of (skbs w ?s)) #
        map (\<lambda>j. (rx_skb_at b ch ((h + Suc j) mod ?n),
          rx_frame_of (skbs w (rx_skb_at b ch ((h + Suc j) mod ?n))))) [0..<d]"
      unfolding rx_waiting_def e list.map map_map comp_def Let_def using h by simp
    ultimately show ?thesis by (simp only:)
  qed
  with r run del show ?case
    by (auto simp: ring_shift)
qed

text \<open>C17: With buffers available, \<open>wcn36xx_rx_handle_packets\<close> terminates within one lap of the ring
  even when the hardware has filled all of it, passes exactly the filled buffers to mac80211, each
  once and in ring order, gives every block a fresh buffer and its descriptor back to the hardware,
  and leaves the head at the first block the hardware has not filled.\<close>

theorem rx_handle_packets_spec:
  assumes inv: "rx_inv b h d (dxe_ch w c) w" and mem: "\<forall>l. p_alloc_skb P l \<noteq> None"
  shows "\<exists>w'. wcn36xx_rx_handle_packets P c w = Some (0, w') \<and>
           rx_inv b ((h + d) mod ch_desc_num (dxe_ch w c)) 0 (dxe_ch w' c) w' \<and>
           rx_delivered (klog w') = rx_delivered (klog w) @ rx_waiting b h d (dxe_ch w c) w"
proof -
  let ?ch = "dxe_ch w c" and ?n = "ch_desc_num (dxe_ch w c)"
  from inv have core: "rx_core b h d ?ch w" and hd: "ch_head ?ch = Some (b + h)"
    by (simp_all add: rx_inv_def)
  then have "d < Suc ?n" by (simp add: rx_core_def Let_def)
  from rx_loop_ok [OF core this mem] obtain ch' w' where
    r: "rx_loop P (Suc ?n) (b + h) ?ch w = Some (b + (h + d) mod ?n, ch', w')"
    "rx_core b ((h + d) mod ?n) 0 ch' w'" "ch_desc_num ch' = ?n"
    "rx_delivered (klog w') = rx_delivered (klog w) @ rx_waiting b h d ?ch w" by blast
  let ?c' = "ch'\<lparr> ch_head := Some (b + (h + d) mod ?n) \<rparr>"
  have "rx_shape b ?c' = rx_shape b ch'" by (simp add: rx_shape_def ring_ctl_def)
  moreover have "rx_skb_at b ?c' = rx_skb_at b ch'" by (simp add: rx_skb_at_def fun_eq_iff)
  ultimately have "rx_inv b ((h + d) mod ?n) 0 ?c' (set_ch c ?c' w')"
    using r(2) by (simp add: rx_inv_def rx_core_def Let_def)
  with r hd show ?thesis
    by (simp add: wcn36xx_rx_handle_packets_def Let_def del: rx_loop.simps)
qed

lemma rx4_inv: "rx_inv 0 0 1 rx4 (sample_wcn\<lparr> skbs := (\<lambda>_. rx_buffer) \<rparr>)"
proof -
  have i4: "i < 4 \<longleftrightarrow> i = 0 \<or> i = 1 \<or> i = 2 \<or> i = (3 :: nat)" for i by linarith
  have shape: "rx_shape 0 rx4"
    by (auto simp: rx_shape_def Let_def rx4_def ring4_def zero_ch_def ring_ctl_def ring4_ctl_def i4)
  have inj: "inj_on (rx_skb_at 0 rx4) {0..<4}"
    by (auto simp: inj_on_def rx_skb_at_def ring_ctl_def rx4_def)
  have n: "ch_desc_num rx4 = 4" by (simp add: rx4_def ring4_def)
  have v: "ctrl_valid (desc_ctrl (ring_desc rx4 ((0 + j) mod 4))) \<longleftrightarrow> 1 \<le> j" if "j < 4" for j
    using that by (auto simp: i4 ring_desc_def rx4_def ctrl_valid_def upt_rec)
  have s: "ctl_skb (ring_ctl 0 rx4 i) \<noteq> None \<and> rx_skb_at 0 rx4 i < 100" if "i < 4" for i
    using that by (simp add: ring_ctl_def rx4_def rx_skb_at_def)
  have "ch_head rx4 = Some (0 + 0)" by (simp add: rx4_def ring4_def)
  moreover have "skb_empty rx_buffer" by (simp add: rx_buffer_def skb_empty_def)
  moreover have "skb_brk (sample_wcn\<lparr> skbs := (\<lambda>_. rx_buffer) \<rparr>) = 100" by (simp add: sample_wcn_def)
  ultimately show ?thesis
    using shape inj v s rx_buffer_fits unfolding rx_inv_def rx_core_def Let_def n by simp
qed

definition sample_rx_wcn :: wcn36xx where
  "sample_rx_wcn = (sample_wcn\<lparr> skbs := (\<lambda>_. rx_buffer) \<rparr>)
     \<lparr> dxe_ch := (\<lambda>_. rx4) \<rparr>"

lemma sample_rx_inv: "rx_inv 0 0 1 (dxe_ch sample_rx_wcn c) sample_rx_wcn"
  using rx4_inv by (simp add: rx_inv_def rx_core_def sample_rx_wcn_def)

theorem rx_handle_packets_spec_witness:
  "\<exists>w'. wcn36xx_rx_handle_packets sample_platform WCN36XX_DXE_CH_RX_L sample_rx_wcn = Some (0, w') \<and>
        length (rx_delivered (klog w')) = 1"
  using rx_handle_packets_spec [OF sample_rx_inv [of WCN36XX_DXE_CH_RX_L], of sample_platform]
  by (auto simp: sample_platform_def rx_waiting_def rx_delivered_def List.map_filter_simps
      sample_rx_wcn_def sample_wcn_def)

text \<open>When no buffer can be allocated, the filled buffer is nevertheless passed to mac80211, and the
  same buffer stays in the block whose descriptor is handed back to the hardware: mac80211 and the
  DMA engine own it at the same time, because the result of \<open>wcn36xx_dxe_fill_skb\<close> is ignored.\<close>

theorem rx_refill_failure:
  assumes core: "rx_core b h d ch w" and d: "0 < d" and no_mem: "p_alloc_skb P (klog w) = None"
  shows "\<exists>ch' w'. rx_one P (b + h) ch w = Some (ch', w') \<and>
           ctl_skb (ring_ctl b ch' h) = Some (rx_skb_at b ch h) \<and>
           ctrl_valid (desc_ctrl (ring_desc ch' h)) \<and>
           (rx_skb_at b ch h, rx_frame_of (skbs w (rx_skb_at b ch h))) \<in> set (rx_delivered (klog w'))"
proof -
  let ?n = "ch_desc_num ch" and ?s = "rx_skb_at b ch h"
  note sh = rx_core_facts(1) [OF core] and h = rx_core_facts(2) [OF core]
  have some: "ctl_skb (ring_ctl b ch h) = Some ?s"
    using core h unfolding rx_core_def Let_def rx_skb_at_def by (metis option.exhaust_sel)
  have fit: "skb_data (skbs w ?s) = 0" "skb_len (skbs w ?s) = 0" "rx_fits (skbs w ?s)"
    using core d h by (auto simp: rx_core_def Let_def skb_empty_def dest!: spec [where x = 0])
  obtain c where c: "ch_mem ch (b + h) = Some c" "ring_ctl b ch h = c"
    "ctl_next c = Some (b + Suc h mod ?n)" "ctl_desc c = Some h"
    by (rule rx_shape_block [OF sh h])
  note cpu = rx_shape_cpu [OF sh] and at = rx_shape_desc [OF sh c(4) h]
  let ?ch = "put_desc h ((ring_desc ch h)\<lparr> desc_ctrl := DXE_CTRL (ch_ch_type ch) \<rparr>) ch"
  define w3 where "w3 = emit (DmaUnmap (desc_dst_addr_l (ring_desc ch h)))
      (wcn36xx_dxe_write_register (reg_addr WCN36XX_DXE_ENCH_ADDR)
         (INT_MASK_CHAN (ch_ch_type ch)) (emit AllocSkb w))"
  have fill: "wcn36xx_dxe_fill_skb P (b + h) ch w = Some (- ENOMEM, ch, emit AllocSkb w)"
    using c(1) no_mem by (simp add: wcn36xx_dxe_fill_skb_def Let_def)
  have rearm: "rx_rearm (b + h) ch (emit AllocSkb w) = Some (?ch,
      wcn36xx_dxe_write_register (reg_addr WCN36XX_DXE_ENCH_ADDR)
         (INT_MASK_CHAN (ch_ch_type ch)) (emit AllocSkb w))"
    using c(1,4) at rx_shape_type [OF sh] by (auto simp: rx_rearm_def)
  have "skbs w3 = skbs w" by (simp add: w3_def)
  then have "\<exists>w4. wcn36xx_rx_skb ?s w3 = Some (0, w4) \<and>
      (?s, rx_frame_of (skbs w ?s)) \<in> set (rx_delivered (klog w4))"
    using fit rx_mem_of_length [of "skbs w ?s"]
    by (auto simp: wcn36xx_rx_skb_def rx_bd_swap_fresh rx_fits_def Let_def skb_put_def skb_pull_def
        skb_bytes_def rx_frame_of_def)
  then obtain w4 where w4: "wcn36xx_rx_skb ?s w3 = Some (0, w4)"
    "(?s, rx_frame_of (skbs w ?s)) \<in> set (rx_delivered (klog w4))" by blast
  have "rx_one P (b + h) ch w = Some (?ch, w4)"
    using c(1,2) at fill rearm some w4(1) by (simp add: rx_one_def w3_def)
  moreover have "ctrl_valid (desc_ctrl (ring_desc ?ch h))"
    using DXE_CTRL_rx_valid [OF rx_shape_type [OF sh]] by (simp add: ring_desc_put_desc [OF cpu h])
  ultimately show ?thesis
    using w4(2) some by auto
qed

theorem rx_refill_failure_witness:
  "\<exists>ch' w'. rx_one (sample_platform\<lparr> p_alloc_skb := (\<lambda>_. None) \<rparr>) 0 rx4
       (sample_wcn\<lparr> skbs := (\<lambda>_. rx_buffer) \<rparr>) = Some (ch', w') \<and>
     ctl_skb (ring_ctl 0 ch' 0) = Some (rx_skb_at 0 rx4 0)"
  using rx_refill_failure [of 0 0 1 rx4 "sample_wcn\<lparr> skbs := (\<lambda>_. rx_buffer) \<rparr>"
      "sample_platform\<lparr> p_alloc_skb := (\<lambda>_. None) \<rparr>"] rx4_inv
  by (auto simp: rx_inv_def)

end
