(* ===== verification/Dxe_Init.thy ===== *)
theory Dxe_Init
  imports Dxe_Queue Dxe_Rx
begin

text \<open>
  Starting and stopping the DMA engine (\<^verbatim>\<open>dxe.c\<close>): the pools of buffer-descriptor memory, the
  programming of the four channels by \<open>wcn36xx_dxe_init\<close>, the interrupt lines, and
  \<open>wcn36xx_dxe_deinit\<close>. The initialisation is shown to establish the invariant of the transmit
  path. A coherent allocation is \<open>dma_mem\<close> at its number, \<open>None\<close> once freed; freeing it twice is
  undefined.
\<close>

section \<open>Memory pools\<close>

definition pool_chunk :: nat where
  "pool_chunk = WCN36XX_BD_CHUNK_SIZE + 16 - (WCN36XX_BD_CHUNK_SIZE mod 8)"

definition dma_alloc_coherent :: "platform \<Rightarrow> nat \<Rightarrow> wcn36xx \<Rightarrow> (nat \<times> u32) option \<times> wcn36xx" where
  "dma_alloc_coherent P sz w =
     (let r = p_dma_alloc P (klog w) sz; w = emit (DmaAlloc sz) w
      in case r of
           None \<Rightarrow> (None, w)
         | Some phy \<Rightarrow> (Some (dma_brk w, phy),
             w\<lparr> dma_mem := (dma_mem w)(dma_brk w := Some (replicate sz 0)),
                dma_brk := Suc (dma_brk w) \<rparr>))"

definition dma_free_coherent :: "nat \<Rightarrow> wcn36xx \<Rightarrow> wcn36xx option" where
  "dma_free_coherent m w =
     (if dma_mem w m = None then None
      else Some (emit (DmaFree m) (w\<lparr> dma_mem := (dma_mem w)(m := None) \<rparr>)))"

definition free_pool :: "wcn36xx_dxe_mem_pool \<Rightarrow> wcn36xx \<Rightarrow> wcn36xx option" where
  "free_pool p w = (case pool_virt_addr p of None \<Rightarrow> Some w | Some m \<Rightarrow> dma_free_coherent m w)"

definition wcn36xx_dxe_free_mem_pools :: "wcn36xx \<Rightarrow> wcn36xx option" where
  "wcn36xx_dxe_free_mem_pools w = do {
     w \<leftarrow> free_pool (mgmt_mem_pool w) w;
     free_pool (data_mem_pool w) w }"

definition pool_failed :: "wcn36xx \<Rightarrow> (int \<times> wcn36xx) option" where
  "pool_failed w = do { w \<leftarrow> wcn36xx_dxe_free_mem_pools w; Some (- ENOMEM, w) }"

definition wcn36xx_dxe_allocate_mem_pools :: "platform \<Rightarrow> wcn36xx \<Rightarrow> (int \<times> wcn36xx) option" where
  "wcn36xx_dxe_allocate_mem_pools P w =
     (let w = w\<lparr> mgmt_mem_pool := (mgmt_mem_pool w)\<lparr> pool_chunk_size := pool_chunk \<rparr> \<rparr>;
          (r, w) = dma_alloc_coherent P (pool_chunk * DXE_CH_DESC_NUMB WCN36XX_DXE_CH_TX_H) w
      in case r of
           None \<Rightarrow> pool_failed w
         | Some (m, phy) \<Rightarrow>
             (let w = w\<lparr> mgmt_mem_pool := (mgmt_mem_pool w)\<lparr> pool_virt_addr := Some m,
                           pool_phy_addr := phy \<rparr>,
                         data_mem_pool := (data_mem_pool w)\<lparr> pool_chunk_size := pool_chunk \<rparr> \<rparr>;
                  (r, w) = dma_alloc_coherent P (pool_chunk * DXE_CH_DESC_NUMB WCN36XX_DXE_CH_TX_L) w
              in case r of
                   None \<Rightarrow> pool_failed w
                 | Some (m, phy) \<Rightarrow>
                     Some (0, w\<lparr> data_mem_pool := (data_mem_pool w)\<lparr> pool_virt_addr := Some m,
                                   pool_phy_addr := phy \<rparr> \<rparr>)))"

section \<open>Interrupts\<close>

definition wcn36xx_dxe_enable_ch_int :: "platform \<Rightarrow> u32 \<Rightarrow> wcn36xx \<Rightarrow> int \<times> wcn36xx" where
  "wcn36xx_dxe_enable_ch_int P wcn_ch w =
     (let (reg_data, w) = wcn36xx_dxe_read_register P (reg_addr WCN36XX_DXE_INT_MASK_REG) w
      in (0, wcn36xx_dxe_write_register (reg_addr WCN36XX_DXE_INT_MASK_REG) (reg_data OR wcn_ch) w))"

definition wcn36xx_dxe_request_irqs :: "platform \<Rightarrow> wcn36xx \<Rightarrow> int \<times> wcn36xx" where
  "wcn36xx_dxe_request_irqs P w =
     (let ret = p_request_irq P (klog w) (tx_irq w); w = emit (RequestIrq (tx_irq w)) w
      in if ret \<noteq> 0 then (ret, w)
         else (let ret = p_request_irq P (klog w) (rx_irq w); w = emit (RequestIrq (rx_irq w)) w
               in if ret \<noteq> 0 then (ret, emit (FreeIrq (tx_irq w)) w)
                  else (0, emit (EnableIrqWake (rx_irq w)) w)))"

section \<open>Initialisation\<close>

definition head_desc_phy :: "wcn36xx_dxe_ch_type \<Rightarrow> wcn36xx \<Rightarrow> u32 option" where
  "head_desc_phy c w = do {
     ctl \<leftarrow> ctl_at (dxe_ch w c) (ch_head (dxe_ch w c));
     Some (ctl_desc_phy_addr ctl) }"

definition head_phy_next :: "wcn36xx_dxe_ch_type \<Rightarrow> wcn36xx \<Rightarrow> u32 option" where
  "head_phy_next c w = do {
     ctl \<leftarrow> ctl_at (dxe_ch w c) (ch_head (dxe_ch w c));
     d \<leftarrow> desc_at (dxe_ch w c) ctl;
     Some (desc_phy_next_l d) }"

text \<open>The sections of \<open>wcn36xx_dxe_init\<close> for a transmit and for a receive channel. The result of
  \<open>wcn36xx_dxe_init_descs\<close> is dropped, as in the code.\<close>

definition init_tx_channel :: "platform \<Rightarrow> wcn36xx_dxe_ch_type \<Rightarrow> wcn36xx_dxe_mem_pool \<Rightarrow> wcn36xx
     \<Rightarrow> wcn36xx option" where
  "init_tx_channel P c pool w = do {
     (_, w) \<leftarrow> wcn36xx_dxe_init_descs P c w;
     ch \<leftarrow> wcn36xx_dxe_init_tx_bd pool (dxe_ch w c);
     let w = set_ch c ch w;
     phy \<leftarrow> head_desc_phy c w;
     let w = wcn36xx_dxe_write_register (DXE_CH_NEXT_DESC_ADDR c) phy w;
     let w = wcn36xx_dxe_write_register (DXE_CH_DEST_ADDR c) (DXE_WQ c) w;
     let (_, w) = wcn36xx_dxe_read_register P (reg_addr WCN36XX_DXE_REG_CH_EN) w;
     Some (snd (wcn36xx_dxe_enable_ch_int P (INT_MASK_CHAN c) w)) }"

definition init_rx_channel :: "platform \<Rightarrow> wcn36xx_dxe_ch_type \<Rightarrow> wcn36xx \<Rightarrow> wcn36xx option" where
  "init_rx_channel P c w = do {
     (_, w) \<leftarrow> wcn36xx_dxe_init_descs P c w;
     (_, w) \<leftarrow> wcn36xx_dxe_ch_alloc_skb P c w;
     phy \<leftarrow> head_desc_phy c w;
     let w = wcn36xx_dxe_write_register (DXE_CH_NEXT_DESC_ADDR c) phy w;
     let w = wcn36xx_dxe_write_register (DXE_CH_SRC_ADDR c) (DXE_WQ c) w;
     nxt \<leftarrow> head_phy_next c w;
     let w = wcn36xx_dxe_write_register (DXE_CH_DEST_ADDR c) nxt w;
     let w = wcn36xx_dxe_write_register (DXE_REG_CTL c) (DXE_CH_DEFAULT_CTL c) w;
     Some (snd (wcn36xx_dxe_enable_ch_int P (INT_MASK_CHAN c) w)) }"

definition wcn36xx_dxe_init :: "platform \<Rightarrow> wcn36xx \<Rightarrow> (int \<times> wcn36xx) option" where
  "wcn36xx_dxe_init P w =
     (let w = wcn36xx_dxe_write_register (reg_addr WCN36XX_DXE_REG_CSR_RESET) WCN36XX_DXE_REG_RESET w;
          w = wcn36xx_dxe_write_register_x WCN36XX_DXE_CCU_INT w
      in do {
        w \<leftarrow> init_tx_channel P WCN36XX_DXE_CH_TX_L (data_mem_pool w) w;
        w \<leftarrow> init_tx_channel P WCN36XX_DXE_CH_TX_H (mgmt_mem_pool w) w;
        w \<leftarrow> init_rx_channel P WCN36XX_DXE_CH_RX_L w;
        w \<leftarrow> init_rx_channel P WCN36XX_DXE_CH_RX_H w;
        let (ret, w) = wcn36xx_dxe_request_irqs P w;
        Some (if ret < 0 then ret else 0, w) })"

definition wcn36xx_dxe_deinit :: "wcn36xx \<Rightarrow> wcn36xx option" where
  "wcn36xx_dxe_deinit w =
     (let w = emit (FreeIrq (rx_irq w)) (emit (FreeIrq (tx_irq w)) w);
          w = (case tx_ack_skb w of None \<Rightarrow> w
               | Some s \<Rightarrow> (emit (TxStatus s) w)\<lparr> tx_ack_skb := None \<rparr>)
      in do {
        w \<leftarrow> wcn36xx_dxe_ch_free_skbs WCN36XX_DXE_CH_RX_L w;
        wcn36xx_dxe_ch_free_skbs WCN36XX_DXE_CH_RX_H w })"

section \<open>The initialised transmit channel\<close>

text \<open>A ring whose blocks carry no frame, as the allocation leaves it.\<close>

definition no_skbs :: "nat \<Rightarrow> wcn36xx_dxe_ch \<Rightarrow> bool" where
  "no_skbs b ch \<longleftrightarrow> (\<forall>i<ch_desc_num ch. ctl_skb (ring_ctl b ch i) = None)"

lemma bd_upto_tx_inv:
  assumes ring: "ctl_ring b ch0" "ch_head ch0 = Some b" "ch_tail ch0 = Some b" "no_skbs b ch0"
    and num: "even (ch_desc_num ch0)" "2 \<le> ch_desc_num ch0"
    and ctrl: "ctrl_valid (ch_ctrl_bd ch0)" "ctrl_valid (ch_ctrl_skb ch0)"
    and ty: "\<not> ctrl_valid (DXE_CTRL (ch_ch_type ch0))"
    and descs: "same_links b ch0 ch1" "descs_upto b (ch_desc_num ch0) ch1"
    and bd: "bd_upto b m chunk (ch_desc_num ch1) ch1 ch"
  shows "tx_inv b 0 0 0 ch"
proof -
  let ?n = "ch_desc_num ch0"
  from bd have l1: "same_links b ch1 ch" and cpu: "ch_cpu_addr ch = ch_cpu_addr ch1"
    and blk: "\<forall>j<ch_desc_num ch1. \<exists>c0 c. ch_mem ch1 (b + j) = Some c0 \<and> ch_mem ch (b + j) = Some c \<and>
        ctl_desc c = ctl_desc c0 \<and> ctl_desc_phy_addr c = ctl_desc_phy_addr c0 \<and>
        (j < ch_desc_num ch1 \<longrightarrow> ctl_bd_cpu_addr c = (if even j then Some (m, j div 2 * chunk) else None))"
    unfolding bd_upto_def by blast+
  have links: "same_links b ch0 ch" by (rule same_links_trans [OF descs(1) l1])
  have n: "ch_desc_num ch1 = ?n" "ch_desc_num ch = ?n"
    and hd: "ch_head ch = Some b" "ch_tail ch = Some b"
    and ct: "ch_ctrl_bd ch = ch_ctrl_bd ch0" "ch_ctrl_skb ch = ch_ctrl_skb ch0"
    and t1: "ch_ch_type ch1 = ch_ch_type ch0"
    using descs(1) links ring(2,3) by (simp_all add: same_links_def)
  from descs(2) obtain ds where ds: "ch_cpu_addr ch1 = Some ds" "length ds = ?n"
    and dc: "\<forall>j<?n. desc_ctrl (ds ! j) = DXE_CTRL (ch_ch_type ch0)"
    by (auto simp: descs_upto_def n t1)
  have block: "ch_mem ch (b + i) \<noteq> None \<and> ctl_next (ring_ctl b ch i) = Some (b + Suc i mod ?n) \<and>
      ctl_desc (ring_ctl b ch i) = Some i \<and> (ctl_bd_cpu_addr (ring_ctl b ch i) = None \<longleftrightarrow> odd i) \<and>
      ctl_skb (ring_ctl b ch i) = None" if i: "i < ?n" for i
  proof -
    from same_links_next [OF ring(1) links i] obtain c where
      c: "ch_mem ch (b + i) = Some c" "ctl_next c = Some (b + Suc i mod ?n)" by blast
    from links i obtain c0 where "ch_mem ch0 (b + i) = Some c0" "ctl_skb c = ctl_skb c0"
      using c(1) by (auto simp: same_links_def)
    moreover have "ctl_skb (ring_ctl b ch0 i) = None"
      using ring(4) i unfolding no_skbs_def by blast
    ultimately have "ctl_skb c = None" by (simp add: ring_ctl_def)
    moreover from blk i n c(1) obtain c1 where "ch_mem ch1 (b + i) = Some c1" "ctl_desc c = ctl_desc c1"
      "ctl_bd_cpu_addr c = (if even i then Some (m, i div 2 * chunk) else None)" by fastforce
    moreover from descs(2) i obtain c2 where "ch_mem ch1 (b + i) = Some c2" "ctl_desc c2 = Some i"
      unfolding descs_upto_def by blast
    ultimately show ?thesis using c by (simp add: ring_ctl_def)
  qed
  have "tx_shape b ch"
    using num ctrl block cpu ds by (simp add: tx_shape_def Let_def n ct)
  moreover have "\<not> ctrl_valid (desc_ctrl (ring_desc ch i))" if "i < ?n" for i
    using that ty dc by (simp add: ring_desc_def cpu ds)
  ultimately show ?thesis
    using num hd block by (simp add: tx_inv_def tx_core_def Let_def n)
qed

text \<open>The buffer descriptors of a transmit ring: every second block has its own chunk of the pool.\<close>

definition tx_pool :: "bool \<Rightarrow> wcn36xx \<Rightarrow> wcn36xx_dxe_mem_pool" where
  "tx_pool is_low w = (if is_low then data_mem_pool w else mgmt_mem_pool w)"

lemma tx_pool_cong:
  "mgmt_mem_pool w' = mgmt_mem_pool w \<Longrightarrow> data_mem_pool w' = data_mem_pool w \<Longrightarrow> tx_pool is_low w' = tx_pool is_low w"
  by (simp add: tx_pool_def)

definition tx_bds :: "wcn36xx_dxe_mem_pool \<Rightarrow> nat \<Rightarrow> wcn36xx_dxe_ch \<Rightarrow> bool" where
  "tx_bds pool b ch \<longleftrightarrow>
     (\<forall>i<ch_desc_num ch. even i \<longrightarrow>
        ctl_bd_cpu_addr (ring_ctl b ch i) = Some (the (pool_virt_addr pool), i div 2 * pool_chunk_size pool))"

lemma bd_upto_tx_bds:
  assumes "bd_upto b m (pool_chunk_size pool) (ch_desc_num ch1) ch1 ch" and "pool_virt_addr pool = Some m"
  shows "tx_bds pool b ch"
  unfolding tx_bds_def
proof (intro allI impI)
  fix i assume i: "i < ch_desc_num ch" "even i"
  have "ch_desc_num ch = ch_desc_num ch1" using assms(1) by (simp add: bd_upto_def same_links_def)
  with i assms(1) obtain c where "ch_mem ch (b + i) = Some c" "ctl_bd_cpu_addr c = Some (m, i div 2 * pool_chunk_size pool)"
    unfolding bd_upto_def by auto
  with assms(2) show "ctl_bd_cpu_addr (ring_ctl b ch i) = Some (the (pool_virt_addr pool), i div 2 * pool_chunk_size pool)"
    by (simp add: ring_ctl_def)
qed

section \<open>What the DMA engine's set-up leaves alone\<close>

definition dxe_frame :: "wcn36xx \<Rightarrow> wcn36xx \<Rightarrow> bool" where
  "dxe_frame w w' \<longleftrightarrow>
     w' = w\<lparr> dxe_ch := dxe_ch w', klog := klog w', skbs := skbs w', skb_brk := skb_brk w' \<rparr>"

lemma dxe_frame_refl [simp, intro]: "dxe_frame w w"
  by (simp add: dxe_frame_def)

lemma dxe_frame_trans [trans]: "dxe_frame w w1 \<Longrightarrow> dxe_frame w1 w2 \<Longrightarrow> dxe_frame w w2"
  unfolding dxe_frame_def by (cases w; cases w1; cases w2) simp

lemma dxe_frame_updates [simp]:
  "dxe_frame w (emit e w') = dxe_frame w w'"
  "dxe_frame w (set_ch c ch w') = dxe_frame w w'"
  "dxe_frame w (w'\<lparr> skbs := f, skb_brk := n \<rparr>) = dxe_frame w w'"
  "dxe_frame w (w'\<lparr> dxe_ch := g \<rparr>) = dxe_frame w w'"
  unfolding dxe_frame_def emit_def set_ch_def by (cases w; cases w'; simp)+

lemma dxe_frame_fields:
  assumes "dxe_frame w w'"
  shows "hal_buf w' = hal_buf w" "hal_mutex w' = hal_mutex w" "hal_ind_wq w' = hal_ind_wq w"
    "hal_ind_queue w' = hal_ind_queue w" "hal_ind_work_pending w' = hal_ind_work_pending w"
    "vif_priv w' = vif_priv w" "vifs w' = vifs w" "stas w' = stas w" "sta_priv w' = sta_priv w"
    "dma_mem w' = dma_mem w" "mgmt_mem_pool w' = mgmt_mem_pool w" "data_mem_pool w' = data_mem_pool w"
    "hw_conf w' = hw_conf w" "nv w' = nv w" "vif_list w' = vif_list w" "tx_ack_skb w' = tx_ack_skb w"
    "fw_feat_caps w' = fw_feat_caps w" "dma_brk w' = dma_brk w"
  using assms unfolding dxe_frame_def atomize_conj by (cases w; cases w') simp

lemma dxe_access_frame [simp]:
  "dxe_frame w (wcn36xx_dxe_write_register a v w') = dxe_frame w w'"
  "dxe_frame w (snd (wcn36xx_dxe_read_register P a w')) = dxe_frame w w'"
  "dxe_ch (wcn36xx_dxe_write_register a v w') = dxe_ch w'"
  "dxe_ch (snd (wcn36xx_dxe_read_register P a w')) = dxe_ch w'"
  by (simp_all add: wcn36xx_dxe_write_register_def wcn36xx_dxe_read_register_def)

lemma init_tx_channel_runs:
  assumes ring: "ctl_ring b (dxe_ch w c)" "ch_head (dxe_ch w c) = Some b" "ch_tail (dxe_ch w c) = Some b"
      "no_skbs b (dxe_ch w c)"
    and cfg: "even (ch_desc_num (dxe_ch w c))" "2 \<le> ch_desc_num (dxe_ch w c)"
      "ctrl_valid (ch_ctrl_bd (dxe_ch w c))" "ctrl_valid (ch_ctrl_skb (dxe_ch w c))"
      "ch_ch_type (dxe_ch w c) = c" "c = tx_chan is_low"
    and pool: "pool_virt_addr pool = Some m"
    and dma: "p_dma_alloc P (klog w) (ch_desc_num (dxe_ch w c) * sizeof_desc) = Some phy"
  shows "\<exists>w'. init_tx_channel P c pool w = Some w' \<and> tx_inv b 0 0 0 (dxe_ch w' c) \<and>
           dxe_frame w w' \<and> skbs w' = skbs w \<and> skb_brk w' = skb_brk w \<and> ctl_ring b (dxe_ch w' c) \<and>
           ch_head (dxe_ch w' c) = Some b \<and> ch_desc_num (dxe_ch w' c) = ch_desc_num (dxe_ch w c) \<and>
           tx_bds pool b (dxe_ch w' c) \<and> (\<forall>c'. c' \<noteq> c \<longrightarrow> dxe_ch w' c' = dxe_ch w c')"
proof -
  let ?ch = "dxe_ch w c" and ?n = "ch_desc_num (dxe_ch w c)"
  let ?cz = "?ch\<lparr> ch_cpu_addr := Some (replicate ?n zero_desc), ch_dma_addr := phy \<rparr>"
  have same: "same_links b ?ch ?cz"
    using same_links_refl [OF ring(1)] by (simp add: same_links_def)
  have up: "descs_upto b 0 ?cz"
    using cfg(2) by (simp add: descs_upto_def)
  from init_descs_loop_ok [OF ring(1,2) cfg(2) same up, of ?n] cfg(2) obtain ch1 where
    ch1: "init_descs_loop ?n 0 (Some b) ?cz = Some ch1" "same_links b ?ch ch1"
    "descs_upto b ?n ch1" by auto
  have n: "ch_desc_num ch1 = ?n" and hd: "ch_head ch1 = Some b"
    using ch1(2) ring(2) by (simp_all add: same_links_def)
  let ?w1 = "set_ch c ch1 (emit (DmaAlloc (?n * sizeof_desc)) w)"
  have i1: "wcn36xx_dxe_init_descs P c w = Some (0, ?w1)"
    using dma ch1(1) ring(2) by (simp add: wcn36xx_dxe_init_descs_def Let_def)
  from init_tx_bd_ok [OF same_links_ring [OF ring(1) ch1(2)] hd pool] obtain ch2 where
    ch2: "wcn36xx_dxe_init_tx_bd pool ch1 = Some ch2"
    "bd_upto b m (pool_chunk_size pool) (ch_desc_num ch1) ch1 ch2" by blast
  have "\<not> ctrl_valid (DXE_CTRL (ch_ch_type ?ch))"
    using cfg(5,6) dxe_ctrl_valid(1,2) by (simp add: tx_chan_def)
  then have inv: "tx_inv b 0 0 0 ch2"
    by (rule bd_upto_tx_inv [OF ring cfg(1-4) _ ch1(2,3) ch2(2)])
  then obtain blk where "ch_head ch2 = Some b" "ch_mem ch2 b = Some blk"
    using tx_core_nums [of b 0 0 0 ch2] tx_core_shape [of b 0 0 0 ch2]
    by (auto simp: tx_inv_def tx_shape_def Let_def dest: spec [where x = 0])
  moreover have "ctl_ring b ch2" "ch_head ch2 = Some b" "ch_desc_num ch2 = ?n"
    using same_links_ring [OF same_links_ring [OF ring(1) ch1(2)], of ch2] ch2(2) hd n
    by (simp_all add: bd_upto_def same_links_def)
  moreover have "tx_bds pool b ch2" by (rule bd_upto_tx_bds [OF ch2(2) pool])
  ultimately show ?thesis using i1 ch2(1) inv
    by (auto simp: init_tx_channel_def Let_def head_desc_phy_def ctl_at_def wcn36xx_dxe_write_register_def
        wcn36xx_dxe_read_register_def wcn36xx_dxe_enable_ch_int_def split: prod.split)
qed

text \<open>The section of \<open>wcn36xx_dxe_init\<close> for a transmit channel, run on a freshly allocated ring with
  its memory pool in place, does not fault and leaves the channel in the state from which the
  transmit path is correct: an empty queue, every second block with descriptor memory, no descriptor
  owned by the hardware.\<close>

theorem init_tx_channel_ok:
  assumes ring: "ctl_ring b (dxe_ch w c)" "ch_head (dxe_ch w c) = Some b" "ch_tail (dxe_ch w c) = Some b"
      "no_skbs b (dxe_ch w c)"
    and cfg: "even (ch_desc_num (dxe_ch w c))" "2 \<le> ch_desc_num (dxe_ch w c)"
      "ctrl_valid (ch_ctrl_bd (dxe_ch w c))" "ctrl_valid (ch_ctrl_skb (dxe_ch w c))"
      "ch_ch_type (dxe_ch w c) = c" "c = tx_chan is_low"
    and pool: "pool_virt_addr pool = Some m"
    and dma: "p_dma_alloc P (klog w) (ch_desc_num (dxe_ch w c) * sizeof_desc) = Some phy"
  shows "\<exists>w'. init_tx_channel P c pool w = Some w' \<and> tx_inv b 0 0 0 (dxe_ch w' c) \<and>
           (\<forall>c'. c' \<noteq> c \<longrightarrow> dxe_ch w' c' = dxe_ch w c')"
  using init_tx_channel_runs [OF assms] by blast

lemma ring4_links: "ctl_ring 0 (ring4 c)" "no_skbs 0 (ring4 c)"
  by (auto simp: ctl_ring_def ctl_seg_def no_skbs_def ring_ctl_def ring4_def zero_ch_def ring4_ctl_def)

theorem init_tx_channel_ok_witness:
  "\<exists>w'. init_tx_channel sample_platform WCN36XX_DXE_CH_TX_L (data_mem_pool sample_wcn)
          (sample_wcn\<lparr> dxe_ch := ring4 \<rparr>) = Some w' \<and> tx_inv 0 0 0 0 (dxe_ch w' WCN36XX_DXE_CH_TX_L)"
  using init_tx_channel_ok [of 0 "sample_wcn\<lparr> dxe_ch := ring4 \<rparr>" WCN36XX_DXE_CH_TX_L True
      "data_mem_pool sample_wcn" 0 sample_platform 0] ring4_links
  by (auto simp: ring4_def zero_ch_def dxe_ctrl_valid sample_platform_def sample_wcn_def tx_chan_def)

end
