(* ===== verification/Dxe_Start.thy ===== *)
theory Dxe_Start
  imports Dxe_Init
begin

text \<open>
  The whole of \<open>wcn36xx_dxe_init\<close> and what undoes it: on freshly allocated rings, with memory for
  the descriptors, it does not fault, and it changes nothing of the driver but the channels and the
  socket buffers; the pools, the rings and the receive buffers can then be released.
\<close>

section \<open>What the allocation of the blocks leaves\<close>

definition clean :: "nat \<Rightarrow> wcn36xx_dxe_ch \<Rightarrow> bool" where
  "clean b ch \<longleftrightarrow> (\<forall>x c. b \<le> x \<longrightarrow> x < ch_brk ch \<longrightarrow> ch_mem ch x = Some c \<longrightarrow> ctl_skb c = None)"

lemma cleanD: "clean b ch \<Longrightarrow> b \<le> x \<Longrightarrow> x < ch_brk ch \<Longrightarrow> ch_mem ch x = Some c \<Longrightarrow> ctl_skb c = None"
  unfolding clean_def by blast

definition same_setup :: "wcn36xx_dxe_ch \<Rightarrow> wcn36xx_dxe_ch \<Rightarrow> bool" where
  "same_setup ch ch' \<longleftrightarrow>
     ch' = ch\<lparr> ch_mem := ch_mem ch', ch_brk := ch_brk ch', ch_head := ch_head ch', ch_tail := ch_tail ch' \<rparr>"

lemma same_setup_refl [simp]: "same_setup ch ch"
  by (simp add: same_setup_def)

lemma same_setup_trans: "same_setup ch ch1 \<Longrightarrow> same_setup ch1 ch2 \<Longrightarrow> same_setup ch ch2"
  unfolding same_setup_def by (cases ch; cases ch1; cases ch2) simp

lemma same_setup_fields:
  "same_setup ch ch' \<Longrightarrow> ch_ch_type ch' = ch_ch_type ch \<and> ch_ctrl_bd ch' = ch_ctrl_bd ch \<and>
     ch_ctrl_skb ch' = ch_ctrl_skb ch \<and> ch_desc_num ch' = ch_desc_num ch"
  unfolding same_setup_def by (cases ch; cases ch') simp

lemma link_ctl_block_keeps:
  assumes "link_ctl_block i prev ch = Some (a, ch')"
  shows "same_setup ch ch' \<and> ch_brk ch' = Suc (ch_brk ch) \<and> (clean b ch \<longrightarrow> clean b ch')"
  using assms
  by (auto simp: link_ctl_block_def Let_def same_setup_def put_ctl_def clean_def zero_ctl_def less_Suc_eq
      split: if_splits bind_splits option.splits)

lemma alloc_ctl_loop_keeps:
  "alloc_ctl_loop P k i prev ch w = Some (0, ch', w') \<Longrightarrow> clean b ch \<Longrightarrow>
     same_setup ch ch' \<and> clean b ch' \<and> ch_brk ch' = ch_brk ch + k \<and> dxe_frame w w'"
proof (induction k arbitrary: i prev ch w)
  case 0 then show ?case by simp
next
  case (Suc k)
  from Suc.prems(1) obtain a ch1 where 1: "link_ctl_block i prev ch = Some (a, ch1)"
    "alloc_ctl_loop P k (Suc i) (Some a) ch1 (emit (Kmalloc sizeof_ctl) w) = Some (0, ch', w')"
    by (auto simp: Let_def split: if_splits bind_splits)
  note l = link_ctl_block_keeps [OF 1(1), of b]
  with Suc.prems(2) have "clean b ch1" by blast
  from Suc.IH [OF 1(2) this] l show ?case
    using same_setup_trans dxe_frame_trans [of w "emit (Kmalloc sizeof_ctl) w" w'] by auto
qed

lemma allocate_ctl_block_keeps:
  assumes "wcn36xx_dxe_allocate_ctl_block P c w = Some (0, w')"
  shows "same_setup (dxe_ch w c) (dxe_ch w' c) \<and> clean (ch_brk (dxe_ch w c)) (dxe_ch w' c) \<and>
    ch_brk (dxe_ch w' c) = ch_brk (dxe_ch w c) + ch_desc_num (dxe_ch w c) \<and> dxe_frame w w' \<and>
    (\<forall>c'. c' \<noteq> c \<longrightarrow> dxe_ch w' c' = dxe_ch w c')"
proof -
  from assms obtain ch w1 where
    l: "alloc_ctl_loop P (ch_desc_num (dxe_ch w c)) 0 None (dxe_ch w c) w = Some (0, ch, w1)"
    and w': "w' = set_ch c ch w1"
    by (auto simp: wcn36xx_dxe_allocate_ctl_block_def bind_eq_Some_conv)
  have "clean (ch_brk (dxe_ch w c)) (dxe_ch w c)" by (simp add: clean_def)
  moreover have "alloc_ctl_loop P k i prev ch0 w = Some (r, ch, w1) \<Longrightarrow> dxe_ch w1 = dxe_ch w"
    for k i prev ch0 w r
    by (induction k arbitrary: i prev ch0 w) (auto simp: bind_eq_Some_conv Let_def split: if_splits)
  ultimately show ?thesis using alloc_ctl_loop_keeps [OF l] l w' by auto
qed

text \<open>A channel after \<open>wcn36xx_dxe_alloc_ctl_blks\<close>, with its blocks from \<open>b\<close> on.\<close>

definition allocated :: "nat \<Rightarrow> wcn36xx_dxe_ch_type \<Rightarrow> wcn36xx_dxe_ch \<Rightarrow> bool" where
  "allocated b c ch \<longleftrightarrow>
     ctl_ring b ch \<and> ch_head ch = Some b \<and> ch_tail ch = Some b \<and> no_skbs b ch \<and> ch_ch_type ch = c \<and>
     ch_desc_num ch = DXE_CH_DESC_NUMB c \<and>
     ch_ctrl_bd ch = ch_ctrl_bd (configure_ch c ch) \<and> ch_ctrl_skb ch = ch_ctrl_skb (configure_ch c ch)"

lemma configure_ch_ctrl:
  "ch_ctrl_bd (configure_ch c (configure_ch c ch)) = ch_ctrl_bd (configure_ch c ch)"
  "ch_ctrl_skb (configure_ch c (configure_ch c ch)) = ch_ctrl_skb (configure_ch c ch)"
  by (cases c; simp add: configure_ch_def)+

lemma configure_ch_same_setup:
  "same_setup ch ch' \<Longrightarrow> ch_ctrl_bd (configure_ch c ch') = ch_ctrl_bd (configure_ch c ch)"
  "same_setup ch ch' \<Longrightarrow> ch_ctrl_skb (configure_ch c ch') = ch_ctrl_skb (configure_ch c ch)"
  by (cases c; simp add: configure_ch_def same_setup_fields)+

lemma alloc_ctl_blks_allocated:
  assumes "wcn36xx_dxe_alloc_ctl_blks P w = Some (0, w')"
  shows "(\<forall>c. allocated (ch_brk (dxe_ch w c)) c (dxe_ch w' c)) \<and> dxe_frame w w'"
proof -
  let ?w0 = "w\<lparr> dxe_ch := (\<lambda>c. configure_ch c (dxe_ch w c)) \<rparr>"
  have step: "\<exists>w1. wcn36xx_dxe_allocate_ctl_block P c w = Some (0, w1) \<and> k w1 = Some (0, w')"
    if "try_alloc P c k w = Some (0, w')" for c k w w'
    using that by (auto simp: try_alloc_def bind_eq_Some_conv split: if_splits)
  from assms obtain w1 w2 w3 w4 where
    w1: "wcn36xx_dxe_allocate_ctl_block P WCN36XX_DXE_CH_TX_L ?w0 = Some (0, w1)" and
    w2: "wcn36xx_dxe_allocate_ctl_block P WCN36XX_DXE_CH_TX_H w1 = Some (0, w2)" and
    w3: "wcn36xx_dxe_allocate_ctl_block P WCN36XX_DXE_CH_RX_L w2 = Some (0, w3)" and
    w4: "wcn36xx_dxe_allocate_ctl_block P WCN36XX_DXE_CH_RX_H w3 = Some (0, w4)" and
    w': "w' = emit (SmsmChange WCN36XX_SMSM_WLAN_TX_ENABLE WCN36XX_SMSM_WLAN_TX_RINGS_EMPTY) w4"
    unfolding wcn36xx_dxe_alloc_ctl_blks_def Let_def by (auto dest!: step)
  note k = allocate_ctl_block_keeps [OF w1] allocate_ctl_block_keeps [OF w2]
    allocate_ctl_block_keeps [OF w3] allocate_ctl_block_keeps [OF w4]
  have frame: "dxe_frame w w'"
    using k dxe_frame_trans [of w ?w0 w1] dxe_frame_trans [of w w1 w2] dxe_frame_trans [of w w2 w3]
      dxe_frame_trans [of w w3 w4] w' by simp
  have s: "same_setup (configure_ch c (dxe_ch w c)) (dxe_ch w' c) \<and> clean (ch_brk (dxe_ch w c)) (dxe_ch w' c) \<and>
      ch_brk (dxe_ch w' c) = ch_brk (dxe_ch w c) + DXE_CH_DESC_NUMB c" for c
    using k w' by (cases c) simp_all
  have "allocated (ch_brk (dxe_ch w c)) c (dxe_ch w' c)" for c
  proof -
    note r = alloc_ctl_blks_returned_rings [OF assms, of c]
    have "no_skbs (ch_brk (dxe_ch w c)) (dxe_ch w' c)"
      unfolding no_skbs_def
    proof (intro allI impI)
      fix i assume i: "i < ch_desc_num (dxe_ch w' c)"
      with r ctl_ring_next [of _ "dxe_ch w' c" i] obtain blk where
        "ch_mem (dxe_ch w' c) (ch_brk (dxe_ch w c) + i) = Some blk" by blast
      with s [of c] i r cleanD [of "ch_brk (dxe_ch w c)" "dxe_ch w' c" "ch_brk (dxe_ch w c) + i" blk]
      show "ctl_skb (ring_ctl (ch_brk (dxe_ch w c)) (dxe_ch w' c) i) = None"
        by (simp add: ring_ctl_def)
    qed
    moreover have "ch_ctrl_bd (dxe_ch w' c) = ch_ctrl_bd (configure_ch c (dxe_ch w' c))"
      "ch_ctrl_skb (dxe_ch w' c) = ch_ctrl_skb (configure_ch c (dxe_ch w' c))"
      using s [of c] same_setup_fields [of "configure_ch c (dxe_ch w c)"] configure_ch_same_setup
        configure_ch_ctrl by metis+
    ultimately show ?thesis
      using r s [of c] same_setup_fields [of "configure_ch c (dxe_ch w c)" "dxe_ch w' c"]
      by (simp add: allocated_def)
  qed
  with frame show ?thesis by blast
qed

section \<open>The channels\<close>

lemma allocated_config:
  assumes "allocated b c ch"
  shows "even (ch_desc_num ch)" "2 \<le> ch_desc_num ch"
    "c = tx_chan is_low \<Longrightarrow> ctrl_valid (ch_ctrl_bd ch) \<and> ctrl_valid (ch_ctrl_skb ch)"
  using assms
  by (cases c; auto simp: allocated_def configure_ch_def tx_chan_def ctrl_valid_def split: if_splits)+

lemma init_tx_runs:
  assumes al: "allocated b c (dxe_ch w c)" and c: "c = tx_chan is_low"
    and pool: "pool_virt_addr pool = Some m"
    and dma: "\<forall>l n. p_dma_alloc P l n \<noteq> None"
  obtains w' where "init_tx_channel P c pool w = Some w'" "tx_inv b 0 0 0 (dxe_ch w' c)" "dxe_frame w w'"
    "skbs w' = skbs w" "skb_brk w' = skb_brk w" "ctl_ring b (dxe_ch w' c)"
    "ch_head (dxe_ch w' c) = Some b" "ch_desc_num (dxe_ch w' c) = DXE_CH_DESC_NUMB c"
    "tx_bds pool b (dxe_ch w' c)" "\<forall>c'. c' \<noteq> c \<longrightarrow> dxe_ch w' c' = dxe_ch w c'"
proof -
  from dma obtain phy where phy: "p_dma_alloc P (klog w) (ch_desc_num (dxe_ch w c) * sizeof_desc) = Some phy"
    by blast
  have ring: "ctl_ring b (dxe_ch w c)" "ch_head (dxe_ch w c) = Some b" "ch_tail (dxe_ch w c) = Some b"
      "no_skbs b (dxe_ch w c)" and ty: "ch_ch_type (dxe_ch w c) = c"
    using al by (simp_all add: allocated_def)
  note cfg = allocated_config [OF al]
  from init_tx_channel_runs [OF ring cfg(1,2) conjunct1 [OF cfg(3) [OF c]] conjunct2 [OF cfg(3) [OF c]] ty c pool phy]
  moreover have "ch_desc_num (dxe_ch w c) = DXE_CH_DESC_NUMB c" using al by (simp add: allocated_def)
  ultimately show ?thesis using that by metis
qed

section \<open>Filling a receive ring\<close>

definition fill_upto :: "nat \<Rightarrow> nat \<Rightarrow> nat \<Rightarrow> wcn36xx_dxe_ch \<Rightarrow> wcn36xx \<Rightarrow> bool" where
  "fill_upto b s0 i ch w \<longleftrightarrow>
     rx_shape b ch \<and> ch_head ch = Some b \<and> skb_brk w = s0 + i \<and>
     (\<forall>j<ch_desc_num ch. desc_ctrl (ring_desc ch j) = DXE_CTRL (ch_ch_type ch)) \<and>
     (\<forall>j<i. ctl_skb (ring_ctl b ch j) = Some (s0 + j) \<and> skb_empty (skbs w (s0 + j)))"

definition filled_ch :: "nat \<Rightarrow> nat \<Rightarrow> nat \<Rightarrow> u32 \<Rightarrow> wcn36xx_dxe_ch \<Rightarrow> wcn36xx_dxe_ch" where
  "filled_ch b i s bus ch =
     put_ctl (b + i) ((ring_ctl b ch i)\<lparr> ctl_skb := Some s \<rparr>)
       (put_desc i ((ring_desc ch i)\<lparr> desc_dst_addr_l := bus \<rparr>) ch)"

lemma fill_skb_runs:
  assumes sh: "rx_shape b ch" and i: "i < ch_desc_num ch" and mem: "p_alloc_skb P (klog w) \<noteq> None"
  shows "\<exists>bus w'. wcn36xx_dxe_fill_skb P (b + i) ch w = Some (0, filled_ch b i (skb_brk w) bus ch, w') \<and>
           skb_brk w' = Suc (skb_brk w) \<and> dxe_frame w w' \<and> dxe_ch w' = dxe_ch w \<and>
           skb_empty (skbs w' (skb_brk w)) \<and> (\<forall>x. x \<noteq> skb_brk w \<longrightarrow> skbs w' x = skbs w x)"
proof -
  from mem obtain m where m: "p_alloc_skb P (klog w) = Some m" by blast
  obtain c where "ch_mem ch (b + i) = Some c" "ring_ctl b ch i = c" "ctl_desc c = Some i"
    by (rule rx_shape_block [OF sh i])
  with m rx_shape_desc [OF sh, of c i] i show ?thesis
    by (simp add: wcn36xx_dxe_fill_skb_def filled_ch_def Let_def skb_empty_def) blast
qed

lemma filled_ch_simps [simp]:
  "ch_desc_num (filled_ch b i s bus ch) = ch_desc_num ch" "ch_ch_type (filled_ch b i s bus ch) = ch_ch_type ch"
  "ch_head (filled_ch b i s bus ch) = ch_head ch" "ch_tail (filled_ch b i s bus ch) = ch_tail ch"
  by (simp_all add: filled_ch_def)

lemma filled_ch_views:
  assumes sh: "rx_shape b ch" and i: "i < ch_desc_num ch" and j: "j < ch_desc_num ch"
  shows "ring_ctl b (filled_ch b i s bus ch) j =
      (if j = i then (ring_ctl b ch i)\<lparr> ctl_skb := Some s \<rparr> else ring_ctl b ch j)"
    "desc_ctrl (ring_desc (filled_ch b i s bus ch) j) = desc_ctrl (ring_desc ch j)"
proof -
  from rx_shape_cpu [OF sh] obtain ds where "ch_cpu_addr ch = Some ds" "length ds = ch_desc_num ch" by auto
  with i j show "desc_ctrl (ring_desc (filled_ch b i s bus ch) j) = desc_ctrl (ring_desc ch j)"
    by (simp add: ring_desc_def filled_ch_def nth_list_update)
qed (simp add: ring_ctl_def filled_ch_def)

lemma filled_ch_shape:
  assumes sh: "rx_shape b ch" and i: "i < ch_desc_num ch"
  shows "rx_shape b (filled_ch b i s bus ch)"
proof (rule rx_shape_cong [OF sh])
  fix j assume "j < ch_desc_num ch"
  obtain c where "ch_mem ch (b + j) = Some c" "ring_ctl b ch j = c"
    by (rule rx_shape_block [OF sh \<open>j < ch_desc_num ch\<close>])
  then show "\<exists>c. ch_mem (filled_ch b i s bus ch) (b + j) = Some c \<and>
      ctl_next c = ctl_next (ring_ctl b ch j) \<and> ctl_desc c = ctl_desc (ring_ctl b ch j)"
    by (auto simp: filled_ch_def)
qed (simp_all add: filled_ch_def option.map_comp comp_def)

lemma fill_step:
  assumes f: "fill_upto b s0 i ch w" and i: "i < ch_desc_num ch" and mem: "p_alloc_skb P (klog w) \<noteq> None"
  obtains ch' w' blk where "wcn36xx_dxe_fill_skb P (b + i) ch w = Some (0, ch', w')"
    "fill_upto b s0 (Suc i) ch' w'" "ch_desc_num ch' = ch_desc_num ch" "ch_ch_type ch' = ch_ch_type ch"
    "dxe_frame w w'" "dxe_ch w' = dxe_ch w" "\<forall>x < skb_brk w. skbs w' x = skbs w x" "skb_brk w \<le> skb_brk w'"
    "ch_mem ch' (b + i) = Some blk" "ctl_next blk = Some (b + Suc i mod ch_desc_num ch)"
proof -
  have sh: "rx_shape b ch" using f by (simp add: fill_upto_def)
  from fill_skb_runs [OF sh i mem] obtain bus w' where
    r: "wcn36xx_dxe_fill_skb P (b + i) ch w = Some (0, filled_ch b i (skb_brk w) bus ch, w')"
    "skb_brk w' = Suc (skb_brk w)" "dxe_frame w w'" "dxe_ch w' = dxe_ch w"
    "skb_empty (skbs w' (skb_brk w))" "\<forall>x. x \<noteq> skb_brk w \<longrightarrow> skbs w' x = skbs w x" by blast
  let ?ch = "filled_ch b i (skb_brk w) bus ch"
  have sh': "rx_shape b ?ch" by (rule filled_ch_shape [OF sh i])
  have "fill_upto b s0 (Suc i) ?ch w'"
    using f r(2,5,6) i sh' filled_ch_views [OF sh i]
    by (auto simp: fill_upto_def less_Suc_eq)
  moreover obtain blk where "ch_mem ?ch (b + i) = Some blk" "ctl_next blk = Some (b + Suc i mod ch_desc_num ch)"
    by (rule rx_shape_block [OF sh', of i]) (use i in simp_all)
  ultimately show ?thesis using that r by simp
qed

lemma fill_loop:
  assumes "fill_upto b s0 i ch w" and "i + k = ch_desc_num ch" and mem: "\<forall>l. p_alloc_skb P l \<noteq> None"
    and "0 < k"
  shows "\<exists>ch' w'. ch_alloc_skb_loop P k (Some (b + i)) ch w = Some (ch', w') \<and>
           fill_upto b s0 (ch_desc_num ch) ch' w' \<and> ch_desc_num ch' = ch_desc_num ch \<and>
           ch_ch_type ch' = ch_ch_type ch \<and> dxe_frame w w' \<and> dxe_ch w' = dxe_ch w \<and>
           (\<forall>x < skb_brk w. skbs w' x = skbs w x)"
  using assms(1,2,4)
proof (induction k arbitrary: i ch w)
  case 0 then show ?case by simp
next
  case (Suc k)
  then have i: "i < ch_desc_num ch" by simp
  from mem have m: "p_alloc_skb P (klog w) \<noteq> None" by blast
  obtain ch1 w1 blk where 1: "wcn36xx_dxe_fill_skb P (b + i) ch w = Some (0, ch1, w1)"
    "fill_upto b s0 (Suc i) ch1 w1" "ch_desc_num ch1 = ch_desc_num ch" "ch_ch_type ch1 = ch_ch_type ch"
    "dxe_frame w w1" "dxe_ch w1 = dxe_ch w" "\<forall>x < skb_brk w. skbs w1 x = skbs w x" "skb_brk w \<le> skb_brk w1"
    "ch_mem ch1 (b + i) = Some blk" "ctl_next blk = Some (b + Suc i mod ch_desc_num ch)"
    by (rule fill_step [OF Suc.prems(1) i m])
  show ?case
  proof (cases "k = 0")
    case True
    with 1 Suc.prems(2) show ?thesis by auto
  next
    case False
    with Suc.prems(2) have nx: "ctl_next blk = Some (b + Suc i)" using 1(10) by simp
    from False Suc.IH [OF 1(2)] 1(3,4,6) Suc.prems(2) obtain ch' w' where
      2: "ch_alloc_skb_loop P k (Some (b + Suc i)) ch1 w1 = Some (ch', w')"
      "fill_upto b s0 (ch_desc_num ch) ch' w'" "ch_desc_num ch' = ch_desc_num ch"
      "ch_ch_type ch' = ch_ch_type ch" "dxe_frame w1 w'" "dxe_ch w' = dxe_ch w"
      "\<forall>x < skb_brk w1. skbs w' x = skbs w1 x" by auto
    have "ch_alloc_skb_loop P (Suc k) (Some (b + i)) ch w = Some (ch', w')"
      using 1(1,9) 2(1) nx by simp
    moreover have "\<forall>x < skb_brk w. skbs w' x = skbs w x" using 1(7,8) 2(7) by simp
    ultimately show ?thesis using 2 dxe_frame_trans [OF 1(5) 2(5)] by blast
  qed
qed

lemma fill_all_core: "fill_upto b s0 (ch_desc_num ch) ch w \<Longrightarrow> rx_inv b 0 0 ch w"
proof -
  assume f: "fill_upto b s0 (ch_desc_num ch) ch w"
  then have sh: "rx_shape b ch" by (simp add: fill_upto_def)
  then have "0 < ch_desc_num ch" by (simp add: rx_shape_def Let_def)
  moreover have "ctrl_valid (DXE_CTRL (ch_ch_type ch))"
    by (rule DXE_CTRL_rx_valid [OF rx_shape_type [OF sh]])
  moreover have "inj_on (rx_skb_at b ch) {0..<ch_desc_num ch}"
    using f by (auto simp: inj_on_def rx_skb_at_def fill_upto_def)
  ultimately show "rx_inv b 0 0 ch w"
    using f sh by (simp add: rx_inv_def rx_core_def Let_def fill_upto_def rx_skb_at_def)
qed

lemma init_descs_rx_shape:
  assumes ring: "ctl_ring b ch0" "ch_head ch0 = Some b" and same: "same_links b ch0 ch1"
    and up: "descs_upto b (ch_desc_num ch0) ch1"
    and ty: "ch_ch_type ch0 = WCN36XX_DXE_CH_RX_L \<or> ch_ch_type ch0 = WCN36XX_DXE_CH_RX_H"
  shows "fill_upto b (skb_brk w) 0 ch1 w"
proof -
  let ?n = "ch_desc_num ch0"
  have n: "ch_desc_num ch1 = ?n" "ch_head ch1 = Some b" "ch_ch_type ch1 = ch_ch_type ch0" "0 < ?n"
    using same ring by (simp_all add: same_links_def ctl_ring_def)
  from up obtain ds where ds: "ch_cpu_addr ch1 = Some ds" "length ds = ?n"
    "\<forall>j<?n. desc_ctrl (ds ! j) = DXE_CTRL (ch_ch_type ch1)" by (auto simp: descs_upto_def n(1))
  have "ch_mem ch1 (b + i) \<noteq> None \<and> ctl_next (ring_ctl b ch1 i) = Some (b + Suc i mod ?n) \<and>
      ctl_desc (ring_ctl b ch1 i) = Some i" if i: "i < ?n" for i
  proof -
    from up i obtain c where c: "ch_mem ch1 (b + i) = Some c" "ctl_desc c = Some i"
      unfolding descs_upto_def by blast
    with same_links_next [OF ring(1) same i] show ?thesis by (auto simp: ring_ctl_def)
  qed
  then have "rx_shape b ch1" using n ty ds(1,2) by (simp add: rx_shape_def)
  with n ds show ?thesis by (simp add: fill_upto_def ring_desc_def)
qed

lemma init_rx_runs:
  assumes al: "allocated b c (dxe_ch w c)" and c: "c = WCN36XX_DXE_CH_RX_L \<or> c = WCN36XX_DXE_CH_RX_H"
    and dma: "\<forall>l n. p_dma_alloc P l n \<noteq> None" and mem: "\<forall>l. p_alloc_skb P l \<noteq> None"
  obtains w' where "init_rx_channel P c w = Some w'" "rx_inv b 0 0 (dxe_ch w' c) w'" "dxe_frame w w'"
    "\<forall>c'. c' \<noteq> c \<longrightarrow> dxe_ch w' c' = dxe_ch w c'" "skb_brk w \<le> skb_brk w'"
    "ch_desc_num (dxe_ch w' c) = DXE_CH_DESC_NUMB c" "ch_ch_type (dxe_ch w' c) = c"
    "\<forall>x < skb_brk w. skbs w' x = skbs w x" "\<forall>i < DXE_CH_DESC_NUMB c. skb_brk w \<le> rx_skb_at b (dxe_ch w' c) i"
proof -
  let ?ch = "dxe_ch w c"
  let ?n = "ch_desc_num ?ch"
  have ring: "ctl_ring b ?ch" "ch_head ?ch = Some b" and ty: "ch_ch_type ?ch = c"
    using al by (simp_all add: allocated_def)
  have n: "2 \<le> ?n" by (rule allocated_config(2) [OF al])
  from dma obtain phy where phy: "p_dma_alloc P (klog w) (?n * sizeof_desc) = Some phy" by blast
  let ?cz = "?ch\<lparr> ch_cpu_addr := Some (replicate ?n zero_desc), ch_dma_addr := phy \<rparr>"
  have same: "same_links b ?ch ?cz" using same_links_refl [OF ring(1)] by (simp add: same_links_def)
  have up: "descs_upto b 0 ?cz" using n by (simp add: descs_upto_def)
  from init_descs_loop_ok [OF ring n same up, of ?n] n obtain ch1 where
    ch1: "init_descs_loop ?n 0 (Some b) ?cz = Some ch1" "same_links b ?ch ch1" "descs_upto b ?n ch1" by auto
  let ?w1 = "set_ch c ch1 (emit (DmaAlloc (?n * sizeof_desc)) w)"
  have i1: "wcn36xx_dxe_init_descs P c w = Some (0, ?w1)"
    using phy ch1(1) ring(2) by (simp add: wcn36xx_dxe_init_descs_def Let_def)
  have n1: "ch_desc_num ch1 = ?n" "ch_head ch1 = Some b" using ch1(2) ring(2) by (simp_all add: same_links_def)
  have "fill_upto b (skb_brk ?w1) 0 ch1 ?w1"
    by (rule init_descs_rx_shape [OF ring ch1(2,3)]) (use c ty in simp)
  from fill_loop [OF this _ mem, of ?n] n n1 obtain ch2 w2 where
    2: "ch_alloc_skb_loop P ?n (Some b) ch1 ?w1 = Some (ch2, w2)" "fill_upto b (skb_brk ?w1) ?n ch2 w2"
    "ch_desc_num ch2 = ?n" "dxe_frame ?w1 w2" "dxe_ch w2 = dxe_ch ?w1" "ch_ch_type ch2 = ch_ch_type ch1"
    "\<forall>x < skb_brk ?w1. skbs w2 x = skbs ?w1 x" by auto
  let ?w2 = "set_ch c ch2 w2"
  have a1: "wcn36xx_dxe_ch_alloc_skb P c ?w1 = Some (0, ?w2)"
    using 2(1) n1 by (simp add: wcn36xx_dxe_ch_alloc_skb_def)
  have inv: "rx_inv b 0 0 ch2 w2" using fill_all_core 2(2,3) by metis
  then have sh: "rx_shape b ch2" "ch_head ch2 = Some b" "0 < ch_desc_num ch2"
    using n 2(3) by (simp_all add: rx_inv_def rx_core_def Let_def)
  obtain blk where blk: "ch_mem ch2 (b + 0) = Some blk" "ctl_desc blk = Some 0"
    by (rule rx_shape_block [OF sh(1,3)])
  note d = rx_shape_desc [OF sh(1) blk(2) sh(3)]
  have brk: "skb_brk w \<le> skb_brk w2" using 2(2) by (simp add: fill_upto_def)
  have fr: "dxe_frame w w2" using dxe_frame_trans [OF _ 2(4), of w] by simp
  have inv': "rx_inv b 0 0 ch2 w3" if "skb_brk w3 = skb_brk w2" "skbs w3 = skbs w2" for w3
    using inv that by (simp add: rx_inv_def rx_core_def Let_def)
  have "\<exists>w'. init_rx_channel P c w = Some w' \<and> dxe_ch w' = dxe_ch ?w2 \<and> dxe_frame ?w2 w' \<and> skb_brk w' = skb_brk w2 \<and> skbs w' = skbs w2"
    unfolding init_rx_channel_def i1 Let_def bind.bind_lunit prod.case a1 head_desc_phy_def head_phy_next_def
      ctl_at_def
    using blk(1) d sh(2)
    by (simp add: wcn36xx_dxe_read_register_def wcn36xx_dxe_write_register_def wcn36xx_dxe_enable_ch_int_def)
  then obtain w3 where 3: "init_rx_channel P c w = Some w3" "dxe_ch w3 = dxe_ch ?w2" "dxe_frame ?w2 w3"
    "skb_brk w3 = skb_brk w2" "skbs w3 = skbs w2" by blast
  have "dxe_frame w w3" using dxe_frame_trans [OF _ 3(3), of w] fr by simp
  moreover have "ch_ch_type ch2 = c" using 2(6) ch1(2) ty by (simp add: same_links_def)
  moreover have "\<forall>i < ?n. skb_brk w \<le> rx_skb_at b ch2 i"
    using 2(2) by (simp add: fill_upto_def rx_skb_at_def)
  ultimately show ?thesis using 3 inv' [OF 3(4,5)] brk 2(3,5,7) al
    by (intro that [of w3]) (simp_all add: allocated_def)
qed

lemma rx_shape_ring: "rx_shape b ch \<Longrightarrow> ctl_ring b ch"
  unfolding ctl_ring_def ctl_seg_def
proof (intro conjI allI impI)
  assume sh: "rx_shape b ch"
  then show "0 < ch_desc_num ch" by (simp add: rx_shape_def Let_def)
  fix i assume i: "i < ch_desc_num ch"
  obtain c where "ch_mem ch (b + i) = Some c" "ctl_next c = Some (b + Suc i mod ch_desc_num ch)"
    by (rule rx_shape_block [OF sh i])
  with i show "\<exists>c. ch_mem ch (b + i) = Some c \<and>
      ctl_next c = (if Suc i < ch_desc_num ch then Some (b + Suc i) else Some b)"
    by (cases "Suc i = ch_desc_num ch") auto
qed

section \<open>The engine, started\<close>

text \<open>The two receive rings share no buffer.\<close>

definition rx_apart :: "(wcn36xx_dxe_ch_type \<Rightarrow> nat) \<Rightarrow> wcn36xx \<Rightarrow> bool" where
  "rx_apart B w \<longleftrightarrow>
     (\<forall>i < ch_desc_num (dxe_ch w WCN36XX_DXE_CH_RX_L). \<forall>j < ch_desc_num (dxe_ch w WCN36XX_DXE_CH_RX_H).
        rx_skb_at (B WCN36XX_DXE_CH_RX_L) (dxe_ch w WCN36XX_DXE_CH_RX_L) i \<noteq>
        rx_skb_at (B WCN36XX_DXE_CH_RX_H) (dxe_ch w WCN36XX_DXE_CH_RX_H) j)"

text \<open>The channels after \<open>wcn36xx_dxe_init\<close>: the two transmit queues empty, the two receive rings filled.\<close>

definition dxe_running :: "(wcn36xx_dxe_ch_type \<Rightarrow> nat) \<Rightarrow> wcn36xx \<Rightarrow> bool" where
  "dxe_running B w \<longleftrightarrow>
     (\<forall>c. ctl_ring (B c) (dxe_ch w c) \<and> ch_head (dxe_ch w c) = Some (B c) \<and>
        ch_desc_num (dxe_ch w c) = DXE_CH_DESC_NUMB c) \<and>
     (\<forall>c \<in> {WCN36XX_DXE_CH_TX_L, WCN36XX_DXE_CH_TX_H}. tx_inv (B c) 0 0 0 (dxe_ch w c)) \<and>
     (\<forall>is_low. tx_bds (tx_pool is_low w) (B (tx_chan is_low)) (dxe_ch w (tx_chan is_low))) \<and>
     (\<forall>c \<in> {WCN36XX_DXE_CH_RX_L, WCN36XX_DXE_CH_RX_H}. rx_inv (B c) 0 0 (dxe_ch w c) w \<and> ch_ch_type (dxe_ch w c) = c) \<and>
     rx_apart B w"

lemma all_channels: "(\<forall>c. Q c) \<longleftrightarrow> Q WCN36XX_DXE_CH_TX_L \<and> Q WCN36XX_DXE_CH_TX_H \<and>
    Q WCN36XX_DXE_CH_RX_L \<and> Q WCN36XX_DXE_CH_RX_H"
  by (metis wcn36xx_dxe_ch_type.exhaust)

lemma rx_inv_brk:
  assumes "rx_inv b h d ch w" and "skb_brk w \<le> skb_brk w'" and "\<forall>x < skb_brk w. skbs w' x = skbs w x"
  shows "rx_inv b h d ch w'"
proof -
  have "rx_skb_at b ch i < skb_brk w" if "i < ch_desc_num ch" for i
    using assms(1) that by (simp add: rx_inv_def rx_core_def Let_def)
  with assms show ?thesis
    unfolding rx_inv_def rx_core_def Let_def by (auto intro: less_le_trans)
qed

lemma rx_inv_ring: "rx_inv b 0 d ch w \<Longrightarrow> ctl_ring b ch \<and> ch_head ch = Some b"
  by (simp add: rx_inv_def rx_core_def Let_def rx_shape_ring)

lemma request_irqs_frame:
  "dxe_ch (snd (wcn36xx_dxe_request_irqs P w)) = dxe_ch w"
  "skb_brk (snd (wcn36xx_dxe_request_irqs P w)) = skb_brk w"
  "skbs (snd (wcn36xx_dxe_request_irqs P w)) = skbs w"
  "dxe_frame w (snd (wcn36xx_dxe_request_irqs P w))"
  "\<forall>l i. p_request_irq P l i = 0 \<Longrightarrow> fst (wcn36xx_dxe_request_irqs P w) = 0"
  by (simp_all add: wcn36xx_dxe_request_irqs_def Let_def)

lemma dxe_init_runs:
  assumes al: "\<forall>c. allocated (B c) c (dxe_ch w c)"
    and pools: "pool_virt_addr (mgmt_mem_pool w) \<noteq> None" "pool_virt_addr (data_mem_pool w) \<noteq> None"
    and dma: "\<forall>l n. p_dma_alloc P l n \<noteq> None" and mem: "\<forall>l. p_alloc_skb P l \<noteq> None"
  obtains r w' where "wcn36xx_dxe_init P w = Some (r, w')" "dxe_running B w'" "dxe_frame w w'"
    "(\<forall>l i. p_request_irq P l i = 0) \<longrightarrow> r = 0"
proof -
  let ?w0 = "wcn36xx_dxe_write_register_x WCN36XX_DXE_CCU_INT
      (wcn36xx_dxe_write_register (reg_addr WCN36XX_DXE_REG_CSR_RESET) WCN36XX_DXE_REG_RESET w)"
  have w0: "dxe_ch ?w0 = dxe_ch w" "dxe_frame w ?w0" "mgmt_mem_pool ?w0 = mgmt_mem_pool w"
    "data_mem_pool ?w0 = data_mem_pool w"
    by (simp_all add: wcn36xx_dxe_write_register_x_def wcn36xx_dxe_write_register_def)
  from pools obtain m d where md: "pool_virt_addr (mgmt_mem_pool w) = Some m"
    "pool_virt_addr (data_mem_pool w) = Some d" by blast
  have txl: "WCN36XX_DXE_CH_TX_L = tx_chan True" and txh: "WCN36XX_DXE_CH_TX_H = tx_chan False"
    by (simp_all add: tx_chan_def)
  note a = al [rule_format]
  obtain w1 where 1: "init_tx_channel P WCN36XX_DXE_CH_TX_L (data_mem_pool ?w0) ?w0 = Some w1"
    "tx_inv (B WCN36XX_DXE_CH_TX_L) 0 0 0 (dxe_ch w1 WCN36XX_DXE_CH_TX_L)" "dxe_frame ?w0 w1"
    "ctl_ring (B WCN36XX_DXE_CH_TX_L) (dxe_ch w1 WCN36XX_DXE_CH_TX_L)"
    "ch_head (dxe_ch w1 WCN36XX_DXE_CH_TX_L) = Some (B WCN36XX_DXE_CH_TX_L)"
    "ch_desc_num (dxe_ch w1 WCN36XX_DXE_CH_TX_L) = DXE_CH_DESC_NUMB WCN36XX_DXE_CH_TX_L"
    "\<forall>c'. c' \<noteq> WCN36XX_DXE_CH_TX_L \<longrightarrow> dxe_ch w1 c' = dxe_ch w c'"
    "tx_bds (data_mem_pool ?w0) (B WCN36XX_DXE_CH_TX_L) (dxe_ch w1 WCN36XX_DXE_CH_TX_L)"
    by (rule init_tx_runs [OF _ txl _ dma, of "B WCN36XX_DXE_CH_TX_L" ?w0 "data_mem_pool ?w0" d])
      (use a md w0 in simp_all)
  obtain w2 where 2: "init_tx_channel P WCN36XX_DXE_CH_TX_H (mgmt_mem_pool w1) w1 = Some w2"
    "tx_inv (B WCN36XX_DXE_CH_TX_H) 0 0 0 (dxe_ch w2 WCN36XX_DXE_CH_TX_H)" "dxe_frame w1 w2"
    "ctl_ring (B WCN36XX_DXE_CH_TX_H) (dxe_ch w2 WCN36XX_DXE_CH_TX_H)"
    "ch_head (dxe_ch w2 WCN36XX_DXE_CH_TX_H) = Some (B WCN36XX_DXE_CH_TX_H)"
    "ch_desc_num (dxe_ch w2 WCN36XX_DXE_CH_TX_H) = DXE_CH_DESC_NUMB WCN36XX_DXE_CH_TX_H"
    "\<forall>c'. c' \<noteq> WCN36XX_DXE_CH_TX_H \<longrightarrow> dxe_ch w2 c' = dxe_ch w1 c'"
    "tx_bds (mgmt_mem_pool w1) (B WCN36XX_DXE_CH_TX_H) (dxe_ch w2 WCN36XX_DXE_CH_TX_H)"
    by (rule init_tx_runs [OF _ txh _ dma, of "B WCN36XX_DXE_CH_TX_H" w1 "mgmt_mem_pool w1" m])
      (use a md w0 1 in \<open>simp_all add: dxe_frame_fields [OF 1(3)]\<close>)
  obtain w3 where 3: "init_rx_channel P WCN36XX_DXE_CH_RX_L w2 = Some w3"
    "rx_inv (B WCN36XX_DXE_CH_RX_L) 0 0 (dxe_ch w3 WCN36XX_DXE_CH_RX_L) w3" "dxe_frame w2 w3"
    "\<forall>c'. c' \<noteq> WCN36XX_DXE_CH_RX_L \<longrightarrow> dxe_ch w3 c' = dxe_ch w2 c'"
    "ch_desc_num (dxe_ch w3 WCN36XX_DXE_CH_RX_L) = DXE_CH_DESC_NUMB WCN36XX_DXE_CH_RX_L"
    "ch_ch_type (dxe_ch w3 WCN36XX_DXE_CH_RX_L) = WCN36XX_DXE_CH_RX_L"
    by (rule init_rx_runs [OF _ _ dma mem, of "B WCN36XX_DXE_CH_RX_L" WCN36XX_DXE_CH_RX_L w2])
      (use a 1 2 in simp_all)
  obtain w4 where 4: "init_rx_channel P WCN36XX_DXE_CH_RX_H w3 = Some w4"
    "rx_inv (B WCN36XX_DXE_CH_RX_H) 0 0 (dxe_ch w4 WCN36XX_DXE_CH_RX_H) w4" "dxe_frame w3 w4"
    "\<forall>c'. c' \<noteq> WCN36XX_DXE_CH_RX_H \<longrightarrow> dxe_ch w4 c' = dxe_ch w3 c'" "skb_brk w3 \<le> skb_brk w4"
    "ch_desc_num (dxe_ch w4 WCN36XX_DXE_CH_RX_H) = DXE_CH_DESC_NUMB WCN36XX_DXE_CH_RX_H"
    "ch_ch_type (dxe_ch w4 WCN36XX_DXE_CH_RX_H) = WCN36XX_DXE_CH_RX_H"
    "\<forall>x < skb_brk w3. skbs w4 x = skbs w3 x"
    "\<forall>i < DXE_CH_DESC_NUMB WCN36XX_DXE_CH_RX_H. skb_brk w3 \<le> rx_skb_at (B WCN36XX_DXE_CH_RX_H) (dxe_ch w4 WCN36XX_DXE_CH_RX_H) i"
    by (rule init_rx_runs [OF _ _ dma mem, of "B WCN36XX_DXE_CH_RX_H" WCN36XX_DXE_CH_RX_H w3])
      (use a 1 2 3 in simp_all)
  obtain r w5 where 5: "wcn36xx_dxe_request_irqs P w4 = (r, w5)" "dxe_ch w5 = dxe_ch w4" "dxe_frame w4 w5"
    "skb_brk w5 = skb_brk w4" "skbs w5 = skbs w4" "(\<forall>l i. p_request_irq P l i = 0) \<longrightarrow> r = 0"
    using request_irqs_frame [where P = P and w = w4] by (metis surj_pair fst_conv snd_conv)
  have rxl: "rx_inv (B WCN36XX_DXE_CH_RX_L) 0 0 (dxe_ch w4 WCN36XX_DXE_CH_RX_L) w5"
    using rx_inv_brk [OF 3(2), of w5] 4(4,5,8) 5(4,5) by simp
  have rxh: "rx_inv (B WCN36XX_DXE_CH_RX_H) 0 0 (dxe_ch w4 WCN36XX_DXE_CH_RX_H) w5"
    using rx_inv_brk [OF 4(2), of w5] 5(4,5) by simp
  have "rx_skb_at (B WCN36XX_DXE_CH_RX_L) (dxe_ch w3 WCN36XX_DXE_CH_RX_L) i < skb_brk w3"
    if "i < ch_desc_num (dxe_ch w3 WCN36XX_DXE_CH_RX_L)" for i
    using 3(2) that by (simp add: rx_inv_def rx_core_def Let_def)
  then have apart: "rx_apart B w5"
    using 4(4,6,9) 5(2) unfolding rx_apart_def by (metis leD wcn36xx_dxe_ch_type.distinct(11))
  have "tx_bds (tx_pool is_low w5) (B (tx_chan is_low)) (dxe_ch w5 (tx_chan is_low))" for is_low
    using 1(8) 2(7,8) 3(4) 4(4) 5(2) w0
    by (simp add: tx_pool_def tx_chan_def dxe_frame_fields [OF 5(3)] dxe_frame_fields [OF 4(3)] dxe_frame_fields [OF 3(3)]
        dxe_frame_fields [OF 2(3)] dxe_frame_fields [OF 1(3)])
  then have "dxe_running B w5"
    using rx_inv_ring [OF rxl] rx_inv_ring [OF rxh] rxl rxh apart 1(2,4-6) 2(2,4-7) 3(4,5,6) 4(4,6,7) 5(2)
    by (simp add: dxe_running_def all_channels)
  moreover have "dxe_frame w w5"
    using w0(2) 1(3) 2(3) 3(3) 4(3) 5(3) by (meson dxe_frame_trans)
  moreover have "wcn36xx_dxe_init P w = Some (if r < 0 then r else 0, w5)"
    using 1(1) 2(1) 3(1) 4(1) 5(1) by (simp add: wcn36xx_dxe_init_def Let_def)
  ultimately show ?thesis using that 5(6) by auto
qed

section \<open>Releasing\<close>

text \<open>When the driver stops, the head of a ring is anywhere: the walk over the blocks begins there
  and has freed all of them when it has taken as many steps as the ring has blocks.\<close>

definition free_set :: "nat set \<Rightarrow> wcn36xx_dxe_ch \<Rightarrow> wcn36xx_dxe_ch" where
  "free_set X ch = ch\<lparr> ch_mem := (\<lambda>x. if x \<in> X then None else ch_mem ch x) \<rparr>"

lemma lap_positions: "h < n \<Longrightarrow> (\<lambda>i. (h + i) mod n) ` {0..<n} = {0..<(n :: nat)}"
proof (rule endo_inj_surj)
  assume h: "h < n"
  show "inj_on (\<lambda>i. (h + i) mod n) {0..<n}"
    by (rule inj_onI) (meson atLeastLessThan_iff h ring_pos_inj)
  show "(\<lambda>i. (h + i) mod n) ` {0..<n} \<subseteq> {0..<n}" using h by auto
qed simp

lemma free_ctl_loop_lap:
  assumes ring: "ctl_ring b ch" and h: "h < ch_desc_num ch"
  shows "j + k = ch_desc_num ch \<Longrightarrow>
     free_ctl_loop k (Some (b + (h + j) mod ch_desc_num ch)) (free_set ((\<lambda>i. b + (h + i) mod ch_desc_num ch) ` {0..<j}) ch) =
       Some (free_set ((\<lambda>i. b + (h + i) mod ch_desc_num ch) ` {0..<ch_desc_num ch}) ch)"
proof (induction k arbitrary: j)
  case 0 then show ?case by simp
next
  case (Suc k)
  let ?n = "ch_desc_num ch" and ?a = "\<lambda>i. b + (h + i) mod ch_desc_num ch"
  have lt: "(h + j) mod ?n < ?n" using h by simp
  from ctl_ring_next [OF ring lt] obtain c where
    c: "ch_mem ch (?a j) = Some c" "ctl_next c = Some (b + Suc ((h + j) mod ?n) mod ?n)" by blast
  have nx: "ctl_next c = Some (?a (Suc j))" using c(2) by (simp add: mod_Suc_eq)
  have "?a j \<notin> ?a ` {0..<j}"
    using ring_pos_inj [of h _ ?n j] Suc.prems h by fastforce
  then have at: "ch_mem (free_set (?a ` {0..<j}) ch) (?a j) = Some c" using c(1) by (simp add: free_set_def)
  have step: "(free_set (?a ` {0..<j}) ch)\<lparr> ch_mem := (ch_mem (free_set (?a ` {0..<j}) ch))(?a j := None) \<rparr> =
      free_set (?a ` {0..<Suc j}) ch"
    by (auto simp: free_set_def fun_eq_iff atLeast0_lessThan_Suc
        intro!: arg_cong [where f = "\<lambda>f. ch_mem_update f ch"])
  have "free_ctl_loop (Suc k) (Some (?a j)) (free_set (?a ` {0..<j}) ch) =
      free_ctl_loop k (Some (?a (Suc j))) (free_set (?a ` {0..<Suc j}) ch)"
    using at nx step by simp
  also have "\<dots> = Some (free_set (?a ` {0..<?n}) ch)" by (rule Suc.IH) (use Suc.prems in simp)
  finally show ?case .
qed

lemma free_ctl_block_from:
  assumes ring: "ctl_ring b ch" and h: "h < ch_desc_num ch" and "ch_head ch = Some (b + h)"
  shows "wcn36xx_dxe_free_ctl_block ch = Some (free_range b (ch_desc_num ch) ch)"
proof -
  let ?n = "ch_desc_num ch"
  have "(\<lambda>i. b + (h + i) mod ?n) ` {0..<?n} = (+) b ` {0..<?n}"
    using lap_positions [OF h] by (metis image_image)
  then have "free_set ((\<lambda>i. b + (h + i) mod ?n) ` {0..<?n}) ch = free_range b ?n ch"
    by (auto simp: free_set_def free_range_def fun_eq_iff intro!: arg_cong [where f = "\<lambda>f. ch_mem_update f ch"])
  moreover have "free_set {} ch = ch" by (simp add: free_set_def)
  ultimately show ?thesis
    using free_ctl_loop_lap [OF ring h, of 0 ?n] h assms(3) by (simp add: wcn36xx_dxe_free_ctl_block_def)
qed

text \<open>A ring of blocks from \<open>b\<close> on with its head somewhere on it.\<close>

definition ring_on :: "nat \<Rightarrow> wcn36xx_dxe_ch \<Rightarrow> bool" where
  "ring_on b ch \<longleftrightarrow> ctl_ring b ch \<and> (\<exists>h<ch_desc_num ch. ch_head ch = Some (b + h))"

lemma ring_on_start: "ctl_ring b ch \<Longrightarrow> ch_head ch = Some b \<Longrightarrow> ring_on b ch"
  by (auto simp: ring_on_def ctl_ring_def intro: exI [of _ 0])

lemma allocated_ring_on: "allocated b c ch \<Longrightarrow> ring_on b ch"
  by (simp add: allocated_def ring_on_start)

lemma free_ctl_blks_ok:
  assumes rings: "\<forall>c. ring_on (B c) (dxe_ch w c)"
  obtains w' where "wcn36xx_dxe_free_ctl_blks w = Some w'" "dxe_frame w w'" "klog w' = klog w"
    "\<forall>c. dxe_ch w' c = free_range (B c) (ch_desc_num (dxe_ch w c)) (dxe_ch w c)"
proof -
  let ?f = "\<lambda>c. free_range (B c) (ch_desc_num (dxe_ch w c)) (dxe_ch w c)"
  have one: "\<exists>w'. free_ctl_block_of c v = Some w' \<and> dxe_frame v w' \<and> klog w' = klog v \<and>
      dxe_ch w' = (dxe_ch v)(c := ?f c)"
    if "dxe_ch v c = dxe_ch w c" for c v
  proof -
    from rings obtain h where "ctl_ring (B c) (dxe_ch w c)" "h < ch_desc_num (dxe_ch w c)"
      "ch_head (dxe_ch w c) = Some (B c + h)" unfolding ring_on_def by blast
    from free_ctl_block_from [OF this] that show ?thesis by (simp add: free_ctl_block_of_def)
  qed
  obtain w1 where 1: "free_ctl_block_of WCN36XX_DXE_CH_TX_L w = Some w1" "dxe_frame w w1" "klog w1 = klog w"
    "dxe_ch w1 = (dxe_ch w)(WCN36XX_DXE_CH_TX_L := ?f WCN36XX_DXE_CH_TX_L)"
    using one by blast
  obtain w2 where 2: "free_ctl_block_of WCN36XX_DXE_CH_TX_H w1 = Some w2" "dxe_frame w1 w2" "klog w2 = klog w1"
    "dxe_ch w2 = (dxe_ch w1)(WCN36XX_DXE_CH_TX_H := ?f WCN36XX_DXE_CH_TX_H)"
    using one [of w1 WCN36XX_DXE_CH_TX_H] 1(4) by auto
  obtain w3 where 3: "free_ctl_block_of WCN36XX_DXE_CH_RX_L w2 = Some w3" "dxe_frame w2 w3" "klog w3 = klog w2"
    "dxe_ch w3 = (dxe_ch w2)(WCN36XX_DXE_CH_RX_L := ?f WCN36XX_DXE_CH_RX_L)"
    using one [of w2 WCN36XX_DXE_CH_RX_L] 1(4) 2(4) by auto
  obtain w4 where 4: "free_ctl_block_of WCN36XX_DXE_CH_RX_H w3 = Some w4" "dxe_frame w3 w4" "klog w4 = klog w3"
    "dxe_ch w4 = (dxe_ch w3)(WCN36XX_DXE_CH_RX_H := ?f WCN36XX_DXE_CH_RX_H)"
    using one [of w3 WCN36XX_DXE_CH_RX_H] 1(4) 2(4) 3(4) by auto
  have each: "dxe_ch w4 c = ?f c" for c
    unfolding 4(4) 3(4) 2(4) 1(4) by (cases c) simp_all
  have "dxe_frame w w4" using 1(2) 2(2) 3(2) 4(2) by (meson dxe_frame_trans)
  then show ?thesis
    using that [of w4] 1(1,3) 2(1,3) 3(1,3) 4(1,3) each by (simp add: wcn36xx_dxe_free_ctl_blks_def)
qed

lemma ch_free_skbs_loop_ok:
  assumes ring: "ctl_ring b ch"
  shows "i < ch_desc_num ch \<Longrightarrow> \<exists>w'. ch_free_skbs_loop k (Some (b + i)) ch w = Some w' \<and> dxe_frame w w' \<and>
    dxe_ch w' = dxe_ch w"
proof (induction k arbitrary: i w)
  case 0 then show ?case by auto
next
  case (Suc k)
  from ctl_ring_next [OF ring Suc.prems] obtain c where
    c: "ch_mem ch (b + i) = Some c" "ctl_next c = Some (b + Suc i mod ch_desc_num ch)" by blast
  let ?w = "case ctl_skb c of None \<Rightarrow> w | Some s \<Rightarrow> emit (FreeSkb s) w"
  have f: "dxe_frame w ?w" "dxe_ch ?w = dxe_ch w" by (simp_all split: option.split)
  have "Suc i mod ch_desc_num ch < ch_desc_num ch" using Suc.prems by simp
  from Suc.IH [OF this, of ?w] obtain w' where
    "ch_free_skbs_loop k (Some (b + Suc i mod ch_desc_num ch)) ch ?w = Some w'" "dxe_frame ?w w'"
    "dxe_ch w' = dxe_ch ?w" by blast
  with c f dxe_frame_trans [OF f(1)] show ?case by (simp add: ctl_at_def)
qed

lemma ch_free_skbs_ok:
  assumes "ring_on b (dxe_ch w c)"
  obtains w' where "wcn36xx_dxe_ch_free_skbs c w = Some w'" "dxe_frame w w'" "dxe_ch w' = dxe_ch w"
proof -
  from assms obtain h where "ctl_ring b (dxe_ch w c)" "h < ch_desc_num (dxe_ch w c)"
    "ch_head (dxe_ch w c) = Some (b + h)" unfolding ring_on_def by blast
  with ch_free_skbs_loop_ok [of b "dxe_ch w c" h "ch_desc_num (dxe_ch w c)" w] that show ?thesis
    by (auto simp: wcn36xx_dxe_ch_free_skbs_def)
qed

lemma dxe_deinit_ok:
  assumes "\<forall>c. ring_on (B c) (dxe_ch w c)"
  obtains w' where "wcn36xx_dxe_deinit w = Some w'" "dxe_frame (w\<lparr> tx_ack_skb := None \<rparr>) w'"
    "dxe_ch w' = dxe_ch w" "tx_ack_skb w' = None"
proof -
  let ?w = "let w = emit (FreeIrq (rx_irq w)) (emit (FreeIrq (tx_irq w)) w)
    in case tx_ack_skb w of None \<Rightarrow> w | Some s \<Rightarrow> (emit (TxStatus s) w)\<lparr> tx_ack_skb := None \<rparr>"
  have f: "dxe_frame (w\<lparr> tx_ack_skb := None \<rparr>) ?w" "dxe_ch ?w = dxe_ch w"
    unfolding dxe_frame_def emit_def Let_def by (cases w; simp split: option.split)+
  have b: "ring_on (B WCN36XX_DXE_CH_RX_L) (dxe_ch ?w WCN36XX_DXE_CH_RX_L)" using assms unfolding f(2) by blast
  obtain w1 where 1: "wcn36xx_dxe_ch_free_skbs WCN36XX_DXE_CH_RX_L ?w = Some w1" "dxe_frame ?w w1"
    "dxe_ch w1 = dxe_ch ?w" by (rule ch_free_skbs_ok [OF b])
  have b': "ring_on (B WCN36XX_DXE_CH_RX_H) (dxe_ch w1 WCN36XX_DXE_CH_RX_H)" using assms unfolding 1(3) f(2) by blast
  obtain w2 where 2: "wcn36xx_dxe_ch_free_skbs WCN36XX_DXE_CH_RX_H w1 = Some w2" "dxe_frame w1 w2"
    "dxe_ch w2 = dxe_ch w1" by (rule ch_free_skbs_ok [OF b'])
  have fr: "dxe_frame (w\<lparr> tx_ack_skb := None \<rparr>) w2" using f(1) 1(2) 2(2) by (meson dxe_frame_trans)
  have "wcn36xx_dxe_deinit w = Some w2"
    using 1(1) 2(1) unfolding wcn36xx_dxe_deinit_def Let_def by simp
  with that [of w2] fr dxe_frame_fields(16) [OF fr] 2(3) 1(3) f(2) show ?thesis by simp
qed

end
