(* ===== verification/Txrx_Tx.thy ===== *)
theory Txrx_Tx
  imports Dxe_Init
begin

text \<open>
  The transmit path of \<^verbatim>\<open>txrx.c\<close>: the buffer descriptor of a data and of a management frame, the
  start of an aggregation session, and \<open>wcn36xx_start_tx\<close>, which builds the descriptor in the
  memory of the channel's head block and hands the frame to the DXE channel.
\<close>

section \<open>The descriptor of a frame\<close>

abbreviation (input) WCN36XX_BMU_WQ_TX :: "8 word" where "WCN36XX_BMU_WQ_TX \<equiv> 25"
abbreviation (input) WCN36XX_TID :: u16 where "WCN36XX_TID \<equiv> 7"
abbreviation (input) WCN36XX_TX_B_WQ_ID :: "5 word" where "WCN36XX_TX_B_WQ_ID \<equiv> 0xA"
abbreviation (input) WCN36XX_TX_U_WQ_ID :: "5 word" where "WCN36XX_TX_U_WQ_ID \<equiv> 0x9"
abbreviation (input) WCN36XX_BD_RATE_DATA :: "2 word" where "WCN36XX_BD_RATE_DATA \<equiv> 0"
abbreviation (input) WCN36XX_BD_RATE_MGMT :: "2 word" where "WCN36XX_BD_RATE_MGMT \<equiv> 2"
abbreviation (input) WCN36XX_BD_RATE_CTRL :: "2 word" where "WCN36XX_BD_RATE_CTRL \<equiv> 3"
abbreviation (input) WCN36XX_TXBD_SSN_FILL_DPU_QOS :: "2 word" where
  "WCN36XX_TXBD_SSN_FILL_DPU_QOS \<equiv> 2"
abbreviation (input) WCN36XX_AMPDU_START_THRESH :: int where "WCN36XX_AMPDU_START_THRESH \<equiv> 20"
abbreviation (input) sizeof_qos_hdr :: u32 where "sizeof_qos_hdr \<equiv> 26"
abbreviation (input) sizeof_hdr_3addr :: u32 where "sizeof_hdr_3addr \<equiv> 24"

text \<open>The sum of the two offsets is computed in \<^verbatim>\<open>int\<close> from the stored bit fields.\<close>

definition wcn36xx_set_tx_pdu :: "u32 \<Rightarrow> u32 \<Rightarrow> u16 \<Rightarrow> wcn36xx_tx_bd \<Rightarrow> wcn36xx_tx_bd" where
  "wcn36xx_set_tx_pdu hdr_len len tid bd =
     (let p = tx_pdu bd;
          p = p\<lparr> mpdu_header_len := ucast hdr_len \<rparr>;
          p = p\<lparr> mpdu_header_off := of_nat sizeof_tx_bd \<rparr>;
          p = p\<lparr> mpdu_data_off := of_nat (unat (mpdu_header_len p) + unat (mpdu_header_off p)) \<rparr>;
          p = p\<lparr> mpdu_len := ucast len, pdu_tid := ucast tid,
                 bd_ssn := WCN36XX_TXBD_SSN_FILL_DPU_QOS \<rparr>
      in bd\<lparr> tx_pdu := p \<rparr>)"

fun get_vif_by_addr_loop :: "wcn36xx \<Rightarrow> u8 list \<Rightarrow> nat list \<Rightarrow> nat option" where
  "get_vif_by_addr_loop w addr [] = None"
| "get_vif_by_addr_loop w addr (v # vs) =
     (if vif_addr (vifs w v) = addr then Some v else get_vif_by_addr_loop w addr vs)"

definition get_vif_by_addr :: "wcn36xx \<Rightarrow> u8 list \<Rightarrow> nat option" where
  "get_vif_by_addr w addr = get_vif_by_addr_loop w addr (vif_list w)"

definition wcn36xx_tx_start_ampdu :: "platform \<Rightarrow> nat \<Rightarrow> sk_buff \<Rightarrow> wcn36xx \<Rightarrow> wcn36xx" where
  "wcn36xx_tx_start_ampdu P sp skb w =
     (if conf_ht (hw_conf w) = CONF_NO_HT then w
      else if \<not> p_is_data_qos P (frame_control (skb_bytes skb)) then w
      else if skb_is_vo skb then w
      else (let tid = unat (p_qos_ctl P (skb_bytes skb) AND 0x0f) in
        if ampdu_state (sta_priv w sp) tid \<noteq> WCN36XX_AMPDU_NONE then w
        else (let ct = non_agg_frame_ct (sta_priv w sp);
                  w = set_sta_priv sp (\<lambda>s. s\<lparr> non_agg_frame_ct := ct + 1 \<rparr>) w
              in if ct \<ge> WCN36XX_AMPDU_START_THRESH
                 then emit (StartTxBa sp tid)
                        (set_sta_priv sp (\<lambda>s. s\<lparr> ampdu_state := (ampdu_state s)(tid := WCN36XX_AMPDU_START),
                                                 non_agg_frame_ct := 0 \<rparr>) w)
                 else w)))"

text \<open>The station's side of the descriptor. A station without interface (after
  \<open>wcn36xx_sta_remove\<close>) and an address no interface has are NULL dereferences.\<close>

definition tx_data_sta :: "wcn36xx \<Rightarrow> nat \<Rightarrow> wcn36xx_tx_bd \<Rightarrow> (wcn36xx_tx_bd \<times> nat) option" where
  "tx_data_sta w sp bd = do {
     v \<leftarrow> sp_vif (sta_priv w sp);
     let s = sta_priv w sp;
     let ty = vif_type (vifs w v);
     let bd = bd\<lparr> tx_dpu_sign := ucast (ucast_dpu_sign s) \<rparr>;
     Some (if ty = NL80211_IFTYPE_STATION then
             bd\<lparr> tx_sta_index := bss_sta_index s, tx_dpu_desc_idx := bss_dpu_desc_index s \<rparr>
           else if ty = NL80211_IFTYPE_AP \<or> ty = NL80211_IFTYPE_ADHOC \<or> ty = NL80211_IFTYPE_MESH_POINT then
             bd\<lparr> tx_sta_index := sta_index s, tx_dpu_desc_idx := dpu_desc_index s \<rparr>
           else bd, v) }"

definition tx_data_self :: "wcn36xx \<Rightarrow> u8 list \<Rightarrow> wcn36xx_tx_bd \<Rightarrow> (wcn36xx_tx_bd \<times> nat) option" where
  "tx_data_self w bs bd = do {
     v \<leftarrow> get_vif_by_addr w (hdr_addr2 bs);
     let vp = vif_priv w v;
     Some (bd\<lparr> tx_sta_index := self_sta_index vp, tx_dpu_desc_idx := self_dpu_desc_index vp,
              tx_dpu_sign := ucast (self_ucast_dpu_sign vp) \<rparr>, v) }"

definition wcn36xx_set_tx_data :: "platform \<Rightarrow> wcn36xx_tx_bd \<Rightarrow> nat option \<Rightarrow> sk_buff \<Rightarrow> bool
     \<Rightarrow> wcn36xx \<Rightarrow> (wcn36xx_tx_bd \<times> nat \<times> wcn36xx) option" where
  "wcn36xx_set_tx_data P bd sp skb bcast w =
     (let bs = skb_bytes skb; fc = frame_control bs; bd = bd\<lparr> bd_rate := WCN36XX_BD_RATE_DATA \<rparr> in do {
        (bd, v) \<leftarrow> (case sp of Some s \<Rightarrow> tx_data_sta w s bd | None \<Rightarrow> tx_data_self w bs bd);
        let bd = (if p_is_nullfunc P fc \<or>
                     (case sp of None \<Rightarrow> False | Some s \<Rightarrow> \<not> is_data_encrypted (sta_priv w s))
                  then bd\<lparr> tx_dpu_ne := 1 \<rparr> else bd);
        let bd = (if bcast then bd\<lparr> tx_ub := 1, ack_policy := 1 \<rparr> else bd);
        let bd = wcn36xx_set_tx_pdu (if p_is_data_qos P fc then sizeof_qos_hdr else sizeof_hdr_3addr)
                   (of_nat (skb_len skb)) (case sp of None \<Rightarrow> 0 | Some s \<Rightarrow> sp_tid (sta_priv w s)) bd;
        let w = (case sp of
                   Some s \<Rightarrow> (if p_is_data_qos P fc then wcn36xx_tx_start_ampdu P s skb w else w)
                 | None \<Rightarrow> w);
        Some (bd, v, w) })"

definition wcn36xx_set_tx_mgmt :: "platform \<Rightarrow> wcn36xx_tx_bd \<Rightarrow> sk_buff \<Rightarrow> bool \<Rightarrow> wcn36xx
     \<Rightarrow> (wcn36xx_tx_bd \<times> nat) option" where
  "wcn36xx_set_tx_mgmt P bd skb bcast w =
     (let bs = skb_bytes skb; fc = frame_control bs in do {
        v \<leftarrow> get_vif_by_addr w (hdr_addr2 bs);
        let vp = vif_priv w v;
        let bd = bd\<lparr> tx_sta_index := self_sta_index vp, tx_dpu_desc_idx := self_dpu_desc_index vp,
                     tx_dpu_ne := 1 \<rparr>;
        let bd = (if p_is_mgmt P fc then
                    bd\<lparr> bd_rate := (if conf_band (hw_conf w) = IEEE80211_BAND_5GHZ
                                    then WCN36XX_BD_RATE_CTRL else WCN36XX_BD_RATE_MGMT) \<rparr>
                  else if p_is_ctl P fc then bd\<lparr> bd_rate := WCN36XX_BD_RATE_CTRL \<rparr> else bd);
        let bcast = (if is_joining vp \<and> p_is_probe_req P fc then False else bcast);
        let bd = (if bcast then bd\<lparr> tx_ub := 1, ack_policy := 1, queue_id := WCN36XX_TX_B_WQ_ID \<rparr>
                  else bd\<lparr> queue_id := WCN36XX_TX_U_WQ_ID \<rparr>);
        Some (wcn36xx_set_tx_pdu (if p_is_data_qos P fc then sizeof_qos_hdr else sizeof_hdr_3addr)
                (of_nat (skb_len skb)) WCN36XX_TID bd, v) })"

section \<open>Starting a transmission\<close>

text \<open>The descriptor in the memory of the pool. \<open>bd_in_memory\<close> is its final form: ten words, swapped to big
  endian, with the signature stored afterwards in the byte order of the host.\<close>

definition store_bd :: "nat \<times> nat \<Rightarrow> u32 list \<Rightarrow> wcn36xx \<Rightarrow> wcn36xx option" where
  "store_bd p ws w = do {
     mem \<leftarrow> dma_mem w (fst p);
     mem \<leftarrow> buf_write mem (snd p) (words_bytes ws);
     Some (w\<lparr> dma_mem := (dma_mem w)(fst p := Some mem) \<rparr>) }"

definition bd_in_memory :: "wcn36xx_tx_bd \<Rightarrow> u32 list" where
  "bd_in_memory bd = (buff_to_be (tx_bd_words bd))[6 := 0xbdbdbdbd]"

definition initial_bd :: "sk_buff \<Rightarrow> wcn36xx_tx_bd" where
  "initial_bd skb = zero_tx_bd\<lparr> tx_dpu_rf := WCN36XX_BMU_WQ_TX,
     tx_comp := (if IEEE80211_TX_CTL_REQ_TX_STATUS \<in> skb_cb_flags skb then 1 else 0) \<rparr>"

definition wcn36xx_start_tx :: "platform \<Rightarrow> nat option \<Rightarrow> nat \<Rightarrow> wcn36xx \<Rightarrow> (int \<times> wcn36xx) option" where
  "wcn36xx_start_tx P sp s w =
     (let skb = skbs w s; bs = skb_bytes skb;
          is_low = p_is_data P (frame_control bs);
          bcast = is_broadcast_ether_addr (hdr_addr1 bs) \<or> is_multicast_ether_addr (hdr_addr1 bs);
          bd = initial_bd skb
      in do {
        p \<leftarrow> wcn36xx_dxe_get_next_bd w is_low;
        case p of
          None \<Rightarrow> Some (- EINVAL, w)
        | Some ptr \<Rightarrow> do {
            w \<leftarrow> store_bd ptr (tx_bd_words bd) w;
            if tx_comp bd = 1 \<and> tx_ack_skb w \<noteq> None then Some (- EINVAL, w)
            else do {
              let w = (if tx_comp bd = 1 then emit StopQueues (w\<lparr> tx_ack_skb := Some s \<rparr>) else w);
              (bd, v, w) \<leftarrow> (if is_low then wcn36xx_set_tx_data P bd sp skb bcast w
                             else do { (bd, v) \<leftarrow> wcn36xx_set_tx_mgmt P bd skb bcast w;
                                       Some (bd, v, w) });
              w \<leftarrow> store_bd ptr (bd_in_memory bd) w;
              wcn36xx_dxe_tx_frame P (Some v) s is_low w } } })"

section \<open>Facts\<close>

lemma store_bd_ok:
  assumes "dma_mem w a = Some mem" and "off + 40 \<le> length mem" and "length ws = 10"
  obtains mem' where "store_bd (a, off) ws w = Some (w\<lparr> dma_mem := (dma_mem w)(a := Some mem') \<rparr>)"
    "length mem' = length mem" "buf_read mem' off 40 = Some (words_bytes ws)"
proof -
  have fits: "off + length (words_bytes ws) \<le> length mem"
    using assms by simp
  from buf_write_Some [OF this] obtain mem' where m: "buf_write mem off (words_bytes ws) = Some mem'" ..
  show ?thesis
  proof (rule that)
    show "store_bd (a, off) ws w = Some (w\<lparr> dma_mem := (dma_mem w)(a := Some mem') \<rparr>)"
      using m assms(1) by (simp add: store_bd_def)
    show "length mem' = length mem" by (rule buf_write_length [OF m])
    show "buf_read mem' off 40 = Some (words_bytes ws)"
      using mem.rd_wr_same [OF m] assms(3) by simp
  qed
qed

lemma bd_in_memory_length [simp]: "length (bd_in_memory bd) = 10"
  by (simp add: bd_in_memory_def)

text \<open>The signature reads the same in both byte orders, so the firmware, which reads the words in
  big endian, finds the descriptor itself with the signature in its place.\<close>

lemma firmware_reads_bd:
  "words_tx_bd (buff_to_be (bytes_words (words_bytes (bd_in_memory bd)))) =
     Some (bd\<lparr> tx_bd_sign := 0xbdbdbdbd \<rparr>)"
proof -
  have sign: "cpu_to_be32 0xbdbdbdbd = 0xbdbdbdbd"
    by (simp add: cpu_to_be32_def le32_def)
  have ws: "tx_bd_words (bd\<lparr> tx_bd_sign := 0xbdbdbdbd \<rparr>) = (tx_bd_words bd)[6 := 0xbdbdbdbd]"
    by (simp add: tx_bd_words_def pdu_words_def)
  have "buff_to_be (bd_in_memory bd) = (tx_bd_words bd)[6 := 0xbdbdbdbd]"
    unfolding bd_in_memory_def by (simp add: buff_to_be_def map_update sign comp_def)
  then show ?thesis
    using words_tx_bd_words [of "bd\<lparr> tx_bd_sign := 0xbdbdbdbd \<rparr>"] by (simp add: ws)
qed

lemma tx_start_ampdu_frame [frame_simps]:
  "dxe_ch (wcn36xx_tx_start_ampdu P sp skb w) = dxe_ch w"
  "dma_mem (wcn36xx_tx_start_ampdu P sp skb w) = dma_mem w"
  "skbs (wcn36xx_tx_start_ampdu P sp skb w) = skbs w"
  "tx_ack_skb (wcn36xx_tx_start_ampdu P sp skb w) = tx_ack_skb w"
  by (simp_all add: wcn36xx_tx_start_ampdu_def Let_def set_sta_priv_def)

text \<open>The interface of a frame is known: the station's, or the one that has the transmitter's
  address.\<close>

definition tx_vif_known :: "wcn36xx \<Rightarrow> nat option \<Rightarrow> bool \<Rightarrow> u8 list \<Rightarrow> bool" where
  "tx_vif_known w sp is_low bs \<longleftrightarrow>
     (case (sp, is_low) of
        (Some s, True) \<Rightarrow> sp_vif (sta_priv w s) \<noteq> None
      | _ \<Rightarrow> get_vif_by_addr w (hdr_addr2 bs) \<noteq> None)"

definition tx_descriptor :: "platform \<Rightarrow> wcn36xx_tx_bd \<Rightarrow> nat option \<Rightarrow> sk_buff \<Rightarrow> bool \<Rightarrow> bool
     \<Rightarrow> wcn36xx \<Rightarrow> (wcn36xx_tx_bd \<times> nat \<times> wcn36xx) option" where
  "tx_descriptor P bd sp skb bcast is_low w =
     (if is_low then wcn36xx_set_tx_data P bd sp skb bcast w
      else do { (bd, v) \<leftarrow> wcn36xx_set_tx_mgmt P bd skb bcast w; Some (bd, v, w) })"

lemma get_vif_by_addr_cong:
  "vif_list w' = vif_list w \<Longrightarrow> vifs w' = vifs w \<Longrightarrow> get_vif_by_addr w' a = get_vif_by_addr w a"
proof -
  assume h: "vif_list w' = vif_list w" "vifs w' = vifs w"
  have "get_vif_by_addr_loop w' a l = get_vif_by_addr_loop w a l" for l
    by (induction l) (simp_all add: h)
  with h show ?thesis by (simp add: get_vif_by_addr_def)
qed

lemma tx_vif_known_cong:
  "vif_list w' = vif_list w \<Longrightarrow> vifs w' = vifs w \<Longrightarrow> sta_priv w' = sta_priv w \<Longrightarrow>
     tx_vif_known w' sp is_low bs = tx_vif_known w sp is_low bs"
  using get_vif_by_addr_cong [of w' w] unfolding tx_vif_known_def by presburger

lemma tx_descriptor_ok:
  assumes "tx_vif_known w sp is_low (skb_bytes skb)"
  obtains bd' v w' where "tx_descriptor P bd sp skb bcast is_low w = Some (bd', v, w')"
    "dxe_ch w' = dxe_ch w" "dma_mem w' = dma_mem w" "skbs w' = skbs w" "tx_ack_skb w' = tx_ack_skb w"
proof -
  have "\<exists>bd' v w'. tx_descriptor P bd sp skb bcast is_low w = Some (bd', v, w') \<and>
          dxe_ch w' = dxe_ch w \<and> dma_mem w' = dma_mem w \<and> skbs w' = skbs w \<and>
          tx_ack_skb w' = tx_ack_skb w"
  proof (cases is_low)
    case True
    with assms show ?thesis
      by (cases sp) (auto simp: tx_vif_known_def tx_descriptor_def wcn36xx_set_tx_data_def Let_def
          tx_data_sta_def tx_data_self_def frame_simps)
  next
    case False
    with assms show ?thesis
      by (cases sp) (auto simp: tx_vif_known_def tx_descriptor_def wcn36xx_set_tx_mgmt_def Let_def)
  qed
  with that show ?thesis by blast
qed

section \<open>Properties\<close>

text \<open>What \<open>wcn36xx_start_tx\<close> asks of its caller: the frame's interface is known, the memory of the
  next descriptor is there, and no other frame waits for a status if this one asks for one.\<close>

definition start_tx_ok :: "nat option \<Rightarrow> nat \<Rightarrow> wcn36xx \<Rightarrow> bool \<Rightarrow> nat \<Rightarrow> nat \<Rightarrow> bool" where
  "start_tx_ok sp s w is_low a off \<longleftrightarrow>
     tx_vif_known w sp is_low (skb_bytes (skbs w s)) \<and>
     wcn36xx_dxe_get_next_bd w is_low = Some (Some (a, off)) \<and>
     (\<exists>mem. dma_mem w a = Some mem \<and> off + 40 \<le> length mem) \<and>
     (IEEE80211_TX_CTL_REQ_TX_STATUS \<in> skb_cb_flags (skbs w s) \<longrightarrow> tx_ack_skb w = None)"

abbreviation (input) skb_is_low :: "platform \<Rightarrow> wcn36xx \<Rightarrow> nat \<Rightarrow> bool" where
  "skb_is_low P w s \<equiv> p_is_data P (frame_control (skb_bytes (skbs w s)))"

lemma start_tx_reaches_ring:
  assumes ok: "start_tx_ok sp s w (skb_is_low P w s) a off"
  obtains bd v w1 w2 mem where
    "wcn36xx_start_tx P sp s w = wcn36xx_dxe_tx_frame P (Some v) s (skb_is_low P w s) w2"
    "dxe_ch w2 = dxe_ch w" "skbs w2 = skbs w" "dma_mem w2 a = Some mem"
    "tx_ack_skb w2 = (if IEEE80211_TX_CTL_REQ_TX_STATUS \<in> skb_cb_flags (skbs w s)
                      then Some s else tx_ack_skb w)"
    "buf_read mem off 40 = Some (words_bytes (bd_in_memory bd))"
    "tx_descriptor P (initial_bd (skbs w s)) sp (skbs w s)
       (is_broadcast_ether_addr (hdr_addr1 (skb_bytes (skbs w s))) \<or>
        is_multicast_ether_addr (hdr_addr1 (skb_bytes (skbs w s)))) (skb_is_low P w s) w1 =
       Some (bd, v, w2\<lparr> dma_mem := dma_mem w1 \<rparr>)"
    "vifs w1 = vifs w" "vif_priv w1 = vif_priv w" "sta_priv w1 = sta_priv w" "hw_conf w1 = hw_conf w"
proof -
  let ?low = "skb_is_low P w s" and ?bs = "skb_bytes (skbs w s)" and ?bd = "initial_bd (skbs w s)"
  let ?bcast = "is_broadcast_ether_addr (hdr_addr1 ?bs) \<or> is_multicast_ether_addr (hdr_addr1 ?bs)"
  from ok have known: "tx_vif_known w sp ?low ?bs"
    and nxt: "wcn36xx_dxe_get_next_bd w ?low = Some (Some (a, off))"
    and mem: "\<exists>mem. dma_mem w a = Some mem \<and> off + 40 \<le> length mem"
    by (simp_all add: start_tx_ok_def)
  from mem obtain mem0 where m0: "dma_mem w a = Some mem0" "off + 40 \<le> length mem0" by blast
  obtain mem1 where m1: "store_bd (a, off) (tx_bd_words ?bd) w = Some (w\<lparr> dma_mem := (dma_mem w)(a := Some mem1) \<rparr>)"
    "length mem1 = length mem0"
    by (rule store_bd_ok [OF m0, of "tx_bd_words ?bd"]) simp_all
  have comp: "tx_comp ?bd = 1 \<longleftrightarrow> IEEE80211_TX_CTL_REQ_TX_STATUS \<in> skb_cb_flags (skbs w s)"
    by (simp add: initial_bd_def zero_tx_bd_def)
  define w1 where "w1 = (let w' = w\<lparr> dma_mem := (dma_mem w)(a := Some mem1) \<rparr> in
      if tx_comp ?bd = 1 then emit StopQueues (w'\<lparr> tx_ack_skb := Some s \<rparr>) else w')"
  have f1: "dxe_ch w1 = dxe_ch w" "skbs w1 = skbs w" "dma_mem w1 a = Some mem1"
    "vifs w1 = vifs w" "vif_list w1 = vif_list w" "vif_priv w1 = vif_priv w"
    "sta_priv w1 = sta_priv w" "hw_conf w1 = hw_conf w"
    "tx_ack_skb w1 = (if IEEE80211_TX_CTL_REQ_TX_STATUS \<in> skb_cb_flags (skbs w s)
                      then Some s else tx_ack_skb w)"
    using comp by (simp_all add: w1_def Let_def)
  from known have "tx_vif_known w1 sp ?low ?bs"
    using tx_vif_known_cong [of w1 w] f1 by simp
  then obtain bd v w2 where d: "tx_descriptor P ?bd sp (skbs w s) ?bcast ?low w1 = Some (bd, v, w2)"
    "dxe_ch w2 = dxe_ch w1" "dma_mem w2 = dma_mem w1" "skbs w2 = skbs w1"
    "tx_ack_skb w2 = tx_ack_skb w1"
    by (rule tx_descriptor_ok [where skb = "skbs w s"])
  have m2: "dma_mem w2 a = Some mem1" "off + 40 \<le> length mem1"
    using d(3) f1(3) m0(2) m1(2) by simp_all
  obtain mem3 where m3: "store_bd (a, off) (bd_in_memory bd) w2 = Some (w2\<lparr> dma_mem := (dma_mem w2)(a := Some mem3) \<rparr>)"
    "buf_read mem3 off 40 = Some (words_bytes (bd_in_memory bd))"
    by (rule store_bd_ok [OF m2, of "bd_in_memory bd"]) simp_all
  let ?w3 = "w2\<lparr> dma_mem := (dma_mem w2)(a := Some mem3) \<rparr>"
  have no_err: "\<not> (tx_comp ?bd = 1 \<and> tx_ack_skb (w\<lparr> dma_mem := (dma_mem w)(a := Some mem1) \<rparr>) \<noteq> None)"
    using ok comp by (auto simp: start_tx_ok_def)
  have "wcn36xx_start_tx P sp s w = wcn36xx_dxe_tx_frame P (Some v) s ?low ?w3"
    using nxt m1(1) no_err d(1) m3(1)
    unfolding wcn36xx_start_tx_def Let_def
    by (simp only: option.case bind.bind_lunit if_False Let_def w1_def [unfolded Let_def, symmetric]
        tx_descriptor_def [symmetric] prod.case)
  moreover have "?w3\<lparr> dma_mem := dma_mem w1 \<rparr> = w2" using d(3) by simp
  ultimately show ?thesis
    using d f1 m3(2) by (intro that [of v ?w3 mem3 bd w1]) simp_all
qed

text \<open>C9: Handing a frame to the transmit path never faults when its interface is known, and it is
  accepted exactly when the channel has room, then queued behind the frames already there; in every
  case the firmware, reading big-endian words, finds in the memory of the head block the descriptor
  the code computed for this frame, with the signature; and the skb is recorded as the one that waits
  for a status exactly when it asks for one.\<close>

theorem start_tx_spec:
  fixes P w s
  defines "is_low \<equiv> skb_is_low P w s"
  defines "ch \<equiv> dxe_ch w (tx_chan is_low)"
  assumes ok: "start_tx_ok sp s w is_low a off" and ring: "tx_ok (Some 0) is_low w"
  shows "\<exists>w' bd v w1 w2 mem bs.
           wcn36xx_start_tx P sp s w =
             Some (if length (tx_pending ch) < ch_desc_num ch div 2 then 0 else - EBUSY, w') \<and>
           tx_pending (dxe_ch w' (tx_chan is_low)) =
             tx_pending ch @ (if length (tx_pending ch) < ch_desc_num ch div 2 then [s] else []) \<and>
           tx_ack_skb w' = (if IEEE80211_TX_CTL_REQ_TX_STATUS \<in> skb_cb_flags (skbs w s)
                            then Some s else tx_ack_skb w) \<and>
           dma_mem w' a = Some mem \<and> buf_read mem off 40 = Some bs \<and>
           words_tx_bd (buff_to_be (bytes_words bs)) = Some (bd\<lparr> tx_bd_sign := 0xbdbdbdbd \<rparr>) \<and>
           vifs w1 = vifs w \<and> vif_priv w1 = vif_priv w \<and> sta_priv w1 = sta_priv w \<and>
           hw_conf w1 = hw_conf w \<and>
           tx_descriptor P (initial_bd (skbs w s)) sp (skbs w s)
             (is_broadcast_ether_addr (hdr_addr1 (skb_bytes (skbs w s))) \<or>
              is_multicast_ether_addr (hdr_addr1 (skb_bytes (skbs w s)))) is_low w1 = Some (bd, v, w2)"
proof -
  let ?c = "tx_chan is_low"
  obtain bd v w1 w2 mem where
    r: "wcn36xx_start_tx P sp s w = wcn36xx_dxe_tx_frame P (Some v) s is_low w2"
    "dxe_ch w2 = dxe_ch w" "skbs w2 = skbs w" "dma_mem w2 a = Some mem"
    "tx_ack_skb w2 = (if IEEE80211_TX_CTL_REQ_TX_STATUS \<in> skb_cb_flags (skbs w s)
                      then Some s else tx_ack_skb w)"
    "buf_read mem off 40 = Some (words_bytes (bd_in_memory bd))"
    "tx_descriptor P (initial_bd (skbs w s)) sp (skbs w s)
       (is_broadcast_ether_addr (hdr_addr1 (skb_bytes (skbs w s))) \<or>
        is_multicast_ether_addr (hdr_addr1 (skb_bytes (skbs w s)))) is_low w1 =
       Some (bd, v, w2\<lparr> dma_mem := dma_mem w1 \<rparr>)"
    "vifs w1 = vifs w" "vif_priv w1 = vif_priv w" "sta_priv w1 = sta_priv w" "hw_conf w1 = hw_conf w"
    using ok unfolding is_low_def by (rule start_tx_reaches_ring)
  from ring obtain b t k d where inv: "tx_inv b t k d (dxe_ch w2 ?c)"
    by (auto simp: tx_ok_def r(2))
  have room: "length (tx_pending ch) < ch_desc_num ch div 2 \<longleftrightarrow> k + 2 \<le> ch_desc_num ch"
    using tx_room_iff [OF inv] by (simp add: r(2) ch_def)
  have "\<exists>w'. wcn36xx_dxe_tx_frame P (Some v) s is_low w2 =
               Some (if k + 2 \<le> ch_desc_num ch then 0 else - EBUSY, w') \<and>
             tx_pending (dxe_ch w' ?c) = tx_pending ch @ (if k + 2 \<le> ch_desc_num ch then [s] else []) \<and>
             tx_ack_skb w' = tx_ack_skb w2 \<and> dma_mem w' = dma_mem w2"
  proof (cases "k + 2 \<le> ch_desc_num ch")
    case True
    then have "k + 2 \<le> ch_desc_num (dxe_ch w2 ?c)" by (simp add: r(2) ch_def)
    from tx_frame_accept [OF inv _ this, of "Some v" P s] True show ?thesis
      by (auto simp: r(2) ch_def)
  next
    case False
    then have "ch_desc_num (dxe_ch w2 ?c) < k + 2" by (simp add: r(2) ch_def)
    from tx_frame_full [OF inv this, of P "Some v" s] False show ?thesis
      by (simp add: r(2) ch_def)
  qed
  then show ?thesis
    unfolding r(1) room using r(4-) firmware_reads_bd [of bd] by force
qed

text \<open>A data frame for the witnesses, from the station 0 to its access point.\<close>

definition sample_data_skb :: sk_buff where
  "sample_data_skb = sample_skb\<lparr> skb_mem := 8 # replicate 63 0 \<rparr>"

definition sample_tx_wcn :: wcn36xx where
  "sample_tx_wcn = sample_wcn\<lparr> skbs := (\<lambda>_. sample_data_skb) \<rparr>"

lemma sample_tx_low: "skb_is_low sample_platform sample_tx_wcn 7 = True"
proof -
  have "frame_control (skb_bytes (skbs sample_tx_wcn 7)) = 8"
    by (simp add: sample_tx_wcn_def sample_data_skb_def sample_skb_def skb_bytes_def
        frame_control_def take_Cons')
  then show ?thesis by (simp add: sample_platform_def)
qed

lemma sample_tx_ring: "tx_ok (Some 0) is_low sample_tx_wcn"
  using sample_tx_ok [of is_low] by (simp add: tx_ok_def sample_tx_wcn_def)

lemma sample_tx_room:
  "tx_pending (dxe_ch sample_tx_wcn c) = []" "ch_desc_num (dxe_ch sample_tx_wcn c) = 4"
  using tx_pending_positions [OF ring4_inv, of c]
  by (simp_all add: sample_tx_wcn_def sample_wcn_def List.map_filter_simps ring4_def)

lemma sample_start_tx_ok: "start_tx_ok (Some 0) 7 sample_tx_wcn True 0 0"
  by (simp add: start_tx_ok_def tx_vif_known_def sample_tx_wcn_def sample_wcn_def sample_sta_priv_def
      sample_data_skb_def sample_skb_def wcn36xx_dxe_get_next_bd_def tx_chan_def ring4_def ctl_at_def
      ring4_ctl_def Let_def)

theorem start_tx_spec_witness:
  "\<exists>w'. wcn36xx_start_tx sample_platform (Some 0) 7 sample_tx_wcn = Some (0, w') \<and>
        tx_pending (dxe_ch w' WCN36XX_DXE_CH_TX_L) = [7]"
  using start_tx_spec [where P = sample_platform and w = sample_tx_wcn and s = 7 and sp = "Some 0"
      and a = 0 and off = 0, unfolded sample_tx_low, OF sample_start_tx_ok sample_tx_ring]
  by (auto simp: sample_tx_room tx_chan_def)


definition full4 :: "wcn36xx_dxe_ch_type \<Rightarrow> wcn36xx_dxe_ch" where
  "full4 c = (ring4 c)\<lparr>
     ch_cpu_addr := Some (replicate 4 \<lparr> desc_ctrl = 0x328a45, desc_fr_len = 0,
        desc_src_addr_l = 0, desc_dst_addr_l = 0, desc_phy_next_l = 0, desc_src_addr_h = 0,
        desc_dst_addr_h = 0, desc_phy_next_h = 0 \<rparr>),
     ch_mem := (\<lambda>a. if a < 4 then Some ((ring4_ctl a)\<lparr> ctl_skb := if even a then None else Some a \<rparr>)
                    else None) \<rparr>"

lemma full4_inv: "tx_inv 0 0 4 0 (full4 c)"
proof -
  have "i < 4 \<Longrightarrow> i = 0 \<or> i = 1 \<or> i = 2 \<or> i = (3::nat)" for i by linarith
  then show ?thesis
    by (auto simp: tx_inv_def tx_core_def tx_shape_def Let_def full4_def ring4_def zero_ch_def
        ring_ctl_def ring_desc_def ring4_ctl_def ctrl_valid_def dxe_ctrl_valid
        dxe_ctrl_valid(1) [simplified])
qed


text \<open>Aggregation is requested once, for the twenty-first frame of a QoS data stream: after \<open>n\<close>
  such frames of one traffic identifier that is in no session, with the counter at zero, the driver
  has asked mac80211 to start a session exactly if \<open>n > 20\<close>, and only once.\<close>

theorem ampdu_starts_at_21st_frame:
  fixes P skb w sp
  defines "tid \<equiv> unat (p_qos_ctl P (skb_bytes skb) AND 0x0f)"
  assumes ht: "conf_ht (hw_conf w) \<noteq> CONF_NO_HT" and qos: "p_is_data_qos P (frame_control (skb_bytes skb))"
    and be: "\<not> skb_is_vo skb" and idle: "ampdu_state (sta_priv w sp) tid = WCN36XX_AMPDU_NONE"
    and zero: "non_agg_frame_ct (sta_priv w sp) = 0"
  shows "klog ((wcn36xx_tx_start_ampdu P sp skb ^^ n) w) =
           (if n \<le> 20 then klog w else StartTxBa sp tid # klog w)"
proof -
  let ?f = "wcn36xx_tx_start_ampdu P sp skb"
  have "(if n \<le> 20 then klog ((?f ^^ n) w) = klog w \<and> non_agg_frame_ct (sta_priv ((?f ^^ n) w) sp) = int n \<and>
           ampdu_state (sta_priv ((?f ^^ n) w) sp) tid = WCN36XX_AMPDU_NONE
         else klog ((?f ^^ n) w) = StartTxBa sp tid # klog w \<and>
           ampdu_state (sta_priv ((?f ^^ n) w) sp) tid = WCN36XX_AMPDU_START) \<and>
        hw_conf ((?f ^^ n) w) = hw_conf w"
  proof (induction n)
    case 0
    then show ?case using idle zero by simp
  next
    case (Suc n)
    have conf: "hw_conf (?f v) = hw_conf v" for v
      by (simp add: wcn36xx_tx_start_ampdu_def Let_def set_sta_priv_def)
    consider "n < 20" | "n = 20" | "n > 20" by linarith
    then show ?case
    proof cases
      case 1
      then have "\<not> 20 \<le> int n" by simp
      with 1 Suc conf ht qos be show ?thesis
        by (simp add: wcn36xx_tx_start_ampdu_def [of P sp skb "(?f ^^ n) w"] Let_def tid_def)
    next
      case 2
      have "non_agg_frame_ct (sta_priv ((?f ^^ n) w) sp) = 20" "n \<le> 20" "\<not> Suc n \<le> 20"
        "klog ((?f ^^ n) w) = klog w" "hw_conf ((?f ^^ n) w) = hw_conf w"
        "ampdu_state (sta_priv ((?f ^^ n) w) sp) tid = WCN36XX_AMPDU_NONE"
        using Suc 2 by simp_all
      with conf ht qos be show ?thesis
        by (simp add: wcn36xx_tx_start_ampdu_def [of P sp skb "(?f ^^ n) w"] Let_def tid_def)
    next
      case 3
      with Suc conf ht qos be show ?thesis
        by (simp add: wcn36xx_tx_start_ampdu_def [of P sp skb "(?f ^^ n) w"] Let_def tid_def)
    qed
  qed
  then show ?thesis by (simp split: if_splits)
qed

text \<open>A QoS data frame of the traffic identifier 0.\<close>

definition sample_qos_skb :: sk_buff where
  "sample_qos_skb = sample_skb\<lparr> skb_mem := 0x88 # replicate 63 0 \<rparr>"

theorem ampdu_starts_at_21st_frame_witness:
  "klog ((wcn36xx_tx_start_ampdu sample_platform 0 sample_qos_skb ^^ 21) sample_wcn) = [StartTxBa 0 0] \<and>
   klog ((wcn36xx_tx_start_ampdu sample_platform 0 sample_qos_skb ^^ 20) sample_wcn) = []"
proof -
  have fc: "frame_control (skb_bytes sample_qos_skb) = 0x88"
    by (simp add: sample_qos_skb_def sample_skb_def skb_bytes_def frame_control_def take_Cons')
  have qos: "p_is_data_qos sample_platform (frame_control (skb_bytes sample_qos_skb))"
    unfolding fc by (simp add: sample_platform_def)
  have st: "conf_ht (hw_conf sample_wcn) \<noteq> CONF_NO_HT" "\<not> skb_is_vo sample_qos_skb"
    "ampdu_state (sta_priv sample_wcn 0) t = WCN36XX_AMPDU_NONE"
    "non_agg_frame_ct (sta_priv sample_wcn 0) = 0" "klog sample_wcn = []" for t
    by (simp_all add: sample_wcn_def sample_conf_def sample_sta_priv_def sample_qos_skb_def sample_skb_def)
  show ?thesis
    using ampdu_starts_at_21st_frame [OF st(1) qos st(2-4), of 21]
      ampdu_starts_at_21st_frame [OF st(1) qos st(2-4), of 20] st(5)
    by (simp add: sample_platform_def)
qed

end
