(* ===== verification/Mac_Start.thy ===== *)
theory Mac_Start
  imports Mac_Safe Dxe_Start Txrx_Tx
begin

text \<open>
  Starting and stopping the device, and the transmit operation of mac80211 (\<^verbatim>\<open>main.c\<close>). The labels
  of \<open>wcn36xx_start\<close> are definitions, each continuing with the one after it. The files of debugfs
  are left out, as are the spin lock of the DMA engine and the kernel's log.
\<close>

section \<open>Start\<close>

text \<open>\<^verbatim>\<open>kfree\<close> of a buffer that is no longer there is a second release.\<close>

definition kfree_hal_buf :: "wcn36xx \<Rightarrow> wcn36xx option" where
  "kfree_hal_buf w = (case hal_buf w of None \<Rightarrow> None | Some _ \<Rightarrow> Some (emit FreeHalBuf (w\<lparr> hal_buf := None \<rparr>)))"

definition alloc_hal_buf :: "platform \<Rightarrow> wcn36xx \<Rightarrow> bool \<times> wcn36xx" where
  "alloc_hal_buf P w =
     (let ok = p_alloc P (klog w) WCN36XX_HAL_BUF_SIZE; mem = fixed WCN36XX_HAL_BUF_SIZE (p_fresh P (klog w))
      in (ok, (emit (Kmalloc WCN36XX_HAL_BUF_SIZE) w)\<lparr> hal_buf := (if ok then Some mem else None) \<rparr>))"

definition out_smd_close :: "platform \<Rightarrow> int \<Rightarrow> wcn36xx \<Rightarrow> (int \<times> wcn36xx) option" where
  "out_smd_close P ret w = do { w \<leftarrow> wcn36xx_smd_close P w; Some (ret, w) }"

definition out_free_dxe_ctl :: "platform \<Rightarrow> int \<Rightarrow> wcn36xx \<Rightarrow> (int \<times> wcn36xx) option" where
  "out_free_dxe_ctl P ret w = do { w \<leftarrow> wcn36xx_dxe_free_ctl_blks w; out_smd_close P ret w }"

definition out_free_dxe_pool :: "platform \<Rightarrow> int \<Rightarrow> wcn36xx \<Rightarrow> (int \<times> wcn36xx) option" where
  "out_free_dxe_pool P ret w = do { w \<leftarrow> wcn36xx_dxe_free_mem_pools w; out_free_dxe_ctl P ret w }"

definition out_free_smd_buf :: "platform \<Rightarrow> int \<Rightarrow> wcn36xx \<Rightarrow> (int \<times> wcn36xx) option" where
  "out_free_smd_buf P ret w = do { w \<leftarrow> kfree_hal_buf w; out_free_dxe_pool P ret w }"

definition out_smd_stop :: "platform \<Rightarrow> int \<Rightarrow> wcn36xx \<Rightarrow> (int \<times> wcn36xx) option" where
  "out_smd_stop P ret w = do { w \<leftarrow> ignore (wcn36xx_smd_stop P w); out_free_smd_buf P ret w }"

abbreviation (input) WCN36XX_HAL_CFG_ENABLE_MC_ADDR_LIST :: u32 where
  "WCN36XX_HAL_CFG_ENABLE_MC_ADDR_LIST \<equiv> 83"

text \<open>From the capabilities on: the firmware runs.\<close>

definition start_running :: "platform \<Rightarrow> wcn36xx \<Rightarrow> (int \<times> wcn36xx) option" where
  "start_running P w = do {
     w \<leftarrow> (if \<not> wcn36xx_is_fw_version w 1 2 2 24 then ignore (wcn36xx_smd_feature_caps_exchange P w) else Some w);
     let w = wcn36xx_detect_chip_version w;
     w \<leftarrow> ignore (wcn36xx_smd_update_cfg P WCN36XX_HAL_CFG_ENABLE_MC_ADDR_LIST 1 w);
     (ret, w) \<leftarrow> wcn36xx_dxe_init P w;
     if ret \<noteq> 0 then out_smd_stop P ret w
     else Some (0, w\<lparr> vif_list := [] \<rparr>) }"

definition wcn36xx_start :: "platform \<Rightarrow> wcn36xx \<Rightarrow> (int \<times> wcn36xx) option" where
  "wcn36xx_start P w =
     (let (ret, w) = wcn36xx_smd_open P w in
      if ret \<noteq> 0 then Some (ret, w)
      else do {
        (ret, w) \<leftarrow> wcn36xx_dxe_allocate_mem_pools P w;
        if ret \<noteq> 0 then out_smd_close P ret w
        else do {
          (ret, w) \<leftarrow> wcn36xx_dxe_alloc_ctl_blks P w;
          if ret \<noteq> 0 then out_free_dxe_pool P ret w
          else (let (ok, w) = alloc_hal_buf P w in
            if \<not> ok then out_free_dxe_ctl P (- ENOMEM) w
            else do {
              (ret, w) \<leftarrow> wcn36xx_smd_load_nv P w;
              if ret \<noteq> 0 then out_free_smd_buf P ret w
              else do {
                (ret, w) \<leftarrow> wcn36xx_smd_start P w;
                if ret \<noteq> 0 then out_free_smd_buf P ret w
                else start_running P w } }) } })"

definition wcn36xx_stop :: "platform \<Rightarrow> wcn36xx \<Rightarrow> wcn36xx option" where
  "wcn36xx_stop P w = do {
     w \<leftarrow> ignore (wcn36xx_smd_stop P w);
     w \<leftarrow> wcn36xx_dxe_deinit w;
     w \<leftarrow> wcn36xx_smd_close P w;
     w \<leftarrow> wcn36xx_dxe_free_mem_pools w;
     w \<leftarrow> wcn36xx_dxe_free_ctl_blks w;
     kfree_hal_buf w }"

section \<open>Transmission\<close>

definition wcn36xx_tx :: "platform \<Rightarrow> nat option \<Rightarrow> nat \<Rightarrow> wcn36xx \<Rightarrow> wcn36xx option" where
  "wcn36xx_tx P sta skb w = do {
     (ret, w) \<leftarrow> wcn36xx_start_tx P sta skb w;
     Some (if ret \<noteq> 0 then emit (FreeTxSkb skb) w else w) }"

section \<open>The pools, the blocks and the channel of the commands\<close>

definition pools_live :: "nat \<Rightarrow> nat \<Rightarrow> wcn36xx \<Rightarrow> bool" where
  "pools_live m d w \<longleftrightarrow>
     pool_virt_addr (mgmt_mem_pool w) = Some m \<and> pool_virt_addr (data_mem_pool w) = Some d \<and> m \<noteq> d \<and>
     pool_chunk_size (mgmt_mem_pool w) = pool_chunk \<and> pool_chunk_size (data_mem_pool w) = pool_chunk \<and>
     map_option length (dma_mem w m) = Some (pool_chunk * DXE_CH_DESC_NUMB WCN36XX_DXE_CH_TX_H) \<and>
     map_option length (dma_mem w d) = Some (pool_chunk * DXE_CH_DESC_NUMB WCN36XX_DXE_CH_TX_L)"

lemma free_mem_pools_ok:
  assumes "pools_live m d w"
  shows "wcn36xx_dxe_free_mem_pools w =
     Some (emit (DmaFree d) (emit (DmaFree m) (w\<lparr> dma_mem := (dma_mem w)(m := None, d := None) \<rparr>)))"
  using assms
  by (auto simp: pools_live_def wcn36xx_dxe_free_mem_pools_def free_pool_def dma_free_coherent_def emit_def)

lemma allocate_mem_pools_ok:
  assumes "\<forall>l n. p_dma_alloc P l n \<noteq> None"
  obtains w' m1 m2 where "wcn36xx_dxe_allocate_mem_pools P w = Some (0, w')"
    "pools_live (dma_brk w) (Suc (dma_brk w)) w'" "dxe_ch w' = dxe_ch w"
    "dma_mem w' = (dma_mem w)(dma_brk w := Some m1, Suc (dma_brk w) := Some m2)"
    "hal_mutex w' = hal_mutex w" "ind_inv w' = ind_inv w" "ssids_ok w' = ssids_ok w"
    "hal_ind_wq w' = hal_ind_wq w" "nv w' = nv w" "dma_brk w' = Suc (Suc (dma_brk w))"
proof -
  let ?n1 = "pool_chunk * DXE_CH_DESC_NUMB WCN36XX_DXE_CH_TX_H" and ?n2 = "pool_chunk * DXE_CH_DESC_NUMB WCN36XX_DXE_CH_TX_L"
  from assms obtain a b where "p_dma_alloc P (klog w) ?n1 = Some a"
    "p_dma_alloc P (DmaAlloc ?n1 # klog w) ?n2 = Some b" by blast
  then show ?thesis
    using that [of "snd (the (wcn36xx_dxe_allocate_mem_pools P w))" "replicate ?n1 0" "replicate ?n2 0"]
    by (simp add: wcn36xx_dxe_allocate_mem_pools_def dma_alloc_coherent_def Let_def pools_live_def emit_def
        ind_inv_def ssids_ok_def)
qed

text \<open>The parts of the state the commands rely on, without the buffer.\<close>

definition closing :: "wcn36xx \<Rightarrow> bool" where
  "closing w \<longleftrightarrow> \<not> hal_mutex w \<and> ind_inv w \<and> ssids_ok w"

lemma hal_ready_closing: "hal_ready w \<Longrightarrow> closing w"
  by (simp add: closing_def hal_ready_def)

lemma ind_work_ok:
  assumes "ind_inv w" "hal_ind_work_pending w"
  obtains w' where "wcn36xx_ind_smd_work P (w\<lparr> hal_ind_work_pending := False \<rparr>) = Some w'"
    "ind_frame (w\<lparr> hal_ind_work_pending := False, hal_ind_queue := tl (hal_ind_queue w) \<rparr>) w'"
proof -
  from assms obtain m q where q: "hal_ind_queue w = m # q" "2 \<le> length m"
    by (cases "hal_ind_queue w") (auto simp: ind_inv_def)
  with that handle_ind_frame [of "w\<lparr> hal_ind_work_pending := False \<rparr>" P m] show ?thesis
    by (simp add: wcn36xx_ind_smd_work_def Let_def ind_frame_def)
qed

lemma smd_close_ok:
  assumes "closing w"
  obtains w' where "wcn36xx_smd_close P w = Some w'" "\<not> hal_ind_wq w'" "\<not> hal_mutex w'" "ssids_ok w'"
    "dxe_ch w' = dxe_ch w" "dma_mem w' = dma_mem w" "hal_buf w' = hal_buf w"
    "mgmt_mem_pool w' = mgmt_mem_pool w" "data_mem_pool w' = data_mem_pool w" "dma_brk w' = dma_brk w" "nv w' = nv w"
proof (cases "hal_ind_work_pending w")
  case True
  have "ind_inv (emit SmdClose w)" "hal_ind_work_pending (emit SmdClose w)"
    using True assms by (simp_all add: closing_def ind_inv_def)
  then obtain w' where "wcn36xx_ind_smd_work P ((emit SmdClose w)\<lparr> hal_ind_work_pending := False \<rparr>) = Some w'"
    "ind_frame ((emit SmdClose w)\<lparr> hal_ind_work_pending := False, hal_ind_queue := tl (hal_ind_queue (emit SmdClose w)) \<rparr>) w'"
    by (rule ind_work_ok)
  with that [of "(emit DestroyWq w')\<lparr> hal_ind_wq := False \<rparr>"] True assms show ?thesis
    by (simp add: wcn36xx_smd_close_def Let_def ind_frame_def closing_def ssids_ok_def)
next
  case False
  with that [of "(emit DestroyWq (emit SmdClose w))\<lparr> hal_ind_wq := False \<rparr>"] assms show ?thesis
    by (simp add: wcn36xx_smd_close_def Let_def closing_def ssids_ok_def)
qed

lemma closing_frame: "dxe_frame w w' \<Longrightarrow> closing w' = closing w"
  by (simp add: closing_def ind_inv_def ssids_ok_def dxe_frame_fields)

text \<open>The channel of the commands closed, with nothing left of what the blocks \<open>B\<close> occupied.\<close>

definition down :: "(wcn36xx_dxe_ch_type \<Rightarrow> nat) \<Rightarrow> wcn36xx \<Rightarrow> bool" where
  "down B w \<longleftrightarrow> \<not> hal_mutex w \<and> \<not> hal_ind_wq w \<and> ssids_ok w \<and>
     (\<forall>c x. B c \<le> x \<longrightarrow> x < B c + DXE_CH_DESC_NUMB c \<longrightarrow> ch_mem (dxe_ch w c) x = None)"

definition rings_at :: "(wcn36xx_dxe_ch_type \<Rightarrow> nat) \<Rightarrow> wcn36xx \<Rightarrow> bool" where
  "rings_at B w \<longleftrightarrow> (\<forall>c. ring_on (B c) (dxe_ch w c) \<and> ch_desc_num (dxe_ch w c) = DXE_CH_DESC_NUMB c)"

lemma free_blks_at:
  assumes "rings_at B w"
  obtains w' where "wcn36xx_dxe_free_ctl_blks w = Some w'" "dxe_frame w w'"
    "\<forall>c x. B c \<le> x \<longrightarrow> x < B c + DXE_CH_DESC_NUMB c \<longrightarrow> ch_mem (dxe_ch w' c) x = None"
proof -
  have "\<forall>c. ring_on (B c) (dxe_ch w c)" using assms unfolding rings_at_def by blast
  then obtain w1 where 1: "wcn36xx_dxe_free_ctl_blks w = Some w1" "dxe_frame w w1"
    "\<forall>c. dxe_ch w1 c = free_range (B c) (ch_desc_num (dxe_ch w c)) (dxe_ch w c)"
    by (rule free_ctl_blks_ok)
  have "dxe_ch w1 c = free_range (B c) (DXE_CH_DESC_NUMB c) (dxe_ch w c)" for c
    using 1(3) assms by (simp add: rings_at_def)
  then have "\<forall>c x. B c \<le> x \<longrightarrow> x < B c + DXE_CH_DESC_NUMB c \<longrightarrow> ch_mem (dxe_ch w1 c) x = None"
    by (simp add: free_range_def)
  with that 1(1,2) show ?thesis by blast
qed

lemma out_free_dxe_ctl_ok:
  assumes "rings_at B w" "closing w"
  obtains w' where "out_free_dxe_ctl P ret w = Some (ret, w')" "down B w'" "dma_mem w' = dma_mem w"
    "hal_buf w' = hal_buf w" "mgmt_mem_pool w' = mgmt_mem_pool w" "data_mem_pool w' = data_mem_pool w"
    "dma_brk w' = dma_brk w" "nv w' = nv w"
proof -
  obtain w1 where 1: "wcn36xx_dxe_free_ctl_blks w = Some w1" "dxe_frame w w1"
    "\<forall>c x. B c \<le> x \<longrightarrow> x < B c + DXE_CH_DESC_NUMB c \<longrightarrow> ch_mem (dxe_ch w1 c) x = None"
    by (rule free_blks_at [OF assms(1)])
  have cl: "closing w1" using assms(2) closing_frame [OF 1(2)] by simp
  obtain w2 where 2: "wcn36xx_smd_close P w1 = Some w2" "\<not> hal_ind_wq w2" "\<not> hal_mutex w2" "ssids_ok w2"
    "dxe_ch w2 = dxe_ch w1" "dma_mem w2 = dma_mem w1" "hal_buf w2 = hal_buf w1"
    "mgmt_mem_pool w2 = mgmt_mem_pool w1" "data_mem_pool w2 = data_mem_pool w1" "dma_brk w2 = dma_brk w1" "nv w2 = nv w1"
    by (rule smd_close_ok [OF cl])
  with 1(1,3) that [of w2] show ?thesis
    by (simp add: dxe_frame_fields [OF 1(2)] out_free_dxe_ctl_def out_smd_close_def down_def)
qed

lemma out_free_dxe_pool_ok:
  assumes "rings_at B w" "closing w" "pools_live m d w"
  obtains w' where "out_free_dxe_pool P ret w = Some (ret, w')" "down B w'"
    "dma_mem w' = (dma_mem w)(m := None, d := None)" "hal_buf w' = hal_buf w"
    "mgmt_mem_pool w' = mgmt_mem_pool w" "data_mem_pool w' = data_mem_pool w" "dma_brk w' = dma_brk w" "nv w' = nv w"
proof -
  let ?w = "emit (DmaFree d) (emit (DmaFree m) (w\<lparr> dma_mem := (dma_mem w)(m := None, d := None) \<rparr>))"
  have w: "rings_at B ?w" "closing ?w"
    using assms by (simp_all add: rings_at_def closing_def ind_inv_def ssids_ok_def)
  obtain w' where "out_free_dxe_ctl P ret ?w = Some (ret, w')" "down B w'" "dma_mem w' = dma_mem ?w"
    "hal_buf w' = hal_buf ?w" "mgmt_mem_pool w' = mgmt_mem_pool ?w" "data_mem_pool w' = data_mem_pool ?w"
    "dma_brk w' = dma_brk ?w" "nv w' = nv ?w"
    by (rule out_free_dxe_ctl_ok [OF w])
  with that [of w'] show ?thesis by (simp add: out_free_dxe_pool_def free_mem_pools_ok [OF assms(3)])
qed

lemma out_free_smd_buf_ok:
  assumes "rings_at B w" "hal_ready w" "pools_live m d w"
  obtains w' where "out_free_smd_buf P ret w = Some (ret, w')" "down B w'"
    "dma_mem w' = (dma_mem w)(m := None, d := None)" "hal_buf w' = None" "dma_brk w' = dma_brk w" "nv w' = nv w"
proof -
  let ?w = "emit FreeHalBuf (w\<lparr> hal_buf := None \<rparr>)"
  have k: "kfree_hal_buf w = Some ?w"
    using assms(2) by (auto simp: kfree_hal_buf_def hal_ready_def split: option.splits)
  have w: "rings_at B ?w" "closing ?w" "pools_live m d ?w"
    using assms by (simp_all add: rings_at_def closing_def hal_ready_def ind_inv_def ssids_ok_def pools_live_def)
  obtain w' where "out_free_dxe_pool P ret ?w = Some (ret, w')" "down B w'"
    "dma_mem w' = (dma_mem ?w)(m := None, d := None)" "hal_buf w' = hal_buf ?w" "dma_brk w' = dma_brk ?w" "nv w' = nv ?w"
    by (rule out_free_dxe_pool_ok [OF w])
  with that [of w'] show ?thesis by (simp add: out_free_smd_buf_def k)
qed

section \<open>Starting\<close>

text \<open>No allocation fails; the NV image has a size the download can end on (see \<open>load_nv_loop_runs\<close>).\<close>

definition memory_ok :: "platform \<Rightarrow> bool" where
  "memory_ok P \<longleftrightarrow> (\<forall>l n. p_alloc P l n) \<and> (\<forall>l n. p_dma_alloc P l n \<noteq> None) \<and> (\<forall>l. p_alloc_skb P l \<noteq> None)"

definition nv_size_ok :: "u8 list \<Rightarrow> bool" where
  "nv_size_ok img \<longleftrightarrow> 4 \<le> length img \<and> length img \<le> 67588"

definition nv_ok :: "platform \<Rightarrow> wcn36xx \<Rightarrow> bool" where
  "nv_ok P w \<longleftrightarrow> (\<forall>img. nv w = Some img \<longrightarrow> nv_size_ok img) \<and>
     (\<forall>l img. p_request_firmware P l = Inr img \<longrightarrow> nv_size_ok img) \<and>
     (\<forall>l e. p_request_firmware P l = Inl e \<longrightarrow> e \<noteq> 0)"

text \<open>Everything the device asks for is granted: the channel opens, the image is there, every request is
  answered with status 0, also in the format of the answer to START, and the interrupt lines are free.\<close>

definition boots :: "platform \<Rightarrow> bool" where
  "boots P \<longleftrightarrow> (\<forall>l. p_create_wq P l) \<and> (\<forall>l. p_smd_open P l = 0) \<and> (\<forall>l i. p_request_irq P l i = 0) \<and>
     (\<forall>l e. p_request_firmware P l \<noteq> Inl e) \<and> fw_accepts P \<and>
     (\<forall>log m pkt. firmware_answer P log m = Inr pkt \<longrightarrow> start_rsp_ok pkt)"

definition powered :: "(wcn36xx_dxe_ch_type \<Rightarrow> nat) \<Rightarrow> nat \<Rightarrow> nat \<Rightarrow> wcn36xx \<Rightarrow> bool" where
  "powered B m d w \<longleftrightarrow> hal_ready w \<and> (\<forall>c. allocated (B c) c (dxe_ch w c)) \<and> pools_live m d w"

lemma powered_same_mac:
  "powered B m d w \<Longrightarrow> hal_ready w' \<Longrightarrow> same_mac (w\<lparr> nv := x \<rparr>) w' \<Longrightarrow>
     powered B m d w' \<and> dma_mem w' = dma_mem w \<and> dma_brk w' = dma_brk w \<and> nv w' = x"
  by (simp add: powered_def same_mac_def pools_live_def)

lemma powered_rings: "powered B m d w \<Longrightarrow> rings_at B w"
  by (auto simp: powered_def rings_at_def allocated_def ring_on_start)

lemma running_rings: "dxe_running B w \<Longrightarrow> rings_at B w"
  by (simp add: dxe_running_def rings_at_def ring_on_start)

lemma powered_command:
  assumes "op_posts c f" "powered B m d w"
  obtains r w' where "f w = Some (r, w')" "powered B m d w'" "dma_mem w' = dma_mem w"
    "dma_brk w' = dma_brk w" "nv w' = nv w"
proof -
  from assms(2) have "hal_ready w" by (simp add: powered_def)
  with assms(1) obtain r w' m' where "f w = Some (r, w')" "hal_ready w'" "same_mac w w'"
    by (rule op_postsD)
  with powered_same_mac [OF assms(2), of w' "nv w"] that show ?thesis by simp
qed

lemma load_nv_returns:
  assumes wf: "smd_wf P" and ready: "hal_ready w" and nv: "nv_ok P w"
  shows "\<exists>r w'. wcn36xx_smd_load_nv P w = Some (r, w') \<and> hal_ready w' \<and> same_mac (w\<lparr> nv := nv w' \<rparr>) w' \<and>
    nv_ok P w' \<and> (boots P \<longrightarrow> r = 0)"
proof -
  obtain r w1 where q: "nv_request_firmware P w = (r, w1)" by (cases "nv_request_firmware P w")
  then have w1: "hal_ready w1" "same_mac (w\<lparr> nv := nv w1 \<rparr>) w1" "boots P \<longrightarrow> r = 0"
    using ready by (auto simp: nv_request_firmware_def boots_def Let_def same_mac_def hal_ready_def ssids_ok_def ind_inv_def
        split: option.splits sum.splits)
  have ok: "nv_ok P w1"
    using q nv by (auto simp: nv_request_firmware_def nv_ok_def Let_def split: option.splits sum.splits)
  show ?thesis
  proof (cases "r = 0")
    case False
    with q w1 ok show ?thesis by (simp add: wcn36xx_smd_load_nv_def)
  next
    case True
    with q nv obtain img where img: "nv w1 = Some img" "nv_size_ok img"
      by (auto simp: nv_request_firmware_def nv_ok_def Let_def split: option.splits sum.splits)
    let ?w1 = "w1\<lparr> hal_mutex := True \<rparr>"
    have lock: "hal_lock w1 = Some ?w1" "hal_busy ?w1"
      using w1(1) by (simp_all add: hal_lock_def hal_ready_def hal_busy_def)
    from load_nv_loop_runs [OF wf _ _ lock(2), of img 0] img(2) obtain r2 w2 where
      2: "load_nv_loop P img 0 0 ?w1 = Some (r2, w2)" "hal_busy w2" "same_but_hal ?w1 w2"
      "fw_accepts P \<longrightarrow> r2 = 0" by (auto simp: nv_size_ok_def)
    have "same_mac (w\<lparr> nv := nv w1 \<rparr>) (hal_unlock w2)" "nv (hal_unlock w2) = nv w1"
      using same_mac_trans [OF w1(2), of "hal_unlock w2"] same_mac_hal [OF 2(3)]
      by (simp_all add: same_mac_def hal_unlock_def)
    with ok 2(1,4) hal_busy_unlock [OF 2(2)] q True img(1) lock(1) show ?thesis
      by (simp add: wcn36xx_smd_load_nv_def then_unlock_def boots_def nv_ok_def)
  qed
qed

lemma powered_chip: "powered B m d (wcn36xx_detect_chip_version w) = powered B m d w"
  "dma_mem (wcn36xx_detect_chip_version w) = dma_mem w" "dma_brk (wcn36xx_detect_chip_version w) = dma_brk w"
  "nv (wcn36xx_detect_chip_version w) = nv w"
  by (simp_all add: powered_def wcn36xx_detect_chip_version_def hal_ready_def ssids_ok_def ind_inv_def pools_live_def)

lemma hal_ready_dxe: "dxe_frame w w' \<Longrightarrow> hal_ready w' = hal_ready w"
  by (simp add: hal_ready_def ind_inv_def ssids_ok_def dxe_frame_fields)

lemma dxe_running_cong:
  "dxe_ch w' = dxe_ch w \<Longrightarrow> skb_brk w' = skb_brk w \<Longrightarrow> skbs w' = skbs w \<Longrightarrow>
     mgmt_mem_pool w' = mgmt_mem_pool w \<Longrightarrow> data_mem_pool w' = data_mem_pool w \<Longrightarrow> dxe_running B w \<Longrightarrow> dxe_running B w'"
  using tx_pool_cong [of w' w] unfolding dxe_running_def rx_apart_def by (auto intro: rx_inv_brk)

text \<open>The two ends of a start.\<close>

definition up_or_down :: "(wcn36xx_dxe_ch_type \<Rightarrow> nat) \<Rightarrow> nat \<Rightarrow> nat \<Rightarrow> wcn36xx \<Rightarrow> int \<Rightarrow> wcn36xx \<Rightarrow> bool" where
  "up_or_down B m d w r w' \<longleftrightarrow> dma_brk w' = dma_brk w \<and>
     (if r = 0 then hal_ready w' \<and> dxe_running B w' \<and> pools_live m d w' \<and> vif_list w' = [] \<and>
        dma_mem w' = dma_mem w
      else down B w' \<and> dma_mem w' = (dma_mem w)(m := None, d := None))"

lemma out_free_smd_buf_down:
  assumes "ret \<noteq> 0" "rings_at B w" "hal_ready w" "pools_live m d w"
  shows "\<exists>w'. out_free_smd_buf P ret w = Some (ret, w') \<and> up_or_down B m d w ret w' \<and> nv w' = nv w"
  by (rule out_free_smd_buf_ok [OF assms(2-4)]) (use assms(1) in \<open>auto simp: up_or_down_def\<close>)

lemma up_or_down_mem:
  "dma_mem w1 = dma_mem w \<Longrightarrow> dma_brk w1 = dma_brk w \<Longrightarrow> up_or_down B m d w1 r w' = up_or_down B m d w r w'"
  by (simp add: up_or_down_def)

lemma start_running_ok:
  assumes wf: "smd_wf P" and mem: "memory_ok P" and w: "powered B m d w"
  shows "\<exists>r w'. start_running P w = Some (r, w') \<and> up_or_down B m d w r w' \<and> nv w' = nv w \<and> (boots P \<longrightarrow> r = 0)"
proof -
  note posts = plain_posts [OF wf]
  obtain w1 where 1: "(if \<not> wcn36xx_is_fw_version w 1 2 2 24
      then ignore (wcn36xx_smd_feature_caps_exchange P w) else Some w) = Some w1"
    "powered B m d w1" "dma_mem w1 = dma_mem w" "dma_brk w1 = dma_brk w" "nv w1 = nv w"
  proof (cases "wcn36xx_is_fw_version w 1 2 2 24")
    case True
    with w that show thesis by simp
  next
    case False
    obtain r w1 where "wcn36xx_smd_feature_caps_exchange P w = Some (r, w1)" "powered B m d w1"
      "dma_mem w1 = dma_mem w" "dma_brk w1 = dma_brk w" "nv w1 = nv w"
      by (rule powered_command [OF _ w]) (rule posts)
    with False that show thesis by (simp add: ignore_def)
  qed
  let ?w1 = "wcn36xx_detect_chip_version w1"
  have p1: "powered B m d ?w1" using 1(2) by (simp add: powered_chip)
  obtain r2 w2 where 2: "wcn36xx_smd_update_cfg P WCN36XX_HAL_CFG_ENABLE_MC_ADDR_LIST 1 ?w1 = Some (r2, w2)"
    "powered B m d w2" "dma_mem w2 = dma_mem ?w1" "dma_brk w2 = dma_brk ?w1" "nv w2 = nv ?w1"
    by (rule powered_command [OF update_cfg_posts [OF wf] p1])
  have al: "\<forall>c. allocated (B c) c (dxe_ch w2 c)" "pool_virt_addr (mgmt_mem_pool w2) \<noteq> None"
    "pool_virt_addr (data_mem_pool w2) \<noteq> None" "hal_ready w2" "pools_live m d w2"
    using 2(2) by (auto simp: powered_def pools_live_def)
  have dm: "\<forall>l n. p_dma_alloc P l n \<noteq> None" "\<forall>l. p_alloc_skb P l \<noteq> None"
    using mem by (simp_all add: memory_ok_def)
  obtain r3 w3 where 3: "wcn36xx_dxe_init P w2 = Some (r3, w3)" "dxe_running B w3" "dxe_frame w2 w3"
    "(\<forall>l i. p_request_irq P l i = 0) \<longrightarrow> r3 = 0" by (rule dxe_init_runs [OF al(1-3) dm])
  have s3: "hal_ready w3" "pools_live m d w3" "dma_mem w3 = dma_mem w" "dma_brk w3 = dma_brk w" "nv w3 = nv w"
    using al hal_ready_dxe [OF 3(3)] 1(3-5) 2(3-5)
    by (simp_all add: pools_live_def dxe_frame_fields [OF 3(3)] powered_chip)
  show ?thesis
  proof (cases "r3 = 0")
    case True
    let ?w = "w3\<lparr> vif_list := [] \<rparr>"
    have "hal_ready ?w" "pools_live m d ?w" "dxe_running B ?w"
      using s3 dxe_running_cong [OF _ _ _ _ _ 3(2), of ?w]
      by (simp_all add: hal_ready_def ssids_ok_def ind_inv_def pools_live_def)
    with 1(1) 2(1) 3(1) True s3(3-5) show ?thesis
      by (auto simp: start_running_def ignore_def up_or_down_def)
  next
    case False
    obtain r4 w4 m4 where 4: "wcn36xx_smd_stop P w3 = Some (r4, w4)" "hal_ready w4" "same_mac w3 w4"
      by (rule op_postsD [OF simple_calls_post(1) [OF wf] s3(1)])
    have "rings_at B w4" "pools_live m d w4" "dma_mem w4 = dma_mem w" "dma_brk w4 = dma_brk w" "nv w4 = nv w"
      using running_rings [OF 3(2)] s3 4(3) by (simp_all add: rings_at_def same_mac_def pools_live_def)
    with out_free_smd_buf_down [OF False _ 4(2), of B m d P] up_or_down_mem obtain w5 where
      "out_free_smd_buf P r3 w4 = Some (r3, w5)" "up_or_down B m d w r3 w5" "nv w5 = nv w" by metis
    with 1(1) 2(1) 3(1,4) 4(1) False show ?thesis
      by (auto simp: start_running_def ignore_def out_smd_stop_def boots_def)
  qed
qed

lemma smd_open_cases:
  obtains r w' where "wcn36xx_smd_open P w = (r, w')" "dma_mem w' = dma_mem w" "dxe_ch w' = dxe_ch w"
    "dma_brk w' = dma_brk w" "hal_mutex w' = hal_mutex w" "nv w' = nv w" "ssids_ok w' = ssids_ok w"
    "hal_ind_wq w' = (r = 0)" "r = 0 \<longrightarrow> ind_inv w'"
  by (cases "p_create_wq P (klog w)"; cases "p_smd_open P (CreateWq # klog w) = 0")
    (auto simp: wcn36xx_smd_open_def Let_def ssids_ok_def ind_inv_def)

lemma alloc_ctl_blks_runs:
  assumes "memory_ok P"
  obtains w' where "wcn36xx_dxe_alloc_ctl_blks P w = Some (0, w')" "dxe_frame w w'"
    "\<forall>c. allocated (ch_brk (dxe_ch w c)) c (dxe_ch w' c)"
  using alloc_ctl_blks_succeeds [of P w] alloc_ctl_blks_allocated [of P w] assms
  by (auto simp: memory_ok_def)

lemma start_up_ok:
  assumes wf: "smd_wf P" and mem: "memory_ok P" and nv: "nv_ok P w" and w: "powered B m d w"
  shows "\<exists>r w'. do {
       (ret, w) \<leftarrow> wcn36xx_smd_load_nv P w;
       if ret \<noteq> 0 then out_free_smd_buf P ret w
       else do {
         (ret, w) \<leftarrow> wcn36xx_smd_start P w;
         if ret \<noteq> 0 then out_free_smd_buf P ret w
         else start_running P w } } = Some (r, w') \<and> up_or_down B m d w r w' \<and> nv_ok P w' \<and> (boots P \<longrightarrow> r = 0)"
proof -
  have ready: "hal_ready w" using w by (simp add: powered_def)
  from load_nv_returns [OF wf ready nv] obtain r1 w1 where
    1: "wcn36xx_smd_load_nv P w = Some (r1, w1)" "hal_ready w1" "same_mac (w\<lparr> nv := nv w1 \<rparr>) w1" "nv_ok P w1"
      "boots P \<longrightarrow> r1 = 0" by blast
  note p1 = powered_same_mac [OF w 1(2,3)]
  show ?thesis
  proof (cases "r1 = 0")
    case False
    from out_free_smd_buf_down [OF False powered_rings [OF conjunct1 [OF p1]] 1(2), of m d P] p1 1(1,4,5) False
    show ?thesis by (auto simp: powered_def up_or_down_def nv_ok_def)
  next
    case True
    obtain r2 w2 where 2: "wcn36xx_smd_start P w1 = Some (r2, w2)" "powered B m d w2" "dma_mem w2 = dma_mem w1"
      "dma_brk w2 = dma_brk w1" "nv w2 = nv w1"
      by (rule powered_command [OF start_posts [OF wf] conjunct1 [OF p1]])
    have ok: "boots P \<longrightarrow> r2 = 0"
    proof
      assume b: "boots P"
      have ans: "\<exists>pkt. firmware_answer P (klog w1) m = Inr pkt \<and> start_rsp_ok pkt" for m
        using b unfolding boots_def fw_accepts_def by metis
      from smd_start_exchange [OF wf 1(2)] obtain r w' m where e: "wcn36xx_smd_start P w1 = Some (r, w')"
        "case firmware_answer P (klog w1) m of Inl e \<Rightarrow> r = e
         | Inr pkt \<Rightarrow> r = (if start_rsp_ok pkt then 0 else - EIO) \<and>
             (start_rsp_ok pkt \<longrightarrow> fw_revision w' = pkt ! 12 \<and> fw_version w' = pkt ! 13 \<and>
                fw_minor w' = pkt ! 14 \<and> fw_major w' = pkt ! 15)" by blast
      from ans [of m] e(2) have "r = 0" by auto
      with e(1) 2(1) show "r2 = 0" by simp
    qed
    show ?thesis
    proof (cases "r2 = 0")
      case False
      from 2(2) have "hal_ready w2" "pools_live m d w2" by (simp_all add: powered_def)
      with out_free_smd_buf_down [OF False powered_rings [OF 2(2)], of m d P] p1 1(1,4) True 2(1,3-5) False ok
      show ?thesis by (auto simp: up_or_down_def nv_ok_def)
    next
      case r2: True
      from start_running_ok [OF wf mem 2(2)] obtain r w' where
        "start_running P w2 = Some (r, w')" "up_or_down B m d w2 r w'" "nv w' = nv w2" "boots P \<longrightarrow> r = 0" by blast
      with 1(1,4) True 2(1,3-5) r2 p1 up_or_down_mem [of w2 w B m d r w'] show ?thesis by (simp add: nv_ok_def)
    qed
  qed
qed

lemma start_returns:
  assumes wf: "smd_wf P" and mem: "memory_ok P" and nv: "nv_ok P w" and off: "\<not> hal_mutex w" "ssids_ok w"
    and fresh: "\<forall>m \<ge> dma_brk w. dma_mem w m = None"
  defines "B \<equiv> \<lambda>c. ch_brk (dxe_ch w c)"
  shows "\<exists>r w'. wcn36xx_start P w = Some (r, w') \<and>
           (if r = 0 then hal_ready w' \<and> dxe_running B w' \<and> pools_live (dma_brk w) (Suc (dma_brk w)) w' \<and>
                 vif_list w' = [] \<and> (dma_mem w')(dma_brk w := None, Suc (dma_brk w) := None) = dma_mem w
            else \<not> hal_mutex w' \<and> \<not> hal_ind_wq w' \<and> ssids_ok w' \<and> dma_mem w' = dma_mem w \<and>
              ((\<forall>c. \<forall>x \<ge> ch_brk (dxe_ch w c). ch_mem (dxe_ch w c) x = None) \<longrightarrow> down B w')) \<and>
           (boots P \<longrightarrow> r = 0) \<and> dma_brk w \<le> dma_brk w' \<and> nv_ok P w'"
proof -
  let ?m = "dma_brk w" and ?d = "Suc (dma_brk w)"
  obtain r w1 where 1: "wcn36xx_smd_open P w = (r, w1)" "dma_mem w1 = dma_mem w" "dxe_ch w1 = dxe_ch w"
    "dma_brk w1 = dma_brk w" "hal_mutex w1 = hal_mutex w" "nv w1 = nv w" "ssids_ok w1 = ssids_ok w"
    "hal_ind_wq w1 = (r = 0)" "r = 0 \<longrightarrow> ind_inv w1" by (rule smd_open_cases)
  show ?thesis
  proof (cases "r = 0")
    case False
    with 1 off have "(\<forall>c. \<forall>x \<ge> ch_brk (dxe_ch w c). ch_mem (dxe_ch w c) x = None) \<longrightarrow> down B w1"
      by (simp add: down_def B_def)
    moreover have "\<not> boots P" using 1(1) False by (auto simp: wcn36xx_smd_open_def Let_def boots_def)
    ultimately show ?thesis using 1 False off nv by (simp add: wcn36xx_start_def nv_ok_def)
  next
    case True
    from mem have dma: "\<forall>l n. p_dma_alloc P l n \<noteq> None" by (simp add: memory_ok_def)
    obtain w2 m1 m2 where 2: "wcn36xx_dxe_allocate_mem_pools P w1 = Some (0, w2)"
      "pools_live (dma_brk w1) (Suc (dma_brk w1)) w2" "dxe_ch w2 = dxe_ch w1"
      "dma_mem w2 = (dma_mem w1)(dma_brk w1 := Some m1, Suc (dma_brk w1) := Some m2)"
      "hal_mutex w2 = hal_mutex w1" "ind_inv w2 = ind_inv w1" "ssids_ok w2 = ssids_ok w1"
      "hal_ind_wq w2 = hal_ind_wq w1" "nv w2 = nv w1" "dma_brk w2 = Suc (Suc (dma_brk w1))"
      by (rule allocate_mem_pools_ok [OF dma])
    obtain w3 where 3: "wcn36xx_dxe_alloc_ctl_blks P w2 = Some (0, w3)" "dxe_frame w2 w3"
      "\<forall>c. allocated (ch_brk (dxe_ch w2 c)) c (dxe_ch w3 c)"
      by (rule alloc_ctl_blks_runs [OF mem])
    note f3 = dxe_frame_fields [OF 3(2)]
    obtain w4 mem4 where 4: "alloc_hal_buf P w3 = (True, w4)" "length mem4 = WCN36XX_HAL_BUF_SIZE"
      "w4 = (emit (Kmalloc WCN36XX_HAL_BUF_SIZE) w3)\<lparr> hal_buf := Some mem4 \<rparr>"
      using mem by (auto simp: alloc_hal_buf_def Let_def memory_ok_def)
    have "hal_ready w4"
      using True 1 2 f3 off 4(2) by (simp add: 4(3) hal_ready_def ind_inv_def ssids_ok_def)
    moreover have "\<forall>c. allocated (B c) c (dxe_ch w4 c)"
      using 3(3) 2(3) 1(3) by (simp add: B_def 4(3))
    moreover have "pools_live ?m ?d w4"
      using 2(2) f3 1(4) by (simp add: pools_live_def 4(3))
    ultimately have p4: "powered B ?m ?d w4" by (simp add: powered_def)
    have nv4: "nv_ok P w4" using nv 1(6) 2(9) f3 by (simp add: nv_ok_def 4(3))
    have restored: "(dma_mem w4)(?m := None, ?d := None) = dma_mem w"
      using fresh 1(2,4) 2(4) f3 by (auto simp: fun_eq_iff 4(3))
    have brk: "dma_brk w \<le> dma_brk w4" using 1(4) 2(10) f3 by (simp add: 4(3))
    from start_up_ok [OF wf mem nv4 p4] obtain r5 w5 where
      5: "wcn36xx_start P w = Some (r5, w5)" "up_or_down B ?m ?d w4 r5 w5" "nv_ok P w5" "boots P \<longrightarrow> r5 = 0"
      using 1(1) True 2(1) 3(1) 4(1) by (auto simp: wcn36xx_start_def)
    then show ?thesis using restored brk by (auto simp: up_or_down_def down_def)
  qed
qed

text \<open>For the witnesses: a platform on which the device boots, and the device switched off.\<close>

definition boot_rsp :: "u8 list" where
  "boot_rsp = wcn36xx_hal_msg_header (rsp_type HAL_START) 0 144 @ replicate 136 0"

definition boot_platform :: platform where
  "boot_platform = (answering_platform [boot_rsp])\<lparr> p_request_firmware := (\<lambda>_. Inr (replicate 100 0)) \<rparr>"

lemma boot_rsp_facts: "length boot_rsp = 144" "is_rsp boot_rsp" "rsp_status boot_rsp = 0" "start_rsp_ok boot_rsp"
  by (simp_all add: boot_rsp_def is_rsp_def rsp_status_def start_rsp_ok_def wcn36xx_hal_msg_header_def
      msg_type_of_def rsp_cases_def numeral_eq_Suc take_Cons')

lemma boot_platform_ok: "mac_wf boot_platform" "memory_ok boot_platform" "boots boot_platform"
  "nv_ok boot_platform sample_wcn"
proof -
  have "firmware_answer boot_platform log m = Inr boot_rsp" for log m
    using boot_rsp_facts
    by (simp add: firmware_answer_def boot_platform_def answering_platform_def sample_platform_def)
  with boot_rsp_facts(3,4) show "boots boot_platform"
    by (simp add: boots_def fw_accepts_def) (simp add: boot_platform_def answering_platform_def sample_platform_def)
qed (use boot_rsp_facts(1) in \<open>simp_all add: mac_wf_def smd_wf_def memory_ok_def nv_ok_def nv_size_ok_def boot_platform_def
       answering_platform_def sample_platform_def sample_wcn_def\<close>)

lemma boot_smd_wf: "smd_wf boot_platform"
  using boot_platform_ok(1) by (simp add: mac_wf_def)

lemma sample_off: "\<not> hal_mutex sample_wcn" "ssids_ok sample_wcn" "\<forall>m \<ge> dma_brk sample_wcn. dma_mem sample_wcn m = None"
  "\<forall>c. \<forall>x \<ge> ch_brk (dxe_ch sample_wcn c). ch_mem (dxe_ch sample_wcn c) x = None"
  using sample_hal_ready by (simp_all add: hal_ready_def sample_wcn_def ring4_def)



section \<open>Stopping\<close>

lemma stop_ok:
  assumes wf: "smd_wf P" and w: "hal_ready w" "rings_at B w" "pools_live m d w"
  obtains w' where "wcn36xx_stop P w = Some w'" "down B w'" "hal_buf w' = None" "dma_mem w' = (dma_mem w)(m := None, d := None)"
    "mgmt_mem_pool w' = mgmt_mem_pool w" "data_mem_pool w' = data_mem_pool w" "dma_brk w' = dma_brk w" "nv w' = nv w"
proof -
  obtain r1 w1 m1 where 1: "wcn36xx_smd_stop P w = Some (r1, w1)" "hal_ready w1" "same_mac w w1"
    by (rule op_postsD [OF simple_calls_post(1) [OF wf] w(1)])
  have r1: "rings_at B w1" using w(2) 1(3) by (simp add: rings_at_def same_mac_def)
  then have "\<forall>c. ring_on (B c) (dxe_ch w1 c)" unfolding rings_at_def by blast
  then obtain w2 where 2: "wcn36xx_dxe_deinit w1 = Some w2" "dxe_frame (w1\<lparr> tx_ack_skb := None \<rparr>) w2"
    "dxe_ch w2 = dxe_ch w1" by (rule dxe_deinit_ok)
  note f2 = dxe_frame_fields [OF 2(2)]
  have "closing w2" using 1(2) f2 by (simp add: closing_def hal_ready_def ind_inv_def ssids_ok_def)
  then obtain w3 where 3: "wcn36xx_smd_close P w2 = Some w3" "\<not> hal_ind_wq w3" "\<not> hal_mutex w3" "ssids_ok w3"
    "dxe_ch w3 = dxe_ch w2" "dma_mem w3 = dma_mem w2" "hal_buf w3 = hal_buf w2"
    "mgmt_mem_pool w3 = mgmt_mem_pool w2" "data_mem_pool w3 = data_mem_pool w2" "dma_brk w3 = dma_brk w2" "nv w3 = nv w2"
    by (rule smd_close_ok)
  have "pools_live m d w3" using w(3) 1(3) f2 3 by (simp add: pools_live_def same_mac_def)
  note p = free_mem_pools_ok [OF this]
  let ?w4 = "emit (DmaFree d) (emit (DmaFree m) (w3\<lparr> dma_mem := (dma_mem w3)(m := None, d := None) \<rparr>))"
  have "rings_at B ?w4" using r1 2(3) 3(5) by (simp add: rings_at_def)
  then obtain w5 where 5: "wcn36xx_dxe_free_ctl_blks ?w4 = Some w5" "dxe_frame ?w4 w5"
    "\<forall>c x. B c \<le> x \<longrightarrow> x < B c + DXE_CH_DESC_NUMB c \<longrightarrow> ch_mem (dxe_ch w5 c) x = None"
    by (rule free_blks_at)
  note f5 = dxe_frame_fields [OF 5(2)]
  have "hal_buf w5 \<noteq> None" using 1(2) f2 3(7) f5 by (auto simp: hal_ready_def)
  then obtain hb where hb: "hal_buf w5 = Some hb" by blast
  let ?w6 = "emit FreeHalBuf (w5\<lparr> hal_buf := None \<rparr>)"
  have "wcn36xx_stop P w = Some ?w6"
    using 1(1) 2(1) 3(1) p 5(1) hb by (simp add: wcn36xx_stop_def ignore_def kfree_hal_buf_def)
  moreover have "down B ?w6" using 3(2-4) f5 5(3) by (simp add: down_def ssids_ok_def)
  ultimately show ?thesis
    using 1(3) 3 f2 f5 by (intro that [of ?w6]) (simp_all add: same_mac_def)
qed



text \<open>C32: The pointers to the memory pools survive their release: when the device is started again after a
  stop and the very first allocation of memory fails, the error path of
  \<open>wcn36xx_dxe_allocate_mem_pools\<close> releases the pools of the previous run a second time.\<close>

theorem restart_double_free:
  assumes wf: "smd_wf P" and w: "hal_ready w" "rings_at B w" "pools_live m d w"
    and opens: "\<forall>l. p_create_wq Q l" "\<forall>l. p_smd_open Q l = 0" and fails: "\<forall>l n. p_dma_alloc Q l n = None"
  shows "\<exists>w'. wcn36xx_stop P w = Some w' \<and> wcn36xx_start Q w' = None"
proof -
  obtain w' where 1: "wcn36xx_stop P w = Some w'" "dma_mem w' = (dma_mem w)(m := None, d := None)"
    "mgmt_mem_pool w' = mgmt_mem_pool w" by (rule stop_ok [OF wf w])
  obtain r w2 where 2: "wcn36xx_smd_open Q w' = (r, w2)" "dma_mem w2 = dma_mem w'" "mgmt_mem_pool w2 = mgmt_mem_pool w'"
    "r = 0"
    using opens by (simp add: wcn36xx_smd_open_def Let_def)
  have "wcn36xx_dxe_allocate_mem_pools Q w2 = None"
    using fails w(3) 1(2,3) 2(2,3)
    by (simp add: wcn36xx_dxe_allocate_mem_pools_def dma_alloc_coherent_def Let_def pool_failed_def
        wcn36xx_dxe_free_mem_pools_def free_pool_def dma_free_coherent_def pools_live_def)
  with 1(1) 2(1,4) show ?thesis by (simp add: wcn36xx_start_def)
qed

definition no_memory :: platform where
  "no_memory = sample_platform\<lparr> p_dma_alloc := (\<lambda>_ _. None) \<rparr>"

theorem restart_double_free_witness:
  "\<exists>w1 w2. wcn36xx_start boot_platform sample_wcn = Some (0, w1) \<and> wcn36xx_stop boot_platform w1 = Some w2 \<and>
     wcn36xx_start no_memory w2 = None"
proof -
  from start_returns [OF boot_smd_wf boot_platform_ok(2,4) sample_off(1-3)] boot_platform_ok(3) obtain w1 where
    1: "wcn36xx_start boot_platform sample_wcn = Some (0, w1)" "hal_ready w1"
    "dxe_running (\<lambda>c. ch_brk (dxe_ch sample_wcn c)) w1"
    "pools_live (dma_brk sample_wcn) (Suc (dma_brk sample_wcn)) w1" by auto
  from restart_double_free [OF boot_smd_wf 1(2) running_rings [OF 1(3)] 1(4), of no_memory] 1(1) show ?thesis
    by (auto simp: no_memory_def sample_platform_def)
qed

text \<open>When the message buffer cannot be allocated, \<open>wcn36xx_start\<close> jumps past the release of the memory
  pools: it returns \<open>-ENOMEM\<close> with both pools still allocated.\<close>

theorem start_leaks_pools:
  assumes opens: "\<forall>l. p_create_wq P l" "\<forall>l. p_smd_open P l = 0"
    and mem: "\<forall>l n. p_dma_alloc P l n \<noteq> None" "\<forall>l n. p_alloc P l n = (n \<noteq> WCN36XX_HAL_BUF_SIZE)"
    and off: "\<not> hal_mutex w" "ssids_ok w"
  shows "\<exists>w'. wcn36xx_start P w = Some (- ENOMEM, w') \<and> hal_buf w' = None \<and> \<not> hal_ind_wq w' \<and>
           dma_mem w' (dma_brk w) \<noteq> None \<and> dma_mem w' (Suc (dma_brk w)) \<noteq> None"
proof -
  have ok: "p_create_wq P (klog w)" "p_smd_open P (CreateWq # klog w) = 0" using opens by blast+
  obtain r w1 where 1: "wcn36xx_smd_open P w = (r, w1)" "dma_mem w1 = dma_mem w" "dxe_ch w1 = dxe_ch w"
    "dma_brk w1 = dma_brk w" "hal_mutex w1 = hal_mutex w" "nv w1 = nv w" "ssids_ok w1 = ssids_ok w"
    "hal_ind_wq w1 = (r = 0)" "r = 0 \<longrightarrow> ind_inv w1" by (rule smd_open_cases)
  have r: "r = 0" using 1(1) ok by (simp add: wcn36xx_smd_open_def Let_def)
  obtain w2 m1 m2 where 2: "wcn36xx_dxe_allocate_mem_pools P w1 = Some (0, w2)"
    "pools_live (dma_brk w1) (Suc (dma_brk w1)) w2" "dxe_ch w2 = dxe_ch w1"
    "dma_mem w2 = (dma_mem w1)(dma_brk w1 := Some m1, Suc (dma_brk w1) := Some m2)"
    "hal_mutex w2 = hal_mutex w1" "ind_inv w2 = ind_inv w1" "ssids_ok w2 = ssids_ok w1"
    "hal_ind_wq w2 = hal_ind_wq w1" "nv w2 = nv w1"
    by (rule allocate_mem_pools_ok [OF mem(1)])
  obtain w3 where 3: "wcn36xx_dxe_alloc_ctl_blks P w2 = Some (0, w3)" "dxe_frame w2 w3"
    "\<forall>c. allocated (ch_brk (dxe_ch w2 c)) c (dxe_ch w3 c)"
    using alloc_ctl_blks_succeeds [of P w2] alloc_ctl_blks_allocated [of P w2] mem(2) by auto
  note f3 = dxe_frame_fields [OF 3(2)]
  let ?w4 = "(emit (Kmalloc WCN36XX_HAL_BUF_SIZE) w3)\<lparr> hal_buf := None \<rparr>"
  have 4: "alloc_hal_buf P w3 = (False, ?w4)" using mem(2) by (simp add: alloc_hal_buf_def Let_def)
  have w4: "rings_at (\<lambda>c. ch_brk (dxe_ch w2 c)) ?w4" "closing ?w4"
    using 3(3) r off 1 2 f3 by (simp_all add: rings_at_def allocated_def ring_on_start closing_def ind_inv_def ssids_ok_def)
  obtain w5 where "out_free_dxe_ctl P (- ENOMEM) ?w4 = Some (- ENOMEM, w5)" "down (\<lambda>c. ch_brk (dxe_ch w2 c)) w5"
    "dma_mem w5 = dma_mem ?w4" "hal_buf w5 = hal_buf ?w4" by (rule out_free_dxe_ctl_ok [OF w4])
  with 1(1,4) r 2(1,4) 3(1) 4 f3 show ?thesis
    by (simp add: wcn36xx_start_def down_def)
qed

theorem start_leaks_pools_witness:
  "\<exists>w'. wcn36xx_start (sample_platform\<lparr> p_alloc := (\<lambda>_ n. n \<noteq> 4096) \<rparr>) sample_wcn = Some (- ENOMEM, w') \<and>
     dma_mem w' 2 \<noteq> None \<and> dma_mem w' 3 \<noteq> None"
proof -
  have "dma_brk sample_wcn = 2" by (simp add: sample_wcn_def)
  with start_leaks_pools [of "sample_platform\<lparr> p_alloc := (\<lambda>_ n. n \<noteq> 4096) \<rparr>" sample_wcn] sample_off(1,2) show ?thesis
    by (auto simp: sample_platform_def)
qed

section \<open>Transmission\<close>

lemma tx_frame_refused:
  assumes ok: "start_tx_ok sp s w is_low a off" and low: "is_low = skb_is_low P w s"
    and full: "tx_inv b t (ch_desc_num (dxe_ch w (tx_chan is_low))) 0 (dxe_ch w (tx_chan is_low))"
  obtains w' where "wcn36xx_start_tx P sp s w = Some (- EBUSY, w')" "dxe_ch w' = dxe_ch w"
    "IEEE80211_TX_CTL_REQ_TX_STATUS \<in> skb_cb_flags (skbs w s) \<Longrightarrow> tx_ack_skb w' = Some s"
proof -
  obtain bd v w2 mem where
    r: "wcn36xx_start_tx P sp s w = wcn36xx_dxe_tx_frame P (Some v) s is_low w2"
    "dxe_ch w2 = dxe_ch w" "tx_ack_skb w2 = (if IEEE80211_TX_CTL_REQ_TX_STATUS \<in> skb_cb_flags (skbs w s)
                      then Some s else tx_ack_skb w)"
    using ok unfolding low by (rule start_tx_reaches_ring)
  have "wcn36xx_dxe_tx_frame P (Some v) s is_low w2 =
      Some (- EBUSY, (emit StopQueues w2)\<lparr> queues_stopped := True \<rparr>)"
    using full by (intro tx_frame_full [where b = b and t = t and
        k = "ch_desc_num (dxe_ch w (tx_chan is_low))" and d = 0]) (simp_all add: r(2))
  with r that show ?thesis by simp
qed

text \<open>C33: A frame that wants a status and meets a full ring is freed by \<open>wcn36xx_tx\<close> while the driver still
  holds it as the frame that waits for its status: the next TX-complete indication passes the freed
  socket buffer to mac80211.\<close>

theorem tx_full_use_after_free:
  assumes ok: "start_tx_ok sp s w is_low a off" and low: "is_low = skb_is_low P w s"
    and full: "tx_inv b t (ch_desc_num (dxe_ch w (tx_chan is_low))) 0 (dxe_ch w (tx_chan is_low))"
    and status: "IEEE80211_TX_CTL_REQ_TX_STATUS \<in> skb_cb_flags (skbs w s)"
  shows "\<exists>w' l. wcn36xx_tx P sp s w = Some w' \<and> klog w' = FreeTxSkb s # l \<and> dxe_ch w' = dxe_ch w \<and>
           klog (wcn36xx_dxe_tx_ack_ind w' st) = WakeQueues # TxStatus s # FreeTxSkb s # l"
proof -
  obtain w' where "wcn36xx_start_tx P sp s w = Some (- EBUSY, w')" "dxe_ch w' = dxe_ch w" "tx_ack_skb w' = Some s"
    using tx_frame_refused [OF ok low full] status by metis
  then show ?thesis
    by (auto simp: wcn36xx_tx_def wcn36xx_dxe_tx_ack_ind_def Let_def)
qed

definition sample_full_wcn :: wcn36xx where
  "sample_full_wcn = sample_tx_wcn\<lparr> dxe_ch := full4,
     skbs := (\<lambda>_. sample_data_skb\<lparr> skb_cb_flags := {IEEE80211_TX_CTL_REQ_TX_STATUS} \<rparr>) \<rparr>"

theorem tx_full_use_after_free_witness:
  "\<exists>w'. wcn36xx_tx sample_platform (Some 0) 7 sample_full_wcn = Some w' \<and>
     (\<exists>l. klog (wcn36xx_dxe_tx_ack_ind w' 1) = WakeQueues # TxStatus 7 # FreeTxSkb 7 # l)"
proof -
  have low: "True = skb_is_low sample_platform sample_full_wcn 7"
    using sample_tx_low by (simp add: sample_full_wcn_def sample_tx_wcn_def skb_bytes_def)
  have ok: "start_tx_ok (Some 0) 7 sample_full_wcn True 0 0"
    by (simp add: start_tx_ok_def tx_vif_known_def sample_full_wcn_def sample_tx_wcn_def sample_wcn_def
        sample_sta_priv_def sample_data_skb_def sample_skb_def wcn36xx_dxe_get_next_bd_def tx_chan_def full4_def
        ring4_def ctl_at_def ring4_ctl_def Let_def)
  have full: "tx_inv 0 0 (ch_desc_num (dxe_ch sample_full_wcn (tx_chan True))) 0 (dxe_ch sample_full_wcn (tx_chan True))"
    using full4_inv [of "tx_chan True"] by (simp add: sample_full_wcn_def full4_def ring4_def)
  have "IEEE80211_TX_CTL_REQ_TX_STATUS \<in> skb_cb_flags (skbs sample_full_wcn 7)"
    by (simp add: sample_full_wcn_def)
  from tx_full_use_after_free [OF ok low full this, of 1] show ?thesis by blast
qed

end
