(* ===== verification/Life_Cycle.thy ===== *)
theory Life_Cycle
  imports Mac_Start
begin

text \<open>Any number of lives of the device. mac80211 starts the device, runs operations on it, stops it and
  starts it again; a start may fail, and is tried again. \<open>power_step\<close> is that protocol over the
  three operations the driver registers for it, with a flag that says whether the device is up. The
  locale \<open>power_cycle\<close> states what the three operations owe each other, and is interpreted on
  \<open>wcn36xx_start\<close>, the sequence of operations of \<open>Mac_Safe\<close> and \<open>wcn36xx_stop\<close>.\<close>

section \<open>The protocol\<close>

inductive power_step ::
  "('s \<Rightarrow> (int \<times> 's) option) \<Rightarrow> ('s \<Rightarrow> 's \<Rightarrow> bool) \<Rightarrow> ('s \<Rightarrow> 's option) \<Rightarrow> bool \<times> 's \<Rightarrow> bool \<times> 's \<Rightarrow> bool"
  for start run stop where
  started: "start s = Some (0, s') \<Longrightarrow> power_step start run stop (False, s) (True, s')"
| refused: "start s = Some (r, s') \<Longrightarrow> r \<noteq> 0 \<Longrightarrow> power_step start run stop (False, s) (False, s')"
| running: "run s s' \<Longrightarrow> power_step start run stop (True, s) (True, s')"
| stopped: "stop s = Some s' \<Longrightarrow> power_step start run stop (True, s) (False, s')"

inductive_cases power_stepE: "power_step start run stop x y"

locale power_cycle =
  fixes start :: "'s \<Rightarrow> (int \<times> 's) option" and run :: "'s \<Rightarrow> 's \<Rightarrow> bool" and stop :: "'s \<Rightarrow> 's option"
    and is_off :: "'s \<Rightarrow> bool" and is_on :: "'s \<Rightarrow> bool"
  assumes start_law: "is_off s \<Longrightarrow> \<exists>r s'. start s = Some (r, s') \<and> (if r = 0 then is_on s' else is_off s')"
    and run_law: "is_on s \<Longrightarrow> run s s' \<Longrightarrow> is_on s'"
    and stop_law: "is_on s \<Longrightarrow> \<exists>s'. stop s = Some s' \<and> is_off s'"
begin

definition good :: "bool \<times> 's \<Rightarrow> bool" where
  "good x = (if fst x then is_on (snd x) else is_off (snd x))"

lemma good_step: "power_step start run stop x y \<Longrightarrow> good x \<Longrightarrow> good y"
  by (erule power_stepE) (use start_law run_law stop_law in \<open>force simp: good_def\<close>)+

lemma good_steps: "(power_step start run stop)\<^sup>*\<^sup>* x y \<Longrightarrow> good x \<Longrightarrow> good y"
  by (induction rule: rtranclp_induct) (auto intro: good_step)

lemma reachable_on: "(power_step start run stop)\<^sup>*\<^sup>* (False, s) (True, s') \<Longrightarrow> is_off s \<Longrightarrow> is_on s'"
  using good_steps [of "(False, s)" "(True, s')"] by (simp add: good_def)

lemma reachable_off: "(power_step start run stop)\<^sup>*\<^sup>* (False, s) (False, s') \<Longrightarrow> is_off s \<Longrightarrow> is_off s'"
  using good_steps [of "(False, s)" "(False, s')"] by (simp add: good_def)

end

section \<open>The driver\<close>

text \<open>Between two lives: the mutex is free, the calibration image is one the driver can send, the
  DMA memory is \<open>M\<close> and none of it lies past the next address to hand out. During a life: the driver
  is ready, the rings are in place, and but for the two pools the DMA memory is \<open>M\<close>.\<close>

definition powered_off :: "platform \<Rightarrow> (nat \<Rightarrow> u8 list option) \<Rightarrow> wcn36xx \<Rightarrow> bool" where
  "powered_off P M w \<longleftrightarrow> mac_wf P \<and> memory_ok P \<and> nv_ok P w \<and> \<not> hal_mutex w \<and> ssids_ok w \<and>
     dma_mem w = M \<and> (\<forall>m \<ge> dma_brk w. M m = None)"

definition powered_on :: "platform \<Rightarrow> (nat \<Rightarrow> u8 list option) \<Rightarrow> wcn36xx \<Rightarrow> bool" where
  "powered_on P M w \<longleftrightarrow> mac_wf P \<and> memory_ok P \<and> nv_ok P w \<and> hal_ready w \<and> (\<forall>m \<ge> dma_brk w. M m = None) \<and>
     (\<exists>B m d. rings_at B w \<and> pools_live m d w \<and> (dma_mem w)(m := None, d := None) = M)"

lemma powered_off_starts:
  assumes "powered_off P M w"
  shows "\<exists>r w'. wcn36xx_start P w = Some (r, w') \<and> (if r = 0 then powered_on P M w' else powered_off P M w')"
proof -
  from assms have a: "mac_wf P" "smd_wf P" "memory_ok P" "nv_ok P w" "\<not> hal_mutex w" "ssids_ok w"
    "\<forall>m \<ge> dma_brk w. dma_mem w m = None" "dma_mem w = M"
    by (simp_all add: powered_off_def mac_wf_def)
  let ?B = "\<lambda>c. ch_brk (dxe_ch w c)"
  from start_returns [OF a(2-7)] obtain r w' where 1: "wcn36xx_start P w = Some (r, w')"
    "if r = 0 then hal_ready w' \<and> dxe_running ?B w' \<and> pools_live (dma_brk w) (Suc (dma_brk w)) w' \<and>
       (dma_mem w')(dma_brk w := None, Suc (dma_brk w) := None) = dma_mem w
     else \<not> hal_mutex w' \<and> ssids_ok w' \<and> dma_mem w' = dma_mem w" "dma_brk w \<le> dma_brk w'" "nv_ok P w'" by metis
  have "\<forall>m \<ge> dma_brk w'. M m = None" using a(7,8) 1(3) by auto
  moreover have "r = 0 \<Longrightarrow> \<exists>B m d. rings_at B w' \<and> pools_live m d w' \<and> (dma_mem w')(m := None, d := None) = M"
    using 1(2) a(8) running_rings [of ?B w'] by (metis (no_types, lifting))
  ultimately show ?thesis using 1 a by (simp add: powered_on_def powered_off_def split: if_splits)
qed

lemma powered_on_runs: "powered_on P M w \<Longrightarrow> mac_step P w w' \<Longrightarrow> powered_on P M w'"
  using mac_step_keeps [of P w w']
  by (auto simp: powered_on_def mview_def nv_ok_def rings_at_def pools_live_def)

lemma powered_on_stops:
  assumes "powered_on P M w"
  shows "\<exists>w'. wcn36xx_stop P w = Some w' \<and> powered_off P M w'"
proof -
  from assms obtain B m d where a: "smd_wf P" "hal_ready w" "rings_at B w" "pools_live m d w"
    "(dma_mem w)(m := None, d := None) = M" by (auto simp: powered_on_def mac_wf_def)
  obtain w' where "wcn36xx_stop P w = Some w'" "down B w'" "dma_mem w' = M" "dma_brk w' = dma_brk w" "nv w' = nv w"
    by (rule stop_ok [OF a(1-4)]) (simp add: a(5))
  with assms show ?thesis by (auto simp: powered_on_def powered_off_def down_def nv_ok_def)
qed

interpretation driver: power_cycle "wcn36xx_start P" "mac_step P" "wcn36xx_stop P" "powered_off P M" "powered_on P M" for P M
  by unfold_locales (rule powered_off_starts powered_on_runs powered_on_stops; assumption)+

text \<open>Over any number of lives of the device (starts that succeed or fail, operations and indications
  in between, stops), as long as memory can be allocated: when the device is down, starting it returns, and the
  DMA memory is what it was before the first start; when it is up, every operation returns, and so does
  the stop, and that gives back exactly the memory the starts took. Nothing is leaked or freed
  twice from one life to the next.\<close>

theorem lives_never_fault:
  assumes wf: "mac_wf P" "memory_ok P" "nv_ok P w" and off: "\<not> hal_mutex w" "ssids_ok w"
    and fresh: "\<forall>m \<ge> dma_brk w. dma_mem w m = None"
    and lives: "(power_step (wcn36xx_start P) (mac_step P) (wcn36xx_stop P))\<^sup>*\<^sup>* (False, w) (up, w1)"
  shows "if up then (\<forall>c. mac_op_ok c w1 \<longrightarrow> (\<exists>w2. run_mac P c w1 = Some w2)) \<and>
                    (\<exists>w2. wcn36xx_stop P w1 = Some w2 \<and> dma_mem w2 = dma_mem w \<and> \<not> hal_mutex w2)
         else dma_mem w1 = dma_mem w \<and> \<not> hal_mutex w1 \<and> (\<exists>r w2. wcn36xx_start P w1 = Some (r, w2))"
proof (cases up)
  case True
  have on: "powered_on P (dma_mem w) w1"
    using driver.reachable_on [of P w w1 "dma_mem w"] lives True assms(1-6) by (simp add: powered_off_def)
  then have "\<exists>w2. run_mac P c w1 = Some w2" if "mac_op_ok c w1" for c
    using run_mac_runs [OF wf(1) _ that] by (auto simp: powered_on_def runs_ok_def emits_def)
  with driver.stop_law [OF on] True show ?thesis by (auto simp: powered_off_def)
next
  case False
  have "powered_off P (dma_mem w) w1"
    using driver.reachable_off [of P w w1 "dma_mem w"] lives False assms(1-6) by (simp add: powered_off_def)
  with driver.start_law [OF this] False show ?thesis by (auto simp: powered_off_def)
qed

theorem lives_never_fault_witness:
  "\<exists>w1 w2 w3. wcn36xx_start boot_platform sample_wcn = Some (0, w1) \<and> wcn36xx_stop boot_platform w1 = Some w2 \<and>
     wcn36xx_start boot_platform w2 = Some (0, w3) \<and> dma_mem w2 = dma_mem sample_wcn"
proof -
  note lives = lives_never_fault [OF boot_platform_ok(1,2,4) sample_off(1-3)]
  let ?step = "power_step (wcn36xx_start boot_platform) (mac_step boot_platform) (wcn36xx_stop boot_platform)"
  have boots: "r = 0" if "wcn36xx_start boot_platform w = Some (r, w')" "powered_off boot_platform M w" for r w w' M
    using that start_returns [of boot_platform w] boot_platform_ok(3) by (auto simp: powered_off_def mac_wf_def)
  have off: "powered_off boot_platform (dma_mem sample_wcn) sample_wcn"
    using boot_platform_ok(1,2,4) sample_off(1-3) by (simp add: powered_off_def)
  from driver.start_law [OF off] boots [OF _ off] obtain w1 where 1: "wcn36xx_start boot_platform sample_wcn = Some (0, w1)"
    by blast
  have up: "?step\<^sup>*\<^sup>* (False, sample_wcn) (True, w1)" by (rule r_into_rtranclp) (rule power_step.started, rule 1)
  from lives [OF up] obtain w2 where 2: "wcn36xx_stop boot_platform w1 = Some w2" "dma_mem w2 = dma_mem sample_wcn"
    by auto
  have down: "?step\<^sup>*\<^sup>* (False, sample_wcn) (False, w2)"
    by (rule rtranclp.rtrancl_into_rtrancl [OF up]) (rule power_step.stopped, rule 2)
  from lives [OF down] obtain r w3 where 3: "wcn36xx_start boot_platform w2 = Some (r, w3)" by auto
  from boots [OF 3 driver.reachable_off [OF down off]] 3 1 2 show ?thesis by blast
qed

end
