(* ===== verification/Dxe_Flow.thy ===== *)
theory Dxe_Flow
  imports Dxe_Start Txrx_Tx
begin

text \<open>
  What the data path leaves alone, operation by operation: everything but the rings, the socket
  buffers, the frame that waits for a status, the state of the queues, the private data of stations and the contents
  (not the sizes) of the coherent memory. The blocks of a transmit ring keep their buffer descriptors.
  The second part follows the buffers of a receive ring through the receive handler, and models what
  the engine does when it fills one.
\<close>

section \<open>The frame of the data path\<close>

definition data_frame :: "wcn36xx \<Rightarrow> wcn36xx \<Rightarrow> bool" where
  "data_frame w w' \<longleftrightarrow>
     w' = w\<lparr> dxe_ch := dxe_ch w', klog := klog w', skbs := skbs w', skb_brk := skb_brk w', dma_mem := dma_mem w',
             queues_stopped := queues_stopped w', tx_ack_skb := tx_ack_skb w', sta_priv := sta_priv w' \<rparr> \<and>
     map_option length \<circ> dma_mem w' = map_option length \<circ> dma_mem w"

lemma data_frame_refl [simp, intro]: "data_frame w w"
  by (simp add: data_frame_def)

lemma data_frame_trans [trans]: "data_frame w w1 \<Longrightarrow> data_frame w1 w2 \<Longrightarrow> data_frame w w2"
  unfolding data_frame_def by (cases w; cases w1; cases w2) simp

lemma data_frame_updates [simp]:
  "data_frame w (emit e w') = data_frame w w'"
  "data_frame w (set_ch c ch w') = data_frame w w'"
  "data_frame w (w'\<lparr> queues_stopped := b \<rparr>) = data_frame w w'"
  "data_frame w (w'\<lparr> tx_ack_skb := p \<rparr>) = data_frame w w'"
  "data_frame w (w'\<lparr> skbs := f \<rparr>) = data_frame w w'"
  "data_frame w (w'\<lparr> skbs := f, skb_brk := n \<rparr>) = data_frame w w'"
  "data_frame w (set_sta_priv s g w') = data_frame w w'"
  "data_frame w (wcn36xx_dxe_write_register a v w') = data_frame w w'"
  unfolding data_frame_def emit_def set_ch_def set_sta_priv_def wcn36xx_dxe_write_register_def
  by (cases w; cases w'; simp)+

lemma data_frame_sym: "data_frame w w' \<longleftrightarrow> data_frame w' w"
  unfolding data_frame_def by (cases w; cases w') auto

lemma data_frame_from [simp]:
  "data_frame (emit e w) w' = data_frame w w'" "data_frame (set_ch c ch w) w' = data_frame w w'"
  "data_frame (w\<lparr> skbs := f, skb_brk := n \<rparr>) w' = data_frame w w'"
  using data_frame_updates data_frame_sym by metis+

lemma dxe_data_frame: "dxe_frame w w' \<Longrightarrow> data_frame w w'"
  unfolding dxe_frame_def data_frame_def by (cases w; cases w') simp

lemma data_frame_fields:
  assumes "data_frame w w'"
  shows "hal_buf w' = hal_buf w" "hal_mutex w' = hal_mutex w" "hal_ind_wq w' = hal_ind_wq w"
    "hal_ind_queue w' = hal_ind_queue w" "hal_ind_work_pending w' = hal_ind_work_pending w"
    "vif_priv w' = vif_priv w" "vifs w' = vifs w" "stas w' = stas w" "vif_list w' = vif_list w"
    "mgmt_mem_pool w' = mgmt_mem_pool w" "data_mem_pool w' = data_mem_pool w"
    "hw_conf w' = hw_conf w" "nv w' = nv w" "dma_brk w' = dma_brk w"
    "map_option length (dma_mem w' x) = map_option length (dma_mem w x)"
  using assms unfolding data_frame_def atomize_conj by (cases w; cases w') (simp add: fun_eq_iff)

section \<open>Buffer descriptors stay with their blocks\<close>

definition same_bds :: "wcn36xx_dxe_ch \<Rightarrow> wcn36xx_dxe_ch \<Rightarrow> bool" where
  "same_bds ch ch' \<longleftrightarrow> ch_desc_num ch' = ch_desc_num ch \<and>
     map_option ctl_bd_cpu_addr \<circ> ch_mem ch' = map_option ctl_bd_cpu_addr \<circ> ch_mem ch"

lemma same_bds_refl [simp]: "same_bds ch ch"
  by (simp add: same_bds_def)

lemma same_bds_trans: "same_bds ch ch1 \<Longrightarrow> same_bds ch1 ch2 \<Longrightarrow> same_bds ch ch2"
  by (simp add: same_bds_def)

lemma same_bds_updates [simp]:
  "same_bds ch (put_desc i d ch') = same_bds ch ch'"
  "same_bds ch (ch'\<lparr> ch_head := p \<rparr>) = same_bds ch ch'" "same_bds ch (ch'\<lparr> ch_tail := p \<rparr>) = same_bds ch ch'"
  by (simp_all add: same_bds_def put_desc_def)

lemma same_bds_put_ctl:
  "ch_mem ch' a = Some c \<Longrightarrow> same_bds ch (put_ctl a (c\<lparr> ctl_skb := s \<rparr>) ch') = same_bds ch ch'"
proof -
  assume c: "ch_mem ch' a = Some c"
  have "map_option ctl_bd_cpu_addr \<circ> ch_mem (put_ctl a (c\<lparr> ctl_skb := s \<rparr>) ch') = map_option ctl_bd_cpu_addr \<circ> ch_mem ch'"
    by (rule ext) (simp add: put_ctl_def c)
  then show ?thesis by (simp add: same_bds_def put_ctl_def)
qed

lemma same_bds_keeps:
  assumes "tx_bds pool b ch" and "same_bds ch ch'" and "tx_shape b ch"
  shows "tx_bds pool b ch'"
  unfolding tx_bds_def
proof (intro allI impI)
  fix i assume i: "i < ch_desc_num ch'" "even i"
  then have lt: "i < ch_desc_num ch" using assms(2) by (simp add: same_bds_def)
  obtain c where c: "ch_mem ch (b + i) = Some c" "ring_ctl b ch i = c" by (rule tx_shape_block [OF assms(3) lt])
  have "map_option ctl_bd_cpu_addr (ch_mem ch' (b + i)) = Some (ctl_bd_cpu_addr c)"
    using assms(2) c(1) by (simp add: same_bds_def fun_eq_iff)
  then obtain c' where "ch_mem ch' (b + i) = Some c'" "ctl_bd_cpu_addr c' = ctl_bd_cpu_addr c" by auto
  moreover have "ctl_bd_cpu_addr (ring_ctl b ch i) = Some (the (pool_virt_addr pool), i div 2 * pool_chunk_size pool)"
    using assms(1) lt i(2) by (simp add: tx_bds_def)
  then have "ctl_bd_cpu_addr c = Some (the (pool_virt_addr pool), i div 2 * pool_chunk_size pool)"
    by (simp only: c(2))
  ultimately show "ctl_bd_cpu_addr (ring_ctl b ch' i) = Some (the (pool_virt_addr pool), i div 2 * pool_chunk_size pool)"
    by (simp add: ring_ctl_def)
qed

section \<open>Transmission\<close>

lemma reap_skb_frame: "data_frame w (reap_skb bus s w)" "dxe_ch (reap_skb bus s w) = dxe_ch w"
  "skb_brk (reap_skb bus s w) = skb_brk w" "dma_mem (reap_skb bus s w) = dma_mem w"
  by (simp_all add: reap_skb_def Let_def)

lemma reap_block_frame:
  "reap_block a ch w = Some (ch', w') \<Longrightarrow> data_frame w w' \<and> dxe_ch w' = dxe_ch w \<and> skb_brk w' = skb_brk w \<and> dma_mem w' = dma_mem w \<and> same_bds ch ch'"
  by (auto simp: reap_block_def reap_skb_frame same_bds_put_ctl split: bind_splits option.splits)

lemma reap_loop_frame:
  "reap_loop f a ch w = Some (a', ch', w') \<Longrightarrow>
     data_frame w w' \<and> dxe_ch w' = dxe_ch w \<and> skb_brk w' = skb_brk w \<and> dma_mem w' = dma_mem w \<and> same_bds ch ch'"
proof (induction f arbitrary: a ch w)
  case 0 then show ?case by simp
next
  case (Suc f)
  from Suc.prems consider "ch' = ch" "w' = w"
    | ch1 w1 where "reap_block a ch w = Some (ch1, w1)" "ch' = ch1" "w' = w1"
    | ch1 w1 na where "reap_block a ch w = Some (ch1, w1)" "reap_loop f na ch1 w1 = Some (a', ch', w')"
    by (auto split: bind_splits if_splits)
  then show ?case
  proof cases
    case 1 then show ?thesis by simp
  next
    case 2 with reap_block_frame [OF 2(1)] show ?thesis by simp
  next
    case 3
    from reap_block_frame [OF 3(1)] Suc.IH [OF 3(2)] show ?thesis
      by (metis data_frame_trans same_bds_trans)
  qed
qed

lemma reap_tx_dxes_frame:
  assumes "reap_tx_dxes c w = Some w'"
  shows "data_frame w w'" "skb_brk w' = skb_brk w" "same_bds (dxe_ch w c) (dxe_ch w' c)"
    "\<forall>c'. c' \<noteq> c \<longrightarrow> dxe_ch w' c' = dxe_ch w c'" "dma_mem w' = dma_mem w"
  using assms reap_loop_frame
  by (fastforce simp: reap_tx_dxes_def Let_def split: bind_splits)+

lemma notify_chip_frame:
  "notify_chip vp is_low ch w = Some w' \<Longrightarrow> data_frame w w' \<and> dxe_ch w' = dxe_ch w \<and> skb_brk w' = skb_brk w \<and> skbs w' = skbs w \<and> dma_mem w' = dma_mem w"
  by (auto simp: notify_chip_def wcn36xx_dxe_write_register_def split: bind_splits if_splits)

lemma tx_frame_frame:
  assumes "wcn36xx_dxe_tx_frame P vp s is_low w = Some (r, w')"
  shows "data_frame w w' \<and> skb_brk w' = skb_brk w \<and> skbs w' = skbs w \<and> dma_mem w' = dma_mem w \<and>
    same_bds (dxe_ch w (tx_chan is_low)) (dxe_ch w' (tx_chan is_low)) \<and>
    (\<forall>c. c \<noteq> tx_chan is_low \<longrightarrow> dxe_ch w' c = dxe_ch w c)"
  using assms
  by (auto simp: wcn36xx_dxe_tx_frame_def Let_def same_bds_put_ctl dest!: notify_chip_frame
      split: bind_splits if_splits)

text \<open>The transmit path up to the ring.\<close>

lemma store_bd_frame:
  "store_bd p ws w = Some w' \<Longrightarrow> data_frame w w' \<and> dxe_ch w' = dxe_ch w \<and> skbs w' = skbs w \<and> skb_brk w' = skb_brk w \<and>
     vif_list w' = vif_list w \<and> vifs w' = vifs w \<and> sta_priv w' = sta_priv w \<and> tx_ack_skb w' = tx_ack_skb w \<and> klog w' = klog w"
  using buf_write_length unfolding store_bd_def data_frame_def
  by (cases w) (fastforce simp: fun_eq_iff split: bind_splits)

lemma tx_start_ampdu_data_frame:
  "data_frame w (wcn36xx_tx_start_ampdu P sp skb w)" "skb_brk (wcn36xx_tx_start_ampdu P sp skb w) = skb_brk w"
  "tx_freed (klog (wcn36xx_tx_start_ampdu P sp skb w)) = tx_freed (klog w)"
  by (simp_all add: wcn36xx_tx_start_ampdu_def Let_def)

lemma tx_descriptor_frame:
  assumes "tx_descriptor P bd sp skb bcast is_low w = Some (bd', v, w')"
  shows "data_frame w w' \<and> dxe_ch w' = dxe_ch w \<and> skbs w' = skbs w \<and> skb_brk w' = skb_brk w \<and>
    tx_freed (klog w') = tx_freed (klog w) \<and> dma_mem w' = dma_mem w"
  using assms
  by (auto simp: tx_descriptor_def wcn36xx_set_tx_data_def Let_def frame_simps tx_start_ampdu_data_frame
      split: if_splits bind_splits option.splits)

text \<open>Handing over a frame whose interface is known never faults: it is refused when another frame
  waits for its status, refused when the ring is full, and queued otherwise.\<close>

lemma start_tx_cases:
  assumes known: "tx_vif_known w sp (skb_is_low P w s) (skb_bytes (skbs w s))"
    and inv: "tx_inv b t k d (dxe_ch w (tx_chan (skb_is_low P w s)))"
    and nxt: "wcn36xx_dxe_get_next_bd w (skb_is_low P w s) = Some (Some (a, off))"
    and mem: "dma_mem w a = Some buf" "off + 40 \<le> length buf"
  defines "ch \<equiv> dxe_ch w (tx_chan (skb_is_low P w s))"
    and "taken \<equiv> IEEE80211_TX_CTL_REQ_TX_STATUS \<in> skb_cb_flags (skbs w s) \<and> tx_ack_skb w \<noteq> None"
  obtains w' k' where "wcn36xx_start_tx P sp s w =
      Some (if taken then - EINVAL else if length (tx_pending ch) < ch_desc_num ch div 2 then 0 else - EBUSY, w')"
    "data_frame w w'" "skbs w' = skbs w" "skb_brk w' = skb_brk w" "tx_freed (klog w') = tx_freed (klog w)"
    "\<forall>c. c \<noteq> tx_chan (skb_is_low P w s) \<longrightarrow> dxe_ch w' c = dxe_ch w c" "\<forall>x. x \<noteq> a \<longrightarrow> dma_mem w' x = dma_mem w x"
    "tx_inv b t k' d (dxe_ch w' (tx_chan (skb_is_low P w s)))"
    "same_bds ch (dxe_ch w' (tx_chan (skb_is_low P w s)))"
    "tx_pending (dxe_ch w' (tx_chan (skb_is_low P w s))) =
       tx_pending ch @ (if \<not> taken \<and> length (tx_pending ch) < ch_desc_num ch div 2 then [s] else [])"
proof -
  let ?low = "skb_is_low P w s" and ?skb = "skbs w s" and ?bd = "initial_bd (skbs w s)"
  let ?bs = "skb_bytes ?skb"
  let ?bcast = "is_broadcast_ether_addr (hdr_addr1 ?bs) \<or> is_multicast_ether_addr (hdr_addr1 ?bs)"
  have comp: "tx_comp ?bd = 1 \<longleftrightarrow> IEEE80211_TX_CTL_REQ_TX_STATUS \<in> skb_cb_flags ?skb"
    by (simp add: initial_bd_def zero_tx_bd_def)
  obtain buf1 where m1: "store_bd (a, off) (tx_bd_words ?bd) w = Some (w\<lparr> dma_mem := (dma_mem w)(a := Some buf1) \<rparr>)"
    "length buf1 = length buf" by (rule store_bd_ok [OF mem, of "tx_bd_words ?bd"]) simp_all
  let ?w1 = "w\<lparr> dma_mem := (dma_mem w)(a := Some buf1) \<rparr>"
  have f1: "data_frame w ?w1" using store_bd_frame [OF m1(1)] by simp
  show ?thesis
  proof (cases taken)
    case True
    then have "wcn36xx_start_tx P sp s w = Some (- EINVAL, ?w1)"
      using nxt m1(1) comp by (simp add: wcn36xx_start_tx_def Let_def taken_def)
    with True f1 inv show ?thesis by (intro that [of ?w1 k]) (simp_all add: ch_def)
  next
    case False
    define w2 where "w2 = (if tx_comp ?bd = 1 then emit StopQueues (?w1\<lparr> tx_ack_skb := Some s \<rparr>) else ?w1)"
    have f2: "data_frame w w2" "dxe_ch w2 = dxe_ch w" "skbs w2 = skbs w" "skb_brk w2 = skb_brk w" "vifs w2 = vifs w"
      "vif_list w2 = vif_list w" "sta_priv w2 = sta_priv w" "dma_mem w2 = dma_mem ?w1" "tx_freed (klog w2) = tx_freed (klog w)"
      using f1 by (simp_all add: w2_def)
    have "tx_vif_known w2 sp ?low ?bs" using known tx_vif_known_cong [of w2 w] f2(5-7) by simp
    then obtain bd v w3 where d: "tx_descriptor P ?bd sp ?skb ?bcast ?low w2 = Some (bd, v, w3)"
      by (rule tx_descriptor_ok)
    note f3 = tx_descriptor_frame [OF d]
    have m3: "dma_mem w3 a = Some buf1" "off + 40 \<le> length buf1" using f3 f2(8) m1(2) mem(2) by simp_all
    obtain buf4 where m4: "store_bd (a, off) (bd_in_memory bd) w3 = Some (w3\<lparr> dma_mem := (dma_mem w3)(a := Some buf4) \<rparr>)"
      by (rule store_bd_ok [OF m3, of "bd_in_memory bd"]) simp_all
    let ?w4 = "w3\<lparr> dma_mem := (dma_mem w3)(a := Some buf4) \<rparr>"
    have f4: "data_frame w ?w4" "dxe_ch ?w4 = dxe_ch w" "skbs ?w4 = skbs w" "skb_brk ?w4 = skb_brk w"
      "tx_freed (klog ?w4) = tx_freed (klog w)" "\<forall>x. x \<noteq> a \<longrightarrow> dma_mem ?w4 x = dma_mem w x"
      using f2 f3 data_frame_trans [OF data_frame_trans [OF f2(1) conjunct1 [OF f3]] conjunct1 [OF store_bd_frame [OF m4]]]
      by simp_all
    have run: "wcn36xx_start_tx P sp s w = wcn36xx_dxe_tx_frame P (Some v) s ?low ?w4"
    proof -
      have no_err: "\<not> (tx_comp ?bd = 1 \<and> tx_ack_skb ?w1 \<noteq> None)" using False comp by (simp add: taken_def)
      show ?thesis using nxt m1(1) no_err d m4
        unfolding wcn36xx_start_tx_def Let_def
        by (simp only: option.case bind.bind_lunit if_False w2_def [symmetric] tx_descriptor_def [symmetric] prod.case)
    qed
    show ?thesis
    proof (cases "k + 2 \<le> ch_desc_num ch")
      case True
      from tx_frame_accept [of b t k d ?w4 ?low "Some v" P s] inv f4(2) True obtain ch' e where
        5: "wcn36xx_dxe_tx_frame P (Some v) s ?low ?w4 = Some (0, emit e (set_ch (tx_chan ?low) ch' (emit (DmaMap s) ?w4)))"
        "tx_inv b t (k + 2) d ch'" "tx_pending ch' = tx_pending ch @ [s]" "\<forall>s. e \<noteq> FreeTxSkb s"
        by (auto simp: ch_def)
      let ?w5 = "emit e (set_ch (tx_chan ?low) ch' (emit (DmaMap s) ?w4))"
      have "length (tx_pending ch) < ch_desc_num ch div 2" using True tx_room_iff [OF inv] by (simp add: ch_def)
      moreover have "same_bds ch ch'" using tx_frame_frame [OF 5(1)] f4(2) by (simp add: ch_def)
      moreover have "tx_freed (klog ?w5) = tx_freed (klog w)" using tx_freed_other [OF 5(4)] f4(5) by simp
      ultimately show ?thesis using run 5(1-3) f4 False by (intro that [of ?w5 "k + 2"]) simp_all
    next
      case full: False
      have "wcn36xx_dxe_tx_frame P (Some v) s ?low ?w4 = Some (- EBUSY, (emit StopQueues ?w4)\<lparr> queues_stopped := True \<rparr>)"
        by (rule tx_frame_full [where b = b and t = t and k = k and d = d]) (use inv f4(2) full in \<open>simp_all add: ch_def\<close>)
      moreover have "\<not> length (tx_pending ch) < ch_desc_num ch div 2"
        using full tx_room_iff [OF inv] by (simp add: ch_def)
      ultimately show ?thesis using run f4 inv False
        by (intro that [of "(emit StopQueues ?w4)\<lparr> queues_stopped := True \<rparr>" k]) (simp_all add: ch_def)
    qed
  qed
qed

section \<open>Reception\<close>

lemma dxe_frame_skbs [simp]: "dxe_frame w (w'\<lparr> skbs := f \<rparr>) = dxe_frame w w'"
  unfolding dxe_frame_def by (cases w; cases w'; simp)

lemma rx_one_frame:
  "rx_one P a ch w = Some (ch', w') \<Longrightarrow> dxe_frame w w' \<and> dxe_ch w' = dxe_ch w \<and> ch_ch_type ch' = ch_ch_type ch"
  by (auto simp: rx_one_def wcn36xx_dxe_fill_skb_def rx_rearm_def wcn36xx_rx_skb_def Let_def put_ctl_def put_desc_def
      split: bind_splits option.splits wcn36xx_dxe_ch_type.splits)

lemma rx_loop_frame:
  "rx_loop P f a ch w = Some (a', ch', w') \<Longrightarrow> dxe_frame w w' \<and> dxe_ch w' = dxe_ch w \<and> ch_ch_type ch' = ch_ch_type ch"
proof (induction f arbitrary: a ch w)
  case 0 then show ?case by simp
next
  case (Suc f)
  from Suc.prems consider "ch' = ch" "w' = w"
    | ch1 w1 na where "rx_one P a ch w = Some (ch1, w1)" "rx_loop P f na ch1 w1 = Some (a', ch', w')"
    by (auto split: bind_splits if_splits)
  then show ?case
  proof cases
    case 1 then show ?thesis by simp
  next
    case 2
    from rx_one_frame [OF 2(1)] Suc.IH [OF 2(2)] show ?thesis by (metis dxe_frame_trans)
  qed
qed

text \<open>The buffers of a receive ring, and what may become of them: a ring gets new buffers, and only
  its own old ones are written.\<close>

definition rx_bufs :: "nat \<Rightarrow> wcn36xx_dxe_ch \<Rightarrow> nat set" where
  "rx_bufs b ch = rx_skb_at b ch ` {0..<ch_desc_num ch}"

definition rx_kept :: "nat \<Rightarrow> wcn36xx_dxe_ch \<Rightarrow> wcn36xx \<Rightarrow> wcn36xx_dxe_ch \<Rightarrow> wcn36xx \<Rightarrow> bool" where
  "rx_kept b ch w ch' w' \<longleftrightarrow> ch_desc_num ch' = ch_desc_num ch \<and> skb_brk w \<le> skb_brk w' \<and>
     rx_bufs b ch' \<subseteq> rx_bufs b ch \<union> {skb_brk w..} \<and>
     (\<forall>x < skb_brk w. x \<notin> rx_bufs b ch \<longrightarrow> skbs w' x = skbs w x)"

lemma rx_kept_refl [simp]: "rx_kept b ch w ch w"
  by (simp add: rx_kept_def)

lemma rx_kept_trans: "rx_kept b ch w ch1 w1 \<Longrightarrow> rx_kept b ch1 w1 ch2 w2 \<Longrightarrow> rx_kept b ch w ch2 w2"
proof -
  assume a: "rx_kept b ch w ch1 w1" "rx_kept b ch1 w1 ch2 w2"
  then have brk: "skb_brk w \<le> skb_brk w1" "skb_brk w1 \<le> skb_brk w2" by (simp_all add: rx_kept_def)
  have sub: "rx_bufs b ch1 \<subseteq> rx_bufs b ch \<union> {skb_brk w..}" using a(1) by (simp add: rx_kept_def)
  have "rx_bufs b ch2 \<subseteq> rx_bufs b ch1 \<union> {skb_brk w1..}" using a(2) by (simp add: rx_kept_def)
  with sub brk(1) have "rx_bufs b ch2 \<subseteq> rx_bufs b ch \<union> {skb_brk w..}" by fastforce
  moreover have "skbs w2 x = skbs w x" if "x < skb_brk w" "x \<notin> rx_bufs b ch" for x
  proof -
    have "x < skb_brk w1" "x \<notin> rx_bufs b ch1" using that brk(1) sub by auto
    with a that show ?thesis unfolding rx_kept_def by metis
  qed
  ultimately show ?thesis using a brk by (simp add: rx_kept_def)
qed

lemma rx_kept_step:
  assumes core: "rx_core b h d ch w" and w': "skb_brk w' = Suc (skb_brk w)"
    "\<forall>x. x \<noteq> skb_brk w \<and> x \<noteq> rx_skb_at b ch h \<longrightarrow> skbs w' x = skbs w x"
  shows "rx_kept b ch w (rx_step_ch b h (skb_brk w) bus ch) w'"
proof -
  note sh = rx_core_facts(1) [OF core] and h = rx_core_facts(2) [OF core]
  note v = rx_step_views [OF rx_shape_cpu [OF sh] h, of b "skb_brk w" bus]
  have "rx_skb_at b (rx_step_ch b h (skb_brk w) bus ch) j = (if j = h then skb_brk w else rx_skb_at b ch j)" for j
    by (simp add: rx_skb_at_def v(1))
  then have "rx_bufs b (rx_step_ch b h (skb_brk w) bus ch) \<subseteq> rx_bufs b ch \<union> {skb_brk w..}"
    by (auto simp: rx_bufs_def v(3))
  moreover have "rx_skb_at b ch h \<in> rx_bufs b ch" using h by (simp add: rx_bufs_def)
  then have "\<forall>x < skb_brk w. x \<notin> rx_bufs b ch \<longrightarrow> skbs w' x = skbs w x" using w'(2) by (metis less_irrefl)
  ultimately show ?thesis using w'(1) by (simp add: rx_kept_def v(3))
qed

lemma rx_loop_kept:
  assumes "rx_core b h d ch w" and "d < f" and mem: "\<forall>l. p_alloc_skb P l \<noteq> None"
    and "rx_loop P f (b + h) ch w = Some (a', ch', w')"
  shows "rx_kept b ch w ch' w'"
  using assms(1,2,4)
proof (induction d arbitrary: h ch w f)
  case 0
  note sh = rx_core_facts(1) [OF 0(1)] and h = rx_core_facts(2) [OF 0(1)]
  have v: "ctrl_valid (desc_ctrl (ring_desc ch h))" using rx_core_facts(4) [OF 0(1)] by simp
  obtain c where "ch_mem ch (b + h) = Some c" "ctl_desc c = Some h" by (rule rx_shape_block [OF sh h])
  with 0 v rx_shape_desc [OF sh, of c h] h show ?case by (cases f) auto
next
  case (Suc d)
  let ?n = "ch_desc_num ch"
  note sh = rx_core_facts(1) [OF Suc.prems(1)] and h = rx_core_facts(2) [OF Suc.prems(1)]
  have v: "\<not> ctrl_valid (desc_ctrl (ring_desc ch h))" using rx_core_facts(4) [OF Suc.prems(1)] by simp
  obtain c where c: "ch_mem ch (b + h) = Some c" "ctl_next c = Some (b + Suc h mod ?n)" "ctl_desc c = Some h"
    by (rule rx_shape_block [OF sh h])
  from mem obtain m where m: "p_alloc_skb P (klog w) = Some m" by blast
  obtain bus w1 where
    one: "rx_one P (b + h) ch w = Some (rx_step_ch b h (skb_brk w) bus ch, w1)"
    and w1: "skb_brk w1 = Suc (skb_brk w)" "\<forall>x. x \<noteq> skb_brk w \<and> x \<noteq> rx_skb_at b ch h \<longrightarrow> skbs w1 x = skbs w x"
      "skb_empty (skbs w1 (skb_brk w))"
    using rx_one_run [OF Suc.prems(1) zero_less_Suc m] by (elim exE conjE) (rule that; assumption)
  let ?ch = "rx_step_ch b h (skb_brk w) bus ch"
  have core1: "rx_core b (Suc h mod ?n) d ?ch w1" using rx_step_core [OF Suc.prems(1) zero_less_Suc w1, of bus] by simp
  from Suc.prems(2) obtain f' where f: "f = Suc f'" "d < f'" by (cases f) auto
  obtain c1 where c1: "ch_mem ?ch (b + h) = Some c1" "ctl_next c1 = Some (b + Suc h mod ?n)"
    using c rx_shape_block [OF sh h] by (fastforce simp: rx_step_ch_def)
  have "rx_loop P f (b + h) ch w = rx_loop P f' (b + Suc h mod ?n) ?ch w1"
    using c(1) rx_shape_desc [OF sh c(3) h] v one c1 by (simp add: f)
  with Suc.prems(3) have "rx_loop P f' (b + Suc h mod ?n) ?ch w1 = Some (a', ch', w')" by simp
  from rx_kept_trans [OF rx_kept_step [OF Suc.prems(1) w1(1,2), of bus] Suc.IH [OF core1 f(2) this]] show ?case .
qed

lemma rx_packets_ok:
  assumes inv: "rx_inv b h d (dxe_ch w c) w" and mem: "\<forall>l. p_alloc_skb P l \<noteq> None"
  obtains w' h' where "wcn36xx_rx_handle_packets P c w = Some (0, w')" "rx_inv b h' 0 (dxe_ch w' c) w'"
    "dxe_frame w w'" "rx_kept b (dxe_ch w c) w (dxe_ch w' c) w'" "\<forall>c'. c' \<noteq> c \<longrightarrow> dxe_ch w' c' = dxe_ch w c'"
    "ch_ch_type (dxe_ch w' c) = ch_ch_type (dxe_ch w c)"
    "rx_delivered (klog w') = rx_delivered (klog w) @ rx_waiting b h d (dxe_ch w c) w"
proof -
  let ?ch = "dxe_ch w c" and ?n = "ch_desc_num (dxe_ch w c)"
  from inv have core: "rx_core b h d ?ch w" and hd: "ch_head ?ch = Some (b + h)" by (simp_all add: rx_inv_def)
  then have d: "d < Suc ?n" by (simp add: rx_core_def Let_def)
  from rx_loop_ok [OF core d mem] obtain ch' w' where
    r: "rx_loop P (Suc ?n) (b + h) ?ch w = Some (b + (h + d) mod ?n, ch', w')"
    "rx_core b ((h + d) mod ?n) 0 ch' w'" "ch_desc_num ch' = ?n"
    "rx_delivered (klog w') = rx_delivered (klog w) @ rx_waiting b h d ?ch w" by blast
  note fr = rx_loop_frame [OF r(1)] and kept = rx_loop_kept [OF core d mem r(1)]
  let ?c' = "ch'\<lparr> ch_head := Some (b + (h + d) mod ?n) \<rparr>"
  have sh: "rx_shape b ?c' = rx_shape b ch'" by (simp add: rx_shape_def ring_ctl_def)
  have at: "rx_skb_at b ?c' = rx_skb_at b ch'" by (simp add: rx_skb_at_def fun_eq_iff)
  from sh at have "rx_inv b ((h + d) mod ?n) 0 ?c' (set_ch c ?c' w')"
    using r(2) by (simp add: rx_inv_def rx_core_def Let_def)
  moreover have "rx_kept b ?ch w ?c' (set_ch c ?c' w')"
    using kept r(3) by (simp add: rx_kept_def rx_bufs_def at)
  ultimately show ?thesis
    using r hd fr by (intro that [of "set_ch c ?c' w'" "(h + d) mod ?n"])
      (simp_all add: wcn36xx_rx_handle_packets_def Let_def del: rx_loop.simps)
qed

section \<open>The engine fills a buffer\<close>

text \<open>On a receive ring the engine takes the first block from the head whose descriptor is valid,
  writes the firmware's descriptor and the frame into its buffer, and clears the valid bit. When no
  descriptor is valid it has nowhere to write.\<close>

fun rx_target :: "nat \<Rightarrow> nat option \<Rightarrow> wcn36xx_dxe_ch \<Rightarrow> (nat \<times> nat) option" where
  "rx_target 0 p ch = None"
| "rx_target (Suc m) p ch = do {
     c \<leftarrow> ctl_at ch p;
     d \<leftarrow> desc_at ch c;
     if ctrl_valid (desc_ctrl d) then do { i \<leftarrow> ctl_desc c; s \<leftarrow> ctl_skb c; Some (i, s) }
     else rx_target m (ctl_next c) ch }"

definition dma_fill :: "wcn36xx_dxe_ch_type \<Rightarrow> u8 list \<Rightarrow> wcn36xx \<Rightarrow> wcn36xx" where
  "dma_fill c mem w =
     (let ch = dxe_ch w c in
      case rx_target (ch_desc_num ch) (ch_head ch) ch of
        None \<Rightarrow> w
      | Some (i, s) \<Rightarrow> set_ch c (put_desc i (clear_valid (ring_desc ch i)) ch)
                        (w\<lparr> skbs := (skbs w)(s := (skbs w s)\<lparr> skb_mem := mem \<rparr>) \<rparr>))"

text \<open>What the firmware writes has a place for its descriptor, and the frame it delimits is inside.\<close>

definition mem_fits :: "u8 list \<Rightarrow> bool" where
  "mem_fits mem \<longleftrightarrow> rx_fits (rx_buffer\<lparr> skb_mem := mem \<rparr>)"

lemma rx_fits_mem: "rx_fits (s\<lparr> skb_mem := mem \<rparr>) = mem_fits mem" "rx_fits s = mem_fits (skb_mem s)"
  by (simp_all add: mem_fits_def rx_fits_def rx_bd_of_def)

lemma rx_frame_of_mem: "skb_mem s = skb_mem s' \<Longrightarrow> rx_frame_of s = rx_frame_of s'"
  by (simp add: rx_frame_of_def rx_bd_of_def rx_mem_of_def)

lemma rx_target_positions:
  assumes core: "rx_core b h d ch w" and "i + m = ch_desc_num ch" and "i \<le> d"
  shows "rx_target m (Some (b + (h + i) mod ch_desc_num ch)) ch =
     (if d < ch_desc_num ch
      then Some ((h + d) mod ch_desc_num ch, rx_skb_at b ch ((h + d) mod ch_desc_num ch)) else None)"
  using assms(2,3)
proof (induction m arbitrary: i)
  case 0 then show ?case by simp
next
  case (Suc m)
  let ?n = "ch_desc_num ch"
  note sh = rx_core_facts(1) [OF core]
  have p: "(h + i) mod ?n < ?n" using Suc.prems by simp
  obtain c where c: "ch_mem ch (b + (h + i) mod ?n) = Some c" "ring_ctl b ch ((h + i) mod ?n) = c"
    "ctl_next c = Some (b + Suc ((h + i) mod ?n) mod ?n)" "ctl_desc c = Some ((h + i) mod ?n)"
    by (rule rx_shape_block [OF sh p])
  have "\<forall>j<?n. ctrl_valid (desc_ctrl (ring_desc ch ((h + j) mod ?n))) \<longleftrightarrow> d \<le> j"
    and "\<forall>i<?n. ctl_skb (ring_ctl b ch i) \<noteq> None"
    using core unfolding rx_core_def Let_def by blast+
  then have valid: "ctrl_valid (desc_ctrl (ring_desc ch ((h + i) mod ?n))) \<longleftrightarrow> i = d"
    and skb: "ctl_skb c = Some (rx_skb_at b ch ((h + i) mod ?n))"
    using Suc.prems p c(2) by (auto simp: rx_skb_at_def)
  have nx: "ctl_next c = Some (b + (h + Suc i) mod ?n)"
    using c(3) by (simp only: mod_Suc_eq add_Suc_right)
  have run: "rx_target (Suc m) (Some (b + (h + i) mod ?n)) ch =
      (if i = d then Some ((h + i) mod ?n, rx_skb_at b ch ((h + i) mod ?n))
       else rx_target m (Some (b + (h + Suc i) mod ?n)) ch)"
    using c(1,4) nx valid skb rx_shape_desc [OF sh c(4) p] by (simp add: ctl_at_def)
  show ?case
  proof (cases "i = d")
    case True then show ?thesis unfolding run using Suc.prems by simp
  next
    case False
    with Suc.prems have "Suc i + m = ?n" "Suc i \<le> d" by simp_all
    from Suc.IH [OF this] False show ?thesis unfolding run by simp
  qed
qed

text \<open>The frame of the data path for the engine: one buffer's memory and one descriptor.\<close>

lemma dma_fill_ok:
  assumes inv: "rx_inv b h d (dxe_ch w c) w" and fits: "mem_fits mem"
  defines "ch \<equiv> dxe_ch w c" and "w' \<equiv> dma_fill c mem w"
  defines "s \<equiv> rx_skb_at b ch ((h + d) mod ch_desc_num ch)"
  shows "rx_inv b h (if d < ch_desc_num ch then Suc d else d) (dxe_ch w' c) w'"
    and "rx_waiting b h (if d < ch_desc_num ch then Suc d else d) (dxe_ch w' c) w' =
      rx_waiting b h d ch w @ (if d < ch_desc_num ch then [(s, rx_frame_of (rx_buffer\<lparr> skb_mem := mem \<rparr>))] else [])"
    and "rx_kept b ch w (dxe_ch w' c) w'" and "data_frame w w'" and "\<forall>c'. c' \<noteq> c \<longrightarrow> dxe_ch w' c' = dxe_ch w c'"
    and "ch_ch_type (dxe_ch w' c) = ch_ch_type ch" and "klog w' = klog w" and "dma_mem w' = dma_mem w"
proof -
  let ?n = "ch_desc_num ch" and ?i = "(h + d) mod ch_desc_num ch"
  from inv have core: "rx_core b h d ch w" and hd: "ch_head ch = Some (b + h)" by (simp_all add: rx_inv_def ch_def)
  note sh = rx_core_facts(1) [OF core] and h = rx_core_facts(2) [OF core] and dn = rx_core_facts(3) [OF core]
  have tgt: "rx_target ?n (ch_head ch) ch = (if d < ?n then Some (?i, s) else None)"
    using rx_target_positions [OF core, of 0 ?n] hd h by (simp add: s_def)
  have all: "rx_inv b h (if d < ?n then Suc d else d) (dxe_ch w' c) w' \<and>
    rx_waiting b h (if d < ?n then Suc d else d) (dxe_ch w' c) w' =
      rx_waiting b h d ch w @ (if d < ?n then [(s, rx_frame_of (rx_buffer\<lparr> skb_mem := mem \<rparr>))] else []) \<and>
    rx_kept b ch w (dxe_ch w' c) w' \<and> data_frame w w' \<and> (\<forall>c'. c' \<noteq> c \<longrightarrow> dxe_ch w' c' = dxe_ch w c') \<and>
    ch_ch_type (dxe_ch w' c) = ch_ch_type ch \<and> klog w' = klog w \<and> dma_mem w' = dma_mem w"
  proof (cases "d < ?n")
    case False
    then have "w' = w" using tgt by (simp add: w'_def dma_fill_def ch_def)
    with False inv show ?thesis by (simp add: ch_def)
  next
    case True
    let ?ch = "put_desc ?i (clear_valid (ring_desc ch ?i)) ch"
    let ?w = "w\<lparr> skbs := (skbs w)(s := (skbs w s)\<lparr> skb_mem := mem \<rparr>) \<rparr>"
    have w': "w' = set_ch c ?ch ?w" using tgt True by (simp add: w'_def dma_fill_def ch_def Let_def)
    note cpu = rx_shape_cpu [OF sh]
    have i: "?i < ?n" using h by simp
    have view: "ring_desc ?ch j = (if j = ?i then clear_valid (ring_desc ch ?i) else ring_desc ch j)" for j
      by (rule ring_desc_put_desc [OF cpu i])
    have ctl: "ring_ctl b ?ch = ring_ctl b ch" by (simp add: ring_ctl_def fun_eq_iff)
    have at: "rx_skb_at b ?ch = rx_skb_at b ch" by (simp add: rx_skb_at_def ctl fun_eq_iff)
    have shape: "rx_shape b ?ch"
    proof (rule rx_shape_cong [OF sh])
      fix j assume "j < ?n"
      then obtain c1 where "ch_mem ch (b + j) = Some c1" "ring_ctl b ch j = c1" by (rule rx_shape_block [OF sh])
      then show "\<exists>c1. ch_mem ?ch (b + j) = Some c1 \<and> ctl_next c1 = ctl_next (ring_ctl b ch j) \<and>
          ctl_desc c1 = ctl_desc (ring_ctl b ch j)" by simp
    qed (simp_all add: option.map_comp comp_def put_desc_def)
    from core have val: "\<forall>j<?n. ctrl_valid (desc_ctrl (ring_desc ch ((h + j) mod ?n))) \<longleftrightarrow> d \<le> j"
      and skb: "\<forall>i<?n. ctl_skb (ring_ctl b ch i) \<noteq> None \<and> rx_skb_at b ch i < skb_brk w \<and> skb_empty (skbs w (rx_skb_at b ch i))"
      and inj: "inj_on (rx_skb_at b ch) {0..<?n}"
      and fit: "\<forall>j<d. rx_fits (skbs w (rx_skb_at b ch ((h + j) mod ?n)))"
      unfolding rx_core_def Let_def by blast+
    have valid: "ctrl_valid (desc_ctrl (ring_desc ?ch ((h + j) mod ?n))) \<longleftrightarrow> Suc d \<le> j" if j: "j < ?n" for j
    proof (cases "j = d")
      case True then show ?thesis by (simp add: view)
    next
      case False
      with ring_pos_inj [of h j ?n d] h j \<open>d < ?n\<close> have "(h + j) mod ?n \<noteq> ?i" by blast
      with val j False show ?thesis by (auto simp: view)
    qed
    have other: "rx_skb_at b ch ((h + j) mod ?n) \<noteq> s" if "j < d" for j
    proof -
      have "(h + j) mod ?n \<noteq> ?i" using ring_pos_inj [of h j ?n d] h that True by auto
      with inj i h show ?thesis by (simp add: s_def inj_on_eq_iff)
    qed
    have empty: "skb_empty (skbs ?w (rx_skb_at b ch i))" if "i < ?n" for i
      using skb that by (auto simp: skb_empty_def)
    have fits': "rx_fits (skbs ?w (rx_skb_at b ch ((h + j) mod ?n)))" if "j < Suc d" for j
      using that fit other fits by (auto simp: less_Suc_eq rx_fits_mem(1) s_def)
    have "rx_core b h (Suc d) ?ch w'"
      unfolding rx_core_def Let_def
      using shape h True valid skb inj empty fits' by (simp add: w' ctl at)
    then have "rx_inv b h (Suc d) (dxe_ch w' c) w'" using hd by (simp add: rx_inv_def w')
    moreover have "rx_waiting b h (Suc d) ?ch w' = rx_waiting b h d ch w @ [(s, rx_frame_of (rx_buffer\<lparr> skb_mem := mem \<rparr>))]"
    proof -
      have "rx_frame_of (skbs w' (rx_skb_at b ch ((h + j) mod ?n))) = rx_frame_of (skbs w (rx_skb_at b ch ((h + j) mod ?n)))"
        if "j < d" for j using other [OF that] by (simp add: w')
      moreover have "rx_frame_of (skbs w' s) = rx_frame_of (rx_buffer\<lparr> skb_mem := mem \<rparr>)"
        by (rule rx_frame_of_mem) (simp add: w')
      ultimately show ?thesis by (simp add: rx_waiting_def at Let_def s_def)
    qed
    moreover have "rx_kept b ch w ?ch w'"
      using i by (auto simp: rx_kept_def rx_bufs_def at w' s_def)
    ultimately show ?thesis using True by (simp add: w')
  qed
  from all show "rx_inv b h (if d < ?n then Suc d else d) (dxe_ch w' c) w'"
    "rx_waiting b h (if d < ?n then Suc d else d) (dxe_ch w' c) w' =
      rx_waiting b h d ch w @ (if d < ?n then [(s, rx_frame_of (rx_buffer\<lparr> skb_mem := mem \<rparr>))] else [])"
    "rx_kept b ch w (dxe_ch w' c) w'" "data_frame w w'" "\<forall>c'. c' \<noteq> c \<longrightarrow> dxe_ch w' c' = dxe_ch w c'"
    "ch_ch_type (dxe_ch w' c) = ch_ch_type ch" "klog w' = klog w" "dma_mem w' = dma_mem w" by blast+
qed

end
