(* ===== verification/Device.thy ===== *)
theory Device
  imports Life_Cycle Dxe_Flow
begin

text \<open>
  The running device as a whole: mac80211's operations, the frames it hands over, the two interrupts, the
  indications of the firmware and the engine's own work, in any order. The state is related to four
  queues of frames, two for transmission and two for reception; every event is shown to run without a
  fault and to do to the queues what its part of the data path is for.
\<close>

section \<open>Events\<close>

text \<open>A socket buffer of mac80211 with a new frame; the number is one the driver has not seen.\<close>

definition hand_over :: "sk_buff \<Rightarrow> wcn36xx \<Rightarrow> wcn36xx" where
  "hand_over buf w = w\<lparr> skbs := (skbs w)(skb_brk w := buf), skb_brk := Suc (skb_brk w) \<rparr>"

datatype device_event =
    Mac_call mac_op                                  (* an operation of mac80211, an indication, its work *)
  | Send "nat option" sk_buff                        (* wcn36xx_tx *)
  | Tx_irq | Rx_irq                                  (* the interrupt handlers *)
  | Engine_sent bool                                 (* the engine finishes a descriptor of a transmit ring *)
  | Engine_filled wcn36xx_dxe_ch_type "u8 list"      (* the engine fills a buffer of a receive ring *)

fun run_event :: "platform \<Rightarrow> device_event \<Rightarrow> wcn36xx \<Rightarrow> wcn36xx option" where
  "run_event P (Mac_call c) w = run_mac P c w"
| "run_event P (Send sp buf) w = wcn36xx_tx P sp (skb_brk w) (hand_over buf w)"
| "run_event P Tx_irq w = wcn36xx_irq_tx_complete P w"
| "run_event P Rx_irq w = wcn36xx_irq_rx_ready P w"
| "run_event P (Engine_sent is_low) w = Some (dma_done (tx_chan is_low) w)"
| "run_event P (Engine_filled c mem) w = Some (dma_fill c mem w)"

abbreviation (input) low_frame :: "platform \<Rightarrow> sk_buff \<Rightarrow> bool" where
  "low_frame P buf \<equiv> p_is_data P (frame_control (skb_bytes buf))"

text \<open>What is asked of the others: mac80211 keeps its promises and transmits for interfaces and
  stations the driver knows; the firmware delimits a frame inside the buffer it fills.\<close>

fun event_ok :: "platform \<Rightarrow> device_event \<Rightarrow> wcn36xx \<Rightarrow> bool" where
  "event_ok P (Mac_call c) w = mac_op_ok c w"
| "event_ok P (Send sp buf) w = tx_vif_known w sp (low_frame P buf) (skb_bytes buf)"
| "event_ok P (Engine_filled c mem) w = (c \<in> {WCN36XX_DXE_CH_RX_L, WCN36XX_DXE_CH_RX_H} \<and> mem_fits mem)"
| "event_ok P _ w = True"

section \<open>Queues\<close>

text \<open>For transmission, the frames handed over on each channel and the number of their descriptors the engine has
  finished, two for each frame; for reception, the buffers filled on each channel with the frames in them.\<close>

record frame_queues =
  q_tx :: "bool \<Rightarrow> nat list"
  q_sent :: "bool \<Rightarrow> nat"
  q_rx :: "wcn36xx_dxe_ch_type \<Rightarrow> (nat \<times> u8 list) list"

definition finished :: "bool \<Rightarrow> frame_queues \<Rightarrow> nat list" where
  "finished is_low Q = take (q_sent Q is_low div 2) (q_tx Q is_low)"

definition complete :: "bool \<Rightarrow> frame_queues \<Rightarrow> frame_queues" where
  "complete is_low Q = Q\<lparr> q_tx := (q_tx Q)(is_low := drop (q_sent Q is_low div 2) (q_tx Q is_low)),
     q_sent := (q_sent Q)(is_low := q_sent Q is_low mod 2) \<rparr>"

text \<open>Whether the interrupt register names a channel when it is read after the trace \<open>l\<close>.\<close>

abbreviation (input) raised :: "platform \<Rightarrow> kevent list \<Rightarrow> wcn36xx_dxe_ch_type \<Rightarrow> bool" where
  "raised P l c \<equiv> p_readl P l (reg_addr WCN36XX_DXE_INT_SRC_RAW_REG) AND INT_MASK_CHAN c \<noteq> 0"

abbreviation rx_chans :: "wcn36xx_dxe_ch_type set" where
  "rx_chans \<equiv> {WCN36XX_DXE_CH_RX_L, WCN36XX_DXE_CH_RX_H}"

text \<open>The abstract effect of an event that takes the driver from \<open>w\<close> to \<open>w'\<close>. A frame handed over is queued
  when its channel has room and the driver can follow its status, and freed at once otherwise. The
  engine finishes one descriptor more, as long as there is one. The transmit interrupt takes the finished frames
  off the queues of the channels that raised it and frees those that want no status. The engine
  appends to a receive queue with a free block, the receive interrupt delivers the whole queues of the channels
  that raised it.\<close>

fun effect :: "platform \<Rightarrow> device_event \<Rightarrow> wcn36xx \<Rightarrow> wcn36xx \<Rightarrow> frame_queues \<Rightarrow> frame_queues \<Rightarrow> bool" where
  "effect P (Mac_call c) w w' Q Q' \<longleftrightarrow> Q' = Q"
| "effect P (Send sp buf) w w' Q Q' \<longleftrightarrow>
     (let is_low = low_frame P buf; s = skb_brk w in
      if \<not> (IEEE80211_TX_CTL_REQ_TX_STATUS \<in> skb_cb_flags buf \<and> tx_ack_skb w \<noteq> None) \<and>
         length (q_tx Q is_low) < DXE_CH_DESC_NUMB (tx_chan is_low) div 2
      then Q' = Q\<lparr> q_tx := (q_tx Q)(is_low := q_tx Q is_low @ [s]) \<rparr> \<and> tx_freed (klog w') = tx_freed (klog w)
      else Q' = Q \<and> tx_freed (klog w') = tx_freed (klog w) @ [s])"
| "effect P Tx_irq w w' Q Q' \<longleftrightarrow>
     (let on = (\<lambda>is_low. raised P (klog w) (tx_chan is_low)) in
      Q' = (if on True then complete True else id) ((if on False then complete False else id) Q) \<and>
      tx_freed (klog w') = tx_freed (klog w) @
        filter (\<lambda>s. s \<notin> waits_status w) (concat (map (\<lambda>is_low. finished is_low Q) (filter on [False, True]))))"
| "effect P Rx_irq w w' Q Q' \<longleftrightarrow>
     (let on = raised P (DisableIrq (rx_irq w) # klog w) in
      Q' = Q\<lparr> q_rx := (\<lambda>c. if c \<in> rx_chans \<and> on c then [] else q_rx Q c) \<rparr> \<and>
      rx_delivered (klog w') = rx_delivered (klog w) @
        concat (map (q_rx Q) (filter on [WCN36XX_DXE_CH_RX_L, WCN36XX_DXE_CH_RX_H])))"
| "effect P (Engine_sent is_low) w w' Q Q' \<longleftrightarrow>
     Q' = Q\<lparr> q_sent := (q_sent Q)(is_low :=
       (if q_sent Q is_low < 2 * length (q_tx Q is_low) then Suc (q_sent Q is_low) else q_sent Q is_low)) \<rparr>"
| "effect P (Engine_filled c mem) w w' Q Q' \<longleftrightarrow>
     (if length (q_rx Q c) < DXE_CH_DESC_NUMB c
      then \<exists>s. Q' = Q\<lparr> q_rx := (q_rx Q)(c := q_rx Q c @ [(s, rx_frame_of (rx_buffer\<lparr> skb_mem := mem \<rparr>))]) \<rparr>
      else Q' = Q)"

section \<open>The invariant\<close>

definition tx_side :: "wcn36xx_dxe_mem_pool \<Rightarrow> nat \<Rightarrow> wcn36xx_dxe_ch \<Rightarrow> nat list \<Rightarrow> nat \<Rightarrow> bool" where
  "tx_side pool b ch q D \<longleftrightarrow> (\<exists>t k d. tx_inv b t k d ch \<and> D = d + t mod 2) \<and> tx_bds pool b ch \<and> tx_pending ch = q"

definition rx_side :: "nat \<Rightarrow> wcn36xx_dxe_ch_type \<Rightarrow> wcn36xx \<Rightarrow> (nat \<times> u8 list) list \<Rightarrow> bool" where
  "rx_side b c w q \<longleftrightarrow> ch_ch_type (dxe_ch w c) = c \<and>
     (\<exists>h d. rx_inv b h d (dxe_ch w c) w \<and> rx_waiting b h d (dxe_ch w c) w = q)"

text \<open>What no event touches: the DMA memory but for the two pools at \<open>m\<close> and \<open>d\<close>, the calibration image,
  the next address to hand out.\<close>

definition device_rest :: "nat \<Rightarrow> nat \<Rightarrow> wcn36xx \<Rightarrow> (nat \<Rightarrow> u8 list option) \<times> u8 list option \<times> nat" where
  "device_rest m d w = ((dma_mem w)(m := None, d := None), nv w, dma_brk w)"

definition device_inv :: "(wcn36xx_dxe_ch_type \<Rightarrow> nat) \<Rightarrow> nat \<Rightarrow> nat \<Rightarrow> (nat \<Rightarrow> u8 list option) \<times> u8 list option \<times> nat \<Rightarrow>
    frame_queues \<Rightarrow> wcn36xx \<Rightarrow> bool" where
  "device_inv B m d K Q w \<longleftrightarrow> hal_ready w \<and> pools_live m d w \<and> device_rest m d w = K \<and>
     (\<forall>c. ch_desc_num (dxe_ch w c) = DXE_CH_DESC_NUMB c) \<and>
     (\<forall>is_low. tx_side (tx_pool is_low w) (B (tx_chan is_low)) (dxe_ch w (tx_chan is_low)) (q_tx Q is_low) (q_sent Q is_low)) \<and>
     (\<forall>c \<in> rx_chans. rx_side (B c) c w (q_rx Q c)) \<and> rx_apart B w"

lemma device_invD:
  assumes "device_inv B m d K Q w"
  shows "hal_ready w" "pools_live m d w" "ch_desc_num (dxe_ch w c) = DXE_CH_DESC_NUMB c"
    "tx_side (tx_pool is_low w) (B (tx_chan is_low)) (dxe_ch w (tx_chan is_low)) (q_tx Q is_low) (q_sent Q is_low)"
    "c \<in> rx_chans \<Longrightarrow> rx_side (B c) c w (q_rx Q c)" "rx_apart B w" "device_rest m d w = K"
  using assms unfolding device_inv_def by blast+

lemma tx_chan_not_rx [simp]: "tx_chan b \<notin> rx_chans" "c \<in> rx_chans \<Longrightarrow> c \<noteq> tx_chan b"
  by (auto simp: tx_chan_def)

lemma tx_chan_eq [simp]: "tx_chan a = tx_chan b \<longleftrightarrow> a = b"
  by (simp add: tx_chan_def)

lemma hal_ready_data_frame: "data_frame w w' \<Longrightarrow> hal_ready w' = hal_ready w"
  by (simp add: hal_ready_def ind_inv_def ssids_ok_def data_frame_fields)

lemma pools_live_data_frame: "data_frame w w' \<Longrightarrow> pools_live m d w' = pools_live m d w"
  by (simp add: pools_live_def data_frame_fields)

lemma tx_pool_data_frame: "data_frame w w' \<Longrightarrow> tx_pool is_low w' = tx_pool is_low w"
  by (simp add: tx_pool_def data_frame_fields)

lemma device_rest_data_frame:
  "data_frame w w' \<Longrightarrow> \<forall>x. x \<noteq> m \<and> x \<noteq> d \<longrightarrow> dma_mem w' x = dma_mem w x \<Longrightarrow> device_rest m d w' = device_rest m d w"
  by (simp add: device_rest_def data_frame_fields fun_eq_iff)

lemma tx_inv_ring_on:
  assumes "tx_inv b t k d ch" shows "ring_on b ch"
proof -
  from assms have core: "tx_core b t k d ch" by (simp add: tx_inv_def)
  note sh = tx_core_shape [OF core]
  have n: "0 < ch_desc_num ch" using tx_shape_n [OF sh] by simp
  have "ctl_ring b ch"
    unfolding ctl_ring_def ctl_seg_def
  proof (intro conjI allI impI n)
    fix i assume i: "i < ch_desc_num ch"
    obtain c where "ch_mem ch (b + i) = Some c" "ctl_next c = Some (b + Suc i mod ch_desc_num ch)"
      by (rule tx_shape_block [OF sh i])
    with i show "\<exists>c. ch_mem ch (b + i) = Some c \<and> ctl_next c = (if Suc i < ch_desc_num ch then Some (b + Suc i) else Some b)"
      by (cases "Suc i = ch_desc_num ch") auto
  qed
  moreover have "ch_head ch = Some (b + (t + k) mod ch_desc_num ch)"
    using core by (simp add: tx_core_def Let_def)
  ultimately show ?thesis using n by (auto simp: ring_on_def)
qed

lemma rx_inv_ring_on: "rx_inv b h d ch w \<Longrightarrow> ring_on b ch"
  using rx_core_facts(1,2) by (auto simp: rx_inv_def ring_on_def intro: rx_shape_ring)

lemma device_rings_at:
  assumes "device_inv B m d K Q w" shows "rings_at B w"
proof -
  have "ring_on (B (tx_chan is_low)) (dxe_ch w (tx_chan is_low))" for is_low
    using device_invD(4) [OF assms] tx_inv_ring_on unfolding tx_side_def by blast
  moreover have "ring_on (B c) (dxe_ch w c)" if "c \<in> rx_chans" for c
    using device_invD(5) [OF assms that] rx_inv_ring_on unfolding rx_side_def by blast
  ultimately have "ring_on (B c) (dxe_ch w c)" for c
    by (cases c) (metis tx_chan_def insertCI)+
  with assms show ?thesis by (simp add: rings_at_def device_inv_def)
qed

text \<open>A receive ring that is left alone keeps its queue when its buffers keep their memory.\<close>

lemma skb_view_facts:
  "skb_view s = skb_view s' \<Longrightarrow> skb_empty s = skb_empty s' \<and> rx_fits s = rx_fits s' \<and> rx_frame_of s = rx_frame_of s'"
  using rx_frame_of_mem [of s s'] by (simp add: skb_view_def skb_empty_def rx_fits_mem(2))

lemma rx_bufs_below: "rx_inv b h d ch w \<Longrightarrow> x \<in> rx_bufs b ch \<Longrightarrow> x < skb_brk w"
  by (auto simp: rx_inv_def rx_core_def Let_def rx_bufs_def)

lemma rx_side_keep:
  assumes q: "rx_side b c w q" and ch: "dxe_ch w' c = dxe_ch w c" and brk: "skb_brk w \<le> skb_brk w'"
    and same: "\<forall>x \<in> rx_bufs b (dxe_ch w c). skb_view (skbs w' x) = skb_view (skbs w x)"
  shows "rx_side b c w' q"
proof -
  from q obtain h d where inv: "rx_inv b h d (dxe_ch w c) w" "rx_waiting b h d (dxe_ch w c) w = q"
    and ty: "ch_ch_type (dxe_ch w c) = c" unfolding rx_side_def by blast
  let ?ch = "dxe_ch w c" and ?n = "ch_desc_num (dxe_ch w c)"
  from inv(1) have core: "rx_core b h d ?ch w" by (simp add: rx_inv_def)
  have v: "skb_empty (skbs w' (rx_skb_at b ?ch i)) = skb_empty (skbs w (rx_skb_at b ?ch i))"
    "rx_fits (skbs w' (rx_skb_at b ?ch i)) = rx_fits (skbs w (rx_skb_at b ?ch i))"
    "rx_frame_of (skbs w' (rx_skb_at b ?ch i)) = rx_frame_of (skbs w (rx_skb_at b ?ch i))" if "i < ?n" for i
  proof -
    have "rx_skb_at b ?ch i \<in> rx_bufs b ?ch" using that by (simp add: rx_bufs_def)
    with same have "skb_view (skbs w' (rx_skb_at b ?ch i)) = skb_view (skbs w (rx_skb_at b ?ch i))" by blast
    from skb_view_facts [OF this] show
      "skb_empty (skbs w' (rx_skb_at b ?ch i)) = skb_empty (skbs w (rx_skb_at b ?ch i))"
      "rx_fits (skbs w' (rx_skb_at b ?ch i)) = rx_fits (skbs w (rx_skb_at b ?ch i))"
      "rx_frame_of (skbs w' (rx_skb_at b ?ch i)) = rx_frame_of (skbs w (rx_skb_at b ?ch i))" by simp_all
  qed
  have pos: "(h + j) mod ?n < ?n" for j using rx_core_facts(2) [OF core] by simp
  have "rx_core b h d ?ch w'"
    using core v(1) v(2) [OF pos] brk unfolding rx_core_def Let_def by (auto intro: less_le_trans)
  moreover have "rx_waiting b h d ?ch w' = rx_waiting b h d ?ch w"
    by (simp add: rx_waiting_def Let_def v(3) [OF pos])
  ultimately show ?thesis using inv ty by (auto simp: rx_side_def rx_inv_def ch)
qed

lemma rx_apart_bufs:
  "rx_apart B w \<longleftrightarrow> rx_bufs (B WCN36XX_DXE_CH_RX_L) (dxe_ch w WCN36XX_DXE_CH_RX_L) \<inter>
     rx_bufs (B WCN36XX_DXE_CH_RX_H) (dxe_ch w WCN36XX_DXE_CH_RX_H) = {}"
proof -
  have "(\<forall>i<n. \<forall>j<k. f i \<noteq> g j) \<longleftrightarrow> f ` {0..<n} \<inter> g ` {0..<k} = {}" for f g :: "nat \<Rightarrow> nat" and n k
    by (fastforce simp: disjoint_iff image_iff)
  then show ?thesis unfolding rx_apart_def rx_bufs_def .
qed

text \<open>What an event on the transmit side leaves to show.\<close>

lemma device_inv_tx:
  assumes inv: "device_inv B m d K Q w" and fr: "data_frame w w'" and brk: "skb_brk w \<le> skb_brk w'"
    and rx: "\<forall>c \<in> rx_chans. dxe_ch w' c = dxe_ch w c"
    and same: "\<forall>x < skb_brk w. skb_view (skbs w' x) = skb_view (skbs w x)"
    and mem: "\<forall>x. x \<noteq> m \<and> x \<noteq> d \<longrightarrow> dma_mem w' x = dma_mem w x"
    and tx: "\<And>is_low. tx_side (tx_pool is_low w) (B (tx_chan is_low)) (dxe_ch w' (tx_chan is_low)) (q is_low) (D is_low) \<and>
      ch_desc_num (dxe_ch w' (tx_chan is_low)) = ch_desc_num (dxe_ch w (tx_chan is_low))"
  shows "device_inv B m d K (Q\<lparr> q_tx := q, q_sent := D \<rparr>) w'"
proof -
  have "rx_side (B c) c w' (q_rx Q c)" if c: "c \<in> rx_chans" for c
  proof (rule rx_side_keep)
    show side: "rx_side (B c) c w (q_rx Q c)" by (rule device_invD(5) [OF inv c])
    then show "\<forall>x \<in> rx_bufs (B c) (dxe_ch w c). skb_view (skbs w' x) = skb_view (skbs w x)"
      using same rx_bufs_below by (fastforce simp: rx_side_def)
  qed (use rx c brk in auto)
  moreover have "ch_desc_num (dxe_ch w' c) = DXE_CH_DESC_NUMB c" for c
    using inv rx tx [of True] tx [of False] by (cases c) (auto simp: device_inv_def tx_chan_def)
  moreover have "rx_apart B w'" using inv rx by (simp add: device_inv_def rx_apart_def)
  ultimately show ?thesis
    using inv tx by (simp add: device_inv_def hal_ready_data_frame [OF fr] pools_live_data_frame [OF fr] tx_pool_data_frame [OF fr]
        device_rest_data_frame [OF fr mem])
qed

section \<open>The events, one by one\<close>

lemma tx_side_same_bds:
  assumes "tx_side pool b ch q D" and "same_bds ch ch'" and "tx_inv b t k d ch'"
  shows "tx_side pool b ch' (tx_pending ch') (d + t mod 2)"
proof -
  from assms(1) have "tx_shape b ch" "tx_bds pool b ch"
    unfolding tx_side_def tx_inv_def using tx_core_shape by blast+
  with same_bds_keeps assms(2,3) show ?thesis unfolding tx_side_def by blast
qed

lemma tx_event_inv:
  assumes inv: "device_inv B m d K Q w" and fr: "data_frame w w'" and brk: "skb_brk w' = skb_brk w" and sk: "skbs w' = skbs w"
    and mem: "\<forall>x. x \<noteq> m \<and> x \<noteq> d \<longrightarrow> dma_mem w' x = dma_mem w x"
    and only: "\<forall>c. c \<noteq> tx_chan is_low \<longrightarrow> dxe_ch w' c = dxe_ch w c"
    and tx: "tx_inv (B (tx_chan is_low)) t k dn (dxe_ch w' (tx_chan is_low))"
      "same_bds (dxe_ch w (tx_chan is_low)) (dxe_ch w' (tx_chan is_low))"
  shows "device_inv B m d K (Q\<lparr> q_tx := (q_tx Q)(is_low := tx_pending (dxe_ch w' (tx_chan is_low))),
    q_sent := (q_sent Q)(is_low := dn + t mod 2) \<rparr>) w'"
proof (rule device_inv_tx [OF inv fr])
  show "\<forall>c \<in> rx_chans. dxe_ch w' c = dxe_ch w c" using only tx_chan_not_rx(2) by blast
next
  fix low
  show "tx_side (tx_pool low w) (B (tx_chan low)) (dxe_ch w' (tx_chan low)) (((q_tx Q)(is_low := tx_pending (dxe_ch w' (tx_chan is_low)))) low)
        (((q_sent Q)(is_low := dn + t mod 2)) low) \<and>
      ch_desc_num (dxe_ch w' (tx_chan low)) = ch_desc_num (dxe_ch w (tx_chan low))"
  proof (cases "low = is_low")
    case True
    with tx_side_same_bds [OF device_invD(4) [OF inv] tx(2,1)] tx(2) show ?thesis by (simp add: same_bds_def)
  next
    case False
    with only device_invD(4) [OF inv, of low] show ?thesis by simp
  qed
qed (simp_all add: brk sk mem)

lemma rx_event_inv:
  assumes inv: "device_inv B m d K Q w" and c: "c \<in> rx_chans" and fr: "data_frame w w'"
    and kept: "rx_kept (B c) (dxe_ch w c) w (dxe_ch w' c) w'" and only: "\<forall>c'. c' \<noteq> c \<longrightarrow> dxe_ch w' c' = dxe_ch w c'"
    and mem: "dma_mem w' = dma_mem w" and side: "rx_side (B c) c w' q"
  shows "device_inv B m d K (Q\<lparr> q_rx := (q_rx Q)(c := q) \<rparr>) w'"
proof -
  have other: "rx_bufs (B c') (dxe_ch w c') \<inter> rx_bufs (B c) (dxe_ch w c) = {}" if "c' \<in> rx_chans" "c' \<noteq> c" for c'
    using device_invD(6) [OF inv] that c unfolding rx_apart_bufs by blast
  have below: "x < skb_brk w" if "x \<in> rx_bufs (B c') (dxe_ch w c')" "c' \<in> rx_chans" for x c'
    using device_invD(5) [OF inv that(2)] that(1) rx_bufs_below unfolding rx_side_def by blast
  have rx: "rx_side (B c') c' w' (if c' = c then q else q_rx Q c')" if c': "c' \<in> rx_chans" for c'
  proof (cases "c' = c")
    case False
    have "rx_side (B c') c' w' (q_rx Q c')"
    proof (rule rx_side_keep [OF device_invD(5) [OF inv c']])
      show "\<forall>x \<in> rx_bufs (B c') (dxe_ch w c'). skb_view (skbs w' x) = skb_view (skbs w x)"
        using kept other [OF c' False] below c' unfolding rx_kept_def by (metis disjoint_iff)
    qed (use only False kept in \<open>simp_all add: rx_kept_def\<close>)
    with False show ?thesis by simp
  qed (use side in simp)
  have tx: "dxe_ch w' (tx_chan is_low) = dxe_ch w (tx_chan is_low)" for is_low
    using only c tx_chan_not_rx(2) by metis
  have sub: "rx_bufs (B c) (dxe_ch w' c) \<subseteq> rx_bufs (B c) (dxe_ch w c) \<union> {skb_brk w..}"
    using kept by (simp add: rx_kept_def)
  have apart: "rx_bufs (B c') (dxe_ch w' c') \<inter> rx_bufs (B c) (dxe_ch w' c) = {}" if "c' \<in> rx_chans" "c' \<noteq> c" for c'
  proof -
    have "dxe_ch w' c' = dxe_ch w c'" using only that(2) by blast
    with other [OF that] sub below [OF _ that(1)] show ?thesis by fastforce
  qed
  have "rx_apart B w'"
    using apart [of WCN36XX_DXE_CH_RX_L] apart [of WCN36XX_DXE_CH_RX_H] c unfolding rx_apart_bufs by auto
  moreover have "ch_desc_num (dxe_ch w' c') = DXE_CH_DESC_NUMB c'" for c'
    using device_invD(3) [OF inv, of c'] only kept by (cases "c' = c") (simp_all add: rx_kept_def)
  ultimately show ?thesis
    using rx device_invD(1,2) [OF inv] device_invD(4) [OF inv]
    by (simp add: device_inv_def hal_ready_data_frame [OF fr] pools_live_data_frame [OF fr] tx_pool_data_frame [OF fr] tx
      device_rest_data_frame [OF fr] mem device_invD(7) [OF inv])
qed

lemma tx_side_inv:
  assumes "device_inv B m d K Q w"
  obtains t k dn where "tx_inv (B (tx_chan is_low)) t k dn (dxe_ch w (tx_chan is_low))"
    "tx_pending (dxe_ch w (tx_chan is_low)) = q_tx Q is_low" "q_sent Q is_low = dn + t mod 2"
  using device_invD(4) [OF assms, of is_low] unfolding tx_side_def by blast

text \<open>The next buffer descriptor lies in the pool.\<close>

lemma next_bd_in_pool:
  assumes inv: "device_inv B m d K Q w"
  obtains a off buf where "wcn36xx_dxe_get_next_bd w is_low = Some (Some (a, off))" "dma_mem w a = Some buf" "off + 40 \<le> length buf" "a = m \<or> a = d"
proof -
  let ?ch = "dxe_ch w (tx_chan is_low)" and ?b = "B (tx_chan is_low)" and ?p = "tx_pool is_low w"
  obtain t k dn where tx: "tx_inv ?b t k dn ?ch" by (rule tx_side_inv [OF inv])
  then have core: "tx_core ?b t k dn ?ch" by (simp add: tx_inv_def)
  let ?h = "(t + k) mod ch_desc_num ?ch"
  note sh = tx_core_shape [OF core] and n = tx_shape_n [OF tx_core_shape [OF core]]
  have h: "?h < ch_desc_num ?ch" "even ?h" "ch_head ?ch = Some (?b + ?h)"
    using core n by (auto simp: tx_core_def Let_def dvd_mod_iff)
  obtain c where c: "ch_mem ?ch (?b + ?h) = Some c" "ring_ctl ?b ?ch ?h = c" by (rule tx_shape_block [OF sh h(1)])
  have bds: "tx_bds ?p ?b ?ch" using device_invD(4) [OF inv, of is_low] by (simp add: tx_side_def)
  have nx: "wcn36xx_dxe_get_next_bd w is_low = Some (Some (the (pool_virt_addr ?p), ?h div 2 * pool_chunk_size ?p))"
  proof -
    have "ctl_bd_cpu_addr (ring_ctl ?b ?ch ?h) = Some (the (pool_virt_addr ?p), ?h div 2 * pool_chunk_size ?p)"
      using bds h(1,2) by (simp add: tx_bds_def)
    then have "ctl_bd_cpu_addr c = Some (the (pool_virt_addr ?p), ?h div 2 * pool_chunk_size ?p)" by (simp only: c(2))
    with h(3) c(1) show ?thesis by (simp add: wcn36xx_dxe_get_next_bd_def Let_def ctl_at_def)
  qed
  have num: "ch_desc_num ?ch = DXE_CH_DESC_NUMB (tx_chan is_low)" by (rule device_invD(3) [OF inv])
  from device_invD(2) [OF inv] obtain buf where buf: "dma_mem w (the (pool_virt_addr ?p)) = Some buf"
    "length buf = pool_chunk * DXE_CH_DESC_NUMB (tx_chan is_low)" "pool_chunk_size ?p = pool_chunk" "pool_virt_addr ?p = Some m \<or> pool_virt_addr ?p = Some d"
    by (cases is_low) (auto simp: pools_live_def tx_pool_def tx_chan_def)
  have chunk: "40 \<le> pool_chunk" by (simp add: pool_chunk_def)
  have "Suc (?h div 2) * pool_chunk \<le> DXE_CH_DESC_NUMB (tx_chan is_low) * pool_chunk"
    using h(1) num by (intro mult_le_mono1) linarith
  then have "?h div 2 * pool_chunk + 40 \<le> length buf" using chunk by (simp add: buf(2) mult.commute)
  moreover have "the (pool_virt_addr ?p) = m \<or> the (pool_virt_addr ?p) = d" using buf(4) by auto
  ultimately show ?thesis
    using nx buf(1-3) by (intro that [of "the (pool_virt_addr ?p)" "?h div 2 * pool_chunk" buf]) simp_all
qed

lemma hand_over_inv:
  assumes inv: "device_inv B m d K Q w" shows "device_inv B m d K Q (hand_over buf w)"
proof -
  have "device_inv B m d K (Q\<lparr> q_tx := q_tx Q, q_sent := q_sent Q \<rparr>) (hand_over buf w)"
    by (rule device_inv_tx [OF inv]) (simp_all add: hand_over_def device_invD(4) [OF inv])
  then show ?thesis by simp
qed

lemma q_sent_same: "q_sent Q l = D \<Longrightarrow> Q\<lparr> q_tx := f, q_sent := (q_sent Q)(l := D) \<rparr> = Q\<lparr> q_tx := f \<rparr>"
  by (cases Q) auto

lemma send_ok:
  assumes inv: "device_inv B m d K Q w" and known: "tx_vif_known w sp (low_frame P buf) (skb_bytes buf)"
  shows "\<exists>w' Q'. run_event P (Send sp buf) w = Some w' \<and> device_inv B m d K Q' w' \<and> effect P (Send sp buf) w w' Q Q'"
proof -
  let ?s = "skb_brk w" and ?w = "hand_over buf w" and ?low = "low_frame P buf"
  let ?c = "tx_chan ?low"
  note inv1 = hand_over_inv [OF inv, of buf]
  have w: "skbs ?w ?s = buf" "dxe_ch ?w = dxe_ch w" "tx_ack_skb ?w = tx_ack_skb w" "klog ?w = klog w"
    by (simp_all add: hand_over_def)
  have known1: "tx_vif_known ?w sp (skb_is_low P ?w ?s) (skb_bytes (skbs ?w ?s))"
    using known tx_vif_known_cong [of ?w w] by (simp add: hand_over_def)
  obtain t k dn where tx: "tx_inv (B ?c) t k dn (dxe_ch ?w ?c)" "tx_pending (dxe_ch ?w ?c) = q_tx Q ?low" "q_sent Q ?low = dn + t mod 2"
    by (rule tx_side_inv [OF inv1])
  obtain a off mem where bd: "wcn36xx_dxe_get_next_bd ?w ?low = Some (Some (a, off))" "dma_mem ?w a = Some mem" "off + 40 \<le> length mem"
    "a = m \<or> a = d"
    by (rule next_bd_in_pool [OF inv1])
  let ?taken = "IEEE80211_TX_CTL_REQ_TX_STATUS \<in> skb_cb_flags buf \<and> tx_ack_skb w \<noteq> None"
  let ?room = "length (q_tx Q ?low) < DXE_CH_DESC_NUMB ?c div 2"
  have num: "ch_desc_num (dxe_ch ?w ?c) = DXE_CH_DESC_NUMB ?c" by (rule device_invD(3) [OF inv1])
  obtain w1 k' where 1: "wcn36xx_start_tx P sp ?s ?w = Some (if ?taken then - EINVAL else if ?room then 0 else - EBUSY, w1)"
    "data_frame ?w w1" "skbs w1 = skbs ?w" "skb_brk w1 = skb_brk ?w" "tx_freed (klog w1) = tx_freed (klog w)"
    "\<forall>c. c \<noteq> ?c \<longrightarrow> dxe_ch w1 c = dxe_ch ?w c" "\<forall>x. x \<noteq> a \<longrightarrow> dma_mem w1 x = dma_mem ?w x" "tx_inv (B ?c) t k' dn (dxe_ch w1 ?c)" "same_bds (dxe_ch ?w ?c) (dxe_ch w1 ?c)"
    "tx_pending (dxe_ch w1 ?c) = q_tx Q ?low @ (if \<not> ?taken \<and> ?room then [?s] else [])"
    using start_tx_cases [of ?w sp P ?s "B ?c" t k dn a off mem] known1 tx(1,2) bd(1-3) w num by (metis (no_types, lifting))
  let ?Q = "Q\<lparr> q_tx := (q_tx Q)(?low := tx_pending (dxe_ch w1 ?c)) \<rparr>"
  have "\<forall>x. x \<noteq> m \<and> x \<noteq> d \<longrightarrow> dma_mem w1 x = dma_mem ?w x" using 1(7) bd(4) by blast
  note inv2 = tx_event_inv [OF inv1 1(2,4,3) this 1(6,8,9), unfolded q_sent_same [OF tx(3)]]
  let ?w2 = "if \<not> ?taken \<and> ?room then w1 else emit (FreeTxSkb ?s) w1"
  have run: "run_event P (Send sp buf) w = Some ?w2"
    using 1(1) by (auto simp: wcn36xx_tx_def)
  have "device_inv B m d K ?Q (emit (FreeTxSkb ?s) w1)"
    using device_inv_tx [OF inv2, of "emit (FreeTxSkb ?s) w1" "q_tx ?Q" "q_sent ?Q"] device_invD(4) [OF inv2] by simp
  with inv2 have "device_inv B m d K ?Q ?w2" by simp
  moreover have "effect P (Send sp buf) w ?w2 Q ?Q"
    using 1(5,10) by (simp add: Let_def)
  ultimately show ?thesis using run by blast
qed

lemma device_inv_emit [simp]: "device_inv B m d K Q (emit e w) = device_inv B m d K Q w"
  by (simp add: device_inv_def device_rest_def pools_live_def tx_pool_def rx_apart_def rx_side_def rx_inv_def rx_core_def rx_waiting_def Let_def)

lemma reg_access:
  "wcn36xx_dxe_read_register P a w = (p_readl P (klog w) a, emit (RegRead a) w)"
  "wcn36xx_dxe_write_register a v w = emit (RegWrite a v) w"
  by (simp_all add: wcn36xx_dxe_read_register_def wcn36xx_dxe_write_register_def)

lemma waits_status_emit [simp]: "waits_status (emit e w) = waits_status w"
  by (simp add: waits_status_def)

lemma reap_ok:
  assumes inv: "device_inv B m d K Q w"
  obtains w' where "reap_tx_dxes (tx_chan is_low) w = Some w'" "device_inv B m d K (complete is_low Q) w'"
    "waits_status w' = waits_status w"
    "tx_freed (klog w') = tx_freed (klog w) @ filter (\<lambda>s. s \<notin> waits_status w) (finished is_low Q)"
proof -
  let ?c = "tx_chan is_low"
  obtain t k dn where tx: "tx_inv (B ?c) t k dn (dxe_ch w ?c)" "tx_pending (dxe_ch w ?c) = q_tx Q is_low"
    "q_sent Q is_low = dn + t mod 2" by (rule tx_side_inv [OF inv])
  obtain w1 ch' l where r: "reap_tx_dxes ?c w = Some (set_ch ?c ch' w1)"
    "tx_inv (B ?c) ((t + dn) mod ch_desc_num ch') (k - dn) 0 ch'" "reaped w w1 l" "tx_pending (dxe_ch w ?c) = l @ tx_pending ch'"
    "length l = (dn + t mod 2) div 2" by (rule reap_tx_dxes_ok [OF tx(1)])
  let ?w = "set_ch ?c ch' w1"
  note fr = reap_tx_dxes_frame [OF r(1)]
  have sk: "skbs ?w = skbs w" using r(3) by (simp add: reaped_def)
  have inv': "tx_inv (B ?c) ((t + dn) mod ch_desc_num ch') (k - dn) 0 (dxe_ch ?w ?c)" using r(2) by simp
  have "even (ch_desc_num ch')" using r(2) tx_shape_n [OF tx_core_shape] unfolding tx_inv_def by blast
  then have D: "(t + dn) mod ch_desc_num ch' mod 2 = q_sent Q is_low mod 2"
    by (simp add: tx(3) mod_mod_cancel) presburger
  have q: "l = finished is_low Q" "tx_pending ch' = drop (q_sent Q is_low div 2) (q_tx Q is_low)"
    using r(4,5) tx(2,3) by (simp_all add: finished_def)
  have "device_inv B m d K (Q\<lparr> q_tx := (q_tx Q)(is_low := tx_pending (dxe_ch ?w ?c)),
      q_sent := (q_sent Q)(is_low := 0 + (t + dn) mod ch_desc_num ch' mod 2) \<rparr>) ?w"
    by (rule tx_event_inv [OF inv fr(1,2) sk _ fr(4) inv' fr(3)]) (simp only: fr(5), blast)
  then have "device_inv B m d K (complete is_low Q) ?w" unfolding D by (simp add: complete_def q(2))
  with r(1,3) show ?thesis unfolding q(1)
    by (intro that [of ?w]) (simp_all add: reaped_def waits_status_def)
qed

lemma tx_complete_ch_ok:
  assumes inv: "device_inv B m d K Q w"
  obtains w' where "tx_complete_ch P (tx_chan is_low) w = Some w'" "device_inv B m d K (complete is_low Q) w'"
    "waits_status w' = waits_status w"
    "tx_freed (klog w') = tx_freed (klog w) @ filter (\<lambda>s. s \<notin> waits_status w) (finished is_low Q)"
proof -
  let ?w = "emit (RegWrite (reg_addr WCN36XX_DXE_0_INT_ED_CLR) (INT_MASK_CHAN (tx_chan is_low)))
    (emit (RegWrite (reg_addr WCN36XX_DXE_0_INT_CLR) (INT_MASK_CHAN (tx_chan is_low)))
      (emit (RegRead (DXE_CH_STATUS_REG_ADDR (tx_chan is_low))) w))"
  have "device_inv B m d K Q ?w" using inv by simp
  from reap_ok [OF this, of is_low] obtain w' where "reap_tx_dxes (tx_chan is_low) ?w = Some w'"
    "device_inv B m d K (complete is_low Q) w'" "waits_status w' = waits_status ?w"
    "tx_freed (klog w') = tx_freed (klog ?w) @ filter (\<lambda>s. s \<notin> waits_status ?w) (finished is_low Q)" .
  then show ?thesis by (intro that [of w']) (simp_all add: tx_complete_ch_def reg_access)
qed

lemma complete_other: "a \<noteq> b \<Longrightarrow> finished a (complete b Q) = finished a Q"
  by (simp add: finished_def complete_def)

lemma tx_irq_ok:
  assumes inv: "device_inv B m d K Q w"
  shows "\<exists>w' Q'. run_event P Tx_irq w = Some w' \<and> device_inv B m d K Q' w' \<and> effect P Tx_irq w w' Q Q'"
proof -
  let ?w = "emit (RegRead (reg_addr WCN36XX_DXE_INT_SRC_RAW_REG)) w"
    and ?src = "p_readl P (klog w) (reg_addr WCN36XX_DXE_INT_SRC_RAW_REG)"
  have inv0: "device_inv B m d K Q ?w" using inv by simp
  define part where "part is_low v = (if ?src AND INT_MASK_CHAN (tx_chan is_low) \<noteq> 0 then tx_complete_ch P (tx_chan is_low) v else Some v)"
    for is_low v
  let ?on = "\<lambda>is_low. ?src AND INT_MASK_CHAN (tx_chan is_low) \<noteq> 0"
  have part: "\<exists>v'. part is_low v = Some v' \<and> device_inv B m d K ((if ?on is_low then complete is_low else id) R) v' \<and>
      waits_status v' = waits_status v \<and>
      tx_freed (klog v') = tx_freed (klog v) @ filter (\<lambda>s. s \<notin> waits_status v) (if ?on is_low then finished is_low R else [])"
    if v: "device_inv B m d K R v" for is_low v R
  proof (cases "?on is_low")
    case True
    then have "part is_low v = tx_complete_ch P (tx_chan is_low) v" by (simp add: part_def)
    moreover obtain v' where "tx_complete_ch P (tx_chan is_low) v = Some v'" "device_inv B m d K (complete is_low R) v'"
      "waits_status v' = waits_status v"
      "tx_freed (klog v') = tx_freed (klog v) @ filter (\<lambda>s. s \<notin> waits_status v) (finished is_low R)"
      by (rule tx_complete_ch_ok [OF v])
    ultimately show ?thesis using True by simp
  next
    case False
    with v show ?thesis by (intro exI [of _ v]) (simp add: part_def)
  qed
  let ?Q1 = "(if ?on False then complete False else id) Q" and ?ws = "waits_status w"
  from part [OF inv0, of False] obtain w1 where 1: "part False ?w = Some w1" "device_inv B m d K ?Q1 w1"
    "waits_status w1 = ?ws"
    "tx_freed (klog w1) = tx_freed (klog w) @ filter (\<lambda>s. s \<notin> ?ws) (if ?on False then finished False Q else [])"
    by (simp only: waits_status_emit) (auto simp del: tx_chan_def)
  from part [OF 1(2), of True] obtain w2 where 2: "part True w1 = Some w2"
    "device_inv B m d K ((if ?on True then complete True else id) ?Q1) w2"
    "tx_freed (klog w2) = tx_freed (klog w1) @ filter (\<lambda>s. s \<notin> ?ws) (if ?on True then finished True ?Q1 else [])"
    unfolding 1(3) by blast
  have "finished True ?Q1 = finished True Q" by (simp add: complete_other)
  then have "tx_freed (klog w2) = tx_freed (klog w) @
      filter (\<lambda>s. s \<notin> ?ws) (concat (map (\<lambda>is_low. finished is_low Q) (filter ?on [False, True])))"
    using 1(4) 2(3) by simp
  then have "effect P Tx_irq w w2 Q ((if ?on True then complete True else id) ?Q1)"
    unfolding effect.simps Let_def by blast
  moreover have "run_event P Tx_irq w = part False ?w \<bind> part True"
    by (simp add: wcn36xx_irq_tx_complete_def reg_access part_def [abs_def] tx_chan_def)
  ultimately show ?thesis using 1(1) 2(1,2) by auto
qed

lemma rx_channel_ok:
  assumes inv: "device_inv B m d K Q w" and c: "c \<in> rx_chans" and mem: "memory_ok P"
  obtains w' where "rx_channel P c src w = Some w'"
    "device_inv B m d K (if src AND INT_MASK_CHAN c \<noteq> 0 then Q\<lparr> q_rx := (q_rx Q)(c := []) \<rparr> else Q) w'"
    "rx_delivered (klog w') = rx_delivered (klog w) @ (if src AND INT_MASK_CHAN c \<noteq> 0 then q_rx Q c else [])"
proof (cases "src AND INT_MASK_CHAN c \<noteq> 0")
  case False
  with inv show ?thesis by (intro that [of w]) (simp_all add: rx_channel_def)
next
  case True
  let ?w = "emit (RegWrite (reg_addr WCN36XX_DXE_0_INT_CLR) (INT_MASK_CHAN c)) w"
  have inv0: "device_inv B m d K Q ?w" using inv by simp
  from device_invD(5) [OF inv0 c] obtain h dn where rx: "rx_inv (B c) h dn (dxe_ch ?w c) ?w"
    "rx_waiting (B c) h dn (dxe_ch ?w c) ?w = q_rx Q c" and ty: "ch_ch_type (dxe_ch ?w c) = c"
    unfolding rx_side_def by blast
  have alloc: "\<forall>l. p_alloc_skb P l \<noteq> None" using mem by (simp add: memory_ok_def)
  obtain w' h' where r: "wcn36xx_rx_handle_packets P c ?w = Some (0, w')" "rx_inv (B c) h' 0 (dxe_ch w' c) w'"
    "dxe_frame ?w w'" "rx_kept (B c) (dxe_ch ?w c) ?w (dxe_ch w' c) w'" "\<forall>c'. c' \<noteq> c \<longrightarrow> dxe_ch w' c' = dxe_ch ?w c'"
    "ch_ch_type (dxe_ch w' c) = ch_ch_type (dxe_ch ?w c)"
    "rx_delivered (klog w') = rx_delivered (klog ?w) @ rx_waiting (B c) h dn (dxe_ch ?w c) ?w"
    by (rule rx_packets_ok [OF rx(1) alloc])
  have "rx_side (B c) c w' []"
    unfolding rx_side_def using r(2,6) ty by (intro conjI exI [of _ h'] exI [of _ 0]) (simp_all add: rx_waiting_def)
  from rx_event_inv [OF inv0 c dxe_data_frame [OF r(3)] r(4,5) dxe_frame_fields(10) [OF r(3)] this] True r(1,7) rx(2) show ?thesis
    by (intro that [of w']) (simp_all add: rx_channel_def reg_access)
qed

lemma rx_irq_ok:
  assumes inv: "device_inv B m d K Q w" and mem: "memory_ok P"
  shows "\<exists>w' Q'. run_event P Rx_irq w = Some w' \<and> device_inv B m d K Q' w' \<and> effect P Rx_irq w w' Q Q'"
proof -
  let ?L = "WCN36XX_DXE_CH_RX_L" and ?H = "WCN36XX_DXE_CH_RX_H"
  let ?w = "emit (RegRead (reg_addr WCN36XX_DXE_INT_SRC_RAW_REG)) (emit (DisableIrq (rx_irq w)) w)"
    and ?src = "p_readl P (DisableIrq (rx_irq w) # klog w) (reg_addr WCN36XX_DXE_INT_SRC_RAW_REG)"
  have inv0: "device_inv B m d K Q ?w" using inv by simp
  define on where "on c \<longleftrightarrow> ?src AND INT_MASK_CHAN c \<noteq> 0" for c
  let ?Q1 = "if on ?L then Q\<lparr> q_rx := (q_rx Q)(?L := []) \<rparr> else Q"
  obtain w1 where 1: "rx_channel P ?L ?src ?w = Some w1" "device_inv B m d K ?Q1 w1"
    "rx_delivered (klog w1) = rx_delivered (klog ?w) @ (if on ?L then q_rx Q ?L else [])"
    by (rule rx_channel_ok [OF inv0 _ mem, of ?L ?src, folded on_def]) simp_all
  let ?Q2 = "if on ?H then ?Q1\<lparr> q_rx := (q_rx ?Q1)(?H := []) \<rparr> else ?Q1"
  obtain w2 where 2: "rx_channel P ?H ?src w1 = Some w2" "device_inv B m d K ?Q2 w2"
    "rx_delivered (klog w2) = rx_delivered (klog w1) @ (if on ?H then q_rx ?Q1 ?H else [])"
    by (rule rx_channel_ok [OF 1(2) _ mem, of ?H ?src, folded on_def]) simp_all
  let ?Q' = "Q\<lparr> q_rx := (\<lambda>c. if c \<in> rx_chans \<and> on c then [] else q_rx Q c) \<rparr>"
  have Q2: "?Q2 = ?Q'"
    by (cases Q; cases "on ?L"; cases "on ?H") (auto simp: fun_eq_iff)
  have "q_rx ?Q1 ?H = q_rx Q ?H" by simp
  then have dl: "rx_delivered (klog w2) = rx_delivered (klog w) @ concat (map (q_rx Q) (filter on [?L, ?H]))"
    using 1(3) 2(3) by simp
  have "on = (\<lambda>c. ?src AND INT_MASK_CHAN c \<noteq> 0)" by (simp add: on_def fun_eq_iff)
  with dl have "effect P Rx_irq w (emit (EnableIrq (rx_irq w2)) w2) Q ?Q'" by (simp add: Let_def)
  moreover have "run_event P Rx_irq w = Some (emit (EnableIrq (rx_irq w2)) w2)"
    using 1(1) 2(1) by (simp add: wcn36xx_irq_rx_ready_def wcn36xx_dxe_rx_frame_def reg_access)
  moreover have "device_inv B m d K ?Q' (emit (EnableIrq (rx_irq w2)) w2)"
    using 2(2) by (simp only: Q2 device_inv_emit)
  ultimately show ?thesis by blast
qed

lemma engine_filled_ok:
  assumes inv: "device_inv B m d K Q w" and c: "c \<in> rx_chans" and fits: "mem_fits mem"
  shows "\<exists>w' Q'. run_event P (Engine_filled c mem) w = Some w' \<and> device_inv B m d K Q' w' \<and> effect P (Engine_filled c mem) w w' Q Q'"
proof -
  let ?w = "dma_fill c mem w" and ?n = "DXE_CH_DESC_NUMB c"
  have n: "ch_desc_num (dxe_ch w c) = ?n" by (rule device_invD(3) [OF inv])
  from device_invD(5) [OF inv c] obtain h dn where rx: "rx_inv (B c) h dn (dxe_ch w c) w"
    "rx_waiting (B c) h dn (dxe_ch w c) w = q_rx Q c" and ty: "ch_ch_type (dxe_ch w c) = c"
    unfolding rx_side_def by blast
  note f = dma_fill_ok [OF rx(1) fits]
  have len: "dn = length (q_rx Q c)" using rx(2) by (simp add: rx_waiting_def flip: rx(2))
  let ?q = "rx_waiting (B c) h (if dn < ?n then Suc dn else dn) (dxe_ch ?w c) ?w"
  have "rx_side (B c) c ?w ?q"
    unfolding rx_side_def using f(1,6) ty n
    by (intro conjI exI [of _ h] exI [of _ "if dn < ?n then Suc dn else dn"]) simp_all
  from rx_event_inv [OF inv c f(4,3,5,8) this] have "device_inv B m d K (Q\<lparr> q_rx := (q_rx Q)(c := ?q) \<rparr>) ?w" .
  moreover have "effect P (Engine_filled c mem) w ?w Q (Q\<lparr> q_rx := (q_rx Q)(c := ?q) \<rparr>)"
    using f(2) len rx(2) n by auto
  ultimately show ?thesis by auto
qed

lemma engine_sent_ok:
  assumes inv: "device_inv B m d K Q w"
  shows "\<exists>w' Q'. run_event P (Engine_sent is_low) w = Some w' \<and> device_inv B m d K Q' w' \<and> effect P (Engine_sent is_low) w w' Q Q'"
proof -
  let ?c = "tx_chan is_low" and ?w = "dma_done (tx_chan is_low) w"
  obtain t k dn where tx: "tx_inv (B ?c) t k dn (dxe_ch w ?c)" "tx_pending (dxe_ch w ?c) = q_tx Q is_low"
    "q_sent Q is_low = dn + t mod 2" by (rule tx_side_inv [OF inv])
  note dd = dma_done_inv [OF tx(1)]
  have fr: "data_frame w ?w" "skb_brk ?w = skb_brk w" "skbs ?w = skbs w" "\<forall>c. c \<noteq> ?c \<longrightarrow> dxe_ch ?w c = dxe_ch w c"
    "same_bds (dxe_ch w ?c) (dxe_ch ?w ?c)" "dma_mem ?w = dma_mem w"
    by (simp_all add: dma_done_def Let_def split: option.split)
  let ?D = "(if dn < k then Suc dn else dn) + t mod 2"
  have "even (t + k)" using tx(1) tx_core_nums(4) unfolding tx_inv_def by blast
  then have "dn < k \<longleftrightarrow> dn + t mod 2 < 2 * ((k + t mod 2) div 2)" by presburger
  then have D: "?D = (if q_sent Q is_low < 2 * length (q_tx Q is_low) then Suc (q_sent Q is_low) else q_sent Q is_low)"
    using tx_pending_length [OF tx(1)] by (simp add: tx(3) flip: tx(2))
  have "device_inv B m d K (Q\<lparr> q_tx := (q_tx Q)(is_low := tx_pending (dxe_ch ?w ?c)), q_sent := (q_sent Q)(is_low := ?D) \<rparr>) ?w"
    by (rule tx_event_inv [OF inv fr(1-3) _ fr(4) dd(1) fr(5)]) (simp only: fr(6), blast)
  then show ?thesis unfolding D using dd(2) tx(2) by (simp del: if_split)
qed

lemma mac_call_ok:
  assumes inv: "device_inv B m d K Q w" and wf: "mac_wf P" and ok: "mac_op_ok c w"
  obtains w' where "run_mac P c w = Some w'" "device_inv B m d K Q w'"
proof -
  from run_mac_runs [OF wf device_invD(1) [OF inv] ok] obtain w' where 1: "run_mac P c w = Some w'" "hal_ready w'"
    "v_mac (mview w') = v_mac (mview w)" by (auto simp: runs_ok_def emits_def)
  then have f: "dxe_ch w' = dxe_ch w" "dma_mem w' = dma_mem w" "mgmt_mem_pool w' = mgmt_mem_pool w"
    "data_mem_pool w' = data_mem_pool w" "skb_brk w' = skb_brk w" "nv w' = nv w" "dma_brk w' = dma_brk w" "skb_view (skbs w' x) = skb_view (skbs w x)" for x
    by (simp_all add: mview_def fun_eq_iff)
  have rx: "\<forall>c \<in> rx_chans. rx_side (B c) c w' (q_rx Q c)"
    by (intro ballI, rule rx_side_keep [OF device_invD(5) [OF inv]]) (simp_all only: f, simp_all)
  have tx: "\<forall>is_low. tx_side (tx_pool is_low w') (B (tx_chan is_low)) (dxe_ch w' (tx_chan is_low)) (q_tx Q is_low) (q_sent Q is_low)"
    using device_invD(4) [OF inv] by (simp only: tx_pool_def f(1,3,4)) blast
  have "pools_live m d w'" using device_invD(2) [OF inv] by (simp add: pools_live_def f(2-4))
  moreover have "device_rest m d w' = K" using device_invD(7) [OF inv] by (simp add: device_rest_def f(2,6,7))
  moreover have "rx_apart B w'" using device_invD(6) [OF inv] by (simp only: rx_apart_def f(1))
  moreover have "\<forall>c. ch_desc_num (dxe_ch w' c) = DXE_CH_DESC_NUMB c" using device_invD(3) [OF inv] by (simp only: f(1)) blast
  ultimately have "device_inv B m d K Q w'" using rx tx 1(2) unfolding device_inv_def by blast
  with 1(1) show ?thesis by (rule that)
qed

lemma device_event_inv:
  assumes wf: "mac_wf P" and mem: "memory_ok P" and inv: "device_inv B m d K Q w" and ok: "event_ok P e w"
  shows "\<exists>w' Q'. run_event P e w = Some w' \<and> device_inv B m d K Q' w' \<and> effect P e w w' Q Q'"
proof (cases e)
  case (Mac_call c)
  with ok have "mac_op_ok c w" by simp
  then obtain w' where "run_mac P c w = Some w'" "device_inv B m d K Q w'" by (rule mac_call_ok [OF inv wf])
  with Mac_call show ?thesis by simp
next
  case (Send sp buf)
  with send_ok [OF inv] ok show ?thesis by simp
next
  case Tx_irq
  with tx_irq_ok [OF inv] show ?thesis by simp
next
  case Rx_irq
  with rx_irq_ok [OF inv mem] show ?thesis by simp
next
  case (Engine_sent is_low)
  with engine_sent_ok [OF inv] show ?thesis by simp
next
  case (Engine_filled c mem)
  with engine_filled_ok [OF inv] ok show ?thesis by simp
qed

section \<open>A life of the device\<close>

abbreviation no_frames :: frame_queues where
  "no_frames \<equiv> \<lparr> q_tx = \<lambda>_. [], q_sent = \<lambda>_. 0, q_rx = \<lambda>_. [] \<rparr>"

text \<open>A start ends in the invariant, with all four queues empty.\<close>

lemma tx_inv_fresh: "tx_inv b 0 0 0 ch \<Longrightarrow> tx_pending ch = []"
  using tx_pending_length [of b 0 0 0 ch] by simp

lemma running_device_inv:
  assumes "hal_ready w" "dxe_running B w" "pools_live m d w"
  shows "device_inv B m d (device_rest m d w) no_frames w"
proof -
  note run = assms(2) [unfolded dxe_running_def]
  have tx: "tx_inv (B (tx_chan is_low)) 0 0 0 (dxe_ch w (tx_chan is_low))" for is_low
    using run by (cases is_low) (simp_all add: tx_chan_def)
  have "tx_side (tx_pool is_low w) (B (tx_chan is_low)) (dxe_ch w (tx_chan is_low)) [] 0" for is_low
    unfolding tx_side_def using run tx [of is_low] tx_inv_fresh [OF tx] by (intro conjI exI [of _ 0]) simp_all
  moreover have "rx_side (B c) c w []" if "c \<in> rx_chans" for c
    unfolding rx_side_def using run that by (intro conjI exI [of _ 0]) (auto simp: rx_waiting_def)
  ultimately show ?thesis using assms run by (simp add: device_inv_def)
qed

inductive device_step :: "platform \<Rightarrow> wcn36xx \<Rightarrow> wcn36xx \<Rightarrow> bool" for P where
  "event_ok P e w \<Longrightarrow> run_event P e w = Some w' \<Longrightarrow> device_step P w w'"

inductive_cases device_stepE: "device_step P w w'"

definition device_up :: "platform \<Rightarrow> (nat \<Rightarrow> u8 list option) \<Rightarrow> wcn36xx \<Rightarrow> bool" where
  "device_up P M w \<longleftrightarrow> mac_wf P \<and> memory_ok P \<and> nv_ok P w \<and> (\<forall>m \<ge> dma_brk w. M m = None) \<and>
     (\<exists>B m d Q. device_inv B m d (M, nv w, dma_brk w) Q w)"

lemma device_starts:
  assumes "powered_off P M w"
  shows "\<exists>r w'. wcn36xx_start P w = Some (r, w') \<and> (if r = 0 then device_up P M w' else powered_off P M w')"
proof -
  let ?B = "\<lambda>c. ch_brk (dxe_ch w c)" and ?m = "dma_brk w" and ?d = "Suc (dma_brk w)"
  from assms have a: "smd_wf P" "memory_ok P" "nv_ok P w" "\<not> hal_mutex w" "ssids_ok w"
    "\<forall>m \<ge> dma_brk w. dma_mem w m = None" "dma_mem w = M" by (simp_all add: powered_off_def mac_wf_def)
  from start_returns [OF a(1-6)] obtain r w' where 1: "wcn36xx_start P w = Some (r, w')"
    "r = 0 \<Longrightarrow> hal_ready w' \<and> dxe_running ?B w' \<and> pools_live ?m ?d w' \<and> (dma_mem w')(?m := None, ?d := None) = M"
    "dma_brk w \<le> dma_brk w'" "nv_ok P w'"
    by (auto simp: a(7) split: if_splits)
  have "device_up P M w'" if "r = 0"
  proof -
    note up = 1(2) [OF that]
    have rest: "device_rest ?m ?d w' = (M, nv w', dma_brk w')" using up by (simp add: device_rest_def)
    have "device_inv ?B ?m ?d (M, nv w', dma_brk w') no_frames w'"
      using running_device_inv [of w' ?B ?m ?d] up unfolding rest by blast
    then show ?thesis using assms 1(3,4) a(6,7) unfolding device_up_def powered_off_def by (meson le_trans)
  qed
  with powered_off_starts [OF assms] 1(1) show ?thesis by auto
qed

lemma device_runs:
  assumes up: "device_up P M w" and step: "device_step P w w'"
  shows "device_up P M w'"
proof -
  from up obtain B m d Q where inv: "device_inv B m d (M, nv w, dma_brk w) Q w" by (auto simp: device_up_def)
  from step obtain e where e: "event_ok P e w" "run_event P e w = Some w'" by (auto elim: device_stepE)
  obtain Q' where Q': "device_inv B m d (M, nv w, dma_brk w) Q' w'"
    using device_event_inv [OF _ _ inv e(1)] up e(2) by (auto simp: device_up_def)
  then have "(M, nv w, dma_brk w) = (M, nv w', dma_brk w')"
    using device_invD(7) [OF Q'] by (simp add: device_rest_def)
  with Q' up show ?thesis by (auto simp: device_up_def nv_ok_def)
qed

lemma device_stops:
  assumes "device_up P M w"
  shows "\<exists>w'. wcn36xx_stop P w = Some w' \<and> powered_off P M w'"
proof -
  from assms obtain B m d Q where a: "smd_wf P" "device_inv B m d (M, nv w, dma_brk w) Q w"
    by (auto simp: device_up_def mac_wf_def)
  have M: "(dma_mem w)(m := None, d := None) = M" using device_invD(7) [OF a(2)] by (simp add: device_rest_def)
  obtain w' where "wcn36xx_stop P w = Some w'" "down B w'" "dma_mem w' = M" "dma_brk w' = dma_brk w" "nv w' = nv w"
    by (rule stop_ok [OF a(1) device_invD(1) [OF a(2)] device_rings_at [OF a(2)] device_invD(2) [OF a(2)]])
      (simp add: M)
  with assms show ?thesis by (auto simp: device_up_def powered_off_def down_def nv_ok_def)
qed

interpretation device: power_cycle "wcn36xx_start P" "device_step P" "wcn36xx_stop P" "powered_off P M" "device_up P M" for P M
  by unfold_locales (rule device_starts device_runs device_stops; assumption)+


text \<open>A life: started, a buffer filled by the engine, its interrupt, stopped, started again.\<close>

abbreviation low_fill :: device_event where
  "low_fill \<equiv> Engine_filled WCN36XX_DXE_CH_RX_L (skb_mem rx_buffer)"

lemma low_fill_ok: "event_ok P low_fill w"
  using rx_buffer_fits by (simp add: rx_fits_mem)

lemma boot_off: "powered_off boot_platform (dma_mem sample_wcn) sample_wcn"
  using boot_platform_ok(1,2,4) sample_off(1-3) by (simp add: powered_off_def)

lemma boot_again: "wcn36xx_start boot_platform w = Some (r, w') \<Longrightarrow> powered_off boot_platform M w \<Longrightarrow> r = 0"
  using start_returns [of boot_platform w] boot_platform_ok(3) by (auto simp: powered_off_def mac_wf_def)

lemma booted:
  obtains w1 where "wcn36xx_start boot_platform sample_wcn = Some (0, w1)" "device_up boot_platform (dma_mem sample_wcn) w1"
  using device.start_law [OF boot_off] boot_again [OF _ boot_off] by fastforce


section \<open>The queues\<close>



end
