(* ===== verification/Msm.thy ===== *)
theory Msm
  imports Smd_Core
begin

text \<open>
  The platform module of msm kernels (\<^verbatim>\<open>wcn36xx_msm/main.c\<close>): it owns the SMD channel the HAL messages
  travel on, finds the MAC address and registers the platform device. The kernel functions it calls are
  the fields of a record over the kernel's state \<open>'s\<close>; the state of the driver, which the response
  callback changes, is \<open>'d\<close>.
\<close>

section \<open>The kernel's side\<close>

record resource =
  res_name :: string
  res_irq :: bool
  res_start :: int
  res_size :: nat

datatype smd_event =
    SMD_EVENT_DATA | SMD_EVENT_OPEN | SMD_EVENT_CLOSE | SMD_EVENT_STATUS | SMD_EVENT_REOPEN_READY
  | SMD_EVENT_OTHER nat

text \<open>In the order of their first use. \<open>k_wait\<close> gives the events of the channel that arrive during the wait for
  the completion, and what is left of the timeout, which is negative when a signal ends the wait. \<open>k_read\<close>
  gives the returned value and the bytes read.\<close>

record 's smd_api =
  k_smsm_change_state :: "'s \<Rightarrow> u32 \<Rightarrow> u32 \<Rightarrow> int \<times> 's"
  k_request_firmware :: "'s \<Rightarrow> int + u8 list"
  k_random :: "'s \<Rightarrow> u8 list"
  k_write_avail :: "'s \<Rightarrow> int"
  k_write :: "'s \<Rightarrow> u8 list \<Rightarrow> int \<times> 's"
  k_cur_packet_size :: "'s \<Rightarrow> int"
  k_read_avail :: "'s \<Rightarrow> int"
  k_kmalloc :: "'s \<Rightarrow> nat \<Rightarrow> bool \<times> 's"
  k_read :: "'s \<Rightarrow> int \<Rightarrow> int \<times> u8 list \<times> 's"
  k_create_workqueue :: "'s \<Rightarrow> bool \<times> 's"
  k_open :: "'s \<Rightarrow> int \<times> 's"
  k_wait :: "'s \<Rightarrow> smd_event list \<times> int \<times> 's"
  k_disable_read_intr :: "'s \<Rightarrow> 's"
  k_close :: "'s \<Rightarrow> 's"
  k_platform_device_alloc :: "'s \<Rightarrow> bool \<times> 's"
  k_wcnss_resource :: "'s \<Rightarrow> bool \<Rightarrow> string \<Rightarrow> resource option"
  k_add_resources :: "'s \<Rightarrow> int"
  k_add_data :: "'s \<Rightarrow> int"
  k_device_add :: "'s \<Rightarrow> int"

record platform_device =
  pd_resources :: "resource list"
  pd_data :: bool
  pd_added :: bool

text \<open>The global \<^verbatim>\<open>wmsm\<close>; \<open>workqueues\<close> and \<open>unfreed\<close> count the work queues that exist and the messages that were
  allocated and not freed.\<close>

record ('s, 'd) wcn36xx_msm =
  kern :: 's
  core :: "platform_device option"
  rsp_cb :: "(u8 list \<Rightarrow> 'd \<Rightarrow> 'd option) option"
  smd_wq :: bool
  smd_work_pending :: bool
  smd_compl :: nat
  workqueues :: nat
  unfreed :: nat

abbreviation (input) EAGAIN :: int where "EAGAIN \<equiv> 11"

section \<open>The operations of the platform\<close>

definition wcn36xx_msm_smsm_change_state :: "'s smd_api \<Rightarrow> u32 \<Rightarrow> u32 \<Rightarrow> ('s, 'd) wcn36xx_msm
     \<Rightarrow> int \<times> ('s, 'd) wcn36xx_msm" where
  "wcn36xx_msm_smsm_change_state K clear_mask set_mask m =
     (let (r, s) = k_smsm_change_state K (kern m) clear_mask set_mask in (r, m\<lparr> kern := s \<rparr>))"

text \<open>The conversions of the format string of \<^verbatim>\<open>sscanf\<close>, with \<open>n\<close> left: \<open>hhx\<close> is \<^verbatim>\<open>%hhx\<close>, which gives the byte and
  the rest of the string, and a colon stands between two of them.\<close>

fun scan_mac :: "(u8 list \<Rightarrow> (u8 \<times> u8 list) option) \<Rightarrow> nat \<Rightarrow> u8 list \<Rightarrow> u8 list \<Rightarrow> u8 list" where
  "scan_mac hhx 0 s addr = addr"
| "scan_mac hhx (Suc n) s addr =
     (case hhx s of
        None \<Rightarrow> addr
      | Some (b, r) \<Rightarrow>
          (let addr = addr[5 - n := b]
           in if r \<noteq> [] \<and> hd r = 0x3A then scan_mac hhx n (tl r) addr else addr))"

text \<open>The 17 bytes are copied whatever the length of the file.\<close>

definition wcn36xx_msm_get_hw_mac :: "'s smd_api \<Rightarrow> (u8 list \<Rightarrow> (u8 \<times> u8 list) option) \<Rightarrow> u8 list
     \<Rightarrow> ('s, 'd) wcn36xx_msm \<Rightarrow> (int \<times> u8 list) option" where
  "wcn36xx_msm_get_hw_mac K hhx addr m =
     (case k_request_firmware K (kern m) of
        Inl _ \<Rightarrow> Some (0, [0x00, 0x0A, 0xF5] @ take 3 (k_random K (kern m)))
      | Inr file \<Rightarrow> do {
          tmp \<leftarrow> buf_read file 0 17;
          Some (0, scan_mac hhx 6 (takeWhile (\<lambda>c. c \<noteq> 0) tmp) addr) })"

text \<open>The number of free bytes is an \<^verbatim>\<open>int\<close>, compared with a \<^verbatim>\<open>size_t\<close>.\<close>

definition wcn36xx_msm_smd_send_and_wait :: "'s smd_api \<Rightarrow> u8 list \<Rightarrow> ('s, 'd) wcn36xx_msm
     \<Rightarrow> int \<times> ('s, 'd) wcn36xx_msm" where
  "wcn36xx_msm_smd_send_and_wait K buf m =
     (let len = (of_nat (length buf) :: u32); avail = (word_of_int (k_write_avail K (kern m)) :: u32)
      in if avail \<ge> len
         then (let (n, s) = k_write K (kern m) buf
               in (if (word_of_int n :: u32) \<noteq> len then - EAGAIN else 0, m\<lparr> kern := s \<rparr>))
         else (- ENOMEM, m))"

text \<open>The other events, known and unknown, change nothing.\<close>

definition wcn36xx_msm_smd_notify :: "smd_event \<Rightarrow> ('s, 'd) wcn36xx_msm \<Rightarrow> ('s, 'd) wcn36xx_msm option" where
  "wcn36xx_msm_smd_notify event m =
     (if event = SMD_EVENT_OPEN then Some (m\<lparr> smd_compl := Suc (smd_compl m) \<rparr>)
      else if event = SMD_EVENT_DATA
      then (if smd_wq m then Some (m\<lparr> smd_work_pending := True \<rparr>) else None)
      else Some m)"

fun notify_all :: "smd_event list \<Rightarrow> ('s, 'd) wcn36xx_msm \<Rightarrow> ('s, 'd) wcn36xx_msm option" where
  "notify_all [] m = Some m"
| "notify_all (e # es) m = do { m \<leftarrow> wcn36xx_msm_smd_notify e m; notify_all es m }"

text \<open>The loop ends when no packet is complete, or on an error; a packet is handed to the driver's callback
  before it is freed. A message whose read fails is not freed.\<close>

partial_function (option) wcn36xx_msm_smd_work ::
  "'s smd_api \<Rightarrow> ('s, 'd) wcn36xx_msm \<Rightarrow> 'd \<Rightarrow> (('s, 'd) wcn36xx_msm \<times> 'd) option" where
  "wcn36xx_msm_smd_work K m d =
     (let msg_len = k_cur_packet_size K (kern m)
      in if msg_len = 0 \<or> k_read_avail K (kern m) < msg_len then Some (m, d)
         else (let (ok, s) = k_kmalloc K (kern m) (unat (word_of_int msg_len :: u32))
               in if \<not> ok then Some (m\<lparr> kern := s \<rparr>, d)
                  else (let (ret, msg, s) = k_read K s msg_len
                        in if ret \<noteq> msg_len then Some (m\<lparr> kern := s, unfreed := Suc (unfreed m) \<rparr>, d)
                           else Option.bind (rsp_cb m) (\<lambda>cb. Option.bind (cb msg d) (\<lambda>d.
                                  wcn36xx_msm_smd_work K (m\<lparr> kern := s \<rparr>) d)))))"

definition run_smd_work :: "'s smd_api \<Rightarrow> ('s, 'd) wcn36xx_msm \<Rightarrow> 'd
     \<Rightarrow> (('s, 'd) wcn36xx_msm \<times> 'd) option" where
  "run_smd_work K m d =
     (if smd_work_pending m then wcn36xx_msm_smd_work K (m\<lparr> smd_work_pending := False \<rparr>) d else Some (m, d))"

text \<open>\<^verbatim>\<open>wait_for_completion_interruptible_timeout\<close>: a positive number when the completion was there in time, else
  0, or negative after a signal.\<close>

definition wait_smd_compl :: "'s smd_api \<Rightarrow> ('s, 'd) wcn36xx_msm \<Rightarrow> (int \<times> ('s, 'd) wcn36xx_msm) option" where
  "wait_smd_compl K m =
     (let (events, left, s) = k_wait K (kern m) in do {
        m \<leftarrow> notify_all events (m\<lparr> kern := s \<rparr>);
        Some (if smd_compl m > 0 then (max 1 left, m\<lparr> smd_compl := smd_compl m - 1 \<rparr>) else (min 0 left, m)) })"

definition wcn36xx_msm_smd_open :: "'s smd_api \<Rightarrow> (u8 list \<Rightarrow> 'd \<Rightarrow> 'd option) \<Rightarrow> ('s, 'd) wcn36xx_msm
     \<Rightarrow> (int \<times> ('s, 'd) wcn36xx_msm) option" where
  "wcn36xx_msm_smd_open K cb m =
     (let m = m\<lparr> rsp_cb := Some cb, smd_work_pending := False, smd_compl := 0 \<rparr>;
          (ok, s) = k_create_workqueue K (kern m);
          m = m\<lparr> kern := s, smd_wq := ok, workqueues := workqueues m + (if ok then 1 else 0) \<rparr>
      in if \<not> ok then Some (- ENOMEM, m)
         else (let (ret, s) = k_open K (kern m); m = m\<lparr> kern := s \<rparr>
               in if ret \<noteq> 0 then Some (ret, m)
                  else do {
                    (left, m) \<leftarrow> wait_smd_compl K m;
                    if left \<le> 0 then Some (left, m)
                    else Some (0, m\<lparr> kern := k_disable_read_intr K (kern m) \<rparr>) }))"

text \<open>Flushing the queue runs the pending work.\<close>

definition wcn36xx_msm_smd_close :: "'s smd_api \<Rightarrow> ('s, 'd) wcn36xx_msm \<Rightarrow> 'd
     \<Rightarrow> (('s, 'd) wcn36xx_msm \<times> 'd) option" where
  "wcn36xx_msm_smd_close K m d =
     (let m = m\<lparr> kern := k_close K (kern m) \<rparr>
      in if \<not> smd_wq m then None
         else do {
           (m, d) \<leftarrow> run_smd_work K m d;
           Some (m\<lparr> smd_wq := False, workqueues := workqueues m - 1 \<rparr>, d) })"

section \<open>The platform device\<close>

text \<open>Each path from the allocation of the device on uses it: a null pointer is a fault. The results of adding the
  resources and the device are not looked at.\<close>

definition wcn36xx_msm_init :: "'s smd_api \<Rightarrow> ('s, 'd) wcn36xx_msm \<Rightarrow> (int \<times> ('s, 'd) wcn36xx_msm) option" where
  "wcn36xx_msm_init K m =
     (let (ok, s) = k_platform_device_alloc K (kern m);
          m = m\<lparr> kern := s, core := (if ok then Some \<lparr> pd_resources = [], pd_data = False, pd_added = False \<rparr> else None) \<rparr>
      in do {
        pd \<leftarrow> core m;
        case k_wcnss_resource K (kern m) False ''wcnss_mmio'' of None \<Rightarrow> Some (- ENOMEM, m) | Some mem \<Rightarrow>
        case k_wcnss_resource K (kern m) True ''wcnss_wlantx_irq'' of None \<Rightarrow> Some (- ENOMEM, m) | Some tx \<Rightarrow>
        case k_wcnss_resource K (kern m) True ''wcnss_wlanrx_irq'' of None \<Rightarrow> Some (- ENOMEM, m) | Some rx \<Rightarrow>
          (let pd = (if k_add_resources K (kern m) = 0 then pd\<lparr> pd_resources := [mem, tx, rx] \<rparr> else pd)
           in if k_add_data K (kern m) \<noteq> 0 then Some (- ENOMEM, m\<lparr> core := Some pd \<rparr>)
              else Some (0, m\<lparr> core := Some (pd\<lparr> pd_data := True, pd_added := (k_device_add K (kern m) = 0) \<rparr>) \<rparr>)) })"

definition wcn36xx_msm_exit :: "('s, 'd) wcn36xx_msm \<Rightarrow> ('s, 'd) wcn36xx_msm option" where
  "wcn36xx_msm_exit m = do { pd \<leftarrow> core m; Some (m\<lparr> core := None \<rparr>) }"

section \<open>Receiving\<close>

text \<open>What the work relies on of the channel: \<open>q\<close> is the list of the complete packets in it. The size of the
  current packet is 0 or not yet available when there is none; else the packet can be read when there
  is memory, and the next one follows.\<close>

definition channel_law :: "'s smd_api \<Rightarrow> ('s \<Rightarrow> u8 list list) \<Rightarrow> bool" where
  "channel_law K q \<longleftrightarrow> (\<forall>s. case q s of
     [] \<Rightarrow> k_cur_packet_size K s = 0 \<or> k_read_avail K s < k_cur_packet_size K s
   | msg # rest \<Rightarrow> msg \<noteq> [] \<and> length msg < 2 ^ 31 \<and> k_cur_packet_size K s = int (length msg) \<and>
       int (length msg) \<le> k_read_avail K s \<and>
       (\<exists>s1 s2. k_kmalloc K s (length msg) = (True, s1) \<and>
          k_read K s1 (int (length msg)) = (int (length msg), msg, s2) \<and> q s2 = rest))"

lemma channel_lawD:
  assumes "channel_law K q"
  shows "q s = [] \<Longrightarrow> k_cur_packet_size K s = 0 \<or> k_read_avail K s < k_cur_packet_size K s"
    "q s = msg # rest \<Longrightarrow> msg \<noteq> [] \<and> length msg < 2 ^ 31 \<and> k_cur_packet_size K s = int (length msg) \<and>
       int (length msg) \<le> k_read_avail K s \<and>
       (\<exists>s1 s2. k_kmalloc K s (length msg) = (True, s1) \<and>
          k_read K s1 (int (length msg)) = (int (length msg), msg, s2) \<and> q s2 = rest)"
  using assms [unfolded channel_law_def, THEN spec, of s] by simp_all

fun deliver :: "(u8 list \<Rightarrow> 'd \<Rightarrow> 'd option) \<Rightarrow> u8 list list \<Rightarrow> 'd \<Rightarrow> 'd option" where
  "deliver cb [] d = Some d"
| "deliver cb (msg # msgs) d = do { d \<leftarrow> cb msg d; deliver cb msgs d }"

lemma smd_work_delivers_all:
  assumes law: "channel_law K q"
  shows "q (kern m) = msgs \<Longrightarrow> rsp_cb m = Some cb \<Longrightarrow>
    \<exists>s. q s = [] \<and> wcn36xx_msm_smd_work K m d = map_option (Pair (m\<lparr> kern := s \<rparr>)) (deliver cb msgs d)"
proof (induction msgs arbitrary: m d)
  case Nil
  with channel_lawD(1) [OF law, of "kern m"] show ?case
    by (intro exI [of _ "kern m"]) (auto simp: wcn36xx_msm_smd_work.simps [of K m d] Let_def)
next
  case (Cons msg msgs)
  from channel_lawD(2) [OF law Cons.prems(1)] obtain s1 s2 where
    1: "msg \<noteq> []" "length msg < 2 ^ 31" "k_cur_packet_size K (kern m) = int (length msg)"
    "int (length msg) \<le> k_read_avail K (kern m)" "k_kmalloc K (kern m) (length msg) = (True, s1)"
    "k_read K s1 (int (length msg)) = (int (length msg), msg, s2)" "q s2 = msgs" by blast
  have size: "unat (word_of_int (int (length msg)) :: u32) = length msg"
    using 1(2) by (simp add: unat_of_nat)
  have step: "wcn36xx_msm_smd_work K m d = Option.bind (cb msg d) (wcn36xx_msm_smd_work K (m\<lparr> kern := s2 \<rparr>))"
    using 1 size Cons.prems(2) by (simp add: wcn36xx_msm_smd_work.simps [of K m d] Let_def)
  show ?case
  proof (cases "cb msg d")
    case None
    with step show ?thesis using Cons.IH [of "m\<lparr> kern := s2 \<rparr>" d] 1(7) Cons.prems(2) by auto
  next
    case (Some d1)
    with step Cons.IH [of "m\<lparr> kern := s2 \<rparr>" d1] 1(7) Cons.prems(2) show ?thesis by auto
  qed
qed

text \<open>The callback the driver registers, with the record of the packet in its trace.\<close>

definition driver_cb :: "platform \<Rightarrow> u8 list \<Rightarrow> wcn36xx \<Rightarrow> wcn36xx option" where
  "driver_cb P pkt w = wcn36xx_smd_rsp_process P pkt (emit (SmdRx pkt) w)"

lemma deliver_driver: "deliver (driver_cb P) pkts = smd_deliver P pkts"
proof (induction pkts)
  case (Cons pkt pkts)
  then show ?case by (intro ext) (simp add: driver_cb_def)
qed (intro ext, simp)

lemma notify_all_data:
  assumes "smd_wq m"
  shows "\<exists>c. notify_all es m =
    Some (m\<lparr> smd_work_pending := (smd_work_pending m \<or> SMD_EVENT_DATA \<in> set es), smd_compl := c \<rparr>)"
  using assms
proof (induction es arbitrary: m)
  case Nil
  show ?case by (intro exI [of _ "smd_compl m"]) simp
next
  case (Cons e es)
  then obtain m1 where m1: "wcn36xx_msm_smd_notify e m = Some m1" "smd_wq m1"
    "\<And>p c. m1\<lparr> smd_work_pending := p, smd_compl := c \<rparr> = m\<lparr> smd_work_pending := p, smd_compl := c \<rparr>"
    "smd_work_pending m1 = (smd_work_pending m \<or> e = SMD_EVENT_DATA)"
    by (cases e) (auto simp: wcn36xx_msm_smd_notify_def)
  from Cons.IH [OF m1(2)] m1 show ?case by auto
qed


text \<open>For the witnesses: a channel that is a list of packets, in a kernel where the other functions succeed.\<close>

definition queue_api :: "u8 list list smd_api" where
  "queue_api =
     \<lparr> k_smsm_change_state = (\<lambda>s _ _. (0, s)), k_request_firmware = (\<lambda>_. Inl 0), k_random = (\<lambda>_. [1, 2, 3]),
       k_write_avail = (\<lambda>_. 8192), k_write = (\<lambda>s buf. (int (length buf), s)),
       k_cur_packet_size = (\<lambda>s. case s of [] \<Rightarrow> 0 | msg # _ \<Rightarrow> if length msg < 2 ^ 31 then int (length msg) else 0),
       k_read_avail = (\<lambda>s. int (length (concat s))), k_kmalloc = (\<lambda>s _. (True, s)),
       k_read = (\<lambda>s n. (n, hd s, tl s)), k_create_workqueue = (\<lambda>s. (True, s)), k_open = (\<lambda>s. (0, s)),
       k_wait = (\<lambda>s. ([SMD_EVENT_OPEN], 10, s)), k_disable_read_intr = (\<lambda>s. s), k_close = (\<lambda>_. []),
       k_platform_device_alloc = (\<lambda>s. (True, s)),
       k_wcnss_resource = (\<lambda>_ irq name. Some \<lparr> res_name = name, res_irq = irq, res_start = 7, res_size = 1 \<rparr>),
       k_add_resources = (\<lambda>_. 0), k_add_data = (\<lambda>_. 0), k_device_add = (\<lambda>_. 0) \<rparr>"

definition small_packets :: "u8 list list \<Rightarrow> u8 list list" where
  "small_packets s = takeWhile (\<lambda>msg. msg \<noteq> [] \<and> length msg < 2 ^ 31) s"

definition open_msm :: "'s \<Rightarrow> ('s, wcn36xx) wcn36xx_msm" where
  "open_msm s = \<lparr> kern = s, core = None, rsp_cb = Some (driver_cb sample_platform), smd_wq = True,
     smd_work_pending = False, smd_compl = 0, workqueues = 1, unfreed = 0 \<rparr>"

lemma queue_api_fields:
  "k_cur_packet_size queue_api s = (case s of [] \<Rightarrow> 0 | msg # _ \<Rightarrow> if length msg < 2 ^ 31 then int (length msg) else 0)"
  "k_read_avail queue_api s = int (length (concat s))"
  "k_kmalloc queue_api s n = (True, s)" "k_read queue_api s i = (i, hd s, tl s)"
  "k_create_workqueue queue_api s = (True, s)" "k_write queue_api s buf = (int (length buf), s)"
  by (simp_all add: queue_api_def)

lemma workqueues_open_msm: "workqueues (open_msm s) = 1"
  by (simp add: open_msm_def)

lemma queue_api_law: "channel_law queue_api small_packets"
proof -
  have "small_packets (msg # rest) = (if msg \<noteq> [] \<and> length msg < 2 ^ 31 then msg # small_packets rest else [])"
    for msg rest by (simp add: small_packets_def)
  moreover have "small_packets [] = []" by (simp add: small_packets_def)
  ultimately show ?thesis
    unfolding channel_law_def queue_api_fields by (intro allI) (simp split: list.split)
qed


section \<open>Opening\<close>

lemma notify_all_compl:
  "smd_wq m \<Longrightarrow> \<exists>p. notify_all es m =
    Some (m\<lparr> smd_work_pending := p, smd_compl := smd_compl m + count_list es SMD_EVENT_OPEN \<rparr>)"
proof (induction es arbitrary: m)
  case Nil
  show ?case by (intro exI [of _ "smd_work_pending m"]) simp
next
  case (Cons e es)
  then obtain m1 where m1: "wcn36xx_msm_smd_notify e m = Some m1" "smd_wq m1"
    "\<And>p c. m1\<lparr> smd_work_pending := p, smd_compl := c \<rparr> = m\<lparr> smd_work_pending := p, smd_compl := c \<rparr>"
    "smd_compl m1 = smd_compl m + (if e = SMD_EVENT_OPEN then 1 else 0)"
    by (cases e) (auto simp: wcn36xx_msm_smd_notify_def)
  from Cons.IH [OF m1(2)] m1 show ?case by auto
qed

text \<open>Opening the channel, on every path. Without a work queue it fails and keeps nothing. Once the queue
  is there it is kept on all paths, the failing ones included. With the channel opened, the result
  is 0 when the OPEN event came in time, and then the read interrupt is disabled; it is also 0 when the wait
  timed out without the event, with the interrupt left enabled; only a signal is reported.\<close>

theorem msm_open_spec:
  fixes K :: "'s smd_api" and m :: "('s, 'd) wcn36xx_msm"
  shows "\<exists>r m'. wcn36xx_msm_smd_open K cb m = Some (r, m') \<and> rsp_cb m' = Some cb \<and>
    (let s = kern m; s1 = snd (k_create_workqueue K s); s2 = snd (k_open K s1) in
     if \<not> fst (k_create_workqueue K s) then r = - ENOMEM \<and> workqueues m' = workqueues m
     else workqueues m' = Suc (workqueues m) \<and>
       (if fst (k_open K s1) \<noteq> 0 then r = fst (k_open K s1) \<and> kern m' = s2
        else (case k_wait K s2 of (events, left, s3) \<Rightarrow>
          if SMD_EVENT_OPEN \<in> set events then r = 0 \<and> kern m' = k_disable_read_intr K s3
          else r = min 0 left \<and> kern m' = s3)))"
proof -
  define s s1 s2 where s_def: "s = kern m" and s1_def: "s1 = snd (k_create_workqueue K s)"
    and s2_def: "s2 = snd (k_open K s1)"
  let ?m = "m\<lparr> rsp_cb := Some cb, smd_work_pending := False, smd_compl := 0, kern := s1, smd_wq := True,
    workqueues := Suc (workqueues m) \<rparr>"
  consider "\<not> fst (k_create_workqueue K s)" | "fst (k_create_workqueue K s)" "fst (k_open K s1) \<noteq> 0"
    | "fst (k_create_workqueue K s)" "fst (k_open K s1) = 0" by blast
  then show ?thesis
  proof cases
    case 3
    obtain events left s3 where w: "k_wait K s2 = (events, left, s3)" by (cases "k_wait K s2")
    from notify_all_compl [of "?m\<lparr> kern := s3 \<rparr>" events] obtain p where
      p: "notify_all events (?m\<lparr> kern := s3 \<rparr>) =
        Some (?m\<lparr> kern := s3, smd_work_pending := p, smd_compl := count_list events SMD_EVENT_OPEN \<rparr>)" by auto
    have "count_list events SMD_EVENT_OPEN = 0 \<longleftrightarrow> SMD_EVENT_OPEN \<notin> set events" by (simp add: count_list_0_iff)
    with 3 w p show ?thesis
      unfolding wcn36xx_msm_smd_open_def wait_smd_compl_def
      by (auto simp: s_def s1_def s2_def Let_def case_prod_beta min_def max_def)
  qed (auto simp: wcn36xx_msm_smd_open_def Let_def case_prod_beta s_def s1_def s2_def)
qed

text \<open>What the driver does when opening fails is to give up (\<open>wcn36xx_smd_open\<close>), and the next start of the device
  opens again.\<close>

fun open_attempts :: "'s smd_api \<Rightarrow> (u8 list \<Rightarrow> 'd \<Rightarrow> 'd option) \<Rightarrow> nat \<Rightarrow> ('s, 'd) wcn36xx_msm
     \<Rightarrow> ('s, 'd) wcn36xx_msm option" where
  "open_attempts K cb 0 m = Some m"
| "open_attempts K cb (Suc n) m = do {
     (r, m) \<leftarrow> wcn36xx_msm_smd_open K cb m;
     if r = 0 then None else open_attempts K cb n m }"

text \<open>Every attempt to open a channel that fails leaves a work queue behind: after \<open>n\<close> failed attempts
  there are \<open>n\<close> more, which nothing destroys.\<close>

theorem failed_opens_leak:
  assumes wq: "\<forall>s. fst (k_create_workqueue K s)" and fails: "\<forall>s. fst (k_open K s) \<noteq> 0"
  shows "\<exists>m'. open_attempts K cb n m = Some m' \<and> workqueues m' = workqueues m + n"
proof (induction n arbitrary: m)
  case (Suc n)
  from wq fails obtain r m1 where "wcn36xx_msm_smd_open K cb m = Some (r, m1)" "r \<noteq> 0"
    "workqueues m1 = Suc (workqueues m)"
    by (simp add: wcn36xx_msm_smd_open_def Let_def case_prod_beta)
  with Suc.IH [of m1] show ?case by simp
qed simp

theorem failed_opens_leak_witness:
  "\<exists>m'. open_attempts (queue_api\<lparr> k_open := (\<lambda>s. (- 19, s)) \<rparr>) (driver_cb sample_platform) 3 (open_msm []) = Some m' \<and>
     workqueues m' = 4"
  using failed_opens_leak [of "queue_api\<lparr> k_open := (\<lambda>s. (- 19, s)) \<rparr>" "driver_cb sample_platform" 3 "open_msm []"]
  by (simp add: queue_api_fields workqueues_open_msm del: open_attempts.simps)

section \<open>Sending\<close>

text \<open>C40: The space check compares a signed number with an unsigned one. For a message of at most 4096 bytes and
  any 32-bit answer of the channel, the message is written, once and whole, exactly when there is
  room or the answer is negative, that is, an error; it is refused with -ENOMEM, and nothing written,
  otherwise. A write that does not take the whole message is reported as -EAGAIN.\<close>

theorem msm_send_spec:
  assumes len: "length buf \<le> 4096" and avail: "- (2 ^ 31) \<le> k_write_avail K (kern m)" "k_write_avail K (kern m) < 2 ^ 31"
    and ret: "- (2 ^ 31) \<le> fst (k_write K (kern m) buf)" "fst (k_write K (kern m) buf) < 2 ^ 31"
  shows "wcn36xx_msm_smd_send_and_wait K buf m =
     (if k_write_avail K (kern m) < 0 \<or> int (length buf) \<le> k_write_avail K (kern m)
      then (if fst (k_write K (kern m) buf) = int (length buf) then 0 else - EAGAIN,
            m\<lparr> kern := snd (k_write K (kern m) buf) \<rparr>)
      else (- ENOMEM, m))"
proof -
  have word: "uint (word_of_int i :: u32) = (if i < 0 then i + 2 ^ 32 else i)" if "- (2 ^ 31) \<le> i" "i < 2 ^ 31" for i
  proof (cases "i < 0")
    case True
    have "i mod 2 ^ 32 = (i + 2 ^ 32) mod 2 ^ 32" by simp
    also have "\<dots> = i + 2 ^ 32" by (rule mod_pos_pos_trivial) (use that True in simp_all)
    finally show ?thesis using True by (simp add: uint_word_of_int)
  next
    case False
    with that have "i mod 2 ^ 32 = i" by (intro mod_pos_pos_trivial) simp_all
    with False show ?thesis by (simp add: uint_word_of_int)
  qed
  have l: "uint (of_nat (length buf) :: u32) = int (length buf)"
    using word [of "int (length buf)"] len by simp
  have "(word_of_int (k_write_avail K (kern m)) :: u32) \<ge> of_nat (length buf) \<longleftrightarrow>
      k_write_avail K (kern m) < 0 \<or> int (length buf) \<le> k_write_avail K (kern m)"
    using len avail by (simp add: word_le_def l word)
  moreover have "(word_of_int (fst (k_write K (kern m) buf)) :: u32) = of_nat (length buf) \<longleftrightarrow>
      fst (k_write K (kern m) buf) = int (length buf)"
    using len ret by (simp add: word_uint_eq_iff l word)
  ultimately show ?thesis
    by (simp add: wcn36xx_msm_smd_send_and_wait_def Let_def case_prod_beta)
qed

theorem msm_send_spec_witness:
  "fst (wcn36xx_msm_smd_send_and_wait (queue_api\<lparr> k_write_avail := (\<lambda>_. - 19) \<rparr>) [1, 2, 3] (open_msm [])) = 0 \<and>
   fst (wcn36xx_msm_smd_send_and_wait (queue_api\<lparr> k_write_avail := (\<lambda>_. 2) \<rparr>) [1, 2, 3] (open_msm [])) = - ENOMEM"
  using msm_send_spec [of "[1, 2, 3]" "queue_api\<lparr> k_write_avail := (\<lambda>_. - 19) \<rparr>" "open_msm []"]
    msm_send_spec [of "[1, 2, 3]" "queue_api\<lparr> k_write_avail := (\<lambda>_. 2) \<rparr>" "open_msm []"]
  by (simp add: queue_api_fields)

section \<open>The MAC address\<close>

text \<open>The address as the file has it: six bytes in two lower-case hexadecimal digits, with colons.\<close>

definition hex_digit :: "nat \<Rightarrow> u8" where
  "hex_digit n = (if n < 10 then 0x30 + of_nat n else 0x57 + of_nat n)"

definition hex_byte :: "u8 \<Rightarrow> u8 list" where
  "hex_byte b = [hex_digit (unat b div 16), hex_digit (unat b mod 16)]"

fun mac_text :: "u8 list \<Rightarrow> u8 list" where
  "mac_text [] = []"
| "mac_text [b] = hex_byte b"
| "mac_text (b # bs) = hex_byte b @ 0x3A # mac_text bs"

text \<open>What the standard says of \<^verbatim>\<open>%hhx\<close>, for two digits that are followed by a colon or the end.\<close>

definition hhx_reads :: "(u8 list \<Rightarrow> (u8 \<times> u8 list) option) \<Rightarrow> bool" where
  "hhx_reads hhx \<longleftrightarrow> (\<forall>b r. r = [] \<or> hd r = 0x3A \<longrightarrow> hhx (hex_byte b @ r) = Some (b, r))"

lemma below_16: "n < 16 \<Longrightarrow> n \<in> {0, 1, 2, 3, 4, 5, 6, 7, 8, 9, 10, 11, 12, 13, 14, 15 :: nat}"
  by simp presburger

lemma hex_digit_not_zero: "n < 16 \<Longrightarrow> hex_digit n \<noteq> 0"
  by (drule below_16) (auto simp: hex_digit_def)

lemma hex_byte_facts: "length (hex_byte b) = 2" "0 \<notin> set (hex_byte b)"
  using hex_digit_not_zero [of "unat b div 16"] hex_digit_not_zero [of "unat b mod 16"]
    unsigned_less [of b, where ?'a = nat] by (auto simp: hex_byte_def)

lemma mac_text_facts: "bs \<noteq> [] \<Longrightarrow> length (mac_text bs) = 3 * length bs - 1 \<and> 0 \<notin> set (mac_text bs)"
  by (induction bs rule: mac_text.induct) (auto simp: hex_byte_facts)

lemma scan_mac_text:
  assumes "hhx_reads hhx"
  shows "length addr = 6 \<Longrightarrow> length bs = n \<Longrightarrow> n \<le> 6 \<Longrightarrow> scan_mac hhx n (mac_text bs) addr = take (6 - n) addr @ bs"
proof (induction bs arbitrary: n addr rule: mac_text.induct)
  case (2 b)
  from assms [unfolded hhx_reads_def, rule_format, of "[]" b] have "hhx (hex_byte b) = Some (b, [])" by simp
  moreover obtain as x where "addr = as @ [x]" "length as = 5" using 2(1) by (cases addr rule: rev_cases) auto
  moreover have "n = Suc 0" using 2(2) by simp
  ultimately show ?case by (simp add: list_update_append)
next
  case (3 b c bs)
  let ?r = "0x3A # mac_text (c # bs)"
  obtain m where n: "n = Suc m" "length (c # bs) = m" using 3(3) by (cases n) auto
  from assms [unfolded hhx_reads_def, rule_format, of ?r b] have "hhx (hex_byte b @ ?r) = Some (b, ?r)" by simp
  moreover have "scan_mac hhx m (mac_text (c # bs)) (addr[5 - m := b]) = take (6 - m) (addr[5 - m := b]) @ c # bs"
    using 3(1) [of "addr[5 - m := b]" m] 3(2-4) n by simp
  moreover have "take (6 - m) (addr[5 - m := b]) = take (5 - m) addr @ [b]"
  proof -
    have "6 - m = Suc (5 - m)" "5 - m < length (addr[5 - m := b])" using 3(2,4) n by simp_all
    then show ?thesis by (simp add: take_Suc_conv_app_nth)
  qed
  ultimately show ?case by (simp add: n)
qed simp

text \<open>A file that starts with a MAC address gives this address; one that is too short for an address is read
  beyond its end; without a file the address starts with the manufacturer's three bytes. The returned
  value is 0 in each case.\<close>

theorem get_hw_mac_spec:
  assumes hhx: "hhx_reads hhx" and mac: "length mac = 6" and addr: "length addr = 6"
  shows "(case k_request_firmware K (kern m) of
      Inl e \<Rightarrow> wcn36xx_msm_get_hw_mac K hhx addr m = Some (0, [0x00, 0x0A, 0xF5] @ take 3 (k_random K (kern m)))
    | Inr data \<Rightarrow> (take 17 data = mac_text mac \<longrightarrow> wcn36xx_msm_get_hw_mac K hhx addr m = Some (0, mac)) \<and>
        (length data < 17 \<longrightarrow> wcn36xx_msm_get_hw_mac K hhx addr m = None))"
proof (cases "k_request_firmware K (kern m)")
  case (Inr data)
  have mt: "length (mac_text mac) = 17" "0 \<notin> set (mac_text mac)"
    using mac_text_facts [of mac] mac by (cases mac; simp)+
  have "wcn36xx_msm_get_hw_mac K hhx addr m = Some (0, mac)" if "take 17 data = mac_text mac"
  proof -
    have "17 \<le> length data" using that mt(1) by (metis length_take min.cobounded1)
    then have "buf_read data 0 17 = Some (mac_text mac)" using that by (simp add: buf_read_def)
    moreover have "takeWhile (\<lambda>c. c \<noteq> 0) (mac_text mac) = mac_text mac"
      using mt(2) by (auto simp: takeWhile_eq_all_conv)
    ultimately show ?thesis
      using scan_mac_text [OF hhx addr mac] Inr by (simp add: wcn36xx_msm_get_hw_mac_def del: takeWhile_eq_all_conv)
  qed
  with Inr show ?thesis by (simp add: wcn36xx_msm_get_hw_mac_def buf_read_def)
qed (simp add: wcn36xx_msm_get_hw_mac_def)

text \<open>For the witness: a reader of two hexadecimal digits.\<close>

definition hex_value :: "u8 \<Rightarrow> u8" where
  "hex_value c = (if c < 0x3A then c - 0x30 else c - 0x57)"

definition read_hhx :: "u8 list \<Rightarrow> (u8 \<times> u8 list) option" where
  "read_hhx s = (case s of a # b # r \<Rightarrow> Some (16 * hex_value a + hex_value b, r) | _ \<Rightarrow> None)"

lemma hex_value_digit: "n < 16 \<Longrightarrow> hex_value (hex_digit n) = of_nat n"
  by (drule below_16) (auto simp: hex_value_def hex_digit_def)

lemma read_hhx_reads: "hhx_reads read_hhx"
proof -
  have "16 * hex_value (hex_digit (unat b div 16)) + hex_value (hex_digit (unat b mod 16)) = b" for b
  proof -
    have "unat b div 16 < 16" using unsigned_less [of b, where ?'a = nat] by auto
    then have "16 * hex_value (hex_digit (unat b div 16)) + hex_value (hex_digit (unat b mod 16)) =
        16 * of_nat (unat b div 16) + of_nat (unat b mod 16)" by (simp add: hex_value_digit)
    also have "\<dots> = of_nat (16 * (unat b div 16) + unat b mod 16)"
      by (simp only: of_nat_add of_nat_mult of_nat_numeral)
    also have "\<dots> = b" by (simp only: mult_div_mod_eq) simp
    finally show ?thesis .
  qed
  then show ?thesis by (simp add: hhx_reads_def read_hhx_def hex_byte_def)
qed

theorem get_hw_mac_spec_witness:
  "wcn36xx_msm_get_hw_mac (queue_api\<lparr> k_request_firmware := (\<lambda>_. Inr (mac_text [0, 0x0A, 0xF5, 0x1B, 2, 0xFE] @ [0x0A])) \<rparr>)
     read_hhx [9, 9, 9, 9, 9, 9] (open_msm []) = Some (0, [0, 0x0A, 0xF5, 0x1B, 2, 0xFE])"
proof -
  let ?mac = "[0, 0x0A, 0xF5, 0x1B, 2, 0xFE] :: u8 list"
  have "length (mac_text ?mac) = 17" using mac_text_facts [of ?mac] by simp
  then have "take 17 (mac_text ?mac @ [0x0A]) = mac_text ?mac" by (simp del: mac_text.simps)
  with get_hw_mac_spec [OF read_hhx_reads, of ?mac "[9, 9, 9, 9, 9, 9]"
    "queue_api\<lparr> k_request_firmware := (\<lambda>_. Inr (mac_text ?mac @ [0x0A])) \<rparr>" "open_msm []"] show ?thesis
    by (simp del: mac_text.simps)
qed

end
