(* ===== verification/Mac_Probe.thy ===== *)
theory Mac_Probe
  imports Mac_Start Msm
begin

text \<open>
  The platform device of the driver (the end of \<^verbatim>\<open>main.c\<close>): what mac80211 is told of the hardware, the
  resources of the device, and \<open>wcn36xx_probe\<close> and \<open>wcn36xx_remove\<close>. \<open>p_get_resource\<close> and its like
  are the kernel's answers.
\<close>

abbreviation (input) ENOENT :: int where "ENOENT \<equiv> 2"

section \<open>The hardware as mac80211 sees it\<close>

datatype hw_flag =
    IEEE80211_HW_SIGNAL_DBM | IEEE80211_HW_HAS_RATE_CONTROL | IEEE80211_HW_SUPPORTS_PS
  | IEEE80211_HW_CONNECTION_MONITOR | IEEE80211_HW_AMPDU_AGGREGATION | IEEE80211_HW_TIMING_BEACON_ONLY

text \<open>The fields the driver sets, but for the sizes of its private structures. \<open>interface_modes\<close> is the set of
  the bits.\<close>

record ieee80211_hw =
  hw_flags :: "hw_flag set"
  interface_modes :: "nl80211_iftype set"
  hw_bands :: "ieee80211_band \<Rightarrow> ieee80211_supported_band option"
  cipher_suites :: "u32 list"
  probe_resp_offload :: bool
  wowlan_any :: bool
  max_listen_interval :: nat
  hw_queues :: nat
  perm_addr :: "u8 list option"

definition zero_hw :: ieee80211_hw where
  "zero_hw = \<lparr> hw_flags = {}, interface_modes = {}, hw_bands = (\<lambda>_. None), cipher_suites = [],
     probe_resp_offload = False, wowlan_any = False, max_listen_interval = 0, hw_queues = 0, perm_addr = None \<rparr>"

definition wcn36xx_init_ieee80211 :: "ieee80211_hw \<Rightarrow> ieee80211_hw" where
  "wcn36xx_init_ieee80211 hw = hw\<lparr>
     hw_flags := {IEEE80211_HW_SIGNAL_DBM, IEEE80211_HW_HAS_RATE_CONTROL, IEEE80211_HW_SUPPORTS_PS,
       IEEE80211_HW_CONNECTION_MONITOR, IEEE80211_HW_AMPDU_AGGREGATION, IEEE80211_HW_TIMING_BEACON_ONLY},
     interface_modes := {NL80211_IFTYPE_STATION, NL80211_IFTYPE_AP, NL80211_IFTYPE_ADHOC, NL80211_IFTYPE_MESH_POINT},
     hw_bands := (hw_bands hw)(IEEE80211_BAND_2GHZ := Some wcn_band_2ghz, IEEE80211_BAND_5GHZ := Some wcn_band_5ghz),
     cipher_suites := [WLAN_CIPHER_SUITE_WEP40, WLAN_CIPHER_SUITE_WEP104, WLAN_CIPHER_SUITE_TKIP, WLAN_CIPHER_SUITE_CCMP],
     probe_resp_offload := True,
     wowlan_any := True,
     max_listen_interval := 200,
     hw_queues := 4 \<rparr>"

section \<open>The device\<close>

text \<open>\<open>dv_wcn\<close> is the private area of the hardware structure; \<open>dv_hw\<close> is \<open>None\<close> when the structure is not
  allocated. \<open>dv_running\<close> says that mac80211 has started the device and not stopped it.\<close>

record wcn36xx_device =
  dv_wcn :: wcn36xx
  dv_hw :: "ieee80211_hw option"
  dv_mapped :: bool
  dv_registered :: bool
  dv_mutex :: bool
  dv_running :: bool

definition dv_log :: "wcn36xx_device \<Rightarrow> kevent list" where
  "dv_log d = klog (dv_wcn d)"

definition dv_emit :: "kevent \<Rightarrow> wcn36xx_device \<Rightarrow> wcn36xx_device" where
  "dv_emit e d = d\<lparr> dv_wcn := emit e (dv_wcn d) \<rparr>"

definition wcn36xx_platform_get_resources :: "platform \<Rightarrow> wcn36xx_device \<Rightarrow> int \<times> wcn36xx_device" where
  "wcn36xx_platform_get_resources P d =
     (let res = p_get_resource P (dv_log d) ''wcnss_wlantx_irq''; d = dv_emit (GetResource ''wcnss_wlantx_irq'') d
      in case res of None \<Rightarrow> (- ENOENT, d) | Some tx \<Rightarrow>
      let d = d\<lparr> dv_wcn := (dv_wcn d)\<lparr> tx_irq := tx \<rparr> \<rparr>;
          res = p_get_resource P (dv_log d) ''wcnss_wlanrx_irq''; d = dv_emit (GetResource ''wcnss_wlanrx_irq'') d
      in case res of None \<Rightarrow> (- ENOENT, d) | Some rx \<Rightarrow>
      let d = d\<lparr> dv_wcn := (dv_wcn d)\<lparr> rx_irq := rx \<rparr> \<rparr>;
          res = p_get_resource P (dv_log d) ''wcnss_mmio''; d = dv_emit (GetResource ''wcnss_mmio'') d
      in case res of None \<Rightarrow> (- ENOENT, d) | Some _ \<Rightarrow>
      let ok = p_ioremap P (dv_log d); d = (dv_emit Ioremap d)\<lparr> dv_mapped := ok \<rparr>
      in if \<not> ok then (- ENOMEM, d) else (0, d))"

text \<open>The labels.\<close>

definition out_wq :: "int \<Rightarrow> wcn36xx_device \<Rightarrow> int \<times> wcn36xx_device" where
  "out_wq ret d = (ret, (dv_emit FreeHw d)\<lparr> dv_hw := None \<rparr>)"

definition out_unmap :: "int \<Rightarrow> wcn36xx_device \<Rightarrow> int \<times> wcn36xx_device" where
  "out_unmap ret d = out_wq ret ((dv_emit Iounmap d)\<lparr> dv_mapped := False \<rparr>)"

definition probe_address :: "platform \<Rightarrow> wcn36xx_device \<Rightarrow> wcn36xx_device" where
  "probe_address P d =
     (let (r, addr) = p_get_hw_mac P (dv_log d); d = dv_emit GetHwMac d
      in if r = 0
         then (dv_emit (SetPermAddr addr) d)\<lparr> dv_hw := map_option (\<lambda>hw. hw\<lparr> perm_addr := Some addr \<rparr>) (dv_hw d) \<rparr>
         else d)"

definition wcn36xx_probe :: "platform \<Rightarrow> wcn36xx_device \<Rightarrow> int \<times> wcn36xx_device" where
  "wcn36xx_probe P d =
     (let ok = p_alloc_hw P (dv_log d); d = dv_emit AllocHw d
      in if \<not> ok then (- ENOMEM, d)
         else (let d = d\<lparr> dv_hw := Some zero_hw, dv_mutex := True, dv_wcn := (dv_wcn d)\<lparr> hal_mutex := False \<rparr> \<rparr>;
                   d = probe_address P d;
                   (ret, d) = wcn36xx_platform_get_resources P d
               in if ret \<noteq> 0 then out_wq ret d
                  else (let d = d\<lparr> dv_hw := map_option wcn36xx_init_ieee80211 (dv_hw d) \<rparr>;
                            ret = p_register_hw P (dv_log d); d = dv_emit RegisterHw d
                        in if ret \<noteq> 0 then out_unmap ret d
                           else (0, d\<lparr> dv_registered := True \<rparr>))))"

text \<open>Unregistering stops a running device, and the stop takes the mutex: a destroyed one must not be used.\<close>

definition unregister_hw :: "platform \<Rightarrow> wcn36xx_device \<Rightarrow> wcn36xx_device option" where
  "unregister_hw P d = do {
     d \<leftarrow> (if \<not> dv_running d then Some d
          else if \<not> dv_mutex d then None
          else do { w \<leftarrow> wcn36xx_stop P (dv_wcn d); Some (d\<lparr> dv_wcn := w, dv_running := False \<rparr>) });
     Some ((dv_emit UnregisterHw d)\<lparr> dv_registered := False \<rparr>) }"

definition wcn36xx_remove :: "platform \<Rightarrow> wcn36xx_device \<Rightarrow> (int \<times> wcn36xx_device) option" where
  "wcn36xx_remove P d = do {
     let d = dv_emit ReleaseFirmware d;
     let d = (dv_emit MutexDestroy d)\<lparr> dv_mutex := False \<rparr>;
     d \<leftarrow> unregister_hw P d;
     let d = (dv_emit Iounmap d)\<lparr> dv_mapped := False \<rparr>;
     Some (0, (dv_emit FreeHw d)\<lparr> dv_hw := None \<rparr>) }"

section \<open>Probing and removing\<close>

lemma dv_emit_fields [simp]:
  "dv_hw (dv_emit e d) = dv_hw d" "dv_mapped (dv_emit e d) = dv_mapped d" "dv_registered (dv_emit e d) = dv_registered d"
  "dv_mutex (dv_emit e d) = dv_mutex d" "dv_running (dv_emit e d) = dv_running d"
  "dv_wcn (dv_emit e d) = emit e (dv_wcn d)"
  by (simp_all add: dv_emit_def)

lemma probe_address_fields [simp]:
  "dv_mapped (probe_address P d) = dv_mapped d" "dv_registered (probe_address P d) = dv_registered d"
  "dv_mutex (probe_address P d) = dv_mutex d" "dv_running (probe_address P d) = dv_running d"
  "dv_hw (probe_address P d) = None \<longleftrightarrow> dv_hw d = None"
  by (simp_all add: probe_address_def case_prod_beta Let_def)

text \<open>The outcome of the search for the resources: what it found, or what was missing.\<close>

definition resources_found :: "platform \<Rightarrow> wcn36xx_device \<Rightarrow> bool" where
  "resources_found P d \<longleftrightarrow>
     (\<exists>l. p_get_resource P l ''wcnss_wlantx_irq'' = Some (tx_irq (dv_wcn d))) \<and>
     (\<exists>l. p_get_resource P l ''wcnss_wlanrx_irq'' = Some (rx_irq (dv_wcn d))) \<and>
     (\<exists>l a. p_get_resource P l ''wcnss_mmio'' = Some a) \<and> (\<exists>l. p_ioremap P l)"

lemma get_resources_spec:
  "case wcn36xx_platform_get_resources P d of (r, d') \<Rightarrow>
     dv_hw d' = dv_hw d \<and> dv_registered d' = dv_registered d \<and> dv_mutex d' = dv_mutex d \<and>
     dv_running d' = dv_running d \<and> hal_mutex (dv_wcn d') = hal_mutex (dv_wcn d) \<and>
     (if r = 0 then dv_mapped d' \<and> resources_found P d' else r < 0 \<and> (dv_mapped d' \<longrightarrow> dv_mapped d))"
  unfolding wcn36xx_platform_get_resources_def resources_found_def Let_def
  by (auto split: option.split)

definition device_off :: "wcn36xx_device \<Rightarrow> bool" where
  "device_off d \<longleftrightarrow> dv_hw d = None \<and> \<not> dv_mapped d \<and> \<not> dv_registered d \<and> \<not> dv_running d"

lemma probe_cases:
  assumes "device_off d"
  shows "case wcn36xx_probe P d of (r, d') \<Rightarrow>
    if r = 0
    then (\<exists>hw. dv_hw d' = Some (wcn36xx_init_ieee80211 hw)) \<and> dv_mapped d' \<and> dv_registered d' \<and> dv_mutex d' \<and>
      \<not> dv_running d' \<and> \<not> hal_mutex (dv_wcn d') \<and> resources_found P d'
    else device_off d'"
proof -
  let ?d0 = "dv_emit AllocHw d"
  let ?d1 = "probe_address P (?d0\<lparr> dv_hw := Some zero_hw, dv_mutex := True, dv_wcn := (dv_wcn ?d0)\<lparr> hal_mutex := False \<rparr> \<rparr>)"
  obtain r d2 where 2: "wcn36xx_platform_get_resources P ?d1 = (r, d2)" by (cases "wcn36xx_platform_get_resources P ?d1")
  have "hal_mutex (dv_wcn (probe_address P d)) = hal_mutex (dv_wcn d)" for d
    by (simp add: probe_address_def case_prod_beta Let_def)
  moreover obtain hw where "dv_hw ?d1 = Some hw" by (cases "dv_hw ?d1") auto
  ultimately show ?thesis
    using get_resources_spec [where P = P and d = ?d1] 2 assms
    by (auto simp: wcn36xx_probe_def Let_def out_wq_def out_unmap_def device_off_def resources_found_def
        split: if_splits)
qed


definition probe_platform :: platform where
  "probe_platform = sample_platform\<lparr> p_alloc_hw := (\<lambda>_. True), p_ioremap := (\<lambda>_. True), p_register_hw := (\<lambda>_. 0),
     p_get_hw_mac := (\<lambda>_. (0, [0, 1, 2, 3, 4, 5])),
     p_get_resource := (\<lambda>_ name. if name = ''wcnss_wlantx_irq'' then Some 5 else Some 6) \<rparr>"

definition unprobed :: wcn36xx_device where
  "unprobed = \<lparr> dv_wcn = sample_wcn, dv_hw = None, dv_mapped = False, dv_registered = False, dv_mutex = False,
     dv_running = False \<rparr>"


section \<open>The module of the platform and the driver\<close>

text \<open>The kernel looks the resources of the device up by name.\<close>

definition serves :: "platform_device \<Rightarrow> platform \<Rightarrow> bool" where
  "serves pd P \<longleftrightarrow>
     (\<forall>l name. p_get_resource P l name = map_option res_start (find (\<lambda>r. res_name r = name) (pd_resources pd)))"

lemma get_resources_found:
  assumes "p_get_resource P = (\<lambda>_ name. f name)" and "f ''wcnss_wlantx_irq'' = Some tx"
    and "f ''wcnss_wlanrx_irq'' = Some rx" and "f ''wcnss_mmio'' = Some a" and "\<forall>l. p_ioremap P l"
  shows "\<exists>d'. wcn36xx_platform_get_resources P d = (0, d') \<and> tx_irq (dv_wcn d') = tx \<and> rx_irq (dv_wcn d') = rx"
  using assms by (simp add: wcn36xx_platform_get_resources_def Let_def)

text \<open>C35: The two modules fit together: when the platform module's initialisation returns 0, the driver probed on
  the device it registered finds all its resources, and its interrupt numbers are the wireless
  interrupts of the subsystem's device, provided adding the resources succeeded, which the
  initialisation does not look at; otherwise the probe fails with -ENOENT.\<close>

theorem msm_init_feeds_probe:
  assumes init: "wcn36xx_msm_init K m = Some (0, m')" and pd: "core m' = Some pd" "serves pd P"
    and names: "\<forall>s irq name r. k_wcnss_resource K s irq name = Some r \<longrightarrow> res_name r = name"
    and kernel: "\<forall>l. p_alloc_hw P l" "\<forall>l. p_ioremap P l" "\<forall>l. p_register_hw P l = 0"
  shows "if k_add_resources K (kern m') = 0
         then \<exists>d' tx rx. wcn36xx_probe P d = (0, d') \<and>
           k_wcnss_resource K (kern m') True ''wcnss_wlantx_irq'' = Some tx \<and> tx_irq (dv_wcn d') = res_start tx \<and>
           k_wcnss_resource K (kern m') True ''wcnss_wlanrx_irq'' = Some rx \<and> rx_irq (dv_wcn d') = res_start rx
         else \<exists>d'. wcn36xx_probe P d = (- ENOENT, d') \<and> dv_hw d' = None"
proof -
  let ?s = "kern m'"
  from init pd(1) obtain mem tx rx where
    res: "k_wcnss_resource K ?s False ''wcnss_mmio'' = Some mem"
      "k_wcnss_resource K ?s True ''wcnss_wlantx_irq'' = Some tx"
      "k_wcnss_resource K ?s True ''wcnss_wlanrx_irq'' = Some rx"
    and list: "pd_resources pd = (if k_add_resources K ?s = 0 then [mem, tx, rx] else [])"
    unfolding wcn36xx_msm_init_def by (auto simp: Let_def case_prod_beta split: option.splits if_splits)
  let ?f = "\<lambda>name. map_option res_start (find (\<lambda>r. res_name r = name) (pd_resources pd))"
  have f: "p_get_resource P = (\<lambda>_ name. ?f name)" using pd(2) by (simp add: serves_def fun_eq_iff)
  have n: "res_name mem = ''wcnss_mmio''" "res_name tx = ''wcnss_wlantx_irq''" "res_name rx = ''wcnss_wlanrx_irq''"
    using names res by blast+
  show ?thesis
  proof (cases "k_add_resources K ?s = 0")
    case True
    have "?f ''wcnss_wlantx_irq'' = Some (res_start tx)" "?f ''wcnss_wlanrx_irq'' = Some (res_start rx)"
      "?f ''wcnss_mmio'' = Some (res_start mem)" by (simp_all add: list True n)
    note found = get_resources_found [OF f this kernel(2)]
    let ?d0 = "dv_emit AllocHw d"
    obtain d2 where "wcn36xx_platform_get_resources P
        (probe_address P (?d0\<lparr> dv_hw := Some zero_hw, dv_mutex := True, dv_wcn := (dv_wcn ?d0)\<lparr> hal_mutex := False \<rparr> \<rparr>)) =
        (0, d2)" "tx_irq (dv_wcn d2) = res_start tx" "rx_irq (dv_wcn d2) = res_start rx" using found by blast
    with True res show ?thesis by (simp add: wcn36xx_probe_def Let_def kernel)
  next
    case False
    have "?f name = None" for name by (simp add: list False)
    then show ?thesis
      using False by (simp add: wcn36xx_probe_def Let_def kernel wcn36xx_platform_get_resources_def f out_wq_def)
  qed
qed

theorem msm_init_feeds_probe_witness:
  "\<exists>m' pd P d'. wcn36xx_msm_init queue_api (open_msm []) = Some (0, m') \<and> core m' = Some pd \<and> serves pd P \<and>
     wcn36xx_probe P unprobed = (0, d') \<and> tx_irq (dv_wcn d') = 7"
proof -
  define pd where "pd = \<lparr> pd_resources = map (\<lambda>(irq, name). \<lparr> res_name = name, res_irq = irq, res_start = 7, res_size = 1 \<rparr>)
    [(False, ''wcnss_mmio''), (True, ''wcnss_wlantx_irq''), (True, ''wcnss_wlanrx_irq'')], pd_data = True, pd_added = True \<rparr>"
  define P where "P = probe_platform\<lparr> p_get_resource :=
    (\<lambda>_ name. map_option res_start (find (\<lambda>r. res_name r = name) (pd_resources pd))) \<rparr>"
  let ?m = "(open_msm [])\<lparr> core := Some pd \<rparr>"
  have init: "wcn36xx_msm_init queue_api (open_msm []) = Some (0, ?m)"
    by (simp add: wcn36xx_msm_init_def queue_api_def open_msm_def pd_def)
  have serves: "serves pd P" by (simp add: serves_def P_def)
  have c: "core ?m = Some pd" by simp
  have names: "\<forall>s irq name r. k_wcnss_resource queue_api s irq name = Some r \<longrightarrow> res_name r = name"
    "k_add_resources queue_api (kern ?m) = 0" by (auto simp: queue_api_def)
  have kernel: "\<forall>l. p_alloc_hw P l" "\<forall>l. p_ioremap P l" "\<forall>l. p_register_hw P l = 0"
    by (simp_all add: P_def probe_platform_def)
  obtain d' tx where "wcn36xx_probe P unprobed = (0, d')" "tx_irq (dv_wcn d') = res_start tx"
    "k_wcnss_resource queue_api (kern ?m) True ''wcnss_wlantx_irq'' = Some tx"
    using msm_init_feeds_probe [OF init c serves names(1) kernel, of unprobed] names(2) by auto
  moreover then have "res_start tx = 7" by (auto simp: queue_api_def)
  ultimately show ?thesis using init c serves by (intro exI conjI) auto
qed

section \<open>What mac80211 is told is what the operations accept\<close>

text \<open>C37: The hardware structure and the operations agree: the ciphers it names are exactly those for which
  \<open>wcn36xx_set_key\<close> does not answer -EOPNOTSUPP to a new key, the interface types it names exactly those
  \<open>wcn36xx_add_interface\<close> takes. The channels and rates of its two bands follow the 802.11 numbering: a
  centre frequency follows from the channel's hardware value, no value occurs twice, an OFDM rate's
  value is the rate in units of 500 kbit/s, and both bands have the same OFDM rates.\<close>

theorem advertised_is_supported:
  "(let hw' = wcn36xx_init_ieee80211 hw in
     (\<forall>c. c \<in> set (cipher_suites hw') \<longleftrightarrow> cipher_type c \<noteq> None) \<and>
     (\<forall>P v w. vif_type (vifs w v) \<in> interface_modes hw' \<longleftrightarrow> wcn36xx_add_interface P v w \<noteq> Some (- EOPNOTSUPP, w)) \<and>
     hw_bands hw' IEEE80211_BAND_2GHZ = Some wcn_band_2ghz \<and> hw_bands hw' IEEE80211_BAND_5GHZ = Some wcn_band_5ghz) \<and>
   list_all (\<lambda>c. chan_center_freq c = (if chan_hw_value c = 14 then 2484 else 2407 + 5 * chan_hw_value c))
     (band_channels wcn_band_2ghz) \<and>
   list_all (\<lambda>c. chan_center_freq c = 5000 + 5 * chan_hw_value c) (band_channels wcn_band_5ghz) \<and>
   distinct (map chan_hw_value (band_channels wcn_band_2ghz @ band_channels wcn_band_5ghz)) \<and>
   list_all (\<lambda>r. rate_hw_value r = rate_bitrate r div 5) (band_bitrates wcn_band_5ghz) \<and>
   list_all (\<lambda>r. rate_hw_value r = 0x80 OR rate_bitrate r div 5) (take 4 (band_bitrates wcn_band_2ghz)) \<and>
   drop 4 (band_bitrates wcn_band_2ghz) = band_bitrates wcn_band_5ghz"
proof -
  have add: "wcn36xx_add_interface P v w \<noteq> Some (- EOPNOTSUPP, w) \<longleftrightarrow>
      vif_type (vifs w v) \<in> {NL80211_IFTYPE_STATION, NL80211_IFTYPE_AP, NL80211_IFTYPE_ADHOC, NL80211_IFTYPE_MESH_POINT}"
    for P v w by (auto simp: wcn36xx_add_interface_def ignore_def Let_def bind_eq_Some_conv)
  have "c \<in> set (cipher_suites (wcn36xx_init_ieee80211 hw)) \<longleftrightarrow> cipher_type c \<noteq> None" for c
    by (simp add: wcn36xx_init_ieee80211_def cipher_type_def)
  moreover have "interface_modes (wcn36xx_init_ieee80211 hw) =
      {NL80211_IFTYPE_STATION, NL80211_IFTYPE_AP, NL80211_IFTYPE_ADHOC, NL80211_IFTYPE_MESH_POINT}"
    by (simp add: wcn36xx_init_ieee80211_def)
  ultimately show ?thesis
    using tables_consistent_bands by (simp add: add Let_def wcn36xx_init_ieee80211_def)
qed

end
