(* ===== verification/Debug.thy ===== *)
theory Debug
  imports Mac
begin

text \<open>
  The two files of debugfs (\<^verbatim>\<open>debug.c\<close>): the switch of the beacon-mode power save and the commands that
  make the firmware dump its state. A write gives the bytes of the user, whose number is the count; the
  copy from user space may fail. A buffer on the stack holds what is there, \<open>stack\<close>, until it is
  written. What a read offers is the buffer it hands to \<^verbatim>\<open>simple_read_from_buffer\<close>.
\<close>

abbreviation (input) EFAULT :: int where "EFAULT \<equiv> 14"

definition is_station :: "wcn36xx \<Rightarrow> nat \<Rightarrow> bool" where
  "is_station w v \<longleftrightarrow> vif_type (vifs w v) = NL80211_IFTYPE_STATION"

section \<open>The power-save switch\<close>

fun bmps_digit :: "wcn36xx \<Rightarrow> nat list \<Rightarrow> u8 \<Rightarrow> u8" where
  "bmps_digit w [] b = b"
| "bmps_digit w (v # vs) b =
     (if is_station w v then (if pw_state (vif_priv w v) = WCN36XX_BMPS then 0x31 else 0x30)
      else bmps_digit w vs b)"

definition read_file_bool_bmps :: "u8 list \<Rightarrow> wcn36xx \<Rightarrow> u8 list" where
  "read_file_bool_bmps stack w = [bmps_digit w (vif_list w) (hd stack), 0x0A]"

fun bmps_enter_all :: "platform \<Rightarrow> nat list \<Rightarrow> wcn36xx \<Rightarrow> wcn36xx option" where
  "bmps_enter_all P [] w = Some w"
| "bmps_enter_all P (v # vs) w = do {
     w \<leftarrow> (if is_station w v then do {
            w \<leftarrow> ignore (wcn36xx_enable_keep_alive_null_packet P v w);
            ignore (wcn36xx_pmc_enter_bmps_state P v w) }
          else Some w);
     bmps_enter_all P vs w }"

fun bmps_exit_all :: "platform \<Rightarrow> nat list \<Rightarrow> wcn36xx \<Rightarrow> wcn36xx option" where
  "bmps_exit_all P [] w = Some w"
| "bmps_exit_all P (v # vs) w = do {
     w \<leftarrow> (if is_station w v then ignore (wcn36xx_pmc_exit_bmps_state P v w) else Some w);
     bmps_exit_all P vs w }"

text \<open>The characters are \<^verbatim>\<open>y\<close>, \<^verbatim>\<open>Y\<close>, \<^verbatim>\<open>1\<close> and \<^verbatim>\<open>n\<close>, \<^verbatim>\<open>N\<close>, \<^verbatim>\<open>0\<close>. After a write of nothing the first byte
  is what the stack held.\<close>

definition write_file_bool_bmps :: "platform \<Rightarrow> u8 list \<Rightarrow> bool \<Rightarrow> u8 list \<Rightarrow> wcn36xx
     \<Rightarrow> (int \<times> wcn36xx) option" where
  "write_file_bool_bmps P stack fault user w =
     (if fault then Some (- EFAULT, w)
      else (let c = hd (take 31 user @ stack) in do {
        w \<leftarrow> (if c \<in> {0x79, 0x59, 0x31} then bmps_enter_all P (vif_list w) w
             else if c \<in> {0x6E, 0x4E, 0x30} then bmps_exit_all P (vif_list w) w
             else Some w);
        Some (int (length user), w) }))"

section \<open>The dump command\<close>

text \<open>\<^verbatim>\<open>strsep\<close> with a space as delimiter, on a string without its terminator; \<open>None\<close> is the null pointer.\<close>

definition strsep :: "u8 list option \<Rightarrow> u8 list option \<times> u8 list option" where
  "strsep s = (case s of
     None \<Rightarrow> (None, None)
   | Some s \<Rightarrow> (let t = takeWhile (\<lambda>c. c \<noteq> 0x20) s; r = drop (length t) s
               in (Some t, if r = [] then None else Some (tl r))))"

abbreviation (input) WCN36xx_MAX_DUMP_ARGS :: nat where "WCN36xx_MAX_DUMP_ARGS \<equiv> 5"

text \<open>\<open>kstr\<close> is \<^verbatim>\<open>kstrtou32\<close> of the kernel in base 0, \<open>None\<close> its errors. The arguments from the first that
  cannot be read on stay 0.\<close>

fun dump_args :: "(u8 list \<Rightarrow> u32 option) \<Rightarrow> nat \<Rightarrow> u8 list option \<Rightarrow> u32 list" where
  "dump_args kstr 0 tmp = []"
| "dump_args kstr (Suc n) tmp =
     (case strsep tmp of
        (None, _) \<Rightarrow> replicate (Suc n) 0
      | (Some begin_, tmp) \<Rightarrow>
          (case kstr begin_ of
             None \<Rightarrow> replicate (Suc n) 0
           | Some x \<Rightarrow> x # dump_args kstr n tmp))"

definition write_file_dump :: "platform \<Rightarrow> (u8 list \<Rightarrow> u32 option) \<Rightarrow> bool \<Rightarrow> u8 list \<Rightarrow> wcn36xx
     \<Rightarrow> (int \<times> wcn36xx) option" where
  "write_file_dump P kstr fault user w =
     (if fault then Some (- EFAULT, w)
      else (let buf = take 254 user;
                arg = dump_args kstr WCN36xx_MAX_DUMP_ARGS (Some (takeWhile (\<lambda>c. c \<noteq> 0) buf))
            in do {
              w \<leftarrow> ignore (wcn36xx_smd_dump_cmd_req P (arg ! 0) (arg ! 1) (arg ! 2) (arg ! 3) (arg ! 4) w);
              Some (int (length user), w) }))"

section \<open>The entries\<close>

text \<open>What debugfs returns: a null pointer, an error pointer or an entry. The two fields \<open>value\<close> of the files are
  not used.\<close>

datatype dentry = Null_ptr | Err_ptr int | Dentry nat

record wcn36xx_dfs_entry =
  rootdir :: dentry
  file_bmps_switcher :: dentry
  file_dump :: dentry

definition drop_err :: "dentry \<Rightarrow> dentry" where
  "drop_err d = (case d of Err_ptr _ \<Rightarrow> Null_ptr | _ \<Rightarrow> d)"

definition wcn36xx_debugfs_init :: "dentry \<Rightarrow> (string \<Rightarrow> dentry \<Rightarrow> dentry) \<Rightarrow> wcn36xx_dfs_entry" where
  "wcn36xx_debugfs_init dir create_file =
     (let root = drop_err dir
      in \<lparr> rootdir = root, file_bmps_switcher = drop_err (create_file ''bmps_switcher'' root),
           file_dump = drop_err (create_file ''dump'' root) \<rparr>)"

section \<open>Switching on and off\<close>

definition keep_alive_msg :: "wcn36xx \<Rightarrow> nat \<Rightarrow> u8 list" where
  "keep_alive_msg w v = INIT_HAL_MSG HAL_KEEP_ALIVE (wcn36xx_hal_keep_alive_req_msg 1 30 (bss_index (vif_priv w v)))"

lemma keep_alive_command:
  assumes "smd_wf P" and "hal_ready w"
  obtains r w' where "wcn36xx_enable_keep_alive_null_packet P v w = Some (r, w')" "hal_ready w'"
    "same_but_hal w w'" "smd_sent (klog w') = smd_sent (klog w) @ [keep_alive_msg w v]"
proof -
  have "length (keep_alive_msg w v) \<le> 4096" by (simp add: keep_alive_msg_def)
  from hal_status_command [OF assms this] that show ?thesis
    unfolding wcn36xx_enable_keep_alive_null_packet_def wcn36xx_smd_keep_alive_req_def keep_alive_msg_def Let_def
    by (metis (full_types))
qed

text \<open>The private data of the interfaces with the power state of some of them changed.\<close>

definition with_pw :: "wcn36xx_power_state \<Rightarrow> (nat \<Rightarrow> bool) \<Rightarrow> wcn36xx \<Rightarrow> nat \<Rightarrow> wcn36xx_vif" where
  "with_pw st S w v = (if S v then (vif_priv w v)\<lparr> pw_state := st \<rparr> else vif_priv w v)"

lemma accepted_status: "fw_accepts P \<Longrightarrow> firmware_status P log m = 0"
  by (auto simp: firmware_status_def fw_accepts_def split: sum.split) (metis sum.simps(4) sum.inject(2))+

lemma same_msgs:
  "vifs w' = vifs w \<Longrightarrow> vif_priv w' = with_pw st S w \<Longrightarrow>
     keep_alive_msg w' v = keep_alive_msg w v \<and> enter_bmps_msg w' v = enter_bmps_msg w v \<and>
     exit_bmps_msg w' v = exit_bmps_msg w v"
  by (simp add: keep_alive_msg_def enter_bmps_msg_def exit_bmps_msg_def with_pw_def)

lemma same_stations: "vifs w' = vifs w \<Longrightarrow> is_station w' = is_station w"
  by (simp add: is_station_def fun_eq_iff)

lemma set_pw_state_lists [simp]:
  "vifs (set_pw_state v st w) = vifs w" "vif_list (set_pw_state v st w) = vif_list w"
  by (simp_all add: set_pw_state_def)

lemma enter_step:
  assumes "smd_wf P" and "fw_accepts P" and "hal_ready w"
  obtains w' where "do { w \<leftarrow> ignore (wcn36xx_enable_keep_alive_null_packet P v w);
      ignore (wcn36xx_pmc_enter_bmps_state P v w) } = Some w'" "hal_ready w'" "vifs w' = vifs w"
    "vif_list w' = vif_list w" "vif_priv w' = with_pw WCN36XX_BMPS (\<lambda>x. x = v) w"
    "smd_sent (klog w') = smd_sent (klog w) @ [keep_alive_msg w v, enter_bmps_msg w v]"
proof -
  obtain r w1 where 1: "wcn36xx_enable_keep_alive_null_packet P v w = Some (r, w1)" "hal_ready w1"
    "same_but_hal w w1" "smd_sent (klog w1) = smd_sent (klog w) @ [keep_alive_msg w v]"
    by (rule keep_alive_command [OF assms(1,3)])
  obtain w2 where 2: "wcn36xx_smd_enter_bmps P v w1 = Some (firmware_status P (klog w1) (enter_bmps_msg w1 v), w2)"
    "hal_ready w2" "same_but_hal w1 w2" "smd_sent (klog w2) = smd_sent (klog w1) @ [enter_bmps_msg w1 v]"
    by (rule bmps_commands [OF assms(1) 1(2), of v])
  note f = same_but_hal_fields [OF 1(3)] same_but_hal_fields [OF 2(3)]
  have m: "enter_bmps_msg w1 v = enter_bmps_msg w v" by (simp add: enter_bmps_msg_def f)
  show ?thesis
    by (rule that [of "set_pw_state v WCN36XX_BMPS w2"])
      (use 1 2 in \<open>simp_all add: ignore_def wcn36xx_pmc_enter_bmps_state_def accepted_status [OF assms(2)] f m
         with_pw_def fun_eq_iff\<close>)
qed

lemma exit_step:
  assumes "smd_wf P" and "hal_ready w" and "pw_state (vif_priv w v) = WCN36XX_BMPS"
  obtains w' where "ignore (wcn36xx_pmc_exit_bmps_state P v w) = Some w'" "hal_ready w'" "vifs w' = vifs w"
    "vif_list w' = vif_list w" "vif_priv w' = with_pw WCN36XX_FULL_POWER (\<lambda>x. x = v) w"
    "smd_sent (klog w') = smd_sent (klog w) @ [exit_bmps_msg w v]"
proof -
  obtain w2 where 2: "wcn36xx_smd_exit_bmps P v w = Some (firmware_status P (klog w) (exit_bmps_msg w v), w2)"
    "hal_ready w2" "same_but_hal w w2" "smd_sent (klog w2) = smd_sent (klog w) @ [exit_bmps_msg w v]"
    by (rule bmps_commands [OF assms(1,2), of v])
  note f = same_but_hal_fields [OF 2(3)]
  show ?thesis
    by (rule that [of "set_pw_state v WCN36XX_FULL_POWER w2"])
      (use 2 assms(3) in \<open>simp_all add: ignore_def wcn36xx_pmc_exit_bmps_state_def f
         with_pw_def fun_eq_iff\<close>)
qed

lemma with_pw_twice:
  "vifs w1 = vifs w \<Longrightarrow> vif_priv w1 = with_pw st A w \<Longrightarrow> with_pw st B w1 = with_pw st (\<lambda>v. A v \<or> B v) w"
  by (auto simp: with_pw_def fun_eq_iff)

lemma enter_all_accepted:
  assumes wf: "smd_wf P" and acc: "fw_accepts P"
  shows "hal_ready w \<Longrightarrow> \<exists>w'. bmps_enter_all P vs w = Some w' \<and> hal_ready w' \<and> vifs w' = vifs w \<and>
    vif_list w' = vif_list w \<and> vif_priv w' = with_pw WCN36XX_BMPS (\<lambda>v. v \<in> set vs \<and> is_station w v) w \<and>
    smd_sent (klog w') = smd_sent (klog w) @
      concat (map (\<lambda>v. [keep_alive_msg w v, enter_bmps_msg w v]) (filter (is_station w) vs))"
proof (induction vs arbitrary: w)
  case Nil
  then show ?case by (simp add: with_pw_def fun_eq_iff)
next
  case (Cons v vs)
  show ?case
  proof (cases "is_station w v")
    case False
    with Cons.IH [OF Cons.prems] show ?thesis by (auto simp: with_pw_def fun_eq_iff)
  next
    case True
    obtain w1 where 1: "do { w \<leftarrow> ignore (wcn36xx_enable_keep_alive_null_packet P v w);
        ignore (wcn36xx_pmc_enter_bmps_state P v w) } = Some w1" "hal_ready w1" "vifs w1 = vifs w"
      "vif_list w1 = vif_list w" "vif_priv w1 = with_pw WCN36XX_BMPS (\<lambda>x. x = v) w"
      "smd_sent (klog w1) = smd_sent (klog w) @ [keep_alive_msg w v, enter_bmps_msg w v]"
      by (rule enter_step [OF wf acc Cons.prems])
    note same = same_msgs [OF 1(3,5)] same_stations [OF 1(3)] and pw = with_pw_twice [OF 1(3,5)]
    from Cons.IH [OF 1(2)] obtain w2 where 2: "bmps_enter_all P vs w1 = Some w2" "hal_ready w2" "vifs w2 = vifs w1"
      "vif_list w2 = vif_list w1" "vif_priv w2 = with_pw WCN36XX_BMPS (\<lambda>v. v \<in> set vs \<and> is_station w1 v) w1"
      "smd_sent (klog w2) = smd_sent (klog w1) @
        concat (map (\<lambda>v. [keep_alive_msg w1 v, enter_bmps_msg w1 v]) (filter (is_station w1) vs))" by blast
    have "bmps_enter_all P (v # vs) w = Some w2" using True 1(1) 2(1) by simp
    moreover have "vif_priv w2 = with_pw WCN36XX_BMPS (\<lambda>x. x \<in> set (v # vs) \<and> is_station w x) w"
      using True by (auto simp: 2(5) pw same with_pw_def fun_eq_iff)
    ultimately show ?thesis using True 1 2(2-4,6) by (simp add: same)
  qed
qed

lemma exit_all_runs:
  assumes wf: "smd_wf P"
  shows "hal_ready w \<Longrightarrow> distinct vs \<Longrightarrow> \<exists>w'. bmps_exit_all P vs w = Some w' \<and> hal_ready w' \<and> vifs w' = vifs w \<and>
    vif_list w' = vif_list w \<and> vif_priv w' = with_pw WCN36XX_FULL_POWER (\<lambda>v. v \<in> set vs \<and> is_station w v) w \<and>
    smd_sent (klog w') = smd_sent (klog w) @
      map (exit_bmps_msg w) (filter (\<lambda>v. is_station w v \<and> pw_state (vif_priv w v) = WCN36XX_BMPS) vs)"
proof (induction vs arbitrary: w)
  case Nil
  then show ?case by (simp add: with_pw_def fun_eq_iff)
next
  case (Cons v vs)
  show ?case
  proof (cases "is_station w v \<and> pw_state (vif_priv w v) = WCN36XX_BMPS")
    case False
    then have "bmps_exit_all P (v # vs) w = bmps_exit_all P vs w"
      by (auto simp: wcn36xx_pmc_exit_bmps_state_def ignore_def)
    moreover have "with_pw WCN36XX_FULL_POWER (\<lambda>x. x \<in> set (v # vs) \<and> is_station w x) w =
        with_pw WCN36XX_FULL_POWER (\<lambda>x. x \<in> set vs \<and> is_station w x) w"
      using False by (cases "pw_state (vif_priv w v)") (auto simp: with_pw_def fun_eq_iff)
    ultimately show ?thesis using False Cons.IH [OF Cons.prems(1)] Cons.prems(2) by auto
  next
    case True
    then obtain w1 where 1: "ignore (wcn36xx_pmc_exit_bmps_state P v w) = Some w1" "hal_ready w1" "vifs w1 = vifs w"
      "vif_list w1 = vif_list w" "vif_priv w1 = with_pw WCN36XX_FULL_POWER (\<lambda>x. x = v) w"
      "smd_sent (klog w1) = smd_sent (klog w) @ [exit_bmps_msg w v]"
      using exit_step [OF wf Cons.prems(1)] by blast
    note same = same_msgs [OF 1(3,5)] same_stations [OF 1(3)] and pw = with_pw_twice [OF 1(3,5)]
    from Cons.IH [OF 1(2)] Cons.prems(2) obtain w2 where 2: "bmps_exit_all P vs w1 = Some w2" "hal_ready w2"
      "vifs w2 = vifs w1" "vif_list w2 = vif_list w1"
      "vif_priv w2 = with_pw WCN36XX_FULL_POWER (\<lambda>v. v \<in> set vs \<and> is_station w1 v) w1"
      "smd_sent (klog w2) = smd_sent (klog w1) @ map (exit_bmps_msg w1)
        (filter (\<lambda>v. is_station w1 v \<and> pw_state (vif_priv w1 v) = WCN36XX_BMPS) vs)" by auto
    have "filter (\<lambda>x. is_station w1 x \<and> pw_state (vif_priv w1 x) = WCN36XX_BMPS) vs =
        filter (\<lambda>x. is_station w x \<and> pw_state (vif_priv w x) = WCN36XX_BMPS) vs"
      using Cons.prems(2) by (intro filter_cong) (auto simp: same 1(5) with_pw_def)
    moreover have "bmps_exit_all P (v # vs) w = Some w2" using True 1(1) 2(1) by simp
    moreover have "vif_priv w2 = with_pw WCN36XX_FULL_POWER (\<lambda>x. x \<in> set (v # vs) \<and> is_station w x) w"
      using True by (auto simp: 2(5) pw same with_pw_def fun_eq_iff)
    ultimately show ?thesis using True 1 2(2-4,6) by (simp add: same)
  qed
qed

lemma bmps_digit_all:
  "\<exists>v \<in> set vs. is_station w v \<Longrightarrow> \<forall>v \<in> set vs. is_station w v \<longrightarrow> pw_state (vif_priv w v) = st \<Longrightarrow>
     bmps_digit w vs b = (if st = WCN36XX_BMPS then 0x31 else 0x30)"
proof (induction vs)
  case (Cons v vs)
  then show ?case by (cases "is_station w v") simp_all
qed simp

text \<open>C39: The file is a switch: with a station among the interfaces and a firmware that accepts, writing
  \<^verbatim>\<open>1\<close> sends the keep-alive request and the request to enter power save for every station of the
  list in its order, and the file then reads \<^verbatim>\<open>1\<close>; writing \<^verbatim>\<open>0\<close> sends the request to leave for each of
  them, and the file reads \<^verbatim>\<open>0\<close>. Interfaces of other types keep their state throughout.\<close>

theorem bmps_switch_roundtrip:
  assumes wf: "smd_wf P" and acc: "fw_accepts P" and ready: "hal_ready w"
    and vs: "distinct (vif_list w)" "\<exists>v \<in> set (vif_list w). is_station w v"
    and on: "c1 \<in> {0x79, 0x59, 0x31}" and off: "c0 \<in> {0x6E, 0x4E, 0x30}"
  defines "stations \<equiv> filter (is_station w) (vif_list w)"
  shows "\<exists>w1 w2. write_file_bool_bmps P stack False (c1 # rest1) w = Some (int (length (c1 # rest1)), w1) \<and>
           read_file_bool_bmps stack w1 = [0x31, 0x0A] \<and>
           write_file_bool_bmps P stack False (c0 # rest0) w1 = Some (int (length (c0 # rest0)), w2) \<and>
           read_file_bool_bmps stack w2 = [0x30, 0x0A] \<and> hal_ready w2 \<and>
           smd_sent (klog w2) = smd_sent (klog w) @
             concat (map (\<lambda>v. [keep_alive_msg w v, enter_bmps_msg w v]) stations) @ map (exit_bmps_msg w) stations \<and>
           (\<forall>v. v \<notin> set stations \<longrightarrow> vif_priv w2 v = vif_priv w v)"
proof -
  from enter_all_accepted [OF wf acc ready, of "vif_list w"] obtain w1 where
    1: "bmps_enter_all P (vif_list w) w = Some w1" "hal_ready w1" "vifs w1 = vifs w" "vif_list w1 = vif_list w"
    "vif_priv w1 = with_pw WCN36XX_BMPS (\<lambda>v. v \<in> set (vif_list w) \<and> is_station w v) w"
    "smd_sent (klog w1) = smd_sent (klog w) @
       concat (map (\<lambda>v. [keep_alive_msg w v, enter_bmps_msg w v]) stations)"
    unfolding stations_def by blast
  note same = same_msgs [OF 1(3,5)] same_stations [OF 1(3)]
  have dist: "distinct (vif_list w1)" using vs(1) 1(4) by simp
  from exit_all_runs [OF wf 1(2) this] obtain w2 where
    2: "bmps_exit_all P (vif_list w1) w1 = Some w2" "hal_ready w2" "vifs w2 = vifs w1" "vif_list w2 = vif_list w1"
    "vif_priv w2 = with_pw WCN36XX_FULL_POWER (\<lambda>v. v \<in> set (vif_list w1) \<and> is_station w1 v) w1"
    "smd_sent (klog w2) = smd_sent (klog w1) @ map (exit_bmps_msg w1)
       (filter (\<lambda>v. is_station w1 v \<and> pw_state (vif_priv w1 v) = WCN36XX_BMPS) (vif_list w1))" by blast
  have all: "filter (\<lambda>v. is_station w1 v \<and> pw_state (vif_priv w1 v) = WCN36XX_BMPS) (vif_list w1) = stations"
    unfolding stations_def 1(4) by (rule filter_cong) (auto simp: same 1(5) with_pw_def)
  have "read_file_bool_bmps stack w1 = [0x31, 0x0A]"
    using bmps_digit_all [of "vif_list w1" w1 WCN36XX_BMPS "hd stack"] vs(2)
    by (simp add: read_file_bool_bmps_def same 1(4,5) with_pw_def)
  moreover have "read_file_bool_bmps stack w2 = [0x30, 0x0A]"
    using bmps_digit_all [of "vif_list w2" w2 WCN36XX_FULL_POWER "hd stack"] vs(2)
    by (simp add: read_file_bool_bmps_def same same_stations [OF 2(3)] 1(4) 2(4,5) with_pw_def)
  moreover have "vif_priv w2 v = vif_priv w v" if "v \<notin> set stations" for v
    using that by (auto simp: stations_def 2(5) 1(4,5) same with_pw_def)
  moreover have "map (exit_bmps_msg w1) stations = map (exit_bmps_msg w) stations" by (simp add: same)
  ultimately show ?thesis
    using 1(1,6) 2(1,2,6) on off all
    by (intro exI [of _ w1] exI [of _ w2]) (auto simp: write_file_bool_bmps_def)
qed

lemma boot_like_accepts:
  "is_rsp pkt \<Longrightarrow> rsp_status pkt = 0 \<Longrightarrow> fw_accepts (answering_platform [pkt])"
  by (simp add: fw_accepts_def answering_platform_answer)

theorem bmps_switch_roundtrip_witness:
  "\<exists>w1 w2. write_file_bool_bmps (answering_platform [status_rsp HAL_ENTER_BMPS 0]) [7] False [0x31, 0x0A] sample_wcn =
        Some (2, w1) \<and> read_file_bool_bmps [7] w1 = [0x31, 0x0A] \<and>
      write_file_bool_bmps (answering_platform [status_rsp HAL_ENTER_BMPS 0]) [7] False [0x6E] w1 = Some (1, w2) \<and>
      read_file_bool_bmps [7] w2 = [0x30, 0x0A]"
proof -
  let ?P = "answering_platform [status_rsp HAL_ENTER_BMPS 0]"
  have "smd_wf ?P" "fw_accepts ?P"
    by (auto intro: answering_platform_wf boot_like_accepts)
  moreover have "distinct (vif_list sample_wcn)" "\<exists>v \<in> set (vif_list sample_wcn). is_station sample_wcn v"
    by (simp_all add: sample_wcn_def is_station_def sample_vif_def)
  ultimately show ?thesis
    using bmps_switch_roundtrip [OF _ _ sample_hal_ready, of ?P "0x31" "0x6E" "[7]" "[0x0A]" "[]"] by auto
qed

section \<open>The arguments of the dump command\<close>

text \<open>The decimal digits of a number, and the lines a user writes: the numbers with a space between them.\<close>

fun decimal :: "nat \<Rightarrow> u8 list" where
  "decimal n = (if n < 10 then [0x30 + of_nat n] else decimal (n div 10) @ [0x30 + of_nat (n mod 10)])"

declare decimal.simps [simp del]

fun dump_line :: "u32 list \<Rightarrow> u8 list \<Rightarrow> u8 list" where
  "dump_line [] eol = eol"
| "dump_line [x] eol = decimal (unat x) @ eol"
| "dump_line (x # xs) eol = decimal (unat x) @ 0x20 # dump_line xs eol"

text \<open>What the documentation of \<^verbatim>\<open>kstrtou32\<close> says of decimal numbers: digits without a sign and without
  leading zeros are read as the number, also before a newline.\<close>

definition kstr_reads :: "(u8 list \<Rightarrow> u32 option) \<Rightarrow> bool" where
  "kstr_reads kstr \<longleftrightarrow>
     (\<forall>x. kstr (decimal (unat x)) = Some x \<and> kstr (decimal (unat x) @ [0x0A]) = Some x)"

lemma digit_char: "n < 10 \<Longrightarrow> (0x30 + of_nat n :: u8) \<in> {0x30, 0x31, 0x32, 0x33, 0x34, 0x35, 0x36, 0x37, 0x38, 0x39}"
  by (auto simp: less_Suc_eq numeral_eq_Suc)

lemma decimal_chars: "c \<in> set (decimal n) \<Longrightarrow> c \<noteq> 0x20 \<and> c \<noteq> 0 \<and> c \<noteq> 0x0A"
proof (induction n rule: decimal.induct)
  case (1 n)
  from digit_char [of "n mod 10"] digit_char [of n] 1 show ?case
    by (subst (asm) decimal.simps) (auto split: if_splits)
qed

lemma decimal_length: "n < 10 ^ k \<Longrightarrow> 0 < k \<Longrightarrow> length (decimal n) \<le> k"
proof (induction k arbitrary: n)
  case (Suc k)
  show ?case
  proof (cases "n < 10")
    case False
    with Suc.prems have "n div 10 < 10 ^ k" "0 < k"
      by (cases k; simp add: less_mult_imp_div_less mult.commute)+
    with Suc.IH False show ?thesis by (subst decimal.simps) simp
  qed (subst decimal.simps, simp)
qed simp

lemma decimal_u32_length: "length (decimal (unat (x :: u32))) \<le> 10"
  using decimal_length [of "unat x" 10] unsigned_less [of x, where ?'a = nat] by simp

lemma strsep_last: "\<forall>c \<in> set s. c \<noteq> 0x20 \<Longrightarrow> strsep (Some s) = (Some s, None)"
  using takeWhile_eq_all_conv [of "\<lambda>c. c \<noteq> 0x20" s] by (simp add: strsep_def Let_def del: takeWhile_eq_all_conv)

lemma strsep_decimal:
  "strsep (Some (decimal n @ 0x20 # r)) = (Some (decimal n), Some r)"
  "set eol \<subseteq> {0x0A} \<Longrightarrow> strsep (Some (decimal n @ eol)) = (Some (decimal n @ eol), None)"
proof -
  have t: "\<forall>c \<in> set (decimal n). c \<noteq> 0x20" using decimal_chars by blast
  then show "strsep (Some (decimal n @ 0x20 # r)) = (Some (decimal n), Some r)"
    by (simp add: strsep_def takeWhile_append2 Let_def)
  show "strsep (Some (decimal n @ eol)) = (Some (decimal n @ eol), None)" if "set eol \<subseteq> {0x0A}"
    using t that by (intro strsep_last) auto
qed

lemma dump_line_cons: "xs \<noteq> [] \<Longrightarrow> dump_line (x # xs) eol = decimal (unat x) @ 0x20 # dump_line xs eol"
  by (cases xs) simp_all

lemma dump_line_bounds:
  assumes "set eol \<subseteq> {0x0A}"
  shows "length (dump_line xs eol) \<le> 11 * length xs + length eol" "0 \<notin> set (dump_line xs eol)"
proof -
  show "length (dump_line xs eol) \<le> 11 * length xs + length eol"
  proof (induction xs)
    case (Cons x xs)
    with decimal_u32_length [of x] show ?case by (cases "xs = []") (simp_all add: dump_line_cons)
  qed simp
  show "0 \<notin> set (dump_line xs eol)"
    using assms by (induction xs eol rule: dump_line.induct) (auto dest: decimal_chars)
qed

lemma dump_args_none: "dump_args kstr n None = replicate n 0"
  by (cases n) (simp_all add: strsep_def)

lemma dump_args_line:
  assumes "kstr_reads kstr" and eol: "eol \<in> {[], [0x0A]}"
  shows "xs \<noteq> [] \<Longrightarrow> length xs \<le> n \<Longrightarrow> dump_args kstr n (Some (dump_line xs eol)) = xs @ replicate (n - length xs) 0"
proof (induction xs arbitrary: n)
  case (Cons x xs)
  then obtain m where n: "n = Suc m" by (cases n) auto
  show ?case
  proof (cases "xs = []")
    case True
    have "strsep (Some (dump_line [x] eol)) = (Some (decimal (unat x) @ eol), None)"
      using eol by (auto simp: strsep_decimal(2) strsep_decimal(2) [of "[]", simplified])
    moreover have "kstr (decimal (unat x) @ eol) = Some x" using assms by (auto simp: kstr_reads_def)
    ultimately show ?thesis using True by (simp add: n dump_args_none del: dump_line.simps)
  next
    case False
    then show ?thesis
      using Cons assms(1) by (simp add: n dump_line_cons strsep_decimal(1) kstr_reads_def)
  qed
qed simp

text \<open>C38: Up to five numbers written to the file in decimal, separated by single spaces and with or without
  a newline at the end, reach the firmware as the arguments of one DUMP command, the missing ones as
  0; the write takes the whole line.\<close>

theorem dump_roundtrip:
  assumes kstr: "kstr_reads kstr" and xs: "xs \<noteq> []" "length xs \<le> 5" and eol: "eol \<in> {[], [0x0A]}"
    and wf: "smd_wf P" and ready: "hal_ready w"
  defines "line \<equiv> dump_line xs eol" and "a \<equiv> xs @ replicate (5 - length xs) 0"
  shows "\<exists>w'. write_file_dump P kstr False line w = Some (int (length line), w') \<and> hal_ready w' \<and>
           smd_sent (klog w') = smd_sent (klog w) @ [INIT_HAL_MSG HAL_DUMP_COMMAND
             (wcn36xx_hal_dump_cmd_req_msg (a ! 0) (a ! 1) (a ! 2) (a ! 3) (a ! 4))] \<and> same_but_hal w w'"
proof -
  let ?m = "INIT_HAL_MSG HAL_DUMP_COMMAND (wcn36xx_hal_dump_cmd_req_msg (a ! 0) (a ! 1) (a ! 2) (a ! 3) (a ! 4))"
  have "set eol \<subseteq> {0x0A}" using eol by auto
  from dump_line_bounds [OF this, of xs] xs(2) eol have line: "length line \<le> 254" "0 \<notin> set line"
    by (auto simp: line_def)
  have "takeWhile (\<lambda>c. c \<noteq> 0) line = line" using line(2) by (auto simp: takeWhile_eq_all_conv)
  moreover have "dump_args kstr 5 (Some line) = a"
    using dump_args_line [OF kstr eol xs] by (simp add: line_def a_def)
  ultimately have args: "dump_args kstr 5 (Some (takeWhile (\<lambda>c. c \<noteq> 0) (take 254 line))) = a"
    using line(1) by (simp del: takeWhile_eq_all_conv)
  have "length ?m \<le> WCN36XX_HAL_BUF_SIZE" by simp
  from hal_status_command [OF wf ready this] obtain r w' where
    "wcn36xx_smd_dump_cmd_req P (a ! 0) (a ! 1) (a ! 2) (a ! 3) (a ! 4) w = Some (r, w')" "hal_ready w'"
    "same_but_hal w w'" "smd_sent (klog w') = smd_sent (klog w) @ [?m]"
    unfolding wcn36xx_smd_dump_cmd_req_def by (metis (full_types))
  then show ?thesis
    by (intro exI [of _ w']) (simp add: write_file_dump_def args ignore_def)
qed

text \<open>For the witness: a reader of decimal numbers.\<close>

definition read_decimal :: "u8 list \<Rightarrow> u32 option" where
  "read_decimal s =
     (let t = takeWhile (\<lambda>c. c \<noteq> 0x0A) s; v = foldl (\<lambda>v c. 10 * v + unat (c - 0x30)) 0 t
      in if t = [] \<or> v \<ge> 2 ^ 32 then None else Some (of_nat v))"

lemma foldl_decimal: "foldl (\<lambda>v c. 10 * v + unat (c - 0x30)) 0 (decimal n) = n"
proof (induction n rule: decimal.induct)
  case (1 n)
  have "unat (0x30 + of_nat k - 0x30 :: u8) = k" if "k < 10" for k
    using that by (simp add: unat_of_nat)
  with 1 show ?case by (subst decimal.simps) auto
qed

lemma read_decimal_reads: "kstr_reads read_decimal"
proof -
  have "takeWhile (\<lambda>c. c \<noteq> 0x0A) (decimal n @ eol) = decimal n" if "eol \<in> {[], [0x0A]}" for n eol
    using that by (auto simp: takeWhile_append takeWhile_eq_all_conv dest: decimal_chars)
  from this [of "[]"] this [of "[0x0A]"] have
    t: "takeWhile (\<lambda>c. c \<noteq> 0x0A) (decimal n) = decimal n" "takeWhile (\<lambda>c. c \<noteq> 0x0A) (decimal n @ [0x0A]) = decimal n"
    for n by simp_all
  have "decimal n \<noteq> []" for n by (subst decimal.simps) simp
  moreover have "unat x < 2 ^ 32" for x :: u32 using unsigned_less [of x, where ?'a = nat] by simp
  ultimately show ?thesis by (simp add: kstr_reads_def read_decimal_def t foldl_decimal Let_def not_le)
qed

theorem dump_roundtrip_witness:
  "\<exists>w'. write_file_dump sample_platform read_decimal False [0x31, 0x32, 0x20, 0x37, 0x0A] sample_wcn = Some (5, w') \<and>
      smd_sent (klog w') = [INIT_HAL_MSG HAL_DUMP_COMMAND (wcn36xx_hal_dump_cmd_req_msg 12 7 0 0 0)]"
proof -
  have "smd_wf sample_platform" by (simp add: smd_wf_def sample_platform_def)
  moreover have "decimal 12 = [0x31, 0x32]" "decimal 7 = [0x37]" by (simp_all add: decimal.simps)
  moreover have "smd_sent (klog sample_wcn) = []" by (simp add: sample_wcn_def smd_sent_def)
  moreover have "[12, 7] @ replicate (5 - length [12, 7 :: u32]) 0 = [12, 7, 0, 0, 0 :: u32]"
    by (simp add: numeral_3_eq_3)
  ultimately show ?thesis
    using dump_roundtrip [OF read_decimal_reads, of "[12, 7]" "[0x0A]" sample_platform sample_wcn] sample_hal_ready
    by auto
qed

end
