(* ===== verification/C_Layout.thy ===== *)
theory C_Layout
  imports Prelude
begin

text \<open>
  How a C compiler for the target lays out a structure: the bytes of integers are little endian, an integer is
  aligned to its size, a member of a structure starts at the next multiple of its alignment and the size of the
  structure is a multiple of the greatest one; in a packed structure there are no gaps. A layout gives
  sizes, offsets of members, an encoder and a decoder, and the theorems that tie these together.
\<close>

section \<open>Types\<close>

text \<open>\<open>CBits n\<close> is a run of bit-fields that fills one integer of \<open>n\<close> bytes.\<close>

datatype cty = CInt nat | CBits nat "(string \<times> nat) list" | CArr nat cty | CStruct bool cfields
and cfields = End | Field string cty cfields

abbreviation (input) U8 :: cty where "U8 \<equiv> CInt 1"
abbreviation (input) U16 :: cty where "U16 \<equiv> CInt 2"
abbreviation (input) U32 :: cty where "U32 \<equiv> CInt 4"
abbreviation (input) U64 :: cty where "U64 \<equiv> CInt 8"
abbreviation (input) CEnum :: cty where "CEnum \<equiv> CInt 4"

fun members :: "(string \<times> cty) list \<Rightarrow> cfields" where
  "members [] = End"
| "members ((f, t) # l) = Field f t (members l)"

definition plain_struct :: "(string \<times> cty) list \<Rightarrow> cty" where
  "plain_struct l = CStruct False (members l)"

definition packed_struct :: "(string \<times> cty) list \<Rightarrow> cty" where
  "packed_struct l = CStruct True (members l)"

section \<open>Sizes and offsets\<close>

definition align_up :: "nat \<Rightarrow> nat \<Rightarrow> nat" where
  "align_up a n = (n + (a - 1)) div a * a"

primrec calign :: "cty \<Rightarrow> nat" and caligns :: "cfields \<Rightarrow> nat" where
  "calign (CInt n) = n"
| "calign (CBits n bs) = n"
| "calign (CArr k t) = calign t"
| "calign (CStruct p fs) = (if p then 1 else caligns fs)"
| "caligns End = 1"
| "caligns (Field f t fs) = max (calign t) (caligns fs)"

text \<open>Where a member of type \<open>t\<close> starts when the members before it end at \<open>n\<close>.\<close>

definition slot :: "bool \<Rightarrow> cty \<Rightarrow> nat \<Rightarrow> nat" where
  "slot p t n = (if p then n else align_up (calign t) n)"

primrec csize :: "cty \<Rightarrow> nat" and cend :: "cfields \<Rightarrow> bool \<Rightarrow> nat \<Rightarrow> nat" where
  "csize (CInt n) = n"
| "csize (CBits n bs) = n"
| "csize (CArr k t) = k * csize t"
| "csize (CStruct p fs) = (if p then cend fs p 0 else align_up (caligns fs) (cend fs p 0))"
| "cend End p n = n"
| "cend (Field f t fs) p n = cend fs p (slot p t n + csize t)"

primrec coffset :: "cfields \<Rightarrow> bool \<Rightarrow> nat \<Rightarrow> string \<Rightarrow> (nat \<times> cty) option" where
  "coffset End p n g = None"
| "coffset (Field f t fs) p n g = (if f = g then Some (slot p t n, t) else coffset fs p (slot p t n + csize t) g)"

text \<open>\<open>offsetof\<close> along a path of member names, with the type found there.\<close>

fun cpath :: "cty \<Rightarrow> string list \<Rightarrow> (nat \<times> cty) option" where
  "cpath t [] = Some (0, t)"
| "cpath (CStruct p fs) (g # gs) =
     (case coffset fs p 0 g of
        None \<Rightarrow> None
      | Some (n, t) \<Rightarrow> (case cpath t gs of None \<Rightarrow> None | Some (m, u) \<Rightarrow> Some (n + m, u)))"
| "cpath _ (g # gs) = None"

text \<open>The bytes of a member in the memory of a structure.\<close>

definition cread :: "cty \<Rightarrow> string list \<Rightarrow> u8 list \<Rightarrow> u8 list" where
  "cread t gs bs = (case cpath t gs of None \<Rightarrow> [] | Some (n, u) \<Rightarrow> take (csize u) (drop n bs))"

section \<open>Values\<close>

datatype cval = VInt (vint: nat) | VSeq (vseq: "cval list")

primrec cok :: "cty \<Rightarrow> cval \<Rightarrow> bool" and coks :: "cfields \<Rightarrow> cval list \<Rightarrow> bool" where
  "cok (CInt n) v = (case v of VInt x \<Rightarrow> x < 256 ^ n | VSeq _ \<Rightarrow> False)"
| "cok (CBits n bs) v = (case v of VInt x \<Rightarrow> x < 256 ^ n | VSeq _ \<Rightarrow> False)"
| "cok (CArr k t) v = (case v of VInt _ \<Rightarrow> False | VSeq vs \<Rightarrow> length vs = k \<and> list_all (cok t) vs)"
| "cok (CStruct p fs) v = (case v of VInt _ \<Rightarrow> False | VSeq vs \<Rightarrow> coks fs vs)"
| "coks End vs = (vs = [])"
| "coks (Field f t fs) vs = (case vs of [] \<Rightarrow> False | v # vs \<Rightarrow> cok t v \<and> coks fs vs)"

primrec le_bytes :: "nat \<Rightarrow> nat \<Rightarrow> u8 list" where
  "le_bytes 0 x = []"
| "le_bytes (Suc n) x = of_nat x # le_bytes n (x div 256)"

primrec of_le_bytes :: "u8 list \<Rightarrow> nat" where
  "of_le_bytes [] = 0"
| "of_le_bytes (b # bs) = unat b + 256 * of_le_bytes bs"

text \<open>Gaps are encoded as zeros.\<close>

primrec cenc :: "cty \<Rightarrow> cval \<Rightarrow> u8 list" and cencs :: "cfields \<Rightarrow> bool \<Rightarrow> nat \<Rightarrow> cval list \<Rightarrow> u8 list" where
  "cenc (CInt n) v = le_bytes n (vint v)"
| "cenc (CBits n bs) v = le_bytes n (vint v)"
| "cenc (CArr k t) v = concat (map (cenc t) (vseq v))"
| "cenc (CStruct p fs) v =
     cencs fs p 0 (vseq v) @ replicate (csize (CStruct p fs) - cend fs p 0) 0"
| "cencs End p n vs = []"
| "cencs (Field f t fs) p n vs =
     replicate (slot p t n - n) 0 @ cenc t (hd vs) @ cencs fs p (slot p t n + csize t) (tl vs)"

primrec cdec :: "cty \<Rightarrow> u8 list \<Rightarrow> cval" and cdecs :: "cfields \<Rightarrow> bool \<Rightarrow> nat \<Rightarrow> u8 list \<Rightarrow> cval list" where
  "cdec (CInt n) bs = VInt (of_le_bytes (take n bs))"
| "cdec (CBits n fs) bs = VInt (of_le_bytes (take n bs))"
| "cdec (CArr k t) bs = VSeq (map (\<lambda>i. cdec t (drop (i * csize t) bs)) [0..<k])"
| "cdec (CStruct p fs) bs = VSeq (cdecs fs p 0 bs)"
| "cdecs End p n bs = []"
| "cdecs (Field f t fs) p n bs = cdec t (drop (slot p t n) bs) # cdecs fs p (slot p t n + csize t) bs"

text \<open>The member of a value a path names.\<close>

primrec vmember :: "cfields \<Rightarrow> cval list \<Rightarrow> string \<Rightarrow> cval option" where
  "vmember End vs g = None"
| "vmember (Field f t fs) vs g = (if f = g then Some (hd vs) else vmember fs (tl vs) g)"

fun vpath :: "cty \<Rightarrow> cval \<Rightarrow> string list \<Rightarrow> cval option" where
  "vpath t v [] = Some v"
| "vpath (CStruct p fs) v (g # gs) =
     (case (coffset fs p 0 g, vmember fs (vseq v) g) of (Some (_, t), Some x) \<Rightarrow> vpath t x gs | _ \<Rightarrow> None)"
| "vpath _ v (g # gs) = None"

text \<open>A structure that is cleared and then gets some of its members assigned.\<close>

primrec czero :: "cty \<Rightarrow> cval" and czeros :: "cfields \<Rightarrow> cval list" where
  "czero (CInt n) = VInt 0"
| "czero (CBits n bs) = VInt 0"
| "czero (CArr k t) = VSeq (replicate k (czero t))"
| "czero (CStruct p fs) = VSeq (czeros fs)"
| "czeros End = []"
| "czeros (Field f t fs) = czero t # czeros fs"

primrec assigned :: "cfields \<Rightarrow> (string \<Rightarrow> cval option) \<Rightarrow> cval list" where
  "assigned End a = []"
| "assigned (Field f t fs) a = (case a f of None \<Rightarrow> czero t | Some v \<Rightarrow> v) # assigned fs a"

fun cinit :: "cty \<Rightarrow> (string \<times> cval) list \<Rightarrow> cval" where
  "cinit (CStruct p fs) a = VSeq (assigned fs (map_of a))"
| "cinit t a = czero t"

section \<open>Facts\<close>

lemma align_up_ge: "0 < a \<Longrightarrow> n \<le> align_up a n"
proof -
  assume a: "0 < a"
  have "(n + (a - 1)) div a * a + (n + (a - 1)) mod a = n + (a - 1)" by (rule div_mult_mod_eq)
  moreover have "(n + (a - 1)) mod a < a" using a by simp
  ultimately show ?thesis unfolding align_up_def by linarith
qed

lemma align_up_1 [simp]: "align_up (Suc 0) n = n"
  by (simp add: align_up_def)

text \<open>Every integer has at least one byte.\<close>

primrec cwf :: "cty \<Rightarrow> bool" and cwfs :: "cfields \<Rightarrow> bool" where
  "cwf (CInt n) = (0 < n)"
| "cwf (CBits n bs) = (0 < n \<and> sum_list (map snd bs) = 8 * n)"
| "cwf (CArr k t) = cwf t"
| "cwf (CStruct p fs) = cwfs fs"
| "cwfs End = True"
| "cwfs (Field f t fs) = (cwf t \<and> cwfs fs)"

lemma calign_pos: "cwf t \<Longrightarrow> 0 < calign t" "cwfs fs \<Longrightarrow> 0 < caligns fs"
  by (induction t and fs) auto

lemma slot_ge: "cwf t \<Longrightarrow> n \<le> slot p t n"
  using align_up_ge calign_pos(1) by (simp add: slot_def)

lemma cend_ge:
  "cwf t \<Longrightarrow> True"
  "cwfs fs \<Longrightarrow> n \<le> cend fs p n"
proof (induction t and fs arbitrary: and n)
  case (Field f t fs)
  then have "slot p t n + csize t \<le> cend fs p (slot p t n + csize t)" by simp
  with slot_ge [of t n p] Field.prems show ?case by simp
qed simp_all

lemma csize_ge: "cwfs fs \<Longrightarrow> cend fs p 0 \<le> csize (CStruct p fs)"
  using align_up_ge [OF calign_pos(2)] by simp

lemma le_bytes_length [simp]: "length (le_bytes n x) = n"
  by (induction n arbitrary: x) simp_all

lemma of_le_bytes_le_bytes: "x < 256 ^ n \<Longrightarrow> of_le_bytes (le_bytes n x) = x"
proof (induction n arbitrary: x)
  case (Suc n)
  then have "x div 256 < 256 ^ n" by (simp add: less_mult_imp_div_less mult.commute)
  with Suc.IH show ?case by (simp add: unat_of_nat take_bit_eq_mod)
qed simp

lemma length_concat_const: "list_all (\<lambda>v. length (f v) = n) vs \<Longrightarrow> length (concat (map f vs)) = length vs * n"
  by (induction vs) auto

lemma cenc_length:
  "cwf t \<Longrightarrow> cok t v \<Longrightarrow> length (cenc t v) = csize t"
  "cwfs fs \<Longrightarrow> coks fs vs \<Longrightarrow> length (cencs fs p n vs) + n = cend fs p n"
proof (induction t and fs arbitrary: v and p n vs)
  case (CArr k t)
  then obtain vs where "v = VSeq vs" "length vs = k" "list_all (\<lambda>v. length (cenc t v) = csize t) vs"
    by (auto simp: list_all_iff split: cval.splits)
  then show ?case by (simp add: length_concat_const)
next
  case (CStruct p fs)
  then obtain vs where v: "v = VSeq vs" "coks fs vs" by (auto split: cval.splits)
  with CStruct.IH [of vs p 0] CStruct.prems have "length (cencs fs p 0 vs) = cend fs p 0" by simp
  with v csize_ge [of fs p] CStruct.prems(1) show ?case by simp
next
  case (Field f t fs)
  then obtain v vs' where v: "vs = v # vs'" "cok t v" "coks fs vs'" by (auto split: list.splits)
  with Field have "length (cenc t v) = csize t" "length (cencs fs p (slot p t n + csize t) vs') + (slot p t n + csize t)
      = cend fs p (slot p t n + csize t)" by auto
  with v slot_ge [of t n p] Field.prems show ?case by simp
qed (auto split: cval.splits)

lemma drop_exact: "length a = k \<Longrightarrow> drop k (a @ b) = b"
  by simp

text \<open>Decoding what was encoded, whatever follows in memory.\<close>

lemma cdec_seq:
  assumes dec: "\<And>v r. cok t v \<Longrightarrow> cdec t (cenc t v @ r) = v" and len: "\<And>v. cok t v \<Longrightarrow> length (cenc t v) = csize t"
    and "list_all (cok t) vs"
  shows "map (\<lambda>i. cdec t (drop (i * csize t) (concat (map (cenc t) vs) @ r))) [0..<length vs] = vs"
  using assms(3)
proof (induction vs)
  case (Cons v vs)
  then have "cok t v" "map (\<lambda>i. cdec t (drop (i * csize t) (concat (map (cenc t) vs) @ r))) [0..<length vs] = vs"
    by simp_all
  with dec len show ?case by (simp add: upt_conv_Cons map_Suc_upt [symmetric] comp_def del: upt_Suc)
qed simp

lemma cdec_cenc:
  "cwf t \<Longrightarrow> cok t v \<Longrightarrow> cdec t (cenc t v @ r) = v"
  "cwfs fs \<Longrightarrow> coks fs vs \<Longrightarrow> length pre = n \<Longrightarrow> cdecs fs p n (pre @ cencs fs p n vs @ r) = vs"
proof (induction t and fs arbitrary: v r and p n vs pre r)
  case (CArr k t)
  then obtain vs where v: "v = VSeq vs" "length vs = k" "list_all (cok t) vs" by (auto split: cval.splits)
  have "map (\<lambda>i. cdec t (drop (i * csize t) (concat (map (cenc t) vs) @ r))) [0..<length vs] = vs"
    by (rule cdec_seq) (use CArr cenc_length(1) v(3) in auto)
  with v show ?case by simp
next
  case (CStruct p fs)
  then obtain vs where v: "v = VSeq vs" "coks fs vs" by (auto split: cval.splits)
  with CStruct.IH [of vs "[]" 0 p] CStruct.prems show ?case by simp
next
  case (Field f t fs)
  then obtain v vs' where v: "vs = v # vs'" "cok t v" "coks fs vs'" by (auto split: list.splits)
  let ?n = "slot p t n" and ?rest = "cencs fs p (slot p t n + csize t) vs' @ r"
  let ?pre = "pre @ replicate (?n - n) 0 @ cenc t v"
  have n: "length (pre @ replicate (?n - n) 0) = ?n" using Field.prems slot_ge [of t n p] by simp
  have "length ?pre = ?n + csize t" using Field.prems v(2) cenc_length(1) [of t v] slot_ge [of t n p] by simp
  from Field.IH(2) [OF _ v(3) this] Field.prems have
    "cdecs fs p (?n + csize t) (?pre @ ?rest) = vs'" by simp
  moreover have "cdec t (cenc t v @ ?rest) = v" using Field.IH(1) Field.prems v(2) by simp
  moreover have "drop ?n ((pre @ replicate (?n - n) 0) @ cenc t v @ ?rest) = cenc t v @ ?rest"
    by (rule drop_exact [OF n])
  ultimately show ?case using v(1) by simp
qed (auto simp: of_le_bytes_le_bytes split: cval.splits)

text \<open>The bytes a path names are the encoding of the member it names.\<close>

lemma coffset_member:
  "cwf t \<Longrightarrow> True"
  "cwfs fs \<Longrightarrow> coks fs vs \<Longrightarrow> coffset fs p n g = Some (m, u) \<Longrightarrow>
     \<exists>x. vmember fs vs g = Some x \<and> cok u x \<and> cwf u \<and> n \<le> m \<and>
       take (csize u) (drop (m - n) (cencs fs p n vs @ r)) = cenc u x"
proof (induction t and fs arbitrary: and p n vs r)
  case (Field f t fs)
  then obtain v vs' where v: "vs = v # vs'" "cok t v" "coks fs vs'" by (auto split: list.splits)
  let ?n = "slot p t n"
  have n: "n \<le> ?n" and len: "length (cenc t v) = csize t" using Field.prems slot_ge [of t n p] cenc_length(1) v(2) by auto
  show ?case
  proof (cases "f = g")
    case True
    with Field.prems have m: "m = ?n" "u = t" by auto
    have "drop (?n - n) (cencs (Field f t fs) p n vs @ r) = cenc t v @ cencs fs p (?n + csize t) vs' @ r"
      using v(1) by simp
    then have "take (csize t) (drop (?n - n) (cencs (Field f t fs) p n vs @ r)) = cenc t v" using len by simp
    with True m v(1,2) n Field.prems(1) show ?thesis by simp
  next
    case False
    with Field.IH(2) [OF _ v(3), of p "?n + csize t" r] Field.prems obtain x where
      x: "vmember fs vs' g = Some x" "cok u x" "cwf u" "?n + csize t \<le> m"
      "take (csize u) (drop (m - (?n + csize t)) (cencs fs p (?n + csize t) vs' @ r)) = cenc u x" by auto
    have "m - n - (?n - n) - length (cenc t v) = m - (?n + csize t)" using n len x(4) by simp
    moreover have "?n - n \<le> m - n" "length (cenc t v) \<le> m - n - (?n - n)" using n len x(4) by linarith+
    ultimately have "drop (m - n) (cencs (Field f t fs) p n vs @ r) = drop (m - (?n + csize t)) (cencs fs p (?n + csize t) vs' @ r)"
      using v(1) by simp
    with x False n v(1) show ?thesis by simp
  qed
qed simp_all

lemma cread_cenc:
  "cwf t \<Longrightarrow> cok t v \<Longrightarrow> cpath t gs = Some (n, u) \<Longrightarrow>
     \<exists>x. vpath t v gs = Some x \<and> cok u x \<and> cwf u \<and> take (csize u) (drop n (cenc t v @ r)) = cenc u x"
proof (induction t gs arbitrary: v n u r rule: cpath.induct)
  case (1 t)
  with cenc_length(1) [of t v] show ?case by simp
next
  case (2 p fs g gs)
  then obtain vs where v: "v = VSeq vs" "coks fs vs" by (auto split: cval.splits)
  from "2.prems" obtain m t k where o: "coffset fs p 0 g = Some (m, t)" "cpath t gs = Some (k, u)" "n = m + k"
    by (auto split: option.splits)
  let ?r = "replicate (csize (CStruct p fs) - cend fs p 0) 0 @ r"
  from coffset_member(2) [OF _ v(2) o(1), of ?r] "2.prems" obtain x where
    x: "vmember fs vs g = Some x" "cok t x" "cwf t" "take (csize t) (drop m (cencs fs p 0 vs @ ?r)) = cenc t x" by auto
  then obtain r' where r': "drop m (cencs fs p 0 vs @ ?r) = cenc t x @ r'" by (metis append_take_drop_id)
  from "2.IH" [OF o(1) refl x(3,2) o(2), of r'] obtain y where
    y: "vpath t x gs = Some y" "cok u y" "cwf u" "take (csize u) (drop k (cenc t x @ r')) = cenc u y" by blast
  have "drop n (cenc (CStruct p fs) v @ r) = drop k (drop m (cencs fs p 0 vs @ ?r))"
    by (simp add: v(1) o(3) add.commute del: drop_append csize.simps)
  with y o(1) x(1) v(1) r' show ?case by (simp del: cenc.simps)
qed simp_all

text \<open>A cleared structure is zeros, gaps included.\<close>

lemma le_bytes_0 [simp]: "le_bytes n 0 = replicate n 0"
  by (induction n) simp_all

lemma concat_replicates [simp]: "concat (replicate k (replicate n x)) = replicate (k * n) x"
  by (induction k) (simp_all add: replicate_add)

lemma cenc_zero:
  "cwf t \<Longrightarrow> cenc t (czero t) = replicate (csize t) 0"
  "cwfs fs \<Longrightarrow> cencs fs p n (czeros fs) = replicate (cend fs p n - n) 0"
proof (induction t and fs arbitrary: and p n)
  case (CStruct p fs)
  then have "cencs fs p 0 (czeros fs) = replicate (cend fs p 0) 0" by simp
  then show ?case using csize_ge [of fs p] CStruct.prems by (simp del: csize.simps flip: replicate_add)
next
  case (Field f t fs)
  then have "cencs fs p (slot p t n + csize t) (czeros fs) = replicate (cend fs p (slot p t n + csize t) - (slot p t n + csize t)) 0"
    "cenc t (czero t) = replicate (csize t) 0" by simp_all
  moreover have "slot p t n + csize t \<le> cend fs p (slot p t n + csize t)" "n \<le> slot p t n"
    using Field.prems cend_ge(2) slot_ge by simp_all
  ultimately show ?case by (simp flip: replicate_add)
qed simp_all

text \<open>Without gaps the encoding of what was decoded are the bytes again.\<close>

primrec cpacked :: "cty \<Rightarrow> bool" and cpackeds :: "cfields \<Rightarrow> bool" where
  "cpacked (CInt n) = True"
| "cpacked (CBits n bs) = True"
| "cpacked (CArr k t) = cpacked t"
| "cpacked (CStruct p fs) = (p \<and> cpackeds fs)"
| "cpackeds End = True"
| "cpackeds (Field f t fs) = (cpacked t \<and> cpackeds fs)"

lemma le_bytes_of_le_bytes: "le_bytes (length bs) (of_le_bytes bs) = bs"
proof (induction bs)
  case (Cons b bs)
  have "(of_nat (unat b + 256 * of_le_bytes bs) :: u8) = b"
  proof -
    have "(256 :: u8) = 0" by simp
    then show ?thesis by (simp only: of_nat_add of_nat_mult of_nat_numeral mult_zero_left add_0_right of_nat_unat ucast_id)
  qed
  moreover have "(unat b + 256 * of_le_bytes bs) div 256 = of_le_bytes bs"
  proof -
    have "unat b < 2 ^ LENGTH(8)" by (rule unsigned_less)
    then show ?thesis by simp
  qed
  ultimately show ?case using Cons by simp
qed simp

lemma concat_pieces:
  assumes "k * n \<le> length bs"
  shows "concat (map (\<lambda>i. take n (drop (i * n) bs)) [0..<k]) = take (k * n) bs"
  using assms
proof (induction k)
  case (Suc k)
  then have "concat (map (\<lambda>i. take n (drop (i * n) bs)) [0..<k]) = take (k * n) bs" by simp
  moreover have "take (Suc k * n) bs = take (k * n) bs @ take n (drop (k * n) bs)"
    using take_add [of "k * n" n bs] by (simp add: add.commute)
  ultimately show ?case by simp
qed simp

lemma cenc_cdec:
  "cpacked t \<Longrightarrow> csize t \<le> length bs \<Longrightarrow> cenc t (cdec t bs) = take (csize t) bs"
  "cpackeds fs \<Longrightarrow> cend fs True n \<le> length bs \<Longrightarrow> n \<le> cend fs True n \<and>
     cencs fs True n (cdecs fs True n bs) = take (cend fs True n - n) (drop n bs)"
proof (induction t and fs arbitrary: bs and n bs)
  case (CInt n)
  then show ?case using le_bytes_of_le_bytes [of "take n bs"] by simp
next
  case (CBits n fs)
  then show ?case using le_bytes_of_le_bytes [of "take n bs"] by simp
next
  case (CArr k t)
  have "cenc t (cdec t (drop (i * csize t) bs)) = take (csize t) (drop (i * csize t) bs)" if "i < k" for i
  proof (rule CArr.IH)
    have "Suc i * csize t \<le> k * csize t" using that by (intro mult_le_mono1) simp
    then show "csize t \<le> length (drop (i * csize t) bs)" using CArr.prems(2) by simp
  qed (use CArr.prems in simp)
  then have "map (cenc t \<circ> (\<lambda>i. cdec t (drop (i * csize t) bs))) [0..<k] = map (\<lambda>i. take (csize t) (drop (i * csize t) bs)) [0..<k]"
    by simp
  with concat_pieces [of k "csize t" bs] CArr.prems(2) show ?case by (simp only: cenc.simps cdec.simps cval.sel map_map csize.simps)
next
  case (CStruct p fs)
  with CStruct.IH [of 0 bs] show ?case by simp
next
  case (Field f t fs)
  let ?n = "n + csize t"
  have IH: "?n \<le> cend fs True ?n" "cencs fs True ?n (cdecs fs True ?n bs) = take (cend fs True ?n - ?n) (drop ?n bs)"
    using Field.IH(2) [of ?n bs] Field.prems by (simp_all add: slot_def)
  have "cenc t (cdec t (drop n bs)) = take (csize t) (drop n bs)"
    using Field.IH(1) [of "drop n bs"] Field.prems IH(1) by (simp add: slot_def)
  moreover have "take (csize t) (drop n bs) @ take (cend fs True ?n - ?n) (drop ?n bs) = take (cend fs True ?n - n) (drop n bs)"
    using IH(1) take_add [of "csize t" "cend fs True ?n - ?n" "drop n bs"] by (simp add: add.commute)
  ultimately show ?case using IH by (simp add: slot_def)
qed simp_all

section \<open>Words and arrays of bytes\<close>

abbreviation (input) vword :: "'a::len word \<Rightarrow> cval" where "vword w \<equiv> VInt (unat w)"

definition vbytes :: "u8 list \<Rightarrow> cval" where
  "vbytes bs = VSeq (map (\<lambda>b. VInt (unat b)) bs)"

lemma le_bytes_Suc_word:
  "le_bytes (Suc n) (unat w) = ucast w # le_bytes n (unat (drop_bit 8 w))" for w :: "'a::len word"
proof -
  have "unat w div 256 = unat (drop_bit 8 w)"
    using unat_drop_bit_eq [of 8 w] drop_bit_eq_div [of 8 "unat w"] by simp
  moreover have "(of_nat (unat w) :: u8) = ucast w" by (rule bit_word_eqI) (simp add: bit_simps)
  ultimately show ?thesis by simp
qed

lemma ucast_bytes:
  "(ucast (drop_bit k (ucast x :: u32)) :: u8) = ucast (drop_bit k x)" if "k \<le> 24" for x :: u64
  using that by (intro bit_word_eqI) (auto simp: bit_simps)

lemma le_bytes_word:
  "le_bytes 1 (unat a) = [a]" "le_bytes 2 (unat b) = le16 b"
  "le_bytes 4 (unat c) = le32 c" "le_bytes 8 (unat d) = le64 d" for a :: u8 and b :: u16 and c :: u32 and d :: u64
proof -
  show "le_bytes 1 (unat a) = [a]" by (simp only: One_nat_def le_bytes_Suc_word) simp
  show "le_bytes 2 (unat b) = le16 b" by (simp only: numeral_2_eq_2 le_bytes_Suc_word) (simp add: le16_def)
  have four: "le_bytes 4 = le_bytes (Suc (Suc (Suc (Suc 0))))" by (simp add: numeral_eq_Suc)
  show "le_bytes 4 (unat c) = le32 c" by (simp only: four le_bytes_Suc_word) (simp add: le32_def)
  have eight: "le_bytes 8 = le_bytes (Suc (Suc (Suc (Suc (Suc (Suc (Suc (Suc 0))))))))" by (simp add: numeral_eq_Suc)
  show "le_bytes 8 (unat d) = le64 d"
    by (simp only: eight le_bytes_Suc_word)
      (simp add: le64_def le32_def ucast_bytes ucast_bytes [of 0, simplified])
qed

end
