(* ===== verification/Hal_Layout.thy ===== *)
theory Hal_Layout
  imports C_Layout
begin

text \<open>
  The structures of \<^verbatim>\<open>hal.h\<close>, member by member, in the order of the file. An \<^verbatim>\<open>enum\<close> has four bytes; a run of bit-fields
  that fills an integer is one member named after its first field, its fields listed from the lowest bit; a union is
  an array of its size. Of the conditional parts those are taken that are compiled when, as in this repository, none
  of the macros they test is defined; this leaves out two structures of \<^verbatim>\<open>FEATURE_OEM_DATA_SUPPORT\<close>.
\<close>

section \<open>Headers, start and stop\<close>

definition wcnss_wlan_version_layout :: cty where
  "wcnss_wlan_version_layout = packed_struct [
    (''revision'', U8), (''version'', U8), (''minor'', U8), (''major'', U8)]"

definition wcn36xx_hal_keys_layout :: cty where
  "wcn36xx_hal_keys_layout = packed_struct [
    (''id'', U8), (''unicast'', U8), (''direction'', CEnum), (''rsc'', CArr 16 U8),
    (''pae_role'', U8), (''length'', U16), (''key'', CArr 32 U8)]"

definition wcn36xx_hal_set_sta_key_params_layout :: cty where
  "wcn36xx_hal_set_sta_key_params_layout = packed_struct [
    (''sta_index'', U16), (''enc_type'', CEnum), (''wep_type'', CEnum), (''def_wep_idx'', U8),
    (''key'', CArr 4 wcn36xx_hal_keys_layout), (''single_tid_rc'', U8)]"

definition wcn36xx_hal_msg_header_layout :: cty where
  "wcn36xx_hal_msg_header_layout = packed_struct [
    (''msg_type_bits'', CBits 4 [(''msg_type'', 16), (''msg_version'', 16)]), (''len'', U32)]"

definition wcn36xx_hal_cfg_layout :: cty where
  "wcn36xx_hal_cfg_layout = packed_struct [
    (''id'', U16), (''len'', U16), (''pad_bytes'', U16), (''reserve'', U16)]"

definition wcn36xx_hal_mac_start_parameters_layout :: cty where
  "wcn36xx_hal_mac_start_parameters_layout = packed_struct [
    (''type'', CEnum), (''len'', U32)]"

definition wcn36xx_hal_mac_start_req_msg_layout :: cty where
  "wcn36xx_hal_mac_start_req_msg_layout = packed_struct [
    (''header'', wcn36xx_hal_msg_header_layout),
    (''params'', wcn36xx_hal_mac_start_parameters_layout)]"

definition wcn36xx_hal_mac_start_rsp_params_layout :: cty where
  "wcn36xx_hal_mac_start_rsp_params_layout = packed_struct [
    (''status'', U16), (''stations'', U8), (''bssids'', U8),
    (''version'', wcnss_wlan_version_layout), (''crm_version'', CArr 64 U8),
    (''wlan_version'', CArr 64 U8)]"

definition wcn36xx_hal_mac_start_rsp_msg_layout :: cty where
  "wcn36xx_hal_mac_start_rsp_msg_layout = packed_struct [
    (''header'', wcn36xx_hal_msg_header_layout),
    (''start_rsp_params'', wcn36xx_hal_mac_start_rsp_params_layout)]"

definition wcn36xx_hal_mac_stop_req_params_layout :: cty where
  "wcn36xx_hal_mac_stop_req_params_layout = packed_struct [
    (''reason'', CEnum)]"

definition wcn36xx_hal_mac_stop_req_msg_layout :: cty where
  "wcn36xx_hal_mac_stop_req_msg_layout = packed_struct [
    (''header'', wcn36xx_hal_msg_header_layout),
    (''stop_req_params'', wcn36xx_hal_mac_stop_req_params_layout)]"

definition wcn36xx_hal_mac_stop_rsp_msg_layout :: cty where
  "wcn36xx_hal_mac_stop_rsp_msg_layout = packed_struct [
    (''header'', wcn36xx_hal_msg_header_layout), (''status'', U32)]"

definition wcn36xx_hal_update_cfg_req_msg_layout :: cty where
  "wcn36xx_hal_update_cfg_req_msg_layout = packed_struct [
    (''header'', wcn36xx_hal_msg_header_layout), (''len'', U32)]"

definition wcn36xx_hal_update_cfg_rsp_msg_layout :: cty where
  "wcn36xx_hal_update_cfg_rsp_msg_layout = packed_struct [
    (''header'', wcn36xx_hal_msg_header_layout), (''status'', U32)]"

section \<open>Scanning\<close>

definition wcn36xx_hal_mac_frame_ctl_layout :: cty where
  "wcn36xx_hal_mac_frame_ctl_layout = plain_struct [
    (''subType_bits'', CBits 1 [(''subType'', 4), (''type'', 2), (''protVer'', 2)]),
    (''order_bits'', CBits 1 [(''order'', 1), (''wep'', 1), (''moreData'', 1), (''powerMgmt'', 1),
    (''retry'', 1), (''moreFrag'', 1), (''fromDS'', 1), (''toDS'', 1)])]"

definition wcn36xx_hal_mac_seq_ctl_layout :: cty where
  "wcn36xx_hal_mac_seq_ctl_layout = plain_struct [
    (''fragNum_bits'', CBits 1 [(''fragNum'', 4), (''seqNumLo'', 4)]),
    (''seqNumHi_bits'', CBits 1 [(''seqNumHi'', 8)])]"

definition wcn36xx_hal_mac_mgmt_hdr_layout :: cty where
  "wcn36xx_hal_mac_mgmt_hdr_layout = plain_struct [
    (''fc'', wcn36xx_hal_mac_frame_ctl_layout), (''durationLo'', U8), (''durationHi'', U8),
    (''da'', CArr 6 U8), (''sa'', CArr 6 U8), (''bssId'', CArr 6 U8),
    (''seqControl'', wcn36xx_hal_mac_seq_ctl_layout)]"

definition wcn36xx_hal_scan_entry_layout :: cty where
  "wcn36xx_hal_scan_entry_layout = plain_struct [
    (''bss_index'', CArr 2 U8), (''active_bss_count'', U8)]"

definition wcn36xx_hal_init_scan_req_msg_layout :: cty where
  "wcn36xx_hal_init_scan_req_msg_layout = plain_struct [
    (''header'', wcn36xx_hal_msg_header_layout), (''mode'', CEnum), (''bssid'', CArr 6 U8),
    (''notify'', U8), (''frame_type'', U8), (''frame_len'', U8),
    (''mac_mgmt_hdr'', wcn36xx_hal_mac_mgmt_hdr_layout),
    (''scan_entry'', wcn36xx_hal_scan_entry_layout)]"

definition wcn36xx_hal_init_scan_con_req_msg_layout :: cty where
  "wcn36xx_hal_init_scan_con_req_msg_layout = plain_struct [
    (''header'', wcn36xx_hal_msg_header_layout), (''mode'', CEnum), (''bssid'', CArr 6 U8),
    (''notify'', U8), (''frame_type'', U8), (''frame_length'', U8),
    (''mac_mgmt_hdr'', wcn36xx_hal_mac_mgmt_hdr_layout),
    (''scan_entry'', wcn36xx_hal_scan_entry_layout), (''use_noa'', U8), (''scan_duration'', U16)]"

definition wcn36xx_hal_init_scan_rsp_msg_layout :: cty where
  "wcn36xx_hal_init_scan_rsp_msg_layout = packed_struct [
    (''header'', wcn36xx_hal_msg_header_layout), (''status'', U32)]"

definition wcn36xx_hal_start_scan_req_msg_layout :: cty where
  "wcn36xx_hal_start_scan_req_msg_layout = packed_struct [
    (''header'', wcn36xx_hal_msg_header_layout), (''scan_channel'', U8)]"

definition wcn36xx_hal_start_rsp_msg_layout :: cty where
  "wcn36xx_hal_start_rsp_msg_layout = packed_struct [
    (''header'', wcn36xx_hal_msg_header_layout), (''status'', U32), (''start_tsf'', CArr 2 U32),
    (''tx_mgmt_power'', U8)]"

definition wcn36xx_hal_end_scan_req_msg_layout :: cty where
  "wcn36xx_hal_end_scan_req_msg_layout = packed_struct [
    (''header'', wcn36xx_hal_msg_header_layout), (''scan_channel'', U8)]"

definition wcn36xx_hal_end_scan_rsp_msg_layout :: cty where
  "wcn36xx_hal_end_scan_rsp_msg_layout = packed_struct [
    (''header'', wcn36xx_hal_msg_header_layout), (''status'', U32)]"

definition wcn36xx_hal_finish_scan_req_msg_layout :: cty where
  "wcn36xx_hal_finish_scan_req_msg_layout = packed_struct [
    (''header'', wcn36xx_hal_msg_header_layout), (''mode'', CEnum), (''oper_channel'', U8),
    (''cb_state'', CEnum), (''bssid'', CArr 6 U8), (''notify'', U8), (''frame_type'', U8),
    (''frame_length'', U8), (''mac_mgmt_hdr'', wcn36xx_hal_mac_mgmt_hdr_layout),
    (''scan_entry'', wcn36xx_hal_scan_entry_layout)]"

definition wcn36xx_hal_finish_scan_rsp_msg_layout :: cty where
  "wcn36xx_hal_finish_scan_rsp_msg_layout = packed_struct [
    (''header'', wcn36xx_hal_msg_header_layout), (''status'', U32)]"

section \<open>Stations\<close>

definition wcn36xx_hal_supported_rates_layout :: cty where
  "wcn36xx_hal_supported_rates_layout = packed_struct [
    (''op_rate_mode'', CEnum), (''dsss_rates'', CArr 4 U16), (''ofdm_rates'', CArr 8 U16),
    (''legacy_rates'', CArr 3 U16), (''reserved'', U16), (''enhanced_rate_bitmap'', U32),
    (''supported_mcs_set'', CArr 16 U8), (''rx_highest_data_rate'', U16)]"

definition wcn36xx_hal_config_sta_params_layout :: cty where
  "wcn36xx_hal_config_sta_params_layout = packed_struct [
    (''bssid'', CArr 6 U8), (''aid'', U16), (''type'', U8), (''short_preamble_supported'', U8),
    (''mac'', CArr 6 U8), (''listen_interval'', U16), (''wmm_enabled'', U8), (''ht_capable'', U8),
    (''tx_channel_width_set'', U8), (''rifs_mode'', U8), (''lsig_txop_protection'', U8),
    (''max_ampdu_size'', U8), (''max_ampdu_density'', U8), (''max_amsdu_size'', U8),
    (''sgi_40mhz'', U8), (''sgi_20Mhz'', U8),
    (''supported_rates'', wcn36xx_hal_supported_rates_layout), (''rmf'', U8),
    (''encrypt_type'', U32), (''action'', U8), (''uapsd'', U8), (''max_sp_len'', U8),
    (''green_field_capable'', U8), (''mimo_ps'', CEnum), (''delayed_ba_support'', U8),
    (''max_ampdu_duration'', U8), (''dsss_cck_mode_40mhz'', U8), (''sta_index'', U8),
    (''bssid_index'', U8), (''p2p'', U8)]"

definition wcn36xx_hal_config_sta_req_msg_layout :: cty where
  "wcn36xx_hal_config_sta_req_msg_layout = packed_struct [
    (''header'', wcn36xx_hal_msg_header_layout),
    (''sta_params'', wcn36xx_hal_config_sta_params_layout)]"

definition wcn36xx_hal_config_sta_params_v1_layout :: cty where
  "wcn36xx_hal_config_sta_params_v1_layout = packed_struct [
    (''bssid'', CArr 6 U8), (''aid'', U16), (''type'', U8), (''short_preamble_supported'', U8),
    (''mac'', CArr 6 U8), (''listen_interval'', U16), (''wmm_enabled'', U8), (''ht_capable'', U8),
    (''tx_channel_width_set'', U8), (''rifs_mode'', U8), (''lsig_txop_protection'', U8),
    (''max_ampdu_size'', U8), (''max_ampdu_density'', U8), (''max_amsdu_size'', U8),
    (''sgi_40mhz'', U8), (''sgi_20Mhz'', U8), (''rmf'', U8), (''encrypt_type'', U32),
    (''action'', U8), (''uapsd'', U8), (''max_sp_len'', U8), (''green_field_capable'', U8),
    (''mimo_ps'', CEnum), (''delayed_ba_support'', U8), (''max_ampdu_duration'', U8),
    (''dsss_cck_mode_40mhz'', U8), (''sta_index'', U8), (''bssid_index'', U8), (''p2p'', U8),
    (''reserved'', U8), (''supported_rates'', wcn36xx_hal_supported_rates_layout)]"

definition wcn36xx_hal_config_sta_req_msg_v1_layout :: cty where
  "wcn36xx_hal_config_sta_req_msg_v1_layout = packed_struct [
    (''header'', wcn36xx_hal_msg_header_layout),
    (''sta_params'', wcn36xx_hal_config_sta_params_v1_layout)]"

definition config_sta_rsp_params_layout :: cty where
  "config_sta_rsp_params_layout = packed_struct [
    (''status'', U32), (''sta_index'', U8), (''bssid_index'', U8), (''dpu_index'', U8),
    (''bcast_dpu_index'', U8), (''bcast_mgmt_dpu_idx'', U8), (''uc_ucast_sig'', U8),
    (''uc_bcast_sig'', U8), (''uc_mgmt_sig'', U8), (''p2p'', U8)]"

definition wcn36xx_hal_config_sta_rsp_msg_layout :: cty where
  "wcn36xx_hal_config_sta_rsp_msg_layout = packed_struct [
    (''header'', wcn36xx_hal_msg_header_layout), (''params'', config_sta_rsp_params_layout)]"

section \<open>BSSs\<close>

definition wcn36xx_hal_delete_sta_req_msg_layout :: cty where
  "wcn36xx_hal_delete_sta_req_msg_layout = packed_struct [
    (''header'', wcn36xx_hal_msg_header_layout), (''sta_index'', U8)]"

definition wcn36xx_hal_delete_sta_rsp_msg_layout :: cty where
  "wcn36xx_hal_delete_sta_rsp_msg_layout = packed_struct [
    (''header'', wcn36xx_hal_msg_header_layout), (''status'', U32), (''sta_id'', U8)]"

definition wcn36xx_hal_rate_set_layout :: cty where
  "wcn36xx_hal_rate_set_layout = packed_struct [
    (''num_rates'', U8), (''rate'', CArr 12 U8)]"

definition wcn36xx_hal_aci_aifsn_layout :: cty where
  "wcn36xx_hal_aci_aifsn_layout = packed_struct [
    (''rsvd_bits'', CBits 1 [(''rsvd'', 1), (''aci'', 2), (''acm'', 1), (''aifsn'', 4)])]"

definition wcn36xx_hal_mac_cw_layout :: cty where
  "wcn36xx_hal_mac_cw_layout = packed_struct [
    (''max_bits'', CBits 1 [(''max'', 4), (''min'', 4)])]"

definition wcn36xx_hal_edca_param_record_layout :: cty where
  "wcn36xx_hal_edca_param_record_layout = packed_struct [
    (''aci'', wcn36xx_hal_aci_aifsn_layout), (''cw'', wcn36xx_hal_mac_cw_layout),
    (''txop_limit'', U16)]"

definition wcn36xx_hal_mac_ssid_layout :: cty where
  "wcn36xx_hal_mac_ssid_layout = packed_struct [
    (''length'', U8), (''ssid'', CArr 32 U8)]"

definition wcn36xx_hal_config_bss_params_layout :: cty where
  "wcn36xx_hal_config_bss_params_layout = packed_struct [
    (''bssid'', CArr 6 U8), (''self_mac_addr'', CArr 6 U8), (''bss_type'', CEnum),
    (''oper_mode'', U8), (''nw_type'', CEnum), (''short_slot_time_supported'', U8),
    (''lla_coexist'', U8), (''llb_coexist'', U8), (''llg_coexist'', U8), (''ht20_coexist'', U8),
    (''lln_non_gf_coexist'', U8), (''lsig_tx_op_protection_full_support'', U8),
    (''rifs_mode'', U8), (''beacon_interval'', U16), (''dtim_period'', U8),
    (''tx_channel_width_set'', U8), (''oper_channel'', U8), (''ext_channel'', U8),
    (''reserved'', U8), (''sta'', wcn36xx_hal_config_sta_params_layout),
    (''ssid'', wcn36xx_hal_mac_ssid_layout), (''action'', U8),
    (''rateset'', wcn36xx_hal_rate_set_layout), (''ht'', U8), (''obss_prot_enabled'', U8),
    (''rmf'', U8), (''ht_oper_mode'', CEnum), (''dual_cts_protection'', U8),
    (''max_probe_resp_retry_limit'', U8), (''hidden_ssid'', U8), (''proxy_probe_resp'', U8),
    (''edca_params_valid'', U8), (''acbe'', wcn36xx_hal_edca_param_record_layout),
    (''acbk'', wcn36xx_hal_edca_param_record_layout),
    (''acvi'', wcn36xx_hal_edca_param_record_layout),
    (''acvo'', wcn36xx_hal_edca_param_record_layout), (''ext_set_sta_key_param_valid'', U8),
    (''ext_set_sta_key_param'', wcn36xx_hal_set_sta_key_params_layout),
    (''wcn36xx_hal_persona'', U8), (''spectrum_mgt_enable'', U8), (''tx_mgmt_power'', U8),
    (''max_tx_power'', U8)]"

definition wcn36xx_hal_config_bss_req_msg_layout :: cty where
  "wcn36xx_hal_config_bss_req_msg_layout = packed_struct [
    (''header'', wcn36xx_hal_msg_header_layout),
    (''bss_params'', wcn36xx_hal_config_bss_params_layout)]"

definition wcn36xx_hal_config_bss_params_v1_layout :: cty where
  "wcn36xx_hal_config_bss_params_v1_layout = packed_struct [
    (''bssid'', CArr 6 U8), (''self_mac_addr'', CArr 6 U8), (''bss_type'', CEnum),
    (''oper_mode'', U8), (''nw_type'', CEnum), (''short_slot_time_supported'', U8),
    (''lla_coexist'', U8), (''llb_coexist'', U8), (''llg_coexist'', U8), (''ht20_coexist'', U8),
    (''lln_non_gf_coexist'', U8), (''lsig_tx_op_protection_full_support'', U8),
    (''rifs_mode'', U8), (''beacon_interval'', U16), (''dtim_period'', U8),
    (''tx_channel_width_set'', U8), (''oper_channel'', U8), (''ext_channel'', U8),
    (''reserved'', U8), (''ssid'', wcn36xx_hal_mac_ssid_layout), (''action'', U8),
    (''rateset'', wcn36xx_hal_rate_set_layout), (''ht'', U8), (''obss_prot_enabled'', U8),
    (''rmf'', U8), (''ht_oper_mode'', CEnum), (''dual_cts_protection'', U8),
    (''max_probe_resp_retry_limit'', U8), (''hidden_ssid'', U8), (''proxy_probe_resp'', U8),
    (''edca_params_valid'', U8), (''acbe'', wcn36xx_hal_edca_param_record_layout),
    (''acbk'', wcn36xx_hal_edca_param_record_layout),
    (''acvi'', wcn36xx_hal_edca_param_record_layout),
    (''acvo'', wcn36xx_hal_edca_param_record_layout), (''ext_set_sta_key_param_valid'', U8),
    (''ext_set_sta_key_param'', wcn36xx_hal_set_sta_key_params_layout),
    (''wcn36xx_hal_persona'', U8), (''spectrum_mgt_enable'', U8), (''tx_mgmt_power'', U8),
    (''max_tx_power'', U8), (''sta'', wcn36xx_hal_config_sta_params_v1_layout)]"

definition wcn36xx_hal_config_bss_req_msg_v1_layout :: cty where
  "wcn36xx_hal_config_bss_req_msg_v1_layout = packed_struct [
    (''header'', wcn36xx_hal_msg_header_layout),
    (''bss_params'', wcn36xx_hal_config_bss_params_v1_layout)]"

definition wcn36xx_hal_config_bss_rsp_params_layout :: cty where
  "wcn36xx_hal_config_bss_rsp_params_layout = packed_struct [
    (''status'', U32), (''bss_index'', U8), (''dpu_desc_index'', U8),
    (''ucast_dpu_signature'', U8), (''bcast_dpu_desc_indx'', U8), (''bcast_dpu_signature'', U8),
    (''mgmt_dpu_desc_index'', U8), (''mgmt_dpu_signature'', U8), (''bss_sta_index'', U8),
    (''bss_self_sta_index'', U8), (''bss_bcast_sta_idx'', U8), (''mac'', CArr 6 U8),
    (''tx_mgmt_power'', U8)]"

definition wcn36xx_hal_config_bss_rsp_msg_layout :: cty where
  "wcn36xx_hal_config_bss_rsp_msg_layout = packed_struct [
    (''header'', wcn36xx_hal_msg_header_layout),
    (''bss_rsp_params'', wcn36xx_hal_config_bss_rsp_params_layout)]"

definition wcn36xx_hal_delete_bss_req_msg_layout :: cty where
  "wcn36xx_hal_delete_bss_req_msg_layout = packed_struct [
    (''header'', wcn36xx_hal_msg_header_layout), (''bss_index'', U8)]"

definition wcn36xx_hal_delete_bss_rsp_msg_layout :: cty where
  "wcn36xx_hal_delete_bss_rsp_msg_layout = packed_struct [
    (''header'', wcn36xx_hal_msg_header_layout), (''status'', U32), (''bss_index'', U8)]"

definition wcn36xx_hal_join_req_msg_layout :: cty where
  "wcn36xx_hal_join_req_msg_layout = packed_struct [
    (''header'', wcn36xx_hal_msg_header_layout), (''bssid'', CArr 6 U8), (''channel'', U8),
    (''self_sta_mac_addr'', CArr 6 U8), (''local_power_constraint'', U8),
    (''secondary_channel_offset'', CEnum), (''link_state'', CEnum), (''max_tx_power'', U8)]"

definition wcn36xx_hal_join_rsp_msg_layout :: cty where
  "wcn36xx_hal_join_rsp_msg_layout = packed_struct [
    (''header'', wcn36xx_hal_msg_header_layout), (''status'', U32), (''tx_mgmt_power'', U8)]"

section \<open>Keys\<close>

definition post_assoc_req_msg_layout :: cty where
  "post_assoc_req_msg_layout = plain_struct [
    (''header'', wcn36xx_hal_msg_header_layout),
    (''sta_params'', wcn36xx_hal_config_sta_params_layout),
    (''bss_params'', wcn36xx_hal_config_bss_params_layout)]"

definition post_assoc_rsp_msg_layout :: cty where
  "post_assoc_rsp_msg_layout = plain_struct [
    (''header'', wcn36xx_hal_msg_header_layout),
    (''sta_rsp_params'', config_sta_rsp_params_layout),
    (''bss_rsp_params'', wcn36xx_hal_config_bss_rsp_params_layout)]"

definition wcn36xx_hal_set_bss_key_req_msg_layout :: cty where
  "wcn36xx_hal_set_bss_key_req_msg_layout = packed_struct [
    (''header'', wcn36xx_hal_msg_header_layout), (''bss_idx'', U8), (''enc_type'', CEnum),
    (''num_keys'', U8), (''keys'', CArr 4 wcn36xx_hal_keys_layout), (''single_tid_rc'', U8)]"

definition wcn36xx_hal_set_bss_key_req_msg_tagged_layout :: cty where
  "wcn36xx_hal_set_bss_key_req_msg_tagged_layout = packed_struct [
    (''Msg'', wcn36xx_hal_set_bss_key_req_msg_layout), (''tag'', U32)]"

definition wcn36xx_hal_set_bss_key_rsp_msg_layout :: cty where
  "wcn36xx_hal_set_bss_key_rsp_msg_layout = packed_struct [
    (''header'', wcn36xx_hal_msg_header_layout), (''status'', U32)]"

definition wcn36xx_hal_set_sta_key_req_msg_layout :: cty where
  "wcn36xx_hal_set_sta_key_req_msg_layout = packed_struct [
    (''header'', wcn36xx_hal_msg_header_layout),
    (''set_sta_key_params'', wcn36xx_hal_set_sta_key_params_layout)]"

definition wcn36xx_hal_set_sta_key_rsp_msg_layout :: cty where
  "wcn36xx_hal_set_sta_key_rsp_msg_layout = packed_struct [
    (''header'', wcn36xx_hal_msg_header_layout), (''status'', U32)]"

definition wcn36xx_hal_remove_bss_key_req_msg_layout :: cty where
  "wcn36xx_hal_remove_bss_key_req_msg_layout = packed_struct [
    (''header'', wcn36xx_hal_msg_header_layout), (''bss_idx'', U8), (''enc_type'', CEnum),
    (''key_id'', U8), (''wep_type'', CEnum)]"

definition wcn36xx_hal_remove_bss_key_rsp_msg_layout :: cty where
  "wcn36xx_hal_remove_bss_key_rsp_msg_layout = packed_struct [
    (''header'', wcn36xx_hal_msg_header_layout), (''status'', U32)]"

definition wcn36xx_hal_remove_sta_key_req_msg_layout :: cty where
  "wcn36xx_hal_remove_sta_key_req_msg_layout = packed_struct [
    (''header'', wcn36xx_hal_msg_header_layout), (''sta_idx'', U16), (''enc_type'', CEnum),
    (''key_id'', U8), (''unicast'', U8)]"

definition wcn36xx_hal_remove_sta_key_rsp_msg_layout :: cty where
  "wcn36xx_hal_remove_sta_key_rsp_msg_layout = packed_struct [
    (''header'', wcn36xx_hal_msg_header_layout), (''status'', U32)]"

section \<open>Channels and statistics\<close>

definition wcn36xx_hal_switch_channel_req_msg_layout :: cty where
  "wcn36xx_hal_switch_channel_req_msg_layout = packed_struct [
    (''header'', wcn36xx_hal_msg_header_layout), (''channel_number'', U8),
    (''local_power_constraint'', U8), (''secondary_channel_offset'', CEnum),
    (''tx_mgmt_power'', U8), (''max_tx_power'', U8), (''self_sta_mac_addr'', CArr 6 U8),
    (''bssid'', CArr 6 U8)]"

definition wcn36xx_hal_switch_channel_rsp_msg_layout :: cty where
  "wcn36xx_hal_switch_channel_rsp_msg_layout = packed_struct [
    (''header'', wcn36xx_hal_msg_header_layout), (''status'', U32), (''channel_number'', U8),
    (''tx_mgmt_power'', U8), (''bssid'', CArr 6 U8)]"

definition update_edca_params_req_msg_layout :: cty where
  "update_edca_params_req_msg_layout = plain_struct [
    (''header'', wcn36xx_hal_msg_header_layout), (''bss_index'', U16),
    (''acbe'', wcn36xx_hal_edca_param_record_layout),
    (''acbk'', wcn36xx_hal_edca_param_record_layout),
    (''acvi'', wcn36xx_hal_edca_param_record_layout),
    (''acvo'', wcn36xx_hal_edca_param_record_layout)]"

definition update_edca_params_rsp_msg_layout :: cty where
  "update_edca_params_rsp_msg_layout = plain_struct [
    (''header'', wcn36xx_hal_msg_header_layout), (''status'', U32)]"

definition dpu_stats_params_layout :: cty where
  "dpu_stats_params_layout = plain_struct [
    (''sta_index'', U16), (''enc_mode'', U8), (''status'', U32), (''send_blocks'', U32),
    (''recv_blocks'', U32), (''replays'', U32), (''mic_error_cnt'', U8), (''prot_excl_cnt'', U32),
    (''format_err_cnt'', U16), (''un_decryptable_cnt'', U16), (''decrypt_err_cnt'', U32),
    (''decrypt_ok_cnt'', U32)]"

definition wcn36xx_hal_stats_req_msg_layout :: cty where
  "wcn36xx_hal_stats_req_msg_layout = plain_struct [
    (''header'', wcn36xx_hal_msg_header_layout), (''sta_id'', U32), (''stats_mask'', U32)]"

definition ani_summary_stats_info_layout :: cty where
  "ani_summary_stats_info_layout = plain_struct [
    (''retry_cnt'', CArr 4 U32), (''multiple_retry_cnt'', CArr 4 U32),
    (''tx_frm_cnt'', CArr 4 U32), (''rx_frm_cnt'', U32), (''frm_dup_cnt'', U32),
    (''fail_cnt'', CArr 4 U32), (''rts_fail_cnt'', U32), (''ack_fail_cnt'', U32),
    (''rts_succ_cnt'', U32), (''rx_discard_cnt'', U32), (''rx_error_cnt'', U32),
    (''tx_byte_cnt'', U32)]"

definition ani_global_class_a_stats_info_layout :: cty where
  "ani_global_class_a_stats_info_layout = plain_struct [
    (''rx_frag_cnt'', U32), (''promiscuous_rx_frag_cnt'', U32), (''rx_input_sensitivity'', U32),
    (''max_pwr'', U32), (''sync_fail_cnt'', U32), (''tx_rate'', U32), (''mcs_index'', U32),
    (''tx_rate_flags'', U32)]"

definition ani_global_security_stats_layout :: cty where
  "ani_global_security_stats_layout = plain_struct [
    (''rx_wep_unencrypted_frm_cnt'', U32), (''rx_mic_fail_cnt'', U32), (''tkip_icv_err'', U32),
    (''aes_ccmp_format_err'', U32), (''aes_ccmp_replay_cnt'', U32), (''aes_ccmp_decrpt_err'', U32),
    (''wep_undecryptable_cnt'', U32), (''wep_icv_err'', U32), (''rx_decrypt_succ_cnt'', U32),
    (''rx_decrypt_fail_cnt'', U32)]"

definition ani_global_class_b_stats_info_layout :: cty where
  "ani_global_class_b_stats_info_layout = plain_struct [
    (''uc_stats'', ani_global_security_stats_layout),
    (''mc_bc_stats'', ani_global_security_stats_layout)]"

definition ani_global_class_c_stats_info_layout :: cty where
  "ani_global_class_c_stats_info_layout = plain_struct [
    (''rx_amsdu_cnt'', U32), (''rx_ampdu_cnt'', U32), (''tx_20_frm_cnt'', U32),
    (''rx_20_frm_cnt'', U32), (''rx_mpdu_in_ampdu_cnt'', U32), (''ampdu_delimiter_crc_err'', U32)]"

definition ani_per_sta_stats_info_layout :: cty where
  "ani_per_sta_stats_info_layout = plain_struct [
    (''tx_frag_cnt'', CArr 4 U32), (''tx_ampdu_cnt'', U32), (''tx_mpdu_in_ampdu_cnt'', U32)]"

definition wcn36xx_hal_stats_rsp_msg_layout :: cty where
  "wcn36xx_hal_stats_rsp_msg_layout = plain_struct [
    (''header'', wcn36xx_hal_msg_header_layout), (''status'', U32), (''sta_index'', U32),
    (''stats_mask'', U32), (''msg_type'', U16), (''msg_len'', U16)]"

section \<open>Links and traffic\<close>

definition wcn36xx_hal_set_link_state_req_msg_layout :: cty where
  "wcn36xx_hal_set_link_state_req_msg_layout = packed_struct [
    (''header'', wcn36xx_hal_msg_header_layout), (''bssid'', CArr 6 U8), (''state'', CEnum),
    (''self_mac_addr'', CArr 6 U8)]"

definition set_link_state_rsp_msg_layout :: cty where
  "set_link_state_rsp_msg_layout = plain_struct [
    (''header'', wcn36xx_hal_msg_header_layout), (''status'', U32)]"

definition wcn36xx_hal_ts_info_tfc_layout :: cty where
  "wcn36xx_hal_ts_info_tfc_layout = plain_struct [
    (''ackPolicy_bits'', CBits 2 [(''ackPolicy'', 2), (''userPrio'', 3), (''psb'', 1),
    (''aggregation'', 1), (''accessPolicy'', 2), (''direction'', 2), (''tsid'', 4),
    (''trafficType'', 1)])]"

definition wcn36xx_hal_ts_info_sch_layout :: cty where
  "wcn36xx_hal_ts_info_sch_layout = plain_struct [
    (''rsvd_bits'', CBits 1 [(''rsvd'', 7), (''schedule'', 1)])]"

definition wcn36xx_hal_ts_info_layout :: cty where
  "wcn36xx_hal_ts_info_layout = plain_struct [
    (''traffic'', wcn36xx_hal_ts_info_tfc_layout), (''schedule'', wcn36xx_hal_ts_info_sch_layout)]"

definition wcn36xx_hal_tspec_ie_layout :: cty where
  "wcn36xx_hal_tspec_ie_layout = plain_struct [
    (''type'', U8), (''length'', U8), (''ts_info'', wcn36xx_hal_ts_info_layout),
    (''nom_msdu_size'', U16), (''max_msdu_size'', U16), (''min_svc_interval'', U32),
    (''max_svc_interval'', U32), (''inact_interval'', U32), (''suspend_interval'', U32),
    (''svc_start_time'', U32), (''min_data_rate'', U32), (''mean_data_rate'', U32),
    (''peak_data_rate'', U32), (''max_burst_sz'', U32), (''delay_bound'', U32),
    (''min_phy_rate'', U32), (''surplus_bw'', U16), (''medium_time'', U16)]"

definition add_ts_req_msg_layout :: cty where
  "add_ts_req_msg_layout = plain_struct [
    (''header'', wcn36xx_hal_msg_header_layout), (''sta_index'', U16), (''tspec_index'', U16),
    (''tspec'', wcn36xx_hal_tspec_ie_layout), (''uapsd'', U8), (''service_interval'', CArr 4 U32),
    (''suspend_interval'', CArr 4 U32), (''delay_interval'', CArr 4 U32)]"

definition add_rs_rsp_msg_layout :: cty where
  "add_rs_rsp_msg_layout = plain_struct [
    (''header'', wcn36xx_hal_msg_header_layout), (''status'', U32)]"

definition del_ts_req_msg_layout :: cty where
  "del_ts_req_msg_layout = plain_struct [
    (''header'', wcn36xx_hal_msg_header_layout), (''sta_index'', U16), (''tspec_index'', U16),
    (''bssid'', CArr 6 U8)]"

definition del_ts_rsp_msg_layout :: cty where
  "del_ts_rsp_msg_layout = plain_struct [
    (''header'', wcn36xx_hal_msg_header_layout), (''status'', U32)]"

section \<open>Block acknowledgement\<close>

definition wcn36xx_hal_add_ba_session_req_msg_layout :: cty where
  "wcn36xx_hal_add_ba_session_req_msg_layout = packed_struct [
    (''header'', wcn36xx_hal_msg_header_layout), (''sta_index'', U16), (''mac_addr'', CArr 6 U8),
    (''dialog_token'', U8), (''tid'', U8), (''policy'', U8), (''buffer_size'', U16),
    (''timeout'', U16), (''ssn'', U16), (''direction'', U8)]"

definition wcn36xx_hal_add_ba_session_rsp_msg_layout :: cty where
  "wcn36xx_hal_add_ba_session_rsp_msg_layout = packed_struct [
    (''header'', wcn36xx_hal_msg_header_layout), (''status'', U32), (''dialog_token'', U8),
    (''ba_tid'', U8), (''ba_buffer_size'', U8), (''ba_session_id'', U8), (''win_size'', U8),
    (''sta_index'', U8), (''ssn'', U16)]"

definition wcn36xx_hal_add_ba_req_msg_layout :: cty where
  "wcn36xx_hal_add_ba_req_msg_layout = packed_struct [
    (''header'', wcn36xx_hal_msg_header_layout), (''session_id'', U8), (''win_size'', U8)]"

definition wcn36xx_hal_add_ba_rsp_msg_layout :: cty where
  "wcn36xx_hal_add_ba_rsp_msg_layout = packed_struct [
    (''header'', wcn36xx_hal_msg_header_layout), (''status'', U32), (''dialog_token'', U8)]"

definition add_ba_info_layout :: cty where
  "add_ba_info_layout = plain_struct [
    (''ba_enable_bits'', CBits 2 [(''ba_enable'', 1), (''starting_seq_num'', 12),
    (''reserved'', 3)])]"

definition wcn36xx_hal_trigger_ba_rsp_candidate_layout :: cty where
  "wcn36xx_hal_trigger_ba_rsp_candidate_layout = packed_struct [
    (''sta_addr'', CArr 6 U8), (''ba_info'', CArr 8 add_ba_info_layout)]"

definition wcn36xx_hal_trigger_ba_req_candidate_layout :: cty where
  "wcn36xx_hal_trigger_ba_req_candidate_layout = packed_struct [
    (''sta_index'', U8), (''tid_bitmap'', U8)]"

definition wcn36xx_hal_trigger_ba_req_msg_layout :: cty where
  "wcn36xx_hal_trigger_ba_req_msg_layout = packed_struct [
    (''header'', wcn36xx_hal_msg_header_layout), (''session_id'', U8), (''candidate_cnt'', U16)]"

definition wcn36xx_hal_trigger_ba_rsp_msg_layout :: cty where
  "wcn36xx_hal_trigger_ba_rsp_msg_layout = packed_struct [
    (''header'', wcn36xx_hal_msg_header_layout), (''bssid'', CArr 6 U8), (''status'', U32),
    (''candidate_cnt'', U16)]"

definition wcn36xx_hal_del_ba_req_msg_layout :: cty where
  "wcn36xx_hal_del_ba_req_msg_layout = packed_struct [
    (''header'', wcn36xx_hal_msg_header_layout), (''sta_index'', U16), (''tid'', U8),
    (''direction'', U8)]"

definition wcn36xx_hal_del_ba_rsp_msg_layout :: cty where
  "wcn36xx_hal_del_ba_rsp_msg_layout = packed_struct [
    (''header'', wcn36xx_hal_msg_header_layout), (''status'', U32)]"

definition tsm_stats_req_msg_layout :: cty where
  "tsm_stats_req_msg_layout = plain_struct [
    (''header'', wcn36xx_hal_msg_header_layout), (''tid'', U8), (''bssid'', CArr 6 U8)]"

definition tsm_stats_rsp_msg_layout :: cty where
  "tsm_stats_rsp_msg_layout = plain_struct [
    (''header'', wcn36xx_hal_msg_header_layout), (''status'', U32),
    (''uplink_pkt_queue_delay'', U16), (''uplink_pkt_queue_delay_hist'', CArr 4 U16),
    (''uplink_pkt_tx_delay'', U32), (''uplink_pkt_loss'', U16), (''uplink_pkt_count'', U16),
    (''roaming_count'', U8), (''roaming_delay'', U16)]"

definition set_key_done_msg_layout :: cty where
  "set_key_done_msg_layout = plain_struct [
    (''header'', wcn36xx_hal_msg_header_layout), (''bssidx'', U8), (''enc_type'', U8)]"

section \<open>Calibration, beacons, power reports\<close>

definition wcn36xx_hal_nv_img_download_req_msg_layout :: cty where
  "wcn36xx_hal_nv_img_download_req_msg_layout = packed_struct [
    (''header'', wcn36xx_hal_msg_header_layout), (''frag_number'', U16), (''last_fragment'', U16),
    (''nv_img_buffer_size'', U32)]"

definition wcn36xx_hal_nv_img_download_rsp_msg_layout :: cty where
  "wcn36xx_hal_nv_img_download_rsp_msg_layout = packed_struct [
    (''header'', wcn36xx_hal_msg_header_layout), (''status'', U32)]"

definition wcn36xx_hal_nv_store_ind_layout :: cty where
  "wcn36xx_hal_nv_store_ind_layout = plain_struct [
    (''header'', wcn36xx_hal_msg_header_layout), (''table_id'', U32), (''nv_blob_size'', U32)]"

definition mic_failure_ind_msg_layout :: cty where
  "mic_failure_ind_msg_layout = plain_struct [
    (''header'', wcn36xx_hal_msg_header_layout), (''bssid'', CArr 6 U8), (''src_addr'', CArr 6 U8),
    (''ta_addr'', CArr 6 U8), (''dst_addr'', CArr 6 U8), (''multicast'', U8), (''iv1'', U8),
    (''key_id'', U8), (''tsc'', CArr 6 U8), (''rx_addr'', CArr 6 U8)]"

definition update_vht_op_mode_req_msg_layout :: cty where
  "update_vht_op_mode_req_msg_layout = plain_struct [
    (''header'', wcn36xx_hal_msg_header_layout), (''op_mode'', U16), (''sta_id'', U16)]"

definition update_vht_op_mode_params_rsp_msg_layout :: cty where
  "update_vht_op_mode_params_rsp_msg_layout = plain_struct [
    (''header'', wcn36xx_hal_msg_header_layout), (''status'', U32)]"

definition update_beacon_req_msg_layout :: cty where
  "update_beacon_req_msg_layout = plain_struct [
    (''header'', wcn36xx_hal_msg_header_layout), (''bss_index'', U8), (''short_preamble'', U8),
    (''short_slot_time'', U8), (''beacon_interval'', U16), (''lla_coexist'', U8),
    (''llb_coexist'', U8), (''llg_coexist'', U8), (''ht20_coexist'', U8),
    (''lln_non_gf_coexist'', U8), (''lsig_tx_op_protection_full_support'', U8),
    (''rifs_mode'', U8), (''param_change_bitmap'', U16)]"

definition update_beacon_rsp_msg_layout :: cty where
  "update_beacon_rsp_msg_layout = plain_struct [
    (''header'', wcn36xx_hal_msg_header_layout), (''status'', U32)]"

definition wcn36xx_hal_send_beacon_req_msg_layout :: cty where
  "wcn36xx_hal_send_beacon_req_msg_layout = packed_struct [
    (''header'', wcn36xx_hal_msg_header_layout), (''beacon_length6'', U32),
    (''beacon_length'', U32), (''beacon'', CArr 380 U8), (''bssid'', CArr 6 U8),
    (''tim_ie_offset'', U32), (''p2p_ie_offset'', U16)]"

definition send_beacon_rsp_msg_layout :: cty where
  "send_beacon_rsp_msg_layout = packed_struct [
    (''header'', wcn36xx_hal_msg_header_layout), (''status'', U32)]"

definition enable_radar_req_msg_layout :: cty where
  "enable_radar_req_msg_layout = plain_struct [
    (''header'', wcn36xx_hal_msg_header_layout), (''bssid'', CArr 6 U8), (''channel'', U8)]"

definition enable_radar_rsp_msg_layout :: cty where
  "enable_radar_rsp_msg_layout = plain_struct [
    (''header'', wcn36xx_hal_msg_header_layout), (''bssid'', CArr 6 U8), (''status'', U32)]"

definition radar_detect_intr_ind_msg_layout :: cty where
  "radar_detect_intr_ind_msg_layout = plain_struct [
    (''header'', wcn36xx_hal_msg_header_layout), (''radar_det_channel'', U8)]"

definition radar_detect_ind_msg_layout :: cty where
  "radar_detect_ind_msg_layout = plain_struct [
    (''header'', wcn36xx_hal_msg_header_layout), (''channel_number'', U8),
    (''radar_pulse_width'', U16), (''num_radar_pulse'', U16)]"

definition wcn36xx_hal_get_tpc_report_req_msg_layout :: cty where
  "wcn36xx_hal_get_tpc_report_req_msg_layout = plain_struct [
    (''header'', wcn36xx_hal_msg_header_layout), (''sta'', CArr 6 U8), (''dialog_token'', U8),
    (''txpower'', U8)]"

definition wcn36xx_hal_get_tpc_report_rsp_msg_layout :: cty where
  "wcn36xx_hal_get_tpc_report_rsp_msg_layout = plain_struct [
    (''header'', wcn36xx_hal_msg_header_layout), (''status'', U32)]"

definition wcn36xx_hal_send_probe_resp_req_msg_layout :: cty where
  "wcn36xx_hal_send_probe_resp_req_msg_layout = plain_struct [
    (''header'', wcn36xx_hal_msg_header_layout), (''probe_resp_template'', CArr 380 U8),
    (''probe_resp_template_len'', U32), (''proxy_probe_req_valid_ie_bmap'', CArr 8 U32),
    (''bssid'', CArr 6 U8)]"

definition send_probe_resp_rsp_msg_layout :: cty where
  "send_probe_resp_rsp_msg_layout = plain_struct [
    (''header'', wcn36xx_hal_msg_header_layout), (''status'', U32)]"

definition send_unknown_frame_rx_ind_msg_layout :: cty where
  "send_unknown_frame_rx_ind_msg_layout = plain_struct [
    (''header'', wcn36xx_hal_msg_header_layout), (''status'', U32)]"

definition wcn36xx_hal_delete_sta_context_ind_msg_layout :: cty where
  "wcn36xx_hal_delete_sta_context_ind_msg_layout = packed_struct [
    (''header'', wcn36xx_hal_msg_header_layout), (''aid'', U16), (''sta_id'', U16),
    (''bssid'', CArr 6 U8), (''addr2'', CArr 6 U8), (''reason_code'', U16)]"

definition indicate_del_sta_layout :: cty where
  "indicate_del_sta_layout = plain_struct [
    (''header'', wcn36xx_hal_msg_header_layout), (''aid'', U8), (''sta_index'', U8),
    (''bss_index'', U8), (''reason_code'', U8), (''status'', U32)]"

definition bt_amp_event_msg_layout :: cty where
  "bt_amp_event_msg_layout = plain_struct [
    (''header'', wcn36xx_hal_msg_header_layout), (''btAmpEventType'', CEnum)]"

definition bt_amp_event_rsp_layout :: cty where
  "bt_amp_event_rsp_layout = plain_struct [
    (''header'', wcn36xx_hal_msg_header_layout), (''status'', U32)]"

definition tl_hal_flush_ac_req_msg_layout :: cty where
  "tl_hal_flush_ac_req_msg_layout = plain_struct [
    (''header'', wcn36xx_hal_msg_header_layout), (''sta_id'', U8), (''tid'', U8)]"

definition tl_hal_flush_ac_rsp_msg_layout :: cty where
  "tl_hal_flush_ac_rsp_msg_layout = plain_struct [
    (''header'', wcn36xx_hal_msg_header_layout), (''sta_id'', U8), (''tid'', U8), (''status'', U32)]"

section \<open>Power save and filters\<close>

definition wcn36xx_hal_enter_imps_req_msg_layout :: cty where
  "wcn36xx_hal_enter_imps_req_msg_layout = plain_struct [
    (''header'', wcn36xx_hal_msg_header_layout)]"

definition wcn36xx_hal_exit_imps_req_layout :: cty where
  "wcn36xx_hal_exit_imps_req_layout = plain_struct [
    (''header'', wcn36xx_hal_msg_header_layout)]"

definition wcn36xx_hal_enter_bmps_req_msg_layout :: cty where
  "wcn36xx_hal_enter_bmps_req_msg_layout = packed_struct [
    (''header'', wcn36xx_hal_msg_header_layout), (''bss_index'', U8), (''tbtt'', U64),
    (''dtim_count'', U8), (''dtim_period'', U8), (''rssi_filter_period'', U32),
    (''num_beacon_per_rssi_average'', U32), (''rssi_filter_enable'', U8)]"

definition wcn36xx_hal_exit_bmps_req_msg_layout :: cty where
  "wcn36xx_hal_exit_bmps_req_msg_layout = packed_struct [
    (''header'', wcn36xx_hal_msg_header_layout), (''send_data_null'', U8), (''bss_index'', U8)]"

definition wcn36xx_hal_missed_beacon_ind_msg_layout :: cty where
  "wcn36xx_hal_missed_beacon_ind_msg_layout = packed_struct [
    (''header'', wcn36xx_hal_msg_header_layout), (''bss_index'', U8)]"

definition beacon_filter_ie_layout :: cty where
  "beacon_filter_ie_layout = plain_struct [
    (''element_id'', U8), (''check_ie_presence'', U8), (''offset'', U8), (''value'', U8),
    (''bitmask'', U8), (''ref'', U8)]"

definition wcn36xx_hal_add_bcn_filter_req_msg_layout :: cty where
  "wcn36xx_hal_add_bcn_filter_req_msg_layout = plain_struct [
    (''header'', wcn36xx_hal_msg_header_layout), (''capability_info'', U16),
    (''capability_mask'', U16), (''beacon_interval'', U16), (''ie_num'', U16), (''bss_index'', U8),
    (''reserved'', U8)]"

definition wcn36xx_hal_rem_bcn_filter_req_layout :: cty where
  "wcn36xx_hal_rem_bcn_filter_req_layout = plain_struct [
    (''header'', wcn36xx_hal_msg_header_layout), (''ie_Count'', U8), (''rem_ie_id'', CArr 1 U8)]"

definition wcn36xx_hal_ns_offload_params_layout :: cty where
  "wcn36xx_hal_ns_offload_params_layout = plain_struct [
    (''src_ipv6_addr'', CArr 16 U8), (''self_ipv6_addr'', CArr 16 U8),
    (''target_ipv6_addr1'', CArr 16 U8), (''target_ipv6_addr2'', CArr 16 U8),
    (''self_addr'', CArr 6 U8),
    (''src_ipv6_addr_valid_bits'', CBits 1 [(''src_ipv6_addr_valid'', 1),
    (''target_ipv6_addr1_valid'', 1), (''target_ipv6_addr2_valid'', 1), (''reserved1'', 5)]),
    (''reserved2'', U8), (''slot_index'', U32), (''bss_index'', U8)]"

definition wcn36xx_hal_host_offload_req_layout :: cty where
  "wcn36xx_hal_host_offload_req_layout = plain_struct [
    (''offload_Type'', U8), (''enable'', U8), (''u'', CArr 16 U8)]"

definition wcn36xx_hal_host_offload_req_msg_layout :: cty where
  "wcn36xx_hal_host_offload_req_msg_layout = plain_struct [
    (''header'', wcn36xx_hal_msg_header_layout),
    (''host_offload_params'', wcn36xx_hal_host_offload_req_layout),
    (''ns_offload_params'', wcn36xx_hal_ns_offload_params_layout)]"

definition wcn36xx_hal_keep_alive_req_msg_layout :: cty where
  "wcn36xx_hal_keep_alive_req_msg_layout = packed_struct [
    (''header'', wcn36xx_hal_msg_header_layout), (''packet_type'', U8), (''time_period'', U32),
    (''host_ipv4_addr'', CArr 4 U8), (''dest_ipv4_addr'', CArr 4 U8), (''dest_addr'', CArr 6 U8),
    (''bss_index'', U8)]"

definition wcn36xx_hal_rssi_threshold_req_msg_layout :: cty where
  "wcn36xx_hal_rssi_threshold_req_msg_layout = plain_struct [
    (''header'', wcn36xx_hal_msg_header_layout),
    (''threshold1_bits'', CBits 1 [(''threshold1'', 8)]),
    (''threshold2_bits'', CBits 1 [(''threshold2'', 8)]),
    (''threshold3_bits'', CBits 1 [(''threshold3'', 8)]),
    (''thres1_pos_notify_bits'', CBits 1 [(''thres1_pos_notify'', 1), (''thres1_neg_notify'', 1),
    (''thres2_pos_notify'', 1), (''thres2_neg_notify'', 1), (''thres3_pos_notify'', 1),
    (''thres3_neg_notify'', 1), (''reserved10'', 2)])]"

definition wcn36xx_hal_enter_uapsd_req_msg_layout :: cty where
  "wcn36xx_hal_enter_uapsd_req_msg_layout = plain_struct [
    (''header'', wcn36xx_hal_msg_header_layout),
    (''bk_delivery_bits'', CBits 1 [(''bk_delivery'', 1), (''be_delivery'', 1),
    (''vi_delivery'', 1), (''vo_delivery'', 1), (''bk_trigger'', 1), (''be_trigger'', 1),
    (''vi_trigger'', 1), (''vo_trigger'', 1)]), (''bss_index'', U8)]"

definition wcn36xx_hal_exit_uapsd_req_msg_layout :: cty where
  "wcn36xx_hal_exit_uapsd_req_msg_layout = plain_struct [
    (''header'', wcn36xx_hal_msg_header_layout), (''bss_index'', U8)]"

definition wcn36xx_hal_wowl_add_bcast_ptrn_req_msg_layout :: cty where
  "wcn36xx_hal_wowl_add_bcast_ptrn_req_msg_layout = plain_struct [
    (''header'', wcn36xx_hal_msg_header_layout), (''id'', U8), (''byte_Offset'', U8),
    (''size'', U8), (''pattern'', CArr 128 U8), (''mask_size'', U8), (''mask'', CArr 128 U8),
    (''extra'', CArr 128 U8), (''mask_extra'', CArr 128 U8), (''bss_index'', U8)]"

definition wcn36xx_hal_wow_del_bcast_ptrn_req_msg_layout :: cty where
  "wcn36xx_hal_wow_del_bcast_ptrn_req_msg_layout = plain_struct [
    (''header'', wcn36xx_hal_msg_header_layout), (''id'', U8), (''bss_index'', U8)]"

definition wcn36xx_hal_wowl_enter_req_msg_layout :: cty where
  "wcn36xx_hal_wowl_enter_req_msg_layout = plain_struct [
    (''header'', wcn36xx_hal_msg_header_layout), (''magic_packet_enable'', U8),
    (''magic_pattern'', CArr 6 U8), (''pattern_filtering_enable'', U8),
    (''ucast_pattern_filtering_enable'', U8), (''wow_channel_switch_receive'', U8),
    (''wow_deauth_receive'', U8), (''wow_disassoc_receive'', U8), (''wow_max_missed_beacons'', U8),
    (''wow_max_sleep'', U8), (''wow_eap_id_request_enable'', U8), (''wow_eapol_4way_enable'', U8),
    (''wow_net_scan_offload_match'', U8), (''wow_gtk_rekey_error'', U8),
    (''wow_bss_connection_loss'', U8), (''bss_index'', U8)]"

definition wcn36xx_hal_wowl_exit_req_msg_layout :: cty where
  "wcn36xx_hal_wowl_exit_req_msg_layout = plain_struct [
    (''header'', wcn36xx_hal_msg_header_layout), (''bss_index'', U8)]"

section \<open>Answers of the power save commands\<close>

definition wcn36xx_hal_get_rssi_req_msg_layout :: cty where
  "wcn36xx_hal_get_rssi_req_msg_layout = plain_struct [
    (''header'', wcn36xx_hal_msg_header_layout)]"

definition wcn36xx_hal_get_roam_rssi_req_msg_layout :: cty where
  "wcn36xx_hal_get_roam_rssi_req_msg_layout = plain_struct [
    (''header'', wcn36xx_hal_msg_header_layout), (''sta_id'', U32)]"

definition wcn36xx_hal_set_uapsd_ac_params_req_msg_layout :: cty where
  "wcn36xx_hal_set_uapsd_ac_params_req_msg_layout = plain_struct [
    (''header'', wcn36xx_hal_msg_header_layout), (''sta_idx'', U8), (''ac'', U8), (''up'', U8),
    (''service_interval'', U32), (''suspend_interval'', U32), (''delay_interval'', U32)]"

definition wcn36xx_hal_configure_rxp_filter_req_msg_layout :: cty where
  "wcn36xx_hal_configure_rxp_filter_req_msg_layout = plain_struct [
    (''header'', wcn36xx_hal_msg_header_layout), (''set_mcst_bcst_filter_setting'', U8),
    (''set_mcst_bcst_filter'', U8)]"

definition wcn36xx_hal_enter_imps_rsp_msg_layout :: cty where
  "wcn36xx_hal_enter_imps_rsp_msg_layout = plain_struct [
    (''header'', wcn36xx_hal_msg_header_layout), (''status'', U32)]"

definition wcn36xx_hal_exit_imps_rsp_msg_layout :: cty where
  "wcn36xx_hal_exit_imps_rsp_msg_layout = plain_struct [
    (''header'', wcn36xx_hal_msg_header_layout), (''status'', U32)]"

definition wcn36xx_hal_enter_bmps_rsp_msg_layout :: cty where
  "wcn36xx_hal_enter_bmps_rsp_msg_layout = packed_struct [
    (''header'', wcn36xx_hal_msg_header_layout), (''status'', U32), (''bss_index'', U8)]"

definition wcn36xx_hal_exit_bmps_rsp_msg_layout :: cty where
  "wcn36xx_hal_exit_bmps_rsp_msg_layout = packed_struct [
    (''header'', wcn36xx_hal_msg_header_layout), (''status'', U32), (''bss_index'', U8)]"

definition wcn36xx_hal_enter_uapsd_rsp_msg_layout :: cty where
  "wcn36xx_hal_enter_uapsd_rsp_msg_layout = plain_struct [
    (''header'', wcn36xx_hal_msg_header_layout), (''status'', U32), (''bss_index'', U8)]"

definition wcn36xx_hal_exit_uapsd_rsp_msg_layout :: cty where
  "wcn36xx_hal_exit_uapsd_rsp_msg_layout = plain_struct [
    (''header'', wcn36xx_hal_msg_header_layout), (''status'', U32), (''bss_index'', U8)]"

definition wcn36xx_hal_rssi_notification_ind_msg_layout :: cty where
  "wcn36xx_hal_rssi_notification_ind_msg_layout = plain_struct [
    (''header'', wcn36xx_hal_msg_header_layout),
    (''rssi_thres1_pos_cross_bits'', CBits 4 [(''rssi_thres1_pos_cross'', 1),
    (''rssi_thres1_neg_cross'', 1), (''rssi_thres2_pos_cross'', 1), (''rssi_thres2_neg_cross'', 1),
    (''rssi_thres3_pos_cross'', 1), (''rssi_thres3_neg_cross'', 1), (''avg_rssi'', 8),
    (''reserved'', 18)])]"

definition wcn36xx_hal_get_rssio_rsp_msg_layout :: cty where
  "wcn36xx_hal_get_rssio_rsp_msg_layout = plain_struct [
    (''header'', wcn36xx_hal_msg_header_layout), (''status'', U32), (''rssi'', U8)]"

definition wcn36xx_hal_get_roam_rssi_rsp_msg_layout :: cty where
  "wcn36xx_hal_get_roam_rssi_rsp_msg_layout = plain_struct [
    (''header'', wcn36xx_hal_msg_header_layout), (''status'', U32), (''sta_id'', U8),
    (''rssi'', U8)]"

definition wcn36xx_hal_wowl_enter_rsp_msg_layout :: cty where
  "wcn36xx_hal_wowl_enter_rsp_msg_layout = plain_struct [
    (''header'', wcn36xx_hal_msg_header_layout), (''status'', U32), (''bss_index'', U8)]"

definition wcn36xx_hal_wowl_exit_rsp_msg_layout :: cty where
  "wcn36xx_hal_wowl_exit_rsp_msg_layout = plain_struct [
    (''header'', wcn36xx_hal_msg_header_layout), (''status'', U32), (''bss_index'', U8)]"

definition wcn36xx_hal_add_bcn_filter_rsp_msg_layout :: cty where
  "wcn36xx_hal_add_bcn_filter_rsp_msg_layout = plain_struct [
    (''header'', wcn36xx_hal_msg_header_layout), (''status'', U32)]"

definition wcn36xx_hal_rem_bcn_filter_rsp_msg_layout :: cty where
  "wcn36xx_hal_rem_bcn_filter_rsp_msg_layout = plain_struct [
    (''header'', wcn36xx_hal_msg_header_layout), (''status'', U32)]"

definition wcn36xx_hal_add_wowl_bcast_ptrn_rsp_msg_layout :: cty where
  "wcn36xx_hal_add_wowl_bcast_ptrn_rsp_msg_layout = plain_struct [
    (''header'', wcn36xx_hal_msg_header_layout), (''status'', U32), (''bss_index'', U8)]"

definition wcn36xx_hal_del_wowl_bcast_ptrn_rsp_msg_layout :: cty where
  "wcn36xx_hal_del_wowl_bcast_ptrn_rsp_msg_layout = plain_struct [
    (''header'', wcn36xx_hal_msg_header_layout), (''status'', U32), (''bss_index'', U8)]"

definition wcn36xx_hal_host_offload_rsp_msg_layout :: cty where
  "wcn36xx_hal_host_offload_rsp_msg_layout = plain_struct [
    (''header'', wcn36xx_hal_msg_header_layout), (''status'', U32)]"

definition wcn36xx_hal_keep_alive_rsp_msg_layout :: cty where
  "wcn36xx_hal_keep_alive_rsp_msg_layout = plain_struct [
    (''header'', wcn36xx_hal_msg_header_layout), (''status'', U32)]"

definition wcn36xx_hal_set_rssi_thresh_rsp_msg_layout :: cty where
  "wcn36xx_hal_set_rssi_thresh_rsp_msg_layout = plain_struct [
    (''header'', wcn36xx_hal_msg_header_layout), (''status'', U32)]"

definition wcn36xx_hal_set_uapsd_ac_params_rsp_msg_layout :: cty where
  "wcn36xx_hal_set_uapsd_ac_params_rsp_msg_layout = plain_struct [
    (''header'', wcn36xx_hal_msg_header_layout), (''status'', U32)]"

definition wcn36xx_hal_configure_rxp_filter_rsp_msg_layout :: cty where
  "wcn36xx_hal_configure_rxp_filter_rsp_msg_layout = plain_struct [
    (''header'', wcn36xx_hal_msg_header_layout), (''status'', U32)]"

section \<open>Transmit power, interfaces, dumps\<close>

definition set_max_tx_pwr_req_layout :: cty where
  "set_max_tx_pwr_req_layout = plain_struct [
    (''header'', wcn36xx_hal_msg_header_layout), (''bssid'', CArr 6 U8),
    (''self_addr'', CArr 6 U8), (''power'', U8)]"

definition set_max_tx_pwr_rsp_msg_layout :: cty where
  "set_max_tx_pwr_rsp_msg_layout = plain_struct [
    (''header'', wcn36xx_hal_msg_header_layout), (''power'', U8), (''status'', U32)]"

definition set_tx_pwr_req_msg_layout :: cty where
  "set_tx_pwr_req_msg_layout = plain_struct [
    (''header'', wcn36xx_hal_msg_header_layout), (''tx_power'', U32), (''bss_index'', U8)]"

definition set_tx_pwr_rsp_msg_layout :: cty where
  "set_tx_pwr_rsp_msg_layout = plain_struct [
    (''header'', wcn36xx_hal_msg_header_layout), (''status'', U32)]"

definition get_tx_pwr_req_msg_layout :: cty where
  "get_tx_pwr_req_msg_layout = plain_struct [
    (''header'', wcn36xx_hal_msg_header_layout), (''sta_id'', U8)]"

definition get_tx_pwr_rsp_msg_layout :: cty where
  "get_tx_pwr_rsp_msg_layout = plain_struct [
    (''header'', wcn36xx_hal_msg_header_layout), (''status'', U32), (''tx_power'', U32)]"

definition set_p2p_gonoa_req_msg_layout :: cty where
  "set_p2p_gonoa_req_msg_layout = plain_struct [
    (''header'', wcn36xx_hal_msg_header_layout), (''opp_ps'', U8), (''ct_window'', U32),
    (''count'', U8), (''duration'', U32), (''interval'', U32), (''single_noa_duration'', U32),
    (''ps_selection'', U8)]"

definition set_p2p_gonoa_rsp_msg_layout :: cty where
  "set_p2p_gonoa_rsp_msg_layout = plain_struct [
    (''header'', wcn36xx_hal_msg_header_layout), (''status'', U32)]"

definition wcn36xx_hal_add_sta_self_req_layout :: cty where
  "wcn36xx_hal_add_sta_self_req_layout = packed_struct [
    (''header'', wcn36xx_hal_msg_header_layout), (''self_addr'', CArr 6 U8), (''status'', U32)]"

definition wcn36xx_hal_add_sta_self_rsp_msg_layout :: cty where
  "wcn36xx_hal_add_sta_self_rsp_msg_layout = packed_struct [
    (''header'', wcn36xx_hal_msg_header_layout), (''status'', U32), (''self_sta_index'', U8),
    (''dpu_index'', U8), (''dpu_signature'', U8)]"

definition wcn36xx_hal_del_sta_self_req_msg_layout :: cty where
  "wcn36xx_hal_del_sta_self_req_msg_layout = packed_struct [
    (''header'', wcn36xx_hal_msg_header_layout), (''self_addr'', CArr 6 U8)]"

definition wcn36xx_hal_del_sta_self_rsp_msg_layout :: cty where
  "wcn36xx_hal_del_sta_self_rsp_msg_layout = packed_struct [
    (''header'', wcn36xx_hal_msg_header_layout), (''status'', U32), (''self_addr'', CArr 6 U8)]"

definition aggr_add_ts_req_layout :: cty where
  "aggr_add_ts_req_layout = plain_struct [
    (''header'', wcn36xx_hal_msg_header_layout), (''sta_idx'', U16), (''tspec_index'', U16),
    (''tspec'', CArr 4 wcn36xx_hal_tspec_ie_layout), (''uapsd'', U8),
    (''service_interval'', CArr 4 U32), (''suspend_interval'', CArr 4 U32),
    (''delay_interval'', CArr 4 U32)]"

definition aggr_add_ts_rsp_msg_layout :: cty where
  "aggr_add_ts_rsp_msg_layout = plain_struct [
    (''header'', wcn36xx_hal_msg_header_layout), (''status0'', U32), (''status1'', U32)]"

definition wcn36xx_hal_configure_apps_cpu_wakeup_state_req_msg_layout :: cty where
  "wcn36xx_hal_configure_apps_cpu_wakeup_state_req_msg_layout = plain_struct [
    (''header'', wcn36xx_hal_msg_header_layout), (''is_apps_cpu_awake'', U8)]"

definition wcn36xx_hal_configure_apps_cpu_wakeup_state_rsp_msg_layout :: cty where
  "wcn36xx_hal_configure_apps_cpu_wakeup_state_rsp_msg_layout = plain_struct [
    (''header'', wcn36xx_hal_msg_header_layout), (''status'', U32)]"

definition wcn36xx_hal_dump_cmd_req_msg_layout :: cty where
  "wcn36xx_hal_dump_cmd_req_msg_layout = packed_struct [
    (''header'', wcn36xx_hal_msg_header_layout), (''arg1'', U32), (''arg2'', U32), (''arg3'', U32),
    (''arg4'', U32), (''arg5'', U32)]"

definition wcn36xx_hal_dump_cmd_rsp_msg_layout :: cty where
  "wcn36xx_hal_dump_cmd_rsp_msg_layout = packed_struct [
    (''header'', wcn36xx_hal_msg_header_layout), (''status'', U32), (''rsp_length'', U32),
    (''rsp_buffer'', CArr 100 U8)]"

definition coex_ind_msg_layout :: cty where
  "coex_ind_msg_layout = plain_struct [
    (''header'', wcn36xx_hal_msg_header_layout), (''type'', U32), (''data'', CArr 4 U32)]"

definition wcn36xx_hal_tx_compl_ind_msg_layout :: cty where
  "wcn36xx_hal_tx_compl_ind_msg_layout = plain_struct [
    (''header'', wcn36xx_hal_msg_header_layout), (''status'', U32)]"

definition wcn36xx_hal_wlan_host_suspend_ind_msg_layout :: cty where
  "wcn36xx_hal_wlan_host_suspend_ind_msg_layout = plain_struct [
    (''header'', wcn36xx_hal_msg_header_layout), (''configured_mcst_bcst_filter_setting'', U32),
    (''active_session_count'', U32)]"

definition wcn36xx_hal_wlan_exclude_unencrpted_ind_msg_layout :: cty where
  "wcn36xx_hal_wlan_exclude_unencrpted_ind_msg_layout = plain_struct [
    (''header'', wcn36xx_hal_msg_header_layout), (''dot11_exclude_unencrypted'', U8),
    (''bssid'', CArr 6 U8)]"

definition noa_attr_ind_msg_layout :: cty where
  "noa_attr_ind_msg_layout = plain_struct [
    (''header'', wcn36xx_hal_msg_header_layout), (''index'', U8), (''opp_ps_flag'', U8),
    (''ctwin'', U16), (''noa1_interval_count'', U16), (''bss_index'', U16),
    (''noa1_duration'', U32), (''noa1_interval'', U32), (''noa1_starttime'', U32),
    (''noa2_interval_count'', U16), (''reserved2'', U16), (''noa2_duration'', U32),
    (''noa2_interval'', U32), (''noa2_start_time'', U32), (''status'', U32)]"

definition noa_start_ind_msg_layout :: cty where
  "noa_start_ind_msg_layout = plain_struct [
    (''header'', wcn36xx_hal_msg_header_layout), (''status'', U32), (''bss_index'', U32)]"

definition wcn36xx_hal_wlan_host_resume_req_msg_layout :: cty where
  "wcn36xx_hal_wlan_host_resume_req_msg_layout = plain_struct [
    (''header'', wcn36xx_hal_msg_header_layout), (''configured_mcst_bcst_filter_setting'', U8)]"

definition wcn36xx_hal_host_resume_rsp_msg_layout :: cty where
  "wcn36xx_hal_host_resume_rsp_msg_layout = plain_struct [
    (''header'', wcn36xx_hal_msg_header_layout), (''status'', U32)]"

definition wcn36xx_hal_del_ba_ind_msg_layout :: cty where
  "wcn36xx_hal_del_ba_ind_msg_layout = plain_struct [
    (''header'', wcn36xx_hal_msg_header_layout), (''sta_idx'', U16), (''peer_addr'', CArr 6 U8),
    (''ba_tid'', U8), (''direction'', U8), (''reason_code'', U32), (''bssid'', CArr 6 U8)]"

section \<open>Preferred networks\<close>

definition network_type_layout :: cty where
  "network_type_layout = plain_struct [
    (''ssid'', wcn36xx_hal_mac_ssid_layout), (''authentication'', CEnum), (''encryption'', CEnum),
    (''channel_count'', U8), (''channels'', CArr 26 U8), (''rssi_threshold'', U8)]"

definition scan_timer_layout :: cty where
  "scan_timer_layout = plain_struct [
    (''value'', U32), (''repeat'', U32)]"

definition scan_timers_type_layout :: cty where
  "scan_timers_type_layout = plain_struct [
    (''count'', U8), (''values'', CArr 10 scan_timer_layout)]"

definition set_pref_netw_list_req_layout :: cty where
  "set_pref_netw_list_req_layout = plain_struct [
    (''header'', wcn36xx_hal_msg_header_layout), (''enable'', U32), (''mode'', CEnum),
    (''networks_count'', U32), (''networks'', CArr 16 network_type_layout),
    (''scan_timers'', scan_timers_type_layout), (''band_24g_probe_size'', U16),
    (''band_24g_probe_template'', CArr 450 U8), (''band_5g_probe_size'', U16),
    (''band_5g_probe_template'', CArr 450 U8)]"

definition network_type_new_layout :: cty where
  "network_type_new_layout = plain_struct [
    (''ssid'', wcn36xx_hal_mac_ssid_layout), (''authentication'', CEnum), (''encryption'', CEnum),
    (''bcast_network_type'', CEnum), (''channel_count'', U8), (''channels'', CArr 26 U8),
    (''rssi_threshold'', U8)]"

definition set_pref_netw_list_req_new_layout :: cty where
  "set_pref_netw_list_req_new_layout = plain_struct [
    (''header'', wcn36xx_hal_msg_header_layout), (''enable'', U32), (''mode'', CEnum),
    (''networks_count'', U32), (''networks'', CArr 16 network_type_new_layout),
    (''scan_timers'', scan_timers_type_layout), (''band_24g_probe_size'', U16),
    (''band_24g_probe_template'', CArr 450 U8), (''band_5g_probe_size'', U16),
    (''band_5g_probe_template'', CArr 450 U8)]"

definition set_pref_netw_list_resp_layout :: cty where
  "set_pref_netw_list_resp_layout = plain_struct [
    (''header'', wcn36xx_hal_msg_header_layout), (''status'', U32)]"

definition pref_netw_found_ind_layout :: cty where
  "pref_netw_found_ind_layout = plain_struct [
    (''header'', wcn36xx_hal_msg_header_layout), (''ssid'', wcn36xx_hal_mac_ssid_layout),
    (''rssi'', U8)]"

definition set_rssi_filter_req_layout :: cty where
  "set_rssi_filter_req_layout = plain_struct [
    (''header'', wcn36xx_hal_msg_header_layout), (''rssi_threshold'', U8)]"

definition set_rssi_filter_resp_layout :: cty where
  "set_rssi_filter_resp_layout = plain_struct [
    (''header'', wcn36xx_hal_msg_header_layout), (''status'', U32)]"

section \<open>Scan parameters and packet filters\<close>

definition wcn36xx_hal_update_scan_params_req_layout :: cty where
  "wcn36xx_hal_update_scan_params_req_layout = packed_struct [
    (''header'', wcn36xx_hal_msg_header_layout), (''dot11d_enabled'', U8),
    (''dot11d_resolved'', U8), (''channel_count'', U8), (''channels'', CArr 26 U8),
    (''active_min_ch_time'', U16), (''active_max_ch_time'', U16), (''passive_min_ch_time'', U16),
    (''passive_max_ch_time'', U16), (''state'', CEnum)]"

definition update_scan_params_req_ex_layout :: cty where
  "update_scan_params_req_ex_layout = plain_struct [
    (''header'', wcn36xx_hal_msg_header_layout), (''dot11d_enabled'', U8),
    (''dot11d_resolved'', U8), (''channel_count'', U8), (''channels'', CArr 60 U8),
    (''active_min_ch_time'', U16), (''active_max_ch_time'', U16), (''passive_min_ch_time'', U16),
    (''passive_max_ch_time'', U16), (''state'', CEnum)]"

definition wcn36xx_hal_update_scan_params_resp_layout :: cty where
  "wcn36xx_hal_update_scan_params_resp_layout = packed_struct [
    (''header'', wcn36xx_hal_msg_header_layout), (''status'', U32)]"

definition wcn36xx_hal_set_tx_per_tracking_req_msg_layout :: cty where
  "wcn36xx_hal_set_tx_per_tracking_req_msg_layout = plain_struct [
    (''header'', wcn36xx_hal_msg_header_layout), (''tx_per_tracking_enable'', U8),
    (''tx_per_tracking_period'', U8), (''tx_per_tracking_ratio'', U8),
    (''tx_per_tracking_watermark'', U32)]"

definition wcn36xx_hal_set_tx_per_tracking_rsp_msg_layout :: cty where
  "wcn36xx_hal_set_tx_per_tracking_rsp_msg_layout = plain_struct [
    (''header'', wcn36xx_hal_msg_header_layout), (''status'', U32)]"

definition tx_per_hit_ind_msg_layout :: cty where
  "tx_per_hit_ind_msg_layout = plain_struct [
    (''header'', wcn36xx_hal_msg_header_layout)]"

definition wcn36xx_hal_rcv_pkt_filter_params_layout :: cty where
  "wcn36xx_hal_rcv_pkt_filter_params_layout = plain_struct [
    (''protocol_layer'', U8), (''cmp_flag'', U8), (''data_length'', U16), (''data_offset'', U8),
    (''reserved'', U8), (''compare_data'', CArr 8 U8), (''data_mask'', CArr 8 U8)]"

definition wcn36xx_hal_sessionized_rcv_pkt_filter_cfg_type_layout :: cty where
  "wcn36xx_hal_sessionized_rcv_pkt_filter_cfg_type_layout = plain_struct [
    (''id'', U8), (''type'', U8), (''params_count'', U8), (''coleasce_time'', U32),
    (''bss_index'', U8), (''params'', CArr 1 wcn36xx_hal_rcv_pkt_filter_params_layout)]"

definition wcn36xx_hal_set_rcv_pkt_filter_req_msg_layout :: cty where
  "wcn36xx_hal_set_rcv_pkt_filter_req_msg_layout = plain_struct [
    (''header'', wcn36xx_hal_msg_header_layout), (''id'', U8), (''type'', U8),
    (''params_count'', U8), (''coalesce_time'', U32),
    (''params'', CArr 1 wcn36xx_hal_rcv_pkt_filter_params_layout)]"

definition wcn36xx_hal_rcv_flt_mc_addr_list_type_layout :: cty where
  "wcn36xx_hal_rcv_flt_mc_addr_list_type_layout = packed_struct [
    (''data_offset'', U8), (''mc_addr_count'', U32), (''mc_addr'', CArr 240 (CArr 6 U8)),
    (''bss_index'', U8)]"

definition wcn36xx_hal_set_pkt_filter_rsp_msg_layout :: cty where
  "wcn36xx_hal_set_pkt_filter_rsp_msg_layout = plain_struct [
    (''header'', wcn36xx_hal_msg_header_layout), (''status'', U32), (''bss_index'', U8)]"

definition wcn36xx_hal_rcv_flt_pkt_match_cnt_req_msg_layout :: cty where
  "wcn36xx_hal_rcv_flt_pkt_match_cnt_req_msg_layout = plain_struct [
    (''header'', wcn36xx_hal_msg_header_layout), (''bss_index'', U8)]"

definition wcn36xx_hal_rcv_flt_pkt_match_cnt_layout :: cty where
  "wcn36xx_hal_rcv_flt_pkt_match_cnt_layout = plain_struct [
    (''id'', U8), (''match_cnt'', U32)]"

definition wcn36xx_hal_rcv_flt_pkt_match_cnt_rsp_msg_layout :: cty where
  "wcn36xx_hal_rcv_flt_pkt_match_cnt_rsp_msg_layout = plain_struct [
    (''header'', wcn36xx_hal_msg_header_layout), (''status'', U32), (''match_count'', U32),
    (''matches'', CArr 20 wcn36xx_hal_rcv_flt_pkt_match_cnt_layout), (''bss_index'', U8)]"

definition wcn36xx_hal_rcv_flt_pkt_clear_param_layout :: cty where
  "wcn36xx_hal_rcv_flt_pkt_clear_param_layout = plain_struct [
    (''status'', U32), (''id'', U8), (''bss_index'', U8)]"

definition wcn36xx_hal_rcv_flt_pkt_clear_req_msg_layout :: cty where
  "wcn36xx_hal_rcv_flt_pkt_clear_req_msg_layout = plain_struct [
    (''header'', wcn36xx_hal_msg_header_layout),
    (''param'', wcn36xx_hal_rcv_flt_pkt_clear_param_layout)]"

definition wcn36xx_hal_rcv_flt_pkt_clear_rsp_msg_layout :: cty where
  "wcn36xx_hal_rcv_flt_pkt_clear_rsp_msg_layout = plain_struct [
    (''header'', wcn36xx_hal_msg_header_layout),
    (''param'', wcn36xx_hal_rcv_flt_pkt_clear_param_layout)]"

definition wcn36xx_hal_rcv_flt_pkt_set_mc_list_req_msg_layout :: cty where
  "wcn36xx_hal_rcv_flt_pkt_set_mc_list_req_msg_layout = packed_struct [
    (''header'', wcn36xx_hal_msg_header_layout),
    (''mc_addr_list'', wcn36xx_hal_rcv_flt_mc_addr_list_type_layout)]"

definition wcn36xx_hal_rcv_flt_pkt_set_mc_list_rsp_msg_layout :: cty where
  "wcn36xx_hal_rcv_flt_pkt_set_mc_list_rsp_msg_layout = plain_struct [
    (''header'', wcn36xx_hal_msg_header_layout), (''status'', U32), (''bss_index'', U8)]"

section \<open>Power parameters, capabilities, wake up and the rest\<close>

definition wcn36xx_hal_set_power_params_req_msg_layout :: cty where
  "wcn36xx_hal_set_power_params_req_msg_layout = packed_struct [
    (''header'', wcn36xx_hal_msg_header_layout), (''ignore_dtim'', U32), (''dtim_period'', U32),
    (''listen_interval'', U32), (''bcast_mcast_filter'', U32), (''enable_bet'', U32),
    (''bet_interval'', U32)]"

definition wcn36xx_hal_set_power_params_resp_layout :: cty where
  "wcn36xx_hal_set_power_params_resp_layout = packed_struct [
    (''header'', wcn36xx_hal_msg_header_layout), (''status'', U32)]"

definition wcn36xx_hal_feat_caps_msg_layout :: cty where
  "wcn36xx_hal_feat_caps_msg_layout = packed_struct [
    (''header'', wcn36xx_hal_msg_header_layout), (''feat_caps'', CArr 4 U32)]"

definition wcn36xx_hal_wake_reason_ind_layout :: cty where
  "wcn36xx_hal_wake_reason_ind_layout = plain_struct [
    (''header'', wcn36xx_hal_msg_header_layout), (''reason'', U32), (''reason_arg'', U32),
    (''stored_data_len'', U32), (''actual_data_len'', U32), (''data_start'', CArr 1 U8),
    (''bss_index_bits'', CBits 4 [(''bss_index'', 8), (''reserved'', 24)])]"

definition wcn36xx_hal_gtk_offload_req_msg_layout :: cty where
  "wcn36xx_hal_gtk_offload_req_msg_layout = plain_struct [
    (''header'', wcn36xx_hal_msg_header_layout), (''flags'', U32), (''kck'', CArr 16 U8),
    (''kek'', CArr 16 U8), (''key_replay_counter'', U64), (''bss_index'', U8)]"

definition wcn36xx_hal_gtk_offload_rsp_msg_layout :: cty where
  "wcn36xx_hal_gtk_offload_rsp_msg_layout = plain_struct [
    (''header'', wcn36xx_hal_msg_header_layout), (''status'', U32), (''bss_index'', U8)]"

definition wcn36xx_hal_gtk_offload_get_info_req_msg_layout :: cty where
  "wcn36xx_hal_gtk_offload_get_info_req_msg_layout = plain_struct [
    (''header'', wcn36xx_hal_msg_header_layout), (''bss_index'', U8)]"

definition wcn36xx_hal_gtk_offload_get_info_rsp_msg_layout :: cty where
  "wcn36xx_hal_gtk_offload_get_info_rsp_msg_layout = plain_struct [
    (''header'', wcn36xx_hal_msg_header_layout), (''status'', U32), (''last_rekey_status'', U32),
    (''key_replay_counter'', U64), (''total_rekey_count'', U32), (''gtk_rekey_count'', U32),
    (''igtk_rekey_count'', U32), (''bss_index'', U8)]"

definition dhcp_info_layout :: cty where
  "dhcp_info_layout = plain_struct [
    (''device_mode'', U8), (''addr'', CArr 6 U8)]"

definition dhcp_ind_status_layout :: cty where
  "dhcp_ind_status_layout = plain_struct [
    (''header'', wcn36xx_hal_msg_header_layout), (''status'', U32)]"

definition set_thermal_mitigation_req_msg_layout :: cty where
  "set_thermal_mitigation_req_msg_layout = plain_struct [
    (''header'', wcn36xx_hal_msg_header_layout), (''mode'', CEnum), (''level'', CEnum)]"

definition set_thermal_mitigation_resp_layout :: cty where
  "set_thermal_mitigation_resp_layout = plain_struct [
    (''header'', wcn36xx_hal_msg_header_layout), (''status'', U32)]"

definition stats_class_b_ind_layout :: cty where
  "stats_class_b_ind_layout = plain_struct [
    (''header'', wcn36xx_hal_msg_header_layout), (''duration'', U32), (''tx_bytes_pushed'', U32),
    (''tx_packets_pushed'', U32), (''rx_bytes_rcvd'', U32), (''rx_packets_rcvd'', U32),
    (''rx_time_total'', U32)]"

end
