(* ===== verification/Hal_Enum.thy ===== *)
theory Hal_Enum
  imports Hal_Msg Hal_Types "HOL-Library.Sublist"
begin

text \<open>
  The enumerations of \<^verbatim>\<open>hal.h\<close> as they are written, and the numbers C gives to their constants: a constant without a
  value has the one after its predecessor. The types and numbers the other theories use are those.
\<close>

section \<open>Numbering\<close>

type_synonym c_enum = "(string \<times> int option) list"

fun enum_from :: "int \<Rightarrow> c_enum \<Rightarrow> (int \<times> string) list" where
  "enum_from n [] = []"
| "enum_from n ((c, v) # l) = (let k = (case v of None \<Rightarrow> n | Some k \<Rightarrow> k) in (k, c) # enum_from (k + 1) l)"

definition enum_of :: "c_enum \<Rightarrow> (int \<times> string) list" where
  "enum_of = enum_from 0"

section \<open>Enumerations\<close>

definition host_msg_types_low :: c_enum where
  "host_msg_types_low = [
    (''WCN36XX_HAL_START_REQ'', Some 0), (''WCN36XX_HAL_START_RSP'', Some 1),
    (''WCN36XX_HAL_STOP_REQ'', Some 2), (''WCN36XX_HAL_STOP_RSP'', Some 3),
    (''WCN36XX_HAL_INIT_SCAN_REQ'', Some 4), (''WCN36XX_HAL_INIT_SCAN_RSP'', Some 5),
    (''WCN36XX_HAL_START_SCAN_REQ'', Some 6), (''WCN36XX_HAL_START_SCAN_RSP'', Some 7),
    (''WCN36XX_HAL_END_SCAN_REQ'', Some 8), (''WCN36XX_HAL_END_SCAN_RSP'', Some 9),
    (''WCN36XX_HAL_FINISH_SCAN_REQ'', Some 10), (''WCN36XX_HAL_FINISH_SCAN_RSP'', Some 11),
    (''WCN36XX_HAL_CONFIG_STA_REQ'', Some 12), (''WCN36XX_HAL_CONFIG_STA_RSP'', Some 13),
    (''WCN36XX_HAL_DELETE_STA_REQ'', Some 14), (''WCN36XX_HAL_DELETE_STA_RSP'', Some 15),
    (''WCN36XX_HAL_CONFIG_BSS_REQ'', Some 16), (''WCN36XX_HAL_CONFIG_BSS_RSP'', Some 17),
    (''WCN36XX_HAL_DELETE_BSS_REQ'', Some 18), (''WCN36XX_HAL_DELETE_BSS_RSP'', Some 19),
    (''WCN36XX_HAL_JOIN_REQ'', Some 20), (''WCN36XX_HAL_JOIN_RSP'', Some 21),
    (''WCN36XX_HAL_POST_ASSOC_REQ'', Some 22), (''WCN36XX_HAL_POST_ASSOC_RSP'', Some 23),
    (''WCN36XX_HAL_SET_BSSKEY_REQ'', Some 24), (''WCN36XX_HAL_SET_BSSKEY_RSP'', Some 25),
    (''WCN36XX_HAL_SET_STAKEY_REQ'', Some 26), (''WCN36XX_HAL_SET_STAKEY_RSP'', Some 27),
    (''WCN36XX_HAL_RMV_BSSKEY_REQ'', Some 28), (''WCN36XX_HAL_RMV_BSSKEY_RSP'', Some 29),
    (''WCN36XX_HAL_RMV_STAKEY_REQ'', Some 30), (''WCN36XX_HAL_RMV_STAKEY_RSP'', Some 31),
    (''WCN36XX_HAL_ADD_TS_REQ'', Some 32), (''WCN36XX_HAL_ADD_TS_RSP'', Some 33),
    (''WCN36XX_HAL_DEL_TS_REQ'', Some 34), (''WCN36XX_HAL_DEL_TS_RSP'', Some 35),
    (''WCN36XX_HAL_UPD_EDCA_PARAMS_REQ'', Some 36), (''WCN36XX_HAL_UPD_EDCA_PARAMS_RSP'', Some 37),
    (''WCN36XX_HAL_ADD_BA_REQ'', Some 38), (''WCN36XX_HAL_ADD_BA_RSP'', Some 39),
    (''WCN36XX_HAL_DEL_BA_REQ'', Some 40), (''WCN36XX_HAL_DEL_BA_RSP'', Some 41),
    (''WCN36XX_HAL_CH_SWITCH_REQ'', Some 42), (''WCN36XX_HAL_CH_SWITCH_RSP'', Some 43),
    (''WCN36XX_HAL_SET_LINK_ST_REQ'', Some 44), (''WCN36XX_HAL_SET_LINK_ST_RSP'', Some 45),
    (''WCN36XX_HAL_GET_STATS_REQ'', Some 46), (''WCN36XX_HAL_GET_STATS_RSP'', Some 47),
    (''WCN36XX_HAL_UPDATE_CFG_REQ'', Some 48), (''WCN36XX_HAL_UPDATE_CFG_RSP'', Some 49),
    (''WCN36XX_HAL_MISSED_BEACON_IND'', Some 50),
    (''WCN36XX_HAL_UNKNOWN_ADDR2_FRAME_RX_IND'', Some 51), (''WCN36XX_HAL_MIC_FAILURE_IND'', Some 52),
    (''WCN36XX_HAL_FATAL_ERROR_IND'', Some 53), (''WCN36XX_HAL_SET_KEYDONE_MSG'', Some 54),
    (''WCN36XX_HAL_DOWNLOAD_NV_REQ'', Some 55), (''WCN36XX_HAL_DOWNLOAD_NV_RSP'', Some 56),
    (''WCN36XX_HAL_ADD_BA_SESSION_REQ'', Some 57), (''WCN36XX_HAL_ADD_BA_SESSION_RSP'', Some 58),
    (''WCN36XX_HAL_TRIGGER_BA_REQ'', Some 59), (''WCN36XX_HAL_TRIGGER_BA_RSP'', Some 60),
    (''WCN36XX_HAL_UPDATE_BEACON_REQ'', Some 61), (''WCN36XX_HAL_UPDATE_BEACON_RSP'', Some 62),
    (''WCN36XX_HAL_SEND_BEACON_REQ'', Some 63), (''WCN36XX_HAL_SEND_BEACON_RSP'', Some 64),
    (''WCN36XX_HAL_SET_BCASTKEY_REQ'', Some 65), (''WCN36XX_HAL_SET_BCASTKEY_RSP'', Some 66),
    (''WCN36XX_HAL_DELETE_STA_CONTEXT_IND'', Some 67),
    (''WCN36XX_HAL_UPDATE_PROBE_RSP_TEMPLATE_REQ'', Some 68),
    (''WCN36XX_HAL_UPDATE_PROBE_RSP_TEMPLATE_RSP'', Some 69),
    (''WCN36XX_HAL_PROCESS_PTT_REQ'', Some 70), (''WCN36XX_HAL_PROCESS_PTT_RSP'', Some 71),
    (''WCN36XX_HAL_SIGNAL_BTAMP_EVENT_REQ'', Some 72),
    (''WCN36XX_HAL_SIGNAL_BTAMP_EVENT_RSP'', Some 73), (''WCN36XX_HAL_TL_HAL_FLUSH_AC_REQ'', Some 74),
    (''WCN36XX_HAL_TL_HAL_FLUSH_AC_RSP'', Some 75), (''WCN36XX_HAL_ENTER_IMPS_REQ'', Some 76),
    (''WCN36XX_HAL_EXIT_IMPS_REQ'', Some 77), (''WCN36XX_HAL_ENTER_BMPS_REQ'', Some 78),
    (''WCN36XX_HAL_EXIT_BMPS_REQ'', Some 79), (''WCN36XX_HAL_ENTER_UAPSD_REQ'', Some 80),
    (''WCN36XX_HAL_EXIT_UAPSD_REQ'', Some 81), (''WCN36XX_HAL_UPDATE_UAPSD_PARAM_REQ'', Some 82),
    (''WCN36XX_HAL_CONFIGURE_RXP_FILTER_REQ'', Some 83), (''WCN36XX_HAL_ADD_BCN_FILTER_REQ'', Some 84),
    (''WCN36XX_HAL_REM_BCN_FILTER_REQ'', Some 85), (''WCN36XX_HAL_ADD_WOWL_BCAST_PTRN'', Some 86),
    (''WCN36XX_HAL_DEL_WOWL_BCAST_PTRN'', Some 87), (''WCN36XX_HAL_ENTER_WOWL_REQ'', Some 88),
    (''WCN36XX_HAL_EXIT_WOWL_REQ'', Some 89), (''WCN36XX_HAL_HOST_OFFLOAD_REQ'', Some 90),
    (''WCN36XX_HAL_SET_RSSI_THRESH_REQ'', Some 91), (''WCN36XX_HAL_GET_RSSI_REQ'', Some 92),
    (''WCN36XX_HAL_SET_UAPSD_AC_PARAMS_REQ'', Some 93),
    (''WCN36XX_HAL_CONFIGURE_APPS_CPU_WAKEUP_STATE_REQ'', Some 94),
    (''WCN36XX_HAL_ENTER_IMPS_RSP'', Some 95), (''WCN36XX_HAL_EXIT_IMPS_RSP'', Some 96),
    (''WCN36XX_HAL_ENTER_BMPS_RSP'', Some 97), (''WCN36XX_HAL_EXIT_BMPS_RSP'', Some 98),
    (''WCN36XX_HAL_ENTER_UAPSD_RSP'', Some 99), (''WCN36XX_HAL_EXIT_UAPSD_RSP'', Some 100),
    (''WCN36XX_HAL_SET_UAPSD_AC_PARAMS_RSP'', Some 101),
    (''WCN36XX_HAL_UPDATE_UAPSD_PARAM_RSP'', Some 102),
    (''WCN36XX_HAL_CONFIGURE_RXP_FILTER_RSP'', Some 103),
    (''WCN36XX_HAL_ADD_BCN_FILTER_RSP'', Some 104), (''WCN36XX_HAL_REM_BCN_FILTER_RSP'', Some 105),
    (''WCN36XX_HAL_SET_RSSI_THRESH_RSP'', Some 106), (''WCN36XX_HAL_HOST_OFFLOAD_RSP'', Some 107),
    (''WCN36XX_HAL_ADD_WOWL_BCAST_PTRN_RSP'', Some 108),
    (''WCN36XX_HAL_DEL_WOWL_BCAST_PTRN_RSP'', Some 109), (''WCN36XX_HAL_ENTER_WOWL_RSP'', Some 110),
    (''WCN36XX_HAL_EXIT_WOWL_RSP'', Some 111), (''WCN36XX_HAL_RSSI_NOTIFICATION_IND'', Some 112),
    (''WCN36XX_HAL_GET_RSSI_RSP'', Some 113),
    (''WCN36XX_HAL_CONFIGURE_APPS_CPU_WAKEUP_STATE_RSP'', Some 114),
    (''WCN36XX_HAL_SET_MAX_TX_POWER_REQ'', Some 115), (''WCN36XX_HAL_SET_MAX_TX_POWER_RSP'', Some 116),
    (''WCN36XX_HAL_AGGR_ADD_TS_REQ'', Some 117), (''WCN36XX_HAL_AGGR_ADD_TS_RSP'', Some 118),
    (''WCN36XX_HAL_SET_P2P_GONOA_REQ'', Some 119), (''WCN36XX_HAL_SET_P2P_GONOA_RSP'', Some 120)]"

definition host_msg_types_high :: c_enum where
  "host_msg_types_high = [
    (''WCN36XX_HAL_DUMP_COMMAND_REQ'', Some 121), (''WCN36XX_HAL_DUMP_COMMAND_RSP'', Some 122),
    (''WCN36XX_HAL_START_OEM_DATA_REQ'', Some 123), (''WCN36XX_HAL_START_OEM_DATA_RSP'', Some 124),
    (''WCN36XX_HAL_ADD_STA_SELF_REQ'', Some 125), (''WCN36XX_HAL_ADD_STA_SELF_RSP'', Some 126),
    (''WCN36XX_HAL_DEL_STA_SELF_REQ'', Some 127), (''WCN36XX_HAL_DEL_STA_SELF_RSP'', Some 128),
    (''WCN36XX_HAL_COEX_IND'', Some 129), (''WCN36XX_HAL_OTA_TX_COMPL_IND'', Some 130),
    (''WCN36XX_HAL_HOST_SUSPEND_IND'', Some 131), (''WCN36XX_HAL_HOST_RESUME_REQ'', Some 132),
    (''WCN36XX_HAL_HOST_RESUME_RSP'', Some 133), (''WCN36XX_HAL_SET_TX_POWER_REQ'', Some 134),
    (''WCN36XX_HAL_SET_TX_POWER_RSP'', Some 135), (''WCN36XX_HAL_GET_TX_POWER_REQ'', Some 136),
    (''WCN36XX_HAL_GET_TX_POWER_RSP'', Some 137), (''WCN36XX_HAL_P2P_NOA_ATTR_IND'', Some 138),
    (''WCN36XX_HAL_ENABLE_RADAR_DETECT_REQ'', Some 139),
    (''WCN36XX_HAL_ENABLE_RADAR_DETECT_RSP'', Some 140),
    (''WCN36XX_HAL_GET_TPC_REPORT_REQ'', Some 141), (''WCN36XX_HAL_GET_TPC_REPORT_RSP'', Some 142),
    (''WCN36XX_HAL_RADAR_DETECT_IND'', Some 143), (''WCN36XX_HAL_RADAR_DETECT_INTR_IND'', Some 144),
    (''WCN36XX_HAL_KEEP_ALIVE_REQ'', Some 145), (''WCN36XX_HAL_KEEP_ALIVE_RSP'', Some 146),
    (''WCN36XX_HAL_SET_PREF_NETWORK_REQ'', Some 147), (''WCN36XX_HAL_SET_PREF_NETWORK_RSP'', Some 148),
    (''WCN36XX_HAL_SET_RSSI_FILTER_REQ'', Some 149), (''WCN36XX_HAL_SET_RSSI_FILTER_RSP'', Some 150),
    (''WCN36XX_HAL_UPDATE_SCAN_PARAM_REQ'', Some 151),
    (''WCN36XX_HAL_UPDATE_SCAN_PARAM_RSP'', Some 152), (''WCN36XX_HAL_PREF_NETW_FOUND_IND'', Some 153),
    (''WCN36XX_HAL_SET_TX_PER_TRACKING_REQ'', Some 154),
    (''WCN36XX_HAL_SET_TX_PER_TRACKING_RSP'', Some 155), (''WCN36XX_HAL_TX_PER_HIT_IND'', Some 156),
    (''WCN36XX_HAL_8023_MULTICAST_LIST_REQ'', Some 157),
    (''WCN36XX_HAL_8023_MULTICAST_LIST_RSP'', Some 158),
    (''WCN36XX_HAL_SET_PACKET_FILTER_REQ'', Some 159),
    (''WCN36XX_HAL_SET_PACKET_FILTER_RSP'', Some 160),
    (''WCN36XX_HAL_PACKET_FILTER_MATCH_COUNT_REQ'', Some 161),
    (''WCN36XX_HAL_PACKET_FILTER_MATCH_COUNT_RSP'', Some 162),
    (''WCN36XX_HAL_CLEAR_PACKET_FILTER_REQ'', Some 163),
    (''WCN36XX_HAL_CLEAR_PACKET_FILTER_RSP'', Some 164), (''WCN36XX_HAL_INIT_SCAN_CON_REQ'', Some 165),
    (''WCN36XX_HAL_SET_POWER_PARAMS_REQ'', Some 166), (''WCN36XX_HAL_SET_POWER_PARAMS_RSP'', Some 167),
    (''WCN36XX_HAL_TSM_STATS_REQ'', Some 168), (''WCN36XX_HAL_TSM_STATS_RSP'', Some 169),
    (''WCN36XX_HAL_WAKE_REASON_IND'', Some 170), (''WCN36XX_HAL_GTK_OFFLOAD_REQ'', Some 171),
    (''WCN36XX_HAL_GTK_OFFLOAD_RSP'', Some 172), (''WCN36XX_HAL_GTK_OFFLOAD_GETINFO_REQ'', Some 173),
    (''WCN36XX_HAL_GTK_OFFLOAD_GETINFO_RSP'', Some 174),
    (''WCN36XX_HAL_FEATURE_CAPS_EXCHANGE_REQ'', Some 175),
    (''WCN36XX_HAL_FEATURE_CAPS_EXCHANGE_RSP'', Some 176),
    (''WCN36XX_HAL_EXCLUDE_UNENCRYPTED_IND'', Some 177),
    (''WCN36XX_HAL_SET_THERMAL_MITIGATION_REQ'', Some 178),
    (''WCN36XX_HAL_SET_THERMAL_MITIGATION_RSP'', Some 179),
    (''WCN36XX_HAL_UPDATE_VHT_OP_MODE_REQ'', Some 182),
    (''WCN36XX_HAL_UPDATE_VHT_OP_MODE_RSP'', Some 183), (''WCN36XX_HAL_P2P_NOA_START_IND'', Some 184),
    (''WCN36XX_HAL_GET_ROAM_RSSI_REQ'', Some 185), (''WCN36XX_HAL_GET_ROAM_RSSI_RSP'', Some 186),
    (''WCN36XX_HAL_CLASS_B_STATS_IND'', Some 187), (''WCN36XX_HAL_DEL_BA_IND'', Some 188),
    (''WCN36XX_HAL_DHCP_START_IND'', Some 189), (''WCN36XX_HAL_DHCP_STOP_IND'', Some 190),
    (''WCN36XX_HAL_MSG_MAX'', Some 32767)]"

definition wcn36xx_hal_host_msg_type_enum :: c_enum where
  "wcn36xx_hal_host_msg_type_enum = host_msg_types_low @ host_msg_types_high"

definition wcn36xx_hal_host_msg_version_enum :: c_enum where
  "wcn36xx_hal_host_msg_version_enum = [
    (''WCN36XX_HAL_MSG_VERSION0'', Some 0), (''WCN36XX_HAL_MSG_VERSION1'', Some 1),
    (''WCN36XX_HAL_MSG_WCNSS_CTRL_VERSION'', Some 32767),
    (''WCN36XX_HAL_MSG_VERSION_MAX_FIELD'', Some 32767)]"

definition driver_type_enum :: c_enum where
  "driver_type_enum = [
    (''DRIVER_TYPE_PRODUCTION'', Some 0), (''DRIVER_TYPE_MFG'', Some 1), (''DRIVER_TYPE_DVT'', Some 2),
    (''DRIVER_TYPE_MAX'', Some 2147483647)]"

definition wcn36xx_hal_stop_type_enum :: c_enum where
  "wcn36xx_hal_stop_type_enum = [
    (''HAL_STOP_TYPE_SYS_RESET'', None), (''HAL_STOP_TYPE_SYS_DEEP_SLEEP'', None),
    (''HAL_STOP_TYPE_RF_KILL'', None), (''HAL_STOP_TYPE_MAX'', Some 2147483647)]"

definition wcn36xx_hal_sys_mode_enum :: c_enum where
  "wcn36xx_hal_sys_mode_enum = [
    (''HAL_SYS_MODE_NORMAL'', None), (''HAL_SYS_MODE_LEARN'', None), (''HAL_SYS_MODE_SCAN'', None),
    (''HAL_SYS_MODE_PROMISC'', None), (''HAL_SYS_MODE_SUSPEND_LINK'', None),
    (''HAL_SYS_MODE_ROAM_SCAN'', None), (''HAL_SYS_MODE_ROAM_SUSPEND_LINK'', None),
    (''HAL_SYS_MODE_MAX'', Some 2147483647)]"

definition phy_chan_bond_state_enum :: c_enum where
  "phy_chan_bond_state_enum = [
    (''PHY_SINGLE_CHANNEL_CENTERED'', Some 0), (''PHY_DOUBLE_CHANNEL_LOW_PRIMARY'', Some 1),
    (''PHY_DOUBLE_CHANNEL_CENTERED'', Some 2), (''PHY_DOUBLE_CHANNEL_HIGH_PRIMARY'', Some 3),
    (''PHY_QUADRUPLE_CHANNEL_20MHZ_LOW_40MHZ_CENTERED'', Some 4),
    (''PHY_QUADRUPLE_CHANNEL_20MHZ_CENTERED_40MHZ_CENTERED'', Some 5),
    (''PHY_QUADRUPLE_CHANNEL_20MHZ_HIGH_40MHZ_CENTERED'', Some 6),
    (''PHY_QUADRUPLE_CHANNEL_20MHZ_LOW_40MHZ_LOW'', Some 7),
    (''PHY_QUADRUPLE_CHANNEL_20MHZ_HIGH_40MHZ_LOW'', Some 8),
    (''PHY_QUADRUPLE_CHANNEL_20MHZ_LOW_40MHZ_HIGH'', Some 9),
    (''PHY_QUADRUPLE_CHANNEL_20MHZ_HIGH_40MHZ_HIGH'', Some 10),
    (''PHY_CHANNEL_BONDING_STATE_MAX'', Some 2147483647)]"

definition wcn36xx_hal_ht_mimo_state_enum :: c_enum where
  "wcn36xx_hal_ht_mimo_state_enum = [
    (''WCN36XX_HAL_HT_MIMO_PS_STATIC'', Some 0), (''WCN36XX_HAL_HT_MIMO_PS_DYNAMIC'', Some 1),
    (''WCN36XX_HAL_HT_MIMO_PS_NA'', Some 2), (''WCN36XX_HAL_HT_MIMO_PS_NO_LIMIT'', Some 3),
    (''WCN36XX_HAL_HT_MIMO_PS_MAX'', Some 2147483647)]"

definition sta_rate_mode_enum :: c_enum where
  "sta_rate_mode_enum = [
    (''STA_TAURUS'', Some 0), (''STA_TITAN'', None), (''STA_POLARIS'', None), (''STA_11b'', None),
    (''STA_11bg'', None), (''STA_11a'', None), (''STA_11n'', None), (''STA_11ac'', None),
    (''STA_INVALID_RATE_MODE'', Some 2147483647)]"

definition wcn36xx_hal_bss_type_enum :: c_enum where
  "wcn36xx_hal_bss_type_enum = [
    (''WCN36XX_HAL_INFRASTRUCTURE_MODE'', None), (''WCN36XX_HAL_INFRA_AP_MODE'', None),
    (''WCN36XX_HAL_IBSS_MODE'', None), (''WCN36XX_HAL_BTAMP_STA_MODE'', None),
    (''WCN36XX_HAL_BTAMP_AP_MODE'', None), (''WCN36XX_HAL_AUTO_MODE'', None),
    (''WCN36XX_HAL_DONOT_USE_BSS_TYPE'', Some 2147483647)]"

definition wcn36xx_hal_nw_type_enum :: c_enum where
  "wcn36xx_hal_nw_type_enum = [
    (''WCN36XX_HAL_11A_NW_TYPE'', None), (''WCN36XX_HAL_11B_NW_TYPE'', None),
    (''WCN36XX_HAL_11G_NW_TYPE'', None), (''WCN36XX_HAL_11N_NW_TYPE'', None),
    (''WCN36XX_HAL_DONOT_USE_NW_TYPE'', Some 2147483647)]"

definition wcn36xx_hal_ht_operating_mode_enum :: c_enum where
  "wcn36xx_hal_ht_operating_mode_enum = [
    (''WCN36XX_HAL_HT_OP_MODE_PURE'', None), (''WCN36XX_HAL_HT_OP_MODE_OVERLAP_LEGACY'', None),
    (''WCN36XX_HAL_HT_OP_MODE_NO_LEGACY_20MHZ_HT'', None), (''WCN36XX_HAL_HT_OP_MODE_MIXED'', None),
    (''WCN36XX_HAL_HT_OP_MODE_MAX'', Some 2147483647)]"

definition ani_ed_type_enum :: c_enum where
  "ani_ed_type_enum = [
    (''WCN36XX_HAL_ED_NONE'', None), (''WCN36XX_HAL_ED_WEP40'', None),
    (''WCN36XX_HAL_ED_WEP104'', None), (''WCN36XX_HAL_ED_TKIP'', None),
    (''WCN36XX_HAL_ED_CCMP'', None), (''WCN36XX_HAL_ED_WPI'', None),
    (''WCN36XX_HAL_ED_AES_128_CMAC'', None), (''WCN36XX_HAL_ED_NOT_IMPLEMENTED'', Some 2147483647)]"

definition ani_key_direction_enum :: c_enum where
  "ani_key_direction_enum = [
    (''WCN36XX_HAL_TX_ONLY'', None), (''WCN36XX_HAL_RX_ONLY'', None), (''WCN36XX_HAL_TX_RX'', None),
    (''WCN36XX_HAL_TX_DEFAULT'', None), (''WCN36XX_HAL_DONOT_USE_KEY_DIRECTION'', Some 2147483647)]"

definition ani_wep_type_enum :: c_enum where
  "ani_wep_type_enum = [
    (''WCN36XX_HAL_WEP_STATIC'', None), (''WCN36XX_HAL_WEP_DYNAMIC'', None),
    (''WCN36XX_HAL_WEP_MAX'', Some 2147483647)]"

definition wcn36xx_hal_link_state_enum :: c_enum where
  "wcn36xx_hal_link_state_enum = [
    (''WCN36XX_HAL_LINK_IDLE_STATE'', Some 0), (''WCN36XX_HAL_LINK_PREASSOC_STATE'', Some 1),
    (''WCN36XX_HAL_LINK_POSTASSOC_STATE'', Some 2), (''WCN36XX_HAL_LINK_AP_STATE'', Some 3),
    (''WCN36XX_HAL_LINK_IBSS_STATE'', Some 4), (''WCN36XX_HAL_LINK_BTAMP_PREASSOC_STATE'', Some 5),
    (''WCN36XX_HAL_LINK_BTAMP_POSTASSOC_STATE'', Some 6),
    (''WCN36XX_HAL_LINK_BTAMP_AP_STATE'', Some 7), (''WCN36XX_HAL_LINK_BTAMP_STA_STATE'', Some 8),
    (''WCN36XX_HAL_LINK_LEARN_STATE'', Some 9), (''WCN36XX_HAL_LINK_SCAN_STATE'', Some 10),
    (''WCN36XX_HAL_LINK_FINISH_SCAN_STATE'', Some 11), (''WCN36XX_HAL_LINK_INIT_CAL_STATE'', Some 12),
    (''WCN36XX_HAL_LINK_FINISH_CAL_STATE'', Some 13), (''WCN36XX_HAL_LINK_LISTEN_STATE'', Some 14),
    (''WCN36XX_HAL_LINK_MAX'', Some 2147483647)]"

definition wcn36xx_hal_stats_mask_enum :: c_enum where
  "wcn36xx_hal_stats_mask_enum = [
    (''HAL_SUMMARY_STATS_INFO'', Some 1), (''HAL_GLOBAL_CLASS_A_STATS_INFO'', Some 2),
    (''HAL_GLOBAL_CLASS_B_STATS_INFO'', Some 4), (''HAL_GLOBAL_CLASS_C_STATS_INFO'', Some 8),
    (''HAL_GLOBAL_CLASS_D_STATS_INFO'', Some 16), (''HAL_PER_STA_STATS_INFO'', Some 32)]"

definition bt_amp_event_type_enum :: c_enum where
  "bt_amp_event_type_enum = [
    (''BTAMP_EVENT_CONNECTION_START'', None), (''BTAMP_EVENT_CONNECTION_STOP'', None),
    (''BTAMP_EVENT_CONNECTION_TERMINATED'', None), (''BTAMP_EVENT_TYPE_MAX'', Some 2147483647)]"

definition pe_stats_mask_enum :: c_enum where
  "pe_stats_mask_enum = [
    (''PE_SUMMARY_STATS_INFO'', Some 1), (''PE_GLOBAL_CLASS_A_STATS_INFO'', Some 2),
    (''PE_GLOBAL_CLASS_B_STATS_INFO'', Some 4), (''PE_GLOBAL_CLASS_C_STATS_INFO'', Some 8),
    (''PE_GLOBAL_CLASS_D_STATS_INFO'', Some 16), (''PE_PER_STA_STATS_INFO'', Some 32),
    (''PE_STATS_TYPE_MAX'', Some 2147483647)]"

definition wcn36xx_hal_rate_index_enum :: c_enum where
  "wcn36xx_hal_rate_index_enum = [
    (''HW_RATE_INDEX_1MBPS'', Some 130), (''HW_RATE_INDEX_2MBPS'', Some 132),
    (''HW_RATE_INDEX_5_5MBPS'', Some 139), (''HW_RATE_INDEX_6MBPS'', Some 12),
    (''HW_RATE_INDEX_9MBPS'', Some 18), (''HW_RATE_INDEX_11MBPS'', Some 150),
    (''HW_RATE_INDEX_12MBPS'', Some 24), (''HW_RATE_INDEX_18MBPS'', Some 36),
    (''HW_RATE_INDEX_24MBPS'', Some 48), (''HW_RATE_INDEX_36MBPS'', Some 72),
    (''HW_RATE_INDEX_48MBPS'', Some 96), (''HW_RATE_INDEX_54MBPS'', Some 108)]"

definition wcn36xx_hal_con_mode_enum :: c_enum where
  "wcn36xx_hal_con_mode_enum = [
    (''WCN36XX_HAL_STA_MODE'', Some 0), (''WCN36XX_HAL_STA_SAP_MODE'', Some 1),
    (''WCN36XX_HAL_P2P_CLIENT_MODE'', None), (''WCN36XX_HAL_P2P_GO_MODE'', None),
    (''WCN36XX_HAL_MONITOR_MODE'', None)]"

definition wcn36xx_hal_concurrency_mode_enum :: c_enum where
  "wcn36xx_hal_concurrency_mode_enum = [
    (''HAL_STA'', Some 1), (''HAL_SAP'', Some 2), (''HAL_STA_SAP'', Some 3),
    (''HAL_P2P_CLIENT'', Some 4), (''HAL_P2P_GO'', Some 8), (''HAL_MAX_CONCURRENCY_PERSONA'', Some 4)]"

definition tx_rate_info_enum :: c_enum where
  "tx_rate_info_enum = [
    (''HAL_TX_RATE_LEGACY'', Some 1), (''HAL_TX_RATE_HT20'', Some 2), (''HAL_TX_RATE_HT40'', Some 4),
    (''HAL_TX_RATE_SGI'', Some 8), (''HAL_TX_RATE_LGI'', Some 16)]"

definition pno_mode_enum :: c_enum where
  "pno_mode_enum = [
    (''PNO_MODE_IMMEDIATE'', None), (''PNO_MODE_ON_SUSPEND'', None), (''PNO_MODE_ON_RESUME'', None),
    (''PNO_MODE_MAX'', Some 2147483647)]"

definition auth_type_enum :: c_enum where
  "auth_type_enum = [
    (''AUTH_TYPE_ANY'', Some 0), (''AUTH_TYPE_OPEN_SYSTEM'', Some 1), (''AUTH_TYPE_WPA'', Some 2),
    (''AUTH_TYPE_WPA_PSK'', Some 3), (''AUTH_TYPE_RSN'', Some 4), (''AUTH_TYPE_RSN_PSK'', Some 5),
    (''AUTH_TYPE_FT_RSN'', Some 6), (''AUTH_TYPE_FT_RSN_PSK'', Some 7),
    (''AUTH_TYPE_WAPI_WAI_CERTIFICATE'', Some 8), (''AUTH_TYPE_WAPI_WAI_PSK'', Some 9),
    (''AUTH_TYPE_MAX'', Some 2147483647)]"

definition ed_type_enum :: c_enum where
  "ed_type_enum = [
    (''ED_ANY'', Some 0), (''ED_NONE'', Some 1), (''ED_WEP'', Some 2), (''ED_TKIP'', Some 3),
    (''ED_CCMP'', Some 4), (''ED_WPI'', Some 5), (''ED_TYPE_MAX'', Some 2147483647)]"

definition ssid_bcast_type_enum :: c_enum where
  "ssid_bcast_type_enum = [
    (''BCAST_UNKNOWN'', Some 0), (''BCAST_NORMAL'', Some 1), (''BCAST_HIDDEN'', Some 2),
    (''BCAST_TYPE_MAX'', Some 2147483647)]"

definition wcn36xx_hal_receive_packet_filter_type_enum :: c_enum where
  "wcn36xx_hal_receive_packet_filter_type_enum = [
    (''HAL_RCV_FILTER_TYPE_INVALID'', None), (''HAL_RCV_FILTER_TYPE_FILTER_PKT'', None),
    (''HAL_RCV_FILTER_TYPE_BUFFER_PKT'', None), (''HAL_RCV_FILTER_TYPE_MAX_ENUM_SIZE'', None)]"

definition wcn36xx_hal_rcv_pkt_flt_protocol_type_enum :: c_enum where
  "wcn36xx_hal_rcv_pkt_flt_protocol_type_enum = [
    (''HAL_FILTER_PROTO_TYPE_INVALID'', None), (''HAL_FILTER_PROTO_TYPE_MAC'', None),
    (''HAL_FILTER_PROTO_TYPE_ARP'', None), (''HAL_FILTER_PROTO_TYPE_IPV4'', None),
    (''HAL_FILTER_PROTO_TYPE_IPV6'', None), (''HAL_FILTER_PROTO_TYPE_UDP'', None),
    (''HAL_FILTER_PROTO_TYPE_MAX'', None)]"

definition wcn36xx_hal_rcv_pkt_flt_cmp_flag_type_enum :: c_enum where
  "wcn36xx_hal_rcv_pkt_flt_cmp_flag_type_enum = [
    (''HAL_FILTER_CMP_TYPE_INVALID'', None), (''HAL_FILTER_CMP_TYPE_EQUAL'', None),
    (''HAL_FILTER_CMP_TYPE_MASK_EQUAL'', None), (''HAL_FILTER_CMP_TYPE_NOT_EQUAL'', None),
    (''HAL_FILTER_CMP_TYPE_MAX'', None)]"

definition place_holder_in_cap_bitmap_enum :: c_enum where
  "place_holder_in_cap_bitmap_enum = [
    (''MCC'', Some 0), (''P2P'', Some 1), (''DOT11AC'', Some 2), (''SLM_SESSIONIZATION'', Some 3),
    (''DOT11AC_OPMODE'', Some 4), (''SAP32STA'', Some 5), (''TDLS'', Some 6),
    (''P2P_GO_NOA_DECOUPLE_INIT_SCAN'', Some 7), (''WLANACTIVE_OFFLOAD'', Some 8),
    (''BEACON_OFFLOAD'', Some 9), (''SCAN_OFFLOAD'', Some 10), (''ROAM_OFFLOAD'', Some 11),
    (''BCN_MISS_OFFLOAD'', Some 12), (''STA_POWERSAVE'', Some 13), (''STA_ADVANCED_PWRSAVE'', Some 14),
    (''AP_UAPSD'', Some 15), (''AP_DFS'', Some 16), (''BLOCKACK'', Some 17), (''PHY_ERR'', Some 18),
    (''BCN_FILTER'', Some 19), (''RTT'', Some 20), (''RATECTRL'', Some 21), (''WOW'', Some 22),
    (''MAX_FEATURE_SUPPORTED'', Some 128)]"

definition gtk_rekey_status_enum :: c_enum where
  "gtk_rekey_status_enum = [
    (''WCN36XX_HAL_GTK_REKEY_STATUS_SUCCESS'', Some 0),
    (''WCN36XX_HAL_GTK_REKEY_STATUS_NOT_HANDLED'', Some 1),
    (''WCN36XX_HAL_GTK_REKEY_STATUS_MIC_ERROR'', Some 2),
    (''WCN36XX_HAL_GTK_REKEY_STATUS_DECRYPT_ERROR'', Some 3),
    (''WCN36XX_HAL_GTK_REKEY_STATUS_REPLAY_ERROR'', Some 4),
    (''WCN36XX_HAL_GTK_REKEY_STATUS_MISSING_KDE'', Some 5),
    (''WCN36XX_HAL_GTK_REKEY_STATUS_MISSING_IGTK_KDE'', Some 6),
    (''WCN36XX_HAL_GTK_REKEY_STATUS_INSTALL_ERROR'', Some 7),
    (''WCN36XX_HAL_GTK_REKEY_STATUS_IGTK_INSTALL_ERROR'', Some 8),
    (''WCN36XX_HAL_GTK_REKEY_STATUS_RESP_TX_ERROR'', Some 9),
    (''WCN36XX_HAL_GTK_REKEY_STATUS_GEN_ERROR'', Some 255)]"

definition wake_reason_type_enum :: c_enum where
  "wake_reason_type_enum = [
    (''WCN36XX_HAL_WAKE_REASON_NONE'', Some 0), (''WCN36XX_HAL_WAKE_REASON_MAGIC_PACKET'', Some 1),
    (''WCN36XX_HAL_WAKE_REASON_PATTERN_MATCH'', Some 2),
    (''WCN36XX_HAL_WAKE_REASON_EAPID_PACKET'', Some 3),
    (''WCN36XX_HAL_WAKE_REASON_EAPOL4WAY_PACKET'', Some 4),
    (''WCN36XX_HAL_WAKE_REASON_NETSCAN_OFFL_MATCH'', Some 5),
    (''WCN36XX_HAL_WAKE_REASON_GTK_REKEY_STATUS'', Some 6),
    (''WCN36XX_HAL_WAKE_REASON_BSS_CONN_LOST'', Some 7)]"

definition wcn36xx_hal_thermal_mitigation_mode_type_enum :: c_enum where
  "wcn36xx_hal_thermal_mitigation_mode_type_enum = [
    (''HAL_THERMAL_MITIGATION_MODE_INVALID'', Some (-1)), (''HAL_THERMAL_MITIGATION_MODE_0'', None),
    (''HAL_THERMAL_MITIGATION_MODE_1'', None), (''HAL_THERMAL_MITIGATION_MODE_2'', None),
    (''HAL_THERMAL_MITIGATION_MODE_MAX'', Some 2147483647)]"

definition wcn36xx_hal_thermal_mitigation_level_type_enum :: c_enum where
  "wcn36xx_hal_thermal_mitigation_level_type_enum = [
    (''HAL_THERMAL_MITIGATION_LEVEL_INVALID'', Some (-1)), (''HAL_THERMAL_MITIGATION_LEVEL_0'', None),
    (''HAL_THERMAL_MITIGATION_LEVEL_1'', None), (''HAL_THERMAL_MITIGATION_LEVEL_2'', None),
    (''HAL_THERMAL_MITIGATION_LEVEL_3'', None), (''HAL_THERMAL_MITIGATION_LEVEL_4'', None),
    (''HAL_THERMAL_MITIGATION_LEVEL_MAX'', Some 2147483647)]"

section \<open>The constants the driver uses\<close>

text \<open>The names of the constructors in C. A request and its response differ in their endings.\<close>

primrec cmd_name :: "hal_cmd \<Rightarrow> string" where
  "cmd_name HAL_START = ''WCN36XX_HAL_START''"
| "cmd_name HAL_STOP = ''WCN36XX_HAL_STOP''"
| "cmd_name HAL_INIT_SCAN = ''WCN36XX_HAL_INIT_SCAN''"
| "cmd_name HAL_START_SCAN = ''WCN36XX_HAL_START_SCAN''"
| "cmd_name HAL_END_SCAN = ''WCN36XX_HAL_END_SCAN''"
| "cmd_name HAL_FINISH_SCAN = ''WCN36XX_HAL_FINISH_SCAN''"
| "cmd_name HAL_CONFIG_STA = ''WCN36XX_HAL_CONFIG_STA''"
| "cmd_name HAL_DELETE_STA = ''WCN36XX_HAL_DELETE_STA''"
| "cmd_name HAL_CONFIG_BSS = ''WCN36XX_HAL_CONFIG_BSS''"
| "cmd_name HAL_DELETE_BSS = ''WCN36XX_HAL_DELETE_BSS''"
| "cmd_name HAL_JOIN = ''WCN36XX_HAL_JOIN''"
| "cmd_name HAL_SET_BSSKEY = ''WCN36XX_HAL_SET_BSSKEY''"
| "cmd_name HAL_SET_STAKEY = ''WCN36XX_HAL_SET_STAKEY''"
| "cmd_name HAL_RMV_BSSKEY = ''WCN36XX_HAL_RMV_BSSKEY''"
| "cmd_name HAL_RMV_STAKEY = ''WCN36XX_HAL_RMV_STAKEY''"
| "cmd_name HAL_ADD_BA = ''WCN36XX_HAL_ADD_BA''"
| "cmd_name HAL_DEL_BA = ''WCN36XX_HAL_DEL_BA''"
| "cmd_name HAL_CH_SWITCH = ''WCN36XX_HAL_CH_SWITCH''"
| "cmd_name HAL_SET_LINK_ST = ''WCN36XX_HAL_SET_LINK_ST''"
| "cmd_name HAL_UPDATE_CFG = ''WCN36XX_HAL_UPDATE_CFG''"
| "cmd_name HAL_DOWNLOAD_NV = ''WCN36XX_HAL_DOWNLOAD_NV''"
| "cmd_name HAL_ADD_BA_SESSION = ''WCN36XX_HAL_ADD_BA_SESSION''"
| "cmd_name HAL_TRIGGER_BA = ''WCN36XX_HAL_TRIGGER_BA''"
| "cmd_name HAL_SEND_BEACON = ''WCN36XX_HAL_SEND_BEACON''"
| "cmd_name HAL_UPDATE_PROBE_RSP_TEMPLATE = ''WCN36XX_HAL_UPDATE_PROBE_RSP_TEMPLATE''"
| "cmd_name HAL_ENTER_BMPS = ''WCN36XX_HAL_ENTER_BMPS''"
| "cmd_name HAL_EXIT_BMPS = ''WCN36XX_HAL_EXIT_BMPS''"
| "cmd_name HAL_DUMP_COMMAND = ''WCN36XX_HAL_DUMP_COMMAND''"
| "cmd_name HAL_ADD_STA_SELF = ''WCN36XX_HAL_ADD_STA_SELF''"
| "cmd_name HAL_DEL_STA_SELF = ''WCN36XX_HAL_DEL_STA_SELF''"
| "cmd_name HAL_KEEP_ALIVE = ''WCN36XX_HAL_KEEP_ALIVE''"
| "cmd_name HAL_UPDATE_SCAN_PARAM = ''WCN36XX_HAL_UPDATE_SCAN_PARAM''"
| "cmd_name HAL_8023_MULTICAST_LIST = ''WCN36XX_HAL_8023_MULTICAST_LIST''"
| "cmd_name HAL_SET_POWER_PARAMS = ''WCN36XX_HAL_SET_POWER_PARAMS''"
| "cmd_name HAL_FEATURE_CAPS_EXCHANGE = ''WCN36XX_HAL_FEATURE_CAPS_EXCHANGE''"

primrec ind_name :: "hal_ind \<Rightarrow> string" where
  "ind_name HAL_OTA_TX_COMPL_IND = ''WCN36XX_HAL_OTA_TX_COMPL_IND''"
| "ind_name HAL_MISSED_BEACON_IND = ''WCN36XX_HAL_MISSED_BEACON_IND''"
| "ind_name HAL_DELETE_STA_CONTEXT_IND = ''WCN36XX_HAL_DELETE_STA_CONTEXT_IND''"

primrec sys_mode_name :: "wcn36xx_hal_sys_mode \<Rightarrow> string" where
  "sys_mode_name HAL_SYS_MODE_NORMAL = ''HAL_SYS_MODE_NORMAL''"
| "sys_mode_name HAL_SYS_MODE_LEARN = ''HAL_SYS_MODE_LEARN''"
| "sys_mode_name HAL_SYS_MODE_SCAN = ''HAL_SYS_MODE_SCAN''"
| "sys_mode_name HAL_SYS_MODE_PROMISC = ''HAL_SYS_MODE_PROMISC''"
| "sys_mode_name HAL_SYS_MODE_SUSPEND_LINK = ''HAL_SYS_MODE_SUSPEND_LINK''"
| "sys_mode_name HAL_SYS_MODE_ROAM_SCAN = ''HAL_SYS_MODE_ROAM_SCAN''"
| "sys_mode_name HAL_SYS_MODE_ROAM_SUSPEND_LINK = ''HAL_SYS_MODE_ROAM_SUSPEND_LINK''"

primrec chan_bond_name :: "phy_chan_bond_state \<Rightarrow> string" where
  "chan_bond_name PHY_SINGLE_CHANNEL_CENTERED = ''PHY_SINGLE_CHANNEL_CENTERED''"
| "chan_bond_name PHY_DOUBLE_CHANNEL_LOW_PRIMARY = ''PHY_DOUBLE_CHANNEL_LOW_PRIMARY''"
| "chan_bond_name PHY_DOUBLE_CHANNEL_CENTERED = ''PHY_DOUBLE_CHANNEL_CENTERED''"
| "chan_bond_name PHY_DOUBLE_CHANNEL_HIGH_PRIMARY = ''PHY_DOUBLE_CHANNEL_HIGH_PRIMARY''"

primrec rate_mode_name :: "sta_rate_mode \<Rightarrow> string" where
  "rate_mode_name STA_TAURUS = ''STA_TAURUS''"
| "rate_mode_name STA_TITAN = ''STA_TITAN''"
| "rate_mode_name STA_POLARIS = ''STA_POLARIS''"
| "rate_mode_name STA_11b = ''STA_11b''"
| "rate_mode_name STA_11bg = ''STA_11bg''"
| "rate_mode_name STA_11a = ''STA_11a''"
| "rate_mode_name STA_11n = ''STA_11n''"
| "rate_mode_name STA_11ac = ''STA_11ac''"

primrec ed_type_name :: "ani_ed_type \<Rightarrow> string" where
  "ed_type_name WCN36XX_HAL_ED_NONE = ''WCN36XX_HAL_ED_NONE''"
| "ed_type_name WCN36XX_HAL_ED_WEP40 = ''WCN36XX_HAL_ED_WEP40''"
| "ed_type_name WCN36XX_HAL_ED_WEP104 = ''WCN36XX_HAL_ED_WEP104''"
| "ed_type_name WCN36XX_HAL_ED_TKIP = ''WCN36XX_HAL_ED_TKIP''"
| "ed_type_name WCN36XX_HAL_ED_CCMP = ''WCN36XX_HAL_ED_CCMP''"
| "ed_type_name WCN36XX_HAL_ED_WPI = ''WCN36XX_HAL_ED_WPI''"
| "ed_type_name WCN36XX_HAL_ED_AES_128_CMAC = ''WCN36XX_HAL_ED_AES_128_CMAC''"

primrec key_direction_name :: "ani_key_direction \<Rightarrow> string" where
  "key_direction_name WCN36XX_HAL_TX_ONLY = ''WCN36XX_HAL_TX_ONLY''"
| "key_direction_name WCN36XX_HAL_RX_ONLY = ''WCN36XX_HAL_RX_ONLY''"
| "key_direction_name WCN36XX_HAL_TX_RX = ''WCN36XX_HAL_TX_RX''"
| "key_direction_name WCN36XX_HAL_TX_DEFAULT = ''WCN36XX_HAL_TX_DEFAULT''"

primrec link_state_name :: "wcn36xx_hal_link_state \<Rightarrow> string" where
  "link_state_name WCN36XX_HAL_LINK_IDLE_STATE = ''WCN36XX_HAL_LINK_IDLE_STATE''"
| "link_state_name WCN36XX_HAL_LINK_PREASSOC_STATE = ''WCN36XX_HAL_LINK_PREASSOC_STATE''"
| "link_state_name WCN36XX_HAL_LINK_POSTASSOC_STATE = ''WCN36XX_HAL_LINK_POSTASSOC_STATE''"
| "link_state_name WCN36XX_HAL_LINK_AP_STATE = ''WCN36XX_HAL_LINK_AP_STATE''"
| "link_state_name WCN36XX_HAL_LINK_IBSS_STATE = ''WCN36XX_HAL_LINK_IBSS_STATE''"

primrec bss_type_name :: "wcn36xx_hal_bss_type \<Rightarrow> string" where
  "bss_type_name WCN36XX_HAL_INFRASTRUCTURE_MODE = ''WCN36XX_HAL_INFRASTRUCTURE_MODE''"
| "bss_type_name WCN36XX_HAL_INFRA_AP_MODE = ''WCN36XX_HAL_INFRA_AP_MODE''"
| "bss_type_name WCN36XX_HAL_IBSS_MODE = ''WCN36XX_HAL_IBSS_MODE''"
| "bss_type_name WCN36XX_HAL_BTAMP_STA_MODE = ''WCN36XX_HAL_BTAMP_STA_MODE''"
| "bss_type_name WCN36XX_HAL_BTAMP_AP_MODE = ''WCN36XX_HAL_BTAMP_AP_MODE''"
| "bss_type_name WCN36XX_HAL_AUTO_MODE = ''WCN36XX_HAL_AUTO_MODE''"

primrec nw_type_name :: "wcn36xx_hal_nw_type \<Rightarrow> string" where
  "nw_type_name WCN36XX_HAL_11A_NW_TYPE = ''WCN36XX_HAL_11A_NW_TYPE''"
| "nw_type_name WCN36XX_HAL_11B_NW_TYPE = ''WCN36XX_HAL_11B_NW_TYPE''"
| "nw_type_name WCN36XX_HAL_11G_NW_TYPE = ''WCN36XX_HAL_11G_NW_TYPE''"
| "nw_type_name WCN36XX_HAL_11N_NW_TYPE = ''WCN36XX_HAL_11N_NW_TYPE''"

definition numbered :: "c_enum \<Rightarrow> 'a::len word \<Rightarrow> string \<Rightarrow> bool" where
  "numbered e k c \<longleftrightarrow> (uint k, c) \<in> set (enum_of e)"

lemma enum_from_append: "enum_from n (l @ m) = enum_from n l @ enum_from (foldl (\<lambda>n (c, v). case v of None \<Rightarrow> n + 1 | Some k \<Rightarrow> k + 1) n l) m"
  by (induction l arbitrary: n) (auto simp: Let_def split: option.splits)

lemma host_msg_types:
  "enum_of wcn36xx_hal_host_msg_type_enum = enum_from 0 host_msg_types_low @ enum_from 121 host_msg_types_high"
  by (simp add: enum_of_def wcn36xx_hal_host_msg_type_enum_def enum_from_append) (simp add: host_msg_types_low_def)

text \<open>The table is passed once for all commands, in the order of their numbers.\<close>

lemma msg_tables:
  "subseq (map (\<lambda>c. (uint (req_type c), cmd_name c @ ''_REQ'')) [
    HAL_START, HAL_STOP, HAL_INIT_SCAN, HAL_START_SCAN, HAL_END_SCAN, HAL_FINISH_SCAN, HAL_CONFIG_STA,
    HAL_DELETE_STA, HAL_CONFIG_BSS, HAL_DELETE_BSS, HAL_JOIN, HAL_SET_BSSKEY, HAL_SET_STAKEY,
    HAL_RMV_BSSKEY, HAL_RMV_STAKEY, HAL_ADD_BA, HAL_DEL_BA, HAL_CH_SWITCH, HAL_SET_LINK_ST,
    HAL_UPDATE_CFG, HAL_DOWNLOAD_NV, HAL_ADD_BA_SESSION, HAL_TRIGGER_BA, HAL_SEND_BEACON,
    HAL_UPDATE_PROBE_RSP_TEMPLATE, HAL_ENTER_BMPS, HAL_EXIT_BMPS])
     (enum_from 0 host_msg_types_low)"
  "subseq (map (\<lambda>c. (uint (req_type c), cmd_name c @ ''_REQ'')) [
    HAL_DUMP_COMMAND, HAL_ADD_STA_SELF, HAL_DEL_STA_SELF, HAL_KEEP_ALIVE, HAL_UPDATE_SCAN_PARAM,
    HAL_8023_MULTICAST_LIST, HAL_SET_POWER_PARAMS, HAL_FEATURE_CAPS_EXCHANGE])
     (enum_from 121 host_msg_types_high)"
  "subseq (map (\<lambda>c. (uint (rsp_type c), cmd_name c @ ''_RSP'')) [
    HAL_START, HAL_STOP, HAL_INIT_SCAN, HAL_START_SCAN, HAL_END_SCAN, HAL_FINISH_SCAN, HAL_CONFIG_STA,
    HAL_DELETE_STA, HAL_CONFIG_BSS, HAL_DELETE_BSS, HAL_JOIN, HAL_SET_BSSKEY, HAL_SET_STAKEY,
    HAL_RMV_BSSKEY, HAL_RMV_STAKEY, HAL_ADD_BA, HAL_DEL_BA, HAL_CH_SWITCH, HAL_SET_LINK_ST,
    HAL_UPDATE_CFG, HAL_DOWNLOAD_NV, HAL_ADD_BA_SESSION, HAL_TRIGGER_BA, HAL_SEND_BEACON,
    HAL_UPDATE_PROBE_RSP_TEMPLATE, HAL_ENTER_BMPS, HAL_EXIT_BMPS])
     (enum_from 0 host_msg_types_low)"
  "subseq (map (\<lambda>c. (uint (rsp_type c), cmd_name c @ ''_RSP'')) [
    HAL_DUMP_COMMAND, HAL_ADD_STA_SELF, HAL_DEL_STA_SELF, HAL_KEEP_ALIVE, HAL_UPDATE_SCAN_PARAM,
    HAL_8023_MULTICAST_LIST, HAL_SET_POWER_PARAMS, HAL_FEATURE_CAPS_EXCHANGE])
     (enum_from 121 host_msg_types_high)"
  "subseq (map (\<lambda>i. (uint (ind_type i), ind_name i)) [HAL_MISSED_BEACON_IND, HAL_DELETE_STA_CONTEXT_IND])
     (enum_from 0 host_msg_types_low)"
  "subseq (map (\<lambda>i. (uint (ind_type i), ind_name i)) [HAL_OTA_TX_COMPL_IND]) (enum_from 121 host_msg_types_high)"
  by code_simp+

lemma subseq_map_member: "subseq (map f xs) ys \<Longrightarrow> x \<in> set xs \<Longrightarrow> f x \<in> set ys"
  by (auto dest!: list_emb_set [where x = "f x"])

lemma msg_numbered:
  "numbered wcn36xx_hal_host_msg_type_enum (req_type c) (cmd_name c @ ''_REQ'')"
  "numbered wcn36xx_hal_host_msg_type_enum (rsp_type c) (cmd_name c @ ''_RSP'')"
  unfolding numbered_def host_msg_types set_append
  by (cases c; use subseq_map_member [OF msg_tables(1), of c] subseq_map_member [OF msg_tables(2), of c] in simp)
    (cases c; use subseq_map_member [OF msg_tables(3), of c] subseq_map_member [OF msg_tables(4), of c] in simp)

lemma ind_numbered: "numbered wcn36xx_hal_host_msg_type_enum (ind_type i) (ind_name i)"
  unfolding numbered_def host_msg_types set_append
  by (cases i; use subseq_map_member [OF msg_tables(5), of i] subseq_map_member [OF msg_tables(6), of i] in simp)

text \<open>Numbers that grow from each constant to the next are distinct.\<close>

fun growing :: "int list \<Rightarrow> bool" where
  "growing (a # b # l) \<longleftrightarrow> a < b \<and> growing (b # l)"
| "growing _ \<longleftrightarrow> True"

lemma growing_distinct: "growing l \<Longrightarrow> distinct l \<and> (\<forall>b \<in> set (tl l). hd l < b)"
  by (induction l rule: growing.induct) fastforce+

lemma msg_types_grow: "growing (map fst (enum_of wcn36xx_hal_host_msg_type_enum))"
  by code_simp

lemma types_numbered:
  "numbered wcn36xx_hal_sys_mode_enum (sys_mode_val m) (sys_mode_name m)"
  "numbered phy_chan_bond_state_enum (chan_bond_val b) (chan_bond_name b)"
  "numbered sta_rate_mode_enum (rate_mode_val r) (rate_mode_name r)"
  "numbered ani_ed_type_enum (ed_type_val e) (ed_type_name e)"
  "numbered ani_key_direction_enum (key_direction_val k) (key_direction_name k)"
  "numbered wcn36xx_hal_link_state_enum (link_state_val l) (link_state_name l)"
  "numbered wcn36xx_hal_bss_type_enum (bss_type_val t) (bss_type_name t)"
  "numbered wcn36xx_hal_nw_type_enum (nw_type_val n) (nw_type_name n)"
proof -
  show "numbered wcn36xx_hal_sys_mode_enum (sys_mode_val m) (sys_mode_name m)" by (cases m) (simp_all add: numbered_def enum_of_def Let_def wcn36xx_hal_sys_mode_enum_def)
  show "numbered phy_chan_bond_state_enum (chan_bond_val b) (chan_bond_name b)" by (cases b) (simp_all add: numbered_def enum_of_def Let_def phy_chan_bond_state_enum_def)
  show "numbered sta_rate_mode_enum (rate_mode_val r) (rate_mode_name r)" by (cases r) (simp_all add: numbered_def enum_of_def Let_def sta_rate_mode_enum_def)
  show "numbered ani_ed_type_enum (ed_type_val e) (ed_type_name e)" by (cases e) (simp_all add: numbered_def enum_of_def Let_def ani_ed_type_enum_def)
  show "numbered ani_key_direction_enum (key_direction_val k) (key_direction_name k)" by (cases k) (simp_all add: numbered_def enum_of_def Let_def ani_key_direction_enum_def)
  show "numbered wcn36xx_hal_link_state_enum (link_state_val l) (link_state_name l)" by (cases l) (simp_all add: numbered_def enum_of_def Let_def wcn36xx_hal_link_state_enum_def)
  show "numbered wcn36xx_hal_bss_type_enum (bss_type_val t) (bss_type_name t)" by (cases t) (simp_all add: numbered_def enum_of_def Let_def wcn36xx_hal_bss_type_enum_def)
  show "numbered wcn36xx_hal_nw_type_enum (nw_type_val n) (nw_type_name n)" by (cases n) (simp_all add: numbered_def enum_of_def Let_def wcn36xx_hal_nw_type_enum_def)
qed


end
