(* ===== verification/Hal_Wire.thy ===== *)
theory Hal_Wire
  imports Hal_Layout Hal_Enum Smd_Calls Smd_Ind
begin

text \<open>
  The messages of the driver against the structures of \<^verbatim>\<open>hal.h\<close>. The other theories write a request as the bytes
  of its fields and read a response at a number of bytes. Here a request is a cleared structure with some members
  assigned by name, a response is read by the names of its members, and both are shown to be the same.
\<close>

section \<open>Requests as structures\<close>

definition hdr_value :: "u16 \<Rightarrow> u16 \<Rightarrow> nat \<Rightarrow> cval" where
  "hdr_value t v n = cinit wcn36xx_hal_msg_header_layout
     [(''msg_type_bits'', VInt (unat t + 2 ^ 16 * unat v)), (''len'', VInt n)]"

text \<open>\<^verbatim>\<open>INIT_HAL_MSG\<close> of a structure, then assignments to its members.\<close>

definition request :: "hal_cmd \<Rightarrow> cty \<Rightarrow> (string \<times> cval) list \<Rightarrow> u8 list" where
  "request c l a = cenc l (cinit l ((''header'', hdr_value (req_type c) 0 (csize l)) # a))"

lemma word_256: "(256 :: u8) = 0"
  by simp

lemma le_bytes_add: "x < 256 ^ m \<Longrightarrow> le_bytes (m + n) (x + 256 ^ m * y) = le_bytes m x @ le_bytes n y"
proof (induction m arbitrary: x)
  case 0 then show ?case by simp
next
  case (Suc m)
  then have "x div 256 < 256 ^ m" by (simp add: less_mult_imp_div_less mult.commute)
  moreover have "(x + 256 ^ Suc m * y) div 256 = x div 256 + 256 ^ m * y"
    by (simp add: mult.assoc)
  moreover have "(of_nat (x + 256 ^ Suc m * y) :: u8) = of_nat x"
  proof -
    have "(of_nat (x + 256 ^ Suc m * y) :: u8) = of_nat x + 256 * of_nat (256 ^ m * y)" by simp
    then show ?thesis unfolding word_256 by simp
  qed
  ultimately show ?case using Suc.IH by simp
qed

lemma cenc_hdr: "n < 2 ^ 32 \<Longrightarrow> cenc wcn36xx_hal_msg_header_layout (hdr_value t v n) = wcn36xx_hal_msg_header t v n"
proof -
  assume n: "n < 2 ^ 32"
  have "unat t < 2 ^ LENGTH(16)" by (rule unsigned_less)
  then have "unat t < 256 ^ 2" by simp
  from le_bytes_add [OF this, of 2 "unat v"] have "le_bytes 4 (unat t + 65536 * unat v) = le16 t @ le16 v"
    by (simp add: le_bytes_word)
  moreover have "le_bytes 4 n = le32 (of_nat n)"
    using n le_bytes_word(3) [of "of_nat n"] by (simp add: unat_of_nat take_bit_nat_eq_self)
  ultimately show ?thesis
    by (simp add: hdr_value_def wcn36xx_hal_msg_header_layout_def packed_struct_def slot_def wcn36xx_hal_msg_header_def)
qed

lemma cenc_bytes: "cenc (CArr k U8) (vbytes bs) = bs"
  by (induction bs) (simp_all add: vbytes_def le_bytes_word)

text \<open>Structures inside others, cleared or assigned as a whole, are not taken apart.\<close>

lemma nested_layouts [simp]:
  "csize wcn36xx_hal_msg_header_layout = 8" "csize wcn36xx_hal_mac_mgmt_hdr_layout = 24" "csize wcn36xx_hal_scan_entry_layout = 3"
  "csize wcn36xx_hal_keys_layout = 57"
  "cwf wcn36xx_hal_mac_mgmt_hdr_layout" "cwf wcn36xx_hal_scan_entry_layout" "cwf wcn36xx_hal_keys_layout"
  "calign wcn36xx_hal_msg_header_layout = 1" "calign wcn36xx_hal_mac_mgmt_hdr_layout = 1" "calign wcn36xx_hal_scan_entry_layout = 1"
  by (simp_all add: wcn36xx_hal_msg_header_layout_def wcn36xx_hal_mac_mgmt_hdr_layout_def wcn36xx_hal_mac_frame_ctl_layout_def
      wcn36xx_hal_mac_seq_ctl_layout_def wcn36xx_hal_scan_entry_layout_def wcn36xx_hal_keys_layout_def
      packed_struct_def plain_struct_def slot_def align_up_def)

lemma vseq_vbytes: "concat (map (cenc (CInt (Suc 0))) (vseq (vbytes bs))) = bs"
  using cenc_bytes [of 0 bs] by simp

lemmas wire_simps = request_def INIT_HAL_MSG_def packed_struct_def plain_struct_def slot_def align_up_def le_bytes_word(2-4) cenc_hdr cenc_zero
  vseq_vbytes

lemma zero_bytes: "le32 0 = replicate 4 0" "replicate 171 (0 :: u8) = replicate 57 0 @ replicate 57 0 @ replicate 57 0"
  by (simp_all add: le32_def numeral_eq_Suc flip: replicate_add)

definition key_value :: "u8 \<Rightarrow> u8 \<Rightarrow> ani_key_direction \<Rightarrow> u8 \<Rightarrow> u16 \<Rightarrow> u8 list \<Rightarrow> cval" where
  "key_value ident unicast direction pae_role len key = cinit wcn36xx_hal_keys_layout
     [(''id'', vword ident), (''unicast'', vword unicast), (''direction'', vword (key_direction_val direction)),
      (''pae_role'', vword pae_role), (''length'', vword len), (''key'', vbytes key)]"

lemma cenc_key [simp]:
  "cenc wcn36xx_hal_keys_layout (key_value i u d r n k) = wcn36xx_hal_keys i u d r n k"
  by (simp add: key_value_def wcn36xx_hal_keys_layout_def wcn36xx_hal_keys_def wire_simps)

abbreviation (input) first_key :: "cval \<Rightarrow> cval" where
  "first_key k \<equiv> VSeq [k, czero wcn36xx_hal_keys_layout, czero wcn36xx_hal_keys_layout, czero wcn36xx_hal_keys_layout]"

text \<open>C7: The requests of the driver are the structures of \<^verbatim>\<open>hal.h\<close>: each is the structure its command declares, cleared, with a
  header that carries the command's number, version 0 and the size of the structure, and with the members the
  command assigns; every byte is where the compiler puts it.\<close>

theorem requests_are_structures:
  "INIT_HAL_MSG HAL_STOP (wcn36xx_hal_mac_stop_req_params reason) =
     request HAL_STOP wcn36xx_hal_mac_stop_req_msg_layout
       [(''stop_req_params'', cinit wcn36xx_hal_mac_stop_req_params_layout [(''reason'', vword reason)])] \<and>
   INIT_HAL_MSG HAL_INIT_SCAN (wcn36xx_hal_init_scan_req_msg mode) =
     request HAL_INIT_SCAN wcn36xx_hal_init_scan_req_msg_layout [(''mode'', vword (sys_mode_val mode))] \<and>
   INIT_HAL_MSG HAL_START_SCAN (wcn36xx_hal_start_scan_req_msg ch) =
     request HAL_START_SCAN wcn36xx_hal_start_scan_req_msg_layout [(''scan_channel'', vword ch)] \<and>
   INIT_HAL_MSG HAL_END_SCAN (wcn36xx_hal_end_scan_req_msg ch) =
     request HAL_END_SCAN wcn36xx_hal_end_scan_req_msg_layout [(''scan_channel'', vword ch)] \<and>
   INIT_HAL_MSG HAL_FINISH_SCAN (wcn36xx_hal_finish_scan_req_msg mode) =
     request HAL_FINISH_SCAN wcn36xx_hal_finish_scan_req_msg_layout [(''mode'', vword (sys_mode_val mode))] \<and>
   INIT_HAL_MSG HAL_CH_SWITCH (wcn36xx_hal_switch_channel_req_msg ch mgmt pw mac) =
     request HAL_CH_SWITCH wcn36xx_hal_switch_channel_req_msg_layout
       [(''channel_number'', vword ch), (''tx_mgmt_power'', vword mgmt), (''max_tx_power'', vword pw),
        (''self_sta_mac_addr'', vbytes (eth_addr mac))] \<and>
   INIT_HAL_MSG HAL_UPDATE_SCAN_PARAM (wcn36xx_hal_update_scan_params_req n amin amax pmin pmax) =
     request HAL_UPDATE_SCAN_PARAM wcn36xx_hal_update_scan_params_req_layout
       [(''channel_count'', vword n), (''active_min_ch_time'', vword amin), (''active_max_ch_time'', vword amax),
        (''passive_min_ch_time'', vword pmin), (''passive_max_ch_time'', vword pmax)] \<and>
   INIT_HAL_MSG HAL_ADD_STA_SELF (wcn36xx_hal_add_sta_self_req mac) =
     request HAL_ADD_STA_SELF wcn36xx_hal_add_sta_self_req_layout [(''self_addr'', vbytes (eth_addr mac))] \<and>
   INIT_HAL_MSG HAL_DEL_STA_SELF (wcn36xx_hal_del_sta_self_req_msg mac) =
     request HAL_DEL_STA_SELF wcn36xx_hal_del_sta_self_req_msg_layout [(''self_addr'', vbytes (eth_addr mac))] \<and>
   INIT_HAL_MSG HAL_DELETE_STA (wcn36xx_hal_delete_sta_req_msg i) =
     request HAL_DELETE_STA wcn36xx_hal_delete_sta_req_msg_layout [(''sta_index'', vword i)] \<and>
   INIT_HAL_MSG HAL_DELETE_BSS (wcn36xx_hal_delete_bss_req_msg i) =
     request HAL_DELETE_BSS wcn36xx_hal_delete_bss_req_msg_layout [(''bss_index'', vword i)] \<and>
   INIT_HAL_MSG HAL_JOIN (wcn36xx_hal_join_req_msg bssid ch mac sec link pw) =
     request HAL_JOIN wcn36xx_hal_join_req_msg_layout
       [(''bssid'', vbytes (eth_addr bssid)), (''channel'', vword ch), (''self_sta_mac_addr'', vbytes (eth_addr mac)),
        (''secondary_channel_offset'', vword (chan_bond_val sec)), (''link_state'', vword (link_state_val link)),
        (''max_tx_power'', vword pw)] \<and>
   INIT_HAL_MSG HAL_SET_LINK_ST (wcn36xx_hal_set_link_state_req_msg bssid link mac) =
     request HAL_SET_LINK_ST wcn36xx_hal_set_link_state_req_msg_layout
       [(''bssid'', vbytes (eth_addr bssid)), (''state'', vword (link_state_val link)),
        (''self_mac_addr'', vbytes (eth_addr mac))] \<and>
   INIT_HAL_MSG HAL_SET_STAKEY (wcn36xx_hal_set_sta_key_params j enc (wcn36xx_hal_keys k1 k2 dir k3 k4 (fixed 32 key)) tid) =
     request HAL_SET_STAKEY wcn36xx_hal_set_sta_key_req_msg_layout
       [(''set_sta_key_params'', cinit wcn36xx_hal_set_sta_key_params_layout
           [(''sta_index'', vword j), (''enc_type'', vword (ed_type_val enc)),
            (''key'', first_key (key_value k1 k2 dir k3 k4 (fixed 32 key))), (''single_tid_rc'', vword tid)])] \<and>
   INIT_HAL_MSG HAL_SET_BSSKEY (wcn36xx_hal_set_bss_key_req_msg i enc n (wcn36xx_hal_keys k1 k2 dir k3 k4 (fixed 32 key))) =
     request HAL_SET_BSSKEY wcn36xx_hal_set_bss_key_req_msg_layout
       [(''bss_idx'', vword i), (''enc_type'', vword (ed_type_val enc)), (''num_keys'', vword n),
        (''keys'', first_key (key_value k1 k2 dir k3 k4 (fixed 32 key)))] \<and>
   INIT_HAL_MSG HAL_RMV_BSSKEY (wcn36xx_hal_remove_bss_key_req_msg i enc n) =
     request HAL_RMV_BSSKEY wcn36xx_hal_remove_bss_key_req_msg_layout
       [(''bss_idx'', vword i), (''enc_type'', vword (ed_type_val enc)), (''key_id'', vword n)] \<and>
   INIT_HAL_MSG HAL_RMV_STAKEY (wcn36xx_hal_remove_sta_key_req_msg j enc n) =
     request HAL_RMV_STAKEY wcn36xx_hal_remove_sta_key_req_msg_layout
       [(''sta_idx'', vword j), (''enc_type'', vword (ed_type_val enc)), (''key_id'', vword n)] \<and>
   INIT_HAL_MSG HAL_ENTER_BMPS (wcn36xx_hal_enter_bmps_req_msg i tbtt n) =
     request HAL_ENTER_BMPS wcn36xx_hal_enter_bmps_req_msg_layout
       [(''bss_index'', vword i), (''tbtt'', vword tbtt), (''dtim_period'', vword n)] \<and>
   INIT_HAL_MSG HAL_EXIT_BMPS (wcn36xx_hal_exit_bmps_req_msg i) =
     request HAL_EXIT_BMPS wcn36xx_hal_exit_bmps_req_msg_layout [(''bss_index'', vword i)] \<and>
   INIT_HAL_MSG HAL_SET_POWER_PARAMS (wcn36xx_hal_set_power_params_req_msg a1 a2 a3) =
     request HAL_SET_POWER_PARAMS wcn36xx_hal_set_power_params_req_msg_layout
       [(''ignore_dtim'', vword a1), (''dtim_period'', vword a2), (''listen_interval'', vword a3)] \<and>
   INIT_HAL_MSG HAL_KEEP_ALIVE (wcn36xx_hal_keep_alive_req_msg n a1 i) =
     request HAL_KEEP_ALIVE wcn36xx_hal_keep_alive_req_msg_layout
       [(''packet_type'', vword n), (''time_period'', vword a1), (''bss_index'', vword i)] \<and>
   INIT_HAL_MSG HAL_DUMP_COMMAND (wcn36xx_hal_dump_cmd_req_msg a1 a2 a3 a4 a5) =
     request HAL_DUMP_COMMAND wcn36xx_hal_dump_cmd_req_msg_layout
       [(''arg1'', vword a1), (''arg2'', vword a2), (''arg3'', vword a3), (''arg4'', vword a4), (''arg5'', vword a5)] \<and>
   INIT_HAL_MSG HAL_ADD_BA_SESSION (wcn36xx_hal_add_ba_session_req_msg j mac token tid policy bsize tmo ssn dn) =
     request HAL_ADD_BA_SESSION wcn36xx_hal_add_ba_session_req_msg_layout
       [(''sta_index'', vword j), (''mac_addr'', vbytes (eth_addr mac)), (''dialog_token'', vword token), (''tid'', vword tid),
        (''policy'', vword policy), (''buffer_size'', vword bsize), (''timeout'', vword tmo), (''ssn'', vword ssn),
        (''direction'', vword dn)] \<and>
   INIT_HAL_MSG HAL_ADD_BA (wcn36xx_hal_add_ba_req_msg i n) =
     request HAL_ADD_BA wcn36xx_hal_add_ba_req_msg_layout [(''session_id'', vword i), (''win_size'', vword n)] \<and>
   INIT_HAL_MSG HAL_DEL_BA (wcn36xx_hal_del_ba_req_msg j tid dn) =
     request HAL_DEL_BA wcn36xx_hal_del_ba_req_msg_layout
       [(''sta_index'', vword j), (''tid'', vword tid), (''direction'', vword dn)]"
  by (intro conjI;
      simp add: wire_simps zero_bytes
      wcn36xx_hal_mac_stop_req_msg_layout_def wcn36xx_hal_mac_stop_req_params_layout_def wcn36xx_hal_mac_stop_req_params_def
      wcn36xx_hal_init_scan_req_msg_layout_def wcn36xx_hal_init_scan_req_msg_def
      wcn36xx_hal_start_scan_req_msg_layout_def wcn36xx_hal_start_scan_req_msg_def
      wcn36xx_hal_end_scan_req_msg_layout_def wcn36xx_hal_end_scan_req_msg_def
      wcn36xx_hal_finish_scan_req_msg_layout_def wcn36xx_hal_finish_scan_req_msg_def
      wcn36xx_hal_switch_channel_req_msg_layout_def wcn36xx_hal_switch_channel_req_msg_def
      wcn36xx_hal_update_scan_params_req_layout_def wcn36xx_hal_update_scan_params_req_def
      wcn36xx_hal_add_sta_self_req_layout_def wcn36xx_hal_add_sta_self_req_def
      wcn36xx_hal_del_sta_self_req_msg_layout_def wcn36xx_hal_del_sta_self_req_msg_def
      wcn36xx_hal_delete_sta_req_msg_layout_def wcn36xx_hal_delete_sta_req_msg_def
      wcn36xx_hal_delete_bss_req_msg_layout_def wcn36xx_hal_delete_bss_req_msg_def
      wcn36xx_hal_join_req_msg_layout_def wcn36xx_hal_join_req_msg_def
      wcn36xx_hal_set_link_state_req_msg_layout_def wcn36xx_hal_set_link_state_req_msg_def
      wcn36xx_hal_set_bss_key_req_msg_layout_def wcn36xx_hal_set_bss_key_req_msg_def
      wcn36xx_hal_remove_bss_key_req_msg_layout_def wcn36xx_hal_remove_bss_key_req_msg_def
      wcn36xx_hal_remove_sta_key_req_msg_layout_def wcn36xx_hal_remove_sta_key_req_msg_def
      wcn36xx_hal_enter_bmps_req_msg_layout_def wcn36xx_hal_enter_bmps_req_msg_def
      wcn36xx_hal_exit_bmps_req_msg_layout_def wcn36xx_hal_exit_bmps_req_msg_def
      wcn36xx_hal_set_power_params_req_msg_layout_def wcn36xx_hal_set_power_params_req_msg_def
      wcn36xx_hal_keep_alive_req_msg_layout_def wcn36xx_hal_keep_alive_req_msg_def
      wcn36xx_hal_dump_cmd_req_msg_layout_def wcn36xx_hal_dump_cmd_req_msg_def
      wcn36xx_hal_add_ba_session_req_msg_layout_def wcn36xx_hal_add_ba_session_req_msg_def
      wcn36xx_hal_add_ba_req_msg_layout_def wcn36xx_hal_add_ba_req_msg_def
      wcn36xx_hal_del_ba_req_msg_layout_def wcn36xx_hal_del_ba_req_msg_def
      wcn36xx_hal_set_sta_key_params_layout_def wcn36xx_hal_set_sta_key_params_def
      wcn36xx_hal_set_sta_key_req_msg_layout_def)

section \<open>The parameters of stations and BSSs\<close>

definition vwords :: "'a::len word list \<Rightarrow> cval" where
  "vwords ws = VSeq (map (\<lambda>w. vword w) ws)"

lemma concat_vwords [simp]: "concat (map (cenc (CInt 2)) (vseq (vwords ws))) = concat (map le16 ws)" for ws :: "u16 list"
  by (induction ws) (simp_all add: vwords_def le_bytes_word)

definition rates_value :: "wcn36xx_hal_supported_rates \<Rightarrow> cval" where
  "rates_value r = cinit wcn36xx_hal_supported_rates_layout
     [(''op_rate_mode'', vword (rate_mode_val (op_rate_mode r))), (''dsss_rates'', vwords (fixed NUM_DSSS_RATES (dsss_rates r))),
      (''ofdm_rates'', vwords (fixed NUM_OFDM_RATES (ofdm_rates r))),
      (''legacy_rates'', vwords (fixed NUM_POLARIS_RATES (legacy_rates r))), (''reserved'', vword (rates_reserved r)),
      (''enhanced_rate_bitmap'', vword (enhanced_rate_bitmap r)),
      (''supported_mcs_set'', vbytes (fixed MAX_SUPPORTED_MCS_SET (supported_mcs_set r))),
      (''rx_highest_data_rate'', vword (rx_highest_data_rate r))]"

definition ssid_value :: "wcn36xx_hal_mac_ssid \<Rightarrow> cval" where
  "ssid_value s = cinit wcn36xx_hal_mac_ssid_layout [(''length'', vword (ssid_length s)), (''ssid'', vbytes (fixed 32 (ssid_bytes s)))]"

definition sta_value :: "wcn36xx_hal_config_sta_params \<Rightarrow> cval" where
  "sta_value p = cinit wcn36xx_hal_config_sta_params_layout
     [(''bssid'', vbytes (eth_addr (cs_bssid p))), (''aid'', vword (cs_aid p)), (''type'', vword (cs_type p)),
     (''short_preamble_supported'', vword (cs_short_preamble_supported p)),
     (''mac'', vbytes (eth_addr (cs_mac p))), (''listen_interval'', vword (cs_listen_interval p)),
     (''wmm_enabled'', vword (cs_wmm_enabled p)), (''ht_capable'', vword (cs_ht_capable p)),
     (''tx_channel_width_set'', vword (cs_tx_channel_width_set p)), (''rifs_mode'', vword (cs_rifs_mode p)),
     (''lsig_txop_protection'', vword (cs_lsig_txop_protection p)),
     (''max_ampdu_size'', vword (cs_max_ampdu_size p)),
     (''max_ampdu_density'', vword (cs_max_ampdu_density p)),
     (''max_amsdu_size'', vword (cs_max_amsdu_size p)), (''sgi_40mhz'', vword (cs_sgi_40mhz p)),
     (''sgi_20Mhz'', vword (cs_sgi_20Mhz p)), (''supported_rates'', rates_value (cs_supported_rates p)),
     (''rmf'', vword (cs_rmf p)), (''encrypt_type'', vword (cs_encrypt_type p)),
     (''action'', vword (cs_action p)), (''uapsd'', vword (cs_uapsd p)),
     (''max_sp_len'', vword (cs_max_sp_len p)), (''green_field_capable'', vword (cs_green_field_capable p)),
     (''mimo_ps'', vword (cs_mimo_ps p)), (''delayed_ba_support'', vword (cs_delayed_ba_support p)),
     (''max_ampdu_duration'', vword (cs_max_ampdu_duration p)),
     (''dsss_cck_mode_40mhz'', vword (cs_dsss_cck_mode_40mhz p)), (''sta_index'', vword (cs_sta_index p)),
     (''bssid_index'', vword (cs_bssid_index p)), (''p2p'', vword (cs_p2p p))]"

definition sta_v1_value :: "wcn36xx_hal_config_sta_params_v1 \<Rightarrow> cval" where
  "sta_v1_value p = cinit wcn36xx_hal_config_sta_params_v1_layout
     [(''bssid'', vbytes (eth_addr (s1_bssid p))), (''aid'', vword (s1_aid p)), (''type'', vword (s1_type p)),
     (''short_preamble_supported'', vword (s1_short_preamble_supported p)),
     (''mac'', vbytes (eth_addr (s1_mac p))), (''listen_interval'', vword (s1_listen_interval p)),
     (''wmm_enabled'', vword (s1_wmm_enabled p)), (''ht_capable'', vword (s1_ht_capable p)),
     (''tx_channel_width_set'', vword (s1_tx_channel_width_set p)), (''rifs_mode'', vword (s1_rifs_mode p)),
     (''lsig_txop_protection'', vword (s1_lsig_txop_protection p)),
     (''max_ampdu_size'', vword (s1_max_ampdu_size p)),
     (''max_ampdu_density'', vword (s1_max_ampdu_density p)),
     (''max_amsdu_size'', vword (s1_max_amsdu_size p)), (''sgi_40mhz'', vword (s1_sgi_40mhz p)),
     (''sgi_20Mhz'', vword (s1_sgi_20Mhz p)), (''rmf'', vword (s1_rmf p)),
     (''encrypt_type'', vword (s1_encrypt_type p)), (''action'', vword (s1_action p)),
     (''uapsd'', vword (s1_uapsd p)), (''max_sp_len'', vword (s1_max_sp_len p)),
     (''green_field_capable'', vword (s1_green_field_capable p)), (''mimo_ps'', vword (s1_mimo_ps p)),
     (''delayed_ba_support'', vword (s1_delayed_ba_support p)),
     (''max_ampdu_duration'', vword (s1_max_ampdu_duration p)),
     (''dsss_cck_mode_40mhz'', vword (s1_dsss_cck_mode_40mhz p)), (''sta_index'', vword (s1_sta_index p)),
     (''bssid_index'', vword (s1_bssid_index p)), (''p2p'', vword (s1_p2p p)),
     (''reserved'', vword (s1_reserved p)), (''supported_rates'', rates_value (s1_supported_rates p))]"

definition bss_value :: "wcn36xx_hal_config_bss_params \<Rightarrow> cval" where
  "bss_value b = cinit wcn36xx_hal_config_bss_params_layout
     [(''bssid'', vbytes (eth_addr (cb_bssid b))), (''self_mac_addr'', vbytes (eth_addr (cb_self_mac_addr b))),
     (''bss_type'', vword (cb_bss_type b)), (''oper_mode'', vword (cb_oper_mode b)),
     (''nw_type'', vword (cb_nw_type b)),
     (''short_slot_time_supported'', vword (cb_short_slot_time_supported b)),
     (''lla_coexist'', vword (cb_lla_coexist b)), (''llb_coexist'', vword (cb_llb_coexist b)),
     (''llg_coexist'', vword (cb_llg_coexist b)), (''ht20_coexist'', vword (cb_ht20_coexist b)),
     (''lln_non_gf_coexist'', vword (cb_lln_non_gf_coexist b)),
     (''lsig_tx_op_protection_full_support'', vword (cb_lsig_tx_op_protection_full_support b)),
     (''rifs_mode'', vword (cb_rifs_mode b)), (''beacon_interval'', vword (cb_beacon_interval b)),
     (''dtim_period'', vword (cb_dtim_period b)),
     (''tx_channel_width_set'', vword (cb_tx_channel_width_set b)),
     (''oper_channel'', vword (cb_oper_channel b)), (''ext_channel'', vword (cb_ext_channel b)),
     (''reserved'', vword (cb_reserved b)), (''sta'', sta_value (cb_sta b)),
     (''ssid'', ssid_value (cb_ssid b)), (''action'', vword (cb_action b)),
     (''rateset'', cdec wcn36xx_hal_rate_set_layout (fixed sizeof_rate_set (cb_rateset b))),
     (''ht'', vword (cb_ht b)), (''obss_prot_enabled'', vword (cb_obss_prot_enabled b)),
     (''rmf'', vword (cb_rmf b)), (''ht_oper_mode'', vword (cb_ht_oper_mode b)),
     (''dual_cts_protection'', vword (cb_dual_cts_protection b)),
     (''max_probe_resp_retry_limit'', vword (cb_max_probe_resp_retry_limit b)),
     (''hidden_ssid'', vword (cb_hidden_ssid b)), (''proxy_probe_resp'', vword (cb_proxy_probe_resp b)),
     (''edca_params_valid'', vword (cb_edca_params_valid b)),
     (''acbe'', cdec wcn36xx_hal_edca_param_record_layout (fixed sizeof_edca_param_record (cb_acbe b))),
     (''acbk'', cdec wcn36xx_hal_edca_param_record_layout (fixed sizeof_edca_param_record (cb_acbk b))),
     (''acvi'', cdec wcn36xx_hal_edca_param_record_layout (fixed sizeof_edca_param_record (cb_acvi b))),
     (''acvo'', cdec wcn36xx_hal_edca_param_record_layout (fixed sizeof_edca_param_record (cb_acvo b))),
     (''ext_set_sta_key_param_valid'', vword (cb_ext_set_sta_key_param_valid b)),
     (''ext_set_sta_key_param'', cdec wcn36xx_hal_set_sta_key_params_layout (fixed sizeof_set_sta_key_params (cb_ext_set_sta_key_param b))),
     (''wcn36xx_hal_persona'', vword (cb_wcn36xx_hal_persona b)),
     (''spectrum_mgt_enable'', vword (cb_spectrum_mgt_enable b)),
     (''tx_mgmt_power'', vword (cb_tx_mgmt_power b)), (''max_tx_power'', vword (cb_max_tx_power b))]"

definition bss_v1_value :: "wcn36xx_hal_config_bss_params_v1 \<Rightarrow> cval" where
  "bss_v1_value b = cinit wcn36xx_hal_config_bss_params_v1_layout
     [(''bssid'', vbytes (eth_addr (b1_bssid b))), (''self_mac_addr'', vbytes (eth_addr (b1_self_mac_addr b))),
     (''bss_type'', vword (b1_bss_type b)), (''oper_mode'', vword (b1_oper_mode b)),
     (''nw_type'', vword (b1_nw_type b)),
     (''short_slot_time_supported'', vword (b1_short_slot_time_supported b)),
     (''lla_coexist'', vword (b1_lla_coexist b)), (''llb_coexist'', vword (b1_llb_coexist b)),
     (''llg_coexist'', vword (b1_llg_coexist b)), (''ht20_coexist'', vword (b1_ht20_coexist b)),
     (''lln_non_gf_coexist'', vword (b1_lln_non_gf_coexist b)),
     (''lsig_tx_op_protection_full_support'', vword (b1_lsig_tx_op_protection_full_support b)),
     (''rifs_mode'', vword (b1_rifs_mode b)), (''beacon_interval'', vword (b1_beacon_interval b)),
     (''dtim_period'', vword (b1_dtim_period b)),
     (''tx_channel_width_set'', vword (b1_tx_channel_width_set b)),
     (''oper_channel'', vword (b1_oper_channel b)), (''ext_channel'', vword (b1_ext_channel b)),
     (''reserved'', vword (b1_reserved b)), (''ssid'', ssid_value (b1_ssid b)),
     (''action'', vword (b1_action b)),
     (''rateset'', cdec wcn36xx_hal_rate_set_layout (fixed sizeof_rate_set (b1_rateset b))),
     (''ht'', vword (b1_ht b)), (''obss_prot_enabled'', vword (b1_obss_prot_enabled b)),
     (''rmf'', vword (b1_rmf b)), (''ht_oper_mode'', vword (b1_ht_oper_mode b)),
     (''dual_cts_protection'', vword (b1_dual_cts_protection b)),
     (''max_probe_resp_retry_limit'', vword (b1_max_probe_resp_retry_limit b)),
     (''hidden_ssid'', vword (b1_hidden_ssid b)), (''proxy_probe_resp'', vword (b1_proxy_probe_resp b)),
     (''edca_params_valid'', vword (b1_edca_params_valid b)),
     (''acbe'', cdec wcn36xx_hal_edca_param_record_layout (fixed sizeof_edca_param_record (b1_acbe b))),
     (''acbk'', cdec wcn36xx_hal_edca_param_record_layout (fixed sizeof_edca_param_record (b1_acbk b))),
     (''acvi'', cdec wcn36xx_hal_edca_param_record_layout (fixed sizeof_edca_param_record (b1_acvi b))),
     (''acvo'', cdec wcn36xx_hal_edca_param_record_layout (fixed sizeof_edca_param_record (b1_acvo b))),
     (''ext_set_sta_key_param_valid'', vword (b1_ext_set_sta_key_param_valid b)),
     (''ext_set_sta_key_param'', cdec wcn36xx_hal_set_sta_key_params_layout (fixed sizeof_set_sta_key_params (b1_ext_set_sta_key_param b))),
     (''wcn36xx_hal_persona'', vword (b1_wcn36xx_hal_persona b)),
     (''spectrum_mgt_enable'', vword (b1_spectrum_mgt_enable b)),
     (''tx_mgmt_power'', vword (b1_tx_mgmt_power b)), (''max_tx_power'', vword (b1_max_tx_power b)),
     (''sta'', sta_v1_value (b1_sta b))]"

lemma params_layouts [simp]:
  "csize wcn36xx_hal_supported_rates_layout = 58" "csize wcn36xx_hal_config_sta_params_layout = 105"
  "csize wcn36xx_hal_rate_set_layout = 13" "csize wcn36xx_hal_mac_ssid_layout = 33" "csize wcn36xx_hal_edca_param_record_layout = 4"
  "csize wcn36xx_hal_set_sta_key_params_layout = 240" "cpacked wcn36xx_hal_rate_set_layout"
  "cpacked wcn36xx_hal_edca_param_record_layout" "cpacked wcn36xx_hal_set_sta_key_params_layout"
  by (simp_all add: wcn36xx_hal_supported_rates_layout_def wcn36xx_hal_config_sta_params_layout_def wcn36xx_hal_rate_set_layout_def
      wcn36xx_hal_mac_ssid_layout_def wcn36xx_hal_edca_param_record_layout_def wcn36xx_hal_set_sta_key_params_layout_def
      wcn36xx_hal_aci_aifsn_layout_def wcn36xx_hal_mac_cw_layout_def wcn36xx_hal_keys_layout_def packed_struct_def slot_def)

lemma cenc_rates [simp]: "cenc wcn36xx_hal_supported_rates_layout (rates_value r) = supported_rates_bytes r"
  by (simp add: rates_value_def wcn36xx_hal_supported_rates_layout_def supported_rates_bytes_def wire_simps)

lemma cenc_ssid [simp]: "cenc wcn36xx_hal_mac_ssid_layout (ssid_value t) = mac_ssid_bytes t"
  by (simp add: ssid_value_def wcn36xx_hal_mac_ssid_layout_def mac_ssid_bytes_def wire_simps)

lemma cenc_sta [simp]: "cenc wcn36xx_hal_config_sta_params_layout (sta_value p) = config_sta_params_bytes p"
  by (simp add: sta_value_def wcn36xx_hal_config_sta_params_layout_def config_sta_params_bytes_def wire_simps)

lemma cenc_sta_v1 [simp]: "cenc wcn36xx_hal_config_sta_params_v1_layout (sta_v1_value p) = config_sta_params_v1_bytes p"
  by (simp add: sta_v1_value_def wcn36xx_hal_config_sta_params_v1_layout_def config_sta_params_v1_bytes_def wire_simps)

lemma cenc_bss [simp]: "cenc wcn36xx_hal_config_bss_params_layout (bss_value b) = config_bss_params_bytes b"
  by (simp add: bss_value_def wcn36xx_hal_config_bss_params_layout_def config_bss_params_bytes_def wire_simps cenc_cdec)

lemma cenc_bss_v1 [simp]: "cenc wcn36xx_hal_config_bss_params_v1_layout (bss_v1_value b) = config_bss_params_v1_bytes b"
  by (simp add: bss_v1_value_def wcn36xx_hal_config_bss_params_v1_layout_def config_bss_params_v1_bytes_def wire_simps cenc_cdec)

lemma params_sizes [simp]:
  "csize wcn36xx_hal_config_sta_params_v1_layout = 106" "csize wcn36xx_hal_config_bss_params_layout = 461"
  "csize wcn36xx_hal_config_bss_params_v1_layout = 462"
  by (simp_all add: wcn36xx_hal_config_sta_params_v1_layout_def wcn36xx_hal_config_bss_params_layout_def
      wcn36xx_hal_config_bss_params_v1_layout_def packed_struct_def slot_def)

lemma bss_sizes [simp]:
  "length (config_bss_params_bytes b) = 461" "length (config_bss_params_v1_bytes (convert_bss_to_v1 b)) = 462"
  using config_bss_lengths [of b] by (simp_all add: config_bss_msg_def config_bss_v1_msg_def)

text \<open>C12: The two configuration requests, in both layouts of the firmware, are the structures of \<^verbatim>\<open>hal.h\<close> with every member of the
  parameters assigned by its name: the header carries the size of the structure, and the bytes of each of the up to
  seventy members are where the compiler puts it.\<close>

theorem configs_are_structures:
  "config_sta_msg p = request HAL_CONFIG_STA wcn36xx_hal_config_sta_req_msg_layout [(''sta_params'', sta_value p)] \<and>
   config_sta_v1_msg p = request HAL_CONFIG_STA wcn36xx_hal_config_sta_req_msg_v1_layout
     [(''sta_params'', sta_v1_value (wcn36xx_smd_convert_sta_to_v1 p))] \<and>
   config_bss_msg b = request HAL_CONFIG_BSS wcn36xx_hal_config_bss_req_msg_layout [(''bss_params'', bss_value b)] \<and>
   config_bss_v1_msg b = request HAL_CONFIG_BSS wcn36xx_hal_config_bss_req_msg_v1_layout
     [(''bss_params'', bss_v1_value (convert_bss_to_v1 b))]"
  by (intro conjI)
    (simp_all add: config_sta_msg_def config_sta_v1_msg_def config_bss_msg_def config_bss_v1_msg_def wire_simps
      wcn36xx_hal_config_sta_req_msg_layout_def wcn36xx_hal_config_sta_req_msg_v1_layout_def
      wcn36xx_hal_config_bss_req_msg_layout_def wcn36xx_hal_config_bss_req_msg_v1_layout_def)

end
