(* ===== verification/Hal_Answers.thy ===== *)
theory Hal_Answers
  imports Hal_Wire Txrx_Bd
begin

text \<open>
  The responses and indications of the firmware as the structures of \<^verbatim>\<open>hal.h\<close>: what a handler takes from the
  buffer at a number of bytes is the member the code names, and the length it compares with is the size of the
  structure.
\<close>

section \<open>Reading members\<close>

definition member :: "cty \<Rightarrow> string list \<Rightarrow> u8 list \<Rightarrow> 'a::len word" where
  "member l p bs = of_nat (of_le_bytes (cread l p bs))"

text \<open>The members of a response from which its handler takes the result of the command.\<close>

definition wcn36xx_fw_msg_status_rsp_layout :: cty where
  "wcn36xx_fw_msg_status_rsp_layout = packed_struct [(''status'', U32)]"

text \<open>The commands whose responses are checked by \<^verbatim>\<open>wcn36xx_smd_rsp_status_check\<close> only, with their structures.\<close>

definition status_responses :: "(hal_cmd \<times> cty) list" where
  "status_responses = [
     (HAL_STOP, wcn36xx_hal_mac_stop_rsp_msg_layout), (HAL_INIT_SCAN, wcn36xx_hal_init_scan_rsp_msg_layout),
     (HAL_START_SCAN, wcn36xx_hal_start_rsp_msg_layout), (HAL_END_SCAN, wcn36xx_hal_end_scan_rsp_msg_layout),
     (HAL_FINISH_SCAN, wcn36xx_hal_finish_scan_rsp_msg_layout), (HAL_DELETE_STA, wcn36xx_hal_delete_sta_rsp_msg_layout),
     (HAL_DELETE_BSS, wcn36xx_hal_delete_bss_rsp_msg_layout), (HAL_JOIN, wcn36xx_hal_join_rsp_msg_layout),
     (HAL_SET_BSSKEY, wcn36xx_hal_set_bss_key_rsp_msg_layout), (HAL_SET_STAKEY, wcn36xx_hal_set_sta_key_rsp_msg_layout),
     (HAL_RMV_BSSKEY, wcn36xx_hal_remove_bss_key_rsp_msg_layout),
     (HAL_RMV_STAKEY, wcn36xx_hal_remove_sta_key_rsp_msg_layout), (HAL_ADD_BA, wcn36xx_hal_add_ba_rsp_msg_layout),
     (HAL_DEL_BA, wcn36xx_hal_del_ba_rsp_msg_layout), (HAL_CH_SWITCH, wcn36xx_hal_switch_channel_rsp_msg_layout),
     (HAL_SET_LINK_ST, set_link_state_rsp_msg_layout), (HAL_UPDATE_CFG, wcn36xx_hal_update_cfg_rsp_msg_layout),
     (HAL_DOWNLOAD_NV, wcn36xx_hal_nv_img_download_rsp_msg_layout),
     (HAL_ADD_BA_SESSION, wcn36xx_hal_add_ba_session_rsp_msg_layout), (HAL_SEND_BEACON, send_beacon_rsp_msg_layout),
     (HAL_UPDATE_PROBE_RSP_TEMPLATE, send_probe_resp_rsp_msg_layout),
     (HAL_ENTER_BMPS, wcn36xx_hal_enter_bmps_rsp_msg_layout), (HAL_EXIT_BMPS, wcn36xx_hal_exit_bmps_rsp_msg_layout),
     (HAL_DUMP_COMMAND, wcn36xx_hal_dump_cmd_rsp_msg_layout), (HAL_DEL_STA_SELF, wcn36xx_hal_del_sta_self_rsp_msg_layout),
     (HAL_KEEP_ALIVE, wcn36xx_hal_keep_alive_rsp_msg_layout),
     (HAL_8023_MULTICAST_LIST, wcn36xx_hal_rcv_flt_pkt_set_mc_list_rsp_msg_layout),
     (HAL_SET_POWER_PARAMS, wcn36xx_hal_set_power_params_resp_layout)]"

lemma status_layouts: "list_all (\<lambda>(c, l). cpath l [''status''] = Some (8, U32) \<and> 12 \<le> csize l) status_responses"
  by code_simp

lemma of_le_bytes_8: "length bs = 1 \<Longrightarrow> of_nat (of_le_bytes bs) = hd bs"
  by (cases bs) auto

lemma of_le_bytes_16: "length bs = 2 \<Longrightarrow> of_nat (of_le_bytes bs) = of_le16 bs"
proof -
  assume "length bs = 2"
  then obtain a b where bs: "bs = [a, b]" by (auto simp: numeral_eq_Suc length_Suc_conv)
  have "(ucast (of_le16 [a, b]) :: u8) = a" "(ucast (drop_bit 8 (of_le16 [a, b])) :: u8) = b"
    by (rule bit_word_eqI, auto simp: bit_simps dest: bit_imp_le_length)+
  then have "le16 (of_le16 [a, b]) = [a, b]" by (simp add: le16_def del: of_le16.simps)
  moreover have "unat (of_le16 [a, b]) < 2 ^ LENGTH(16)" by (rule unsigned_less)
  ultimately show ?thesis
    using of_le_bytes_le_bytes [of "unat (of_le16 [a, b])" 2] le_bytes_word(2) [of "of_le16 [a, b]"] bs
    by (simp del: of_le16.simps)
qed

lemma of_le_bytes_32: "length bs = 4 \<Longrightarrow> of_nat (of_le_bytes bs) = of_le32 bs"
proof -
  assume "length bs = 4"
  then obtain a b c d where bs: "bs = [a, b, c, d]" by (auto simp: numeral_eq_Suc length_Suc_conv)
  have "le32 (of_le32 [a, b, c, d]) = [a, b, c, d]" by (rule le32_of_le32)
  moreover have "unat (of_le32 [a, b, c, d]) < 2 ^ LENGTH(32)" by (rule unsigned_less)
  ultimately show ?thesis
    using of_le_bytes_le_bytes [of "unat (of_le32 [a, b, c, d])" 4] le_bytes_word(3) [of "of_le32 [a, b, c, d]"] bs
    by (simp del: of_le32.simps)
qed

text \<open>A member known by its offset.\<close>

lemma member_at:
  "cpath l p = Some (n, U8) \<Longrightarrow> n < length bs \<Longrightarrow> member l p bs = bs ! n"
  "cpath l p = Some (n, U16) \<Longrightarrow> n + 2 \<le> length bs \<Longrightarrow> member l p bs = of_le16 (take 2 (drop n bs))"
  "cpath l p = Some (n, U32) \<Longrightarrow> n + 4 \<le> length bs \<Longrightarrow> member l p bs = of_le32 (take 4 (drop n bs))"
  by (simp_all add: member_def cread_def of_le_bytes_8 of_le_bytes_16 of_le_bytes_32 hd_drop_conv_nth)

lemma answer_paths8:
  "cpath wcn36xx_hal_add_sta_self_rsp_msg_layout [''self_sta_index''] = Some (12, U8)"
  "cpath wcn36xx_hal_add_sta_self_rsp_msg_layout [''dpu_index''] = Some (13, U8)"
  "cpath wcn36xx_hal_config_sta_rsp_msg_layout [''params'', ''sta_index''] = Some (12, U8)"
  "cpath wcn36xx_hal_config_sta_rsp_msg_layout [''params'', ''dpu_index''] = Some (14, U8)"
  "cpath wcn36xx_hal_config_sta_rsp_msg_layout [''params'', ''uc_ucast_sig''] = Some (17, U8)"
  "cpath wcn36xx_hal_mac_start_rsp_msg_layout [''start_rsp_params'', ''version'', ''revision''] = Some (12, U8)"
  "cpath wcn36xx_hal_mac_start_rsp_msg_layout [''start_rsp_params'', ''version'', ''version''] = Some (13, U8)"
  "cpath wcn36xx_hal_mac_start_rsp_msg_layout [''start_rsp_params'', ''version'', ''minor''] = Some (14, U8)"
  "cpath wcn36xx_hal_mac_start_rsp_msg_layout [''start_rsp_params'', ''version'', ''major''] = Some (15, U8)"
  "cpath wcn36xx_hal_config_bss_rsp_msg_layout [''bss_rsp_params'', ''bss_index''] = Some (12, U8)"
  "cpath wcn36xx_hal_config_bss_rsp_msg_layout [''bss_rsp_params'', ''dpu_desc_index''] = Some (13, U8)"
  "cpath wcn36xx_hal_config_bss_rsp_msg_layout [''bss_rsp_params'', ''ucast_dpu_signature''] = Some (14, U8)"
  "cpath wcn36xx_hal_config_bss_rsp_msg_layout [''bss_rsp_params'', ''bss_sta_index''] = Some (19, U8)"
  by code_simp+

lemma answer_paths16:
  "cpath wcn36xx_hal_mac_start_rsp_msg_layout [''start_rsp_params'', ''status''] = Some (8, U16)"
  by code_simp+

lemma answer_paths32:
  "cpath wcn36xx_hal_add_sta_self_rsp_msg_layout [''status''] = Some (8, U32)"
  "cpath wcn36xx_hal_config_sta_rsp_msg_layout [''params'', ''status''] = Some (8, U32)"
  "cpath wcn36xx_hal_config_bss_rsp_msg_layout [''bss_rsp_params'', ''status''] = Some (8, U32)"
  "cpath wcn36xx_hal_trigger_ba_rsp_msg_layout [''status''] = Some (14, U32)"
  "cpath wcn36xx_hal_update_scan_params_resp_layout [''status''] = Some (8, U32)"
  by code_simp+

lemmas answer_members =
  answer_paths8 [THEN member_at(1)] answer_paths16 [THEN member_at(2)] answer_paths32 [THEN member_at(3)]

lemma answer_sizes:
  "csize wcn36xx_hal_add_sta_self_rsp_msg_layout = 15" "csize wcn36xx_hal_config_sta_rsp_msg_layout = 21"
  "csize wcn36xx_hal_mac_start_rsp_msg_layout = 144" "csize wcn36xx_hal_trigger_ba_rsp_msg_layout = 20"
  "csize wcn36xx_hal_config_bss_rsp_msg_layout = 29" "csize wcn36xx_fw_msg_status_rsp_layout = 4"
  by code_simp+

lemma caps_members:
  "csize wcn36xx_hal_feat_caps_msg_layout = 24"
  "cread wcn36xx_hal_feat_caps_msg_layout [''feat_caps''] hb = take 16 (drop 8 hb)"
proof -
  have "cpath wcn36xx_hal_feat_caps_msg_layout [''feat_caps''] = Some (8, CArr 4 U32)" by code_simp
  then show "cread wcn36xx_hal_feat_caps_msg_layout [''feat_caps''] hb = take 16 (drop 8 hb)" by (simp add: cread_def)
qed code_simp

lemma version_members:
  "cread wcn36xx_hal_mac_start_rsp_msg_layout [''start_rsp_params'', ''crm_version''] hb = take 64 (drop 16 hb)"
  "cread wcn36xx_hal_mac_start_rsp_msg_layout [''start_rsp_params'', ''wlan_version''] hb = take 64 (drop 80 hb)"
proof -
  have "cpath wcn36xx_hal_mac_start_rsp_msg_layout [''start_rsp_params'', ''crm_version''] = Some (16, CArr 64 U8)"
    "cpath wcn36xx_hal_mac_start_rsp_msg_layout [''start_rsp_params'', ''wlan_version''] = Some (80, CArr 64 U8)"
    by code_simp+
  then show "cread wcn36xx_hal_mac_start_rsp_msg_layout [''start_rsp_params'', ''crm_version''] hb = take 64 (drop 16 hb)"
    "cread wcn36xx_hal_mac_start_rsp_msg_layout [''start_rsp_params'', ''wlan_version''] hb = take 64 (drop 80 hb)"
    by (simp_all add: cread_def)
qed

section \<open>The handlers\<close>

text \<open>C8: What the handlers take from a response is what the structure of \<^verbatim>\<open>hal.h\<close> says: the status of every command with
  no handler of its own, and for the others the members the code names, each at the place the compiler gives it; a
  response shorter than its structure is refused where the code compares lengths with it, the status-only check asks for
  twelve bytes, and the scan parameters' response is read whatever its length.\<close>

theorem responses_are_structures:
  assumes buf: "hal_buf w = Some hb" and "length hb = WCN36XX_HAL_BUF_SIZE"
  shows
    "list_all (\<lambda>(c, l). wcn36xx_smd_rsp_status_check w = Some
         (if hal_rsp_len w < csize wcn36xx_hal_msg_header_layout + csize wcn36xx_fw_msg_status_rsp_layout then - EIO
          else sint (member l [''status''] hb :: u32), w)) status_responses \<and>
     wcn36xx_smd_add_sta_self_rsp v w =
       (let L = wcn36xx_hal_add_sta_self_rsp_msg_layout; st = member L [''status''] hb :: u32
        in Some (if hal_rsp_len w < csize L then (- EINVAL, w) else if st \<noteq> 0 then (sint st, w)
           else (0, set_vif_priv v (\<lambda>vp. vp\<lparr> self_sta_index := member L [''self_sta_index''] hb,
                                               self_dpu_desc_index := member L [''dpu_index''] hb \<rparr>) w))) \<and>
     wcn36xx_smd_config_sta_rsp s w =
       (let L = wcn36xx_hal_config_sta_rsp_msg_layout
        in Some (if hal_rsp_len w < csize L then (- EINVAL, w)
           else if (member L [''params'', ''status''] hb :: u32) \<noteq> 0 then (- EIO, w)
           else (0, set_sta_priv s (\<lambda>sp. sp\<lparr> sta_index := member L [''params'', ''sta_index''] hb,
                                               dpu_desc_index := member L [''params'', ''dpu_index''] hb,
                                               ucast_dpu_sign := member L [''params'', ''uc_ucast_sig''] hb \<rparr>) w))) \<and>
     wcn36xx_smd_start_rsp w =
       (let L = wcn36xx_hal_mac_start_rsp_msg_layout; P = ''start_rsp_params''
        in Some (if hal_rsp_len w < csize L \<or> (member L [P, ''status''] hb :: u16) \<noteq> 0 then (- EIO, w)
           else (0, w\<lparr> crm_version := cread L [P, ''crm_version''] hb @ [0],
                       wlan_version := cread L [P, ''wlan_version''] hb @ [0],
                       fw_revision := member L [P, ''version'', ''revision''] hb,
                       fw_version := member L [P, ''version'', ''version''] hb,
                       fw_minor := member L [P, ''version'', ''minor''] hb,
                       fw_major := member L [P, ''version'', ''major''] hb \<rparr>))) \<and>
     wcn36xx_smd_trigger_ba_rsp w =
       (let L = wcn36xx_hal_trigger_ba_rsp_msg_layout
        in Some (if hal_rsp_len w < csize L then - EINVAL else sint (member L [''status''] hb :: u32), w)) \<and>
     map_option fst (wcn36xx_smd_update_scan_params_rsp w) =
       Some (sint ((member wcn36xx_hal_update_scan_params_resp_layout [''status''] hb :: u32) AND NOT 0x8000)) \<and>
     feature_caps_rsp w =
       (let L = wcn36xx_hal_feat_caps_msg_layout
        in Some (0, if hal_rsp_len w \<noteq> csize L then w else w\<lparr> fw_feat_caps := bytes_u32s (cread L [''feat_caps''] hb) \<rparr>)) \<and>
     wcn36xx_smd_config_bss_rsp v sta w =
       (let L = wcn36xx_hal_config_bss_rsp_msg_layout; M = (\<lambda>f. [''bss_rsp_params'', f])
        in Some (if hal_rsp_len w < csize L then (- EINVAL, w)
           else if (member L (M ''status'') hb :: u32) \<noteq> 0 then (- EIO, w)
           else (0, set_vif_priv v (\<lambda>vp. vp\<lparr> self_ucast_dpu_sign := member L (M ''ucast_dpu_signature'') hb \<rparr>)
               ((case sta of None \<Rightarrow> id
                 | Some s \<Rightarrow> set_sta_priv s (\<lambda>sp. sp\<lparr> bss_sta_index := member L (M ''bss_sta_index'') hb,
                                                          bss_dpu_desc_index := member L (M ''dpu_desc_index'') hb \<rparr>))
                 (set_vif_priv v (\<lambda>vp. vp\<lparr> bss_index := member L (M ''bss_index'') hb \<rparr>) w)))))"
  (is "?status \<and> ?self \<and> ?sta \<and> ?start \<and> ?ba \<and> ?scan \<and> ?caps \<and> ?bss")
proof (intro conjI)
  have "(member l [''status''] hb :: u32) = of_le32 (take 4 (drop 8 hb))" if "(c, l) \<in> set status_responses" for c l
    using that status_layouts assms(2) member_at(3) [of l "[''status'']" 8 hb] by (auto simp: list_all_iff)
  then show ?status
    by (auto simp: list_all_iff wcn36xx_smd_rsp_status_check_def rsp_status_check_def buf_read_def assms answer_sizes Let_def)
  show ?self
    by (simp add: wcn36xx_smd_add_sta_self_rsp_def buf_read_def assms answer_sizes answer_members Let_def)
  show ?sta
    by (simp add: wcn36xx_smd_config_sta_rsp_def buf_read_def assms answer_sizes answer_members Let_def)
  show ?start
    by (simp add: wcn36xx_smd_start_rsp_def buf_read_def assms answer_sizes answer_members version_members drop_take Let_def)
  show ?ba
    by (simp add: wcn36xx_smd_trigger_ba_rsp_def buf_read_def assms answer_sizes answer_members Let_def)
  show ?scan
    by (simp add: wcn36xx_smd_update_scan_params_rsp_def buf_read_def buf_write_def assms answer_members Let_def)
  show ?caps
    by (simp add: feature_caps_rsp_def buf_read_def assms caps_members Let_def)
  show ?bss
    by (simp add: wcn36xx_smd_config_bss_rsp_def buf_read_def assms answer_sizes answer_members Let_def split: option.split)
qed

theorem responses_are_structures_witness:
  "wcn36xx_smd_config_sta_rsp 0 (sample_wcn\<lparr> hal_buf := Some (fixed 4096 sta_rsp), hal_rsp_len := 21 \<rparr>) =
     Some (0, set_sta_priv 0 (\<lambda>sp. sp\<lparr> sta_index := 9, dpu_desc_index := 8, ucast_dpu_sign := 7 \<rparr>)
       (sample_wcn\<lparr> hal_buf := Some (fixed 4096 sta_rsp), hal_rsp_len := 21 \<rparr>))"
proof -
  let ?w = "sample_wcn\<lparr> hal_buf := Some (fixed 4096 sta_rsp), hal_rsp_len := 21 \<rparr>"
  have "length (fixed 4096 sta_rsp) = 4096" "take 4 (drop 8 (fixed 4096 sta_rsp)) = take 4 (drop 8 sta_rsp)"
    "fixed 4096 sta_rsp ! 12 = 9" "fixed 4096 sta_rsp ! 14 = 8" "fixed 4096 sta_rsp ! 17 = 7"
    using sta_rsp_facts by (simp_all add: fixed_def nth_append)
  with responses_are_structures [of ?w "fixed 4096 sta_rsp" 0 0 None] sta_rsp_facts(3)
  show ?thesis by (simp add: answer_members answer_sizes Let_def)
qed

section \<open>The indications\<close>

lemma indication_paths:
  "cpath wcn36xx_hal_tx_compl_ind_msg_layout [''status''] = Some (8, U32)"
  "cpath wcn36xx_hal_missed_beacon_ind_msg_layout [''bss_index''] = Some (8, U8)"
  "cpath wcn36xx_hal_delete_sta_context_ind_msg_layout [''addr2''] = Some (18, CArr 6 U8)"
  "csize wcn36xx_hal_tx_compl_ind_msg_layout = 12" "csize wcn36xx_hal_missed_beacon_ind_msg_layout = 9"
  "csize wcn36xx_hal_delete_sta_context_ind_msg_layout = 26"
  by code_simp+

theorem indications_are_structures:
  "wcn36xx_smd_tx_compl_ind buf w =
     (let L = wcn36xx_hal_tx_compl_ind_msg_layout
      in if length buf \<noteq> csize L then (- EIO, w) else (0, wcn36xx_dxe_tx_ack_ind w (member L [''status''] buf)))"
  "wcn36xx_smd_missed_beacon_ind buf w =
     (let L = wcn36xx_hal_missed_beacon_ind_msg_layout
      in if wcn36xx_is_fw_version w 1 2 2 24 then (0, connection_loss_all (vif_list w) w)
         else if length buf \<noteq> csize L then (- EIO, w)
         else connection_loss_bss (member L [''bss_index''] buf) (vif_list w) w)"
  "wcn36xx_smd_delete_sta_context_ind P buf w =
     (let L = wcn36xx_hal_delete_sta_context_ind_msg_layout
      in if length buf \<noteq> csize L then (- EIO, w) else report_low_ack P (cread L [''addr2''] buf) (vif_list w) w)"
  using member_at(3) [OF indication_paths(1), of buf] member_at(1) [OF indication_paths(2), of buf]
  by (simp_all add: wcn36xx_smd_tx_compl_ind_def wcn36xx_smd_missed_beacon_ind_def wcn36xx_smd_delete_sta_context_ind_def
      indication_paths cread_def Let_def)

section \<open>All structures\<close>

definition hal_layouts :: "cty list" where
  "hal_layouts = [
    wcnss_wlan_version_layout, wcn36xx_hal_keys_layout, wcn36xx_hal_set_sta_key_params_layout,
    wcn36xx_hal_msg_header_layout, wcn36xx_hal_cfg_layout, wcn36xx_hal_mac_start_parameters_layout,
    wcn36xx_hal_mac_start_req_msg_layout, wcn36xx_hal_mac_start_rsp_params_layout,
    wcn36xx_hal_mac_start_rsp_msg_layout, wcn36xx_hal_mac_stop_req_params_layout, wcn36xx_hal_mac_stop_req_msg_layout,
    wcn36xx_hal_mac_stop_rsp_msg_layout, wcn36xx_hal_update_cfg_req_msg_layout, wcn36xx_hal_update_cfg_rsp_msg_layout,
    wcn36xx_hal_mac_frame_ctl_layout, wcn36xx_hal_mac_seq_ctl_layout, wcn36xx_hal_mac_mgmt_hdr_layout,
    wcn36xx_hal_scan_entry_layout, wcn36xx_hal_init_scan_req_msg_layout, wcn36xx_hal_init_scan_con_req_msg_layout,
    wcn36xx_hal_init_scan_rsp_msg_layout, wcn36xx_hal_start_scan_req_msg_layout, wcn36xx_hal_start_rsp_msg_layout,
    wcn36xx_hal_end_scan_req_msg_layout, wcn36xx_hal_end_scan_rsp_msg_layout, wcn36xx_hal_finish_scan_req_msg_layout,
    wcn36xx_hal_finish_scan_rsp_msg_layout, wcn36xx_hal_supported_rates_layout, wcn36xx_hal_config_sta_params_layout,
    wcn36xx_hal_config_sta_req_msg_layout, wcn36xx_hal_config_sta_params_v1_layout,
    wcn36xx_hal_config_sta_req_msg_v1_layout, config_sta_rsp_params_layout, wcn36xx_hal_config_sta_rsp_msg_layout,
    wcn36xx_hal_delete_sta_req_msg_layout, wcn36xx_hal_delete_sta_rsp_msg_layout, wcn36xx_hal_rate_set_layout,
    wcn36xx_hal_aci_aifsn_layout, wcn36xx_hal_mac_cw_layout, wcn36xx_hal_edca_param_record_layout,
    wcn36xx_hal_mac_ssid_layout, wcn36xx_hal_config_bss_params_layout, wcn36xx_hal_config_bss_req_msg_layout,
    wcn36xx_hal_config_bss_params_v1_layout, wcn36xx_hal_config_bss_req_msg_v1_layout,
    wcn36xx_hal_config_bss_rsp_params_layout, wcn36xx_hal_config_bss_rsp_msg_layout,
    wcn36xx_hal_delete_bss_req_msg_layout, wcn36xx_hal_delete_bss_rsp_msg_layout, wcn36xx_hal_join_req_msg_layout,
    wcn36xx_hal_join_rsp_msg_layout, post_assoc_req_msg_layout, post_assoc_rsp_msg_layout,
    wcn36xx_hal_set_bss_key_req_msg_layout, wcn36xx_hal_set_bss_key_req_msg_tagged_layout,
    wcn36xx_hal_set_bss_key_rsp_msg_layout, wcn36xx_hal_set_sta_key_req_msg_layout,
    wcn36xx_hal_set_sta_key_rsp_msg_layout, wcn36xx_hal_remove_bss_key_req_msg_layout,
    wcn36xx_hal_remove_bss_key_rsp_msg_layout, wcn36xx_hal_remove_sta_key_req_msg_layout,
    wcn36xx_hal_remove_sta_key_rsp_msg_layout, wcn36xx_hal_switch_channel_req_msg_layout,
    wcn36xx_hal_switch_channel_rsp_msg_layout, update_edca_params_req_msg_layout, update_edca_params_rsp_msg_layout,
    dpu_stats_params_layout, wcn36xx_hal_stats_req_msg_layout, ani_summary_stats_info_layout,
    ani_global_class_a_stats_info_layout, ani_global_security_stats_layout, ani_global_class_b_stats_info_layout,
    ani_global_class_c_stats_info_layout, ani_per_sta_stats_info_layout, wcn36xx_hal_stats_rsp_msg_layout,
    wcn36xx_hal_set_link_state_req_msg_layout, set_link_state_rsp_msg_layout, wcn36xx_hal_ts_info_tfc_layout,
    wcn36xx_hal_ts_info_sch_layout, wcn36xx_hal_ts_info_layout, wcn36xx_hal_tspec_ie_layout, add_ts_req_msg_layout,
    add_rs_rsp_msg_layout, del_ts_req_msg_layout, del_ts_rsp_msg_layout, wcn36xx_hal_add_ba_session_req_msg_layout,
    wcn36xx_hal_add_ba_session_rsp_msg_layout, wcn36xx_hal_add_ba_req_msg_layout, wcn36xx_hal_add_ba_rsp_msg_layout,
    add_ba_info_layout, wcn36xx_hal_trigger_ba_rsp_candidate_layout, wcn36xx_hal_trigger_ba_req_candidate_layout,
    wcn36xx_hal_trigger_ba_req_msg_layout, wcn36xx_hal_trigger_ba_rsp_msg_layout, wcn36xx_hal_del_ba_req_msg_layout,
    wcn36xx_hal_del_ba_rsp_msg_layout, tsm_stats_req_msg_layout, tsm_stats_rsp_msg_layout, set_key_done_msg_layout,
    wcn36xx_hal_nv_img_download_req_msg_layout, wcn36xx_hal_nv_img_download_rsp_msg_layout,
    wcn36xx_hal_nv_store_ind_layout, mic_failure_ind_msg_layout, update_vht_op_mode_req_msg_layout,
    update_vht_op_mode_params_rsp_msg_layout, update_beacon_req_msg_layout, update_beacon_rsp_msg_layout,
    wcn36xx_hal_send_beacon_req_msg_layout, send_beacon_rsp_msg_layout, enable_radar_req_msg_layout,
    enable_radar_rsp_msg_layout, radar_detect_intr_ind_msg_layout, radar_detect_ind_msg_layout,
    wcn36xx_hal_get_tpc_report_req_msg_layout, wcn36xx_hal_get_tpc_report_rsp_msg_layout,
    wcn36xx_hal_send_probe_resp_req_msg_layout, send_probe_resp_rsp_msg_layout, send_unknown_frame_rx_ind_msg_layout,
    wcn36xx_hal_delete_sta_context_ind_msg_layout, indicate_del_sta_layout, bt_amp_event_msg_layout,
    bt_amp_event_rsp_layout, tl_hal_flush_ac_req_msg_layout, tl_hal_flush_ac_rsp_msg_layout,
    wcn36xx_hal_enter_imps_req_msg_layout, wcn36xx_hal_exit_imps_req_layout, wcn36xx_hal_enter_bmps_req_msg_layout,
    wcn36xx_hal_exit_bmps_req_msg_layout, wcn36xx_hal_missed_beacon_ind_msg_layout, beacon_filter_ie_layout,
    wcn36xx_hal_add_bcn_filter_req_msg_layout, wcn36xx_hal_rem_bcn_filter_req_layout,
    wcn36xx_hal_ns_offload_params_layout, wcn36xx_hal_host_offload_req_layout, wcn36xx_hal_host_offload_req_msg_layout,
    wcn36xx_hal_keep_alive_req_msg_layout, wcn36xx_hal_rssi_threshold_req_msg_layout,
    wcn36xx_hal_enter_uapsd_req_msg_layout, wcn36xx_hal_exit_uapsd_req_msg_layout,
    wcn36xx_hal_wowl_add_bcast_ptrn_req_msg_layout, wcn36xx_hal_wow_del_bcast_ptrn_req_msg_layout,
    wcn36xx_hal_wowl_enter_req_msg_layout, wcn36xx_hal_wowl_exit_req_msg_layout, wcn36xx_hal_get_rssi_req_msg_layout,
    wcn36xx_hal_get_roam_rssi_req_msg_layout, wcn36xx_hal_set_uapsd_ac_params_req_msg_layout,
    wcn36xx_hal_configure_rxp_filter_req_msg_layout, wcn36xx_hal_enter_imps_rsp_msg_layout,
    wcn36xx_hal_exit_imps_rsp_msg_layout, wcn36xx_hal_enter_bmps_rsp_msg_layout, wcn36xx_hal_exit_bmps_rsp_msg_layout,
    wcn36xx_hal_enter_uapsd_rsp_msg_layout, wcn36xx_hal_exit_uapsd_rsp_msg_layout,
    wcn36xx_hal_rssi_notification_ind_msg_layout, wcn36xx_hal_get_rssio_rsp_msg_layout,
    wcn36xx_hal_get_roam_rssi_rsp_msg_layout, wcn36xx_hal_wowl_enter_rsp_msg_layout,
    wcn36xx_hal_wowl_exit_rsp_msg_layout, wcn36xx_hal_add_bcn_filter_rsp_msg_layout,
    wcn36xx_hal_rem_bcn_filter_rsp_msg_layout, wcn36xx_hal_add_wowl_bcast_ptrn_rsp_msg_layout,
    wcn36xx_hal_del_wowl_bcast_ptrn_rsp_msg_layout, wcn36xx_hal_host_offload_rsp_msg_layout,
    wcn36xx_hal_keep_alive_rsp_msg_layout, wcn36xx_hal_set_rssi_thresh_rsp_msg_layout,
    wcn36xx_hal_set_uapsd_ac_params_rsp_msg_layout, wcn36xx_hal_configure_rxp_filter_rsp_msg_layout,
    set_max_tx_pwr_req_layout, set_max_tx_pwr_rsp_msg_layout, set_tx_pwr_req_msg_layout, set_tx_pwr_rsp_msg_layout,
    get_tx_pwr_req_msg_layout, get_tx_pwr_rsp_msg_layout, set_p2p_gonoa_req_msg_layout, set_p2p_gonoa_rsp_msg_layout,
    wcn36xx_hal_add_sta_self_req_layout, wcn36xx_hal_add_sta_self_rsp_msg_layout,
    wcn36xx_hal_del_sta_self_req_msg_layout, wcn36xx_hal_del_sta_self_rsp_msg_layout, aggr_add_ts_req_layout,
    aggr_add_ts_rsp_msg_layout, wcn36xx_hal_configure_apps_cpu_wakeup_state_req_msg_layout,
    wcn36xx_hal_configure_apps_cpu_wakeup_state_rsp_msg_layout, wcn36xx_hal_dump_cmd_req_msg_layout,
    wcn36xx_hal_dump_cmd_rsp_msg_layout, coex_ind_msg_layout, wcn36xx_hal_tx_compl_ind_msg_layout,
    wcn36xx_hal_wlan_host_suspend_ind_msg_layout, wcn36xx_hal_wlan_exclude_unencrpted_ind_msg_layout,
    noa_attr_ind_msg_layout, noa_start_ind_msg_layout, wcn36xx_hal_wlan_host_resume_req_msg_layout,
    wcn36xx_hal_host_resume_rsp_msg_layout, wcn36xx_hal_del_ba_ind_msg_layout, network_type_layout, scan_timer_layout,
    scan_timers_type_layout, set_pref_netw_list_req_layout, network_type_new_layout, set_pref_netw_list_req_new_layout,
    set_pref_netw_list_resp_layout, pref_netw_found_ind_layout, set_rssi_filter_req_layout,
    set_rssi_filter_resp_layout, wcn36xx_hal_update_scan_params_req_layout, update_scan_params_req_ex_layout,
    wcn36xx_hal_update_scan_params_resp_layout, wcn36xx_hal_set_tx_per_tracking_req_msg_layout,
    wcn36xx_hal_set_tx_per_tracking_rsp_msg_layout, tx_per_hit_ind_msg_layout,
    wcn36xx_hal_rcv_pkt_filter_params_layout, wcn36xx_hal_sessionized_rcv_pkt_filter_cfg_type_layout,
    wcn36xx_hal_set_rcv_pkt_filter_req_msg_layout, wcn36xx_hal_rcv_flt_mc_addr_list_type_layout,
    wcn36xx_hal_set_pkt_filter_rsp_msg_layout, wcn36xx_hal_rcv_flt_pkt_match_cnt_req_msg_layout,
    wcn36xx_hal_rcv_flt_pkt_match_cnt_layout, wcn36xx_hal_rcv_flt_pkt_match_cnt_rsp_msg_layout,
    wcn36xx_hal_rcv_flt_pkt_clear_param_layout, wcn36xx_hal_rcv_flt_pkt_clear_req_msg_layout,
    wcn36xx_hal_rcv_flt_pkt_clear_rsp_msg_layout, wcn36xx_hal_rcv_flt_pkt_set_mc_list_req_msg_layout,
    wcn36xx_hal_rcv_flt_pkt_set_mc_list_rsp_msg_layout, wcn36xx_hal_set_power_params_req_msg_layout,
    wcn36xx_hal_set_power_params_resp_layout, wcn36xx_hal_feat_caps_msg_layout, wcn36xx_hal_wake_reason_ind_layout,
    wcn36xx_hal_gtk_offload_req_msg_layout, wcn36xx_hal_gtk_offload_rsp_msg_layout,
    wcn36xx_hal_gtk_offload_get_info_req_msg_layout, wcn36xx_hal_gtk_offload_get_info_rsp_msg_layout, dhcp_info_layout,
    dhcp_ind_status_layout, set_thermal_mitigation_req_msg_layout, set_thermal_mitigation_resp_layout,
    stats_class_b_ind_layout]"

lemma hal_layouts_wf: "list_all cwf hal_layouts"
  by code_simp

text \<open>For every structure, and whatever follows it in memory: decoding gives back the value encoded, the encoding has
  the size of the structure, and the bytes at the offset of a member are the encoding of that member.\<close>

theorem hal_structures_roundtrip:
  assumes "l \<in> set hal_layouts" and "cok l v"
  shows "cdec l (cenc l v @ r) = v" and "length (cenc l v) = csize l"
    and "cpath l gs = Some (n, u) \<Longrightarrow> \<exists>x. vpath l v gs = Some x \<and> take (csize u) (drop n (cenc l v @ r)) = cenc u x"
proof -
  have wf: "cwf l" using assms(1) hal_layouts_wf by (simp add: list_all_iff)
  show "cdec l (cenc l v @ r) = v" using cdec_cenc(1) [OF wf assms(2)] .
  show "length (cenc l v) = csize l" using cenc_length(1) [OF wf assms(2)] .
  show "\<exists>x. vpath l v gs = Some x \<and> take (csize u) (drop n (cenc l v @ r)) = cenc u x" if "cpath l gs = Some (n, u)"
    using cread_cenc [OF wf assms(2) that] by blast
qed

end
