(* ===== verification/Spec2Isabelle.thy ===== *)
theory Spec2Isabelle
  imports Device Smd_Calls Smd_Ind Mac_Safe Mac_Probe Debug Msm Hal_Answers
begin

text \<open>
  A verification library for the wcn36xx driver, a SoftMAC driver for the Qualcomm WCN3660 and WCN3680
  wireless chips.

  \<^bold>\<open>The program.\<close> mac80211 calls the operations of \<^verbatim>\<open>main.c\<close>. Frames go through \<^verbatim>\<open>txrx.c\<close>, which writes and reads
  the buffer descriptor in front of a frame, and \<^verbatim>\<open>dxe.c\<close>, which moves descriptor and frame through four
  DMA rings. Everything else is told to the firmware in messages: \<^verbatim>\<open>smd.c\<close> builds a request in the
  message buffer \<^verbatim>\<open>hal_buf\<close>, under a mutex, in the layouts of \<^verbatim>\<open>hal.h\<close>, sends it over the SMD channel and waits for
  the answer; indications of the firmware are queued and handled by a work item. \<^verbatim>\<open>pmc.c\<close> keeps the
  power state, \<^verbatim>\<open>debug.c\<close> has two files of debugfs, and \<^verbatim>\<open>wcn36xx_msm/main.c\<close> is the module of msm
  kernels that owns the SMD channel and registers the platform device the driver is probed on.

  \<^bold>\<open>The model.\<close> Functions of the driver are HOL functions that pass the state \<open>wcn36xx\<close> explicitly. A result
  \<open>None\<close> is what C leaves undefined or what does not return: an access outside a buffer or through a null
  or freed pointer, a second release, waiting for a mutex the caller holds, a loop that never ends.
  Return codes are \<open>int\<close>, negative error numbers included, so that every early return is a branch.
  C integers are words of their width. What the driver calls of the kernel and of mac80211 is recorded in
  the trace \<open>klog\<close>, newest first; what these answer is a record \<open>platform\<close> of functions of the trace, so
  that a property quantifies over all behaviours of kernel, transport and firmware. Memory the driver
  allocates has a number that is never used again; a freed number is unmapped.

  \<^bold>\<open>Theories.\<close>
  \<^item> \<open>Prelude\<close>: integers, error numbers, little-endian encodings, bounded buffers (the locale
    \<open>byte_store\<close>), ring arithmetic, the collections of simplification rules. \<open>Hal_Types\<close>,
    \<open>Driver_State\<close>: the enumerations of \<^verbatim>\<open>hal.h\<close>, the structures of \<^verbatim>\<open>wcn36xx.h\<close>, \<open>platform\<close> and \<open>klog\<close>.
    \<open>Samples\<close>: a small driver state for the witnesses.
  \<^item> \<open>Dxe_Regs\<close>, \<open>Dxe_Ring\<close>, \<open>Dxe_Tx\<close>, \<open>Dxe_Queue\<close>, \<open>Dxe_Rx\<close>, \<open>Dxe_Init\<close>, \<open>Dxe_Start\<close>: \<^verbatim>\<open>dxe.h\<close> and \<^verbatim>\<open>dxe.c\<close>.
    A ring is a map from block addresses to control blocks, linked by \<^verbatim>\<open>next\<close>, and a list of descriptors.
    \<open>Dxe_Ring\<close> shows that the allocation builds closed rings and what a failing one does; \<open>Dxe_Tx\<close> that the
    invariant \<open>tx_inv\<close> (frames lie between tail and head, every second block is a buffer descriptor) is
    kept by submission and completion; \<open>Dxe_Queue\<close> that a channel is a FIFO (the locale \<open>fifo_port\<close>, a
    refinement); \<open>Dxe_Rx\<close> the receive handler and the check of a received descriptor; \<open>Dxe_Start\<close> that the whole
    initialisation establishes the invariants and what stopping releases.
  \<^item> \<open>Txrx_Bd\<close>, \<open>Txrx_Tx\<close>: the bit fields of the buffer descriptors with their round trip, and the transmit
    path up to the bytes the firmware reads.
  \<^item> \<open>Hal_Msg\<close>, \<open>Hal_Structs\<close>: message types, headers, and the bytes of the structures of \<^verbatim>\<open>hal.h\<close>.
    \<open>Smd_Core\<close>: sending a request and waiting, the response handler, the contract of a command
    (the locale \<open>hal_ops\<close>). \<open>Smd_Cmds\<close>, \<open>Smd_Start\<close>, \<open>Smd_Config\<close>, \<open>Smd_Bss\<close>, \<open>Smd_Beacon\<close>: the commands.
    \<open>Smd_Calls\<close>: all commands as one datatype, and the interpretation of \<open>hal_ops\<close> on it. \<open>Smd_Ind\<close>: the
    indications, their queue and work item (the step relation \<open>ind_step\<close>).
  \<^item> \<open>C_Layout\<close>, \<open>Hal_Layout\<close>, \<open>Hal_Enum\<close>, \<open>Hal_Wire\<close>, \<open>Hal_Answers\<close>: \<^verbatim>\<open>hal.h\<close> as it is written, and the messages
    against it. \<open>C_Layout\<close> is how a C compiler of the target lays out a structure (sizes, alignment, packing, offsets, an
    encoder and a decoder with their round trip). \<open>Hal_Layout\<close> has the layout of every structure, \<open>Hal_Enum\<close> every
    enumeration with C's numbering, and the numbers of the other theories are shown to be those. \<open>Hal_Wire\<close> shows that the
    requests, which the other theories write as bytes, are the structures with the members assigned by name;
    \<open>Hal_Answers\<close> that what the handlers of responses and indications read are the members the code names.
  \<^item> \<open>Pmc\<close>, \<open>Mac_Tables\<close>, \<open>Mac\<close>, \<open>Mac_Safe\<close>, \<open>Mac_Start\<close>, \<open>Life_Cycle\<close>,
    \<open>Mac_Probe\<close>: \<^verbatim>\<open>pmc.c\<close> and \<^verbatim>\<open>main.c\<close>. \<open>Mac_Safe\<close> has the step relation
    \<open>mac_step\<close> of the operations and shows that none faults in any order, and which messages the operations send;
    \<open>Mac_Start\<close> start and stop, with the invariants of all components established and released;
    \<open>Life_Cycle\<close> any number of starts and stops (the step relation \<open>power_step\<close> and the locale \<open>power_cycle\<close>);
    \<open>Mac_Probe\<close> probe and remove, and how the two modules fit together.
  \<^item> \<open>Dxe_Flow\<close>, \<open>Device\<close>: the composition of the data path with the rest. \<open>Dxe_Flow\<close> shows what the operations of
    the rings leave alone, and models what the DMA engine does to a receive ring (\<open>dma_fill\<close>; \<open>dma_done\<close> of \<open>Dxe_Tx\<close> is
    its counterpart for transmission). \<open>Device\<close> has the events of a running device (\<open>device_event\<close>: an
    operation or indication, a frame handed over, the two interrupts, the engine's work), an abstract device of four
    queues (\<open>frame_queues\<close>, \<open>effect\<close>), the invariant \<open>device_inv\<close> that ties the rings, the buffers, the pools
    and the firmware side to them, the refinement for every event, and a second interpretation of
    \<open>power_cycle\<close>: any number of lives of the device with any events in between.
  \<^item> \<open>Debug\<close>: the files of debugfs. \<open>Msm\<close>: the platform module, over a record \<open>smd_api\<close> of the kernel functions
    it calls; its receive work is shown to hand the driver exactly the packets of the channel.

  \<^bold>\<open>Loops and bounds.\<close> Loops over lists and counters are structural recursion. The completion handler and the
  receive handler walk a ring with a fuel of one lap, and running out of it is a fault; \<open>reap_tx_dxes_spec\<close> and
  \<open>rx_handle_packets_spec\<close> show that it is enough, since each step finishes a block or ends. The download of the
  NV image and the receive work of the platform module are partial functions of the option type: the
  download ends for images of 4 to 67588 bytes and never ends for longer ones, the receive work ends with the
  channel empty. The message buffer has 4096 bytes, which every message respects.

  \<^bold>\<open>Not modelled.\<close> Locks other than \<^verbatim>\<open>hal_mutex\<close>, and true concurrency: interrupts, the work items and mac80211's
  calls are interleaved as whole steps, and a response is delivered while its request waits. Memory
  ordering (\<^verbatim>\<open>wmb\<close>) and the messages of the kernel log. The removal of the debugfs entries and the
  registration of the platform drivers, which are single calls of the kernel. Of \<^verbatim>\<open>hal.h\<close>
  the structures under \<^verbatim>\<open>FEATURE_OEM_DATA_SUPPORT\<close>, which nothing defines; the structures no function of the driver uses
  have a layout and no more. The branches of bit-fields under \<^verbatim>\<open>ANI_LITTLE_BIT_ENDIAN\<close> are left out, as no file defines it. The sizes of the driver's private structures, which mac80211 is told.

  \<^bold>\<open>Hypotheses on code outside the repository.\<close> \<open>smd_wf\<close>: a packet of the firmware has at least a type
  number and fits the message buffer. \<open>mac_wf\<close> adds that mac80211's templates lie inside their buffers.
  \<open>event_ok\<close>: mac80211 keeps its promises, transmits for interfaces and stations the driver has, and the firmware
  delimits a received frame inside the buffer (\<open>mem_fits\<close>); \<open>rx_skb_spec\<close> shows what happens otherwise.
  \<open>fw_accepts\<close>: every request is answered with status 0. \<open>memory_ok\<close>: no allocation fails. \<open>kstr_reads\<close>
  and \<open>hhx_reads\<close>: number parsing as documented. \<open>channel_law\<close>: the packets of an SMD channel can be
  read in order. Each property that uses one has a witness with a concrete instance.
\<close>

end
